(* ===== verification/Prelude.thy ===== *)
theory Prelude
  imports Main "HOL-Library.Word" "HOL-Library.Char_ord" "HOL-Library.List_Lexorder"
begin

text \<open>
  The vocabulary every component shares.

  Strings are the UTF-8 bytes of a Rust string, one \<open>char\<close> per byte, so \<open>length\<close>
  is Rust's \<open>len()\<close> and the order is Rust's byte order. Machine integers are words of
  their width. A fallible step that acts on a state is a function of type \<open>eff\<close>: the
  state is always returned, also on the error path, because what was sent or stored before
  an error stays sent and stored. Sequencing (\<open>bindE\<close>) is Rust's question mark: the
  first error ends the computation.

  The collection \<open>eff_simps\<close> unfolds the combinators, \<open>quiet_rules\<close> holds the
  programs that never call the executor, \<open>validators\<close> what each validation accepts.
\<close>

named_theorems eff_simps "unfolding of the effect combinators"
named_theorems quiet_rules "programs that never call the executor"
named_theorems validators "characterisations of the validation functions"

type_synonym u8 = "8 word"
type_synonym u32 = "32 word"
type_synonym u64 = "64 word"
type_synonym i64 = "64 word"
type_synonym f64 = "64 word"   \<comment> \<open>the IEEE 754 bit pattern\<close>
type_synonym usize = "64 word"
type_synonym uuid = "128 word"
type_synonym datetime = int

section \<open>Effects\<close>

type_synonym ('w, 'e, 'a) eff = "'w \<Rightarrow> 'w \<times> ('e + 'a)"

definition returnE :: "'a \<Rightarrow> ('w, 'e, 'a) eff" where
  "returnE x = (\<lambda>w. (w, Inr x))"

definition failE :: "'e \<Rightarrow> ('w, 'e, 'a) eff" where
  "failE e = (\<lambda>w. (w, Inl e))"

definition liftE :: "'e + 'a \<Rightarrow> ('w, 'e, 'a) eff" where
  "liftE r = (\<lambda>w. (w, r))"

definition bindE :: "('w, 'e, 'a) eff \<Rightarrow> ('a \<Rightarrow> ('w, 'e, 'b) eff) \<Rightarrow> ('w, 'e, 'b) eff" where
  "bindE m f = (\<lambda>w. case m w of (w', Inl e) \<Rightarrow> (w', Inl e) | (w', Inr x) \<Rightarrow> f x w')"

text \<open>Rust's \<open>map_err\<close>, and a \<open>match\<close> on the result of a step instead of a question mark.\<close>

definition map_errE :: "('e \<Rightarrow> 'f) \<Rightarrow> ('w, 'e, 'a) eff \<Rightarrow> ('w, 'f, 'a) eff" where
  "map_errE g m = (\<lambda>w. case m w of (w', Inl e) \<Rightarrow> (w', Inl (g e)) | (w', Inr x) \<Rightarrow> (w', Inr x))"

definition matchE :: "('w, 'e, 'a) eff \<Rightarrow> ('e + 'a \<Rightarrow> ('w, 'f, 'b) eff) \<Rightarrow> ('w, 'f, 'b) eff" where
  "matchE m f = (\<lambda>w. case m w of (w', r) \<Rightarrow> f r w')"

definition mapE :: "('a \<Rightarrow> 'b) \<Rightarrow> ('w, 'e, 'a) eff \<Rightarrow> ('w, 'e, 'b) eff" where
  "mapE g m = bindE m (\<lambda>x. returnE (g x))"

declare returnE_def [eff_simps] failE_def [eff_simps] liftE_def [eff_simps]
  bindE_def [eff_simps] map_errE_def [eff_simps] matchE_def [eff_simps] mapE_def [eff_simps]

lemma bindE_Inr: "bindE m f w = (w'', Inr y) \<longleftrightarrow> (\<exists>w' x. m w = (w', Inr x) \<and> f x w' = (w'', Inr y))"
  by (auto simp: bindE_def split: prod.splits sum.splits)

lemma bindE_Inl: "bindE m f w = (w'', Inl e) \<longleftrightarrow>
    m w = (w'', Inl e) \<or> (\<exists>w' x. m w = (w', Inr x) \<and> f x w' = (w'', Inl e))"
  by (auto simp: bindE_def split: prod.splits sum.splits)

lemma bindE_lift_Inr [simp]: "bindE (liftE (Inr x)) f = f x"
  and bindE_lift_Inl [simp]: "bindE (liftE (Inl e)) f = failE e"
  and bindE_return [simp]: "bindE (returnE x) f = f x"
  and bindE_fail [simp]: "bindE (failE e) f = failE e"
  by (simp_all add: eff_simps)

lemma bindE_assoc: "bindE (bindE m f) g = bindE m (\<lambda>x. bindE (f x) g)"
  by (auto simp: bindE_def split: prod.splits sum.splits)

text \<open>Pure fallible computations use the same discipline on the sum type.\<close>

definition bindR :: "'e + 'a \<Rightarrow> ('a \<Rightarrow> 'e + 'b) \<Rightarrow> 'e + 'b" where
  "bindR r f = (case r of Inl e \<Rightarrow> Inl e | Inr x \<Rightarrow> f x)"

lemma bindR_simps [simp]: "bindR (Inl e) f = Inl e" "bindR (Inr x) f = f x"
  by (simp_all add: bindR_def)

lemma bindR_Inr: "bindR r f = Inr y \<longleftrightarrow> (\<exists>x. r = Inr x \<and> f x = Inr y)"
  by (cases r) simp_all

abbreviation is_ok :: "'e + 'a \<Rightarrow> bool" where
  "is_ok r \<equiv> \<not> isl r"

section \<open>Bytes and strings\<close>

definition byte :: "char \<Rightarrow> nat" where
  "byte c = of_char c"

lemma byte_less: "byte c < 256"
  by (simp add: byte_def)

lemma byte_inject: "byte c = byte d \<longleftrightarrow> c = d"
  by (simp add: byte_def)

text \<open>\<open>u8::is_ascii_graphic\<close>, the bytes 0x21 to 0x7e.\<close>

definition is_ascii_graphic :: "char \<Rightarrow> bool" where
  "is_ascii_graphic c \<longleftrightarrow> 33 \<le> byte c \<and> byte c \<le> 126"

definition starts_with :: "string \<Rightarrow> string \<Rightarrow> bool" where
  "starts_with p s \<longleftrightarrow> take (length p) s = p"

definition ends_with :: "string \<Rightarrow> string \<Rightarrow> bool" where
  "ends_with p s \<longleftrightarrow> length p \<le> length s \<and> drop (length s - length p) s = p"

lemma starts_with_append [simp]: "starts_with p (p @ s)"
  by (simp add: starts_with_def)

lemma starts_withE: "starts_with p s \<Longrightarrow> \<exists>t. s = p @ t"
  by (metis append_take_drop_id starts_with_def)

text \<open>\<open>[String]::join(sep)\<close>.\<close>

fun join_with :: "string \<Rightarrow> string list \<Rightarrow> string" where
  "join_with sep [] = []"
| "join_with sep [x] = x"
| "join_with sep (x # y # ys) = x @ sep @ join_with sep (y # ys)"

lemma join_with_Cons: "join_with sep (x # xs) = x @ (if xs = [] then [] else sep @ join_with sep xs)"
  by (cases xs) simp_all

text \<open>
  The white space of \<open>str::trim\<close>: the Unicode property, as UTF-8 byte sequences.
  \<open>skip_ws\<close> removes one leading white-space character.
\<close>

definition ascii_ws :: "nat \<Rightarrow> bool" where
  "ascii_ws b \<longleftrightarrow> (9 \<le> b \<and> b \<le> 13) \<or> b = 32"

definition wide_ws :: "nat list \<Rightarrow> bool" where
  "wide_ws bs \<longleftrightarrow>
     bs = [0xC2, 0x85] \<or> bs = [0xC2, 0xA0] \<or> bs = [0xE1, 0x9A, 0x80]
     \<or> (length bs = 3 \<and> take 2 bs = [0xE2, 0x80] \<and>
          ((0x80 \<le> bs ! 2 \<and> bs ! 2 \<le> 0x8A) \<or> bs ! 2 \<in> {0xA8, 0xA9, 0xAF}))
     \<or> bs = [0xE2, 0x81, 0x9F] \<or> bs = [0xE3, 0x80, 0x80]"

definition skip_ws :: "string \<Rightarrow> string option" where
  "skip_ws s = (case s of [] \<Rightarrow> None | c # cs \<Rightarrow>
     if ascii_ws (byte c) then Some cs
     else if wide_ws (map byte (take 2 s)) then Some (drop 2 s)
     else if wide_ws (map byte (take 3 s)) then Some (drop 3 s)
     else None)"

definition skip_ws_end :: "string \<Rightarrow> string option" where
  "skip_ws_end s = (if s = [] then None
     else if ascii_ws (byte (last s)) then Some (butlast s)
     else if 2 \<le> length s \<and> wide_ws (map byte (drop (length s - 2) s))
       then Some (take (length s - 2) s)
     else if 3 \<le> length s \<and> wide_ws (map byte (drop (length s - 3) s))
       then Some (take (length s - 3) s)
     else None)"

lemma skip_ws_shorter: "skip_ws s = Some t \<Longrightarrow> length t < length s"
  by (auto simp: skip_ws_def split: list.splits if_splits)

lemma skip_ws_end_shorter: "skip_ws_end s = Some t \<Longrightarrow> length t < length s"
  by (auto simp: skip_ws_end_def split: if_splits)

function trim_start :: "string \<Rightarrow> string" where
  "trim_start s = (case skip_ws s of None \<Rightarrow> s | Some t \<Rightarrow> trim_start t)"
  by pat_completeness auto
termination
  by (relation "measure length") (auto dest: skip_ws_shorter)

function trim_end :: "string \<Rightarrow> string" where
  "trim_end s = (case skip_ws_end s of None \<Rightarrow> s | Some t \<Rightarrow> trim_end t)"
  by pat_completeness auto
termination
  by (relation "measure length") (auto dest: skip_ws_end_shorter)

declare trim_start.simps [simp del] trim_end.simps [simp del]

definition trim :: "string \<Rightarrow> string" where
  "trim s = trim_end (trim_start s)"

lemma trim_Nil [simp]: "trim [] = []"
  by (simp add: trim_def trim_start.simps trim_end.simps skip_ws_def skip_ws_end_def)

lemma trim_start_stops: "skip_ws (trim_start s) = None"
proof (induction s rule: trim_start.induct)
  case (1 s)
  then show ?case by (subst trim_start.simps) (simp split: option.split)
qed

lemma trim_end_stops: "skip_ws_end (trim_end s) = None"
proof (induction s rule: trim_end.induct)
  case (1 s)
  then show ?case by (subst trim_end.simps) (simp split: option.split)
qed

lemma length_trim_end: "length (trim_end s) \<le> length s"
proof (induction s rule: trim_end.induct)
  case (1 s)
  show ?case
  proof (cases "skip_ws_end s")
    case None
    then show ?thesis by (subst trim_end.simps) simp
  next
    case (Some t)
    with 1 skip_ws_end_shorter [OF Some] show ?thesis
      by (subst trim_end.simps) simp
  qed
qed

section \<open>Decimal text (\<open>Display\<close> of the integer types)\<close>

definition digit_char :: "nat \<Rightarrow> char" where
  "digit_char d = char_of (48 + d)"

fun show_nat :: "nat \<Rightarrow> string" where
  "show_nat n = (if n < 10 then [digit_char n] else show_nat (n div 10) @ [digit_char (n mod 10)])"

declare show_nat.simps [simp del]

definition show_int :: "int \<Rightarrow> string" where
  "show_int i = (if i < 0 then CHR ''-'' # show_nat (nat (- i)) else show_nat (nat i))"

definition show_u64 :: "u64 \<Rightarrow> string" where
  "show_u64 w = show_nat (unat w)"

definition show_u32 :: "u32 \<Rightarrow> string" where
  "show_u32 w = show_nat (unat w)"

definition show_i64 :: "i64 \<Rightarrow> string" where
  "show_i64 w = show_int (sint w)"

definition is_digit_char :: "char \<Rightarrow> bool" where
  "is_digit_char c \<longleftrightarrow> 48 \<le> byte c \<and> byte c \<le> 57"

lemma byte_digit_char: "d < 10 \<Longrightarrow> byte (digit_char d) = 48 + d"
  by (simp add: byte_def digit_char_def)

lemma digit_char_inject: "a < 10 \<Longrightarrow> b < 10 \<Longrightarrow> digit_char a = digit_char b \<longleftrightarrow> a = b"
  by (metis add_left_cancel byte_digit_char)

lemma show_nat_nonempty [simp]: "show_nat n \<noteq> []"
  by (subst show_nat.simps) simp

lemma show_nat_digits: "c \<in> set (show_nat n) \<Longrightarrow> is_digit_char c"
proof (induction n rule: show_nat.induct)
  case (1 n)
  then show ?case
    by (subst (asm) (2) show_nat.simps)
      (auto simp: is_digit_char_def byte_digit_char split: if_splits)
qed

lemma show_nat_inject: "show_nat a = show_nat b \<longleftrightarrow> a = b"
proof
  show "show_nat a = show_nat b \<Longrightarrow> a = b"
  proof (induction a arbitrary: b rule: show_nat.induct)
    case (1 a)
    note eq = "1.prems" [unfolded show_nat.simps [of a] show_nat.simps [of b]]
    show ?case
    proof (cases "a < 10 \<or> b < 10")
      case True
      with eq show ?thesis
        by (auto simp: digit_char_inject show_nat_nonempty [THEN not_sym] split: if_splits)
    next
      case False
      with eq have "show_nat (a div 10) = show_nat (b div 10)"
        and "digit_char (a mod 10) = digit_char (b mod 10)" by simp_all
      with False "1.IH" have "a div 10 = b div 10" and "a mod 10 = b mod 10"
        by (auto simp: digit_char_inject)
      then show ?thesis by (metis div_mult_mod_eq)
    qed
  qed
qed simp

lemma show_u64_inject: "show_u64 a = show_u64 b \<longleftrightarrow> a = b"
  by (simp add: show_u64_def show_nat_inject word_unat_eq_iff)

section \<open>Lists and maps\<close>

lemma those_map_Some [simp]: "(\<And>x. x \<in> set xs \<Longrightarrow> f x = Some (g x)) \<Longrightarrow> those (map f xs) = Some (map g xs)"
  by (induction xs) simp_all

lemma those_Some: "those xs = Some ys \<longleftrightarrow> xs = map Some ys"
proof (induction xs arbitrary: ys)
  case Nil
  then show ?case by auto
next
  case (Cons x xs)
  then show ?case by (cases x; cases ys) auto
qed

lemma count_list_append [simp]: "count_list (xs @ ys) a = count_list xs a + count_list ys a"
  by (induction xs) simp_all

end
