(* ===== verification/Json.thy ===== *)
theory Json
  imports Prelude "HOL-Library.Monad_Syntax"
begin

text \<open>
  JSON values and the serde conventions the wire types follow.

  A \<open>json\<close> is the tree of a document. An object is the association list of its members
  in document order; \<open>serde_json::Value\<close> keeps them in a \<open>BTreeMap\<close>, that is
  sorted by key with the last duplicate winning, which is \<open>normalize\<close>. The text parser
  and printer are the library's and stay parameters; what \<open>#[derive(Deserialize)]\<close>
  accepts for a struct is \<open>struct_fields\<close> with the field readers below: an object with
  no duplicate of a known key (and no unknown key under \<open>deny_unknown_fields\<close>), or an
  array giving the fields by position.

  The locale \<open>codec\<close> is the interface between the wire types and the operations: a type
  whose encoding is read back unchanged. Its lemmas lift the law to lists and options.
\<close>

datatype json_number = PosInt u64 | NegInt i64 | Float u64

datatype json =
    JNull
  | JBool bool
  | JNumber json_number
  | JString string
  | JArray "json list"
  | JObject "(string \<times> json) list"

section \<open>Values as \<open>BTreeMap\<close>s\<close>

fun btree_insert :: "string \<Rightarrow> 'a \<Rightarrow> (string \<times> 'a) list \<Rightarrow> (string \<times> 'a) list" where
  "btree_insert k v [] = [(k, v)]"
| "btree_insert k v ((k', v') # m) =
     (if k < k' then (k, v) # (k', v') # m
      else if k = k' then (k, v) # m
      else (k', v') # btree_insert k v m)"

definition btree_of :: "(string \<times> 'a) list \<Rightarrow> (string \<times> 'a) list" where
  "btree_of kvs = fold (\<lambda>(k, v). btree_insert k v) kvs []"

definition btree_sorted :: "(string \<times> 'a) list \<Rightarrow> bool" where
  "btree_sorted m \<longleftrightarrow> sorted_wrt (<) (map fst m)"

fun normalize :: "json \<Rightarrow> json" where
  "normalize (JArray xs) = JArray (map normalize xs)"
| "normalize (JObject kvs) = JObject (btree_of (map (\<lambda>(k, v). (k, normalize v)) kvs))"
| "normalize j = j"

text \<open>The invariant of \<open>serde_json::Value\<close>.\<close>

fun json_wf :: "json \<Rightarrow> bool" where
  "json_wf (JArray xs) \<longleftrightarrow> (\<forall>x \<in> set xs. json_wf x)"
| "json_wf (JObject kvs) \<longleftrightarrow> btree_sorted kvs \<and> (\<forall>kv \<in> set kvs. json_wf (snd kv))"
| "json_wf j \<longleftrightarrow> True"

text \<open>
  \<open>PartialEq\<close> of \<open>Value\<close>: structural, except that it compares floats as numbers, for
  which the two zeros are equal.
\<close>

fun zero_norm :: "json \<Rightarrow> json" where
  "zero_norm (JNumber (Float b)) = JNumber (Float (if b = 0x8000000000000000 then 0 else b))"
| "zero_norm (JArray xs) = JArray (map zero_norm xs)"
| "zero_norm (JObject kvs) = JObject (map (\<lambda>(k, v). (k, zero_norm v)) kvs)"
| "zero_norm j = j"

definition value_eq :: "json \<Rightarrow> json \<Rightarrow> bool" where
  "value_eq a b \<longleftrightarrow> zero_norm a = zero_norm b"

lemma value_eq_refl [simp]: "value_eq j j"
  by (simp add: value_eq_def)

lemma set_keys_btree_insert [simp]: "fst ` set (btree_insert k v m) = insert k (fst ` set m)"
  by (induction k v m rule: btree_insert.induct) auto

lemma set_btree_insert: "kv \<in> set (btree_insert k v m) \<Longrightarrow> kv = (k, v) \<or> kv \<in> set m"
  by (induction k v m rule: btree_insert.induct) (auto split: if_splits)

lemma btree_insert_sorted: "btree_sorted m \<Longrightarrow> btree_sorted (btree_insert k v m)"
proof (induction k v m rule: btree_insert.induct)
  case (2 k v k' v' m)
  have keys: "set (map fst (btree_insert k v m)) = insert k (set (map fst m))" by simp
  from 2 show ?case
    unfolding btree_sorted_def list.map sorted_wrt.simps fst_conv btree_insert.simps
    by (auto simp: keys not_less_iff_gr_or_eq less_trans)
qed (simp add: btree_sorted_def)

lemma map_of_btree_insert [simp]:
  "btree_sorted m \<Longrightarrow> map_of (btree_insert k v m) = (map_of m)(k \<mapsto> v)"
  by (induction k v m rule: btree_insert.induct) (auto simp: btree_sorted_def)

lemma btree_of_snoc: "btree_of (kvs @ [(k, v)]) = btree_insert k v (btree_of kvs)"
  by (simp add: btree_of_def)

lemma btree_of_sorted: "btree_sorted (btree_of kvs)"
proof (induction kvs rule: rev_induct)
  case Nil
  then show ?case by (simp add: btree_of_def btree_sorted_def)
next
  case (snoc kv kvs)
  then show ?case by (cases kv) (simp add: btree_of_snoc btree_insert_sorted)
qed

lemma map_of_btree_of: "map_of (btree_of kvs) = map_of (rev kvs)"
proof (induction kvs rule: rev_induct)
  case Nil
  then show ?case by (simp add: btree_of_def)
next
  case (snoc kv kvs)
  then show ?case by (cases kv) (simp add: btree_of_snoc btree_of_sorted)
qed

lemma set_btree_of: "kv \<in> set (btree_of kvs) \<Longrightarrow> kv \<in> set kvs"
proof (induction kvs rule: rev_induct)
  case Nil
  then show ?case by (simp add: btree_of_def)
next
  case (snoc x kvs)
  then show ?case by (cases x) (auto simp: btree_of_snoc dest: set_btree_insert)
qed

lemma btree_sorted_distinct: "btree_sorted m \<Longrightarrow> distinct (map fst m)"
  unfolding btree_sorted_def by (induction m) (auto simp: image_iff)

text \<open>Two maps with the same bindings are the same sorted list: keys determine everything.\<close>

lemma btree_sorted_ext:
  assumes "btree_sorted m" "btree_sorted n" "map_of m = map_of n"
  shows "m = n"
proof -
  have rebuild: "map (\<lambda>k. (k, the (map_of l k))) (map fst l) = l"
    if "btree_sorted l" for l :: "(string \<times> 'a) list"
    using btree_sorted_distinct [OF that]
    by (auto intro!: map_idI simp: map_of_eq_Some_iff [THEN iffD2] comp_def)
  have "map fst m = map fst n"
  proof (rule strict_sorted_equal)
    show "sorted_wrt (<) (map fst n)" "sorted_wrt (<) (map fst m)"
      using assms(1,2) by (simp_all add: btree_sorted_def)
    show "set (map fst m) = set (map fst n)"
      using assms(3) by (metis dom_map_of_conv_image_fst set_map)
  qed
  then show ?thesis
    using rebuild [OF assms(1)] rebuild [OF assms(2)] assms(3) by metis
qed

lemma map_of_rev_distinct: "distinct (map fst m) \<Longrightarrow> map_of (rev m) = map_of m"
  by (subst map_of_inject_set) (simp_all flip: rev_map)

lemma btree_of_id: "btree_sorted m \<Longrightarrow> btree_of m = m"
  by (rule btree_sorted_ext)
    (simp_all add: btree_of_sorted map_of_btree_of btree_sorted_distinct map_of_rev_distinct)


lemma keys_map_snd: "map fst (map (\<lambda>(k, v). (k, f v)) kvs) = map fst kvs"
  by (induction kvs) auto

lemma normalize_wf: "json_wf (normalize j)"
proof (induction j)
  case (JObject kvs)
  then show ?case by (fastforce simp: btree_of_sorted dest: set_btree_of)
qed simp_all

lemma normalize_id: "json_wf j \<Longrightarrow> normalize j = j"
proof (induction j)
  case (JArray xs)
  then show ?case by (auto intro: map_idI)
next
  case (JObject kvs)
  then have "map (\<lambda>(k, v). (k, normalize v)) kvs = kvs" by (auto intro!: map_idI)
  with JObject show ?case by (simp add: btree_of_id)
qed simp_all

lemma normalize_idem [simp]: "normalize (normalize j) = normalize j"
  by (simp add: normalize_id normalize_wf)

section \<open>Derived deserialisation\<close>

text \<open>
  The members a derived struct visitor sees, and whether they came by position. Missing
  members are judged field by field, since \<open>Option\<close> fields may be absent from an object
  but not from an array, and \<open>#[serde(default)]\<close> fields may be absent from both.
\<close>

type_synonym 'a dec = "json \<Rightarrow> 'a option"
type_synonym fields = "bool \<times> (string \<rightharpoonup> json)"

definition struct_fields :: "bool \<Rightarrow> string list \<Rightarrow> json \<Rightarrow> fields option" where
  "struct_fields deny names j = (case j of
     JObject kvs \<Rightarrow>
       if (deny \<and> \<not> list_all (\<lambda>k. k \<in> set names) (map fst kvs))
         \<or> \<not> distinct (filter (\<lambda>k. k \<in> set names) (map fst kvs))
       then None else Some (False, map_of kvs)
   | JArray xs \<Rightarrow> if length xs \<le> length names then Some (True, map_of (zip names xs)) else None
   | _ \<Rightarrow> None)"

definition need :: "fields \<Rightarrow> string \<Rightarrow> 'a dec \<Rightarrow> 'a option" where
  "need f k d = (case snd f k of None \<Rightarrow> None | Some j \<Rightarrow> d j)"

definition dec_option :: "'a dec \<Rightarrow> 'a option dec" where
  "dec_option d j = (if j = JNull then Some None else map_option Some (d j))"

definition opt :: "fields \<Rightarrow> string \<Rightarrow> 'a dec \<Rightarrow> 'a option option" where
  "opt f k d = (case snd f k of
     None \<Rightarrow> if fst f then None else Some None
   | Some j \<Rightarrow> dec_option d j)"

definition dflt :: "fields \<Rightarrow> string \<Rightarrow> 'a \<Rightarrow> 'a dec \<Rightarrow> 'a option" where
  "dflt f k x d = (case snd f k of None \<Rightarrow> Some x | Some j \<Rightarrow> d j)"

definition dec_value :: "json dec" where
  "dec_value j = Some (normalize j)"

fun dec_string :: "string dec" where
  "dec_string (JString s) = Some s"
| "dec_string _ = None"

fun dec_bool :: "bool dec" where
  "dec_bool (JBool b) = Some b"
| "dec_bool _ = None"

fun dec_u64 :: "u64 dec" where
  "dec_u64 (JNumber (PosInt n)) = Some n"
| "dec_u64 _ = None"

fun dec_i64 :: "i64 dec" where
  "dec_i64 (JNumber (PosInt n)) = (if unat n < 2 ^ 63 then Some n else None)"
| "dec_i64 (JNumber (NegInt n)) = Some n"
| "dec_i64 _ = None"

fun dec_u32 :: "u32 dec" where
  "dec_u32 (JNumber (PosInt n)) = (if unat n < 2 ^ 32 then Some (ucast n) else None)"
| "dec_u32 _ = None"

fun dec_u8 :: "u8 dec" where
  "dec_u8 (JNumber (PosInt n)) = (if unat n < 2 ^ 8 then Some (ucast n) else None)"
| "dec_u8 _ = None"

text \<open>
  A 64-bit float is its bit pattern. An integer literal is converted as Rust's \<open>as f64\<close>
  does, to the nearest float with ties to even: \<open>m\<close> is the significand with its leading bit,
  and a carry out of it moves to the next exponent by itself.
\<close>

fun log2_floor :: "nat \<Rightarrow> nat" where
  "log2_floor n = (if n < 2 then 0 else Suc (log2_floor (n div 2)))"

declare log2_floor.simps [simp del]

definition div_half_even :: "nat \<Rightarrow> nat \<Rightarrow> nat" where
  "div_half_even n d = (let q = n div d; r = n mod d in
     if 2 * r < d then q else if d < 2 * r then q + 1 else if even q then q else q + 1)"

definition f64_of_nat :: "nat \<Rightarrow> f64" where
  "f64_of_nat n = (if n = 0 then 0
     else let e = log2_floor n;
              m = (if e \<le> 52 then n * 2 ^ (52 - e) else div_half_even n (2 ^ (e - 52)))
          in of_nat ((e + 1022) * 2 ^ 52 + m))"

definition dec_f64 :: "f64 dec" where
  "dec_f64 j = (case j of
     JNumber (PosInt n) \<Rightarrow> Some (f64_of_nat (unat n))
   | JNumber (NegInt i) \<Rightarrow> Some (or 0x8000000000000000 (f64_of_nat (nat (- sint i))))
   | JNumber (Float b) \<Rightarrow> Some b
   | _ \<Rightarrow> None)"

text \<open>Serialisation keeps the bits of a finite float; the others have no JSON number.\<close>

definition f64_finite :: "f64 \<Rightarrow> bool" where
  "f64_finite x \<longleftrightarrow> and x 0x7FF0000000000000 \<noteq> 0x7FF0000000000000"

definition enc_f64 :: "f64 \<Rightarrow> json" where
  "enc_f64 x = (if f64_finite x then JNumber (Float x) else JNull)"

lemma dec_enc_f64 [simp]: "f64_finite x \<Longrightarrow> dec_f64 (enc_f64 x) = Some x"
  by (simp add: dec_f64_def enc_f64_def)

fun dec_list :: "'a dec \<Rightarrow> 'a list dec" where
  "dec_list d (JArray xs) = those (map d xs)"
| "dec_list d _ = None"

text \<open>Serialisation of the scalars; a struct is its members in declaration order.\<close>

definition enc_u64 :: "u64 \<Rightarrow> json" where
  "enc_u64 n = JNumber (PosInt n)"

definition enc_i64 :: "i64 \<Rightarrow> json" where
  "enc_i64 n = JNumber (if 0 \<le> sint n then PosInt n else NegInt n)"

definition enc_u32 :: "u32 \<Rightarrow> json" where
  "enc_u32 n = JNumber (PosInt (ucast n))"

definition enc_u8 :: "u8 \<Rightarrow> json" where
  "enc_u8 n = JNumber (PosInt (ucast n))"

definition enc_option :: "('a \<Rightarrow> json) \<Rightarrow> 'a option \<Rightarrow> json" where
  "enc_option e x = (case x of None \<Rightarrow> JNull | Some y \<Rightarrow> e y)"

definition enc_list :: "('a \<Rightarrow> json) \<Rightarrow> 'a list \<Rightarrow> json" where
  "enc_list e xs = JArray (map e xs)"

text \<open>\<open>#[serde(skip_serializing_if = "Option::is_none")]\<close>.\<close>

definition skip_none :: "string \<Rightarrow> ('a \<Rightarrow> json) \<Rightarrow> 'a option \<Rightarrow> (string \<times> json) list" where
  "skip_none k e x = (case x of None \<Rightarrow> [] | Some y \<Rightarrow> [(k, e y)])"

text \<open>An index into the decoders' results that \<open>simp\<close> evaluates.\<close>

lemmas decode_simps = struct_fields_def need_def opt_def dflt_def dec_option_def dec_value_def
  enc_u64_def enc_u32_def enc_u8_def enc_option_def enc_list_def skip_none_def

lemma dec_enc_u64 [simp]: "dec_u64 (enc_u64 n) = Some n"
  by (simp add: enc_u64_def)

lemma unat_less_63:
  fixes n :: i64
  assumes "0 \<le> sint n"
  shows "unat n < 2 ^ 63"
proof -
  have top: "\<not> bit (uint n) 63"
    using assms by (simp add: sint_uint signed_take_bit_negative_iff flip: not_less)
  have "uint n = take_bit (Suc 63) (uint n)"
    using unsigned_less [of n, where 'a = int] by (simp add: take_bit_int_eq_self)
  also have "\<dots> = 2 ^ 63 * of_bool (bit (uint n) 63) + take_bit 63 (uint n)"
    by (rule take_bit_Suc_from_most)
  also have "\<dots> = take_bit 63 (uint n)"
    by (simp only: top of_bool_eq mult_zero_right add_0_left)
  finally have "uint n < 2 ^ 63"
    using take_bit_int_less_exp by (rule ord_eq_less_trans)
  then have "int (unat n) < int (2 ^ 63)" by simp
  then show ?thesis by (simp only: of_nat_less_iff)
qed

lemma dec_enc_i64 [simp]: "dec_i64 (enc_i64 n) = Some n"
  using unat_less_63 [of n] by (simp add: enc_i64_def)

lemma dec_enc_u32 [simp]: "dec_u32 (enc_u32 n) = Some n"
  using unsigned_less [of n, where 'a = nat] 
  by (auto simp: enc_u32_def unsigned_ucast_eq take_bit_word_eq_self
      intro: le_less_trans [OF take_bit_nat_less_eq_self])

lemma dec_enc_u8 [simp]: "dec_u8 (enc_u8 n) = Some n"
  using unsigned_less [of n, where 'a = nat] 
  by (auto simp: enc_u8_def unsigned_ucast_eq take_bit_word_eq_self
      intro: le_less_trans [OF take_bit_nat_less_eq_self])

section \<open>Codecs\<close>

locale codec =
  fixes enc :: "'a \<Rightarrow> json" and dec :: "'a dec" and ok :: "'a \<Rightarrow> bool"
  assumes read_back: "ok x \<Longrightarrow> dec (enc x) = Some x"
begin

lemma read_back_list: "list_all ok xs \<Longrightarrow> dec_list dec (enc_list enc xs) = Some xs"
  by (induction xs) (simp_all add: enc_list_def read_back)

lemma read_back_option:
  "pred_option ok x \<Longrightarrow> (\<And>y. enc y \<noteq> JNull) \<Longrightarrow> dec_option dec (enc_option enc x) = Some x"
  by (cases x) (simp_all add: dec_option_def enc_option_def read_back)

lemma enc_inject: "ok x \<Longrightarrow> ok y \<Longrightarrow> enc x = enc y \<longleftrightarrow> x = y"
  by (metis option.inject read_back)

end

interpretation value_codec: codec "\<lambda>j. j" dec_value json_wf
  by unfold_locales (simp add: dec_value_def normalize_id)

interpretation string_codec: codec JString dec_string "\<lambda>_. True"
  by unfold_locales simp

interpretation f64_codec: codec enc_f64 dec_f64 f64_finite
  by unfold_locales simp

interpretation i64_codec: codec enc_i64 dec_i64 "\<lambda>_. True"
  by unfold_locales simp

end
