(* ===== verification/Libs.thy ===== *)
theory Libs
  imports Json
begin

text \<open>
  The crates the program calls, as one record of functions, and the documented behaviour
  the properties use as named predicates over it. A parser or resolver that fails returns
  \<open>None\<close>, or \<open>Inl\<close> of its \<open>Display\<close> text where the program puts that text in an error.

  \<open>sample_libs\<close> is a concrete record that satisfies every law; the witnesses of the
  properties run on it.
\<close>

record libs =
  json_parse :: "string \<Rightarrow> json option"         \<comment> \<open>\<open>serde_json::from_str\<close>, members in document order\<close>
  json_text :: "json \<Rightarrow> string"                 \<comment> \<open>\<open>serde_json::to_string\<close>\<close>
  json_pretty :: "json \<Rightarrow> string"               \<comment> \<open>\<open>serde_json::to_vec_pretty\<close>\<close>
  sha256_digest :: "string \<Rightarrow> string"           \<comment> \<open>\<open>Sha256::digest\<close>\<close>
  hex_encode :: "string \<Rightarrow> string"
  hex_decode :: "string \<Rightarrow> string option"
  base64url :: "string \<Rightarrow> string"               \<comment> \<open>\<open>URL_SAFE_NO_PAD\<close>\<close>
  base64url_decode :: "string \<Rightarrow> string option"
  uuid_string :: "uuid \<Rightarrow> string"               \<comment> \<open>\<open>Uuid\<close>'s \<open>Display\<close> and \<open>Serialize\<close>\<close>
  uuid_parse :: "string \<Rightarrow> uuid option"
  to_rfc3339 :: "datetime \<Rightarrow> string"            \<comment> \<open>\<open>DateTime::<Utc>::to_rfc3339\<close>\<close>
  rfc3339_parse :: "string \<Rightarrow> datetime option"
  datetime_serde :: "datetime \<Rightarrow> string"        \<comment> \<open>\<open>DateTime<Utc>\<close>'s \<open>Serialize\<close>\<close>
  to_rfc3339_secs :: "datetime \<Rightarrow> string"       \<comment> \<open>\<open>to_rfc3339_opts(SecondsFormat::Secs, true)\<close>\<close>
  url_parse :: "string \<Rightarrow> string + string"      \<comment> \<open>\<open>Url::parse\<close>; a \<open>Url\<close> is its serialization\<close>
  url_path :: "string \<Rightarrow> string"
  url_set_path :: "string \<Rightarrow> string \<Rightarrow> string"
  url_join :: "string \<Rightarrow> string \<Rightarrow> string + string"
  url_append_pair :: "string \<Rightarrow> string \<Rightarrow> string \<Rightarrow> string" \<comment> \<open>\<open>query_pairs_mut().append_pair\<close>\<close>

definition uuid_laws :: "libs \<Rightarrow> bool" where
  "uuid_laws L \<longleftrightarrow> (\<forall>u. uuid_parse L (uuid_string L u) = Some u)"

text \<open>
  The printed scalars of a JSON text: a string is a prefix code opened by a quote, a number
  is a nonempty word over the number alphabet, and different scalars print differently.
\<close>

definition number_char :: "char \<Rightarrow> bool" where
  "number_char c \<longleftrightarrow> is_digit_char c \<or> c \<in> {CHR ''-'', CHR ''+'', CHR ''.'', CHR ''e'', CHR ''E''}"

definition number_ok :: "json_number \<Rightarrow> bool" where
  "number_ok n \<longleftrightarrow> (case n of
     PosInt _ \<Rightarrow> True
   | NegInt i \<Rightarrow> sint i < 0
   | Float b \<Rightarrow> and b 0x7FF0000000000000 \<noteq> 0x7FF0000000000000)"

definition scalar_text_laws :: "libs \<Rightarrow> bool" where
  "scalar_text_laws L \<longleftrightarrow>
     json_text L JNull = ''null'' \<and> json_text L (JBool True) = ''true''
   \<and> json_text L (JBool False) = ''false''
   \<and> (\<forall>s. \<exists>t. json_text L (JString s) = CHR 0x22 # t)
   \<and> (\<forall>s t x y. json_text L (JString s) @ x = json_text L (JString t) @ y \<longrightarrow> s = t \<and> x = y)
   \<and> (\<forall>n. number_ok n \<longrightarrow> json_text L (JNumber n) \<noteq> [] \<and> list_all number_char (json_text L (JNumber n)))
   \<and> (\<forall>m n. number_ok m \<longrightarrow> number_ok n \<longrightarrow>
        json_text L (JNumber m) = json_text L (JNumber n) \<longrightarrow> m = n)"

definition datetime_laws :: "libs \<Rightarrow> bool" where
  "datetime_laws L \<longleftrightarrow> (\<forall>t. rfc3339_parse L (datetime_serde L t) = Some t)"

definition hex_laws :: "libs \<Rightarrow> bool" where
  "hex_laws L \<longleftrightarrow> (\<forall>b. hex_decode L (hex_encode L b) = Some b)"

section \<open>A concrete record\<close>

fun read_nat :: "nat \<Rightarrow> string \<Rightarrow> nat option" where
  "read_nat n [] = Some n"
| "read_nat n (c # cs) = (if is_digit_char c then read_nat (10 * n + (byte c - 48)) cs else None)"

lemma read_nat_append:
  "read_nat n (xs @ ys) = (case read_nat n xs of None \<Rightarrow> None | Some m \<Rightarrow> read_nat m ys)"
  by (induction n xs rule: read_nat.induct) simp_all

lemma read_show_nat: "read_nat 0 (show_nat n) = Some n"
proof (induction n rule: show_nat.induct)
  case (1 n)
  have digit: "is_digit_char (digit_char d) \<and> byte (digit_char d) = 48 + d" if "d < 10" for d
    using that by (simp add: is_digit_char_def byte_digit_char)
  show ?case
  proof (cases "n < 10")
    case True
    then show ?thesis by (subst show_nat.simps) (simp add: digit)
  next
    case False
    with 1 show ?thesis by (subst show_nat.simps) (simp add: digit read_nat_append)
  qed
qed

fun quoted :: "string \<Rightarrow> string" where
  "quoted [] = [CHR 0x22]"
| "quoted (c # cs) = CHR 0x5C # c # quoted cs"

lemma quoted_prefix_code: "quoted s @ x = quoted t @ y \<Longrightarrow> s = t \<and> x = y"
proof (induction s arbitrary: t)
  case Nil
  then show ?case by (cases t) simp_all
next
  case (Cons c s)
  then show ?case by (cases t) auto
qed

fun sample_text :: "json \<Rightarrow> string" where
  "sample_text JNull = ''null''"
| "sample_text (JBool b) = (if b then ''true'' else ''false'')"
| "sample_text (JNumber (PosInt n)) = show_nat (unat n)"
| "sample_text (JNumber (NegInt n)) = CHR ''-'' # show_nat (unat n)"
| "sample_text (JNumber (Float n)) = CHR ''+'' # show_nat (unat n)"
| "sample_text (JString s) = CHR 0x22 # quoted s"
| "sample_text (JArray xs) = CHR ''['' # join_with '','' (map sample_text xs) @ '']''"
| "sample_text (JObject kvs) = CHR ''{'' #
     join_with '','' (map (\<lambda>(k, v). CHR 0x22 # quoted k @ CHR '':'' # sample_text v) kvs) @ ''}''"

text \<open>A prefix code of JSON trees, in place of the indented text.\<close>

fun sample_pretty :: "json \<Rightarrow> string" where
  "sample_pretty JNull = ''n''"
| "sample_pretty (JBool b) = (if b then ''t'' else ''f'')"
| "sample_pretty (JNumber (PosInt n)) = CHR ''p'' # quoted (show_nat (unat n))"
| "sample_pretty (JNumber (NegInt n)) = CHR ''m'' # quoted (show_nat (unat n))"
| "sample_pretty (JNumber (Float n)) = CHR ''d'' # quoted (show_nat (unat n))"
| "sample_pretty (JString s) = CHR ''s'' # quoted s"
| "sample_pretty (JArray xs) = CHR ''a'' # concat (map (\<lambda>x. CHR ''+'' # sample_pretty x) xs) @ ''.''"
| "sample_pretty (JObject kvs) =
     CHR ''o'' # concat (map (\<lambda>(k, v). CHR ''+'' # quoted k @ sample_pretty v) kvs) @ ''.''"

definition read_int :: "string \<Rightarrow> int option" where
  "read_int s = (case s of
     [] \<Rightarrow> None
   | c # cs \<Rightarrow> if c = CHR ''-'' then map_option (\<lambda>n. - int n) (read_nat 0 cs) else map_option int (read_nat 0 s))"

lemma read_show_int: "read_int (show_int i) = Some i"
proof (cases "i < 0")
  case True
  then show ?thesis by (simp add: show_int_def read_int_def read_show_nat)
next
  case False
  obtain c cs where c: "show_nat (nat i) = c # cs" by (cases "show_nat (nat i)") auto
  have "c \<noteq> CHR ''-''" using show_nat_digits [of c "nat i"] c by (auto simp: is_digit_char_def byte_def)
  with False c read_show_nat [of "nat i"] show ?thesis by (simp add: show_int_def read_int_def)
qed

text \<open>A two-character code for each byte, in place of hexadecimal.\<close>

fun undouble :: "string \<Rightarrow> string option" where
  "undouble [] = Some []"
| "undouble [c] = None"
| "undouble (c # d # cs) = (if c = d then map_option ((#) c) (undouble cs) else None)"

lemma undouble_double: "undouble (concat (map (\<lambda>c. [c, c]) s)) = Some s"
  by (induction s) simp_all

definition sample_libs :: libs where
  "sample_libs = \<lparr>
     json_parse = \<lambda>s. if s = '''' then None else Some (JString s),
     json_text = sample_text,
     json_pretty = sample_pretty,
     sha256_digest = \<lambda>s. take 32 (s @ replicate 32 (CHR ''0'')),
     hex_encode = \<lambda>s. concat (map (\<lambda>c. [c, c]) s),
     hex_decode = undouble,
     base64url = \<lambda>s. s,
     base64url_decode = Some,
     uuid_string = \<lambda>u. show_nat (unat u),
     uuid_parse = \<lambda>s. map_option of_nat (read_nat 0 s),
     to_rfc3339 = show_int,
     rfc3339_parse = read_int,
     datetime_serde = show_int,
     to_rfc3339_secs = show_int,
     url_parse = \<lambda>s. if s = [] then Inl ''empty host'' else Inr s,
     url_path = \<lambda>u. u,
     url_set_path = \<lambda>u p. p,
     url_join = \<lambda>u r. Inr (u @ r),
     url_append_pair = \<lambda>u k v. u @ CHR ''?'' # k @ CHR ''='' # v \<rparr>"

lemmas sample_sel = libs.simps sample_libs_def

lemma sample_uuid_laws: "uuid_laws sample_libs"
  by (simp add: uuid_laws_def sample_libs_def read_show_nat)

lemma sample_datetime_laws: "datetime_laws sample_libs"
  by (simp add: datetime_laws_def sample_libs_def read_show_int)

lemma sample_hex_laws: "hex_laws sample_libs"
  by (simp add: hex_laws_def sample_libs_def undouble_double)

lemma show_nat_number_chars: "list_all number_char (show_nat n)"
  using show_nat_digits by (auto simp: list_all_iff number_char_def)

lemma show_nat_hd: "show_nat n \<noteq> CHR ''-'' # t" "show_nat n \<noteq> CHR ''+'' # t"
  using show_nat_digits [of "CHR ''-''" n] show_nat_digits [of "CHR ''+''" n]
  by (auto simp: is_digit_char_def byte_def)

lemma sample_scalar_text_laws: "scalar_text_laws sample_libs"
proof -
  have strings: "sample_text (JString s) @ x = sample_text (JString t) @ y \<Longrightarrow> s = t \<and> x = y" for s t x y
    using quoted_prefix_code [of s x t y] by simp
  have numbers: "sample_text (JNumber n) \<noteq> [] \<and> list_all number_char (sample_text (JNumber n))" for n
    by (cases n) (simp_all add: show_nat_number_chars, simp_all add: number_char_def)
  have inject: "m = n" if "sample_text (JNumber m) = sample_text (JNumber n)" for m n
    using that
    by (cases m; cases n)
      (auto simp: show_nat_inject word_unat_eq_iff show_nat_hd show_nat_hd [THEN not_sym])
  have printer: "json_text sample_libs = sample_text" by (simp add: sample_libs_def)
  show ?thesis
    unfolding scalar_text_laws_def printer
  proof (intro conjI [OF _ conjI [OF _ conjI [OF _ conjI [OF _ conjI [OF _ conjI]]]]] allI)
    show "\<exists>t. sample_text (JString s) = CHR 0x22 # t" for s by simp
    show "sample_text (JString s) @ x = sample_text (JString t) @ y \<longrightarrow> s = t \<and> x = y" for s t x y
      using strings by (rule impI)
    show "number_ok n \<longrightarrow> sample_text (JNumber n) \<noteq> [] \<and> list_all number_char (sample_text (JNumber n))" for n
      using numbers by (rule impI)
    show "number_ok m \<longrightarrow> number_ok n \<longrightarrow> sample_text (JNumber m) = sample_text (JNumber n) \<longrightarrow> m = n" for m n
      using inject by (intro impI)
  qed simp_all
qed

end
