(* ===== verification/Canonical.thy ===== *)
theory Canonical
  imports Libs
begin

text \<open>
  The canonical text of a JSON value and the digest taken of it (\<open>canonical_json_value\<close>,
  \<open>canonical_json\<close> and \<open>sha256\<close> of execution.rs). The lemmas show that the text does not
  depend on the order of members and that, given how scalars print, no two values share one.
\<close>

fun canonical_json_value :: "libs \<Rightarrow> json \<Rightarrow> string" where
  "canonical_json_value L JNull = ''null''"
| "canonical_json_value L (JBool b) = json_text L (JBool b)"
| "canonical_json_value L (JNumber n) = json_text L (JNumber n)"
| "canonical_json_value L (JString s) = json_text L (JString s)"
| "canonical_json_value L (JArray items) =
     ''['' @ join_with '','' (map (canonical_json_value L) items) @ '']''"
| "canonical_json_value L (JObject kvs) =
     (let object = map (\<lambda>(k, v). (k, canonical_json_value L v)) kvs;
          keys = sort (map fst kvs)
      in ''{'' @ join_with '',''
           (map (\<lambda>key. json_text L (JString key) @ '':'' @ the (map_of object key)) keys) @ ''}'')"

definition canonical_json :: "libs \<Rightarrow> json \<Rightarrow> string" where
  "canonical_json L value = canonical_json_value L (normalize value)"

definition sha256 :: "libs \<Rightarrow> string \<Rightarrow> string" where
  "sha256 L bytes = ''sha256:'' @ hex_encode L (sha256_digest L bytes)"

fun numbers_ok :: "json \<Rightarrow> bool" where
  "numbers_ok (JNumber n) \<longleftrightarrow> number_ok n"
| "numbers_ok (JArray xs) \<longleftrightarrow> (\<forall>x \<in> set xs. numbers_ok x)"
| "numbers_ok (JObject kvs) \<longleftrightarrow> (\<forall>kv \<in> set kvs. numbers_ok (snd kv))"
| "numbers_ok j \<longleftrightarrow> True"

section \<open>Objects in sorted order\<close>

lemma btree_sorted_sorted: "btree_sorted kvs \<Longrightarrow> sort (map fst kvs) = map fst kvs"
  unfolding btree_sorted_def by (rule sorted_sort_id) (simp add: strict_sorted_iff)

definition member_text :: "libs \<Rightarrow> string \<times> json \<Rightarrow> string" where
  "member_text L kv = json_text L (JString (fst kv)) @ '':'' @ canonical_json_value L (snd kv)"

lemma canonical_object:
  assumes "btree_sorted kvs"
  shows "canonical_json_value L (JObject kvs) =
    ''{'' @ join_with '','' (map (member_text L) kvs) @ ''}''"
proof -
  have "map (\<lambda>key. json_text L (JString key) @ '':'' @
      the (map_of (map (\<lambda>(k, v). (k, canonical_json_value L v)) kvs) key)) (map fst kvs)
    = map (member_text L) kvs"
    using btree_sorted_distinct [OF assms]
    by (auto simp: member_text_def map_of_map map_of_eq_Some_iff [THEN iffD2])
  then show ?thesis
    by (simp only: canonical_json_value.simps Let_def btree_sorted_sorted [OF assms])
qed

section \<open>No two values share a canonical text\<close>

text \<open>What may follow a value inside a document.\<close>

definition stops :: "string \<Rightarrow> bool" where
  "stops x \<longleftrightarrow> x = [] \<or> hd x \<in> {CHR '','', CHR '']'', CHR ''}''}"

lemma stops_simps [simp]: "stops []" "stops (CHR '','' # x)" "stops (CHR '']'' # x)" "stops (CHR ''}'' # x)"
  by (simp_all add: stops_def)

lemma stops_not_number: "stops (c # x) \<Longrightarrow> \<not> number_char c"
  by (auto simp: stops_def number_char_def is_digit_char_def byte_def)

lemma number_word_unique:
  assumes "list_all number_char u" "list_all number_char v" "stops x" "stops y" "u @ x = v @ y"
  shows "u = v \<and> x = y"
  using assms
proof (induction u arbitrary: v)
  case Nil
  then show ?case by (cases v) (auto dest: stops_not_number)
next
  case (Cons c u)
  then show ?case by (cases v) (auto dest: stops_not_number)
qed

text \<open>A comma-separated list is read back when its items are.\<close>

lemma join_unique:
  assumes "\<And>p q x y. p \<in> set ps \<Longrightarrow> q \<in> set qs \<Longrightarrow> stops x \<Longrightarrow> stops y \<Longrightarrow> r p @ x = r q @ y
      \<Longrightarrow> p = q \<and> x = y"
    and "\<And>p. p \<in> set ps \<union> set qs \<Longrightarrow> \<exists>c t. r p = c # t \<and> c \<noteq> d"
    and "d \<in> {CHR '']'', CHR ''}''}"
    and "join_with '','' (map r ps) @ d # x = join_with '','' (map r qs) @ d # y"
  shows "ps = qs \<and> x = y"
  using assms
proof (induction ps arbitrary: qs)
  case Nil
  then show ?case
  proof (cases qs)
    case (Cons q qs')
    with Nil.prems(2) [of q] obtain c t where "r q = c # t" "c \<noteq> d" by auto
    with Nil.prems(4) Cons show ?thesis by (simp add: join_with_Cons)
  qed simp
next
  case (Cons p ps)
  obtain c t where "r p = c # t" "c \<noteq> d" using Cons.prems(2) [of p] by auto
  with Cons.prems(4) obtain q qs' where qs: "qs = q # qs'"
    by (cases qs) (simp_all add: join_with_Cons)
  let ?tail = "\<lambda>l z. (if map r l = [] then [] else '','' @ join_with '','' (map r l)) @ d # z"
  have stop: "stops (?tail l z)" for l z using Cons.prems(3) by auto
  have "r p @ ?tail ps x = r q @ ?tail qs' y"
    using Cons.prems(4) by (simp add: qs join_with_Cons)
  with Cons.prems(1) [of p q "?tail ps x" "?tail qs' y"] stop
  have head: "p = q" and tail: "?tail ps x = ?tail qs' y" by (simp_all add: qs)
  have "ps = qs' \<and> x = y"
  proof (cases "ps = [] \<or> qs' = []")
    case True
    with tail Cons.prems(3) show ?thesis by (auto split: if_splits)
  next
    case False
    with tail have "join_with '','' (map r ps) @ d # x = join_with '','' (map r qs') @ d # y" by simp
    with Cons.prems qs show ?thesis by (intro Cons.IH) auto
  qed
  with head show ?case by (simp add: qs)
qed

text \<open>The first character tells the kind of a value.\<close>

fun kind_of :: "json \<Rightarrow> char \<Rightarrow> bool" where
  "kind_of JNull c \<longleftrightarrow> c = CHR ''n''"
| "kind_of (JBool b) c \<longleftrightarrow> c = (if b then CHR ''t'' else CHR ''f'')"
| "kind_of (JNumber n) c \<longleftrightarrow> number_char c"
| "kind_of (JString s) c \<longleftrightarrow> c = CHR 0x22"
| "kind_of (JArray xs) c \<longleftrightarrow> c = CHR ''[''"
| "kind_of (JObject kvs) c \<longleftrightarrow> c = CHR ''{''"

lemma scalar_textD:
  assumes "scalar_text_laws L"
  shows "json_text L (JBool b) = (if b then ''true'' else ''false'')"
    and "\<exists>t. json_text L (JString s) = CHR 0x22 # t"
    and "json_text L (JString s) @ x = json_text L (JString t) @ y \<Longrightarrow> s = t \<and> x = y"
    and "number_ok n \<Longrightarrow> json_text L (JNumber n) \<noteq> [] \<and> list_all number_char (json_text L (JNumber n))"
    and "number_ok n \<Longrightarrow> number_ok m \<Longrightarrow> json_text L (JNumber n) = json_text L (JNumber m) \<Longrightarrow> n = m"
proof -
  note laws = assms [unfolded scalar_text_laws_def]
  note l2 = laws [THEN conjunct2] note l3 = l2 [THEN conjunct2] note l4 = l3 [THEN conjunct2]
  note l5 = l4 [THEN conjunct2] note l6 = l5 [THEN conjunct2] note l7 = l6 [THEN conjunct2]
  show "json_text L (JBool b) = (if b then ''true'' else ''false'')"
    using l2 [THEN conjunct1] l3 [THEN conjunct1] by (cases b) (simp_all only: if_True if_False)
  show "\<exists>t. json_text L (JString s) = CHR 0x22 # t"
    by (rule l4 [THEN conjunct1, THEN spec])
  show "json_text L (JString s) @ x = json_text L (JString t) @ y \<Longrightarrow> s = t \<and> x = y"
    by (rule l5 [THEN conjunct1, THEN spec, THEN spec, THEN spec, THEN spec, THEN mp])
  show "number_ok n \<Longrightarrow> json_text L (JNumber n) \<noteq> [] \<and> list_all number_char (json_text L (JNumber n))"
    by (rule l6 [THEN conjunct1, THEN spec, THEN mp])
  show "number_ok n \<Longrightarrow> number_ok m \<Longrightarrow> json_text L (JNumber n) = json_text L (JNumber m) \<Longrightarrow> n = m"
    by (rule l7 [THEN spec, THEN spec, THEN mp, THEN mp, THEN mp])
qed

lemma canonical_first:
  assumes "scalar_text_laws L" "numbers_ok j"
  shows "\<exists>c t. canonical_json_value L j = c # t \<and> kind_of j c"
proof (cases j)
  case (JBool b)
  then show ?thesis using scalar_textD(1) [OF assms(1), of b] by (cases b) simp_all
next
  case (JNumber n)
  with assms(2) have "number_ok n" by simp
  from scalar_textD(4) [OF assms(1) this] JNumber show ?thesis
    by (cases "json_text L (JNumber n)") simp_all
next
  case (JString s)
  then show ?thesis using scalar_textD(2) [OF assms(1), of s] by auto
qed (simp_all add: Let_def)

lemma not_number_char [simp]: "\<not> number_char (CHR ''n'')" "\<not> number_char (CHR ''t'')"
  "\<not> number_char (CHR ''f'')" "\<not> number_char (CHR 0x22)" "\<not> number_char (CHR ''['')"
  "\<not> number_char (CHR ''{'')" "\<not> number_char (CHR '']'')" "\<not> number_char (CHR ''}'')"
  by (simp_all add: number_char_def is_digit_char_def byte_def)

lemma kind_of_closer: "kind_of j c \<Longrightarrow> c \<noteq> CHR '']'' \<and> c \<noteq> CHR ''}''"
  by (cases j) (auto split: if_splits)

text \<open>Values whose texts agree on the first character are of the same kind.\<close>

fun same_kind :: "json \<Rightarrow> json \<Rightarrow> bool" where
  "same_kind JNull b \<longleftrightarrow> b = JNull"
| "same_kind (JBool p) b \<longleftrightarrow> b = JBool p"
| "same_kind (JNumber n) b \<longleftrightarrow> (\<exists>m. b = JNumber m)"
| "same_kind (JString s) b \<longleftrightarrow> (\<exists>t. b = JString t)"
| "same_kind (JArray xs) b \<longleftrightarrow> (\<exists>ys. b = JArray ys)"
| "same_kind (JObject xs) b \<longleftrightarrow> (\<exists>ys. b = JObject ys)"

lemma kind_of_same: "kind_of a c \<Longrightarrow> kind_of b c \<Longrightarrow> same_kind a b"
  by (cases a; cases b) (auto split: if_splits)

lemma canonical_same_kind:
  assumes "scalar_text_laws L" "numbers_ok a" "numbers_ok b"
    and "canonical_json_value L a @ x = canonical_json_value L b @ y"
  shows "same_kind a b"
proof -
  obtain c t where a: "canonical_json_value L a = c # t" "kind_of a c"
    using canonical_first [OF assms(1,2)] by blast
  obtain d u where b: "canonical_json_value L b = d # u" "kind_of b d"
    using canonical_first [OF assms(1,3)] by blast
  from a b assms(4) have "c = d" by simp
  with a b show ?thesis by (simp add: kind_of_same)
qed

lemma canonical_opens:
  assumes "scalar_text_laws L" "numbers_ok j" "d \<in> {CHR '']'', CHR ''}''}"
  shows "\<exists>c t. canonical_json_value L j = c # t \<and> c \<noteq> d"
  using canonical_first [OF assms(1,2)] kind_of_closer [of j] assms(3) by blast

lemma member_unique:
  assumes "scalar_text_laws L" "member_text L p @ x = member_text L q @ y"
    and "\<And>x y. canonical_json_value L (snd p) @ x = canonical_json_value L (snd q) @ y
      \<Longrightarrow> stops x \<Longrightarrow> stops y \<Longrightarrow> snd p = snd q \<and> x = y"
    and "stops x" "stops y"
  shows "p = q \<and> x = y"
proof -
  have "json_text L (JString (fst p)) @ '':'' @ canonical_json_value L (snd p) @ x
      = json_text L (JString (fst q)) @ '':'' @ canonical_json_value L (snd q) @ y"
    using assms(2) by (simp add: member_text_def)
  from scalar_textD(3) [OF assms(1) this] assms(3) [of x y] assms(4,5) show ?thesis
    by (simp add: prod_eq_iff)
qed

lemma member_opens:
  assumes "scalar_text_laws L" "d \<in> {CHR '']'', CHR ''}''}"
  shows "\<exists>c t. member_text L p = c # t \<and> c \<noteq> d"
  using scalar_textD(2) [OF assms(1), of "fst p"] assms(2) by (auto simp: member_text_def)

lemma canonical_unique:
  assumes laws: "scalar_text_laws L"
  shows "\<lbrakk>json_wf a; json_wf b; numbers_ok a; numbers_ok b; stops x; stops y;
    canonical_json_value L a @ x = canonical_json_value L b @ y\<rbrakk> \<Longrightarrow> a = b \<and> x = y"
proof (induction a arbitrary: b x y)
  case (JNumber n)
  from canonical_same_kind [OF laws JNumber.prems(3,4,7)] obtain m where b: "b = JNumber m" by auto
  with JNumber.prems have ok: "number_ok n" "number_ok m"
    and eq: "json_text L (JNumber n) @ x = json_text L (JNumber m) @ y" by simp_all
  have "json_text L (JNumber n) = json_text L (JNumber m) \<and> x = y"
    using number_word_unique [OF _ _ JNumber.prems(5,6) eq] scalar_textD(4) [OF laws] ok by blast
  with scalar_textD(5) [OF laws ok] b show ?case by simp
next
  case (JString s)
  from canonical_same_kind [OF laws JString.prems(3,4,7)] obtain t where b: "b = JString t" by auto
  with JString.prems have "json_text L (JString s) @ x = json_text L (JString t) @ y" by simp
  from scalar_textD(3) [OF laws this] b show ?case by simp
next
  case (JArray ps)
  from canonical_same_kind [OF laws JArray.prems(3,4,7)] obtain qs where b: "b = JArray qs" by auto
  have "ps = qs \<and> x = y"
  proof (rule join_unique)
    show "join_with '','' (map (canonical_json_value L) ps) @ CHR '']'' # x =
        join_with '','' (map (canonical_json_value L) qs) @ CHR '']'' # y"
      using JArray.prems(7) by (simp add: b)
    show "\<exists>c t. canonical_json_value L p = c # t \<and> c \<noteq> CHR '']''" if "p \<in> set ps \<union> set qs" for p
      by (rule canonical_opens [OF laws]) (use that JArray.prems(3,4) b in auto)
    show "p = q \<and> u = v" if "p \<in> set ps" "q \<in> set qs" "stops u" "stops v"
      "canonical_json_value L p @ u = canonical_json_value L q @ v" for p q u v
      by (rule JArray.IH [OF that(1) _ _ _ _ that(3-5)]) (use that(1,2) JArray.prems(1-4) b in auto)
  qed simp
  then show ?case by (simp add: b)
next
  case (JObject ps)
  from canonical_same_kind [OF laws JObject.prems(3,4,7)] obtain qs where b: "b = JObject qs" by auto
  have "ps = qs \<and> x = y"
  proof (rule join_unique)
    show "join_with '','' (map (member_text L) ps) @ CHR ''}'' # x =
        join_with '','' (map (member_text L) qs) @ CHR ''}'' # y"
      using JObject.prems(1,2,7) by (simp add: b canonical_object del: canonical_json_value.simps)
    show "\<exists>c t. member_text L p = c # t \<and> c \<noteq> CHR ''}''" for p
      by (rule member_opens [OF laws]) simp
    show "p = q \<and> u = v" if "p \<in> set ps" "q \<in> set qs" "stops u" "stops v"
      "member_text L p @ u = member_text L q @ v" for p q u v
    proof (rule member_unique [OF laws that(5) _ that(3,4)])
      show "snd p = snd q \<and> u' = v'"
        if "canonical_json_value L (snd p) @ u' = canonical_json_value L (snd q) @ v'"
          "stops u'" "stops v'" for u' v'
        by (rule JObject.IH [OF \<open>p \<in> set ps\<close> snds.intros _ _ _ _ that(2,3,1)])
          (use \<open>p \<in> set ps\<close> \<open>q \<in> set qs\<close> JObject.prems(1-4) b in auto)
    qed
  qed simp
  then show ?case by (simp add: b)
next
  case JNull
  from canonical_same_kind [OF laws JNull.prems(3,4,7)] JNull.prems(7) show ?case by simp
next
  case (JBool p)
  from canonical_same_kind [OF laws JBool.prems(3,4,7)] JBool.prems(7) show ?case by simp
qed

end
