(* ===== verification/Wire_Authorization.thy ===== *)
theory Wire_Authorization
  imports Canonical
begin

text \<open>
  The authorization half of the execution wire contract (execution.rs): the calls a model
  produced, the prepared requests an application persists, the atomic batch envelope, the
  signed authorization Proxy returns and the pending handle of a human review.

  Every struct is a record whose fields are the source's under a short prefix, with the
  encoder \<open>#[derive(Serialize)]\<close> gives it (members in declaration order), the decoder
  of \<open>#[derive(Deserialize)]\<close> under \<open>deny_unknown_fields\<close>, and an
  \<open>interpretation\<close> of the \<open>codec\<close> interface: a persisted value is read back
  unchanged. \<open>ok_\<close> predicates state the type invariant of the embedded
  \<open>serde_json::Value\<close>s and, for types with identifiers, the round trip of \<open>Uuid\<close>.
\<close>

section \<open>Identifiers and enumerations on the wire\<close>

definition enc_uuid :: "libs \<Rightarrow> uuid \<Rightarrow> json" where
  "enc_uuid L u = JString (uuid_string L u)"

definition dec_uuid :: "libs \<Rightarrow> uuid dec" where
  "dec_uuid L j = (case j of JString s \<Rightarrow> uuid_parse L s | _ \<Rightarrow> None)"

text \<open>A unit variant is its name, or an object whose single member is the name with null.\<close>

definition dec_enum :: "(string \<times> 'a) list \<Rightarrow> 'a dec" where
  "dec_enum table j = (case j of
     JString s \<Rightarrow> map_of table s
   | JObject [(s, JNull)] \<Rightarrow> map_of table s
   | _ \<Rightarrow> None)"

definition is_nil :: "uuid \<Rightarrow> bool" where
  "is_nil u \<longleftrightarrow> u = 0"

lemma dec_enc_uuid [simp]: "uuid_laws L \<Longrightarrow> dec_uuid L (enc_uuid L u) = Some u"
  by (simp add: dec_uuid_def enc_uuid_def uuid_laws_def)

lemma uuid_string_inject: "uuid_laws L \<Longrightarrow> uuid_string L a = uuid_string L b \<longleftrightarrow> a = b"
  by (metis option.inject uuid_laws_def)

lemma dec_value_wf: "json_wf j \<Longrightarrow> dec_value j = Some j"
  by (rule value_codec.read_back)

lemmas read_simps = struct_fields_def need_def opt_def skip_none_def dec_option_def dec_value_wf

section \<open>Structs\<close>

record model_tool_call =
  call_id :: string
  call_name :: string
  call_arguments :: json

definition enc_model_tool_call :: "model_tool_call \<Rightarrow> json" where
  "enc_model_tool_call x = JObject (
    [(''id'', JString (call_id x)),
      (''name'', JString (call_name x)),
      (''arguments'', call_arguments x)])"

definition dec_model_tool_call :: "model_tool_call dec" where
  "dec_model_tool_call j = do {
     f \<leftarrow> struct_fields True
       [''id'', ''name'', ''arguments''] j;
     v1 \<leftarrow> need f ''id'' dec_string;
     v2 \<leftarrow> need f ''name'' dec_string;
     v3 \<leftarrow> need f ''arguments'' dec_value;
     Some \<lparr>call_id = v1,
       call_name = v2,
       call_arguments = v3\<rparr> }"

definition ok_model_tool_call :: "model_tool_call \<Rightarrow> bool" where
  "ok_model_tool_call x \<longleftrightarrow> json_wf (call_arguments x)"

interpretation model_tool_call_codec: codec enc_model_tool_call dec_model_tool_call ok_model_tool_call
  by unfold_locales
    (auto simp: enc_model_tool_call_def dec_model_tool_call_def ok_model_tool_call_def read_simps  split: option.split)

record prepared_tool_request =
  ptr_idempotency_id :: uuid
  ptr_name :: string
  ptr_arguments :: json

definition enc_prepared_tool_request :: "libs \<Rightarrow> prepared_tool_request \<Rightarrow> json" where
  "enc_prepared_tool_request L x = JObject (
    [(''idempotency_id'', enc_uuid L (ptr_idempotency_id x)),
      (''name'', JString (ptr_name x)),
      (''arguments'', ptr_arguments x)])"

definition dec_prepared_tool_request :: "libs \<Rightarrow> prepared_tool_request dec" where
  "dec_prepared_tool_request L j = do {
     f \<leftarrow> struct_fields True
       [''idempotency_id'', ''name'', ''arguments''] j;
     v1 \<leftarrow> need f ''idempotency_id'' (dec_uuid L);
     v2 \<leftarrow> need f ''name'' dec_string;
     v3 \<leftarrow> need f ''arguments'' dec_value;
     Some \<lparr>ptr_idempotency_id = v1,
       ptr_name = v2,
       ptr_arguments = v3\<rparr> }"

definition ok_prepared_tool_request :: "libs \<Rightarrow> prepared_tool_request \<Rightarrow> bool" where
  "ok_prepared_tool_request L x \<longleftrightarrow> uuid_laws L \<and> json_wf (ptr_arguments x)"

interpretation prepared_tool_request_codec: codec "enc_prepared_tool_request L" "dec_prepared_tool_request L" "ok_prepared_tool_request L"
  by unfold_locales
    (auto simp: enc_prepared_tool_request_def dec_prepared_tool_request_def ok_prepared_tool_request_def read_simps  split: option.split)

record prepared_tool_batch =
  ptb_idempotency_id :: uuid
  ptb_calls :: "model_tool_call list"

definition enc_prepared_tool_batch :: "libs \<Rightarrow> prepared_tool_batch \<Rightarrow> json" where
  "enc_prepared_tool_batch L x = JObject (
    [(''idempotency_id'', enc_uuid L (ptb_idempotency_id x)),
      (''calls'', enc_list enc_model_tool_call (ptb_calls x))])"

definition dec_prepared_tool_batch :: "libs \<Rightarrow> prepared_tool_batch dec" where
  "dec_prepared_tool_batch L j = do {
     f \<leftarrow> struct_fields True
       [''idempotency_id'', ''calls''] j;
     v1 \<leftarrow> need f ''idempotency_id'' (dec_uuid L);
     v2 \<leftarrow> need f ''calls'' (dec_list dec_model_tool_call);
     Some \<lparr>ptb_idempotency_id = v1,
       ptb_calls = v2\<rparr> }"

definition ok_prepared_tool_batch :: "libs \<Rightarrow> prepared_tool_batch \<Rightarrow> bool" where
  "ok_prepared_tool_batch L x \<longleftrightarrow> uuid_laws L \<and> list_all ok_model_tool_call (ptb_calls x)"

interpretation prepared_tool_batch_codec: codec "enc_prepared_tool_batch L" "dec_prepared_tool_batch L" "ok_prepared_tool_batch L"
  by unfold_locales
    (auto simp: enc_prepared_tool_batch_def dec_prepared_tool_batch_def ok_prepared_tool_batch_def read_simps model_tool_call_codec.read_back_list split: option.split)

record atomic_batch_arguments =
  ba_contract :: string
  ba_calls :: "model_tool_call list"

definition enc_atomic_batch_arguments :: "atomic_batch_arguments \<Rightarrow> json" where
  "enc_atomic_batch_arguments x = JObject (
    [(''contract'', JString (ba_contract x)),
      (''calls'', enc_list enc_model_tool_call (ba_calls x))])"

definition dec_atomic_batch_arguments :: "atomic_batch_arguments dec" where
  "dec_atomic_batch_arguments j = do {
     f \<leftarrow> struct_fields True
       [''contract'', ''calls''] j;
     v1 \<leftarrow> need f ''contract'' dec_string;
     v2 \<leftarrow> need f ''calls'' (dec_list dec_model_tool_call);
     Some \<lparr>ba_contract = v1,
       ba_calls = v2\<rparr> }"

definition ok_atomic_batch_arguments :: "atomic_batch_arguments \<Rightarrow> bool" where
  "ok_atomic_batch_arguments x \<longleftrightarrow> list_all ok_model_tool_call (ba_calls x)"

interpretation atomic_batch_arguments_codec: codec enc_atomic_batch_arguments dec_atomic_batch_arguments ok_atomic_batch_arguments
  by unfold_locales
    (auto simp: enc_atomic_batch_arguments_def dec_atomic_batch_arguments_def ok_atomic_batch_arguments_def read_simps model_tool_call_codec.read_back_list split: option.split)

record atomic_batch_params =
  bp_name :: string
  bp_arguments :: atomic_batch_arguments

definition enc_atomic_batch_params :: "atomic_batch_params \<Rightarrow> json" where
  "enc_atomic_batch_params x = JObject (
    [(''name'', JString (bp_name x)),
      (''arguments'', enc_atomic_batch_arguments (bp_arguments x))])"

definition dec_atomic_batch_params :: "atomic_batch_params dec" where
  "dec_atomic_batch_params j = do {
     f \<leftarrow> struct_fields True
       [''name'', ''arguments''] j;
     v1 \<leftarrow> need f ''name'' dec_string;
     v2 \<leftarrow> need f ''arguments'' dec_atomic_batch_arguments;
     Some \<lparr>bp_name = v1,
       bp_arguments = v2\<rparr> }"

definition ok_atomic_batch_params :: "atomic_batch_params \<Rightarrow> bool" where
  "ok_atomic_batch_params x \<longleftrightarrow> ok_atomic_batch_arguments (bp_arguments x)"

interpretation atomic_batch_params_codec: codec enc_atomic_batch_params dec_atomic_batch_params ok_atomic_batch_params
  by unfold_locales
    (auto simp: enc_atomic_batch_params_def dec_atomic_batch_params_def ok_atomic_batch_params_def read_simps atomic_batch_arguments_codec.read_back split: option.split)

record atomic_batch_envelope_t =
  be_jsonrpc :: string
  be_id :: string
  be_method :: string
  be_params :: atomic_batch_params

definition enc_atomic_batch_envelope_t :: "atomic_batch_envelope_t \<Rightarrow> json" where
  "enc_atomic_batch_envelope_t x = JObject (
    [(''jsonrpc'', JString (be_jsonrpc x)),
      (''id'', JString (be_id x)),
      (''method'', JString (be_method x)),
      (''params'', enc_atomic_batch_params (be_params x))])"

definition dec_atomic_batch_envelope_t :: "atomic_batch_envelope_t dec" where
  "dec_atomic_batch_envelope_t j = do {
     f \<leftarrow> struct_fields True
       [''jsonrpc'', ''id'', ''method'', ''params''] j;
     v1 \<leftarrow> need f ''jsonrpc'' dec_string;
     v2 \<leftarrow> need f ''id'' dec_string;
     v3 \<leftarrow> need f ''method'' dec_string;
     v4 \<leftarrow> need f ''params'' dec_atomic_batch_params;
     Some \<lparr>be_jsonrpc = v1,
       be_id = v2,
       be_method = v3,
       be_params = v4\<rparr> }"

definition ok_atomic_batch_envelope_t :: "atomic_batch_envelope_t \<Rightarrow> bool" where
  "ok_atomic_batch_envelope_t x \<longleftrightarrow> ok_atomic_batch_params (be_params x)"

interpretation atomic_batch_envelope_t_codec: codec enc_atomic_batch_envelope_t dec_atomic_batch_envelope_t ok_atomic_batch_envelope_t
  by unfold_locales
    (auto simp: enc_atomic_batch_envelope_t_def dec_atomic_batch_envelope_t_def ok_atomic_batch_envelope_t_def read_simps atomic_batch_params_codec.read_back split: option.split)

record identity_signature =
  is_algorithm :: string
  is_key_id :: string
  is_value :: string

definition enc_identity_signature :: "identity_signature \<Rightarrow> json" where
  "enc_identity_signature x = JObject (
    [(''algorithm'', JString (is_algorithm x)),
      (''key_id'', JString (is_key_id x)),
      (''value'', JString (is_value x))])"

definition dec_identity_signature :: "identity_signature dec" where
  "dec_identity_signature j = do {
     f \<leftarrow> struct_fields True
       [''algorithm'', ''key_id'', ''value''] j;
     v1 \<leftarrow> need f ''algorithm'' dec_string;
     v2 \<leftarrow> need f ''key_id'' dec_string;
     v3 \<leftarrow> need f ''value'' dec_string;
     Some \<lparr>is_algorithm = v1,
       is_key_id = v2,
       is_value = v3\<rparr> }"

interpretation identity_signature_codec: codec enc_identity_signature dec_identity_signature "\<lambda>_. True"
  by unfold_locales
    (auto simp: enc_identity_signature_def dec_identity_signature_def read_simps  split: option.split)

record policy_bundle_provenance =
  pb_schema_version :: u8
  pb_version :: string
  pb_hash_sha256 :: string
  pb_policy_count :: usize

definition enc_policy_bundle_provenance :: "policy_bundle_provenance \<Rightarrow> json" where
  "enc_policy_bundle_provenance x = JObject (
    [(''schema_version'', enc_u8 (pb_schema_version x)),
      (''version'', JString (pb_version x)),
      (''hash_sha256'', JString (pb_hash_sha256 x)),
      (''policy_count'', enc_u64 (pb_policy_count x))])"

definition dec_policy_bundle_provenance :: "policy_bundle_provenance dec" where
  "dec_policy_bundle_provenance j = do {
     f \<leftarrow> struct_fields True
       [''schema_version'', ''version'', ''hash_sha256'', ''policy_count''] j;
     v1 \<leftarrow> need f ''schema_version'' dec_u8;
     v2 \<leftarrow> need f ''version'' dec_string;
     v3 \<leftarrow> need f ''hash_sha256'' dec_string;
     v4 \<leftarrow> need f ''policy_count'' dec_u64;
     Some \<lparr>pb_schema_version = v1,
       pb_version = v2,
       pb_hash_sha256 = v3,
       pb_policy_count = v4\<rparr> }"

interpretation policy_bundle_provenance_codec: codec enc_policy_bundle_provenance dec_policy_bundle_provenance "\<lambda>_. True"
  by unfold_locales
    (auto simp: enc_policy_bundle_provenance_def dec_policy_bundle_provenance_def read_simps  split: option.split)

record authorization_claims =
  az_contract :: string
  az_stage :: string
  az_authorization_id :: uuid
  az_idempotency_id :: uuid
  az_correlation_id :: uuid
  az_agent_id :: string
  az_agent_spiffe :: string
  az_tenant :: string
  az_credential_fingerprint :: string
  az_method :: string
  az_tool_name :: string
  az_execution_payload :: json
  az_payload_sha256 :: string
  az_decision_principal :: json
  az_modification_diff :: "json option"
  az_policy_bundle :: policy_bundle_provenance
  az_brain_version :: string
  az_brain_evidence_sha256 :: string

definition enc_authorization_claims :: "libs \<Rightarrow> authorization_claims \<Rightarrow> json" where
  "enc_authorization_claims L x = JObject (
    [(''contract'', JString (az_contract x)),
      (''stage'', JString (az_stage x)),
      (''authorization_id'', enc_uuid L (az_authorization_id x)),
      (''idempotency_id'', enc_uuid L (az_idempotency_id x)),
      (''correlation_id'', enc_uuid L (az_correlation_id x)),
      (''agent_id'', JString (az_agent_id x)),
      (''agent_spiffe'', JString (az_agent_spiffe x)),
      (''tenant'', JString (az_tenant x)),
      (''credential_fingerprint'', JString (az_credential_fingerprint x)),
      (''method'', JString (az_method x)),
      (''tool_name'', JString (az_tool_name x)),
      (''execution_payload'', az_execution_payload x),
      (''payload_sha256'', JString (az_payload_sha256 x)),
      (''decision_principal'', az_decision_principal x)]
    @ skip_none ''modification_diff'' (\<lambda>j. j) (az_modification_diff x)
    @ [(''policy_bundle'', enc_policy_bundle_provenance (az_policy_bundle x)),
      (''brain_version'', JString (az_brain_version x)),
      (''brain_evidence_sha256'', JString (az_brain_evidence_sha256 x))])"

definition dec_authorization_claims :: "libs \<Rightarrow> authorization_claims dec" where
  "dec_authorization_claims L j = do {
     f \<leftarrow> struct_fields True
       [''contract'', ''stage'', ''authorization_id'', ''idempotency_id'',
        ''correlation_id'', ''agent_id'', ''agent_spiffe'', ''tenant'',
        ''credential_fingerprint'', ''method'', ''tool_name'', ''execution_payload'',
        ''payload_sha256'', ''decision_principal'', ''modification_diff'',
        ''policy_bundle'', ''brain_version'', ''brain_evidence_sha256''] j;
     v1 \<leftarrow> need f ''contract'' dec_string;
     v2 \<leftarrow> need f ''stage'' dec_string;
     v3 \<leftarrow> need f ''authorization_id'' (dec_uuid L);
     v4 \<leftarrow> need f ''idempotency_id'' (dec_uuid L);
     v5 \<leftarrow> need f ''correlation_id'' (dec_uuid L);
     v6 \<leftarrow> need f ''agent_id'' dec_string;
     v7 \<leftarrow> need f ''agent_spiffe'' dec_string;
     v8 \<leftarrow> need f ''tenant'' dec_string;
     v9 \<leftarrow> need f ''credential_fingerprint'' dec_string;
     v10 \<leftarrow> need f ''method'' dec_string;
     v11 \<leftarrow> need f ''tool_name'' dec_string;
     v12 \<leftarrow> need f ''execution_payload'' dec_value;
     v13 \<leftarrow> need f ''payload_sha256'' dec_string;
     v14 \<leftarrow> need f ''decision_principal'' dec_value;
     v15 \<leftarrow> opt f ''modification_diff'' dec_value;
     v16 \<leftarrow> need f ''policy_bundle'' dec_policy_bundle_provenance;
     v17 \<leftarrow> need f ''brain_version'' dec_string;
     v18 \<leftarrow> need f ''brain_evidence_sha256'' dec_string;
     Some \<lparr>az_contract = v1,
       az_stage = v2,
       az_authorization_id = v3,
       az_idempotency_id = v4,
       az_correlation_id = v5,
       az_agent_id = v6,
       az_agent_spiffe = v7,
       az_tenant = v8,
       az_credential_fingerprint = v9,
       az_method = v10,
       az_tool_name = v11,
       az_execution_payload = v12,
       az_payload_sha256 = v13,
       az_decision_principal = v14,
       az_modification_diff = v15,
       az_policy_bundle = v16,
       az_brain_version = v17,
       az_brain_evidence_sha256 = v18\<rparr> }"

definition ok_authorization_claims :: "libs \<Rightarrow> authorization_claims \<Rightarrow> bool" where
  "ok_authorization_claims L x \<longleftrightarrow> uuid_laws L \<and> json_wf (az_execution_payload x) \<and> json_wf (az_decision_principal x) \<and> pred_option (\<lambda>j. json_wf j \<and> j \<noteq> JNull) (az_modification_diff x)"

interpretation authorization_claims_codec: codec "enc_authorization_claims L" "dec_authorization_claims L" "ok_authorization_claims L"
  by unfold_locales
    (auto simp: enc_authorization_claims_def dec_authorization_claims_def ok_authorization_claims_def read_simps policy_bundle_provenance_codec.read_back split: option.split)

record signed_authorization =
  authorization :: authorization_claims
  identity_sig :: identity_signature

definition enc_signed_authorization :: "libs \<Rightarrow> signed_authorization \<Rightarrow> json" where
  "enc_signed_authorization L x = JObject (
    [(''authorization'', enc_authorization_claims L (authorization x)),
      (''identity_signature'', enc_identity_signature (identity_sig x))])"

definition dec_signed_authorization :: "libs \<Rightarrow> signed_authorization dec" where
  "dec_signed_authorization L j = do {
     f \<leftarrow> struct_fields True
       [''authorization'', ''identity_signature''] j;
     v1 \<leftarrow> need f ''authorization'' (dec_authorization_claims L);
     v2 \<leftarrow> need f ''identity_signature'' dec_identity_signature;
     Some \<lparr>authorization = v1,
       identity_sig = v2\<rparr> }"

definition ok_signed_authorization :: "libs \<Rightarrow> signed_authorization \<Rightarrow> bool" where
  "ok_signed_authorization L x \<longleftrightarrow> uuid_laws L \<and> ok_authorization_claims L (authorization x)"

interpretation signed_authorization_codec: codec "enc_signed_authorization L" "dec_signed_authorization L" "ok_signed_authorization L"
  by unfold_locales
    (auto simp: enc_signed_authorization_def dec_signed_authorization_def ok_signed_authorization_def read_simps authorization_claims_codec.read_back identity_signature_codec.read_back split: option.split)

record pending_authorization =
  pa_contract :: string
  pa_status :: string
  pa_pending_id :: uuid
  pa_idempotency_id :: uuid
  pa_correlation_id :: uuid
  pa_payload_sha256 :: string
  pa_ttl_seconds :: i64
  pa_poll_after_ms :: u64

definition enc_pending_authorization :: "libs \<Rightarrow> pending_authorization \<Rightarrow> json" where
  "enc_pending_authorization L x = JObject (
    [(''contract'', JString (pa_contract x)),
      (''status'', JString (pa_status x)),
      (''pending_id'', enc_uuid L (pa_pending_id x)),
      (''idempotency_id'', enc_uuid L (pa_idempotency_id x)),
      (''correlation_id'', enc_uuid L (pa_correlation_id x)),
      (''payload_sha256'', JString (pa_payload_sha256 x)),
      (''ttl_seconds'', enc_i64 (pa_ttl_seconds x)),
      (''poll_after_ms'', enc_u64 (pa_poll_after_ms x))])"

definition dec_pending_authorization :: "libs \<Rightarrow> pending_authorization dec" where
  "dec_pending_authorization L j = do {
     f \<leftarrow> struct_fields True
       [''contract'', ''status'', ''pending_id'', ''idempotency_id'', ''correlation_id'',
        ''payload_sha256'', ''ttl_seconds'', ''poll_after_ms''] j;
     v1 \<leftarrow> need f ''contract'' dec_string;
     v2 \<leftarrow> need f ''status'' dec_string;
     v3 \<leftarrow> need f ''pending_id'' (dec_uuid L);
     v4 \<leftarrow> need f ''idempotency_id'' (dec_uuid L);
     v5 \<leftarrow> need f ''correlation_id'' (dec_uuid L);
     v6 \<leftarrow> need f ''payload_sha256'' dec_string;
     v7 \<leftarrow> need f ''ttl_seconds'' dec_i64;
     v8 \<leftarrow> need f ''poll_after_ms'' dec_u64;
     Some \<lparr>pa_contract = v1,
       pa_status = v2,
       pa_pending_id = v3,
       pa_idempotency_id = v4,
       pa_correlation_id = v5,
       pa_payload_sha256 = v6,
       pa_ttl_seconds = v7,
       pa_poll_after_ms = v8\<rparr> }"

definition ok_pending_authorization :: "libs \<Rightarrow> pending_authorization \<Rightarrow> bool" where
  "ok_pending_authorization L x \<longleftrightarrow> uuid_laws L"

interpretation pending_authorization_codec: codec "enc_pending_authorization L" "dec_pending_authorization L" "ok_pending_authorization L"
  by unfold_locales
    (auto simp: enc_pending_authorization_def dec_pending_authorization_def ok_pending_authorization_def read_simps  split: option.split)

end
