(* ===== verification/Wire_Execution.thy ===== *)
theory Wire_Execution
  imports Wire_Authorization
begin

text \<open>
  The execution half of the wire contract (execution.rs) and the error type of the crate
  (error.rs): intents, effects, receipts, the durable outbox entry, the explicit handle of
  an uncertain effect, and the outcomes the operations return. Records, encoders and
  decoders follow the conventions of \<open>Wire_Authorization\<close>.
\<close>

section \<open>Receipts\<close>

record workload_signature =
  wl_algorithm :: string
  wl_credential_fingerprint :: string
  wl_value :: string

definition enc_workload_signature :: "workload_signature \<Rightarrow> json" where
  "enc_workload_signature x = JObject (
    [(''algorithm'', JString (wl_algorithm x)),
      (''credential_fingerprint'', JString (wl_credential_fingerprint x)),
      (''value'', JString (wl_value x))])"

definition dec_workload_signature :: "workload_signature dec" where
  "dec_workload_signature j = do {
     f \<leftarrow> struct_fields True
       [''algorithm'', ''credential_fingerprint'', ''value''] j;
     v1 \<leftarrow> need f ''algorithm'' dec_string;
     v2 \<leftarrow> need f ''credential_fingerprint'' dec_string;
     v3 \<leftarrow> need f ''value'' dec_string;
     Some \<lparr>wl_algorithm = v1,
       wl_credential_fingerprint = v2,
       wl_value = v3\<rparr> }"

interpretation workload_signature_codec: codec enc_workload_signature dec_workload_signature "\<lambda>_. True"
  by unfold_locales
    (auto simp: enc_workload_signature_def dec_workload_signature_def read_simps  split: option.split)

record execution_receipt =
  rc_contract :: string
  rc_stage :: string
  rc_authorization_id :: uuid
  rc_idempotency_id :: uuid
  rc_correlation_id :: uuid
  rc_agent_id :: string
  rc_agent_spiffe :: string
  rc_tenant :: string
  rc_credential_fingerprint :: string
  rc_method :: string
  rc_payload_sha256 :: string
  rc_authorization :: signed_authorization
  rc_result_sha256 :: string
  rc_effect_id :: string
  rc_workload_signature :: workload_signature

definition enc_execution_receipt :: "libs \<Rightarrow> execution_receipt \<Rightarrow> json" where
  "enc_execution_receipt L x = JObject (
    [(''contract'', JString (rc_contract x)),
      (''stage'', JString (rc_stage x)),
      (''authorization_id'', enc_uuid L (rc_authorization_id x)),
      (''idempotency_id'', enc_uuid L (rc_idempotency_id x)),
      (''correlation_id'', enc_uuid L (rc_correlation_id x)),
      (''agent_id'', JString (rc_agent_id x)),
      (''agent_spiffe'', JString (rc_agent_spiffe x)),
      (''tenant'', JString (rc_tenant x)),
      (''credential_fingerprint'', JString (rc_credential_fingerprint x)),
      (''method'', JString (rc_method x)),
      (''payload_sha256'', JString (rc_payload_sha256 x)),
      (''authorization'', enc_signed_authorization L (rc_authorization x)),
      (''result_sha256'', JString (rc_result_sha256 x)),
      (''effect_id'', JString (rc_effect_id x)),
      (''workload_signature'', enc_workload_signature (rc_workload_signature x))])"

definition dec_execution_receipt :: "libs \<Rightarrow> execution_receipt dec" where
  "dec_execution_receipt L j = do {
     f \<leftarrow> struct_fields True
       [''contract'', ''stage'', ''authorization_id'', ''idempotency_id'',
        ''correlation_id'', ''agent_id'', ''agent_spiffe'', ''tenant'',
        ''credential_fingerprint'', ''method'', ''payload_sha256'', ''authorization'',
        ''result_sha256'', ''effect_id'', ''workload_signature''] j;
     v1 \<leftarrow> need f ''contract'' dec_string;
     v2 \<leftarrow> need f ''stage'' dec_string;
     v3 \<leftarrow> need f ''authorization_id'' (dec_uuid L);
     v4 \<leftarrow> need f ''idempotency_id'' (dec_uuid L);
     v5 \<leftarrow> need f ''correlation_id'' (dec_uuid L);
     v6 \<leftarrow> need f ''agent_id'' dec_string;
     v7 \<leftarrow> need f ''agent_spiffe'' dec_string;
     v8 \<leftarrow> need f ''tenant'' dec_string;
     v9 \<leftarrow> need f ''credential_fingerprint'' dec_string;
     v10 \<leftarrow> need f ''method'' dec_string;
     v11 \<leftarrow> need f ''payload_sha256'' dec_string;
     v12 \<leftarrow> need f ''authorization'' (dec_signed_authorization L);
     v13 \<leftarrow> need f ''result_sha256'' dec_string;
     v14 \<leftarrow> need f ''effect_id'' dec_string;
     v15 \<leftarrow> need f ''workload_signature'' dec_workload_signature;
     Some \<lparr>rc_contract = v1,
       rc_stage = v2,
       rc_authorization_id = v3,
       rc_idempotency_id = v4,
       rc_correlation_id = v5,
       rc_agent_id = v6,
       rc_agent_spiffe = v7,
       rc_tenant = v8,
       rc_credential_fingerprint = v9,
       rc_method = v10,
       rc_payload_sha256 = v11,
       rc_authorization = v12,
       rc_result_sha256 = v13,
       rc_effect_id = v14,
       rc_workload_signature = v15\<rparr> }"

definition ok_execution_receipt :: "libs \<Rightarrow> execution_receipt \<Rightarrow> bool" where
  "ok_execution_receipt L x \<longleftrightarrow> uuid_laws L \<and> ok_signed_authorization L (rc_authorization x)"

interpretation execution_receipt_codec: codec "enc_execution_receipt L" "dec_execution_receipt L" "ok_execution_receipt L"
  by unfold_locales
    (auto simp: enc_execution_receipt_def dec_execution_receipt_def ok_execution_receipt_def read_simps signed_authorization_codec.read_back workload_signature_codec.read_back split: option.split)

record unsigned_execution_receipt =
  ur_contract :: string
  ur_stage :: string
  ur_authorization_id :: uuid
  ur_idempotency_id :: uuid
  ur_correlation_id :: uuid
  ur_agent_id :: string
  ur_agent_spiffe :: string
  ur_tenant :: string
  ur_credential_fingerprint :: string
  ur_method :: string
  ur_payload_sha256 :: string
  ur_authorization :: signed_authorization
  ur_result_sha256 :: string
  ur_effect_id :: string

definition enc_unsigned_execution_receipt :: "libs \<Rightarrow> unsigned_execution_receipt \<Rightarrow> json" where
  "enc_unsigned_execution_receipt L x = JObject (
    [(''contract'', JString (ur_contract x)),
      (''stage'', JString (ur_stage x)),
      (''authorization_id'', enc_uuid L (ur_authorization_id x)),
      (''idempotency_id'', enc_uuid L (ur_idempotency_id x)),
      (''correlation_id'', enc_uuid L (ur_correlation_id x)),
      (''agent_id'', JString (ur_agent_id x)),
      (''agent_spiffe'', JString (ur_agent_spiffe x)),
      (''tenant'', JString (ur_tenant x)),
      (''credential_fingerprint'', JString (ur_credential_fingerprint x)),
      (''method'', JString (ur_method x)),
      (''payload_sha256'', JString (ur_payload_sha256 x)),
      (''authorization'', enc_signed_authorization L (ur_authorization x)),
      (''result_sha256'', JString (ur_result_sha256 x)),
      (''effect_id'', JString (ur_effect_id x))])"

record receipt_outbox_entry =
  ob_outbox_id :: string
  ob_receipt :: execution_receipt

definition enc_receipt_outbox_entry :: "libs \<Rightarrow> receipt_outbox_entry \<Rightarrow> json" where
  "enc_receipt_outbox_entry L x = JObject (
    [(''outbox_id'', JString (ob_outbox_id x)),
      (''receipt'', enc_execution_receipt L (ob_receipt x))])"

definition dec_receipt_outbox_entry :: "libs \<Rightarrow> receipt_outbox_entry dec" where
  "dec_receipt_outbox_entry L j = do {
     f \<leftarrow> struct_fields True
       [''outbox_id'', ''receipt''] j;
     v1 \<leftarrow> need f ''outbox_id'' dec_string;
     v2 \<leftarrow> need f ''receipt'' (dec_execution_receipt L);
     Some \<lparr>ob_outbox_id = v1,
       ob_receipt = v2\<rparr> }"

definition ok_receipt_outbox_entry :: "libs \<Rightarrow> receipt_outbox_entry \<Rightarrow> bool" where
  "ok_receipt_outbox_entry L x \<longleftrightarrow> uuid_laws L \<and> ok_execution_receipt L (ob_receipt x)"

interpretation receipt_outbox_entry_codec: codec "enc_receipt_outbox_entry L" "dec_receipt_outbox_entry L" "ok_receipt_outbox_entry L"
  by unfold_locales
    (auto simp: enc_receipt_outbox_entry_def dec_receipt_outbox_entry_def ok_receipt_outbox_entry_def read_simps execution_receipt_codec.read_back split: option.split)

record receipt_recorded =
  rr_status :: string
  rr_contract :: string
  rr_stage :: string
  rr_authorization_id :: uuid
  rr_receipt_sha256 :: string

definition enc_receipt_recorded :: "libs \<Rightarrow> receipt_recorded \<Rightarrow> json" where
  "enc_receipt_recorded L x = JObject (
    [(''status'', JString (rr_status x)),
      (''contract'', JString (rr_contract x)),
      (''stage'', JString (rr_stage x)),
      (''authorization_id'', enc_uuid L (rr_authorization_id x)),
      (''receipt_sha256'', JString (rr_receipt_sha256 x))])"

definition dec_receipt_recorded :: "libs \<Rightarrow> receipt_recorded dec" where
  "dec_receipt_recorded L j = do {
     f \<leftarrow> struct_fields True
       [''status'', ''contract'', ''stage'', ''authorization_id'', ''receipt_sha256''] j;
     v1 \<leftarrow> need f ''status'' dec_string;
     v2 \<leftarrow> need f ''contract'' dec_string;
     v3 \<leftarrow> need f ''stage'' dec_string;
     v4 \<leftarrow> need f ''authorization_id'' (dec_uuid L);
     v5 \<leftarrow> need f ''receipt_sha256'' dec_string;
     Some \<lparr>rr_status = v1,
       rr_contract = v2,
       rr_stage = v3,
       rr_authorization_id = v4,
       rr_receipt_sha256 = v5\<rparr> }"

definition ok_receipt_recorded :: "libs \<Rightarrow> receipt_recorded \<Rightarrow> bool" where
  "ok_receipt_recorded L x \<longleftrightarrow> uuid_laws L"

interpretation receipt_recorded_codec: codec "enc_receipt_recorded L" "dec_receipt_recorded L" "ok_receipt_recorded L"
  by unfold_locales
    (auto simp: enc_receipt_recorded_def dec_receipt_recorded_def ok_receipt_recorded_def read_simps  split: option.split)

text \<open>\<open>PartialEq\<close> of the records that embed values.\<close>

definition norm_signed :: "signed_authorization \<Rightarrow> signed_authorization" where
  "norm_signed sa = sa\<lparr>authorization := (authorization sa)\<lparr>
     az_execution_payload := zero_norm (az_execution_payload (authorization sa)),
     az_decision_principal := zero_norm (az_decision_principal (authorization sa)),
     az_modification_diff := map_option zero_norm (az_modification_diff (authorization sa))\<rparr>\<rparr>"

definition receipt_eq :: "execution_receipt \<Rightarrow> execution_receipt \<Rightarrow> bool" where
  "receipt_eq a b \<longleftrightarrow> a\<lparr>rc_authorization := norm_signed (rc_authorization a)\<rparr>
     = b\<lparr>rc_authorization := norm_signed (rc_authorization b)\<rparr>"

lemma receipt_eq_refl [simp]: "receipt_eq r r"
  by (simp add: receipt_eq_def)

section \<open>Intents and effects\<close>

record execution_intent =
  in_contract :: string
  in_stage :: string
  in_authorization_id :: uuid
  in_idempotency_id :: uuid
  in_tenant :: string
  in_workload_id :: string
  in_workload_spiffe :: string
  in_payload_sha256 :: string
  in_executor_id :: string
  in_authorization :: signed_authorization

definition enc_execution_intent :: "libs \<Rightarrow> execution_intent \<Rightarrow> json" where
  "enc_execution_intent L x = JObject (
    [(''contract'', JString (in_contract x)),
      (''stage'', JString (in_stage x)),
      (''authorization_id'', enc_uuid L (in_authorization_id x)),
      (''idempotency_id'', enc_uuid L (in_idempotency_id x)),
      (''tenant'', JString (in_tenant x)),
      (''workload_id'', JString (in_workload_id x)),
      (''workload_spiffe'', JString (in_workload_spiffe x)),
      (''payload_sha256'', JString (in_payload_sha256 x)),
      (''executor_id'', JString (in_executor_id x)),
      (''authorization'', enc_signed_authorization L (in_authorization x))])"

definition dec_execution_intent :: "libs \<Rightarrow> execution_intent dec" where
  "dec_execution_intent L j = do {
     f \<leftarrow> struct_fields True
       [''contract'', ''stage'', ''authorization_id'', ''idempotency_id'', ''tenant'',
        ''workload_id'', ''workload_spiffe'', ''payload_sha256'', ''executor_id'',
        ''authorization''] j;
     v1 \<leftarrow> need f ''contract'' dec_string;
     v2 \<leftarrow> need f ''stage'' dec_string;
     v3 \<leftarrow> need f ''authorization_id'' (dec_uuid L);
     v4 \<leftarrow> need f ''idempotency_id'' (dec_uuid L);
     v5 \<leftarrow> need f ''tenant'' dec_string;
     v6 \<leftarrow> need f ''workload_id'' dec_string;
     v7 \<leftarrow> need f ''workload_spiffe'' dec_string;
     v8 \<leftarrow> need f ''payload_sha256'' dec_string;
     v9 \<leftarrow> need f ''executor_id'' dec_string;
     v10 \<leftarrow> need f ''authorization'' (dec_signed_authorization L);
     Some \<lparr>in_contract = v1,
       in_stage = v2,
       in_authorization_id = v3,
       in_idempotency_id = v4,
       in_tenant = v5,
       in_workload_id = v6,
       in_workload_spiffe = v7,
       in_payload_sha256 = v8,
       in_executor_id = v9,
       in_authorization = v10\<rparr> }"

definition ok_execution_intent :: "libs \<Rightarrow> execution_intent \<Rightarrow> bool" where
  "ok_execution_intent L x \<longleftrightarrow> uuid_laws L \<and> ok_signed_authorization L (in_authorization x)"

interpretation execution_intent_codec: codec "enc_execution_intent L" "dec_execution_intent L" "ok_execution_intent L"
  by unfold_locales
    (auto simp: enc_execution_intent_def dec_execution_intent_def ok_execution_intent_def read_simps signed_authorization_codec.read_back split: option.split)

definition intent_eq :: "execution_intent \<Rightarrow> execution_intent \<Rightarrow> bool" where
  "intent_eq a b \<longleftrightarrow> a\<lparr>in_authorization := norm_signed (in_authorization a)\<rparr>
     = b\<lparr>in_authorization := norm_signed (in_authorization b)\<rparr>"

lemma intent_eq_refl [simp]: "intent_eq i i"
  by (simp add: intent_eq_def)

datatype effect_authorization_use =
    Direct
  | SingleUse

fun enc_effect_authorization_use :: "effect_authorization_use \<Rightarrow> json" where
  "enc_effect_authorization_use Direct = JString ''direct''"
| "enc_effect_authorization_use SingleUse = JString ''single_use''"

definition dec_effect_authorization_use :: "effect_authorization_use dec" where
  "dec_effect_authorization_use = dec_enum [(''direct'', Direct),
     (''single_use'', SingleUse)]"

lemma dec_enc_effect_authorization_use [simp]: "dec_effect_authorization_use (enc_effect_authorization_use x) = Some x"
  by (cases x) (simp_all add: dec_effect_authorization_use_def dec_enum_def)

datatype effect_attempt_claim =
    Started
  | AlreadyInFlight
  | AlreadyCompleted

fun enc_effect_attempt_claim :: "effect_attempt_claim \<Rightarrow> json" where
  "enc_effect_attempt_claim Started = JString ''started''"
| "enc_effect_attempt_claim AlreadyInFlight = JString ''already_in_flight''"
| "enc_effect_attempt_claim AlreadyCompleted = JString ''already_completed''"

definition dec_effect_attempt_claim :: "effect_attempt_claim dec" where
  "dec_effect_attempt_claim = dec_enum [(''started'', Started),
     (''already_in_flight'', AlreadyInFlight),
     (''already_completed'', AlreadyCompleted)]"

lemma dec_enc_effect_attempt_claim [simp]: "dec_effect_attempt_claim (enc_effect_attempt_claim x) = Some x"
  by (cases x) (simp_all add: dec_effect_attempt_claim_def dec_enum_def)

datatype authorization_claim = Claimed | AlreadyClaimed

record tool_execution_request =
  rq_idempotency_id :: uuid
  rq_authorization_id :: uuid
  rq_executor_id :: string
  rq_execution_payload :: json

definition enc_tool_execution_request :: "libs \<Rightarrow> tool_execution_request \<Rightarrow> json" where
  "enc_tool_execution_request L x = JObject (
    [(''idempotency_id'', enc_uuid L (rq_idempotency_id x)),
      (''authorization_id'', enc_uuid L (rq_authorization_id x)),
      (''executor_id'', JString (rq_executor_id x)),
      (''execution_payload'', rq_execution_payload x)])"

definition dec_tool_execution_request :: "libs \<Rightarrow> tool_execution_request dec" where
  "dec_tool_execution_request L j = do {
     f \<leftarrow> struct_fields True
       [''idempotency_id'', ''authorization_id'', ''executor_id'', ''execution_payload''] j;
     v1 \<leftarrow> need f ''idempotency_id'' (dec_uuid L);
     v2 \<leftarrow> need f ''authorization_id'' (dec_uuid L);
     v3 \<leftarrow> need f ''executor_id'' dec_string;
     v4 \<leftarrow> need f ''execution_payload'' dec_value;
     Some \<lparr>rq_idempotency_id = v1,
       rq_authorization_id = v2,
       rq_executor_id = v3,
       rq_execution_payload = v4\<rparr> }"

definition ok_tool_execution_request :: "libs \<Rightarrow> tool_execution_request \<Rightarrow> bool" where
  "ok_tool_execution_request L x \<longleftrightarrow> uuid_laws L \<and> json_wf (rq_execution_payload x)"

interpretation tool_execution_request_codec: codec "enc_tool_execution_request L" "dec_tool_execution_request L" "ok_tool_execution_request L"
  by unfold_locales
    (auto simp: enc_tool_execution_request_def dec_tool_execution_request_def ok_tool_execution_request_def read_simps  split: option.split)

record effect_lookup_request =
  lk_authorization_id :: uuid
  lk_idempotency_id :: uuid
  lk_executor_id :: string
  lk_payload_sha256 :: string

definition enc_effect_lookup_request :: "libs \<Rightarrow> effect_lookup_request \<Rightarrow> json" where
  "enc_effect_lookup_request L x = JObject (
    [(''authorization_id'', enc_uuid L (lk_authorization_id x)),
      (''idempotency_id'', enc_uuid L (lk_idempotency_id x)),
      (''executor_id'', JString (lk_executor_id x)),
      (''payload_sha256'', JString (lk_payload_sha256 x))])"

definition dec_effect_lookup_request :: "libs \<Rightarrow> effect_lookup_request dec" where
  "dec_effect_lookup_request L j = do {
     f \<leftarrow> struct_fields True
       [''authorization_id'', ''idempotency_id'', ''executor_id'', ''payload_sha256''] j;
     v1 \<leftarrow> need f ''authorization_id'' (dec_uuid L);
     v2 \<leftarrow> need f ''idempotency_id'' (dec_uuid L);
     v3 \<leftarrow> need f ''executor_id'' dec_string;
     v4 \<leftarrow> need f ''payload_sha256'' dec_string;
     Some \<lparr>lk_authorization_id = v1,
       lk_idempotency_id = v2,
       lk_executor_id = v3,
       lk_payload_sha256 = v4\<rparr> }"

definition ok_effect_lookup_request :: "libs \<Rightarrow> effect_lookup_request \<Rightarrow> bool" where
  "ok_effect_lookup_request L x \<longleftrightarrow> uuid_laws L"

interpretation effect_lookup_request_codec: codec "enc_effect_lookup_request L" "dec_effect_lookup_request L" "ok_effect_lookup_request L"
  by unfold_locales
    (auto simp: enc_effect_lookup_request_def dec_effect_lookup_request_def ok_effect_lookup_request_def read_simps  split: option.split)

record execution_effect =
  ef_result :: json
  ef_effect_id :: string

definition enc_execution_effect :: "execution_effect \<Rightarrow> json" where
  "enc_execution_effect x = JObject (
    [(''result'', ef_result x),
      (''effect_id'', JString (ef_effect_id x))])"

definition dec_execution_effect :: "execution_effect dec" where
  "dec_execution_effect j = do {
     f \<leftarrow> struct_fields True
       [''result'', ''effect_id''] j;
     v1 \<leftarrow> need f ''result'' dec_value;
     v2 \<leftarrow> need f ''effect_id'' dec_string;
     Some \<lparr>ef_result = v1,
       ef_effect_id = v2\<rparr> }"

definition ok_execution_effect :: "execution_effect \<Rightarrow> bool" where
  "ok_execution_effect x \<longleftrightarrow> json_wf (ef_result x)"

interpretation execution_effect_codec: codec enc_execution_effect dec_execution_effect ok_execution_effect
  by unfold_locales
    (auto simp: enc_execution_effect_def dec_execution_effect_def ok_execution_effect_def read_simps  split: option.split)

datatype effect_lookup_outcome = Found execution_effect | NotFound | Ambiguous

record execution_completion =
  cp_contract :: string
  cp_stage :: string
  cp_authorization_id :: uuid
  cp_idempotency_id :: uuid
  cp_executor_id :: string
  cp_actual_result :: json
  cp_actual_result_sha256 :: string
  cp_effect_id :: string
  cp_receipt :: execution_receipt

definition enc_execution_completion :: "libs \<Rightarrow> execution_completion \<Rightarrow> json" where
  "enc_execution_completion L x = JObject (
    [(''contract'', JString (cp_contract x)),
      (''stage'', JString (cp_stage x)),
      (''authorization_id'', enc_uuid L (cp_authorization_id x)),
      (''idempotency_id'', enc_uuid L (cp_idempotency_id x)),
      (''executor_id'', JString (cp_executor_id x)),
      (''actual_result'', cp_actual_result x),
      (''actual_result_sha256'', JString (cp_actual_result_sha256 x)),
      (''effect_id'', JString (cp_effect_id x)),
      (''receipt'', enc_execution_receipt L (cp_receipt x))])"

definition dec_execution_completion :: "libs \<Rightarrow> execution_completion dec" where
  "dec_execution_completion L j = do {
     f \<leftarrow> struct_fields True
       [''contract'', ''stage'', ''authorization_id'', ''idempotency_id'', ''executor_id'',
        ''actual_result'', ''actual_result_sha256'', ''effect_id'', ''receipt''] j;
     v1 \<leftarrow> need f ''contract'' dec_string;
     v2 \<leftarrow> need f ''stage'' dec_string;
     v3 \<leftarrow> need f ''authorization_id'' (dec_uuid L);
     v4 \<leftarrow> need f ''idempotency_id'' (dec_uuid L);
     v5 \<leftarrow> need f ''executor_id'' dec_string;
     v6 \<leftarrow> need f ''actual_result'' dec_value;
     v7 \<leftarrow> need f ''actual_result_sha256'' dec_string;
     v8 \<leftarrow> need f ''effect_id'' dec_string;
     v9 \<leftarrow> need f ''receipt'' (dec_execution_receipt L);
     Some \<lparr>cp_contract = v1,
       cp_stage = v2,
       cp_authorization_id = v3,
       cp_idempotency_id = v4,
       cp_executor_id = v5,
       cp_actual_result = v6,
       cp_actual_result_sha256 = v7,
       cp_effect_id = v8,
       cp_receipt = v9\<rparr> }"

definition ok_execution_completion :: "libs \<Rightarrow> execution_completion \<Rightarrow> bool" where
  "ok_execution_completion L x \<longleftrightarrow> uuid_laws L \<and> json_wf (cp_actual_result x) \<and> ok_execution_receipt L (cp_receipt x)"

interpretation execution_completion_codec: codec "enc_execution_completion L" "dec_execution_completion L" "ok_execution_completion L"
  by unfold_locales
    (auto simp: enc_execution_completion_def dec_execution_completion_def ok_execution_completion_def read_simps execution_receipt_codec.read_back split: option.split)

section \<open>Uncertain effects\<close>

datatype uncertain_effect_reason =
    InFlightAfterPriorAttempt
  | ExecutorOutcomeUnknown
  | LookupNotRegistered
  | LookupUnavailable
  | EffectNotFound
  | LookupAmbiguous
  | LookupInvalid
  | DurableIntentUnavailable
  | ReconciledEffectPersistenceFailed

fun enc_uncertain_effect_reason :: "uncertain_effect_reason \<Rightarrow> json" where
  "enc_uncertain_effect_reason InFlightAfterPriorAttempt = JString ''in_flight_after_prior_attempt''"
| "enc_uncertain_effect_reason ExecutorOutcomeUnknown = JString ''executor_outcome_unknown''"
| "enc_uncertain_effect_reason LookupNotRegistered = JString ''lookup_not_registered''"
| "enc_uncertain_effect_reason LookupUnavailable = JString ''lookup_unavailable''"
| "enc_uncertain_effect_reason EffectNotFound = JString ''effect_not_found''"
| "enc_uncertain_effect_reason LookupAmbiguous = JString ''lookup_ambiguous''"
| "enc_uncertain_effect_reason LookupInvalid = JString ''lookup_invalid''"
| "enc_uncertain_effect_reason DurableIntentUnavailable = JString ''durable_intent_unavailable''"
| "enc_uncertain_effect_reason ReconciledEffectPersistenceFailed = JString ''reconciled_effect_persistence_failed''"

definition dec_uncertain_effect_reason :: "uncertain_effect_reason dec" where
  "dec_uncertain_effect_reason = dec_enum [(''in_flight_after_prior_attempt'', InFlightAfterPriorAttempt),
     (''executor_outcome_unknown'', ExecutorOutcomeUnknown),
     (''lookup_not_registered'', LookupNotRegistered),
     (''lookup_unavailable'', LookupUnavailable),
     (''effect_not_found'', EffectNotFound),
     (''lookup_ambiguous'', LookupAmbiguous),
     (''lookup_invalid'', LookupInvalid),
     (''durable_intent_unavailable'', DurableIntentUnavailable),
     (''reconciled_effect_persistence_failed'', ReconciledEffectPersistenceFailed)]"

lemma dec_enc_uncertain_effect_reason [simp]: "dec_uncertain_effect_reason (enc_uncertain_effect_reason x) = Some x"
  by (cases x) (simp_all add: dec_uncertain_effect_reason_def dec_enum_def)

record uncertain_execution =
  un_contract :: string
  un_status :: string
  un_reason :: uncertain_effect_reason
  un_authorization_id :: uuid
  un_idempotency_id :: uuid
  un_tenant :: string
  un_workload_id :: string
  un_workload_spiffe :: string
  un_payload_sha256 :: string
  un_executor_id :: string
  un_effect_lookup_registered :: bool

definition enc_uncertain_execution :: "libs \<Rightarrow> uncertain_execution \<Rightarrow> json" where
  "enc_uncertain_execution L x = JObject (
    [(''contract'', JString (un_contract x)),
      (''status'', JString (un_status x)),
      (''reason'', enc_uncertain_effect_reason (un_reason x)),
      (''authorization_id'', enc_uuid L (un_authorization_id x)),
      (''idempotency_id'', enc_uuid L (un_idempotency_id x)),
      (''tenant'', JString (un_tenant x)),
      (''workload_id'', JString (un_workload_id x)),
      (''workload_spiffe'', JString (un_workload_spiffe x)),
      (''payload_sha256'', JString (un_payload_sha256 x)),
      (''executor_id'', JString (un_executor_id x)),
      (''effect_lookup_registered'', JBool (un_effect_lookup_registered x))])"

definition dec_uncertain_execution :: "libs \<Rightarrow> uncertain_execution dec" where
  "dec_uncertain_execution L j = do {
     f \<leftarrow> struct_fields True
       [''contract'', ''status'', ''reason'', ''authorization_id'', ''idempotency_id'',
        ''tenant'', ''workload_id'', ''workload_spiffe'', ''payload_sha256'',
        ''executor_id'', ''effect_lookup_registered''] j;
     v1 \<leftarrow> need f ''contract'' dec_string;
     v2 \<leftarrow> need f ''status'' dec_string;
     v3 \<leftarrow> need f ''reason'' dec_uncertain_effect_reason;
     v4 \<leftarrow> need f ''authorization_id'' (dec_uuid L);
     v5 \<leftarrow> need f ''idempotency_id'' (dec_uuid L);
     v6 \<leftarrow> need f ''tenant'' dec_string;
     v7 \<leftarrow> need f ''workload_id'' dec_string;
     v8 \<leftarrow> need f ''workload_spiffe'' dec_string;
     v9 \<leftarrow> need f ''payload_sha256'' dec_string;
     v10 \<leftarrow> need f ''executor_id'' dec_string;
     v11 \<leftarrow> need f ''effect_lookup_registered'' dec_bool;
     Some \<lparr>un_contract = v1,
       un_status = v2,
       un_reason = v3,
       un_authorization_id = v4,
       un_idempotency_id = v5,
       un_tenant = v6,
       un_workload_id = v7,
       un_workload_spiffe = v8,
       un_payload_sha256 = v9,
       un_executor_id = v10,
       un_effect_lookup_registered = v11\<rparr> }"

definition ok_uncertain_execution :: "libs \<Rightarrow> uncertain_execution \<Rightarrow> bool" where
  "ok_uncertain_execution L x \<longleftrightarrow> uuid_laws L"

interpretation uncertain_execution_codec: codec "enc_uncertain_execution L" "dec_uncertain_execution L" "ok_uncertain_execution L"
  by unfold_locales
    (auto simp: enc_uncertain_execution_def dec_uncertain_execution_def ok_uncertain_execution_def read_simps dec_enc_uncertain_effect_reason split: option.split)

section \<open>Outcomes and errors\<close>

record execution_outcome =
  oc_receipt :: receipt_recorded
  oc_result :: json
  oc_effect_id :: string

datatype resumable_execution_outcome =
    PendingOutcome pending_authorization
  | CompletedOutcome execution_outcome

datatype execution_reconciliation_outcome =
    ReconciledCompleted execution_outcome
  | ReconciledUncertain uncertain_execution

datatype authorization_state =
    Authorized signed_authorization
  | Pending pending_authorization

text \<open>
  \<open>ClavenarError\<close>. A transport error is its \<open>Display\<close> text; the diagnostic of a decode
  error is not modelled.
\<close>

type_synonym transport_error = string

datatype clavenar_error =
    Veto (veto_intent_category: string) (veto_reasons: "string list")
      (veto_review_reasons: "string list") (veto_correlation_id: "string option") (veto_raw: string)
  | Unauthorized string
  | BadRequest string
  | Server (server_status: nat) (server_body: string)
  | Transport transport_error
  | Decode
  | ResponseTooLarge (too_large_limit: usize)
  | InvalidResponse string
  | ExecutionUncertain uncertain_execution
  | ExecutionAlreadyCompleted (completed_authorization_id: uuid) (completed_idempotency_id: uuid)
  | InvalidConfig string

datatype known_effect_completion_error =
    PersistenceUncertain
  | ReceiptDelivery clavenar_error

end
