(* ===== verification/Http.thy ===== *)
theory Http
  imports Wire_Execution
begin

text \<open>
  The transport vocabulary and the helpers of http.rs: the request a client builds and the
  response it gets back, UTF-8 validation, the bounded body readers, the status dispatch,
  base-URL normalization, the process-wide provider and percent-encoding.

  A response body arrives as a list of chunks, each of which may be a transport error. The
  locale \<open>segment_encoder\<close> is the contract the endpoint builders rely on: an encoded
  identifier never contains a delimiter, so the path it stands in determines it.
\<close>

section \<open>Requests and responses\<close>

datatype http_method = GET | POST | PUT | PATCH | DELETE

datatype http_body = NoBody | JsonBody json | BytesBody string

record http_request =
  hr_method :: http_method
  hr_url :: string
  hr_headers :: "(string \<times> string) list"
  hr_body :: http_body
  hr_timeout :: "nat option"   \<comment> \<open>a per-request deadline, in nanoseconds\<close>

record http_response =
  hs_status :: nat
  hs_headers :: "(string \<times> string) list"
  hs_content_length :: "u64 option"
  hs_chunks :: "(transport_error + string) list"

definition request :: "http_method \<Rightarrow> string \<Rightarrow> http_request" where
  "request m url = \<lparr>hr_method = m, hr_url = url, hr_headers = [], hr_body = NoBody, hr_timeout = None\<rparr>"

definition header :: "string \<Rightarrow> string \<Rightarrow> http_request \<Rightarrow> http_request" where
  "header k v r = r\<lparr>hr_headers := hr_headers r @ [(k, v)]\<rparr>"

definition json_body :: "json \<Rightarrow> http_request \<Rightarrow> http_request" where
  "json_body j r = r\<lparr>hr_body := JsonBody j\<rparr>"

definition bearer_auth :: "string \<Rightarrow> http_request \<Rightarrow> http_request" where
  "bearer_auth token r = header ''authorization'' (''Bearer '' @ token) r"

section \<open>UTF-8 (\<open>String::from_utf8\<close>)\<close>

definition utf8_width :: "nat \<Rightarrow> nat" where
  "utf8_width b = (if b < 0x80 then 1 else if 0xC2 \<le> b \<and> b \<le> 0xDF then 2
     else if 0xE0 \<le> b \<and> b \<le> 0xEF then 3 else if 0xF0 \<le> b \<and> b \<le> 0xF4 then 4 else 0)"

definition utf8_cont :: "nat \<Rightarrow> bool" where
  "utf8_cont b \<longleftrightarrow> 0x80 \<le> b \<and> b \<le> 0xBF"

definition utf8_second :: "nat \<Rightarrow> nat \<Rightarrow> bool" where
  "utf8_second b c \<longleftrightarrow> utf8_cont c \<and> (b = 0xE0 \<longrightarrow> 0xA0 \<le> c) \<and> (b = 0xED \<longrightarrow> c \<le> 0x9F)
     \<and> (b = 0xF0 \<longrightarrow> 0x90 \<le> c) \<and> (b = 0xF4 \<longrightarrow> c \<le> 0x8F)"

text \<open>
  The first error: the index up to which the bytes are valid and the length of the bad
  sequence, absent when the input ends inside a sequence.
\<close>

fun utf8_error :: "nat \<Rightarrow> nat list \<Rightarrow> (nat \<times> nat option) option" where
  "utf8_error i [] = None"
| "utf8_error i (b # bs) =
     (if utf8_width b = 1 then utf8_error (i + 1) bs
      else if utf8_width b = 0 then Some (i, Some 1)
      else case bs of [] \<Rightarrow> Some (i, None)
      | b2 # bs2 \<Rightarrow>
        if \<not> utf8_second b b2 then Some (i, Some 1)
        else if utf8_width b = 2 then utf8_error (i + 2) bs2
        else case bs2 of [] \<Rightarrow> Some (i, None)
        | b3 # bs3 \<Rightarrow>
          if \<not> utf8_cont b3 then Some (i, Some 2)
          else if utf8_width b = 3 then utf8_error (i + 3) bs3
          else case bs3 of [] \<Rightarrow> Some (i, None)
          | b4 # bs4 \<Rightarrow>
            if \<not> utf8_cont b4 then Some (i, Some 3) else utf8_error (i + 4) bs4)"

definition from_utf8 :: "string \<Rightarrow> string + string" where
  "from_utf8 bytes = (case utf8_error 0 (map byte bytes) of
     None \<Rightarrow> Inr bytes
   | Some (i, Some n) \<Rightarrow>
       Inl (''invalid utf-8 sequence of '' @ show_nat n @ '' bytes from index '' @ show_nat i)
   | Some (i, None) \<Rightarrow> Inl (''incomplete utf-8 byte sequence from index '' @ show_nat i))"

lemma from_utf8_Inr: "from_utf8 bytes = Inr s \<Longrightarrow> s = bytes"
  by (auto simp: from_utf8_def split: option.splits prod.splits)

lemma utf8_ascii: "list_all (\<lambda>b. b < 0x80) bs \<Longrightarrow> utf8_error i bs = None"
  by (induction bs arbitrary: i) (simp_all add: utf8_width_def)

section \<open>Bounded bodies\<close>

definition DEFAULT_RESPONSE_BODY_LIMIT :: usize where
  "DEFAULT_RESPONSE_BODY_LIMIT = 16 * 1024 * 1024"

definition BINARY_RESPONSE_BODY_LIMIT :: usize where
  "BINARY_RESPONSE_BODY_LIMIT = 64 * 1024 * 1024"

text \<open>The streaming loop, with the \<open>checked_add\<close> of \<open>usize\<close> written out.\<close>

fun read_chunks :: "usize \<Rightarrow> string \<Rightarrow> (transport_error + string) list \<Rightarrow> clavenar_error + string" where
  "read_chunks limit body [] = Inr body"
| "read_chunks limit body (Inl e # chunks) = Inl (Transport e)"
| "read_chunks limit body (Inr chunk # chunks) =
     (if 2 ^ 64 \<le> length body + length chunk then Inl (ResponseTooLarge limit)
      else if unat limit < length body + length chunk then Inl (ResponseTooLarge limit)
      else read_chunks limit (body @ chunk) chunks)"

definition read_body_limited :: "http_response \<Rightarrow> usize \<Rightarrow> clavenar_error + string" where
  "read_body_limited response limit =
     (if (case hs_content_length response of None \<Rightarrow> False | Some n \<Rightarrow> n > limit)
      then Inl (ResponseTooLarge limit)
      else read_chunks limit [] (hs_chunks response))"

definition read_text_limited :: "http_response \<Rightarrow> clavenar_error + string" where
  "read_text_limited response =
     bindR (read_body_limited response DEFAULT_RESPONSE_BODY_LIMIT) (\<lambda>body.
       case from_utf8 body of
         Inl e \<Rightarrow> Inl (InvalidResponse (''response body is not UTF-8: '' @ e))
       | Inr s \<Rightarrow> Inr s)"

text \<open>What a reader that succeeds has read, and that it never holds more than the limit.\<close>

lemma read_chunks_Inr:
  "read_chunks limit body chunks = Inr r \<longleftrightarrow>
     list_all is_ok chunks \<and> r = body @ concat (map projr chunks)
     \<and> (\<forall>k < length chunks. length body + length (concat (map projr (take (Suc k) chunks))) \<le> unat limit)"
proof (induction limit body chunks rule: read_chunks.induct)
  case (3 limit body chunk chunks)
  have range: "unat limit < 2 ^ 64" using unsigned_less [of limit, where 'a = nat] by simp
  show ?case
  proof (cases "length body + length chunk \<le> unat limit")
    case True
    with range 3 show ?thesis
      by (auto simp: less_Suc_eq_0_disj add.assoc)
  next
    case False
    then show ?thesis by auto
  qed
qed auto

lemma read_chunks_bound:
  "read_chunks limit body chunks = Inr r \<Longrightarrow> length body \<le> unat limit \<Longrightarrow> length r \<le> unat limit"
  by (induction limit body chunks rule: read_chunks.induct) (auto split: if_splits)

section \<open>Status dispatch\<close>

definition from_str :: "libs \<Rightarrow> 'a dec \<Rightarrow> string \<Rightarrow> clavenar_error + 'a" where
  "from_str L dec s = (case json_parse L s of
     None \<Rightarrow> Inl Decode
   | Some j \<Rightarrow> (case dec j of None \<Rightarrow> Inl Decode | Some x \<Rightarrow> Inr x))"

definition decode_response :: "libs \<Rightarrow> 'a dec \<Rightarrow> nat \<Rightarrow> string \<Rightarrow> clavenar_error + 'a" where
  "decode_response L dec status body =
     (if status = 200 \<or> status = 201 then from_str L dec body
      else if status = 401 then Inl (Unauthorized body)
      else if status = 400 then Inl (BadRequest body)
      else Inl (Server status body))"

lemma from_str_Inr: "from_str L dec s = Inr x \<longleftrightarrow> (\<exists>j. json_parse L s = Some j \<and> dec j = Some x)"
  by (auto simp: from_str_def split: option.splits)

lemma from_str_Inl: "from_str L dec s = Inl e \<Longrightarrow> e = Decode"
  by (auto simp: from_str_def split: option.splits)

section \<open>Base URLs and the provider\<close>

definition parse_base_url :: "libs \<Rightarrow> string \<Rightarrow> clavenar_error + string" where
  "parse_base_url L s = (case url_parse L s of
     Inl e \<Rightarrow> Inl (InvalidConfig (''base_url: '' @ e))
   | Inr url \<Rightarrow> Inr (if ends_with ''/'' (url_path L url) then url
                     else url_set_path L url (url_path L url @ ''/'')))"

text \<open>
  The process-wide provider is a cell written once; \<open>build\<close> stands for the default client
  of reqwest's builder with the connect and request deadlines of five and thirty seconds.
\<close>

definition default_provider :: "'p option \<Rightarrow> (transport_error + 'p) \<Rightarrow> clavenar_error + 'p" where
  "default_provider installed build = (case installed of
     Some p \<Rightarrow> Inr p
   | None \<Rightarrow> (case build of Inl e \<Rightarrow> Inl (Transport e) | Inr p \<Rightarrow> Inr p))"

definition install_process_http_provider :: "'p \<Rightarrow> ('p option, clavenar_error, unit) eff" where
  "install_process_http_provider provider installed = (case installed of
     None \<Rightarrow> (Some provider, Inr ())
   | Some p \<Rightarrow> (installed, Inl (InvalidConfig ''process HTTP provider is already installed'')))"

end
