(* ===== verification/Percent.thy ===== *)
theory Percent
  imports Http
begin

text \<open>
  Percent-encoding of path and query segments (\<open>percent_encode\<close> of http.rs) and the
  contract the endpoint builders of every client use. The reference decoder
  \<open>percent_decode\<close> shows the encoding loses nothing; the locale \<open>segment_encoder\<close> proves,
  from injectivity and the absence of delimiters alone, that a path assembled from encoded
  segments determines the segments.
\<close>

definition unreserved :: "char \<Rightarrow> bool" where
  "unreserved c \<longleftrightarrow> (65 \<le> byte c \<and> byte c \<le> 90) \<or> (97 \<le> byte c \<and> byte c \<le> 122)
     \<or> (48 \<le> byte c \<and> byte c \<le> 57) \<or> c \<in> {CHR ''-'', CHR ''.'', CHR ''_'', CHR ''~''}"

definition hex_upper :: "nat \<Rightarrow> char" where
  "hex_upper d = (if d < 10 then char_of (48 + d) else char_of (55 + d))"

definition encode_byte :: "char \<Rightarrow> string" where
  "encode_byte c = (if unreserved c then [c]
     else [CHR ''%'', hex_upper (byte c div 16), hex_upper (byte c mod 16)])"

definition percent_encode :: "string \<Rightarrow> string" where
  "percent_encode s = concat (map encode_byte s)"

text \<open>The reference decoder.\<close>

definition hex_value :: "char \<Rightarrow> nat option" where
  "hex_value c = (if 48 \<le> byte c \<and> byte c \<le> 57 then Some (byte c - 48)
     else if 65 \<le> byte c \<and> byte c \<le> 70 then Some (byte c - 55) else None)"

fun percent_decode :: "string \<Rightarrow> string option" where
  "percent_decode [] = Some []"
| "percent_decode (c # cs) =
     (if c \<noteq> CHR ''%'' then map_option ((#) c) (percent_decode cs)
      else case cs of
        a # b # rest \<Rightarrow> (case (hex_value a, hex_value b) of
          (Some x, Some y) \<Rightarrow> map_option ((#) (char_of (16 * x + y))) (percent_decode rest)
        | _ \<Rightarrow> None)
      | _ \<Rightarrow> None)"

lemma byte_char_of: "n < 256 \<Longrightarrow> byte (char_of n) = n"
  by (simp add: byte_def)

lemma char_of_byte: "char_of (byte c) = c"
  by (simp add: byte_def)

lemma hex_value_upper: "d < 16 \<Longrightarrow> hex_value (hex_upper d) = Some d"
  by (simp add: hex_value_def hex_upper_def byte_char_of)

lemma not_unreserved_percent: "\<not> unreserved (CHR ''%'')"
  by (simp add: unreserved_def byte_def)

lemma percent_decode_encode_byte:
  "percent_decode (encode_byte c @ s) = map_option ((#) c) (percent_decode s)"
proof (cases "unreserved c")
  case True
  then show ?thesis using not_unreserved_percent by (auto simp: encode_byte_def)
next
  case False
  have "byte c div 16 < 16" using byte_less [of c] by simp
  with False show ?thesis
    by (simp add: encode_byte_def hex_value_upper char_of_byte)
qed

lemma percent_decode_append:
  "percent_decode (percent_encode s @ t) = map_option ((@) s) (percent_decode t)"
  by (induction s)
    (simp_all add: percent_encode_def percent_decode_encode_byte option.map_comp option.map_ident comp_def)

lemma percent_decode_encode: "percent_decode (percent_encode s) = Some s"
  using percent_decode_append [of s "[]"] by simp

lemma hex_upper_unreserved: "d < 16 \<Longrightarrow> unreserved (hex_upper d)"
  by (simp add: unreserved_def hex_upper_def byte_char_of)

lemma encode_byte_chars: "x \<in> set (encode_byte c) \<Longrightarrow> unreserved x \<or> x = CHR ''%''"
  using byte_less [of c] hex_upper_unreserved by (auto simp: encode_byte_def split: if_splits)

lemma percent_encode_chars: "x \<in> set (percent_encode s) \<Longrightarrow> unreserved x \<or> x = CHR ''%''"
  using encode_byte_chars by (auto simp: percent_encode_def)

lemma percent_encode_unreserved: "list_all unreserved s \<Longrightarrow> percent_encode s = s"
  by (induction s) (simp_all add: percent_encode_def encode_byte_def)

section \<open>Encoded segments\<close>

definition delimiter :: "char \<Rightarrow> bool" where
  "delimiter c \<longleftrightarrow> c \<in> {CHR ''/'', CHR ''?'', CHR ''&'', CHR ''='', CHR ''#''}"

locale segment_encoder =
  fixes enc :: "string \<Rightarrow> string" and delim :: "char \<Rightarrow> bool"
  assumes enc_inject: "enc s = enc t \<Longrightarrow> s = t"
    and enc_no_delim: "c \<in> set (enc s) \<Longrightarrow> \<not> delim c"
begin

lemma split_at_delim:
  assumes "delim c" "delim d" "enc s @ c # u = enc t @ d # v"
  shows "s = t \<and> c = d \<and> u = v"
proof -
  have "enc s = takeWhile (\<lambda>x. \<not> delim x) (enc s @ c # u)"
    using assms(1) enc_no_delim by (simp add: takeWhile_append2)
  moreover have "enc t = takeWhile (\<lambda>x. \<not> delim x) (enc t @ d # v)"
    using assms(2) enc_no_delim by (simp add: takeWhile_append2)
  ultimately have "enc s = enc t" by (simp only: assms(3))
  with assms(3) enc_inject show ?thesis by simp
qed

text \<open>One identifier between a fixed prefix and a fixed suffix that opens with a delimiter.\<close>

lemma path_inject:
  assumes "sfx = [] \<or> delim (hd sfx)" "pre @ enc s @ sfx = pre @ enc t @ sfx"
  shows "s = t"
  using assms enc_inject by simp

text \<open>A list of identifiers joined by a delimiter.\<close>

lemma join_inject:
  assumes "delim c" "length ss = length ts"
    and "join_with [c] (map enc ss) = join_with [c] (map enc ts)"
  shows "ss = ts"
  using assms(2,3)
proof (induction ss ts rule: list_induct2)
  case (Cons s ss t ts)
  show ?case
  proof (cases "ss = []")
    case True
    with Cons show ?thesis by (auto dest: enc_inject)
  next
    case False
    with Cons(1) have "ts \<noteq> []" by auto
    with Cons.prems False
    have "enc s @ c # join_with [c] (map enc ss) = enc t @ c # join_with [c] (map enc ts)"
      by (simp add: join_with_Cons)
    from split_at_delim [OF assms(1) assms(1) this] Cons.IH show ?thesis by simp
  qed
qed simp

end

interpretation percent: segment_encoder percent_encode delimiter
proof
  show "percent_encode s = percent_encode t \<Longrightarrow> s = t" for s t
    by (metis option.inject percent_decode_encode)
  show "c \<in> set (percent_encode s) \<Longrightarrow> \<not> delimiter c" for c s
    using percent_encode_chars [of c s]
    by (auto simp: delimiter_def unreserved_def byte_def)
qed

end
