(* ===== verification/Exec_Store.thy ===== *)
theory Exec_Store
  imports Http
begin

text \<open>
  Durable persistence of SDK-governed effects (the trait \<open>DurableExecutionStore\<close> of
  execution.rs). A store is a record of operations over a state of its own; each operation
  is atomic and returns the new state also when it fails. \<open>legacy_store\<close> is a store that
  implements only the required methods and inherits the trait's defaults.

  The contract a store promises is the locale \<open>effect_store\<close>: an attempt is \<open>Started\<close>
  at most once per authorization. \<open>receipt_store\<close> extends it: a committed receipt stays
  pending until it is marked. Both are interpreted on the in-memory store the repository's
  integration tests run against.
\<close>

section \<open>The trait\<close>

record 's durable_store =
  ds_commit_intent :: "execution_intent \<Rightarrow> ('s, clavenar_error, unit) eff"
  ds_supports_single_use :: "'s \<Rightarrow> bool"
  ds_claim_intent_once :: "execution_intent \<Rightarrow> ('s, clavenar_error, authorization_claim) eff"
  ds_supports_reconciliation :: "'s \<Rightarrow> bool"
  ds_begin_effect_attempt ::
    "execution_intent \<Rightarrow> effect_authorization_use \<Rightarrow> ('s, clavenar_error, effect_attempt_claim) eff"
  ds_load_uncertain_intent :: "uuid \<Rightarrow> ('s, clavenar_error, execution_intent option) eff"
  ds_commit_effect :: "execution_completion \<Rightarrow> ('s, clavenar_error, receipt_outbox_entry) eff"
  ds_pending_receipts :: "usize \<Rightarrow> ('s, clavenar_error, receipt_outbox_entry list) eff"
  ds_mark_delivered :: "string \<Rightarrow> receipt_recorded \<Rightarrow> ('s, clavenar_error, unit) eff"

definition default_supports_single_use_authorization :: "'s \<Rightarrow> bool" where
  "default_supports_single_use_authorization s = False"

definition default_claim_intent_once ::
  "execution_intent \<Rightarrow> ('s, clavenar_error, authorization_claim) eff" where
  "default_claim_intent_once intent = failE (InvalidConfig
     ''durable execution store does not support single-use authorization claims'')"

definition default_supports_uncertain_effect_reconciliation :: "'s \<Rightarrow> bool" where
  "default_supports_uncertain_effect_reconciliation s = False"

definition default_begin_effect_attempt ::
  "execution_intent \<Rightarrow> effect_authorization_use \<Rightarrow> ('s, clavenar_error, effect_attempt_claim) eff" where
  "default_begin_effect_attempt intent authorization_use = failE (InvalidConfig
     ''durable execution store does not support uncertain-effect reconciliation'')"

definition default_load_uncertain_intent :: "uuid \<Rightarrow> ('s, clavenar_error, execution_intent option) eff" where
  "default_load_uncertain_intent authorization_id = failE (InvalidConfig
     ''durable execution store does not support uncertain-effect reconciliation'')"

definition legacy_store ::
  "(execution_intent \<Rightarrow> ('s, clavenar_error, unit) eff)
   \<Rightarrow> (execution_completion \<Rightarrow> ('s, clavenar_error, receipt_outbox_entry) eff)
   \<Rightarrow> (usize \<Rightarrow> ('s, clavenar_error, receipt_outbox_entry list) eff)
   \<Rightarrow> (string \<Rightarrow> receipt_recorded \<Rightarrow> ('s, clavenar_error, unit) eff) \<Rightarrow> 's durable_store" where
  "legacy_store commit_intent commit_effect pending mark = \<lparr>
     ds_commit_intent = commit_intent,
     ds_supports_single_use = default_supports_single_use_authorization,
     ds_claim_intent_once = default_claim_intent_once,
     ds_supports_reconciliation = default_supports_uncertain_effect_reconciliation,
     ds_begin_effect_attempt = default_begin_effect_attempt,
     ds_load_uncertain_intent = default_load_uncertain_intent,
     ds_commit_effect = commit_effect,
     ds_pending_receipts = pending,
     ds_mark_delivered = mark \<rparr>"

section \<open>The contract\<close>

locale effect_store =
  fixes st :: "'s durable_store" and opened :: "'s \<Rightarrow> uuid \<Rightarrow> bool"
  assumes started: "ds_begin_effect_attempt st i u s = (s', Inr Started) \<Longrightarrow>
      \<not> opened s (in_authorization_id i) \<and> opened s' (in_authorization_id i)"
    and begin_keeps: "ds_begin_effect_attempt st i u s = (s', r1) \<Longrightarrow> opened s a \<Longrightarrow> opened s' a"
    and load_keeps: "ds_load_uncertain_intent st b s = (s', r2) \<Longrightarrow> opened s a \<Longrightarrow> opened s' a"
    and commit_keeps: "ds_commit_effect st c s = (s', r3) \<Longrightarrow> opened s a \<Longrightarrow> opened s' a"
    and list_keeps: "ds_pending_receipts st n s = (s', r4) \<Longrightarrow> opened s a \<Longrightarrow> opened s' a"
    and mark_keeps: "ds_mark_delivered st k m s = (s', r5) \<Longrightarrow> opened s a \<Longrightarrow> opened s' a"
begin

lemma second_start_refused:
  "ds_begin_effect_attempt st i u s = (s', Inr Started) \<Longrightarrow>
   ds_begin_effect_attempt st j v s' = (s'', r) \<Longrightarrow>
   in_authorization_id j = in_authorization_id i \<Longrightarrow> r \<noteq> Inr Started"
  using started by metis

end

text \<open>
  \<open>pending\<close> is the content of the outbox: what commit adds stays until a successful mark
  names its identifier.
\<close>

locale receipt_store = effect_store st opened
  for st :: "'s durable_store" and opened :: "'s \<Rightarrow> uuid \<Rightarrow> bool" +
  fixes outbox :: "'s \<Rightarrow> receipt_outbox_entry list"
  assumes commit_enqueues: "ds_commit_effect st c s = (s', Inr e) \<Longrightarrow>
      e \<in> set (outbox s') \<and> ob_receipt e = cp_receipt c"
    and commit_pending: "ds_commit_effect st c s = (s', r1) \<Longrightarrow> e \<in> set (outbox s) \<Longrightarrow> e \<in> set (outbox s')"
    and begin_pending: "ds_begin_effect_attempt st i u s = (s', r2) \<Longrightarrow> outbox s' = outbox s"
    and load_pending: "ds_load_uncertain_intent st b s = (s', r3) \<Longrightarrow> outbox s' = outbox s"
    and list_pending: "ds_pending_receipts st n s = (s', r4) \<Longrightarrow> outbox s' = outbox s"
    and list_reads: "ds_pending_receipts st n s = (s', Inr es) \<Longrightarrow>
      es = take (length es) (outbox s) \<and> length es \<le> unat n"
    and mark_pending: "ds_mark_delivered st k m s = (s', r5) \<Longrightarrow> e \<in> set (outbox s) \<Longrightarrow>
      e \<in> set (outbox s') \<or> (r5 = Inr () \<and> ob_outbox_id e = k)"
begin

lemma mark_other_keeps:
  "ds_mark_delivered st k m s = (s', r) \<Longrightarrow> e \<in> set (outbox s) \<Longrightarrow> ob_outbox_id e \<noteq> k \<Longrightarrow>
   e \<in> set (outbox s')"
  using mark_pending by blast

lemma failed_mark_keeps:
  "ds_mark_delivered st k m s = (s', Inl err) \<Longrightarrow> e \<in> set (outbox s) \<Longrightarrow> e \<in> set (outbox s')"
  using mark_pending by fastforce

end

section \<open>The in-memory store\<close>

record memory_state =
  ms_intents :: "execution_intent list"
  ms_completions :: "execution_completion list"
  ms_pending :: "receipt_outbox_entry list"
  ms_delivered :: "(string \<times> receipt_recorded) list"
  ms_ordering :: "string list"
  ms_claimed :: "uuid set"
  ms_in_flight :: "uuid set"
  ms_completed :: "uuid set"
  ms_fail_intent :: bool

definition memory_empty :: memory_state where
  "memory_empty = \<lparr>ms_intents = [], ms_completions = [], ms_pending = [], ms_delivered = [],
     ms_ordering = [], ms_claimed = {}, ms_in_flight = {}, ms_completed = {}, ms_fail_intent = False\<rparr>"

definition mem_commit_intent :: "execution_intent \<Rightarrow> (memory_state, clavenar_error, unit) eff" where
  "mem_commit_intent intent s =
     (if ms_fail_intent s then (s, Inl (InvalidConfig ''durable intent store unavailable''))
      else (s\<lparr>ms_ordering := ms_ordering s @ [''intent''],
              ms_intents := ms_intents s @ [intent]\<rparr>, Inr ()))"

definition mem_claim_intent_once ::
  "execution_intent \<Rightarrow> (memory_state, clavenar_error, authorization_claim) eff" where
  "mem_claim_intent_once intent s =
     (if ms_fail_intent s then (s, Inl (InvalidConfig ''durable intent store unavailable''))
      else if in_authorization_id intent \<in> ms_claimed s then (s, Inr AlreadyClaimed)
      else (s\<lparr>ms_claimed := insert (in_authorization_id intent) (ms_claimed s),
              ms_ordering := ms_ordering s @ [''intent''],
              ms_intents := ms_intents s @ [intent]\<rparr>, Inr Claimed))"

definition intent_for :: "uuid \<Rightarrow> execution_intent list \<Rightarrow> execution_intent option" where
  "intent_for a intents = find (\<lambda>i. in_authorization_id i = a) intents"

definition mem_begin_effect_attempt ::
  "execution_intent \<Rightarrow> effect_authorization_use
   \<Rightarrow> (memory_state, clavenar_error, effect_attempt_claim) eff" where
  "mem_begin_effect_attempt intent authorization_use s =
     (let a = in_authorization_id intent in
      if ms_fail_intent s then (s, Inl (InvalidConfig ''durable intent store unavailable''))
      else if (case intent_for a (ms_intents s) of None \<Rightarrow> False | Some existing \<Rightarrow> \<not> intent_eq existing intent)
        then (s, Inl (InvalidConfig ''authorization intent substitution rejected''))
      else if a \<in> ms_completed s then (s, Inr AlreadyCompleted)
      else if a \<in> ms_in_flight s then (s, Inr AlreadyInFlight)
      else if authorization_use = SingleUse \<and> a \<in> ms_claimed s then (s, Inr AlreadyInFlight)
      else (s\<lparr>ms_claimed := (if authorization_use = SingleUse then insert a (ms_claimed s) else ms_claimed s),
              ms_ordering := ms_ordering s @ [''intent'', ''in_flight''],
              ms_intents := ms_intents s @ [intent],
              ms_in_flight := insert a (ms_in_flight s)\<rparr>, Inr Started))"

definition mem_load_uncertain_intent ::
  "uuid \<Rightarrow> (memory_state, clavenar_error, execution_intent option) eff" where
  "mem_load_uncertain_intent a s =
     (if a \<notin> ms_in_flight s then (s, Inr None) else (s, Inr (intent_for a (ms_intents s))))"

definition mem_commit_effect ::
  "libs \<Rightarrow> execution_completion \<Rightarrow> (memory_state, clavenar_error, receipt_outbox_entry) eff" where
  "mem_commit_effect L completion s =
     (let entry = \<lparr>ob_outbox_id = ''receipt-'' @ uuid_string L (cp_authorization_id completion),
                   ob_receipt = cp_receipt completion\<rparr> in
      (s\<lparr>ms_ordering := ms_ordering s @ [''completion''],
         ms_in_flight := ms_in_flight s - {cp_authorization_id completion},
         ms_completed := insert (cp_authorization_id completion) (ms_completed s),
         ms_completions := ms_completions s @ [completion],
         ms_pending := ms_pending s @ [entry]\<rparr>, Inr entry))"

definition mem_pending_receipts ::
  "usize \<Rightarrow> (memory_state, clavenar_error, receipt_outbox_entry list) eff" where
  "mem_pending_receipts limit s = (s, Inr (take (unat limit) (ms_pending s)))"

fun remove_first :: "('a \<Rightarrow> bool) \<Rightarrow> 'a list \<Rightarrow> 'a list option" where
  "remove_first P [] = None"
| "remove_first P (x # xs) = (if P x then Some xs else map_option ((#) x) (remove_first P xs))"

definition mem_mark_delivered ::
  "string \<Rightarrow> receipt_recorded \<Rightarrow> (memory_state, clavenar_error, unit) eff" where
  "mem_mark_delivered outbox_id recorded s =
     (case remove_first (\<lambda>e. ob_outbox_id e = outbox_id) (ms_pending s) of
        None \<Rightarrow> (s, Inl (InvalidConfig ''receipt outbox entry is not pending''))
      | Some rest \<Rightarrow> (s\<lparr>ms_pending := rest, ms_ordering := ms_ordering s @ [''delivered''],
          ms_delivered := ms_delivered s @ [(outbox_id, recorded)]\<rparr>, Inr ()))"

definition memory_store :: "libs \<Rightarrow> memory_state durable_store" where
  "memory_store L = \<lparr>
     ds_commit_intent = mem_commit_intent,
     ds_supports_single_use = \<lambda>_. True,
     ds_claim_intent_once = mem_claim_intent_once,
     ds_supports_reconciliation = \<lambda>_. True,
     ds_begin_effect_attempt = mem_begin_effect_attempt,
     ds_load_uncertain_intent = mem_load_uncertain_intent,
     ds_commit_effect = mem_commit_effect L,
     ds_pending_receipts = mem_pending_receipts,
     ds_mark_delivered = mem_mark_delivered \<rparr>"

definition mem_opened :: "memory_state \<Rightarrow> uuid \<Rightarrow> bool" where
  "mem_opened s a \<longleftrightarrow> a \<in> ms_in_flight s \<union> ms_completed s"

lemma remove_first_keeps:
  "remove_first P xs = Some ys \<Longrightarrow> x \<in> set xs \<Longrightarrow> x \<in> set ys \<or> P x"
  by (induction xs arbitrary: ys) (auto split: if_splits)

lemmas mem_defs = memory_store_def mem_opened_def mem_begin_effect_attempt_def
  mem_load_uncertain_intent_def mem_commit_effect_def mem_pending_receipts_def mem_mark_delivered_def

interpretation mem_effect: effect_store "memory_store L" mem_opened
  by unfold_locales (auto simp: mem_defs Let_def split: if_splits option.splits)

interpretation mem_receipt: receipt_store "memory_store L" mem_opened ms_pending
proof
  show "ds_pending_receipts (memory_store L) n s = (s', Inr es) \<Longrightarrow>
      es = take (length es) (ms_pending s) \<and> length es \<le> unat n" for n s s' es
    by (auto simp: mem_defs min_def)
  show "ds_mark_delivered (memory_store L) k m s = (s', r) \<Longrightarrow> e \<in> set (ms_pending s) \<Longrightarrow>
      e \<in> set (ms_pending s') \<or> (r = Inr () \<and> ob_outbox_id e = k)" for k m s s' r e
    by (auto simp: mem_defs split: option.splits dest: remove_first_keeps)
qed (auto simp: mem_defs Let_def split: if_splits option.splits)

end
