(* ===== verification/Program.thy ===== *)
theory Program
  imports Exec_Store
begin

text \<open>
  What an operation of the SDK does, as a program over the actions it can take: send a
  request, draw the next JSON-RPC identifier or a fresh UUID, call one operation of the
  durable store, or call back the registered executor. Each action carries the
  continuation on its reply, so a definition reads like the \<open>async fn\<close> it models:
  \<open>bindP\<close> is the question mark after \<open>.await\<close> and \<open>matchP\<close> a \<open>match\<close> on the result.

  One definition of an operation then has three readings. \<open>runs p es r\<close> holds when the
  program answers \<open>r\<close> after exactly the events \<open>es\<close>, whatever the environment replied:
  it states the order of effects. \<open>run\<close> executes the program to its end against a client's
  network, store and executor. \<open>step\<close> lets any number of programs take their actions in
  any interleaving against one shared world: every action is atomic, as a single await is.
\<close>

section \<open>Programs\<close>

datatype ('e, 'a) prog =
    Return "'e + 'a"
  | HttpSend http_request "(transport_error + http_response) \<Rightarrow> ('e, 'a) prog"
  | NextId "u64 \<Rightarrow> ('e, 'a) prog"
  | NewUuid "uuid \<Rightarrow> ('e, 'a) prog"
  | AskSingleUse "bool \<Rightarrow> ('e, 'a) prog"
  | AskReconciliation "bool \<Rightarrow> ('e, 'a) prog"
  | BeginEffect execution_intent effect_authorization_use "(clavenar_error + effect_attempt_claim) \<Rightarrow> ('e, 'a) prog"
  | LoadIntent uuid "(clavenar_error + execution_intent option) \<Rightarrow> ('e, 'a) prog"
  | CommitEffect execution_completion "(clavenar_error + receipt_outbox_entry) \<Rightarrow> ('e, 'a) prog"
  | ListReceipts usize "(clavenar_error + receipt_outbox_entry list) \<Rightarrow> ('e, 'a) prog"
  | MarkDelivered string receipt_recorded "(clavenar_error + unit) \<Rightarrow> ('e, 'a) prog"
  | ExecuteTool tool_execution_request "(clavenar_error + execution_effect) \<Rightarrow> ('e, 'a) prog"
  | LookupEffect effect_lookup_request "(clavenar_error + effect_lookup_outcome) \<Rightarrow> ('e, 'a) prog"

primrec bindP :: "('e, 'a) prog \<Rightarrow> ('a \<Rightarrow> ('e, 'b) prog) \<Rightarrow> ('e, 'b) prog" where
  "bindP (Return r) f = (case r of Inl e \<Rightarrow> Return (Inl e) | Inr x \<Rightarrow> f x)"
| "bindP (HttpSend x k) f = HttpSend x (\<lambda>z. bindP (k z) f)"
| "bindP (NextId k) f = NextId (\<lambda>z. bindP (k z) f)"
| "bindP (NewUuid k) f = NewUuid (\<lambda>z. bindP (k z) f)"
| "bindP (AskSingleUse k) f = AskSingleUse (\<lambda>z. bindP (k z) f)"
| "bindP (AskReconciliation k) f = AskReconciliation (\<lambda>z. bindP (k z) f)"
| "bindP (BeginEffect x y k) f = BeginEffect x y (\<lambda>z. bindP (k z) f)"
| "bindP (LoadIntent x k) f = LoadIntent x (\<lambda>z. bindP (k z) f)"
| "bindP (CommitEffect x k) f = CommitEffect x (\<lambda>z. bindP (k z) f)"
| "bindP (ListReceipts x k) f = ListReceipts x (\<lambda>z. bindP (k z) f)"
| "bindP (MarkDelivered x y k) f = MarkDelivered x y (\<lambda>z. bindP (k z) f)"
| "bindP (ExecuteTool x k) f = ExecuteTool x (\<lambda>z. bindP (k z) f)"
| "bindP (LookupEffect x k) f = LookupEffect x (\<lambda>z. bindP (k z) f)"

primrec matchP :: "('e, 'a) prog \<Rightarrow> ('e + 'a \<Rightarrow> ('f, 'b) prog) \<Rightarrow> ('f, 'b) prog" where
  "matchP (Return r) f = f r"
| "matchP (HttpSend x k) f = HttpSend x (\<lambda>z. matchP (k z) f)"
| "matchP (NextId k) f = NextId (\<lambda>z. matchP (k z) f)"
| "matchP (NewUuid k) f = NewUuid (\<lambda>z. matchP (k z) f)"
| "matchP (AskSingleUse k) f = AskSingleUse (\<lambda>z. matchP (k z) f)"
| "matchP (AskReconciliation k) f = AskReconciliation (\<lambda>z. matchP (k z) f)"
| "matchP (BeginEffect x y k) f = BeginEffect x y (\<lambda>z. matchP (k z) f)"
| "matchP (LoadIntent x k) f = LoadIntent x (\<lambda>z. matchP (k z) f)"
| "matchP (CommitEffect x k) f = CommitEffect x (\<lambda>z. matchP (k z) f)"
| "matchP (ListReceipts x k) f = ListReceipts x (\<lambda>z. matchP (k z) f)"
| "matchP (MarkDelivered x y k) f = MarkDelivered x y (\<lambda>z. matchP (k z) f)"
| "matchP (ExecuteTool x k) f = ExecuteTool x (\<lambda>z. matchP (k z) f)"
| "matchP (LookupEffect x k) f = LookupEffect x (\<lambda>z. matchP (k z) f)"

definition map_errP :: "('e \<Rightarrow> 'f) \<Rightarrow> ('e, 'a) prog \<Rightarrow> ('f, 'a) prog" where
  "map_errP g p = matchP p (\<lambda>r. Return (case r of Inl e \<Rightarrow> Inl (g e) | Inr x \<Rightarrow> Inr x))"

definition mapP :: "('a \<Rightarrow> 'b) \<Rightarrow> ('e, 'a) prog \<Rightarrow> ('e, 'b) prog" where
  "mapP g p = bindP p (\<lambda>x. Return (Inr (g x)))"

abbreviation okP :: "'a \<Rightarrow> ('e, 'a) prog" where
  "okP x \<equiv> Return (Inr x)"

abbreviation errP :: "'e \<Rightarrow> ('e, 'a) prog" where
  "errP e \<equiv> Return (Inl e)"

text \<open>The question mark on a pure result.\<close>

definition tryP :: "'e + 'a \<Rightarrow> ('a \<Rightarrow> ('e, 'b) prog) \<Rightarrow> ('e, 'b) prog" where
  "tryP r f = (case r of Inl e \<Rightarrow> Return (Inl e) | Inr x \<Rightarrow> f x)"

lemma tryP_simps [simp]: "tryP (Inl e) f = Return (Inl e)" "tryP (Inr x) f = f x"
  by (simp_all add: tryP_def)

lemma bindP_matchP: "bindP p f = matchP p (\<lambda>r. case r of Inl e \<Rightarrow> Return (Inl e) | Inr x \<Rightarrow> f x)"
  by (induction p) auto

lemma matchP_assoc: "matchP (matchP p f) g = matchP p (\<lambda>r. matchP (f r) g)"
  by (induction p) auto

section \<open>Events\<close>

datatype event =
    Sent http_request "transport_error + http_response"
  | TookId u64
  | TookUuid uuid
  | AskedSingleUse bool
  | AskedReconciliation bool
  | Begun execution_intent effect_authorization_use "clavenar_error + effect_attempt_claim"
  | Loaded uuid "clavenar_error + execution_intent option"
  | Committed execution_completion "clavenar_error + receipt_outbox_entry"
  | Listed usize "clavenar_error + receipt_outbox_entry list"
  | Marked string receipt_recorded "clavenar_error + unit"
  | Executed tool_execution_request "clavenar_error + execution_effect"
  | LookedUp effect_lookup_request "clavenar_error + effect_lookup_outcome"

text \<open>The terminating behaviours of a program, for every choice of replies.\<close>

inductive runs :: "('e, 'a) prog \<Rightarrow> event list \<Rightarrow> 'e + 'a \<Rightarrow> bool" where
  runs_Return: "runs (Return r) [] r"
| runs_HttpSend: "runs (k z) es r \<Longrightarrow> runs (HttpSend x k) (Sent x z # es) r"
| runs_NextId: "runs (k z) es r \<Longrightarrow> runs (NextId k) (TookId z # es) r"
| runs_NewUuid: "runs (k z) es r \<Longrightarrow> runs (NewUuid k) (TookUuid z # es) r"
| runs_AskSingleUse: "runs (k z) es r \<Longrightarrow> runs (AskSingleUse k) (AskedSingleUse z # es) r"
| runs_AskReconciliation: "runs (k z) es r \<Longrightarrow> runs (AskReconciliation k) (AskedReconciliation z # es) r"
| runs_BeginEffect: "runs (k z) es r \<Longrightarrow> runs (BeginEffect x y k) (Begun x y z # es) r"
| runs_LoadIntent: "runs (k z) es r \<Longrightarrow> runs (LoadIntent x k) (Loaded x z # es) r"
| runs_CommitEffect: "runs (k z) es r \<Longrightarrow> runs (CommitEffect x k) (Committed x z # es) r"
| runs_ListReceipts: "runs (k z) es r \<Longrightarrow> runs (ListReceipts x k) (Listed x z # es) r"
| runs_MarkDelivered: "runs (k z) es r \<Longrightarrow> runs (MarkDelivered x y k) (Marked x y z # es) r"
| runs_ExecuteTool: "runs (k z) es r \<Longrightarrow> runs (ExecuteTool x k) (Executed x z # es) r"
| runs_LookupEffect: "runs (k z) es r \<Longrightarrow> runs (LookupEffect x k) (LookedUp x z # es) r"

inductive_simps runs_Return_iff [simp]: "runs (Return q) es r"
inductive_simps runs_HttpSend_iff [simp]: "runs (HttpSend x k) es r"
inductive_simps runs_NextId_iff [simp]: "runs (NextId k) es r"
inductive_simps runs_NewUuid_iff [simp]: "runs (NewUuid k) es r"
inductive_simps runs_AskSingleUse_iff [simp]: "runs (AskSingleUse k) es r"
inductive_simps runs_AskReconciliation_iff [simp]: "runs (AskReconciliation k) es r"
inductive_simps runs_BeginEffect_iff [simp]: "runs (BeginEffect x y k) es r"
inductive_simps runs_LoadIntent_iff [simp]: "runs (LoadIntent x k) es r"
inductive_simps runs_CommitEffect_iff [simp]: "runs (CommitEffect x k) es r"
inductive_simps runs_ListReceipts_iff [simp]: "runs (ListReceipts x k) es r"
inductive_simps runs_MarkDelivered_iff [simp]: "runs (MarkDelivered x y k) es r"
inductive_simps runs_ExecuteTool_iff [simp]: "runs (ExecuteTool x k) es r"
inductive_simps runs_LookupEffect_iff [simp]: "runs (LookupEffect x k) es r"

lemma runs_matchP:
  "runs (matchP p f) es r \<longleftrightarrow> (\<exists>es1 es2 q. es = es1 @ es2 \<and> runs p es1 q \<and> runs (f q) es2 r)"
proof (induction p arbitrary: es)
  case (Return x)
  then show ?case by simp
qed (auto simp: Cons_eq_append_conv; metis append_Cons)+

lemma runs_bindP_Inr:
  "runs (bindP p f) es (Inr y) \<longleftrightarrow>
     (\<exists>es1 es2 x. es = es1 @ es2 \<and> runs p es1 (Inr x) \<and> runs (f x) es2 (Inr y))"
  unfolding bindP_matchP runs_matchP by (simp add: split_sum_ex)

lemma runs_bindP_Inl:
  "runs (bindP p f) es (Inl e) \<longleftrightarrow>
     runs p es (Inl e) \<or> (\<exists>es1 es2 x. es = es1 @ es2 \<and> runs p es1 (Inr x) \<and> runs (f x) es2 (Inl e))"
  unfolding bindP_matchP runs_matchP by (auto simp: split_sum_ex)


text \<open>Every event a program can produce satisfies \<open>P\<close>.\<close>

primrec emits :: "(event \<Rightarrow> bool) \<Rightarrow> ('e, 'a) prog \<Rightarrow> bool" where
  "emits P (Return r) = True"
| "emits P (HttpSend x k) = (\<forall>z. P (Sent x z) \<and> emits P (k z))"
| "emits P (NextId k) = (\<forall>z. P (TookId z) \<and> emits P (k z))"
| "emits P (NewUuid k) = (\<forall>z. P (TookUuid z) \<and> emits P (k z))"
| "emits P (AskSingleUse k) = (\<forall>z. P (AskedSingleUse z) \<and> emits P (k z))"
| "emits P (AskReconciliation k) = (\<forall>z. P (AskedReconciliation z) \<and> emits P (k z))"
| "emits P (BeginEffect x y k) = (\<forall>z. P (Begun x y z) \<and> emits P (k z))"
| "emits P (LoadIntent x k) = (\<forall>z. P (Loaded x z) \<and> emits P (k z))"
| "emits P (CommitEffect x k) = (\<forall>z. P (Committed x z) \<and> emits P (k z))"
| "emits P (ListReceipts x k) = (\<forall>z. P (Listed x z) \<and> emits P (k z))"
| "emits P (MarkDelivered x y k) = (\<forall>z. P (Marked x y z) \<and> emits P (k z))"
| "emits P (ExecuteTool x k) = (\<forall>z. P (Executed x z) \<and> emits P (k z))"
| "emits P (LookupEffect x k) = (\<forall>z. P (LookedUp x z) \<and> emits P (k z))"

lemma emits_matchP: "emits P p \<Longrightarrow> (\<And>r. emits P (f r)) \<Longrightarrow> emits P (matchP p f)"
  by (induction p) auto

lemma emits_bindP: "emits P p \<Longrightarrow> (\<And>x. emits P (f x)) \<Longrightarrow> emits P (bindP p f)"
  by (simp add: bindP_matchP emits_matchP split: sum.split)

lemma emits_tryP: "(\<And>x. r = Inr x \<Longrightarrow> emits P (f x)) \<Longrightarrow> emits P (tryP r f)"
  by (cases r) auto

lemma emits_map_errP: "emits P p \<Longrightarrow> emits P (map_errP g p)"
  by (simp add: map_errP_def emits_matchP)

lemma emits_mapP: "emits P p \<Longrightarrow> emits P (mapP f p)"
  by (simp add: mapP_def emits_bindP)

lemma emits_mono: "emits P p \<Longrightarrow> (\<And>e. P e \<Longrightarrow> Q e) \<Longrightarrow> emits Q p"
  by (induction p) auto

lemmas emits_rules = emits_matchP emits_bindP emits_tryP emits_map_errP emits_mapP

lemma emits_runs: "emits P p \<Longrightarrow> runs p es r \<Longrightarrow> x \<in> set es \<Longrightarrow> P x"
  by (induction p arbitrary: es) (auto; metis rangeI)+

end
