(* ===== verification/Environment.thy ===== *)
theory Environment
  imports Program
begin

text \<open>
  The client an operation runs on (\<open>ClavenarClient\<close> of client.rs, the registered executor
  of execution.rs) and the shared world it acts on: the network, the durable store, the
  state of the application's tools, the JSON-RPC counter and, as a ghost, the trace of
  events. \<open>run\<close> executes one program to its end; \<open>step\<close> interleaves the actions of any
  number of running operations of any number of clients of one store, where an operation
  may also be started or be dropped (a crash or a cancelled future) at any point.

  \<open>guarded\<close> is the discipline that makes effects unique: a program calls the executor only
  under a permit, which is a \<open>Started\<close> reply it received and has not used. The context of
  \<open>effect_store\<close> turns it into the at-most-once bound over all interleavings.
\<close>

section \<open>Clients and the world\<close>

datatype auth = NoAuth | Bearer string

record 'x registered_tool_executor =
  ex_id :: string
  ex_callback :: "tool_execution_request \<Rightarrow> ('x, clavenar_error, execution_effect) eff"
  ex_effect_lookup :: "(effect_lookup_request \<Rightarrow> ('x, clavenar_error, effect_lookup_outcome) eff) option"

text \<open>
  The HTTP provider is its effect on the network's state; the signing key is the function
  it signs with, \<open>Signature::to_bytes\<close> included (RFC 6979 signing is deterministic).
\<close>

record ('n, 's, 'x) clavenar_client =
  cl_base_url :: string
  cl_auth :: auth
  cl_http :: "http_request \<Rightarrow> ('n, transport_error, http_response) eff"
  cl_new_uuid :: "'n \<Rightarrow> 'n \<times> uuid"
  cl_signing_key :: "(string \<Rightarrow> string) option"
  cl_tool_executor :: "'x registered_tool_executor option"
  cl_durable_store :: "'s durable_store option"

record ('n, 's, 'x) world =
  wd_net :: 'n
  wd_store :: 's
  wd_tools :: 'x
  wd_next_id :: u64
  wd_trace :: "event list"

definition note_event :: "event \<Rightarrow> ('n, 's, 'x) world \<Rightarrow> ('n, 's, 'x) world" where
  "note_event e w = w\<lparr>wd_trace := wd_trace w @ [e]\<rparr>"

text \<open>
  The reply to each action. The branches without a store or an executor are not reached:
  \<open>execution_dependencies\<close> refuses such a client first.
\<close>

definition with_store ::
  "('n, 's, 'x) clavenar_client \<Rightarrow> ('s durable_store \<Rightarrow> ('s, clavenar_error, 'a) eff)
   \<Rightarrow> ('n, 's, 'x) world \<Rightarrow> (clavenar_error + 'a) \<times> ('n, 's, 'x) world" where
  "with_store c f w = (case cl_durable_store c of
     None \<Rightarrow> (Inl (InvalidConfig ''durable_execution_store''), w)
   | Some st \<Rightarrow> (case f st (wd_store w) of (s, z) \<Rightarrow> (z, w\<lparr>wd_store := s\<rparr>)))"

definition with_tools ::
  "('x \<Rightarrow> 'x \<times> (clavenar_error + 'a)) option
   \<Rightarrow> ('n, 's, 'x) world \<Rightarrow> (clavenar_error + 'a) \<times> ('n, 's, 'x) world" where
  "with_tools f w = (case f of
     None \<Rightarrow> (Inl (InvalidConfig ''tool_executor''), w)
   | Some g \<Rightarrow> (case g (wd_tools w) of (x, z) \<Rightarrow> (z, w\<lparr>wd_tools := x\<rparr>)))"

definition asks_store ::
  "('n, 's, 'x) clavenar_client \<Rightarrow> ('s durable_store \<Rightarrow> 's \<Rightarrow> bool) \<Rightarrow> ('n, 's, 'x) world \<Rightarrow> bool" where
  "asks_store c f w = (case cl_durable_store c of None \<Rightarrow> False | Some st \<Rightarrow> f st (wd_store w))"

definition callback_of ::
  "('n, 's, 'x) clavenar_client \<Rightarrow> tool_execution_request
   \<Rightarrow> ('x \<Rightarrow> 'x \<times> (clavenar_error + execution_effect)) option" where
  "callback_of c q = map_option (\<lambda>ex. ex_callback ex q) (cl_tool_executor c)"

definition lookup_of ::
  "('n, 's, 'x) clavenar_client \<Rightarrow> effect_lookup_request
   \<Rightarrow> ('x \<Rightarrow> 'x \<times> (clavenar_error + effect_lookup_outcome)) option" where
  "lookup_of c q = (case cl_tool_executor c of None \<Rightarrow> None
     | Some ex \<Rightarrow> map_option (\<lambda>f. f q) (ex_effect_lookup ex))"

text \<open>One action, and a whole run.\<close>

fun advance ::
  "('n, 's, 'x) clavenar_client \<Rightarrow> ('e, 'a) prog \<Rightarrow> ('n, 's, 'x) world
   \<Rightarrow> ('e, 'a) prog \<times> ('n, 's, 'x) world" where
  "advance c (Return r) w = (Return r, w)"
| "advance c (HttpSend x k) w = (case (case cl_http c x (wd_net w) of (n, z) \<Rightarrow> (z, w\<lparr>wd_net := n\<rparr>)) of
     (z, w') \<Rightarrow> (k z, note_event (Sent x z) w'))"
| "advance c (NextId k) w = (case (wd_next_id w, w\<lparr>wd_next_id := wd_next_id w + 1\<rparr>) of
     (z, w') \<Rightarrow> (k z, note_event (TookId z) w'))"
| "advance c (NewUuid k) w = (case (case cl_new_uuid c (wd_net w) of (n, z) \<Rightarrow> (z, w\<lparr>wd_net := n\<rparr>)) of
     (z, w') \<Rightarrow> (k z, note_event (TookUuid z) w'))"
| "advance c (AskSingleUse k) w = (case (asks_store c ds_supports_single_use w, w) of
     (z, w') \<Rightarrow> (k z, note_event (AskedSingleUse z) w'))"
| "advance c (AskReconciliation k) w = (case (asks_store c ds_supports_reconciliation w, w) of
     (z, w') \<Rightarrow> (k z, note_event (AskedReconciliation z) w'))"
| "advance c (BeginEffect x y k) w = (case with_store c (\<lambda>st. ds_begin_effect_attempt st x y) w of
     (z, w') \<Rightarrow> (k z, note_event (Begun x y z) w'))"
| "advance c (LoadIntent x k) w = (case with_store c (\<lambda>st. ds_load_uncertain_intent st x) w of
     (z, w') \<Rightarrow> (k z, note_event (Loaded x z) w'))"
| "advance c (CommitEffect x k) w = (case with_store c (\<lambda>st. ds_commit_effect st x) w of
     (z, w') \<Rightarrow> (k z, note_event (Committed x z) w'))"
| "advance c (ListReceipts x k) w = (case with_store c (\<lambda>st. ds_pending_receipts st x) w of
     (z, w') \<Rightarrow> (k z, note_event (Listed x z) w'))"
| "advance c (MarkDelivered x y k) w = (case with_store c (\<lambda>st. ds_mark_delivered st x y) w of
     (z, w') \<Rightarrow> (k z, note_event (Marked x y z) w'))"
| "advance c (ExecuteTool x k) w = (case with_tools (callback_of c x) w of
     (z, w') \<Rightarrow> (k z, note_event (Executed x z) w'))"
| "advance c (LookupEffect x k) w = (case with_tools (lookup_of c x) w of
     (z, w') \<Rightarrow> (k z, note_event (LookedUp x z) w'))"

primrec run ::
  "('n, 's, 'x) clavenar_client \<Rightarrow> ('e, 'a) prog \<Rightarrow> ('n, 's, 'x) world
   \<Rightarrow> ('n, 's, 'x) world \<times> ('e + 'a)" where
  "run c (Return r) = (\<lambda>w. (w, r))"
| "run c (HttpSend x k) = (\<lambda>w. case (case cl_http c x (wd_net w) of (n, z) \<Rightarrow> (z, w\<lparr>wd_net := n\<rparr>)) of
     (z, w') \<Rightarrow> run c (k z) (note_event (Sent x z) w'))"
| "run c (NextId k) = (\<lambda>w. case (wd_next_id w, w\<lparr>wd_next_id := wd_next_id w + 1\<rparr>) of
     (z, w') \<Rightarrow> run c (k z) (note_event (TookId z) w'))"
| "run c (NewUuid k) = (\<lambda>w. case (case cl_new_uuid c (wd_net w) of (n, z) \<Rightarrow> (z, w\<lparr>wd_net := n\<rparr>)) of
     (z, w') \<Rightarrow> run c (k z) (note_event (TookUuid z) w'))"
| "run c (AskSingleUse k) = (\<lambda>w. case (asks_store c ds_supports_single_use w, w) of
     (z, w') \<Rightarrow> run c (k z) (note_event (AskedSingleUse z) w'))"
| "run c (AskReconciliation k) = (\<lambda>w. case (asks_store c ds_supports_reconciliation w, w) of
     (z, w') \<Rightarrow> run c (k z) (note_event (AskedReconciliation z) w'))"
| "run c (BeginEffect x y k) = (\<lambda>w. case with_store c (\<lambda>st. ds_begin_effect_attempt st x y) w of
     (z, w') \<Rightarrow> run c (k z) (note_event (Begun x y z) w'))"
| "run c (LoadIntent x k) = (\<lambda>w. case with_store c (\<lambda>st. ds_load_uncertain_intent st x) w of
     (z, w') \<Rightarrow> run c (k z) (note_event (Loaded x z) w'))"
| "run c (CommitEffect x k) = (\<lambda>w. case with_store c (\<lambda>st. ds_commit_effect st x) w of
     (z, w') \<Rightarrow> run c (k z) (note_event (Committed x z) w'))"
| "run c (ListReceipts x k) = (\<lambda>w. case with_store c (\<lambda>st. ds_pending_receipts st x) w of
     (z, w') \<Rightarrow> run c (k z) (note_event (Listed x z) w'))"
| "run c (MarkDelivered x y k) = (\<lambda>w. case with_store c (\<lambda>st. ds_mark_delivered st x y) w of
     (z, w') \<Rightarrow> run c (k z) (note_event (Marked x y z) w'))"
| "run c (ExecuteTool x k) = (\<lambda>w. case with_tools (callback_of c x) w of
     (z, w') \<Rightarrow> run c (k z) (note_event (Executed x z) w'))"
| "run c (LookupEffect x k) = (\<lambda>w. case with_tools (lookup_of c x) w of
     (z, w') \<Rightarrow> run c (k z) (note_event (LookedUp x z) w'))"

lemma run_advance: "run c p w = (case p of Return r \<Rightarrow> (w, r) | _ \<Rightarrow> (case advance c p w of (p', w') \<Rightarrow> run c p' w'))"
  by (cases p) (simp_all split: prod.split)

lemma trace_note [simp]: "wd_trace (note_event e w) = wd_trace w @ [e]"
  and store_note [simp]: "wd_store (note_event e w) = wd_store w"
  by (simp_all add: note_event_def)

lemma with_store_trace: "with_store c f w = (z, w') \<Longrightarrow> wd_trace w' = wd_trace w"
  by (auto simp: with_store_def split: option.splits prod.splits)

lemma with_tools_trace: "with_tools f w = (z, w') \<Longrightarrow> wd_trace w' = wd_trace w \<and> wd_store w' = wd_store w"
  by (auto simp: with_tools_def split: option.splits prod.splits)

text \<open>What a run did is one of the program's behaviours.\<close>

lemma run_runs:
  "run c p w = (w', r) \<Longrightarrow> \<exists>es. wd_trace w' = wd_trace w @ es \<and> runs p es r"
proof (induction p arbitrary: w)
  case (Return x)
  then show ?case by auto
qed (fastforce split: prod.splits dest: with_store_trace with_tools_trace)+

text \<open>Running a sequence of steps is running its parts.\<close>

lemma run_matchP: "run c (matchP p f) w = (case run c p w of (w', r) \<Rightarrow> run c (f r) w')"
  by (induction p arbitrary: w) (simp_all split: prod.split)

section \<open>Interleaving\<close>

inductive step ::
  "(('n, 's, 'x) clavenar_client \<times> ('e, 'a) prog) set
   \<Rightarrow> (('n, 's, 'x) clavenar_client \<times> ('e, 'a) prog) list \<times> ('n, 's, 'x) world
   \<Rightarrow> (('n, 's, 'x) clavenar_client \<times> ('e, 'a) prog) list \<times> ('n, 's, 'x) world \<Rightarrow> bool"
  for ops where
  Start: "cp \<in> ops \<Longrightarrow> step ops (ps, w) (ps @ [cp], w)"
| Act: "i < length ps \<Longrightarrow> ps ! i = (c, p) \<Longrightarrow> advance c p w = (p', w') \<Longrightarrow>
    step ops (ps, w) (ps[i := (c, p')], w')"
| Crash: "step ops (ps @ cp # qs, w) (ps @ qs, w)"

inductive reachable ::
  "(('n, 's, 'x) clavenar_client \<times> ('e, 'a) prog) set \<Rightarrow> ('n, 's, 'x) world
   \<Rightarrow> (('n, 's, 'x) clavenar_client \<times> ('e, 'a) prog) list \<times> ('n, 's, 'x) world \<Rightarrow> bool"
  for ops w0 where
  Initial: "reachable ops w0 ([], w0)"
| Next: "reachable ops w0 cfg \<Longrightarrow> step ops cfg cfg' \<Longrightarrow> reachable ops w0 cfg'"

inductive_cases stepE: "step ops cfg cfg'"

section \<open>Permits\<close>

primrec guarded :: "('e, 'a) prog \<Rightarrow> uuid set \<Rightarrow> bool" where
  "guarded (Return r) = (\<lambda>A. True)"
| "guarded (HttpSend x k) = (\<lambda>A. \<forall>z. guarded (k z) A)"
| "guarded (NextId k) = (\<lambda>A. \<forall>z. guarded (k z) A)"
| "guarded (NewUuid k) = (\<lambda>A. \<forall>z. guarded (k z) A)"
| "guarded (AskSingleUse k) = (\<lambda>A. \<forall>z. guarded (k z) A)"
| "guarded (AskReconciliation k) = (\<lambda>A. \<forall>z. guarded (k z) A)"
| "guarded (BeginEffect x y k) = (\<lambda>A. \<forall>z. guarded (k z)
     (if z = Inr Started then insert (in_authorization_id x) A else A))"
| "guarded (LoadIntent x k) = (\<lambda>A. \<forall>z. guarded (k z) A)"
| "guarded (CommitEffect x k) = (\<lambda>A. \<forall>z. guarded (k z) A)"
| "guarded (ListReceipts x k) = (\<lambda>A. \<forall>z. guarded (k z) A)"
| "guarded (MarkDelivered x y k) = (\<lambda>A. \<forall>z. guarded (k z) A)"
| "guarded (ExecuteTool x k) = (\<lambda>A. rq_authorization_id x \<in> A
     \<and> (\<forall>z. guarded (k z) (A - {rq_authorization_id x})))"
| "guarded (LookupEffect x k) = (\<lambda>A. \<forall>z. guarded (k z) A)"

text \<open>A program that never calls the executor needs no permit.\<close>

primrec never_executes :: "('e, 'a) prog \<Rightarrow> bool" where
  "never_executes (Return r) = True"
| "never_executes (HttpSend x k) = (\<forall>z. never_executes (k z))"
| "never_executes (NextId k) = (\<forall>z. never_executes (k z))"
| "never_executes (NewUuid k) = (\<forall>z. never_executes (k z))"
| "never_executes (AskSingleUse k) = (\<forall>z. never_executes (k z))"
| "never_executes (AskReconciliation k) = (\<forall>z. never_executes (k z))"
| "never_executes (BeginEffect x y k) = (\<forall>z. never_executes (k z))"
| "never_executes (LoadIntent x k) = (\<forall>z. never_executes (k z))"
| "never_executes (CommitEffect x k) = (\<forall>z. never_executes (k z))"
| "never_executes (ListReceipts x k) = (\<forall>z. never_executes (k z))"
| "never_executes (MarkDelivered x y k) = (\<forall>z. never_executes (k z))"
| "never_executes (ExecuteTool x k) = False"
| "never_executes (LookupEffect x k) = (\<forall>z. never_executes (k z))"

lemma never_executes_matchP:
  "never_executes p \<Longrightarrow> (\<And>r. never_executes (f r)) \<Longrightarrow> never_executes (matchP p f)"
  by (induction p) auto

lemma never_executes_bindP:
  "never_executes p \<Longrightarrow> (\<And>x. never_executes (f x)) \<Longrightarrow> never_executes (bindP p f)"
  by (simp add: bindP_matchP never_executes_matchP split: sum.split)

lemma guarded_matchP:
  "never_executes p \<Longrightarrow> (\<And>r B. A \<subseteq> B \<Longrightarrow> guarded (f r) B) \<Longrightarrow> guarded (matchP p f) A"
proof (induction p arbitrary: A)
  case (BeginEffect i u k)
  then show ?case by (auto intro!: BeginEffect.IH [OF rangeI])
qed auto

lemma guarded_bindP:
  "never_executes p \<Longrightarrow> (\<And>x B. A \<subseteq> B \<Longrightarrow> guarded (f x) B) \<Longrightarrow> guarded (bindP p f) A"
  unfolding bindP_matchP by (rule guarded_matchP) (auto split: sum.split)

lemma never_executes_guarded: "never_executes p \<Longrightarrow> guarded p A"
  by (induction p arbitrary: A) auto

lemma never_executes_tryP:
  "(\<And>x. r = Inr x \<Longrightarrow> never_executes (f x)) \<Longrightarrow> never_executes (tryP r f)"
  by (cases r) auto

lemma guarded_tryP: "(\<And>x. r = Inr x \<Longrightarrow> guarded (f x) A) \<Longrightarrow> guarded (tryP r f) A"
  by (cases r) auto

lemma never_executes_runs: "never_executes p \<Longrightarrow> runs p es r \<Longrightarrow> Executed q z \<notin> set es"
  by (induction p arbitrary: es) (auto; metis rangeI)+

end
