(* ===== verification/Rest.thy ===== *)
theory Rest
  imports Environment Percent
begin

text \<open>
  What the clients of the five services share: joining an endpoint onto the base URL,
  attaching the credential, sending one request and reading its reply (\<open>get_json\<close>,
  \<open>post_json\<close>, \<open>send_json\<close> of the clients, over the helpers of http.rs).

  The locale \<open>json_call\<close> is the contract of such a helper: it sends its request once and
  answers what its reader makes of the response. Its facts, over an interpretation for each
  client's reader, give the clients' properties: one request per call, nothing decoded but
  the reply, a transport failure reported as such. The codec facts at the end lift
  \<open>codec\<close> to the optional and list members the services' records use.
\<close>

section \<open>Sending\<close>

definition sendP :: "http_request \<Rightarrow> (clavenar_error, http_response) prog" where
  "sendP q = HttpSend q (\<lambda>z. Return (case z of Inl e \<Rightarrow> Inl (Transport e) | Inr r \<Rightarrow> Inr r))"

definition join_endpoint :: "libs \<Rightarrow> string \<Rightarrow> string \<Rightarrow> string \<Rightarrow> clavenar_error + string" where
  "join_endpoint L base rel label = (case url_join L base rel of
     Inl e \<Rightarrow> Inl (InvalidConfig (''join '' @ label @ '': '' @ e))
   | Inr url \<Rightarrow> Inr url)"

definition authorize_request :: "auth \<Rightarrow> http_request \<Rightarrow> http_request" where
  "authorize_request a q = (case a of NoAuth \<Rightarrow> q | Bearer token \<Rightarrow> bearer_auth token q)"

definition with_token :: "string option \<Rightarrow> http_request \<Rightarrow> http_request" where
  "with_token t q = (case t of None \<Rightarrow> q | Some token \<Rightarrow> bearer_auth token q)"

text \<open>\<open>StatusCode::is_success\<close>.\<close>

definition is_success :: "nat \<Rightarrow> bool" where
  "is_success status \<longleftrightarrow> 200 \<le> status \<and> status < 300"

text \<open>The tail every call ends with: read the bounded text, dispatch on the status.\<close>

definition read_decoded :: "libs \<Rightarrow> 'a dec \<Rightarrow> http_response \<Rightarrow> clavenar_error + 'a" where
  "read_decoded L d response =
     bindR (read_text_limited response) (\<lambda>body. decode_response L d (hs_status response) body)"

definition send_decoded :: "libs \<Rightarrow> 'a dec \<Rightarrow> http_request \<Rightarrow> (clavenar_error, 'a) prog" where
  "send_decoded L d q = bindP (sendP q) (\<lambda>response. Return (read_decoded L d response))"

section \<open>The contract of one call\<close>

definition reply_of :: "(http_response \<Rightarrow> clavenar_error + 'a) \<Rightarrow> transport_error + http_response \<Rightarrow> clavenar_error + 'a" where
  "reply_of read z = (case z of Inl e \<Rightarrow> Inl (Transport e) | Inr resp \<Rightarrow> read resp)"

lemma reply_of_simps [simp]: "reply_of read (Inl e) = Inl (Transport e)" "reply_of read (Inr resp) = read resp"
  by (simp_all add: reply_of_def)

lemma reply_of_Inr: "reply_of read z = Inr x \<longleftrightarrow> (\<exists>resp. z = Inr resp \<and> read resp = Inr x)"
  by (cases z) simp_all

locale json_call =
  fixes send :: "http_request \<Rightarrow> (clavenar_error, 'a) prog"
    and read :: "http_response \<Rightarrow> clavenar_error + 'a"
  assumes one_request: "runs (send q) es r \<longleftrightarrow> (\<exists>z. es = [Sent q z] \<and> r = reply_of read z)"
begin

lemma success: "runs (send q) es (Inr x) \<longleftrightarrow> (\<exists>resp. es = [Sent q (Inr resp)] \<and> read resp = Inr x)"
  by (auto simp: one_request reply_of_Inr eq_commute [of "Inr x"])

lemma answers: "\<exists>r. runs (send q) [Sent q z] r"
  by (auto simp: one_request)

lemma sent_only: "runs (send q) es r \<Longrightarrow> Sent q' z \<in> set es \<longleftrightarrow> es = [Sent q z] \<and> q' = q"
  by (auto simp: one_request)

text \<open>A call whose request may not be buildable sends it once or not at all.\<close>

lemma built: "runs (tryP b (\<lambda>u. send (f u))) es r \<longleftrightarrow>
    (\<exists>e. b = Inl e \<and> es = [] \<and> r = Inl e)
    \<or> (\<exists>u z. b = Inr u \<and> es = [Sent (f u) z] \<and> r = reply_of read z)"
  by (cases b) (auto simp: one_request)

lemma mapped: "runs (mapP f (send q)) es r \<longleftrightarrow>
    (\<exists>z. es = [Sent q z] \<and> r = map_sum id f (reply_of read z))"
proof -
  have "runs (mapP f (send q)) es r \<longleftrightarrow> (\<exists>es' r'. runs (send q) es' r' \<and> es = es'
      \<and> r = map_sum id f r')"
    unfolding mapP_def bindP_matchP runs_matchP by (auto split: sum.splits simp: split_sum_ex)
  then show ?thesis by (auto simp: one_request)
qed

end

lemma runs_sendP_bind: "runs (bindP (sendP q) (\<lambda>resp. Return (read resp))) es r \<longleftrightarrow>
    (\<exists>z. es = [Sent q z] \<and> r = reply_of read z)"
  by (auto simp: sendP_def reply_of_def split: sum.splits)

interpretation decoded: json_call "send_decoded L d" "read_decoded L d"
  by unfold_locales (simp add: send_decoded_def runs_sendP_bind)

lemma hr_url_simps [simp]: "hr_url (authorize_request a q) = hr_url q" "hr_url (json_body j q) = hr_url q"
  "hr_url (header k v q) = hr_url q" "hr_url (request m u) = u" "hr_url (bearer_auth t q) = hr_url q"
  "hr_url (with_token t' q) = hr_url q"
  by (simp_all add: authorize_request_def json_body_def header_def request_def bearer_auth_def with_token_def
      split: auth.splits option.splits)

lemma hr_method_simps [simp]: "hr_method (json_body j q) = hr_method q"
  "hr_method (header k v q) = hr_method q" "hr_method (request m u) = m"
  "hr_method (with_token t' q) = hr_method q"
  by (simp_all add: json_body_def header_def request_def bearer_auth_def with_token_def split: option.splits)

lemma hr_body_simps [simp]: "hr_body (json_body j q) = JsonBody j"
  "hr_body (header k v q) = hr_body q" "hr_body (request m u) = NoBody"
  "hr_body (with_token t' q) = hr_body q"
  by (simp_all add: json_body_def header_def request_def bearer_auth_def with_token_def split: option.splits)

definition token_headers :: "string option \<Rightarrow> (string \<times> string) list" where
  "token_headers t = (case t of None \<Rightarrow> [] | Some token \<Rightarrow> [(''authorization'', ''Bearer '' @ token)])"

lemma hr_headers_simps [simp]: "hr_headers (json_body j q) = hr_headers q"
  "hr_headers (header k v q) = hr_headers q @ [(k, v)]" "hr_headers (request m u) = []"
  "hr_headers (with_token t' q) = hr_headers q @ token_headers t'"
  by (simp_all add: json_body_def header_def request_def bearer_auth_def with_token_def token_headers_def
      split: option.splits)

section \<open>Members of the services' records\<close>

text \<open>\<open>DateTime<Utc>\<close> as chrono reads it from its RFC 3339 text.\<close>

definition dec_datetime :: "libs \<Rightarrow> datetime dec" where
  "dec_datetime L j = (case j of JString s \<Rightarrow> rfc3339_parse L s | _ \<Rightarrow> None)"

definition enc_datetime :: "libs \<Rightarrow> datetime \<Rightarrow> json" where
  "enc_datetime L t = JString (datetime_serde L t)"

lemma dec_enc_datetime [simp]: "datetime_laws L \<Longrightarrow> dec_datetime L (enc_datetime L t) = Some t"
  by (simp add: dec_datetime_def enc_datetime_def datetime_laws_def)

lemma enc_datetime_scalar [simp]: "enc_datetime L t \<noteq> JNull"
  by (simp_all add: enc_datetime_def)

lemma dec_option_datetime [simp]: "datetime_laws L \<Longrightarrow> dec_option (dec_datetime L) (enc_datetime L t) = Some (Some t)"
  by (simp add: dec_option_def)

lemma dec_enc_option_string [simp]: "dec_option dec_string (enc_option JString x) = Some x"
  by (cases x) (simp_all add: dec_option_def enc_option_def)

lemma enc_scalar_not_null [simp]: "enc_i64 n \<noteq> JNull" "enc_u64 m \<noteq> JNull" "enc_u32 k \<noteq> JNull"
  by (simp_all add: enc_i64_def enc_u64_def enc_u32_def)

lemma dec_enc_option_scalar [simp]: "dec_option dec_i64 (enc_option enc_i64 a) = Some a"
  "dec_option dec_u32 (enc_option enc_u32 b) = Some b" "dec_option dec_u64 (enc_option enc_u64 c) = Some c"
  "dec_option dec_bool (enc_option JBool d) = Some d"
  by (cases a; cases b; cases c; cases d; simp add: dec_option_def enc_option_def)+

lemma dec_enc_option_value [simp]:
  "pred_option (\<lambda>j. json_wf j \<and> j \<noteq> JNull) x \<Longrightarrow> dec_option dec_value (enc_option (\<lambda>j. j) x) = Some x"
  by (cases x) (simp_all add: dec_option_def enc_option_def dec_value_wf)

lemma dec_enc_list_string [simp]: "dec_list dec_string (enc_list JString xs) = Some xs"
  by (rule string_codec.read_back_list) (simp add: list_all_iff)

lemma dec_enc_list_value [simp]: "list_all json_wf xs \<Longrightarrow> dec_list dec_value (enc_list (\<lambda>j. j) xs) = Some xs"
  by (rule value_codec.read_back_list)

lemma dec_option_scalar [simp]: "dec_option dec_string (JString s) = Some (Some s)"
  "dec_option dec_i64 (enc_i64 a) = Some (Some a)" "dec_option dec_u32 (enc_u32 b) = Some (Some b)"
  "dec_option dec_u64 (enc_u64 c) = Some (Some c)" "dec_option dec_bool (JBool d) = Some (Some d)"
  "json_wf j \<Longrightarrow> j \<noteq> JNull \<Longrightarrow> dec_option dec_value j = Some (Some j)"
  by (simp_all add: dec_option_def dec_value_wf)

lemma all_True [simp]: "list_all (\<lambda>_. True) xs" "pred_option (\<lambda>_. True) x"
  by (simp_all add: list_all_iff pred_option_def)

lemmas record_simps = struct_fields_def need_def opt_def skip_none_def dflt_def dec_value_wf

text \<open>The members of an encoded struct, for \<open>#[serde(flatten)]\<close>.\<close>

definition members :: "json \<Rightarrow> (string \<times> json) list" where
  "members j = (case j of JObject kvs \<Rightarrow> kvs | _ \<Rightarrow> [])"

section \<open>Paths and queries\<close>

text \<open>
  The behaviour of the url crate the endpoint builders rely on. Joining a relative path of
  encoded segments onto a base that ends with a slash and has no query appends it, unless a
  segment is a dot segment (RFC 3986, section 5.2.4, removes those) or the path starts with
  a slash; and the first query pair appended to such a URL determines the URL and its value.
\<close>

definition plain_base :: "string \<Rightarrow> bool" where
  "plain_base base \<longleftrightarrow> ends_with ''/'' base \<and> CHR ''?'' \<notin> set base \<and> CHR ''#'' \<notin> set base"

definition segment_path :: "string list \<Rightarrow> string" where
  "segment_path xs = join_with ''/'' (map percent_encode xs)"

definition plain_segments :: "string list \<Rightarrow> bool" where
  "plain_segments xs \<longleftrightarrow> xs \<noteq> [] \<and> hd xs \<noteq> [] \<and> list_all (\<lambda>x. x \<noteq> ''.'' \<and> x \<noteq> ''..'') xs"

definition url_laws :: "libs \<Rightarrow> bool" where
  "url_laws L \<longleftrightarrow>
     (\<forall>base xs. plain_base base \<longrightarrow> plain_segments xs \<longrightarrow>
        url_join L base (segment_path xs) = Inr (base @ segment_path xs))
   \<and> (\<forall>u u' k v v'. CHR ''?'' \<notin> set u \<longrightarrow> CHR ''?'' \<notin> set u' \<longrightarrow>
        url_append_pair L u k v = url_append_pair L u' k v' \<longrightarrow> u = u' \<and> v = v')"

lemma sample_url_laws: "url_laws sample_libs"
proof -
  have "u = u'" if "CHR ''?'' \<notin> set u" "CHR ''?'' \<notin> set u'" "u @ CHR ''?'' # x = u' @ CHR ''?'' # y" for u u' x y
  proof -
    have "takeWhile (\<lambda>c. c \<noteq> CHR ''?'') (w @ CHR ''?'' # t) = w" if "CHR ''?'' \<notin> set w" for w t
      using that by (subst takeWhile_append2) auto
    with that show ?thesis by metis
  qed
  then show ?thesis by (auto simp: url_laws_def sample_libs_def)
qed

lemma segment_path_chars: "x \<in> set (segment_path xs) \<Longrightarrow> unreserved x \<or> x = CHR ''%'' \<or> x = CHR ''/''"
proof (induction xs)
  case (Cons s xs)
  then show ?case
    using percent_encode_chars by (auto simp: segment_path_def join_with_Cons split: if_splits)
qed (simp add: segment_path_def)

lemma segment_path_inject:
  "length xs = length ys \<Longrightarrow> segment_path xs = segment_path ys \<Longrightarrow> xs = ys"
  unfolding segment_path_def by (rule percent.join_inject) (simp_all add: delimiter_def)

lemma no_query: "plain_base base \<Longrightarrow> CHR ''?'' \<notin> set (base @ segment_path xs)"
  using segment_path_chars [of "CHR ''?''" xs] by (auto simp: plain_base_def unreserved_def byte_def)

definition forgetP :: "(clavenar_error, 'a) prog \<Rightarrow> (clavenar_error, unit) prog" where
  "forgetP p = mapP (\<lambda>_. ()) p"


lemma forgetP_bind [simp]: "forgetP (bindP p (\<lambda>x. okP (g x))) = forgetP p"
  unfolding forgetP_def mapP_def bindP_matchP matchP_assoc
  by (rule arg_cong [of _ _ "matchP p"]) (auto split: sum.split)

lemma mapP_Return [simp]: "mapP f (Return r) = Return (map_sum id f r)"
  by (cases r) (simp_all add: mapP_def)

lemma mapP_tryP [simp]: "mapP f (tryP b g) = tryP b (\<lambda>x. mapP f (g x))"
  by (cases b) simp_all

lemma runs_bind_ok: "runs p es (Inr x) \<Longrightarrow> runs (bindP p (\<lambda>x. okP (g x))) es (Inr (g x))"
  by (auto simp: runs_bindP_Inr)

lemma forgetP_errP [simp]: "forgetP (errP e) = errP e"
  by (simp add: forgetP_def)

lemma forgetP_try_bind [simp]:
  "forgetP (tryP b (\<lambda>u. bindP (f u) (\<lambda>x. okP (g x)))) = forgetP (tryP b f)"
  by (cases b) simp_all

text \<open>The behaviours of an operation that builds an endpoint and makes one call.\<close>

lemma runs_one_call:
  "runs (forgetP (tryP b (\<lambda>url. send_decoded L d (f url)))) es r \<longleftrightarrow>
    (\<exists>e. b = Inl e \<and> es = [] \<and> r = Inl e)
    \<or> (\<exists>url z. b = Inr url \<and> es = [Sent (f url) z] \<and> r = map_sum id (\<lambda>_. ()) (reply_of (read_decoded L d) z))"
  by (cases b) (auto simp: forgetP_def decoded.mapped)

lemma join_endpoint_Inl: "join_endpoint L base rel label = Inl e \<Longrightarrow> \<exists>m. e = InvalidConfig m"
  by (auto simp: join_endpoint_def split: sum.splits)

lemma join_endpoint_Inr: "join_endpoint L base rel label = Inr url \<longleftrightarrow> url_join L base rel = Inr url"
  by (auto simp: join_endpoint_def split: sum.splits)

lemma read_decoded_Inr: "read_decoded L d resp = Inr x \<Longrightarrow> hs_status resp = 200 \<or> hs_status resp = 201"
  by (auto simp: read_decoded_def bindR_Inr decode_response_def split: if_splits)


section \<open>Confined calls\<close>

text \<open>Query pairs in the order they are appended.\<close>

definition query :: "libs \<Rightarrow> (string \<times> string) list \<Rightarrow> string \<Rightarrow> string" where
  "query L pairs url = fold (\<lambda>(k, v) u. url_append_pair L u k v) pairs url"

lemma query_simps [simp]: "query L [] url = url"
  "query L ((k, v) # pairs) url = query L pairs (url_append_pair L url k v)"
  by (simp_all add: query_def)

text \<open>
  An operation that makes at most one call, whose request satisfies \<open>N\<close> and carries the token
  as its only credential: an endpoint that cannot be built is a configuration error before
  anything is sent, a transport error is reported as such, and only 200 and 201 succeed.
\<close>

definition confined_call :: "(http_request \<Rightarrow> bool) \<Rightarrow> string option \<Rightarrow> (clavenar_error, unit) prog \<Rightarrow> bool" where
  "confined_call N token p \<longleftrightarrow> (\<forall>es r. runs p es r \<longrightarrow>
     (es = [] \<and> (\<exists>m. r = Inl (InvalidConfig m)))
   \<or> (\<exists>q z. es = [Sent q z] \<and> N q
        \<and> filter (\<lambda>h. fst h = ''authorization'') (hr_headers q) = token_headers token
        \<and> (case z of Inl e \<Rightarrow> r = Inl (Transport e)
           | Inr resp \<Rightarrow> is_ok r \<longrightarrow> hs_status resp = 200 \<or> hs_status resp = 201)))"

lemma confined_one_call:
  assumes "\<And>e. b = Inl e \<Longrightarrow> \<exists>m. e = InvalidConfig m"
    and "\<And>url. b = Inr url \<Longrightarrow> N (f url)
      \<and> filter (\<lambda>h. fst h = ''authorization'') (hr_headers (f url)) = token_headers token"
  shows "confined_call N token (forgetP (tryP b (\<lambda>url. send_decoded L d (f url))))"
  unfolding confined_call_def runs_one_call
proof (intro allI impI)
  fix es r
  assume "(\<exists>e. b = Inl e \<and> es = [] \<and> r = Inl e)
    \<or> (\<exists>url z. b = Inr url \<and> es = [Sent (f url) z] \<and> r = map_sum id (\<lambda>_. ()) (reply_of (read_decoded L d) z))"
  then show "(es = [] \<and> (\<exists>m. r = Inl (InvalidConfig m)))
   \<or> (\<exists>q z. es = [Sent q z] \<and> N q
        \<and> filter (\<lambda>h. fst h = ''authorization'') (hr_headers q) = token_headers token
        \<and> (case z of Inl e \<Rightarrow> r = Inl (Transport e)
           | Inr resp \<Rightarrow> is_ok r \<longrightarrow> hs_status resp = 200 \<or> hs_status resp = 201))"
  proof (elim disjE exE conjE)
    fix e assume "b = Inl e" "es = []" "r = Inl e"
    with assms(1) show ?thesis by blast
  next
    fix url z
    assume b: "b = Inr url" and es: "es = [Sent (f url) z]"
      and r: "r = map_sum id (\<lambda>_. ()) (reply_of (read_decoded L d) z)"
    have "case z of Inl e \<Rightarrow> r = Inl (Transport e)
       | Inr resp \<Rightarrow> is_ok r \<longrightarrow> hs_status resp = 200 \<or> hs_status resp = 201"
    proof (cases z)
      case (Inr resp)
      then show ?thesis using r read_decoded_Inr [of L d resp] by (cases "read_decoded L d resp") auto
    qed (simp add: r)
    with es assms(2) [OF b] show ?thesis by blast
  qed
qed

lemma token_headers_filter [simp]:
  "filter (\<lambda>h. fst h = ''authorization'') (token_headers t) = token_headers t"
  by (simp add: token_headers_def split: option.split)

end
