(* ===== verification/Exec_Validate.thy ===== *)
theory Exec_Validate
  imports Program Environment
begin

text \<open>
  The pure part of execution.rs: the wire constants, the two JSON-RPC envelopes, the
  uncertain-effect handle, and every validation an operation performs. A validation returns
  \<open>Inr ()\<close> or the \<open>InvalidConfig\<close> the source builds; the collection \<open>validators\<close> gives,
  for each one, the exact set of inputs it accepts.
\<close>

section \<open>Constants\<close>

definition DEFAULT_EXECUTOR_ID :: string where
  "DEFAULT_EXECUTOR_ID = ''clavenar.registered-sdk-executor/default''"
definition MAX_OUTBOX_FLUSH :: usize where "MAX_OUTBOX_FLUSH = 128"
definition MAX_BATCH_CALLS :: usize where "MAX_BATCH_CALLS = 128"
definition DECISION_CONTRACT :: string where "DECISION_CONTRACT = ''clavenar.decision/v1''"
definition DECISION_CONTRACT_HEADER :: string where
  "DECISION_CONTRACT_HEADER = ''x-clavenar-decision-contract''"
definition EXECUTION_CONTRACT :: string where "EXECUTION_CONTRACT = ''clavenar.execution/v1''"
definition IDEMPOTENCY_ID_HEADER :: string where
  "IDEMPOTENCY_ID_HEADER = ''x-clavenar-idempotency-id''"
definition PENDING_AUTHORIZATION_CONTRACT :: string where
  "PENDING_AUTHORIZATION_CONTRACT = ''clavenar.pending-authorization/v1''"
definition PENDING_ID_HEADER :: string where "PENDING_ID_HEADER = ''x-clavenar-pending-id''"
definition PENDING_PAYLOAD_SHA256_HEADER :: string where
  "PENDING_PAYLOAD_SHA256_HEADER = ''x-clavenar-pending-payload-sha256''"
definition ATOMIC_TOOL_CALL_BATCH_CONTRACT :: string where
  "ATOMIC_TOOL_CALL_BATCH_CONTRACT = ''clavenar.atomic-tool-call-batch/v1''"
definition ATOMIC_TOOL_CALL_BATCH_METHOD :: string where
  "ATOMIC_TOOL_CALL_BATCH_METHOD = ''clavenar/tools.batch''"
definition ATOMIC_TOOL_CALL_BATCH_NAME :: string where
  "ATOMIC_TOOL_CALL_BATCH_NAME = ''clavenar.atomic-batch''"
definition DURABLE_EXECUTION_OUTBOX_WIRE_CONTRACT :: string where
  "DURABLE_EXECUTION_OUTBOX_WIRE_CONTRACT = ''clavenar.sdk-durable-intent-outbox/v1''"
definition UNCERTAIN_EFFECT_CONTRACT :: string where
  "UNCERTAIN_EFFECT_CONTRACT = ''clavenar.uncertain-effect/v1''"

lemmas exec_consts = DECISION_CONTRACT_def DECISION_CONTRACT_HEADER_def EXECUTION_CONTRACT_def
  IDEMPOTENCY_ID_HEADER_def PENDING_AUTHORIZATION_CONTRACT_def PENDING_ID_HEADER_def
  PENDING_PAYLOAD_SHA256_HEADER_def ATOMIC_TOOL_CALL_BATCH_CONTRACT_def
  ATOMIC_TOOL_CALL_BATCH_METHOD_def ATOMIC_TOOL_CALL_BATCH_NAME_def
  DURABLE_EXECUTION_OUTBOX_WIRE_CONTRACT_def UNCERTAIN_EFFECT_CONTRACT_def

text \<open>A guard that returns an \<open>InvalidConfig\<close> early.\<close>

definition reject_if :: "bool \<Rightarrow> string \<Rightarrow> clavenar_error + unit" where
  "reject_if b message = (if b then Inl (InvalidConfig message) else Inr ())"

lemma reject_if_Inr [simp]: "reject_if b m = Inr u \<longleftrightarrow> \<not> b"
  by (simp add: reject_if_def)

lemma reject_if_Inl: "reject_if b m = Inl e \<longleftrightarrow> b \<and> e = InvalidConfig m"
  by (auto simp: reject_if_def)

section \<open>Registered executors\<close>

definition new_executor ::
  "(json \<Rightarrow> ('x, clavenar_error, execution_effect) eff) \<Rightarrow> 'x registered_tool_executor" where
  "new_executor executor = \<lparr>ex_id = DEFAULT_EXECUTOR_ID,
     ex_callback = (\<lambda>q. executor (rq_execution_payload q)), ex_effect_lookup = None\<rparr>"

definition new_idempotent ::
  "string \<Rightarrow> (tool_execution_request \<Rightarrow> ('x, clavenar_error, execution_effect) eff)
   \<Rightarrow> 'x registered_tool_executor" where
  "new_idempotent executor_id executor =
     \<lparr>ex_id = executor_id, ex_callback = executor, ex_effect_lookup = None\<rparr>"

definition new_reconciling ::
  "string \<Rightarrow> (tool_execution_request \<Rightarrow> ('x, clavenar_error, execution_effect) eff)
   \<Rightarrow> (effect_lookup_request \<Rightarrow> ('x, clavenar_error, effect_lookup_outcome) eff)
   \<Rightarrow> 'x registered_tool_executor" where
  "new_reconciling executor_id executor effect_lookup =
     \<lparr>ex_id = executor_id, ex_callback = executor, ex_effect_lookup = Some effect_lookup\<rparr>"

definition has_lookup :: "'x registered_tool_executor \<Rightarrow> bool" where
  "has_lookup ex \<longleftrightarrow> ex_effect_lookup ex \<noteq> None"

section \<open>Names, calls and prepared requests\<close>

definition validate_tool_name :: "string \<Rightarrow> clavenar_error + unit" where
  "validate_tool_name name = reject_if (name = [] \<or> length name > 256)
     ''tool name must contain 1..=256 characters''"

definition validate_executor_id :: "string \<Rightarrow> clavenar_error + unit" where
  "validate_executor_id executor_id =
     reject_if (executor_id = [] \<or> length executor_id > 256 \<or> \<not> list_all is_ascii_graphic executor_id)
       ''executor identity must contain 1..=256 visible ASCII characters''"

text \<open>The loop over the calls, with the \<open>HashSet\<close> of the identifiers seen so far.\<close>

fun check_calls :: "string set \<Rightarrow> model_tool_call list \<Rightarrow> clavenar_error + unit" where
  "check_calls ids [] = Inr ()"
| "check_calls ids (call # calls) =
     (if call_id call = [] \<or> length (call_id call) > 256 \<or> call_id call \<in> ids
      then Inl (InvalidConfig
        ''atomic tool-call batch IDs must be unique and contain 1..=256 characters'')
      else if call_name call = [] \<or> length (call_name call) > 256
      then Inl (InvalidConfig ''atomic tool-call names must contain 1..=256 characters'')
      else check_calls (insert (call_id call) ids) calls)"

definition validate_model_tool_calls :: "model_tool_call list \<Rightarrow> clavenar_error + unit" where
  "validate_model_tool_calls calls =
     (if calls = [] \<or> length calls > unat MAX_BATCH_CALLS
      then Inl (InvalidConfig (''atomic tool-call batch must contain 1..='' @
        show_u64 MAX_BATCH_CALLS @ '' calls''))
      else check_calls {} calls)"

text \<open>The abstract contract of a batch.\<close>

definition well_formed_batch :: "model_tool_call list \<Rightarrow> bool" where
  "well_formed_batch calls \<longleftrightarrow> 1 \<le> length calls \<and> length calls \<le> 128
     \<and> distinct (map call_id calls)
     \<and> (\<forall>c \<in> set calls. call_id c \<noteq> [] \<and> length (call_id c) \<le> 256
          \<and> call_name c \<noteq> [] \<and> length (call_name c) \<le> 256)"

lemma check_calls_Inr:
  "check_calls ids calls = Inr u \<longleftrightarrow> distinct (map call_id calls) \<and> set (map call_id calls) \<inter> ids = {}
     \<and> (\<forall>c \<in> set calls. call_id c \<noteq> [] \<and> length (call_id c) \<le> 256
          \<and> call_name c \<noteq> [] \<and> length (call_name c) \<le> 256)"
  by (induction ids calls rule: check_calls.induct) (auto simp: not_less)

lemma validate_calls_Inr [validators]:
  "validate_model_tool_calls calls = Inr u \<longleftrightarrow> well_formed_batch calls"
  by (auto simp: validate_model_tool_calls_def well_formed_batch_def check_calls_Inr MAX_BATCH_CALLS_def
      Suc_le_eq)

lemma validate_tool_name_Inr [validators]:
  "validate_tool_name name = Inr u \<longleftrightarrow> name \<noteq> [] \<and> length name \<le> 256"
  by (auto simp: validate_tool_name_def)

lemma validate_executor_id_Inr [validators]:
  "validate_executor_id i = Inr u \<longleftrightarrow> i \<noteq> [] \<and> length i \<le> 256 \<and> list_all is_ascii_graphic i"
  by (auto simp: validate_executor_id_def)

definition validate_request :: "prepared_tool_request \<Rightarrow> clavenar_error + unit" where
  "validate_request prepared = validate_tool_name (ptr_name prepared)"

definition validate_batch :: "prepared_tool_batch \<Rightarrow> clavenar_error + unit" where
  "validate_batch prepared = validate_model_tool_calls (ptb_calls prepared)"

definition restore_request ::
  "uuid \<Rightarrow> string \<Rightarrow> json \<Rightarrow> clavenar_error + prepared_tool_request" where
  "restore_request idempotency_id name arguments =
     (let prepared = \<lparr>ptr_idempotency_id = idempotency_id, ptr_name = name, ptr_arguments = arguments\<rparr>
      in bindR (validate_request prepared) (\<lambda>_. Inr prepared))"

definition new_request :: "string \<Rightarrow> json \<Rightarrow> (clavenar_error, prepared_tool_request) prog" where
  "new_request name arguments = NewUuid (\<lambda>u. Return (restore_request u name arguments))"

definition restore_batch ::
  "uuid \<Rightarrow> model_tool_call list \<Rightarrow> clavenar_error + prepared_tool_batch" where
  "restore_batch idempotency_id calls =
     (let prepared = \<lparr>ptb_idempotency_id = idempotency_id, ptb_calls = calls\<rparr>
      in bindR (validate_batch prepared) (\<lambda>_. Inr prepared))"

definition new_batch :: "model_tool_call list \<Rightarrow> (clavenar_error, prepared_tool_batch) prog" where
  "new_batch calls = NewUuid (\<lambda>u. Return (restore_batch u calls))"

section \<open>Envelopes\<close>

text \<open>\<open>json!\<close> builds a \<open>Value\<close>: members are normalized into the map.\<close>

definition tool_envelope :: "libs \<Rightarrow> uuid \<Rightarrow> string \<Rightarrow> json \<Rightarrow> json" where
  "tool_envelope L idempotency_id name arguments = normalize (JObject [
     (''jsonrpc'', JString ''2.0''),
     (''id'', JString (uuid_string L idempotency_id)),
     (''method'', JString ''tools/call''),
     (''params'', JObject [(''name'', JString name), (''arguments'', arguments)])])"

definition atomic_batch_envelope :: "libs \<Rightarrow> uuid \<Rightarrow> model_tool_call list \<Rightarrow> json" where
  "atomic_batch_envelope L idempotency_id calls = normalize (JObject [
     (''jsonrpc'', JString ''2.0''),
     (''id'', JString (uuid_string L idempotency_id)),
     (''method'', JString ATOMIC_TOOL_CALL_BATCH_METHOD),
     (''params'', JObject [
        (''name'', JString ATOMIC_TOOL_CALL_BATCH_NAME),
        (''arguments'', JObject [
           (''contract'', JString ATOMIC_TOOL_CALL_BATCH_CONTRACT),
           (''calls'', enc_list enc_model_tool_call calls)])])])"

end
