(* ===== verification/Client.thy ===== *)
theory Client
  imports Rest Exec_Validate
begin

text \<open>
  \<open>ClavenarClient\<close> (client.rs): the builder and the JSON-RPC surface over \<open>POST /mcp\<close>.
  \<open>call_tool\<close> and \<open>send_jsonrpc\<close> draw their identifier from the counter all clones of a
  client share (\<open>NextId\<close>), send one request and dispatch on the status; a 403 is always a
  veto. The client record and the registered executor are in \<open>Environment\<close>.
\<close>

section \<open>The builder\<close>

record ('n, 's, 'x) clavenar_client_builder =
  bd_base_url :: string
  bd_auth :: auth
  bd_http :: "(http_request \<Rightarrow> ('n, transport_error, http_response) eff) option"
  bd_signing_key :: "(string \<Rightarrow> string) option"
  bd_tool_executor :: "'x registered_tool_executor option"
  bd_durable_store :: "'s durable_store option"

definition builder :: "libs \<Rightarrow> string \<Rightarrow> clavenar_error + ('n, 's, 'x) clavenar_client_builder" where
  "builder L base_url = bindR (parse_base_url L base_url) (\<lambda>url.
     Inr \<lparr>bd_base_url = url, bd_auth = NoAuth, bd_http = None, bd_signing_key = None,
       bd_tool_executor = None, bd_durable_store = None\<rparr>)"

definition set_auth :: "auth \<Rightarrow> ('n, 's, 'x) clavenar_client_builder \<Rightarrow> ('n, 's, 'x) clavenar_client_builder" where
  "set_auth a b = b\<lparr>bd_auth := a\<rparr>"

definition set_http_provider ::
  "(http_request \<Rightarrow> ('n, transport_error, http_response) eff)
   \<Rightarrow> ('n, 's, 'x) clavenar_client_builder \<Rightarrow> ('n, 's, 'x) clavenar_client_builder" where
  "set_http_provider p b = b\<lparr>bd_http := Some p\<rparr>"

definition set_execution_signing_key ::
  "(string \<Rightarrow> string) \<Rightarrow> ('n, 's, 'x) clavenar_client_builder \<Rightarrow> ('n, 's, 'x) clavenar_client_builder" where
  "set_execution_signing_key key b = b\<lparr>bd_signing_key := Some key\<rparr>"

definition set_tool_executor ::
  "(json \<Rightarrow> ('x, clavenar_error, execution_effect) eff)
   \<Rightarrow> ('n, 's, 'x) clavenar_client_builder \<Rightarrow> ('n, 's, 'x) clavenar_client_builder" where
  "set_tool_executor executor b = b\<lparr>bd_tool_executor := Some (new_executor executor)\<rparr>"

definition set_idempotent_tool_executor ::
  "string \<Rightarrow> (tool_execution_request \<Rightarrow> ('x, clavenar_error, execution_effect) eff)
   \<Rightarrow> ('n, 's, 'x) clavenar_client_builder \<Rightarrow> ('n, 's, 'x) clavenar_client_builder" where
  "set_idempotent_tool_executor executor_id executor b =
     b\<lparr>bd_tool_executor := Some (new_idempotent executor_id executor)\<rparr>"

definition set_reconciling_tool_executor ::
  "string \<Rightarrow> (tool_execution_request \<Rightarrow> ('x, clavenar_error, execution_effect) eff)
   \<Rightarrow> (effect_lookup_request \<Rightarrow> ('x, clavenar_error, effect_lookup_outcome) eff)
   \<Rightarrow> ('n, 's, 'x) clavenar_client_builder \<Rightarrow> ('n, 's, 'x) clavenar_client_builder" where
  "set_reconciling_tool_executor executor_id executor effect_lookup b =
     b\<lparr>bd_tool_executor := Some (new_reconciling executor_id executor effect_lookup)\<rparr>"

definition set_durable_execution_store ::
  "'s durable_store \<Rightarrow> ('n, 's, 'x) clavenar_client_builder \<Rightarrow> ('n, 's, 'x) clavenar_client_builder" where
  "set_durable_execution_store st b = b\<lparr>bd_durable_store := Some st\<rparr>"

text \<open>
  \<open>build\<close> also allocates the counter, at one. The default provider is the process-wide one
  when installed, else a fresh client; \<open>uuids\<close> is the source of \<open>Uuid::now_v7\<close>.
\<close>

definition build_client ::
  "(http_request \<Rightarrow> ('n, transport_error, http_response) eff) option
   \<Rightarrow> transport_error + (http_request \<Rightarrow> ('n, transport_error, http_response) eff)
   \<Rightarrow> ('n \<Rightarrow> 'n \<times> uuid) \<Rightarrow> ('n, 's, 'x) clavenar_client_builder
   \<Rightarrow> clavenar_error + ('n, 's, 'x) clavenar_client \<times> u64" where
  "build_client installed fresh uuids b =
     bindR (case bd_http b of Some p \<Rightarrow> Inr p | None \<Rightarrow> default_provider installed fresh) (\<lambda>http.
     Inr (\<lparr>cl_base_url = bd_base_url b, cl_auth = bd_auth b, cl_http = http, cl_new_uuid = uuids,
        cl_signing_key = bd_signing_key b, cl_tool_executor = bd_tool_executor b,
        cl_durable_store = bd_durable_store b\<rparr>, 1))"

section \<open>Vetoes\<close>

record deny_response =
  dr_reasons :: "string list"
  dr_review_reasons :: "string list"
  dr_intent_category :: string
  dr_correlation_id :: "string option"

definition dec_deny_response :: "deny_response dec" where
  "dec_deny_response j = do {
     f \<leftarrow> struct_fields False
       [''reasons'', ''review_reasons'', ''intent_category'', ''correlation_id''] j;
     v1 \<leftarrow> dflt f ''reasons'' [] (dec_list dec_string);
     v2 \<leftarrow> dflt f ''review_reasons'' [] (dec_list dec_string);
     v3 \<leftarrow> dflt f ''intent_category'' [] dec_string;
     v4 \<leftarrow> dflt f ''correlation_id'' None (dec_option dec_string);
     Some \<lparr>dr_reasons = v1,
       dr_review_reasons = v2,
       dr_intent_category = v3,
       dr_correlation_id = v4\<rparr> }"

definition parse_veto :: "libs \<Rightarrow> string \<Rightarrow> clavenar_error" where
  "parse_veto L raw = (case from_str L dec_deny_response raw of
     Inr d \<Rightarrow> Veto (dr_intent_category d) (dr_reasons d) (dr_review_reasons d) (dr_correlation_id d) raw
   | Inl _ \<Rightarrow> Veto [] [] [] None raw)"

section \<open>JSON-RPC\<close>

definition decode_json_body :: "libs \<Rightarrow> string \<Rightarrow> clavenar_error + json" where
  "decode_json_body L raw = from_str L dec_value raw"

definition read_rpc :: "libs \<Rightarrow> http_response \<Rightarrow> clavenar_error + json" where
  "read_rpc L response = (let status = hs_status response in
     bindR (read_text_limited response) (\<lambda>raw.
     if status = 200 then decode_json_body L raw
     else if status = 403 then Inl (parse_veto L raw)
     else if status = 401 then Inl (Unauthorized raw)
     else if status = 400 then Inl (BadRequest raw)
     else Inl (Server status raw)))"

definition send_rpc :: "libs \<Rightarrow> http_request \<Rightarrow> (clavenar_error, json) prog" where
  "send_rpc L q = bindP (sendP q) (\<lambda>response. Return (read_rpc L response))"

definition send_raw :: "libs \<Rightarrow> ('n, 's, 'x) clavenar_client \<Rightarrow> json \<Rightarrow> (clavenar_error, json) prog" where
  "send_raw L c body =
     tryP (join_endpoint L (cl_base_url c) ''mcp'' ''/mcp'') (\<lambda>endpoint.
     send_rpc L (authorize_request (cl_auth c) (json_body body (request POST endpoint))))"

definition rpc_body :: "u64 \<Rightarrow> string \<Rightarrow> json \<Rightarrow> json" where
  "rpc_body n method params = normalize (JObject
     [(''jsonrpc'', JString ''2.0''), (''id'', enc_u64 n), (''method'', JString method), (''params'', params)])"

definition call_tool ::
  "libs \<Rightarrow> ('n, 's, 'x) clavenar_client \<Rightarrow> string \<Rightarrow> json \<Rightarrow> (clavenar_error, json) prog" where
  "call_tool L c name arguments = NextId (\<lambda>n.
     send_raw L c (rpc_body n ''tools/call''
       (JObject [(''name'', JString name), (''arguments'', arguments)])))"

definition send_jsonrpc ::
  "libs \<Rightarrow> ('n, 's, 'x) clavenar_client \<Rightarrow> string \<Rightarrow> json \<Rightarrow> (clavenar_error, json) prog" where
  "send_jsonrpc L c method params = NextId (\<lambda>n. send_raw L c (rpc_body n method params))"

interpretation rpc: json_call "send_rpc L" "read_rpc L"
  by unfold_locales (simp add: send_rpc_def runs_sendP_bind)

end
