(* ===== verification/Exec_Handles.thy ===== *)
theory Exec_Handles
  imports Exec_Validate
begin

text \<open>
  Validation of what Proxy and the durable store hand back (execution.rs): authorizations,
  batch authorizations, pending handles, outbox entries, effects, and the uncertain-effect
  handle with the durable intent it must match. The \<open>accepts_\<close> predicates are the contracts
  in one formula each; the lemmas in \<open>validators\<close> show the code implements them.
\<close>

definition execution_http_error :: "nat \<Rightarrow> string \<Rightarrow> clavenar_error" where
  "execution_http_error status body =
     (if status = 401 then Unauthorized body
      else if status = 400 then BadRequest body
      else Server status body)"

section \<open>Authorizations\<close>

definition validate_authorization ::
  "libs \<Rightarrow> signed_authorization \<Rightarrow> uuid \<Rightarrow> clavenar_error + unit" where
  "validate_authorization L sa idempotency_id =
     (let claims = authorization sa;
          payload_sha256 = sha256 L (canonical_json_value L (az_execution_payload claims))
      in reject_if (az_contract claims \<noteq> EXECUTION_CONTRACT
           \<or> az_stage claims \<noteq> ''authorization''
           \<or> az_idempotency_id claims \<noteq> idempotency_id
           \<or> az_payload_sha256 claims \<noteq> payload_sha256
           \<or> is_algorithm (identity_sig sa) \<noteq> ''Ed25519'')
         ''Proxy returned an invalid execution authorization'')"

definition accepts_authorization :: "libs \<Rightarrow> signed_authorization \<Rightarrow> uuid \<Rightarrow> bool" where
  "accepts_authorization L sa u \<longleftrightarrow>
     az_contract (authorization sa) = EXECUTION_CONTRACT
     \<and> az_stage (authorization sa) = ''authorization''
     \<and> az_idempotency_id (authorization sa) = u
     \<and> az_payload_sha256 (authorization sa) =
         sha256 L (canonical_json_value L (az_execution_payload (authorization sa)))
     \<and> is_algorithm (identity_sig sa) = ''Ed25519''"

lemma validate_authorization_Inr [validators]:
  "validate_authorization L sa u = Inr x \<longleftrightarrow> accepts_authorization L sa u"
  by (auto simp: validate_authorization_def accepts_authorization_def Let_def)

definition invalid_batch :: clavenar_error where
  "invalid_batch = InvalidConfig ''Proxy returned an invalid atomic tool-call batch authorization''"

definition validate_batch_authorization ::
  "libs \<Rightarrow> signed_authorization \<Rightarrow> uuid \<Rightarrow> model_tool_call list \<Rightarrow> json \<Rightarrow> clavenar_error + unit" where
  "validate_batch_authorization L sa idempotency_id requested_calls requested_payload =
     bindR (case dec_atomic_batch_envelope_t (az_execution_payload (authorization sa)) of
         None \<Rightarrow> Inl invalid_batch | Some envelope \<Rightarrow> Inr envelope) (\<lambda>envelope.
     bindR (validate_model_tool_calls (ba_calls (bp_arguments (be_params envelope)))) (\<lambda>_.
     let requested_ids = map call_id requested_calls;
         authorized_ids = map call_id (ba_calls (bp_arguments (be_params envelope)))
     in if be_jsonrpc envelope \<noteq> ''2.0''
          \<or> be_id envelope \<noteq> uuid_string L idempotency_id
          \<or> be_method envelope \<noteq> ATOMIC_TOOL_CALL_BATCH_METHOD
          \<or> bp_name (be_params envelope) \<noteq> ATOMIC_TOOL_CALL_BATCH_NAME
          \<or> ba_contract (bp_arguments (be_params envelope)) \<noteq> ATOMIC_TOOL_CALL_BATCH_CONTRACT
          \<or> authorized_ids \<noteq> requested_ids
          \<or> (az_modification_diff (authorization sa) = None
             \<and> \<not> value_eq (az_execution_payload (authorization sa)) requested_payload)
        then Inl invalid_batch else Inr ()))"

definition accepts_batch ::
  "libs \<Rightarrow> signed_authorization \<Rightarrow> uuid \<Rightarrow> model_tool_call list \<Rightarrow> json \<Rightarrow> bool" where
  "accepts_batch L sa u requested payload \<longleftrightarrow>
     (\<exists>envelope. dec_atomic_batch_envelope_t (az_execution_payload (authorization sa)) = Some envelope
       \<and> be_jsonrpc envelope = ''2.0'' \<and> be_id envelope = uuid_string L u
       \<and> be_method envelope = ATOMIC_TOOL_CALL_BATCH_METHOD
       \<and> bp_name (be_params envelope) = ATOMIC_TOOL_CALL_BATCH_NAME
       \<and> ba_contract (bp_arguments (be_params envelope)) = ATOMIC_TOOL_CALL_BATCH_CONTRACT
       \<and> well_formed_batch (ba_calls (bp_arguments (be_params envelope)))
       \<and> map call_id (ba_calls (bp_arguments (be_params envelope))) = map call_id requested)
     \<and> (az_modification_diff (authorization sa) = None \<longrightarrow>
          value_eq (az_execution_payload (authorization sa)) payload)"

lemma validate_batch_authorization_Inr [validators]:
  "validate_batch_authorization L sa u requested payload = Inr x
     \<longleftrightarrow> accepts_batch L sa u requested payload"
  by (auto simp: validate_batch_authorization_def accepts_batch_def bindR_Inr validate_calls_Inr Let_def
      split: option.splits if_splits)

section \<open>Pending handles\<close>

definition validate_pending_authorization ::
  "libs \<Rightarrow> pending_authorization \<Rightarrow> uuid \<Rightarrow> json \<Rightarrow> clavenar_error + unit" where
  "validate_pending_authorization L pending idempotency_id body =
     (let payload_sha256 = sha256 L (canonical_json_value L body)
      in reject_if (pa_contract pending \<noteq> PENDING_AUTHORIZATION_CONTRACT
           \<or> pa_status pending \<noteq> ''pending''
           \<or> pa_idempotency_id pending \<noteq> idempotency_id
           \<or> is_nil (pa_pending_id pending)
           \<or> is_nil (pa_correlation_id pending)
           \<or> pa_payload_sha256 pending \<noteq> payload_sha256
           \<or> sint (pa_ttl_seconds pending) \<le> 0
           \<or> sint (pa_ttl_seconds pending) > 86400
           \<or> pa_poll_after_ms pending = 0
           \<or> pa_poll_after_ms pending > 60000)
         ''Proxy returned an invalid pending authorization handle'')"

definition accepts_pending :: "libs \<Rightarrow> pending_authorization \<Rightarrow> uuid \<Rightarrow> json \<Rightarrow> bool" where
  "accepts_pending L p u body \<longleftrightarrow>
     pa_contract p = PENDING_AUTHORIZATION_CONTRACT \<and> pa_status p = ''pending''
     \<and> pa_idempotency_id p = u \<and> pa_pending_id p \<noteq> 0 \<and> pa_correlation_id p \<noteq> 0
     \<and> pa_payload_sha256 p = sha256 L (canonical_json_value L body)
     \<and> 1 \<le> sint (pa_ttl_seconds p) \<and> sint (pa_ttl_seconds p) \<le> 86400
     \<and> 1 \<le> unat (pa_poll_after_ms p) \<and> unat (pa_poll_after_ms p) \<le> 60000"

lemma u64_positive: "(n :: u64) = 0 \<longleftrightarrow> \<not> 1 \<le> unat n"
  by (simp add: unat_eq_0 not_le)

lemma validate_pending_Inr [validators]:
  "validate_pending_authorization L p u body = Inr x \<longleftrightarrow> accepts_pending L p u body"
  unfolding validate_pending_authorization_def accepts_pending_def Let_def reject_if_Inr
  by (auto simp: is_nil_def u64_positive word_less_nat_alt not_le not_less)

section \<open>Effects and outbox entries\<close>

definition validate_execution_effect :: "execution_effect \<Rightarrow> clavenar_error + unit" where
  "validate_execution_effect effect =
     reject_if (ef_effect_id effect = [] \<or> length (ef_effect_id effect) > 256)
       ''execution effect_id must contain 1..=256 characters''"

definition validate_outbox_entry :: "receipt_outbox_entry \<Rightarrow> clavenar_error + unit" where
  "validate_outbox_entry entry =
     reject_if (ob_outbox_id entry = []
         \<or> length (ob_outbox_id entry) > 256
         \<or> rc_contract (ob_receipt entry) \<noteq> EXECUTION_CONTRACT
         \<or> rc_stage (ob_receipt entry) \<noteq> ''execution.completed''
         \<or> wl_algorithm (rc_workload_signature (ob_receipt entry)) \<noteq> ''ES256'')
       ''durable execution store returned an invalid receipt outbox entry''"

lemma validate_effect_Inr [validators]:
  "validate_execution_effect e = Inr u \<longleftrightarrow> ef_effect_id e \<noteq> [] \<and> length (ef_effect_id e) \<le> 256"
  by (auto simp: validate_execution_effect_def)

lemma validate_outbox_Inr [validators]:
  "validate_outbox_entry e = Inr u \<longleftrightarrow> ob_outbox_id e \<noteq> [] \<and> length (ob_outbox_id e) \<le> 256
     \<and> rc_contract (ob_receipt e) = EXECUTION_CONTRACT
     \<and> rc_stage (ob_receipt e) = ''execution.completed''
     \<and> wl_algorithm (rc_workload_signature (ob_receipt e)) = ''ES256''"
  by (auto simp: validate_outbox_entry_def)

section \<open>Uncertain effects\<close>

definition uncertain_from_intent ::
  "execution_intent \<Rightarrow> uncertain_effect_reason \<Rightarrow> bool \<Rightarrow> uncertain_execution" where
  "uncertain_from_intent intent reason effect_lookup_registered = \<lparr>
     un_contract = UNCERTAIN_EFFECT_CONTRACT,
     un_status = ''uncertain'',
     un_reason = reason,
     un_authorization_id = in_authorization_id intent,
     un_idempotency_id = in_idempotency_id intent,
     un_tenant = in_tenant intent,
     un_workload_id = in_workload_id intent,
     un_workload_spiffe = in_workload_spiffe intent,
     un_payload_sha256 = in_payload_sha256 intent,
     un_executor_id = in_executor_id intent,
     un_effect_lookup_registered = effect_lookup_registered \<rparr>"

definition uncertain_with_reason ::
  "uncertain_execution \<Rightarrow> uncertain_effect_reason \<Rightarrow> bool \<Rightarrow> uncertain_execution" where
  "uncertain_with_reason uncertain reason effect_lookup_registered =
     uncertain\<lparr>un_reason := reason, un_effect_lookup_registered := effect_lookup_registered\<rparr>"

definition validate_uncertain_execution :: "uncertain_execution \<Rightarrow> clavenar_error + unit" where
  "validate_uncertain_execution uncertain =
     bindR (reject_if (un_contract uncertain \<noteq> UNCERTAIN_EFFECT_CONTRACT
         \<or> un_status uncertain \<noteq> ''uncertain''
         \<or> is_nil (un_authorization_id uncertain)
         \<or> is_nil (un_idempotency_id uncertain)
         \<or> un_tenant uncertain = []
         \<or> un_workload_id uncertain = []
         \<or> un_workload_spiffe uncertain = []
         \<or> length (un_payload_sha256 uncertain) \<noteq> 71
         \<or> \<not> starts_with ''sha256:'' (un_payload_sha256 uncertain))
       ''invalid uncertain-effect reconciliation handle'')
     (\<lambda>_. validate_executor_id (un_executor_id uncertain))"

definition validate_uncertain_intent ::
  "libs \<Rightarrow> uncertain_execution \<Rightarrow> execution_intent \<Rightarrow> clavenar_error + unit" where
  "validate_uncertain_intent L uncertain intent =
     (let claims = authorization (in_authorization intent) in
      bindR (validate_authorization L (in_authorization intent) (in_idempotency_id intent)) (\<lambda>_.
      reject_if (in_contract intent \<noteq> DURABLE_EXECUTION_OUTBOX_WIRE_CONTRACT
         \<or> in_stage intent \<noteq> ''execution.intent''
         \<or> in_authorization_id intent \<noteq> un_authorization_id uncertain
         \<or> in_idempotency_id intent \<noteq> un_idempotency_id uncertain
         \<or> in_tenant intent \<noteq> un_tenant uncertain
         \<or> in_workload_id intent \<noteq> un_workload_id uncertain
         \<or> in_workload_spiffe intent \<noteq> un_workload_spiffe uncertain
         \<or> in_payload_sha256 intent \<noteq> un_payload_sha256 uncertain
         \<or> in_executor_id intent \<noteq> un_executor_id uncertain
         \<or> az_authorization_id claims \<noteq> in_authorization_id intent
         \<or> az_idempotency_id claims \<noteq> in_idempotency_id intent
         \<or> az_tenant claims \<noteq> in_tenant intent
         \<or> az_agent_id claims \<noteq> in_workload_id intent
         \<or> az_agent_spiffe claims \<noteq> in_workload_spiffe intent
         \<or> az_payload_sha256 claims \<noteq> in_payload_sha256 intent)
       ''durable uncertain intent does not match its exact reconciliation handle''))"

definition accepts_uncertain :: "uncertain_execution \<Rightarrow> bool" where
  "accepts_uncertain u \<longleftrightarrow>
     un_contract u = UNCERTAIN_EFFECT_CONTRACT \<and> un_status u = ''uncertain''
     \<and> un_authorization_id u \<noteq> 0 \<and> un_idempotency_id u \<noteq> 0
     \<and> un_tenant u \<noteq> [] \<and> un_workload_id u \<noteq> [] \<and> un_workload_spiffe u \<noteq> []
     \<and> length (un_payload_sha256 u) = 71 \<and> starts_with ''sha256:'' (un_payload_sha256 u)
     \<and> un_executor_id u \<noteq> [] \<and> length (un_executor_id u) \<le> 256
     \<and> list_all is_ascii_graphic (un_executor_id u)"

lemma validate_uncertain_Inr [validators]:
  "validate_uncertain_execution u = Inr x \<longleftrightarrow> accepts_uncertain u"
  by (auto simp: validate_uncertain_execution_def accepts_uncertain_def bindR_Inr is_nil_def
      validate_executor_id_Inr)

text \<open>The intent an attempt commits, and when a stored intent is that of a handle.\<close>

definition intent_of :: "string \<Rightarrow> signed_authorization \<Rightarrow> execution_intent" where
  "intent_of executor_id sa = (let claims = authorization sa in \<lparr>
     in_contract = DURABLE_EXECUTION_OUTBOX_WIRE_CONTRACT,
     in_stage = ''execution.intent'',
     in_authorization_id = az_authorization_id claims,
     in_idempotency_id = az_idempotency_id claims,
     in_tenant = az_tenant claims,
     in_workload_id = az_agent_id claims,
     in_workload_spiffe = az_agent_spiffe claims,
     in_payload_sha256 = az_payload_sha256 claims,
     in_executor_id = executor_id,
     in_authorization = sa \<rparr>)"

lemma validate_uncertain_intent_Inr [validators]:
  "validate_uncertain_intent L u i = Inr x \<longleftrightarrow>
     accepts_authorization L (in_authorization i) (un_idempotency_id u)
     \<and> i = intent_of (un_executor_id u) (in_authorization i)
     \<and> u = uncertain_with_reason
         (uncertain_from_intent i (un_reason u) (un_effect_lookup_registered u))
         (un_reason u) (un_effect_lookup_registered u)
           \<lparr>un_contract := un_contract u, un_status := un_status u\<rparr>"
  by (cases u; cases i)
    (auto simp: validate_uncertain_intent_def bindR_Inr validate_authorization_Inr
      accepts_authorization_def intent_of_def uncertain_from_intent_def uncertain_with_reason_def Let_def)

end
