(* ===== verification/Execution.thy ===== *)
theory Execution
  imports Exec_Handles Rest
begin

text \<open>
  The private core of SDK-governed execution (execution.rs): the dependency check, the
  decision request, the one path that calls the executor, completion of a known effect, and
  delivery of receipts. Every operation is a program over the actions of \<open>Program\<close>; \<open>L\<close> are
  the libraries and \<open>c\<close> is the client.
\<close>

section \<open>Dependencies\<close>

definition require_single_use_store :: "(clavenar_error, unit) prog" where
  "require_single_use_store = AskSingleUse (\<lambda>b. Return (reject_if (\<not> b)
     ''durable execution store must support atomic single-use authorization claims''))"

definition require_uncertain_effect_store :: "(clavenar_error, unit) prog" where
  "require_uncertain_effect_store = AskReconciliation (\<lambda>b. Return (reject_if (\<not> b)
     ''durable execution store must atomically persist exact intent, authorization use, and an in-flight effect marker before decision network access''))"

definition required :: "'a option \<Rightarrow> string \<Rightarrow> clavenar_error + 'a" where
  "required x message = (case x of None \<Rightarrow> Inl (InvalidConfig message) | Some y \<Rightarrow> Inr y)"

definition execution_dependencies ::
  "('n, 's, 'x) clavenar_client
   \<Rightarrow> (clavenar_error, 'x registered_tool_executor \<times> (string \<Rightarrow> string)) prog" where
  "execution_dependencies c =
     tryP (required (cl_tool_executor c)
       ''tool_executor is required for SDK-governed execution'') (\<lambda>executor.
     tryP (validate_executor_id (ex_id executor)) (\<lambda>_.
     tryP (required (cl_signing_key c)
       ''execution_signing_key is required for SDK-governed execution'') (\<lambda>signing_key.
     tryP (required (cl_durable_store c)
       ''durable_execution_store is required for SDK-governed execution'') (\<lambda>store.
     bindP require_uncertain_effect_store (\<lambda>_. okP (executor, signing_key))))))"

section \<open>The decision request\<close>

definition decision_request ::
  "libs \<Rightarrow> ('n, 's, 'x) clavenar_client \<Rightarrow> string \<Rightarrow> uuid \<Rightarrow> json \<Rightarrow> pending_authorization option
   \<Rightarrow> http_request" where
  "decision_request L c endpoint idempotency_id body pending =
     (let q = json_body body
            (header IDEMPOTENCY_ID_HEADER (uuid_string L idempotency_id)
            (header DECISION_CONTRACT_HEADER DECISION_CONTRACT
            (request POST endpoint)));
          q = (case pending of None \<Rightarrow> q | Some p \<Rightarrow>
            header PENDING_PAYLOAD_SHA256_HEADER (pa_payload_sha256 p)
            (header PENDING_ID_HEADER (uuid_string L (pa_pending_id p)) q))
      in authorize_request (cl_auth c) q)"

definition read_decision ::
  "libs \<Rightarrow> uuid \<Rightarrow> json \<Rightarrow> pending_authorization option \<Rightarrow> http_response
   \<Rightarrow> clavenar_error + authorization_state" where
  "read_decision L idempotency_id body pending response =
     (let status = hs_status response in
      bindR (read_text_limited response) (\<lambda>raw.
      if status = 202 then
        bindR (from_str L (dec_pending_authorization L) raw) (\<lambda>p.
        bindR (validate_pending_authorization L p idempotency_id body) (\<lambda>_.
        Inr (Pending p)))
      else if status \<noteq> 200 then Inl (execution_http_error status raw)
      else
        bindR (from_str L (dec_signed_authorization L) raw) (\<lambda>sa.
        bindR (validate_authorization L sa idempotency_id) (\<lambda>_.
        if az_modification_diff (authorization sa) = None
             \<and> \<not> value_eq (az_execution_payload (authorization sa)) body
        then Inl (InvalidConfig ''Proxy returned an unmodified authorization for a different payload'')
        else if (case pending of None \<Rightarrow> False
               | Some p \<Rightarrow> az_correlation_id (authorization sa) \<noteq> pa_correlation_id p)
        then Inl (InvalidConfig ''Proxy returned an authorization for a different pending correlation'')
        else Inr (Authorized sa)))))"

definition authorize_payload_state ::
  "libs \<Rightarrow> ('n, 's, 'x) clavenar_client \<Rightarrow> uuid \<Rightarrow> json \<Rightarrow> pending_authorization option
   \<Rightarrow> (clavenar_error, authorization_state) prog" where
  "authorize_payload_state L c idempotency_id body pending =
     tryP (join_endpoint L (cl_base_url c) ''mcp'' ''/mcp'') (\<lambda>endpoint.
     bindP (sendP (decision_request L c endpoint idempotency_id body pending)) (\<lambda>response.
     Return (read_decision L idempotency_id body pending response)))"

definition authorize_payload ::
  "libs \<Rightarrow> ('n, 's, 'x) clavenar_client \<Rightarrow> uuid \<Rightarrow> json \<Rightarrow> (clavenar_error, signed_authorization) prog" where
  "authorize_payload L c idempotency_id body =
     bindP (authorize_payload_state L c idempotency_id body None) (\<lambda>state.
       case state of
         Authorized sa \<Rightarrow> okP sa
       | Pending p \<Rightarrow> errP (Server 202 (json_text L (enc_pending_authorization L p))))"

section \<open>Receipts\<close>

definition record_receipt ::
  "libs \<Rightarrow> ('n, 's, 'x) clavenar_client \<Rightarrow> execution_receipt \<Rightarrow> (clavenar_error, receipt_recorded) prog" where
  "record_receipt L c receipt =
     tryP (join_endpoint L (cl_base_url c) ''execution-receipts'' ''/execution-receipts'') (\<lambda>endpoint.
     bindP (sendP (authorize_request (cl_auth c)
        (json_body (enc_execution_receipt L receipt) (request POST endpoint)))) (\<lambda>response.
     tryP (read_text_limited response) (\<lambda>raw.
     if hs_status response \<noteq> 200 \<and> hs_status response \<noteq> 201
     then errP (execution_http_error (hs_status response) raw)
     else Return (from_str L (dec_receipt_recorded L) raw))))"

definition deliver_outbox_entry ::
  "libs \<Rightarrow> ('n, 's, 'x) clavenar_client \<Rightarrow> receipt_outbox_entry \<Rightarrow> (clavenar_error, receipt_recorded) prog" where
  "deliver_outbox_entry L c entry =
     tryP (validate_outbox_entry entry) (\<lambda>_.
     bindP (record_receipt L c (ob_receipt entry)) (\<lambda>recorded.
     if rr_authorization_id recorded \<noteq> rc_authorization_id (ob_receipt entry)
         \<or> rr_contract recorded \<noteq> EXECUTION_CONTRACT
         \<or> rr_stage recorded \<noteq> ''execution.completed''
     then errP (InvalidConfig ''Proxy returned invalid receipt persistence metadata'')
     else bindP (MarkDelivered (ob_outbox_id entry) recorded Return) (\<lambda>_. okP recorded)))"

text \<open>
  The receipt of a known effect: the unsigned document, its canonical text under the key,
  and the signed receipt. \<open>serde_json::to_value\<close> cannot fail on these types, so the branch
  of \<open>canonical_json\<close> that maps a serialization error is not there.
\<close>

definition unsigned_receipt ::
  "libs \<Rightarrow> signed_authorization \<Rightarrow> execution_effect \<Rightarrow> unsigned_execution_receipt" where
  "unsigned_receipt L sa effect = (let claims = authorization sa in \<lparr>
     ur_contract = EXECUTION_CONTRACT,
     ur_stage = ''execution.completed'',
     ur_authorization_id = az_authorization_id claims,
     ur_idempotency_id = az_idempotency_id claims,
     ur_correlation_id = az_correlation_id claims,
     ur_agent_id = az_agent_id claims,
     ur_agent_spiffe = az_agent_spiffe claims,
     ur_tenant = az_tenant claims,
     ur_credential_fingerprint = az_credential_fingerprint claims,
     ur_method = az_method claims,
     ur_payload_sha256 = az_payload_sha256 claims,
     ur_authorization = sa,
     ur_result_sha256 = sha256 L (canonical_json_value L (ef_result effect)),
     ur_effect_id = ef_effect_id effect \<rparr>)"

definition signed_receipt ::
  "libs \<Rightarrow> (string \<Rightarrow> string) \<Rightarrow> signed_authorization \<Rightarrow> execution_effect \<Rightarrow> execution_receipt" where
  "signed_receipt L signing_key sa effect =
     (let claims = authorization sa;
          canonical_unsigned = canonical_json L (enc_unsigned_execution_receipt L (unsigned_receipt L sa effect));
          signature = signing_key canonical_unsigned
      in \<lparr>
     rc_contract = EXECUTION_CONTRACT,
     rc_stage = ''execution.completed'',
     rc_authorization_id = az_authorization_id claims,
     rc_idempotency_id = az_idempotency_id claims,
     rc_correlation_id = az_correlation_id claims,
     rc_agent_id = az_agent_id claims,
     rc_agent_spiffe = az_agent_spiffe claims,
     rc_tenant = az_tenant claims,
     rc_credential_fingerprint = az_credential_fingerprint claims,
     rc_method = az_method claims,
     rc_payload_sha256 = az_payload_sha256 claims,
     rc_authorization = sa,
     rc_result_sha256 = sha256 L (canonical_json_value L (ef_result effect)),
     rc_effect_id = ef_effect_id effect,
     rc_workload_signature = \<lparr>wl_algorithm = ''ES256'',
       wl_credential_fingerprint = az_credential_fingerprint claims,
       wl_value = base64url L signature\<rparr> \<rparr>)"

definition completion_of ::
  "libs \<Rightarrow> (string \<Rightarrow> string) \<Rightarrow> signed_authorization \<Rightarrow> execution_effect \<Rightarrow> string \<Rightarrow> execution_completion" where
  "completion_of L signing_key sa effect executor_id = \<lparr>
     cp_contract = DURABLE_EXECUTION_OUTBOX_WIRE_CONTRACT,
     cp_stage = ''execution.effect-recorded'',
     cp_authorization_id = az_authorization_id (authorization sa),
     cp_idempotency_id = az_idempotency_id (authorization sa),
     cp_executor_id = executor_id,
     cp_actual_result = ef_result effect,
     cp_actual_result_sha256 = sha256 L (canonical_json_value L (ef_result effect)),
     cp_effect_id = ef_effect_id effect,
     cp_receipt = signed_receipt L signing_key sa effect \<rparr>"

definition complete_known_effect ::
  "libs \<Rightarrow> ('n, 's, 'x) clavenar_client \<Rightarrow> (string \<Rightarrow> string) \<Rightarrow> signed_authorization \<Rightarrow> execution_effect
   \<Rightarrow> string \<Rightarrow> (known_effect_completion_error, execution_outcome) prog" where
  "complete_known_effect L c signing_key sa effect executor_id =
     bindP (map_errP (\<lambda>_. PersistenceUncertain)
        (CommitEffect (completion_of L signing_key sa effect executor_id) Return)) (\<lambda>queued.
     if \<not> receipt_eq (ob_receipt queued) (signed_receipt L signing_key sa effect)
     then errP PersistenceUncertain
     else bindP (map_errP ReceiptDelivery (deliver_outbox_entry L c queued)) (\<lambda>recorded.
       okP \<lparr>oc_receipt = recorded, oc_result = ef_result effect, oc_effect_id = ef_effect_id effect\<rparr>))"

section \<open>The effect boundary\<close>

definition execution_request :: "string \<Rightarrow> signed_authorization \<Rightarrow> tool_execution_request" where
  "execution_request executor_id sa = \<lparr>
     rq_idempotency_id = az_idempotency_id (authorization sa),
     rq_authorization_id = az_authorization_id (authorization sa),
     rq_executor_id = executor_id,
     rq_execution_payload = az_execution_payload (authorization sa) \<rparr>"

definition execute_authorization ::
  "libs \<Rightarrow> ('n, 's, 'x) clavenar_client \<Rightarrow> 'x registered_tool_executor \<Rightarrow> (string \<Rightarrow> string)
   \<Rightarrow> signed_authorization \<Rightarrow> bool \<Rightarrow> (clavenar_error, execution_outcome) prog" where
  "execute_authorization L c executor signing_key sa single_use =
     (let intent = intent_of (ex_id executor) sa;
          uncertain = uncertain_from_intent intent ExecutorOutcomeUnknown (has_lookup executor);
          authorization_use = (if single_use then SingleUse else Direct)
      in
      bindP (BeginEffect intent authorization_use Return) (\<lambda>claim.
      case claim of
        AlreadyInFlight \<Rightarrow> errP (ExecutionUncertain
          (uncertain_with_reason uncertain InFlightAfterPriorAttempt (has_lookup executor)))
      | AlreadyCompleted \<Rightarrow> errP (ExecutionAlreadyCompleted
          (az_authorization_id (authorization sa)) (az_idempotency_id (authorization sa)))
      | Started \<Rightarrow>
          ExecuteTool (execution_request (ex_id executor) sa) (\<lambda>executed.
          case executed of
            Inl _ \<Rightarrow> errP (ExecutionUncertain uncertain)
          | Inr effect \<Rightarrow>
              if \<not> is_ok (validate_execution_effect effect)
              then errP (ExecutionUncertain
                (uncertain_with_reason uncertain LookupInvalid (has_lookup executor)))
              else matchP (complete_known_effect L c signing_key sa effect (ex_id executor)) (\<lambda>r.
                case r of
                  Inr outcome \<Rightarrow> okP outcome
                | Inl PersistenceUncertain \<Rightarrow> errP (ExecutionUncertain uncertain)
                | Inl (ReceiptDelivery e) \<Rightarrow> errP e))))"

end
