(* ===== verification/Exec_Operations.thy ===== *)
theory Exec_Operations
  imports Execution
begin

text \<open>
  The public operations of SDK-governed execution (\<open>impl ClavenarClient\<close> of execution.rs):
  authorize, execute, begin, resume, flush and reconcile, for single tools and for batches.
\<close>

section \<open>Authorize\<close>

definition authorize_tool ::
  "libs \<Rightarrow> ('n, 's, 'x) clavenar_client \<Rightarrow> uuid \<Rightarrow> string \<Rightarrow> json
   \<Rightarrow> (clavenar_error, signed_authorization) prog" where
  "authorize_tool L c idempotency_id name arguments =
     authorize_payload L c idempotency_id (tool_envelope L idempotency_id name arguments)"

definition authorize_prepared_tool ::
  "libs \<Rightarrow> ('n, 's, 'x) clavenar_client \<Rightarrow> prepared_tool_request
   \<Rightarrow> (clavenar_error, signed_authorization) prog" where
  "authorize_prepared_tool L c prepared =
     tryP (validate_request prepared) (\<lambda>_.
     authorize_tool L c (ptr_idempotency_id prepared) (ptr_name prepared) (ptr_arguments prepared))"

definition authorize_tool_batch ::
  "libs \<Rightarrow> ('n, 's, 'x) clavenar_client \<Rightarrow> uuid \<Rightarrow> model_tool_call list
   \<Rightarrow> (clavenar_error, signed_authorization) prog" where
  "authorize_tool_batch L c idempotency_id calls =
     tryP (validate_model_tool_calls calls) (\<lambda>_.
     let body = atomic_batch_envelope L idempotency_id calls in
     bindP (authorize_payload L c idempotency_id body) (\<lambda>sa.
     tryP (validate_batch_authorization L sa idempotency_id calls body) (\<lambda>_. okP sa)))"

definition authorize_prepared_tool_batch ::
  "libs \<Rightarrow> ('n, 's, 'x) clavenar_client \<Rightarrow> prepared_tool_batch
   \<Rightarrow> (clavenar_error, signed_authorization) prog" where
  "authorize_prepared_tool_batch L c prepared =
     tryP (validate_batch prepared) (\<lambda>_.
     authorize_tool_batch L c (ptb_idempotency_id prepared) (ptb_calls prepared))"

section \<open>Execute\<close>

definition execute_tool ::
  "libs \<Rightarrow> ('n, 's, 'x) clavenar_client \<Rightarrow> uuid \<Rightarrow> string \<Rightarrow> json
   \<Rightarrow> (clavenar_error, execution_outcome) prog" where
  "execute_tool L c idempotency_id name arguments =
     bindP (execution_dependencies c) (\<lambda>(executor, signing_key).
     bindP (authorize_tool L c idempotency_id name arguments) (\<lambda>sa.
     execute_authorization L c executor signing_key sa False))"

definition execute_prepared_tool ::
  "libs \<Rightarrow> ('n, 's, 'x) clavenar_client \<Rightarrow> prepared_tool_request
   \<Rightarrow> (clavenar_error, execution_outcome) prog" where
  "execute_prepared_tool L c prepared =
     tryP (validate_request prepared) (\<lambda>_.
     execute_tool L c (ptr_idempotency_id prepared) (ptr_name prepared) (ptr_arguments prepared))"

definition execute_tool_batch ::
  "libs \<Rightarrow> ('n, 's, 'x) clavenar_client \<Rightarrow> uuid \<Rightarrow> model_tool_call list
   \<Rightarrow> (clavenar_error, execution_outcome) prog" where
  "execute_tool_batch L c idempotency_id calls =
     bindP (execution_dependencies c) (\<lambda>(executor, signing_key).
     bindP (authorize_tool_batch L c idempotency_id calls) (\<lambda>sa.
     execute_authorization L c executor signing_key sa False))"

definition execute_prepared_tool_batch ::
  "libs \<Rightarrow> ('n, 's, 'x) clavenar_client \<Rightarrow> prepared_tool_batch
   \<Rightarrow> (clavenar_error, execution_outcome) prog" where
  "execute_prepared_tool_batch L c prepared =
     tryP (validate_batch prepared) (\<lambda>_.
     execute_tool_batch L c (ptb_idempotency_id prepared) (ptb_calls prepared))"

section \<open>Begin and resume\<close>

definition handle_changed :: clavenar_error where
  "handle_changed = InvalidConfig ''Proxy changed the retained pending authorization handle''"

definition begin_prepared_tool_execution ::
  "libs \<Rightarrow> ('n, 's, 'x) clavenar_client \<Rightarrow> prepared_tool_request
   \<Rightarrow> (clavenar_error, resumable_execution_outcome) prog" where
  "begin_prepared_tool_execution L c prepared =
     tryP (validate_request prepared) (\<lambda>_.
     bindP (execution_dependencies c) (\<lambda>(executor, signing_key).
     let body = tool_envelope L (ptr_idempotency_id prepared) (ptr_name prepared) (ptr_arguments prepared) in
     bindP (authorize_payload_state L c (ptr_idempotency_id prepared) body None) (\<lambda>state.
     case state of
       Pending p \<Rightarrow> okP (PendingOutcome p)
     | Authorized sa \<Rightarrow>
         mapP CompletedOutcome (execute_authorization L c executor signing_key sa False))))"

definition resume_prepared_tool_execution ::
  "libs \<Rightarrow> ('n, 's, 'x) clavenar_client \<Rightarrow> prepared_tool_request \<Rightarrow> pending_authorization
   \<Rightarrow> (clavenar_error, resumable_execution_outcome) prog" where
  "resume_prepared_tool_execution L c prepared pending =
     tryP (validate_request prepared) (\<lambda>_.
     bindP (execution_dependencies c) (\<lambda>(executor, signing_key).
     bindP require_single_use_store (\<lambda>_.
     let body = tool_envelope L (ptr_idempotency_id prepared) (ptr_name prepared) (ptr_arguments prepared) in
     tryP (validate_pending_authorization L pending (ptr_idempotency_id prepared) body) (\<lambda>_.
     bindP (authorize_payload_state L c (ptr_idempotency_id prepared) body (Some pending)) (\<lambda>state.
     case state of
       Pending retained \<Rightarrow>
         if retained \<noteq> pending then errP handle_changed else okP (PendingOutcome retained)
     | Authorized sa \<Rightarrow>
         mapP CompletedOutcome (execute_authorization L c executor signing_key sa True))))))"

definition begin_prepared_tool_batch_execution ::
  "libs \<Rightarrow> ('n, 's, 'x) clavenar_client \<Rightarrow> prepared_tool_batch
   \<Rightarrow> (clavenar_error, resumable_execution_outcome) prog" where
  "begin_prepared_tool_batch_execution L c prepared =
     tryP (validate_batch prepared) (\<lambda>_.
     bindP (execution_dependencies c) (\<lambda>(executor, signing_key).
     let body = atomic_batch_envelope L (ptb_idempotency_id prepared) (ptb_calls prepared) in
     bindP (authorize_payload_state L c (ptb_idempotency_id prepared) body None) (\<lambda>state.
     case state of
       Pending p \<Rightarrow> okP (PendingOutcome p)
     | Authorized sa \<Rightarrow>
         tryP (validate_batch_authorization L sa (ptb_idempotency_id prepared) (ptb_calls prepared) body) (\<lambda>_.
         mapP CompletedOutcome (execute_authorization L c executor signing_key sa False)))))"

definition resume_prepared_tool_batch_execution ::
  "libs \<Rightarrow> ('n, 's, 'x) clavenar_client \<Rightarrow> prepared_tool_batch \<Rightarrow> pending_authorization
   \<Rightarrow> (clavenar_error, resumable_execution_outcome) prog" where
  "resume_prepared_tool_batch_execution L c prepared pending =
     tryP (validate_batch prepared) (\<lambda>_.
     bindP (execution_dependencies c) (\<lambda>(executor, signing_key).
     bindP require_single_use_store (\<lambda>_.
     let body = atomic_batch_envelope L (ptb_idempotency_id prepared) (ptb_calls prepared) in
     tryP (validate_pending_authorization L pending (ptb_idempotency_id prepared) body) (\<lambda>_.
     bindP (authorize_payload_state L c (ptb_idempotency_id prepared) body (Some pending)) (\<lambda>state.
     case state of
       Pending retained \<Rightarrow>
         if retained \<noteq> pending then errP handle_changed else okP (PendingOutcome retained)
     | Authorized sa \<Rightarrow>
         tryP (validate_batch_authorization L sa (ptb_idempotency_id prepared) (ptb_calls prepared) body) (\<lambda>_.
         mapP CompletedOutcome (execute_authorization L c executor signing_key sa True)))))))"

section \<open>Flush\<close>

fun flush_entries ::
  "libs \<Rightarrow> ('n, 's, 'x) clavenar_client \<Rightarrow> usize \<Rightarrow> receipt_outbox_entry list
   \<Rightarrow> (clavenar_error, usize) prog" where
  "flush_entries L c delivered [] = okP delivered"
| "flush_entries L c delivered (entry # pending) =
     bindP (deliver_outbox_entry L c entry) (\<lambda>_. flush_entries L c (delivered + 1) pending)"

definition flush_execution_receipt_outbox ::
  "libs \<Rightarrow> ('n, 's, 'x) clavenar_client \<Rightarrow> usize \<Rightarrow> (clavenar_error, usize) prog" where
  "flush_execution_receipt_outbox L c limit =
     tryP (reject_if (limit = 0 \<or> limit > MAX_OUTBOX_FLUSH)
       (''receipt outbox flush limit must contain 1..='' @ show_u64 MAX_OUTBOX_FLUSH @ '' entries'')) (\<lambda>_.
     tryP (required (cl_durable_store c)
       ''durable_execution_store is required for receipt outbox delivery'') (\<lambda>store.
     bindP (ListReceipts limit Return) (\<lambda>pending.
     if length pending > unat limit
     then errP (InvalidConfig ''durable execution store exceeded the requested outbox limit'')
     else flush_entries L c 0 pending)))"

section \<open>Reconcile\<close>

definition lookup_request :: "execution_intent \<Rightarrow> effect_lookup_request" where
  "lookup_request intent = \<lparr>
     lk_authorization_id = in_authorization_id intent,
     lk_idempotency_id = in_idempotency_id intent,
     lk_executor_id = in_executor_id intent,
     lk_payload_sha256 = in_payload_sha256 intent \<rparr>"

text \<open>\<open>RegisteredToolExecutor::lookup_effect\<close>: \<open>None\<close> when no lookup is registered.\<close>

definition lookup_effect ::
  "'x registered_tool_executor \<Rightarrow> effect_lookup_request
   \<Rightarrow> (clavenar_error, (clavenar_error + effect_lookup_outcome) option) prog" where
  "lookup_effect executor q =
     (if has_lookup executor then LookupEffect q (\<lambda>z. okP (Some z)) else okP None)"

definition still_uncertain ::
  "uncertain_execution \<Rightarrow> uncertain_effect_reason \<Rightarrow> bool
   \<Rightarrow> (clavenar_error, execution_reconciliation_outcome) prog" where
  "still_uncertain uncertain reason registered =
     okP (ReconciledUncertain (uncertain_with_reason uncertain reason registered))"

definition reconcile_uncertain_effect ::
  "libs \<Rightarrow> ('n, 's, 'x) clavenar_client \<Rightarrow> uncertain_execution
   \<Rightarrow> (clavenar_error, execution_reconciliation_outcome) prog" where
  "reconcile_uncertain_effect L c uncertain =
     tryP (validate_uncertain_execution uncertain) (\<lambda>_.
     bindP (execution_dependencies c) (\<lambda>(executor, signing_key).
     if ex_id executor \<noteq> un_executor_id uncertain
     then errP (InvalidConfig ''uncertain effect is bound to a different registered executor'')
     else LoadIntent (un_authorization_id uncertain) (\<lambda>loaded.
     case loaded of
       Inl _ \<Rightarrow> still_uncertain uncertain DurableIntentUnavailable (has_lookup executor)
     | Inr None \<Rightarrow> still_uncertain uncertain DurableIntentUnavailable (has_lookup executor)
     | Inr (Some intent) \<Rightarrow>
         if \<not> is_ok (validate_uncertain_intent L uncertain intent)
         then still_uncertain uncertain LookupInvalid (has_lookup executor)
         else bindP (lookup_effect executor (lookup_request intent)) (\<lambda>lookup.
         case lookup of
           None \<Rightarrow> still_uncertain uncertain LookupNotRegistered False
         | Some (Inl _) \<Rightarrow> still_uncertain uncertain LookupUnavailable True
         | Some (Inr NotFound) \<Rightarrow> still_uncertain uncertain EffectNotFound True
         | Some (Inr Ambiguous) \<Rightarrow> still_uncertain uncertain LookupAmbiguous True
         | Some (Inr (Found effect)) \<Rightarrow>
             if \<not> is_ok (validate_execution_effect effect)
             then still_uncertain uncertain LookupInvalid True
             else matchP (complete_known_effect L c signing_key (in_authorization intent) effect
                (ex_id executor)) (\<lambda>r.
               case r of
                 Inr completed \<Rightarrow> okP (ReconciledCompleted completed)
               | Inl PersistenceUncertain \<Rightarrow>
                   still_uncertain uncertain ReconciledEffectPersistenceFailed True
               | Inl (ReceiptDelivery e) \<Rightarrow> errP e)))))"

end
