(* ===== verification/Exec_Unique.thy ===== *)
theory Exec_Unique
  imports Exec_Operations
begin

text \<open>
  At most one executor call per authorization. Every public operation is \<open>guarded\<close>: it
  calls the executor only right after a \<open>Started\<close> reply for that authorization. In the
  context of \<open>effect_store\<close> this bounds the calls over every interleaving, restart and
  crash of any number of operations of any clients of the store; the in-memory store is an
  instance.
\<close>

section \<open>Which operations call the executor\<close>

lemma quiet_sendP [quiet_rules, intro, simp]: "never_executes (sendP q)"
  by (simp add: sendP_def)

lemma quiet_dependencies [quiet_rules, intro, simp]: "never_executes (execution_dependencies c)"
  by (auto simp: execution_dependencies_def require_uncertain_effect_store_def split: sum.split
      intro!: never_executes_tryP never_executes_bindP)

lemma quiet_single_use [quiet_rules, intro, simp]: "never_executes require_single_use_store"
  by (simp add: require_single_use_store_def)

lemma quiet_authorize_state [quiet_rules, intro, simp]:
  "never_executes (authorize_payload_state L c u body p)"
  by (auto simp: authorize_payload_state_def intro!: never_executes_tryP never_executes_bindP)

lemma quiet_authorize_payload [quiet_rules, intro, simp]:
  "never_executes (authorize_payload L c u body)"
  by (auto simp: authorize_payload_def split: authorization_state.split intro!: never_executes_bindP)

lemma quiet_record [quiet_rules, intro, simp]: "never_executes (record_receipt L c r)"
  by (auto simp: record_receipt_def intro!: never_executes_tryP never_executes_bindP)

lemma quiet_deliver [quiet_rules, intro, simp]: "never_executes (deliver_outbox_entry L c e)"
  by (auto simp: deliver_outbox_entry_def split: sum.split
      intro!: never_executes_tryP never_executes_bindP)

lemma quiet_map_err: "never_executes p \<Longrightarrow> never_executes (map_errP g p)"
  by (auto simp: map_errP_def intro!: never_executes_matchP)

lemma quiet_complete [quiet_rules, intro, simp]:
  "never_executes (complete_known_effect L c key sa effect i)"
  by (auto simp: complete_known_effect_def intro!: never_executes_bindP quiet_map_err)

lemma quiet_flush_entries [quiet_rules, intro, simp]: "never_executes (flush_entries L c n es)"
  by (induction es arbitrary: n) (auto intro!: never_executes_bindP)

lemma quiet_flush [quiet_rules, intro, simp]: "never_executes (flush_execution_receipt_outbox L c n)"
  by (auto simp: flush_execution_receipt_outbox_def split: sum.split
      intro!: never_executes_tryP never_executes_bindP)

lemma quiet_still_uncertain [quiet_rules, intro, simp]: "never_executes (still_uncertain u r b)"
  by (simp add: still_uncertain_def)

lemma quiet_lookup [quiet_rules, intro, simp]: "never_executes (lookup_effect ex q)"
  by (simp add: lookup_effect_def)

lemma quiet_reconcile [quiet_rules, intro, simp]: "never_executes (reconcile_uncertain_effect L c u)"
  unfolding reconcile_uncertain_effect_def
  by (auto split: prod.split sum.split option.split effect_lookup_outcome.split
      known_effect_completion_error.split
      intro!: never_executes_tryP never_executes_bindP never_executes_matchP)

lemma quiet_authorize_batch [quiet_rules, intro, simp]:
  "never_executes (authorize_tool_batch L c u calls)"
  by (auto simp: authorize_tool_batch_def Let_def intro!: never_executes_tryP never_executes_bindP)

lemma quiet_authorize_tool [quiet_rules, intro, simp]: "never_executes (authorize_tool L c u n a)"
  by (simp add: authorize_tool_def)

lemma quiet_authorize_prepared [quiet_rules, intro, simp]:
  "never_executes (authorize_prepared_tool L c p)"
  "never_executes (authorize_prepared_tool_batch L c b)"
  by (auto simp: authorize_prepared_tool_def authorize_prepared_tool_batch_def
      intro!: never_executes_tryP)

section \<open>The discipline\<close>

lemma guarded_execute_authorization:
  "guarded (execute_authorization L c ex key sa single_use) A"
  by (auto simp: execute_authorization_def Let_def intent_of_def execution_request_def
      split: effect_attempt_claim.split sum.split known_effect_completion_error.split
      intro!: never_executes_guarded never_executes_matchP)

lemma guarded_mapP: "guarded p A \<Longrightarrow> guarded (mapP f p) A"
proof -
  have "guarded p A \<Longrightarrow> guarded (bindP p (\<lambda>x. Return (Inr (f x)))) A"
    by (induction p arbitrary: A) (auto split: sum.split)
  then show "guarded p A \<Longrightarrow> guarded (mapP f p) A" by (simp add: mapP_def)
qed

lemmas guarded_rules = guarded_tryP guarded_bindP guarded_mapP guarded_execute_authorization

lemma guarded_execute_tool: "guarded (execute_tool L c u n a) A"
  unfolding execute_tool_def by (auto split: prod.split intro!: guarded_rules)

lemma guarded_execute_tool_batch: "guarded (execute_tool_batch L c u calls) A"
  unfolding execute_tool_batch_def by (auto split: prod.split intro!: guarded_rules)

lemma guarded_begin: "guarded (begin_prepared_tool_execution L c p) A"
  unfolding begin_prepared_tool_execution_def Let_def
  by (auto split: prod.split authorization_state.split intro!: guarded_rules)

lemma guarded_resume: "guarded (resume_prepared_tool_execution L c p pending) A"
  unfolding resume_prepared_tool_execution_def Let_def
  by (auto split: prod.split authorization_state.split intro!: guarded_rules)

lemma guarded_begin_batch: "guarded (begin_prepared_tool_batch_execution L c b) A"
  unfolding begin_prepared_tool_batch_execution_def Let_def
  by (auto split: prod.split authorization_state.split intro!: guarded_rules)

lemma guarded_resume_batch: "guarded (resume_prepared_tool_batch_execution L c b pending) A"
  unfolding resume_prepared_tool_batch_execution_def Let_def
  by (auto split: prod.split authorization_state.split intro!: guarded_rules)

text \<open>Every operation a client offers, its result dropped.\<close>

definition forget :: "('e, 'a) prog \<Rightarrow> (unit, unit) prog" where
  "forget p = matchP p (\<lambda>_. okP ())"

lemma guarded_forget: "guarded p A \<Longrightarrow> guarded (forget p) A"
  unfolding forget_def by (induction p arbitrary: A) auto

inductive sdk_operation :: "libs \<Rightarrow> ('n, 's, 'x) clavenar_client \<Rightarrow> (unit, unit) prog \<Rightarrow> bool"
  for L c where
  "sdk_operation L c (forget (authorize_tool L c u name args))"
| "sdk_operation L c (forget (authorize_prepared_tool L c prepared))"
| "sdk_operation L c (forget (authorize_tool_batch L c u calls))"
| "sdk_operation L c (forget (authorize_prepared_tool_batch L c prepared_batch))"
| "sdk_operation L c (forget (execute_tool L c u name args))"
| "sdk_operation L c (forget (execute_prepared_tool L c prepared))"
| "sdk_operation L c (forget (execute_tool_batch L c u calls))"
| "sdk_operation L c (forget (execute_prepared_tool_batch L c prepared_batch))"
| "sdk_operation L c (forget (begin_prepared_tool_execution L c prepared))"
| "sdk_operation L c (forget (resume_prepared_tool_execution L c prepared pending))"
| "sdk_operation L c (forget (begin_prepared_tool_batch_execution L c prepared_batch))"
| "sdk_operation L c (forget (resume_prepared_tool_batch_execution L c prepared_batch pending))"
| "sdk_operation L c (forget (flush_execution_receipt_outbox L c limit))"
| "sdk_operation L c (forget (reconcile_uncertain_effect L c uncertain))"

lemma sdk_operation_guarded: "sdk_operation L c p \<Longrightarrow> guarded p A"
  by (induction rule: sdk_operation.induct)
    (auto simp: execute_prepared_tool_def execute_prepared_tool_batch_def
      intro!: guarded_forget guarded_tryP guarded_execute_tool guarded_execute_tool_batch
        guarded_begin guarded_resume guarded_begin_batch guarded_resume_batch
      intro: never_executes_guarded)

section \<open>Counting executor calls\<close>

definition is_execution :: "uuid \<Rightarrow> event \<Rightarrow> bool" where
  "is_execution a e \<longleftrightarrow> (case e of Executed q _ \<Rightarrow> rq_authorization_id q = a | _ \<Rightarrow> False)"

definition executions :: "uuid \<Rightarrow> event list \<Rightarrow> nat" where
  "executions a es = length (filter (is_execution a) es)"

lemma executions_append [simp]: "executions a (es @ fs) = executions a es + executions a fs"
  by (simp add: executions_def)

lemma executions_one [simp]:
  "executions a [e] = (if is_execution a e then 1 else 0)" "executions a [] = 0"
  by (simp_all add: executions_def)

definition permits :: "uuid \<Rightarrow> uuid set list \<Rightarrow> nat" where
  "permits a As = (\<Sum>A\<leftarrow>As. of_bool (a \<in> A))"

lemma permits_update:
  "i < length As \<Longrightarrow> permits a (As[i := B]) + of_bool (a \<in> As ! i) = permits a As + of_bool (a \<in> B)"
proof (induction As arbitrary: i)
  case (Cons A As)
  show ?case
  proof (cases i)
    case (Suc j)
    with Cons.IH [of j] Cons.prems show ?thesis by (simp add: permits_def)
  qed (simp add: permits_def)
qed simp

lemma permits_append [simp]: "permits a (As @ Bs) = permits a As + permits a Bs"
  "permits a [] = 0" "permits a (A # Bs) = of_bool (a \<in> A) + permits a Bs"
  by (simp_all add: permits_def)

context effect_store
begin

text \<open>
  A permit is paid for by the authorization becoming opened, an executor call by a permit.
\<close>

definition pays where
  "pays A w A' w' \<longleftrightarrow> (\<forall>a. executions a (wd_trace w') + of_bool (a \<in> A') + of_bool (opened (wd_store w) a)
     \<le> executions a (wd_trace w) + of_bool (a \<in> A) + of_bool (opened (wd_store w') a))"

lemma pays_same:
  assumes "wd_trace w' = wd_trace w @ [e]" "\<And>a. \<not> is_execution a e"
    and "\<And>a. opened (wd_store w) a \<Longrightarrow> opened (wd_store w') a"
  shows "pays A w A w'"
  using assms by (auto simp: pays_def)

lemma advance_pays:
  assumes "cl_durable_store c = Some st" "guarded p A" "advance c p w = (p', w')"
  shows "\<exists>A'. guarded p' A' \<and> pays A w A' w'"
proof (cases p)
  case (Return r)
  with assms show ?thesis by (auto simp: pays_def)
next
  case (BeginEffect i u k)
  with assms obtain s z where z: "ds_begin_effect_attempt st i u (wd_store w) = (s, z)"
    and p': "p' = k z" and w': "w' = note_event (Begun i u z) (w\<lparr>wd_store := s\<rparr>)"
    by (auto simp: with_store_def split: prod.splits)
  let ?A = "if z = Inr Started then insert (in_authorization_id i) A else A"
  have "pays A w ?A w'"
    using begin_keeps [OF z] started [of i u "wd_store w" s] z
    by (auto simp: pays_def w' is_execution_def)
  moreover have "guarded p' ?A" using assms(2) by (simp add: BeginEffect p')
  ultimately show ?thesis by blast
next
  case (ExecuteTool q k)
  with assms obtain x z where p': "p' = k z"
    and w': "wd_trace w' = wd_trace w @ [Executed q z]" "wd_store w' = wd_store w"
    by (auto split: prod.splits dest!: with_tools_trace)
  have "pays A w (A - {rq_authorization_id q}) w'"
    using assms(2) by (auto simp: pays_def w' is_execution_def ExecuteTool)
  moreover have "guarded p' (A - {rq_authorization_id q})" using assms(2) by (simp add: ExecuteTool p')
  ultimately show ?thesis by blast
next
  case (LookupEffect q k)
  with assms show ?thesis
    by (intro exI [of _ A]) (auto split: prod.splits dest!: with_tools_trace intro!: pays_same simp: is_execution_def)
qed (use assms in \<open>intro exI [of _ A], auto simp: with_store_def is_execution_def
        split: prod.splits intro!: pays_same dest: load_keeps commit_keeps list_keeps mark_keeps\<close>)+

text \<open>The invariant of the scheduler: every running operation is guarded by its permits.\<close>

definition held where
  "held ps As \<longleftrightarrow> list_all2 (\<lambda>cp A. cl_durable_store (fst cp) = Some st \<and> guarded (snd cp) A) ps As"

definition covered where
  "covered w0 w As \<longleftrightarrow> (\<forall>a. executions a (wd_trace w) + permits a As + of_bool (opened (wd_store w0) a)
     \<le> executions a (wd_trace w0) + of_bool (opened (wd_store w) a))"

definition within_bounds where
  "within_bounds w0 cfg \<longleftrightarrow> (\<exists>As. held (fst cfg) As \<and> covered w0 (snd cfg) As)"

lemma covered_fewer: "covered w0 w As \<Longrightarrow> (\<And>a. permits a Bs \<le> permits a As) \<Longrightarrow> covered w0 w Bs"
  unfolding covered_def by (meson add_le_mono1 add_left_mono order_trans)

lemma covered_pays:
  assumes "covered w0 w As" "i < length As" "pays (As ! i) w B w'"
  shows "covered w0 w' (As[i := B])"
  unfolding covered_def
proof
  fix a
  show "executions a (wd_trace w') + permits a (As[i := B]) + of_bool (opened (wd_store w0) a)
      \<le> executions a (wd_trace w0) + of_bool (opened (wd_store w') a)"
    using assms(1,3) [unfolded covered_def pays_def, THEN spec, of a] permits_update [OF assms(2), of a B]
    by linarith
qed

lemma step_within_bounds:
  assumes "step ops cfg cfg'" "within_bounds w0 cfg"
    and ops: "\<And>c p. (c, p) \<in> ops \<Longrightarrow> cl_durable_store c = Some st \<and> guarded p {}"
  shows "within_bounds w0 cfg'"
  using assms(1)
proof cases
  case (Start cp ps w)
  with assms(2) obtain As where "held ps As" "covered w0 w As" by (auto simp: within_bounds_def)
  moreover have "held (ps @ [cp]) (As @ [{}])"
    using \<open>held ps As\<close> ops [of "fst cp" "snd cp"] Start by (auto simp: held_def intro: list_all2_appendI)
  moreover have "covered w0 w (As @ [{}])"
    by (rule covered_fewer [OF \<open>covered w0 w As\<close>]) simp
  ultimately show ?thesis using Start by (auto simp: within_bounds_def)
next
  case (Act i ps c p w p' w')
  with assms(2) obtain As where As: "held ps As" "covered w0 w As" by (auto simp: within_bounds_def)
  have i: "i < length As" using As(1) Act(3) by (simp add: held_def list_all2_lengthD)
  have c: "cl_durable_store c = Some st" "guarded p (As ! i)"
    using list_all2_nthD [OF As(1) [unfolded held_def] Act(3)] Act(4) by simp_all
  obtain B where B: "guarded p' B" "pays (As ! i) w B w'" using advance_pays [OF c Act(5)] by blast
  have "held (ps[i := (c, p')]) (As[i := B])"
    using As(1) B(1) c(1) by (auto simp: held_def intro: list_all2_update_cong)
  with covered_pays [OF As(2) i B(2)] show ?thesis using Act(2) by (auto simp: within_bounds_def)
next
  case (Crash ps cp qs w)
  with assms(2) obtain As where As: "held (ps @ cp # qs) As" "covered w0 w As"
    by (auto simp: within_bounds_def)
  from As(1) obtain As1 A As2 where "As = As1 @ A # As2" "held ps As1" "held qs As2"
    by (auto simp: held_def list_all2_append1 list_all2_Cons1)
  then have split: "As = As1 @ A # As2" "held (ps @ qs) (As1 @ As2)"
    by (simp_all add: held_def list_all2_appendI)
  have "covered w0 w (As1 @ As2)" by (rule covered_fewer [OF As(2)]) (simp add: split(1))
  with split(2) show ?thesis using Crash by (auto simp: within_bounds_def)
qed

lemma reachable_within_bounds:
  assumes "reachable ops w0 cfg"
    and "\<And>c p. (c, p) \<in> ops \<Longrightarrow> cl_durable_store c = Some st \<and> guarded p {}"
  shows "within_bounds w0 cfg"
  using assms(1)
proof (induction rule: reachable.induct)
  case Initial
  have "held [] []" "covered w0 w0 []" by (simp_all add: held_def covered_def)
  then show ?case by (auto simp: within_bounds_def)
next
  case (Next cfg cfg')
  from Next(2,3) assms(2) show ?case by (rule step_within_bounds)
qed

lemma bounded_executions:
  assumes "reachable ops w0 (ps, w)"
    and "\<And>c p. (c, p) \<in> ops \<Longrightarrow> cl_durable_store c = Some st \<and> guarded p {}"
  shows "executions a (wd_trace w) + of_bool (opened (wd_store w0) a)
    \<le> executions a (wd_trace w0) + of_bool (opened (wd_store w) a)"
proof -
  obtain As where "covered w0 w As"
    using reachable_within_bounds [OF assms] by (auto simp: within_bounds_def)
  from this [unfolded covered_def, THEN spec, of a] show ?thesis by linarith
qed

end

end
