(* ===== verification/Sample.thy ===== *)
theory Sample
  imports Exec_Unique
begin

text \<open>
  One concrete deployment, for evaluating the model: Proxy authorizes the request
  \<open>read_file\<close>, the tool's executor counts its calls, the store is the in-memory one and the
  libraries are \<open>sample_libs\<close> with a parser that knows the two documents Proxy sends.
\<close>

definition sample_payload :: json where
  "sample_payload = tool_envelope sample_libs 7 ''read_file'' JNull"

definition sample_auth :: signed_authorization where
  "sample_auth = \<lparr>
     authorization = \<lparr>
       az_contract = EXECUTION_CONTRACT, az_stage = ''authorization'', az_authorization_id = 11,
       az_idempotency_id = 7, az_correlation_id = 13, az_agent_id = ''agent'',
       az_agent_spiffe = ''spiffe://agent'', az_tenant = ''acme'', az_credential_fingerprint = ''fp'',
       az_method = ''tools/call'', az_tool_name = ''read_file'', az_execution_payload = sample_payload,
       az_payload_sha256 = sha256 sample_libs (canonical_json_value sample_libs sample_payload),
       az_decision_principal = JNull, az_modification_diff = None,
       az_policy_bundle = \<lparr>pb_schema_version = 1, pb_version = ''1'', pb_hash_sha256 = ''h'', pb_policy_count = 2\<rparr>,
       az_brain_version = ''b'', az_brain_evidence_sha256 = ''e''\<rparr>,
     identity_sig = \<lparr>is_algorithm = ''Ed25519'', is_key_id = ''k'', is_value = ''v''\<rparr> \<rparr>"

definition sample_recorded :: receipt_recorded where
  "sample_recorded = \<lparr>rr_status = ''recorded'', rr_contract = EXECUTION_CONTRACT,
     rr_stage = ''execution.completed'', rr_authorization_id = 11, rr_receipt_sha256 = ''r''\<rparr>"

definition sample_pending :: pending_authorization where
  "sample_pending = \<lparr>pa_contract = PENDING_AUTHORIZATION_CONTRACT, pa_status = ''pending'',
     pa_pending_id = 5, pa_idempotency_id = 7, pa_correlation_id = 13,
     pa_payload_sha256 = sha256 sample_libs (canonical_json_value sample_libs sample_payload),
     pa_ttl_seconds = 60, pa_poll_after_ms = 1000\<rparr>"

definition with_parser :: "(string \<Rightarrow> json option) \<Rightarrow> libs" where
  "with_parser f = sample_libs\<lparr>json_parse := f\<rparr>"

definition sample_parser :: "string \<Rightarrow> json option" where
  "sample_parser s =
     (if s = ''auth'' then Some (enc_signed_authorization sample_libs sample_auth)
      else if s = ''rec'' then Some (enc_receipt_recorded sample_libs sample_recorded)
      else if s = ''pend'' then Some (enc_pending_authorization sample_libs sample_pending)
      else if s = ''unit'' then Some (JObject [])
      else None)"

abbreviation SL :: libs where
  "SL \<equiv> with_parser sample_parser"

definition reply :: "nat \<Rightarrow> string \<Rightarrow> http_response" where
  "reply status body = \<lparr>hs_status = status, hs_headers = [], hs_content_length = None, hs_chunks = [Inr body]\<rparr>"

definition sample_executor :: "nat registered_tool_executor" where
  "sample_executor = new_reconciling ''exec''
     (\<lambda>q n. (n + 1, Inr \<lparr>ef_result = JString ''done'', ef_effect_id = ''e1''\<rparr>))
     (\<lambda>q n. (n, Inr (Found \<lparr>ef_result = JString ''done'', ef_effect_id = ''e1''\<rparr>)))"

text \<open>The network answers the decision endpoint with its own state.\<close>

definition sample_client :: "(http_response, memory_state, nat) clavenar_client" where
  "sample_client = \<lparr>cl_base_url = ''http://p/'', cl_auth = Bearer ''t'',
     cl_http = (\<lambda>q n. (n, Inr (if hr_url q = ''http://p/mcp'' then n else reply 200 ''rec''))),
     cl_new_uuid = (\<lambda>n. (n, 99)), cl_signing_key = Some (\<lambda>s. s),
     cl_tool_executor = Some sample_executor, cl_durable_store = Some (memory_store SL)\<rparr>"

definition sample_world :: "(http_response, memory_state, nat) world" where
  "sample_world = \<lparr>wd_net = reply 200 ''auth'', wd_store = memory_empty, wd_tools = 0, wd_next_id = 1,
     wd_trace = []\<rparr>"

text \<open>Everything but parsing is that of \<open>sample_libs\<close>.\<close>

lemma SL_simps [simp]:
  "uuid_string (with_parser f) = uuid_string sample_libs" "uuid_parse (with_parser f) = uuid_parse sample_libs"
  "sha256_digest (with_parser f) = sha256_digest sample_libs" "hex_encode (with_parser f) = hex_encode sample_libs"
  "json_text (with_parser f) = json_text sample_libs" "url_join (with_parser f) = url_join sample_libs"
  "base64url (with_parser f) = base64url sample_libs" "json_parse (with_parser f) = f"
  "url_append_pair (with_parser f) = url_append_pair sample_libs"
  "to_rfc3339 (with_parser f) = to_rfc3339 sample_libs"
  by (simp_all add: with_parser_def)

lemma sample_text_canonical [simp]:
  "canonical_json_value (with_parser f) j = canonical_json_value sample_libs j"
proof (induction j)
  case (JObject kvs)
  then have "map (\<lambda>(k, v). (k, canonical_json_value (with_parser f) v)) kvs
      = map (\<lambda>(k, v). (k, canonical_json_value sample_libs v)) kvs" by (auto intro: snds.intros)
  then show ?case by (simp only: canonical_json_value.simps SL_simps)
qed (simp_all cong: map_cong)

lemma sample_sha [simp]: "sha256 (with_parser f) s = sha256 sample_libs s"
  by (simp add: sha256_def)

lemma sample_uuid_laws' [simp]: "uuid_laws (with_parser f)" "uuid_laws sample_libs"
  using sample_uuid_laws by (simp_all add: uuid_laws_def)

lemma length_sample_sha: "length (sha256 sample_libs s) = 71"
proof -
  have "length (concat (map (\<lambda>c. [c, c]) t)) = 2 * length t" for t :: string
    by (induction t) simp_all
  moreover have "hex_encode sample_libs t = concat (map (\<lambda>c. [c, c]) t)" for t
    by (simp add: sample_libs_def)
  moreover have "length (sha256_digest sample_libs s) = 32" by (simp add: sample_libs_def)
  ultimately show ?thesis by (simp add: sha256_def)
qed

lemma sample_sha_prefix: "starts_with ''sha256:'' (sha256 L s)"
  by (simp add: sha256_def starts_with_def)

lemma sample_join [simp]: "url_join sample_libs u r = Inr (u @ r)"
  by (simp add: sample_libs_def)

lemma sample_dec_uuid [simp]: "dec_uuid (with_parser f) = dec_uuid sample_libs"
  by (simp add: fun_eq_iff dec_uuid_def split: json.split)

lemma sample_dec_claims [simp]: "dec_authorization_claims (with_parser f) = dec_authorization_claims sample_libs"
  by (simp add: fun_eq_iff dec_authorization_claims_def)

lemma sample_dec [simp]:
  "dec_signed_authorization (with_parser f) = dec_signed_authorization sample_libs"
  "dec_pending_authorization (with_parser f) = dec_pending_authorization sample_libs"
  "dec_receipt_recorded (with_parser f) = dec_receipt_recorded sample_libs"
  by (simp_all add: fun_eq_iff dec_signed_authorization_def dec_pending_authorization_def
      dec_receipt_recorded_def)

lemma sample_envelope [simp]: "tool_envelope (with_parser f) u n a = tool_envelope sample_libs u n a"
  "atomic_batch_envelope (with_parser f) u calls = atomic_batch_envelope sample_libs u calls"
  by (simp_all add: tool_envelope_def atomic_batch_envelope_def)

lemma sample_payload_wf: "json_wf sample_payload"
  by (simp add: sample_payload_def tool_envelope_def normalize_wf del: normalize.simps)

lemma sample_parse [simp]:
  "from_str SL (dec_signed_authorization sample_libs) ''auth'' = Inr sample_auth"
  "from_str SL (dec_receipt_recorded sample_libs) ''rec'' = Inr sample_recorded"
  "from_str SL (dec_pending_authorization sample_libs) ''pend'' = Inr sample_pending"
proof -
  have "ok_signed_authorization sample_libs sample_auth"
    by (simp add: ok_signed_authorization_def ok_authorization_claims_def sample_auth_def
        sample_uuid_laws sample_payload_wf)
  from signed_authorization_codec.read_back [OF this]
  show "from_str SL (dec_signed_authorization sample_libs) ''auth'' = Inr sample_auth"
    by (simp add: from_str_def sample_parser_def)
  have "ok_receipt_recorded sample_libs sample_recorded"
    by (simp add: ok_receipt_recorded_def sample_uuid_laws)
  from receipt_recorded_codec.read_back [OF this]
  show "from_str SL (dec_receipt_recorded sample_libs) ''rec'' = Inr sample_recorded"
    by (simp add: from_str_def sample_parser_def)
  have "ok_pending_authorization sample_libs sample_pending"
    by (simp add: ok_pending_authorization_def sample_uuid_laws)
  from pending_authorization_codec.read_back [OF this]
  show "from_str SL (dec_pending_authorization sample_libs) ''pend'' = Inr sample_pending"
    by (simp add: from_str_def sample_parser_def)
qed

lemma read_reply [simp]: "list_all (\<lambda>c. byte c < 0x80) s \<Longrightarrow> length s < 1000 \<Longrightarrow>
    read_text_limited (reply st s) = Inr s"
  by (simp add: read_text_limited_def read_body_limited_def reply_def from_utf8_def
      utf8_ascii list_all_iff DEFAULT_RESPONSE_BODY_LIMIT_def)

lemma status_reply [simp]: "hs_status (reply st s) = st"
  by (simp add: reply_def)

lemma sample_accepted [simp]: "accepts_authorization SL sample_auth 7"
  "accepts_pending SL sample_pending 7 sample_payload"
  by (simp_all add: accepts_authorization_def sample_auth_def accepts_pending_def sample_pending_def)

lemma sample_decision [simp]:
  "read_decision SL 7 sample_payload None (reply 200 ''auth'') = Inr (Authorized sample_auth)"
  "read_decision SL 7 sample_payload (Some sample_pending) (reply 200 ''auth'') = Inr (Authorized sample_auth)"
  "read_decision SL 7 sample_payload p (reply 202 ''pend'') = Inr (Pending sample_pending)"
proof -
  have auth: "validate_authorization SL sample_auth 7 = Inr ()"
    and pend: "validate_pending_authorization SL sample_pending 7 sample_payload = Inr ()"
    by (simp_all only: validators sample_accepted)
  show "read_decision SL 7 sample_payload None (reply 200 ''auth'') = Inr (Authorized sample_auth)"
    "read_decision SL 7 sample_payload (Some sample_pending) (reply 200 ''auth'') = Inr (Authorized sample_auth)"
    by (simp_all add: read_decision_def byte_def auth) (simp_all add: sample_auth_def sample_pending_def)
  show "read_decision SL 7 sample_payload p (reply 202 ''pend'') = Inr (Pending sample_pending)"
    by (simp add: read_decision_def byte_def pend)
qed

section \<open>A complete run\<close>

definition sample_effect :: execution_effect where
  "sample_effect = \<lparr>ef_result = JString ''done'', ef_effect_id = ''e1''\<rparr>"

definition sample_key :: "string \<Rightarrow> string" where
  "sample_key = (\<lambda>s. s)"

definition sample_entry :: receipt_outbox_entry where
  "sample_entry = \<lparr>ob_outbox_id = ''receipt-'' @ uuid_string sample_libs 11,
     ob_receipt = signed_receipt SL sample_key sample_auth sample_effect\<rparr>"

definition sample_intent :: execution_intent where
  "sample_intent = intent_of ''exec'' sample_auth"

lemma sample_dependencies [simp]:
  "execution_dependencies sample_client =
     AskReconciliation (\<lambda>b. bindP (Return (reject_if (\<not> b) ''durable execution store must atomically persist exact intent, authorization use, and an in-flight effect marker before decision network access''))
       (\<lambda>_. okP (sample_executor, sample_key)))"
  by (simp add: execution_dependencies_def required_def sample_client_def require_uncertain_effect_store_def
      sample_executor_def new_reconciling_def validate_executor_id_def reject_if_def is_ascii_graphic_def
      byte_def sample_key_def)

lemma sample_entry_valid: "validate_outbox_entry sample_entry = Inr ()"
proof -
  have "length (uuid_string sample_libs 11) \<le> 200"
    by (simp add: sample_libs_def show_nat.simps [of 11] show_nat.simps [of "Suc 0"])
  then show ?thesis unfolding validators by (simp add: sample_entry_def signed_receipt_def Let_def)
qed

lemma sample_deliver [simp]:
  "deliver_outbox_entry SL sample_client sample_entry =
     bindP (record_receipt SL sample_client (ob_receipt sample_entry)) (\<lambda>recorded.
     if rr_authorization_id recorded \<noteq> 11 \<or> rr_contract recorded \<noteq> EXECUTION_CONTRACT
         \<or> rr_stage recorded \<noteq> ''execution.completed''
     then errP (InvalidConfig ''Proxy returned invalid receipt persistence metadata'')
     else bindP (MarkDelivered (ob_outbox_id sample_entry) recorded Return) (\<lambda>_. okP recorded))"
proof -
  have "rc_authorization_id (ob_receipt sample_entry) = 11"
    by (simp add: sample_entry_def signed_receipt_def sample_auth_def Let_def)
  then show ?thesis by (simp only: deliver_outbox_entry_def sample_entry_valid tryP_simps)
qed

definition sample_final :: memory_state where
  "sample_final = \<lparr>ms_intents = [sample_intent],
     ms_completions = [completion_of SL sample_key sample_auth sample_effect ''exec''],
     ms_pending = [], ms_delivered = [(ob_outbox_id sample_entry, sample_recorded)],
     ms_ordering = [''intent'', ''in_flight'', ''completion'', ''delivered''],
     ms_claimed = {}, ms_in_flight = {}, ms_completed = {11}, ms_fail_intent = False\<rparr>"

definition sample_decision_request :: http_request where
  "sample_decision_request =
     decision_request SL sample_client ''http://p/mcp'' 7 sample_payload None"

definition sample_receipt_request :: http_request where
  "sample_receipt_request = authorize_request (Bearer ''t'')
     (json_body (enc_execution_receipt SL (ob_receipt sample_entry))
       (request POST ''http://p/execution-receipts''))"

definition sample_outcome :: execution_outcome where
  "sample_outcome = \<lparr>oc_receipt = sample_recorded, oc_result = JString ''done'', oc_effect_id = ''e1''\<rparr>"

definition sample_trace :: "event list" where
  "sample_trace = [AskedReconciliation True,
     Sent sample_decision_request (Inr (reply 200 ''auth'')),
     Begun sample_intent Direct (Inr Started),
     Executed (execution_request ''exec'' sample_auth) (Inr sample_effect),
     Committed (completion_of SL sample_key sample_auth sample_effect ''exec'') (Inr sample_entry),
     Sent sample_receipt_request (Inr (reply 200 ''rec'')),
     Marked (ob_outbox_id sample_entry) sample_recorded (Inr ())]"

lemma sample_sel [simp]: "cl_base_url sample_client = ''http://p/''" "cl_auth sample_client = Bearer ''t''"
  "cl_http sample_client q n = (n, Inr (if hr_url q = ''http://p/mcp'' then n else reply 200 ''rec''))"
  "cl_durable_store sample_client = Some (memory_store SL)"
  "asks_store sample_client ds_supports_reconciliation w" "asks_store sample_client ds_supports_single_use w"
  "ex_id sample_executor = ''exec''" "has_lookup sample_executor"
  "callback_of sample_client t = Some (\<lambda>n. (n + 1, Inr sample_effect))"
  "lookup_of sample_client k = Some (\<lambda>n. (n, Inr (Found sample_effect)))"
  by (simp_all add: sample_client_def asks_store_def memory_store_def sample_executor_def new_reconciling_def
      has_lookup_def callback_of_def lookup_of_def sample_effect_def)

lemma sample_effect_ok [simp]: "validate_execution_effect sample_effect = Inr ()"
  by (simp add: validators sample_effect_def)

lemma sample_start [simp]:
  "mem_begin_effect_attempt sample_intent Direct memory_empty = (memory_empty\<lparr>
     ms_ordering := [''intent'', ''in_flight''], ms_intents := [sample_intent], ms_in_flight := {11}\<rparr>, Inr Started)"
  by (simp add: mem_begin_effect_attempt_def memory_empty_def sample_intent_def intent_of_def sample_auth_def
      intent_for_def Let_def)

lemma sample_commit [simp]:
  "mem_commit_effect SL (completion_of SL sample_key sample_auth sample_effect ''exec'') s =
    (s\<lparr>ms_ordering := ms_ordering s @ [''completion''], ms_in_flight := ms_in_flight s - {11},
       ms_completed := insert 11 (ms_completed s),
       ms_completions := ms_completions s @ [completion_of SL sample_key sample_auth sample_effect ''exec''],
       ms_pending := ms_pending s @ [sample_entry]\<rparr>, Inr sample_entry)"
  by (simp add: mem_commit_effect_def completion_of_def sample_auth_def sample_entry_def Let_def)

lemma sample_recorded_ok [simp]: "rr_authorization_id sample_recorded = 11"
  "rr_contract sample_recorded = EXECUTION_CONTRACT" "rr_stage sample_recorded = ''execution.completed''"
  by (simp_all add: sample_recorded_def)

lemma sample_record [simp]:
  "record_receipt SL sample_client (ob_receipt sample_entry) = bindP (sendP sample_receipt_request) (\<lambda>response.
     tryP (read_text_limited response) (\<lambda>raw.
     if hs_status response \<noteq> 200 \<and> hs_status response \<noteq> 201
     then errP (execution_http_error (hs_status response) raw)
     else Return (from_str SL (dec_receipt_recorded SL) raw)))"
  by (simp add: record_receipt_def join_endpoint_def sample_receipt_request_def)

lemma sample_authorize [simp]:
  "authorize_payload_state SL sample_client 7 sample_payload None =
    HttpSend sample_decision_request (\<lambda>z. bindP (Return (case z of Inl e \<Rightarrow> Inl (Transport e) | Inr r \<Rightarrow> Inr r))
      (\<lambda>response. Return (read_decision SL 7 sample_payload None response)))"
  by (simp add: authorize_payload_state_def join_endpoint_def sendP_def sample_decision_request_def)

lemma sample_urls [simp]: "hr_url sample_decision_request = ''http://p/mcp''"
  "hr_url sample_receipt_request = ''http://p/execution-receipts''"
  by (simp_all add: sample_decision_request_def sample_receipt_request_def decision_request_def Let_def)

lemma sample_execute:
  "run sample_client (execute_authorization SL sample_client sample_executor sample_key sample_auth False)
     \<lparr>wd_net = n, wd_store = memory_empty, wd_tools = 0, wd_next_id = i, wd_trace = es\<rparr> =
     (\<lparr>wd_net = n, wd_store = sample_final, wd_tools = 1, wd_next_id = i,
       wd_trace = es @ drop 2 sample_trace\<rparr>, Inr sample_outcome)"
proof -
  have intent: "intent_of ''exec'' sample_auth = sample_intent" by (simp add: sample_intent_def)
  show ?thesis
    by (simp add: execute_authorization_def Let_def complete_known_effect_def map_errP_def with_store_def with_tools_def
        note_event_def intent memory_store_def sendP_def byte_def mem_mark_delivered_def
        sample_trace_def)
      (simp_all add: memory_empty_def sample_final_def sample_outcome_def sample_effect_def sample_entry_def)
qed

definition sample_world' :: "(http_response, memory_state, nat) world" where
  "sample_world' = \<lparr>wd_net = reply 200 ''auth'', wd_store = sample_final, wd_tools = 1, wd_next_id = 1,
     wd_trace = sample_trace\<rparr>"

lemma sample_run:
  "run sample_client (execute_tool SL sample_client 7 ''read_file'' JNull) sample_world =
     (sample_world', Inr sample_outcome)"
  by (simp add: sample_world'_def execute_tool_def authorize_tool_def authorize_payload_def note_event_def sample_world_def
      reject_if_def sample_execute sample_trace_def flip: sample_payload_def)

end
