(* ===== verification/Exec_Behaviour.thy ===== *)
theory Exec_Behaviour
  imports Sample
begin

text \<open>
  The behaviours of the execution operations as event traces: which events each step can
  produce, in which order, and with which result. These are the facts the properties of the
  execution component are read off from.
\<close>

lemma runs_case_sum:
  "runs (case z of Inl e \<Rightarrow> p e | Inr x \<Rightarrow> q x) es r \<longleftrightarrow>
     (\<exists>e. z = Inl e \<and> runs (p e) es r) \<or> (\<exists>x. z = Inr x \<and> runs (q x) es r)"
  by (cases z) simp_all

lemma runs_case_option:
  "runs (case z of None \<Rightarrow> p | Some x \<Rightarrow> q x) es r \<longleftrightarrow>
     (z = None \<and> runs p es r) \<or> (\<exists>x. z = Some x \<and> runs (q x) es r)"
  by (cases z) simp_all

lemma runs_case_prod: "runs (case z of (x, y) \<Rightarrow> p x y) es r \<longleftrightarrow> runs (p (fst z) (snd z)) es r"
  by (cases z) simp

lemma runs_case_state:
  "runs (case z of Authorized sa \<Rightarrow> p sa | Pending h \<Rightarrow> q h) es r \<longleftrightarrow>
     (\<exists>sa. z = Authorized sa \<and> runs (p sa) es r) \<or> (\<exists>h. z = Pending h \<and> runs (q h) es r)"
  by (cases z) simp_all

lemma runs_case_claim:
  "runs (case z of Started \<Rightarrow> p | AlreadyInFlight \<Rightarrow> q | AlreadyCompleted \<Rightarrow> o') es r \<longleftrightarrow>
     (z = Started \<and> runs p es r) \<or> (z = AlreadyInFlight \<and> runs q es r)
     \<or> (z = AlreadyCompleted \<and> runs o' es r)"
  by (cases z) simp_all

lemma runs_case_lookup:
  "runs (case z of Found e \<Rightarrow> p e | NotFound \<Rightarrow> q | Ambiguous \<Rightarrow> o') es r \<longleftrightarrow>
     (\<exists>e. z = Found e \<and> runs (p e) es r) \<or> (z = NotFound \<and> runs q es r)
     \<or> (z = Ambiguous \<and> runs o' es r)"
  by (cases z) simp_all

lemma runs_case_known:
  "runs (case z of PersistenceUncertain \<Rightarrow> p | ReceiptDelivery e \<Rightarrow> q e) es r \<longleftrightarrow>
     (z = PersistenceUncertain \<and> runs p es r) \<or> (\<exists>e. z = ReceiptDelivery e \<and> runs (q e) es r)"
  by (cases z) simp_all

lemma runs_if: "runs (if b then p else q) es r \<longleftrightarrow> (b \<and> runs p es r) \<or> (\<not> b \<and> runs q es r)"
  by simp

lemma runs_tryP: "runs (tryP z f) es r \<longleftrightarrow>
    (\<exists>e. z = Inl e \<and> es = [] \<and> r = Inl e) \<or> (\<exists>x. z = Inr x \<and> runs (f x) es r)"
  by (cases z) auto

lemma runs_bind_pure: "runs (bindP (Return z) f) es r \<longleftrightarrow>
    (\<exists>e. z = Inl e \<and> es = [] \<and> r = Inl e) \<or> (\<exists>x. z = Inr x \<and> runs (f x) es r)"
  by (cases z) auto

lemmas runs_cases = runs_case_sum runs_case_option runs_case_prod runs_case_state runs_case_claim
  runs_case_lookup runs_case_known runs_if runs_tryP runs_bind_pure

lemma runs_tryP_Inr: "runs (tryP r f) es (Inr y) \<longleftrightarrow> (\<exists>x. r = Inr x \<and> runs (f x) es (Inr y))"
  by (cases r) auto

text \<open>Sequencing moves inward, so that a program is read off action by action.\<close>

lemma bindP_tryP [simp]: "bindP (tryP r f) g = tryP r (\<lambda>x. bindP (f x) g)"
  by (cases r) simp_all

lemma matchP_tryP: "matchP (tryP r f) g = (case r of Inl e \<Rightarrow> g (Inl e) | Inr x \<Rightarrow> matchP (f x) g)"
  by (cases r) simp_all

lemma bindP_bindP: "bindP (bindP p f) g = bindP p (\<lambda>x. bindP (f x) g)"
  by (induction p) (auto split: sum.split)

lemma runs_bind_sendP:
  "runs (bindP (sendP q) f) es (Inr y) \<longleftrightarrow> (\<exists>x es'. es = Sent q (Inr x) # es' \<and> runs (f x) es' (Inr y))"
  "runs (bindP (sendP q) f) es (Inl e) \<longleftrightarrow> (\<exists>t. es = [Sent q (Inl t)] \<and> e = Transport t)
     \<or> (\<exists>x es'. es = Sent q (Inr x) # es' \<and> runs (f x) es' (Inl e))"
  by (auto simp: sendP_def split_sum_ex)

lemma runs_sendP:
  "runs (sendP q) es (Inr resp) \<longleftrightarrow> es = [Sent q (Inr resp)]"
  "runs (sendP q) es (Inl e) \<longleftrightarrow> (\<exists>t. es = [Sent q (Inl t)] \<and> e = Transport t)"
  by (auto simp: sendP_def split_sum_ex)

lemma runs_map_errP:
  "runs (map_errP g p) es (Inr y) \<longleftrightarrow> runs p es (Inr y)"
  "runs (map_errP g p) es (Inl e) \<longleftrightarrow> (\<exists>d. runs p es (Inl d) \<and> e = g d)"
  unfolding map_errP_def runs_matchP by (auto simp: split_sum_ex)

lemma runs_mapP:
  "runs (mapP f p) es (Inr y) \<longleftrightarrow> (\<exists>x. runs p es (Inr x) \<and> y = f x)"
  "runs (mapP f p) es (Inl e) \<longleftrightarrow> runs p es (Inl e)"
  unfolding mapP_def by (auto simp: runs_bindP_Inr runs_bindP_Inl)

section \<open>Dependencies\<close>

text \<open>What a client must carry before any network access.\<close>

definition equipped ::
  "('n, 's, 'x) clavenar_client \<Rightarrow> 'x registered_tool_executor \<Rightarrow> (string \<Rightarrow> string) \<Rightarrow> bool" where
  "equipped c executor key \<longleftrightarrow> cl_tool_executor c = Some executor
     \<and> ex_id executor \<noteq> [] \<and> length (ex_id executor) \<le> 256 \<and> list_all is_ascii_graphic (ex_id executor)
     \<and> cl_signing_key c = Some key \<and> cl_durable_store c \<noteq> None"

lemma required_Inr [simp]: "required x m = Inr y \<longleftrightarrow> x = Some y"
  by (auto simp: required_def split: option.split)

lemma runs_dependencies:
  "runs (execution_dependencies c) es (Inr (executor, key)) \<longleftrightarrow>
     equipped c executor key \<and> es = [AskedReconciliation True]"
  by (auto simp: execution_dependencies_def runs_tryP_Inr runs_bindP_Inr validators equipped_def
      require_uncertain_effect_store_def reject_if_def split: if_splits)

lemma runs_dependencies_Inl:
  "runs (execution_dependencies c) es (Inl e) \<Longrightarrow>
     (\<exists>m. e = InvalidConfig m) \<and> (es = [] \<or> es = [AskedReconciliation False])"
  by (auto simp: execution_dependencies_def runs_tryP runs_bindP_Inl required_def validate_executor_id_def
      require_uncertain_effect_store_def reject_if_def split: if_splits sum.splits option.splits)

lemma runs_single_use:
  "runs require_single_use_store es (Inr u) \<longleftrightarrow> es = [AskedSingleUse True]"
  by (auto simp: require_single_use_store_def reject_if_def split: if_splits)

section \<open>Decisions\<close>

lemma runs_authorize_state:
  "runs (authorize_payload_state L c u body p) es (Inr st) \<longleftrightarrow>
     (\<exists>endpoint resp. join_endpoint L (cl_base_url c) ''mcp'' ''/mcp'' = Inr endpoint
       \<and> es = [Sent (decision_request L c endpoint u body p) (Inr resp)]
       \<and> read_decision L u body p resp = Inr st)"
  unfolding authorize_payload_state_def by (auto simp: runs_tryP_Inr runs_bind_sendP eq_commute [of "Inr st"])

text \<open>What an accepted decision guarantees.\<close>

lemma read_decision_Authorized:
  assumes "read_decision L u body p resp = Inr (Authorized sa)"
  shows "hs_status resp = 200" "accepts_authorization L sa u"
    and "az_modification_diff (authorization sa) = None \<Longrightarrow>
      value_eq (az_execution_payload (authorization sa)) body"
    and "p = Some h \<Longrightarrow> az_correlation_id (authorization sa) = pa_correlation_id h"
    and "\<exists>raw. read_text_limited resp = Inr raw \<and> from_str L (dec_signed_authorization L) raw = Inr sa"
  using assms
  by (auto simp: read_decision_def Let_def bindR_Inr validators split: if_splits)

lemma read_decision_Pending:
  assumes "read_decision L u body p resp = Inr (Pending h)"
  shows "hs_status resp = 202" "accepts_pending L h u body"
  using assms
  by (auto simp: read_decision_def Let_def bindR_Inr validators split: if_splits)

lemma runs_authorize_payload:
  "runs (authorize_payload L c u body) es (Inr sa) \<longleftrightarrow>
     (\<exists>endpoint resp. join_endpoint L (cl_base_url c) ''mcp'' ''/mcp'' = Inr endpoint
       \<and> es = [Sent (decision_request L c endpoint u body None) (Inr resp)]
       \<and> read_decision L u body None resp = Inr (Authorized sa))"
  unfolding authorize_payload_def authorize_payload_state_def bindP_tryP bindP_bindP
  by (auto simp: runs_cases runs_bind_sendP simp del: bindP.simps(1))

lemma runs_authorize_payload_Inl:
  "runs (authorize_payload L c u body) es (Inl e) \<Longrightarrow> es = [] \<or> (\<exists>q z. es = [Sent q z])"
  unfolding authorize_payload_def authorize_payload_state_def bindP_tryP bindP_bindP
  by (auto simp: runs_cases runs_bind_sendP simp del: bindP.simps(1))

section \<open>Receipts\<close>

definition receipt_request ::
  "libs \<Rightarrow> ('n, 's, 'x) clavenar_client \<Rightarrow> string \<Rightarrow> execution_receipt \<Rightarrow> http_request" where
  "receipt_request L c endpoint receipt =
     authorize_request (cl_auth c) (json_body (enc_execution_receipt L receipt) (request POST endpoint))"

definition reads_receipt :: "libs \<Rightarrow> http_response \<Rightarrow> receipt_recorded \<Rightarrow> bool" where
  "reads_receipt L resp recorded \<longleftrightarrow> (hs_status resp = 200 \<or> hs_status resp = 201)
     \<and> (\<exists>raw. read_text_limited resp = Inr raw \<and> from_str L (dec_receipt_recorded L) raw = Inr recorded)"

lemma runs_record:
  "runs (record_receipt L c r) es (Inr recorded) \<longleftrightarrow>
     (\<exists>endpoint resp. join_endpoint L (cl_base_url c) ''execution-receipts'' ''/execution-receipts'' = Inr endpoint
       \<and> es = [Sent (receipt_request L c endpoint r) (Inr resp)] \<and> reads_receipt L resp recorded)"
  unfolding record_receipt_def receipt_request_def reads_receipt_def
  by (auto simp: runs_tryP_Inr runs_bind_sendP split: if_splits)

definition confirms :: "receipt_recorded \<Rightarrow> execution_receipt \<Rightarrow> bool" where
  "confirms recorded r \<longleftrightarrow> rr_authorization_id recorded = rc_authorization_id r
     \<and> rr_contract recorded = EXECUTION_CONTRACT \<and> rr_stage recorded = ''execution.completed''"

lemma runs_deliver:
  "runs (deliver_outbox_entry L c e) es (Inr recorded) \<longleftrightarrow>
     validate_outbox_entry e = Inr ()
     \<and> (\<exists>endpoint resp. join_endpoint L (cl_base_url c) ''execution-receipts'' ''/execution-receipts'' = Inr endpoint
       \<and> es = [Sent (receipt_request L c endpoint (ob_receipt e)) (Inr resp),
               Marked (ob_outbox_id e) recorded (Inr ())]
       \<and> reads_receipt L resp recorded \<and> confirms recorded (ob_receipt e))"
  unfolding deliver_outbox_entry_def confirms_def record_receipt_def receipt_request_def reads_receipt_def
    bindP_tryP bindP_bindP
  by (auto simp: runs_cases runs_bind_sendP)

text \<open>A delivery that fails has sent at most one request and marked nothing.\<close>

lemma runs_record_Inl:
  "runs (record_receipt L c r) es (Inl e) \<Longrightarrow> es = [] \<or> (\<exists>q z. es = [Sent q z])"
  unfolding record_receipt_def
  by (auto simp: runs_cases runs_bind_sendP)

lemma runs_deliver_Inl:
  assumes "runs (deliver_outbox_entry L c e) es (Inl err)"
  shows "Marked k m (Inr ()) \<notin> set es"
  using assms unfolding deliver_outbox_entry_def
  by (auto simp: runs_tryP runs_bindP_Inl runs_record split_sum_ex split: sum.splits if_splits
      dest!: runs_record_Inl)

section \<open>Completing a known effect\<close>

text \<open>The events of a successful completion: commit, deliver, mark.\<close>

definition completion_trace ::
  "libs \<Rightarrow> ('n, 's, 'x) clavenar_client \<Rightarrow> (string \<Rightarrow> string) \<Rightarrow> signed_authorization \<Rightarrow> execution_effect
   \<Rightarrow> string \<Rightarrow> execution_outcome \<Rightarrow> event list \<Rightarrow> bool" where
  "completion_trace L c key sa effect i out es \<longleftrightarrow>
     (\<exists>queued endpoint resp.
        es = [Committed (completion_of L key sa effect i) (Inr queued),
              Sent (receipt_request L c endpoint (ob_receipt queued)) (Inr resp),
              Marked (ob_outbox_id queued) (oc_receipt out) (Inr ())]
        \<and> join_endpoint L (cl_base_url c) ''execution-receipts'' ''/execution-receipts'' = Inr endpoint
        \<and> receipt_eq (ob_receipt queued) (signed_receipt L key sa effect)
        \<and> validate_outbox_entry queued = Inr ()
        \<and> reads_receipt L resp (oc_receipt out) \<and> confirms (oc_receipt out) (ob_receipt queued))
     \<and> oc_result out = ef_result effect \<and> oc_effect_id out = ef_effect_id effect"

lemma map_errP_commit: "map_errP g (CommitEffect x Return) =
    CommitEffect x (\<lambda>z. Return (case z of Inl e \<Rightarrow> Inl (g e) | Inr y \<Rightarrow> Inr y))"
  by (simp add: map_errP_def)

lemma case_sum_eq:
  "(case z of Inl e \<Rightarrow> Inl (g e) | Inr y \<Rightarrow> Inr y) = Inr x \<longleftrightarrow> z = Inr x"
  "(case z of Inl e \<Rightarrow> Inl (g e) | Inr y \<Rightarrow> Inr y) = Inl d \<longleftrightarrow> (\<exists>e. z = Inl e \<and> d = g e)"
  by (auto split: sum.split)

lemma runs_complete:
  "runs (complete_known_effect L c key sa effect i) es (Inr out) \<longleftrightarrow>
     completion_trace L c key sa effect i out es"
proof -
  have "runs (complete_known_effect L c key sa effect i) es (Inr out) \<longleftrightarrow>
    (\<exists>queued recorded es'. es = Committed (completion_of L key sa effect i) (Inr queued) # es'
       \<and> receipt_eq (ob_receipt queued) (signed_receipt L key sa effect)
       \<and> runs (deliver_outbox_entry L c queued) es' (Inr recorded)
       \<and> out = \<lparr>oc_receipt = recorded, oc_result = ef_result effect, oc_effect_id = ef_effect_id effect\<rparr>)"
    by (auto simp: complete_known_effect_def map_errP_commit case_sum_eq runs_cases runs_bindP_Inr
        runs_map_errP split_sum_ex)
  then show ?thesis
    unfolding runs_deliver completion_trace_def by (cases out) auto
qed

lemma runs_complete_Inl:
  "runs (complete_known_effect L c key sa effect i) es (Inl e) \<longleftrightarrow>
     (\<exists>z. es = [Committed (completion_of L key sa effect i) z] \<and> e = PersistenceUncertain
        \<and> (\<forall>queued. z = Inr queued \<longrightarrow> \<not> receipt_eq (ob_receipt queued) (signed_receipt L key sa effect)))
     \<or> (\<exists>queued es' d. es = Committed (completion_of L key sa effect i) (Inr queued) # es'
        \<and> receipt_eq (ob_receipt queued) (signed_receipt L key sa effect)
        \<and> runs (deliver_outbox_entry L c queued) es' (Inl d) \<and> e = ReceiptDelivery d)"
  unfolding complete_known_effect_def map_errP_def
  by (auto simp: runs_cases runs_bindP_Inl runs_matchP split_sum_ex)

section \<open>The effect boundary\<close>

definition use_of :: "bool \<Rightarrow> effect_authorization_use" where
  "use_of single_use = (if single_use then SingleUse else Direct)"

text \<open>Every behaviour of the only path that calls the executor.\<close>

definition after_execution ::
  "libs \<Rightarrow> ('n, 's, 'x) clavenar_client \<Rightarrow> 'x registered_tool_executor \<Rightarrow> (string \<Rightarrow> string)
   \<Rightarrow> signed_authorization \<Rightarrow> (clavenar_error + execution_effect) \<Rightarrow> event list
   \<Rightarrow> clavenar_error + execution_outcome \<Rightarrow> bool" where
  "after_execution L c ex key sa executed es r \<longleftrightarrow>
     (let uncertain = uncertain_from_intent (intent_of (ex_id ex) sa) ExecutorOutcomeUnknown (has_lookup ex) in
      case executed of
        Inl _ \<Rightarrow> es = [] \<and> r = Inl (ExecutionUncertain uncertain)
      | Inr effect \<Rightarrow>
          if \<not> is_ok (validate_execution_effect effect)
          then es = [] \<and> r = Inl (ExecutionUncertain (uncertain_with_reason uncertain LookupInvalid (has_lookup ex)))
          else (case r of
             Inr out \<Rightarrow> completion_trace L c key sa effect (ex_id ex) out es
           | Inl e \<Rightarrow>
               (e = ExecutionUncertain uncertain
                \<and> runs (complete_known_effect L c key sa effect (ex_id ex)) es (Inl PersistenceUncertain))
             \<or> runs (complete_known_effect L c key sa effect (ex_id ex)) es (Inl (ReceiptDelivery e))))"

lemma runs_after_execution:
  "runs (case executed of
          Inl _ \<Rightarrow> errP (ExecutionUncertain uncertain)
        | Inr effect \<Rightarrow>
            if \<not> is_ok (validate_execution_effect effect)
            then errP (ExecutionUncertain (uncertain_with_reason uncertain LookupInvalid (has_lookup ex)))
            else matchP (complete_known_effect L c key sa effect (ex_id ex)) (\<lambda>r.
              case r of
                Inr outcome \<Rightarrow> okP outcome
              | Inl PersistenceUncertain \<Rightarrow> errP (ExecutionUncertain uncertain)
              | Inl (ReceiptDelivery e) \<Rightarrow> errP e)) es r
    \<longleftrightarrow> after_execution L c ex key sa executed es r"
  if "uncertain = uncertain_from_intent (intent_of (ex_id ex) sa) ExecutorOutcomeUnknown (has_lookup ex)"
proof (cases executed)
  case (Inl e)
  then show ?thesis by (auto simp: after_execution_def Let_def that)
next
  case (Inr effect)
  show ?thesis
  proof (cases "is_ok (validate_execution_effect effect)")
    case False
    then show ?thesis by (auto simp: Inr after_execution_def Let_def that)
  next
    case True
    then show ?thesis
      by (cases r) (auto simp: Inr after_execution_def Let_def that runs_matchP runs_cases split_sum_ex runs_complete)
  qed
qed

lemma runs_execute_authorization:
  "runs (execute_authorization L c ex key sa su) es r \<longleftrightarrow>
     (let intent = intent_of (ex_id ex) sa;
          uncertain = uncertain_from_intent intent ExecutorOutcomeUnknown (has_lookup ex) in
      (\<exists>e. es = [Begun intent (use_of su) (Inl e)] \<and> r = Inl e)
    \<or> (es = [Begun intent (use_of su) (Inr AlreadyInFlight)]
        \<and> r = Inl (ExecutionUncertain (uncertain_with_reason uncertain InFlightAfterPriorAttempt (has_lookup ex))))
    \<or> (es = [Begun intent (use_of su) (Inr AlreadyCompleted)]
        \<and> r = Inl (ExecutionAlreadyCompleted (az_authorization_id (authorization sa))
             (az_idempotency_id (authorization sa))))
    \<or> (\<exists>executed es'. es = Begun intent (use_of su) (Inr Started)
          # Executed (execution_request (ex_id ex) sa) executed # es'
        \<and> after_execution L c ex key sa executed es' r))"
  unfolding execute_authorization_def Let_def use_of_def [symmetric] bindP.simps(7) runs_BeginEffect_iff
    runs_bind_pure runs_case_claim runs_ExecuteTool_iff runs_after_execution [OF refl]
  by (auto simp: split_sum_ex)

lemma runs_execute_success:
  assumes "runs (execute_authorization L c ex key sa su) es (Inr out)"
  obtains effect tail where
    "es = [Begun (intent_of (ex_id ex) sa) (use_of su) (Inr Started),
           Executed (execution_request (ex_id ex) sa) (Inr effect)] @ tail"
    "validate_execution_effect effect = Inr ()"
    "completion_trace L c key sa effect (ex_id ex) out tail"
proof -
  from assms obtain executed tail where es: "es = Begun (intent_of (ex_id ex) sa) (use_of su) (Inr Started)
      # Executed (execution_request (ex_id ex) sa) executed # tail"
    and after: "after_execution L c ex key sa executed tail (Inr out)"
    by (auto simp: runs_execute_authorization Let_def)
  from after obtain effect where "executed = Inr effect" "is_ok (validate_execution_effect effect)"
    "completion_trace L c key sa effect (ex_id ex) out tail"
    by (auto simp: after_execution_def Let_def split: sum.splits if_splits)
  moreover have "validate_execution_effect effect = Inr ()"
    using calculation(2) by (cases "validate_execution_effect effect") simp_all
  ultimately show thesis using that es by simp
qed

end
