(* ===== verification/Exec_Claims.thy ===== *)
theory Exec_Claims
  imports Exec_Behaviour
begin

text \<open>
  The properties of SDK-governed execution. Each is about every behaviour the operations
  have, for any replies of the network, the store and the executor; the witnesses are runs of
  the deployment of \<open>Sample\<close>.
\<close>

section \<open>Supporting facts\<close>

lemma runs_forget: "runs (forget p) es r \<longleftrightarrow> r = Inr () \<and> (\<exists>q. runs p es q)"
  by (auto simp: forget_def runs_matchP)

text \<open>A run of one operation is a path of the scheduler.\<close>

lemma advance_reachable:
  "reachable ops w0 ([(c, p)], w) \<Longrightarrow> reachable ops w0 ([(c, fst (advance c p w))], snd (advance c p w))"
  by (erule Next) (use Act [of 0 "[(c, p)]" c p w] in simp)

lemma run_reachable:
  "reachable ops w0 ([(c, p)], w) \<Longrightarrow> run c p w = (w', r) \<Longrightarrow> reachable ops w0 ([(c, Return r)], w')"
proof (induction p arbitrary: w)
  case (Return x)
  then show ?case by simp
qed (drule advance_reachable, fastforce split: prod.splits)+

lemma start_reachable: "(c, p) \<in> ops \<Longrightarrow> reachable ops w ([(c, p)], w)"
  using Next [OF Initial Start [of "(c, p)" ops "[]" w]] by simp

lemma forget_run: "run c p w = (w', r) \<Longrightarrow> run c (forget p) w = (w', Inr ())"
  by (simp add: forget_def run_matchP)

lemma sample_runs:
  "runs (execute_tool SL sample_client 7 ''read_file'' JNull) sample_trace (Inr sample_outcome)"
  using run_runs [OF sample_run] by (simp add: sample_world_def sample_world'_def)

section \<open>At most one effect per authorization\<close>

text \<open>C1: over any interleaving of any number of SDK operations by any clients of one durable
  store, with operations started, crashed or dropped at any point, the executor is called at
  most once for an authorization, and never for one whose attempt the store had already
  opened; the store's contract is that it answers Started only for an unopened one.\<close>

theorem at_most_once:
  assumes "effect_store st opened"
    and "\<And>c p. (c, p) \<in> ops \<Longrightarrow> cl_durable_store c = Some st \<and> (\<exists>L. sdk_operation L c p)"
    and "wd_trace w0 = []" and "reachable ops w0 (ps, w)"
  shows "executions a (wd_trace w) \<le> 1
    \<and> (opened (wd_store w0) a \<longrightarrow> executions a (wd_trace w) = 0)"
proof -
  have "cl_durable_store c = Some st \<and> guarded p {}" if "(c, p) \<in> ops" for c p
    using assms(2) [OF that] sdk_operation_guarded by blast
  from effect_store.bounded_executions [OF assms(1,4) this, of a]
  show ?thesis
    by (cases "opened (wd_store w) a"; cases "opened (wd_store w0) a") (simp_all add: assms(3))
qed

theorem at_most_once_witness:
  "executions 11 sample_trace = 1 \<and> executions 11 sample_trace \<le> 1"
proof
  let ?p = "forget (execute_tool SL sample_client 7 ''read_file'' JNull)"
  have "reachable {(sample_client, ?p)} sample_world ([(sample_client, ?p)], sample_world)"
    by (rule start_reachable) simp
  note reach = run_reachable [OF this forget_run [OF sample_run]]
  have "executions 11 (wd_trace sample_world') \<le> 1 \<and>
    (mem_opened (wd_store sample_world) 11 \<longrightarrow> executions 11 (wd_trace sample_world') = 0)"
    by (rule at_most_once [OF mem_effect.effect_store_axioms [of SL] _ _ reach])
      (auto simp: sample_world_def intro: sdk_operation.intros)
  then show "executions 11 sample_trace \<le> 1" by (simp add: sample_world'_def)
  show "executions 11 sample_trace = 1"
    by (simp add: sample_trace_def executions_def is_execution_def execution_request_def sample_auth_def)
qed

text \<open>C3: when \<open>execute_tool\<close> succeeds, its effects happened in one order only: the store
  was found to support uncertain-effect reconciliation, the decision was requested and
  granted, the attempt was durably started, the executor was called once with the authorized
  payload, its result was committed, and the signed receipt was delivered and marked.\<close>

theorem execute_tool_success_order:
  assumes "runs (execute_tool L c u name args) es (Inr out)"
  shows "\<exists>ex key endpoint resp sa effect tail.
    equipped c ex key
    \<and> es = [AskedReconciliation True,
            Sent (decision_request L c endpoint u (tool_envelope L u name args) None) (Inr resp),
            Begun (intent_of (ex_id ex) sa) Direct (Inr Started),
            Executed (execution_request (ex_id ex) sa) (Inr effect)] @ tail
    \<and> read_decision L u (tool_envelope L u name args) None resp = Inr (Authorized sa)
    \<and> completion_trace L c key sa effect (ex_id ex) out tail"
proof -
  from assms obtain ex key es1 es2 es3 sa where deps: "equipped c ex key" "es = AskedReconciliation True # es2 @ es3"
    and auth: "runs (authorize_payload L c u (tool_envelope L u name args)) es2 (Inr sa)"
    and exec: "runs (execute_authorization L c ex key sa False) es3 (Inr out)"
    by (auto simp: execute_tool_def authorize_tool_def runs_bindP_Inr runs_dependencies runs_case_prod)
  from exec obtain effect tail where "es3 = [Begun (intent_of (ex_id ex) sa) (use_of False) (Inr Started),
      Executed (execution_request (ex_id ex) sa) (Inr effect)] @ tail"
    "completion_trace L c key sa effect (ex_id ex) out tail"
    by (rule runs_execute_success)
  with deps auth show ?thesis by (auto simp: runs_authorize_payload use_of_def) blast
qed

theorem execute_tool_success_order_witness:
  "\<exists>ex key endpoint resp sa effect tail.
    equipped sample_client ex key
    \<and> sample_trace = [AskedReconciliation True,
            Sent (decision_request SL sample_client endpoint 7 (tool_envelope SL 7 ''read_file'' JNull) None) (Inr resp),
            Begun (intent_of (ex_id ex) sa) Direct (Inr Started),
            Executed (execution_request (ex_id ex) sa) (Inr effect)] @ tail
    \<and> read_decision SL 7 (tool_envelope SL 7 ''read_file'' JNull) None resp = Inr (Authorized sa)
    \<and> completion_trace SL sample_client key sa effect (ex_id ex) sample_outcome tail"
  by (rule execute_tool_success_order [OF sample_runs])

end
