(* ===== verification/Client_Claims.thy ===== *)
theory Client_Claims
  imports Client Exec_Claims "HOL-Library.Multiset"
begin

text \<open>
  The properties of the JSON-RPC client: identifiers are never reused, whatever the
  interleaving of calls on the clones of a client, and a refused call is always reported as
  the veto it is.
\<close>

section \<open>Identifiers\<close>

definition rpc_id :: "http_request \<Rightarrow> u64 option" where
  "rpc_id q = (case hr_body q of
     JsonBody (JObject kvs) \<Rightarrow> (case map_of kvs ''id'' of Some (JNumber (PosInt n)) \<Rightarrow> Some n | _ \<Rightarrow> None)
   | _ \<Rightarrow> None)"

definition sent_ids :: "event list \<Rightarrow> u64 list" where
  "sent_ids es = List.map_filter (\<lambda>e. case e of Sent q z \<Rightarrow> rpc_id q | _ \<Rightarrow> None) es"

definition taken_ids :: "event list \<Rightarrow> u64 list" where
  "taken_ids es = List.map_filter (\<lambda>e. case e of TookId n \<Rightarrow> Some n | _ \<Rightarrow> None) es"

lemma ids_append [simp]: "sent_ids (es @ fs) = sent_ids es @ sent_ids fs"
  "taken_ids (es @ fs) = taken_ids es @ taken_ids fs"
  by (simp_all add: sent_ids_def taken_ids_def List.map_filter_def)

lemma ids_single [simp]: "sent_ids [Sent q z] = (case rpc_id q of None \<Rightarrow> [] | Some n \<Rightarrow> [n])"
  "sent_ids [TookId n] = []" "taken_ids [TookId n] = [n]" "taken_ids [Sent q z] = []"
  "sent_ids [] = []" "taken_ids [] = []"
  by (simp_all add: sent_ids_def taken_ids_def List.map_filter_def split: option.split)

lemma rpc_id_body: "hr_body q = JsonBody (rpc_body n m ps) \<Longrightarrow> rpc_id q = Some n"
  by (simp add: rpc_id_def rpc_body_def map_of_btree_of enc_u64_def)

text \<open>Where a JSON-RPC operation stands: about to draw its identifier, holding it, or done.\<close>

inductive rpc_stage :: "('e, 'a) prog \<Rightarrow> u64 list \<Rightarrow> bool" where
  fresh: "(\<And>n. rpc_stage (k n) [n]) \<Longrightarrow> rpc_stage (NextId k) []"
| holding: "rpc_id q = Some n \<Longrightarrow> (\<And>z. rpc_stage (k z) []) \<Longrightarrow> rpc_stage (HttpSend q k) [n]"
| finished: "rpc_stage (Return r) ns"

inductive_cases rpc_stageE: "rpc_stage p ns"

inductive rpc_operation :: "libs \<Rightarrow> ('n, 's, 'x) clavenar_client \<Rightarrow> (clavenar_error, json) prog \<Rightarrow> bool"
  for L c where
  "rpc_operation L c (call_tool L c name args)"
| "rpc_operation L c (send_jsonrpc L c method params)"

lemma send_raw_stage: "rpc_stage (send_raw L c (rpc_body n m ps)) [n]"
proof (cases "join_endpoint L (cl_base_url c) ''mcp'' ''/mcp''")
  case (Inr endpoint)
  have body: "hr_body (authorize_request (cl_auth c) (json_body (rpc_body n m ps) (request POST endpoint)))
      = JsonBody (rpc_body n m ps)"
    by (simp add: authorize_request_def bearer_auth_def split: auth.split)
  show ?thesis
    unfolding send_raw_def Inr tryP_simps send_rpc_def sendP_def bindP.simps
    by (rule rpc_stage.holding [OF rpc_id_body [OF body]])
      (auto intro: rpc_stage.finished split: sum.split)
qed (simp add: send_raw_def rpc_stage.finished)

lemma rpc_operation_stage: "rpc_operation L c p \<Longrightarrow> rpc_stage p []"
  by (induction rule: rpc_operation.induct)
    (auto simp: call_tool_def send_jsonrpc_def intro: rpc_stage.fresh send_raw_stage)

text \<open>One action moves an identifier from drawn to held to sent.\<close>

lemma advance_stage:
  assumes "rpc_stage p ns" "advance c p w = (p', w')"
  shows "\<exists>ns'. rpc_stage p' ns'
    \<and> mset (sent_ids (wd_trace w')) + mset ns' + mset (taken_ids (wd_trace w))
        \<subseteq># mset (sent_ids (wd_trace w)) + mset ns + mset (taken_ids (wd_trace w'))
    \<and> (w' = w \<or> (\<exists>e. wd_trace w' = wd_trace w @ [e] \<and> wd_next_id w' = wd_next_id w + of_nat (length (taken_ids [e]))
         \<and> (\<forall>n. e = TookId n \<longrightarrow> n = wd_next_id w)))"
  using assms(1)
proof (cases rule: rpc_stage.cases)
  case (fresh k)
  with assms(2) show ?thesis
    by (intro exI [of _ "[wd_next_id w]"]) (auto simp: note_event_def)
next
  case (holding q n k)
  with assms(2) show ?thesis
    by (intro exI [of _ "[]"]) (auto simp: note_event_def split: prod.splits)
next
  case (finished r)
  with assms show ?thesis by auto
qed

text \<open>The identifiers held by running operations and those sent are among those drawn.\<close>

definition ids_invariant :: "u64 \<Rightarrow> ('c \<times> ('e, 'a) prog) list \<times> ('n, 's, 'x) world \<Rightarrow> bool" where
  "ids_invariant start cfg \<longleftrightarrow> (case cfg of (ps, w) \<Rightarrow>
     taken_ids (wd_trace w) = map (\<lambda>i. start + of_nat i) [0..<length (taken_ids (wd_trace w))]
     \<and> wd_next_id w = start + of_nat (length (taken_ids (wd_trace w)))
     \<and> (\<exists>hs. list_all2 (\<lambda>(c, p) ns. rpc_stage p ns) ps hs
          \<and> mset (sent_ids (wd_trace w)) + mset (concat hs) \<subseteq># mset (taken_ids (wd_trace w))))"

lemma mset_concat_update: "i < length hs \<Longrightarrow>
    mset (concat (hs[i := ns])) + mset (hs ! i) = mset (concat hs) + mset ns"
proof (induction hs arbitrary: i)
  case (Cons h hs)
  then show ?case by (cases i) (simp_all add: add.assoc add.left_commute)
qed simp

lemma step_ids:
  assumes "\<And>c p. (c, p) \<in> ops \<Longrightarrow> rpc_stage p []"
    and "step ops cfg cfg'" and "ids_invariant start cfg"
  shows "ids_invariant start cfg'"
  using assms(2)
proof (cases rule: step.cases)
  case (Start cp ps w)
  with assms(3) obtain hs where "list_all2 (\<lambda>(c, p) ns. rpc_stage p ns) ps hs"
    "mset (sent_ids (wd_trace w)) + mset (concat hs) \<subseteq># mset (taken_ids (wd_trace w))"
    by (auto simp: ids_invariant_def)
  moreover have "rpc_stage (snd cp) []" using assms(1) Start by (cases cp) auto
  ultimately show ?thesis using assms(3) Start
    unfolding ids_invariant_def by (auto intro!: exI [of _ "hs @ [[]]"] list_all2_appendI)
next
  case (Act i ps c p w p' w')
  from assms(3) Act obtain hs where hs: "list_all2 (\<lambda>(c, p) ns. rpc_stage p ns) ps hs"
    and sub: "mset (sent_ids (wd_trace w)) + mset (concat hs) \<subseteq># mset (taken_ids (wd_trace w))"
    by (auto simp: ids_invariant_def)
  have i: "i < length hs" and "rpc_stage p (hs ! i)"
    using hs Act list_all2_nthD2 [OF hs] by (auto simp: list_all2_conv_all_nth)
  from advance_stage [OF this(2)] Act obtain ns' where ns': "rpc_stage p' ns'"
    and move: "mset (sent_ids (wd_trace w')) + mset ns' + mset (taken_ids (wd_trace w))
        \<subseteq># mset (sent_ids (wd_trace w)) + mset (hs ! i) + mset (taken_ids (wd_trace w'))"
    and grow: "w' = w \<or> (\<exists>e. wd_trace w' = wd_trace w @ [e]
      \<and> wd_next_id w' = wd_next_id w + of_nat (length (taken_ids [e])) \<and> (\<forall>n. e = TookId n \<longrightarrow> n = wd_next_id w))"
    by blast
  let ?hs = "hs[i := ns']"
  have "mset (concat ?hs) + mset (hs ! i) = mset (concat hs) + mset ns'"
    by (rule mset_concat_update [OF i])
  with sub move have "mset (sent_ids (wd_trace w')) + mset (concat ?hs) \<subseteq># mset (taken_ids (wd_trace w'))"
    by (smt (verit, ccfv_threshold) add.assoc add.commute mset_subset_eq_mono_add
        mset_subset_eq_mono_add_right_cancel)
  moreover have "list_all2 (\<lambda>(c, p) ns. rpc_stage p ns) (ps[i := (c, p')]) ?hs"
    using hs ns' by (auto intro: list_all2_update_cong)
  moreover have "taken_ids (wd_trace w') = map (\<lambda>i. start + of_nat i) [0..<length (taken_ids (wd_trace w'))]
      \<and> wd_next_id w' = start + of_nat (length (taken_ids (wd_trace w')))"
    using grow
  proof
    assume "\<exists>e. wd_trace w' = wd_trace w @ [e]
      \<and> wd_next_id w' = wd_next_id w + of_nat (length (taken_ids [e])) \<and> (\<forall>n. e = TookId n \<longrightarrow> n = wd_next_id w)"
    then obtain e where e: "wd_trace w' = wd_trace w @ [e]"
      "wd_next_id w' = wd_next_id w + of_nat (length (taken_ids [e]))" "e = TookId n \<Longrightarrow> n = wd_next_id w" for n
      by blast
    with assms(3) Act show ?thesis
      by (cases e) (auto simp: ids_invariant_def taken_ids_def List.map_filter_def)
  qed (use assms(3) Act in \<open>auto simp: ids_invariant_def\<close>)
  ultimately show ?thesis using Act unfolding ids_invariant_def by auto
next
  case (Crash ps cp qs w)
  with assms(3) obtain hs where "list_all2 (\<lambda>(c, p) ns. rpc_stage p ns) (ps @ cp # qs) hs"
    and sub: "mset (sent_ids (wd_trace w)) + mset (concat hs) \<subseteq># mset (taken_ids (wd_trace w))"
    by (auto simp: ids_invariant_def)
  then obtain hs1 h hs2 where "hs = hs1 @ h # hs2" "list_all2 (\<lambda>(c, p) ns. rpc_stage p ns) ps hs1"
    "list_all2 (\<lambda>(c, p) ns. rpc_stage p ns) qs hs2"
    by (auto simp: list_all2_append1 list_all2_Cons1)
  then have hs: "hs = hs1 @ h # hs2" "list_all2 (\<lambda>(c, p) ns. rpc_stage p ns) (ps @ qs) (hs1 @ hs2)"
    by (simp_all add: list_all2_appendI)
  have "mset (concat (hs1 @ hs2)) \<subseteq># mset (concat hs)" by (simp add: hs)
  with sub have "mset (sent_ids (wd_trace w)) + mset (concat (hs1 @ hs2)) \<subseteq># mset (taken_ids (wd_trace w))"
    by (meson mset_subset_eq_mono_add_left_cancel subset_mset.order_trans)
  with hs(2) assms(3) Crash show ?thesis unfolding ids_invariant_def by auto
qed

lemma counter_distinct:
  assumes "n \<le> 2 ^ 64"
  shows "distinct (map (\<lambda>i. start + of_nat i :: u64) [0..<n])"
proof -
  have "i = j" if "i < n" "j < n" "(of_nat i :: u64) = of_nat j" for i j
  proof -
    have "unat (of_nat k :: u64) = k" if "k < n" for k
      using that assms by (simp add: unat_of_nat)
    then show ?thesis using that by metis
  qed
  then show ?thesis by (auto simp: distinct_map inj_on_def)
qed

lemma distinct_submset:
  assumes "mset xs \<subseteq># mset ys" "distinct ys"
  shows "distinct xs"
  unfolding distinct_count_atmost_1
proof
  fix a
  have "count (mset xs) a \<le> count (mset ys) a" by (rule mset_subset_eq_count [OF assms(1)])
  moreover have "count (mset ys) a \<le> 1" using assms(2) by (simp add: distinct_count_atmost_1)
  moreover have "a \<in> set xs \<longleftrightarrow> 0 < count (mset xs) a" by simp
  ultimately show "count (mset xs) a = (if a \<in> set xs then 1 else 0)"
    by (metis One_nat_def Suc_leI le_antisym le_trans not_gr_zero)
qed

text \<open>C19: JSON-RPC identifiers are never reused. However many calls run on the clones of a
  client, interleaved, crashed or dropped anywhere, the counter hands out consecutive values
  (modulo 2^64), every request on the wire carries one that was drawn, and below 2^64 draws no
  two requests carry the same.\<close>

theorem rpc_identifiers_unique:
  assumes "\<And>c p. (c, p) \<in> ops \<Longrightarrow> \<exists>L. rpc_operation L c p"
    and "wd_trace w0 = []" and "reachable ops w0 (ps, w)"
  shows "taken_ids (wd_trace w) = map (\<lambda>i. wd_next_id w0 + of_nat i) [0..<length (taken_ids (wd_trace w))]
    \<and> set (sent_ids (wd_trace w)) \<subseteq> set (taken_ids (wd_trace w))
    \<and> (length (taken_ids (wd_trace w)) \<le> 2 ^ 64 \<longrightarrow> distinct (sent_ids (wd_trace w)))"
proof -
  have "ids_invariant (wd_next_id w0) (ps, w)"
    using assms(3)
  proof (induction rule: reachable.induct [consumes 1, case_names Initial Next])
    case Initial
    with assms(2) show ?case by (simp add: ids_invariant_def)
  next
    case (Next cfg cfg')
    show ?case using assms(1) rpc_operation_stage by (blast intro: step_ids [OF _ Next(2) Next(3)])
  qed
  then have taken: "taken_ids (wd_trace w) = map (\<lambda>i. wd_next_id w0 + of_nat i) [0..<length (taken_ids (wd_trace w))]"
    and sub: "mset (sent_ids (wd_trace w)) \<subseteq># mset (taken_ids (wd_trace w))"
    by (auto simp: ids_invariant_def dest: mset_subset_eq_add_left [THEN subset_mset.order_trans])
  have "distinct (sent_ids (wd_trace w))" if "length (taken_ids (wd_trace w)) \<le> 2 ^ 64"
    using counter_distinct [OF that, of "wd_next_id w0"] distinct_submset [OF sub] by (simp flip: taken)
  with taken sub show ?thesis using set_mset_mono [OF sub] by simp
qed

abbreviation sample_call :: "(clavenar_error, json) prog" where
  "sample_call \<equiv> call_tool SL sample_client ''read_file'' JNull"

definition rpc_world :: "(http_response, memory_state, nat) world" where
  "rpc_world = \<lparr>wd_net = reply 200 ''unit'', wd_store = memory_empty, wd_tools = 0, wd_next_id = 1, wd_trace = []\<rparr>"

definition rpc_sent :: "u64 \<Rightarrow> event" where
  "rpc_sent n = Sent (authorize_request (Bearer ''t'') (json_body (rpc_body n ''tools/call''
       (JObject [(''name'', JString ''read_file''), (''arguments'', JNull)])) (request POST ''http://p/mcp'')))
     (Inr (reply 200 ''unit''))"

lemma rpc_sent_ids [simp]: "sent_ids [rpc_sent n] = [n]"
proof -
  have "rpc_id (authorize_request (Bearer ''t'') (json_body (rpc_body n ''tools/call''
       (JObject [(''name'', JString ''read_file''), (''arguments'', JNull)])) (request POST ''http://p/mcp''))) = Some n"
    by (rule rpc_id_body [of _ n]) (simp add: authorize_request_def bearer_auth_def)
  then show ?thesis by (simp add: rpc_sent_def)
qed

lemma run_sample_call:
  "run sample_client sample_call w =
     (note_event (Sent (authorize_request (Bearer ''t'') (json_body (rpc_body (wd_next_id w) ''tools/call''
         (JObject [(''name'', JString ''read_file''), (''arguments'', JNull)])) (request POST ''http://p/mcp'')))
         (Inr (wd_net w))) (note_event (TookId (wd_next_id w)) (w\<lparr>wd_next_id := wd_next_id w + 1\<rparr>)),
      read_rpc SL (wd_net w))"
  by (simp add: call_tool_def send_raw_def send_rpc_def sendP_def join_endpoint_def note_event_def)

theorem rpc_identifiers_unique_witness:
  "\<exists>ps w. reachable {(sample_client, sample_call)} rpc_world (ps, w) \<and> wd_trace w \<noteq> []
     \<and> sent_ids (wd_trace w) = [1] \<and> set (sent_ids (wd_trace w)) \<subseteq> set (taken_ids (wd_trace w))"
proof -
  have "reachable {(sample_client, sample_call)} rpc_world ([(sample_client, sample_call)], rpc_world)"
    by (rule start_reachable) simp
  note reach = run_reachable [OF this run_sample_call]
  obtain ps w where w: "reachable {(sample_client, sample_call)} rpc_world (ps, w)"
    and trace: "wd_trace w = [TookId 1, rpc_sent 1]"
    by (rule that [OF reach]) (simp add: rpc_world_def rpc_sent_def note_event_def)
  have "\<exists>L. rpc_operation L c p" if "(c, p) \<in> {(sample_client, sample_call)}"
    for c :: "(http_response, memory_state, nat) clavenar_client" and p
    using that by (auto intro: rpc_operation.intros)
  then have "set (sent_ids (wd_trace w)) \<subseteq> set (taken_ids (wd_trace w))"
    using rpc_identifiers_unique [OF _ _ w] by (simp add: rpc_world_def)
  moreover have "sent_ids (wd_trace w) = [1]"
    using ids_append(1) [of "[TookId 1]" "[rpc_sent 1]"] by (simp add: trace)
  ultimately show ?thesis using w trace by (intro exI [of _ ps] exI [of _ w]) simp
qed

section \<open>Vetoes\<close>

text \<open>The member of a JSON object with a default, as its type.\<close>

definition member_or :: "(string \<times> json) list \<Rightarrow> string \<Rightarrow> 'a \<Rightarrow> 'a dec \<Rightarrow> 'a option" where
  "member_or kvs k x d = (case map_of kvs k of None \<Rightarrow> Some x | Some j \<Rightarrow> d j)"

definition veto_fields :: "(string \<times> json) list \<Rightarrow> string \<times> string list \<times> string list \<times> string option" where
  "veto_fields kvs =
    (case (member_or kvs ''intent_category'' [] dec_string, member_or kvs ''reasons'' [] (dec_list dec_string),
       member_or kvs ''review_reasons'' [] (dec_list dec_string),
       member_or kvs ''correlation_id'' None (dec_option dec_string)) of
     (Some cat, Some rs, Some vs, Some cid) \<Rightarrow> (cat, rs, vs, cid)
   | _ \<Rightarrow> ([], [], [], None))"

text \<open>The fields the veto of a body has: those of an object in which no known member repeats, or of
  an array of at most four elements, which are the members by position; any other body, and one
  that is not JSON, gives none.\<close>

definition veto_body :: "json option \<Rightarrow> string \<times> string list \<times> string list \<times> string option" where
  "veto_body doc = (let known = [''reasons'', ''review_reasons'', ''intent_category'', ''correlation_id''] in
    case doc of
      Some (JObject kvs) \<Rightarrow>
        if distinct (filter (\<lambda>k. k \<in> set known) (map fst kvs)) then veto_fields kvs else ([], [], [], None)
    | Some (JArray xs) \<Rightarrow>
        if length xs \<le> 4 then veto_fields (zip known xs) else ([], [], [], None)
    | _ \<Rightarrow> ([], [], [], None))"

lemma dflt_members: "dflt (b, map_of kvs) k x d = member_or kvs k x d"
  by (simp add: dflt_def member_or_def)

definition deny_fields :: "fields \<Rightarrow> string \<times> string list \<times> string list \<times> string option" where
  "deny_fields f = (case f of (b, m) \<Rightarrow>
     (case (dflt f ''intent_category'' [] dec_string, dflt f ''reasons'' [] (dec_list dec_string),
        dflt f ''review_reasons'' [] (dec_list dec_string), dflt f ''correlation_id'' None (dec_option dec_string)) of
      (Some cat, Some rs, Some vs, Some cid) \<Rightarrow> (cat, rs, vs, cid)
    | _ \<Rightarrow> ([], [], [], None)))"

lemma deny_fields_members: "deny_fields (b, map_of kvs) = veto_fields kvs"
  by (simp add: deny_fields_def veto_fields_def dflt_members)

lemma parse_veto_fields:
  "parse_veto L raw = (case (case json_parse L raw of None \<Rightarrow> ([], [], [], None)
       | Some j \<Rightarrow> (case struct_fields False
             [''reasons'', ''review_reasons'', ''intent_category'', ''correlation_id''] j of
           None \<Rightarrow> ([], [], [], None) | Some f \<Rightarrow> deny_fields f))
     of (cat, rs, vs, cid) \<Rightarrow> Veto cat rs vs cid raw)"
  by (simp add: parse_veto_def from_str_def dec_deny_response_def deny_fields_def
      split: option.split prod.split)

lemma parse_veto_body:
  "parse_veto L raw = (case veto_body (json_parse L raw) of (cat, rs, vs, cid) \<Rightarrow> Veto cat rs vs cid raw)"
  unfolding parse_veto_fields
  by (cases "json_parse L raw"; simp add: veto_body_def)
    (simp add: struct_fields_def deny_fields_members split: json.split)

text \<open>A JSON-RPC call draws its identifier and then posts one body.\<close>

lemma runs_numbered: "runs (NextId (\<lambda>n. send_raw L c (b n))) es r \<longleftrightarrow> (\<exists>n.
    (\<exists>e. join_endpoint L (cl_base_url c) ''mcp'' ''/mcp'' = Inl e \<and> es = [TookId n] \<and> r = Inl e)
  \<or> (\<exists>endpoint z. join_endpoint L (cl_base_url c) ''mcp'' ''/mcp'' = Inr endpoint
      \<and> es = [TookId n, Sent (authorize_request (cl_auth c) (json_body (b n) (request POST endpoint))) z]
      \<and> r = reply_of (read_rpc L) z))"
  by (cases "join_endpoint L (cl_base_url c) ''mcp'' ''/mcp''")
    (auto simp: send_raw_def rpc.one_request)

text \<open>C20: a 403 on a JSON-RPC call, of a tool or of any method, whose body can be read is always
  reported as a veto that carries that body verbatim, whatever the body is; a body that cannot be
  read (too large or not UTF-8) is reported as that failure. The structured fields of the veto are
  those of \<open>veto_body\<close>: the known members of an object in which none of them repeats, or of an
  array of at most four elements read by position, when all have their types, absent ones as
  empty; and otherwise nothing.\<close>

theorem forbidden_is_a_veto:
  assumes "p = call_tool L c name params \<or> p = send_jsonrpc L c name params"
    and "runs p es r" and "Sent q (Inr resp) \<in> set es" and "hs_status resp = 403"
  shows "case read_text_limited resp of
      Inl e \<Rightarrow> r = Inl e
    | Inr raw \<Rightarrow> r = Inl (case veto_body (json_parse L raw) of (cat, reasons, reviews, cid) \<Rightarrow>
        Veto cat reasons reviews cid raw)"
proof -
  have "\<exists>b. p = NextId (\<lambda>n. send_raw L c (b n))"
    using assms(1)
  proof
    assume "p = call_tool L c name params"
    then show ?thesis
      by (intro exI [of _ "\<lambda>n. rpc_body n ''tools/call''
        (JObject [(''name'', JString name), (''arguments'', params)])"]) (simp only: call_tool_def)
  next
    assume "p = send_jsonrpc L c name params"
    then show ?thesis
      by (intro exI [of _ "\<lambda>n. rpc_body n name params"]) (simp only: send_jsonrpc_def)
  qed
  then obtain b where p: "p = NextId (\<lambda>n. send_raw L c (b n))" ..
  have "r = read_rpc L resp" using assms(2) [unfolded p runs_numbered] assms(3) by auto
  then show ?thesis
    by (simp add: read_rpc_def assms(4) parse_veto_body split: sum.split prod.split)
qed

abbreviation veto_libs :: libs where
  "veto_libs \<equiv> with_parser (\<lambda>s. Some (JObject [(''reasons'', JArray [JString ''no'']), (''layer'', JString ''policy'')]))"

theorem forbidden_is_a_veto_witness:
  "runs (call_tool veto_libs sample_client ''sh'' JNull)
     [TookId 4, Sent (authorize_request (Bearer ''t'') (json_body (rpc_body 4 ''tools/call''
        (JObject [(''name'', JString ''sh''), (''arguments'', JNull)])) (request POST ''http://p/mcp'')))
        (Inr (reply 403 ''x''))]
     (Inl (Veto [] [''no''] [] None ''x''))"
  (is "runs ?p ?es _")
proof -
  obtain r where run: "runs ?p ?es r"
    unfolding call_tool_def runs_numbered by (simp add: join_endpoint_def)
  have "read_text_limited (reply 403 ''x'') = Inr ''x''" by (simp add: byte_def)
  then have "r = Inl (Veto [] [''no''] [] None ''x'')"
    using forbidden_is_a_veto [OF disjI1 [OF refl] run, of _ "reply 403 ''x''"]
    by (simp add: veto_body_def veto_fields_def member_or_def)
  with run show ?thesis by simp
qed

end
