(* ===== verification/Wire_Agents.thy ===== *)
theory Wire_Agents
  imports Rest
begin

text \<open>
  The wire types of the agents surface (agents.rs): the agent record with its lifecycle
  state, tenant budgets and offboarding, the durable tenant lifecycle with its ordered steps,
  certification, containment and delegation grants. Records follow the conventions of
  \<open>Wire_Authorization\<close> (no \<open>deny_unknown_fields\<close> here); every type that is both written
  and read has its \<open>codec\<close> interpretation.
\<close>

section \<open>Agent state\<close>

datatype agent_state = AgentActive | AgentSuspended | AgentDecommissioned

fun as_wire :: "agent_state \<Rightarrow> string" where
  "as_wire AgentActive = ''active''"
| "as_wire AgentSuspended = ''suspended''"
| "as_wire AgentDecommissioned = ''decommissioned''"

definition parse_state :: "string \<Rightarrow> agent_state option" where
  "parse_state s =
     (if s = ''active'' \<or> s = ''Active'' then Some AgentActive
      else if s = ''suspended'' \<or> s = ''Suspended'' then Some AgentSuspended
      else if s = ''decommissioned'' \<or> s = ''Decommissioned'' then Some AgentDecommissioned
      else None)"

definition enc_agent_state :: "agent_state \<Rightarrow> json" where
  "enc_agent_state s = JString (as_wire s)"

definition dec_agent_state :: "agent_state dec" where
  "dec_agent_state j = Option.bind (dec_string j) parse_state"

lemma parse_as_wire [simp]: "parse_state (as_wire s) = Some s"
  by (cases s) (simp_all add: parse_state_def)

lemma dec_enc_agent_state [simp]: "dec_agent_state (enc_agent_state s) = Some s"
  by (simp add: dec_agent_state_def enc_agent_state_def)

section \<open>Records\<close>

record agent_record =
  ag_id :: string
  ag_tenant :: string
  ag_agent_name :: string
  ag_state :: agent_state
  ag_scope_envelope :: "string list"
  ag_yellow_envelope :: "string list"
  ag_attestation_kinds_accepted :: "string list"
  ag_created_by_sub :: string
  ag_created_by_idp :: string
  ag_owner_team :: string
  ag_created_at :: string
  ag_state_changed_at :: string
  ag_state_changed_by :: string
  ag_description :: "string option"
  ag_certified_at_version :: "string option"
  ag_certified_at :: "string option"

definition enc_agent_record :: "agent_record \<Rightarrow> json" where
  "enc_agent_record x = JObject (
    [(''id'', JString (ag_id x)),
      (''tenant'', JString (ag_tenant x)),
      (''agent_name'', JString (ag_agent_name x)),
      (''state'', enc_agent_state (ag_state x)),
      (''scope_envelope'', enc_list JString (ag_scope_envelope x)),
      (''yellow_envelope'', enc_list JString (ag_yellow_envelope x)),
      (''attestation_kinds_accepted'', enc_list JString (ag_attestation_kinds_accepted x)),
      (''created_by_sub'', JString (ag_created_by_sub x)),
      (''created_by_idp'', JString (ag_created_by_idp x)),
      (''owner_team'', JString (ag_owner_team x)),
      (''created_at'', JString (ag_created_at x)),
      (''state_changed_at'', JString (ag_state_changed_at x)),
      (''state_changed_by'', JString (ag_state_changed_by x)),
      (''description'', enc_option JString (ag_description x)),
      (''certified_at_version'', enc_option JString (ag_certified_at_version x)),
      (''certified_at'', enc_option JString (ag_certified_at x))])"

definition dec_agent_record :: "agent_record dec" where
  "dec_agent_record j = do {
     f \<leftarrow> struct_fields False
       [''id'', ''tenant'', ''agent_name'', ''state'', ''scope_envelope'',
        ''yellow_envelope'', ''attestation_kinds_accepted'', ''created_by_sub'',
        ''created_by_idp'', ''owner_team'', ''created_at'', ''state_changed_at'',
        ''state_changed_by'', ''description'', ''certified_at_version'', ''certified_at''] j;
     v1 \<leftarrow> need f ''id'' dec_string;
     v2 \<leftarrow> need f ''tenant'' dec_string;
     v3 \<leftarrow> need f ''agent_name'' dec_string;
     v4 \<leftarrow> need f ''state'' dec_agent_state;
     v5 \<leftarrow> need f ''scope_envelope'' (dec_list dec_string);
     v6 \<leftarrow> need f ''yellow_envelope'' (dec_list dec_string);
     v7 \<leftarrow> need f ''attestation_kinds_accepted'' (dec_list dec_string);
     v8 \<leftarrow> need f ''created_by_sub'' dec_string;
     v9 \<leftarrow> need f ''created_by_idp'' dec_string;
     v10 \<leftarrow> need f ''owner_team'' dec_string;
     v11 \<leftarrow> need f ''created_at'' dec_string;
     v12 \<leftarrow> need f ''state_changed_at'' dec_string;
     v13 \<leftarrow> need f ''state_changed_by'' dec_string;
     v14 \<leftarrow> opt f ''description'' dec_string;
     v15 \<leftarrow> dflt f ''certified_at_version'' None (dec_option dec_string);
     v16 \<leftarrow> dflt f ''certified_at'' None (dec_option dec_string);
     Some \<lparr>ag_id = v1,
       ag_tenant = v2,
       ag_agent_name = v3,
       ag_state = v4,
       ag_scope_envelope = v5,
       ag_yellow_envelope = v6,
       ag_attestation_kinds_accepted = v7,
       ag_created_by_sub = v8,
       ag_created_by_idp = v9,
       ag_owner_team = v10,
       ag_created_at = v11,
       ag_state_changed_at = v12,
       ag_state_changed_by = v13,
       ag_description = v14,
       ag_certified_at_version = v15,
       ag_certified_at = v16\<rparr> }"

interpretation agent_record_codec: codec enc_agent_record dec_agent_record "\<lambda>_. True"
  by unfold_locales
    (auto simp: enc_agent_record_def dec_agent_record_def record_simps split: option.split)

record tenant_budget =
  tb_tenant :: string
  tb_budget_micros :: "i64 option"
  tb_updated_at :: "string option"
  tb_updated_by :: "string option"

definition enc_tenant_budget :: "tenant_budget \<Rightarrow> json" where
  "enc_tenant_budget x = JObject (
    [(''tenant'', JString (tb_tenant x)),
      (''budget_micros'', enc_option enc_i64 (tb_budget_micros x)),
      (''updated_at'', enc_option JString (tb_updated_at x)),
      (''updated_by'', enc_option JString (tb_updated_by x))])"

definition dec_tenant_budget :: "tenant_budget dec" where
  "dec_tenant_budget j = do {
     f \<leftarrow> struct_fields False
       [''tenant'', ''budget_micros'', ''updated_at'', ''updated_by''] j;
     v1 \<leftarrow> need f ''tenant'' dec_string;
     v2 \<leftarrow> dflt f ''budget_micros'' None (dec_option dec_i64);
     v3 \<leftarrow> dflt f ''updated_at'' None (dec_option dec_string);
     v4 \<leftarrow> dflt f ''updated_by'' None (dec_option dec_string);
     Some \<lparr>tb_tenant = v1,
       tb_budget_micros = v2,
       tb_updated_at = v3,
       tb_updated_by = v4\<rparr> }"

interpretation tenant_budget_codec: codec enc_tenant_budget dec_tenant_budget "\<lambda>_. True"
  by unfold_locales
    (auto simp: enc_tenant_budget_def dec_tenant_budget_def record_simps split: option.split)

record tenant_offboard_result =
  to_tenant :: string
  to_agents_decommissioned :: u64
  to_upstreams_retired :: u64
  to_budget_cleared :: bool

definition enc_tenant_offboard_result :: "tenant_offboard_result \<Rightarrow> json" where
  "enc_tenant_offboard_result x = JObject (
    [(''tenant'', JString (to_tenant x)),
      (''agents_decommissioned'', enc_u64 (to_agents_decommissioned x)),
      (''upstreams_retired'', enc_u64 (to_upstreams_retired x)),
      (''budget_cleared'', JBool (to_budget_cleared x))])"

definition dec_tenant_offboard_result :: "tenant_offboard_result dec" where
  "dec_tenant_offboard_result j = do {
     f \<leftarrow> struct_fields False
       [''tenant'', ''agents_decommissioned'', ''upstreams_retired'', ''budget_cleared''] j;
     v1 \<leftarrow> need f ''tenant'' dec_string;
     v2 \<leftarrow> need f ''agents_decommissioned'' dec_u64;
     v3 \<leftarrow> need f ''upstreams_retired'' dec_u64;
     v4 \<leftarrow> need f ''budget_cleared'' dec_bool;
     Some \<lparr>to_tenant = v1,
       to_agents_decommissioned = v2,
       to_upstreams_retired = v3,
       to_budget_cleared = v4\<rparr> }"

interpretation tenant_offboard_result_codec: codec enc_tenant_offboard_result dec_tenant_offboard_result "\<lambda>_. True"
  by unfold_locales
    (auto simp: enc_tenant_offboard_result_def dec_tenant_offboard_result_def record_simps split: option.split)

datatype tenant_lifecycle_kind =
    Provision | Offboard

fun enc_tenant_lifecycle_kind :: "tenant_lifecycle_kind \<Rightarrow> json" where
  "enc_tenant_lifecycle_kind Provision = JString ''provision''"
| "enc_tenant_lifecycle_kind Offboard = JString ''offboard''"

definition dec_tenant_lifecycle_kind :: "tenant_lifecycle_kind dec" where
  "dec_tenant_lifecycle_kind = dec_enum [(''provision'', Provision),
     (''offboard'', Offboard)]"

lemma dec_enc_tenant_lifecycle_kind [simp]: "dec_tenant_lifecycle_kind (enc_tenant_lifecycle_kind x) = Some x"
  by (cases x) (simp_all add: dec_tenant_lifecycle_kind_def dec_enum_def)

lemma dec_option_tenant_lifecycle_kind [simp]: "dec_option dec_tenant_lifecycle_kind (enc_tenant_lifecycle_kind x) = Some (Some x)"
  by (cases x) (simp_all add: dec_option_def dec_tenant_lifecycle_kind_def dec_enum_def)

lemma enc_tenant_lifecycle_kind_scalar [simp]: "enc_tenant_lifecycle_kind x \<noteq> JNull"
  by (cases x) simp_all

datatype tenant_lifecycle_operation_state =
    OpPending | OpRunning | OpWaitingRetry | OpManualRecovery | OpCompensating | OpCompensated | OpSucceeded

fun enc_tenant_lifecycle_operation_state :: "tenant_lifecycle_operation_state \<Rightarrow> json" where
  "enc_tenant_lifecycle_operation_state OpPending = JString ''pending''"
| "enc_tenant_lifecycle_operation_state OpRunning = JString ''running''"
| "enc_tenant_lifecycle_operation_state OpWaitingRetry = JString ''waiting_retry''"
| "enc_tenant_lifecycle_operation_state OpManualRecovery = JString ''manual_recovery''"
| "enc_tenant_lifecycle_operation_state OpCompensating = JString ''compensating''"
| "enc_tenant_lifecycle_operation_state OpCompensated = JString ''compensated''"
| "enc_tenant_lifecycle_operation_state OpSucceeded = JString ''succeeded''"

definition dec_tenant_lifecycle_operation_state :: "tenant_lifecycle_operation_state dec" where
  "dec_tenant_lifecycle_operation_state = dec_enum [(''pending'', OpPending),
     (''running'', OpRunning),
     (''waiting_retry'', OpWaitingRetry),
     (''manual_recovery'', OpManualRecovery),
     (''compensating'', OpCompensating),
     (''compensated'', OpCompensated),
     (''succeeded'', OpSucceeded)]"

lemma dec_enc_tenant_lifecycle_operation_state [simp]: "dec_tenant_lifecycle_operation_state (enc_tenant_lifecycle_operation_state x) = Some x"
  by (cases x) (simp_all add: dec_tenant_lifecycle_operation_state_def dec_enum_def)

lemma dec_option_tenant_lifecycle_operation_state [simp]: "dec_option dec_tenant_lifecycle_operation_state (enc_tenant_lifecycle_operation_state x) = Some (Some x)"
  by (cases x) (simp_all add: dec_option_def dec_tenant_lifecycle_operation_state_def dec_enum_def)

lemma enc_tenant_lifecycle_operation_state_scalar [simp]: "enc_tenant_lifecycle_operation_state x \<noteq> JNull"
  by (cases x) simp_all

datatype tenant_lifecycle_step_state =
    StepPending | StepRunning | StepRetryable | StepManualRecovery | StepCompensating | StepCompensated | StepSkipped | StepSucceeded

fun enc_tenant_lifecycle_step_state :: "tenant_lifecycle_step_state \<Rightarrow> json" where
  "enc_tenant_lifecycle_step_state StepPending = JString ''pending''"
| "enc_tenant_lifecycle_step_state StepRunning = JString ''running''"
| "enc_tenant_lifecycle_step_state StepRetryable = JString ''retryable''"
| "enc_tenant_lifecycle_step_state StepManualRecovery = JString ''manual_recovery''"
| "enc_tenant_lifecycle_step_state StepCompensating = JString ''compensating''"
| "enc_tenant_lifecycle_step_state StepCompensated = JString ''compensated''"
| "enc_tenant_lifecycle_step_state StepSkipped = JString ''skipped''"
| "enc_tenant_lifecycle_step_state StepSucceeded = JString ''succeeded''"

definition dec_tenant_lifecycle_step_state :: "tenant_lifecycle_step_state dec" where
  "dec_tenant_lifecycle_step_state = dec_enum [(''pending'', StepPending),
     (''running'', StepRunning),
     (''retryable'', StepRetryable),
     (''manual_recovery'', StepManualRecovery),
     (''compensating'', StepCompensating),
     (''compensated'', StepCompensated),
     (''skipped'', StepSkipped),
     (''succeeded'', StepSucceeded)]"

lemma dec_enc_tenant_lifecycle_step_state [simp]: "dec_tenant_lifecycle_step_state (enc_tenant_lifecycle_step_state x) = Some x"
  by (cases x) (simp_all add: dec_tenant_lifecycle_step_state_def dec_enum_def)

lemma dec_option_tenant_lifecycle_step_state [simp]: "dec_option dec_tenant_lifecycle_step_state (enc_tenant_lifecycle_step_state x) = Some (Some x)"
  by (cases x) (simp_all add: dec_option_def dec_tenant_lifecycle_step_state_def dec_enum_def)

lemma enc_tenant_lifecycle_step_state_scalar [simp]: "enc_tenant_lifecycle_step_state x \<noteq> JNull"
  by (cases x) simp_all

record tenant_lifecycle_step =
  ts_id :: string
  ts_order :: i64
  ts_owner :: string
  ts_effect :: string
  ts_compensation :: string
  ts_state :: tenant_lifecycle_step_state
  ts_attempts :: i64
  ts_lease_expires_at :: "string option"
  ts_next_retry_at :: "string option"
  ts_receipt_sha256 :: "string option"
  ts_receipt :: "json option"
  ts_last_error :: "string option"
  ts_updated_at :: string

definition enc_tenant_lifecycle_step :: "tenant_lifecycle_step \<Rightarrow> json" where
  "enc_tenant_lifecycle_step x = JObject (
    [(''id'', JString (ts_id x)),
      (''order'', enc_i64 (ts_order x)),
      (''owner'', JString (ts_owner x)),
      (''effect'', JString (ts_effect x)),
      (''compensation'', JString (ts_compensation x)),
      (''state'', enc_tenant_lifecycle_step_state (ts_state x)),
      (''attempts'', enc_i64 (ts_attempts x)),
      (''lease_expires_at'', enc_option JString (ts_lease_expires_at x)),
      (''next_retry_at'', enc_option JString (ts_next_retry_at x)),
      (''receipt_sha256'', enc_option JString (ts_receipt_sha256 x)),
      (''receipt'', enc_option (\<lambda>j. j) (ts_receipt x)),
      (''last_error'', enc_option JString (ts_last_error x)),
      (''updated_at'', JString (ts_updated_at x))])"

definition dec_tenant_lifecycle_step :: "tenant_lifecycle_step dec" where
  "dec_tenant_lifecycle_step j = do {
     f \<leftarrow> struct_fields False
       [''id'', ''order'', ''owner'', ''effect'', ''compensation'', ''state'', ''attempts'',
        ''lease_expires_at'', ''next_retry_at'', ''receipt_sha256'', ''receipt'',
        ''last_error'', ''updated_at''] j;
     v1 \<leftarrow> need f ''id'' dec_string;
     v2 \<leftarrow> need f ''order'' dec_i64;
     v3 \<leftarrow> need f ''owner'' dec_string;
     v4 \<leftarrow> need f ''effect'' dec_string;
     v5 \<leftarrow> need f ''compensation'' dec_string;
     v6 \<leftarrow> need f ''state'' dec_tenant_lifecycle_step_state;
     v7 \<leftarrow> need f ''attempts'' dec_i64;
     v8 \<leftarrow> opt f ''lease_expires_at'' dec_string;
     v9 \<leftarrow> opt f ''next_retry_at'' dec_string;
     v10 \<leftarrow> opt f ''receipt_sha256'' dec_string;
     v11 \<leftarrow> opt f ''receipt'' dec_value;
     v12 \<leftarrow> opt f ''last_error'' dec_string;
     v13 \<leftarrow> need f ''updated_at'' dec_string;
     Some \<lparr>ts_id = v1,
       ts_order = v2,
       ts_owner = v3,
       ts_effect = v4,
       ts_compensation = v5,
       ts_state = v6,
       ts_attempts = v7,
       ts_lease_expires_at = v8,
       ts_next_retry_at = v9,
       ts_receipt_sha256 = v10,
       ts_receipt = v11,
       ts_last_error = v12,
       ts_updated_at = v13\<rparr> }"

definition ok_tenant_lifecycle_step :: "tenant_lifecycle_step \<Rightarrow> bool" where
  "ok_tenant_lifecycle_step x \<longleftrightarrow> pred_option (\<lambda>j. json_wf j \<and> j \<noteq> JNull) (ts_receipt x)"

interpretation tenant_lifecycle_step_codec: codec enc_tenant_lifecycle_step dec_tenant_lifecycle_step ok_tenant_lifecycle_step
  by unfold_locales
    (auto simp: enc_tenant_lifecycle_step_def dec_tenant_lifecycle_step_def ok_tenant_lifecycle_step_def record_simps split: option.split)

record tenant_lifecycle_operation =
  tl_id :: string
  tl_tenant :: string
  tl_kind :: tenant_lifecycle_kind
  tl_idempotency_key :: string
  tl_intent_sha256 :: string
  tl_reason :: string
  tl_state :: tenant_lifecycle_operation_state
  tl_actor_sub :: string
  tl_actor_idp :: string
  tl_created_at :: string
  tl_updated_at :: string
  tl_steps :: "tenant_lifecycle_step list"

definition enc_tenant_lifecycle_operation :: "tenant_lifecycle_operation \<Rightarrow> json" where
  "enc_tenant_lifecycle_operation x = JObject (
    [(''id'', JString (tl_id x)),
      (''tenant'', JString (tl_tenant x)),
      (''kind'', enc_tenant_lifecycle_kind (tl_kind x)),
      (''idempotency_key'', JString (tl_idempotency_key x)),
      (''intent_sha256'', JString (tl_intent_sha256 x)),
      (''reason'', JString (tl_reason x)),
      (''state'', enc_tenant_lifecycle_operation_state (tl_state x)),
      (''actor_sub'', JString (tl_actor_sub x)),
      (''actor_idp'', JString (tl_actor_idp x)),
      (''created_at'', JString (tl_created_at x)),
      (''updated_at'', JString (tl_updated_at x)),
      (''steps'', enc_list enc_tenant_lifecycle_step (tl_steps x))])"

definition dec_tenant_lifecycle_operation :: "tenant_lifecycle_operation dec" where
  "dec_tenant_lifecycle_operation j = do {
     f \<leftarrow> struct_fields False
       [''id'', ''tenant'', ''kind'', ''idempotency_key'', ''intent_sha256'', ''reason'',
        ''state'', ''actor_sub'', ''actor_idp'', ''created_at'', ''updated_at'', ''steps''] j;
     v1 \<leftarrow> need f ''id'' dec_string;
     v2 \<leftarrow> need f ''tenant'' dec_string;
     v3 \<leftarrow> need f ''kind'' dec_tenant_lifecycle_kind;
     v4 \<leftarrow> need f ''idempotency_key'' dec_string;
     v5 \<leftarrow> need f ''intent_sha256'' dec_string;
     v6 \<leftarrow> need f ''reason'' dec_string;
     v7 \<leftarrow> need f ''state'' dec_tenant_lifecycle_operation_state;
     v8 \<leftarrow> need f ''actor_sub'' dec_string;
     v9 \<leftarrow> need f ''actor_idp'' dec_string;
     v10 \<leftarrow> need f ''created_at'' dec_string;
     v11 \<leftarrow> need f ''updated_at'' dec_string;
     v12 \<leftarrow> need f ''steps'' (dec_list dec_tenant_lifecycle_step);
     Some \<lparr>tl_id = v1,
       tl_tenant = v2,
       tl_kind = v3,
       tl_idempotency_key = v4,
       tl_intent_sha256 = v5,
       tl_reason = v6,
       tl_state = v7,
       tl_actor_sub = v8,
       tl_actor_idp = v9,
       tl_created_at = v10,
       tl_updated_at = v11,
       tl_steps = v12\<rparr> }"

definition ok_tenant_lifecycle_operation :: "tenant_lifecycle_operation \<Rightarrow> bool" where
  "ok_tenant_lifecycle_operation x \<longleftrightarrow> list_all ok_tenant_lifecycle_step (tl_steps x)"

interpretation tenant_lifecycle_operation_codec: codec enc_tenant_lifecycle_operation dec_tenant_lifecycle_operation ok_tenant_lifecycle_operation
  by unfold_locales
    (auto simp: enc_tenant_lifecycle_operation_def dec_tenant_lifecycle_operation_def ok_tenant_lifecycle_operation_def record_simps tenant_lifecycle_step_codec.read_back tenant_lifecycle_step_codec.read_back_list tenant_lifecycle_step_codec.read_back_option split: option.split)

record tenant_lifecycle_step_claim =
  tc_operation :: tenant_lifecycle_operation
  tc_step_id :: string
  tc_lease_token :: string
  tc_lease_expires_at :: string

definition enc_tenant_lifecycle_step_claim :: "tenant_lifecycle_step_claim \<Rightarrow> json" where
  "enc_tenant_lifecycle_step_claim x = JObject (
    [(''operation'', enc_tenant_lifecycle_operation (tc_operation x)),
      (''step_id'', JString (tc_step_id x)),
      (''lease_token'', JString (tc_lease_token x)),
      (''lease_expires_at'', JString (tc_lease_expires_at x))])"

definition dec_tenant_lifecycle_step_claim :: "tenant_lifecycle_step_claim dec" where
  "dec_tenant_lifecycle_step_claim j = do {
     f \<leftarrow> struct_fields False
       [''operation'', ''step_id'', ''lease_token'', ''lease_expires_at''] j;
     v1 \<leftarrow> need f ''operation'' dec_tenant_lifecycle_operation;
     v2 \<leftarrow> need f ''step_id'' dec_string;
     v3 \<leftarrow> need f ''lease_token'' dec_string;
     v4 \<leftarrow> need f ''lease_expires_at'' dec_string;
     Some \<lparr>tc_operation = v1,
       tc_step_id = v2,
       tc_lease_token = v3,
       tc_lease_expires_at = v4\<rparr> }"

definition ok_tenant_lifecycle_step_claim :: "tenant_lifecycle_step_claim \<Rightarrow> bool" where
  "ok_tenant_lifecycle_step_claim x \<longleftrightarrow> ok_tenant_lifecycle_operation (tc_operation x)"

interpretation tenant_lifecycle_step_claim_codec: codec enc_tenant_lifecycle_step_claim dec_tenant_lifecycle_step_claim ok_tenant_lifecycle_step_claim
  by unfold_locales
    (auto simp: enc_tenant_lifecycle_step_claim_def dec_tenant_lifecycle_step_claim_def ok_tenant_lifecycle_step_claim_def record_simps tenant_lifecycle_operation_codec.read_back tenant_lifecycle_operation_codec.read_back_list tenant_lifecycle_operation_codec.read_back_option split: option.split)

datatype tenant_lifecycle_step_outcome =
    OutcomeSucceeded | OutcomeRetryable | OutcomeManualRecovery

fun enc_tenant_lifecycle_step_outcome :: "tenant_lifecycle_step_outcome \<Rightarrow> json" where
  "enc_tenant_lifecycle_step_outcome OutcomeSucceeded = JString ''succeeded''"
| "enc_tenant_lifecycle_step_outcome OutcomeRetryable = JString ''retryable''"
| "enc_tenant_lifecycle_step_outcome OutcomeManualRecovery = JString ''manual_recovery''"

definition dec_tenant_lifecycle_step_outcome :: "tenant_lifecycle_step_outcome dec" where
  "dec_tenant_lifecycle_step_outcome = dec_enum [(''succeeded'', OutcomeSucceeded),
     (''retryable'', OutcomeRetryable),
     (''manual_recovery'', OutcomeManualRecovery)]"

lemma dec_enc_tenant_lifecycle_step_outcome [simp]: "dec_tenant_lifecycle_step_outcome (enc_tenant_lifecycle_step_outcome x) = Some x"
  by (cases x) (simp_all add: dec_tenant_lifecycle_step_outcome_def dec_enum_def)

lemma dec_option_tenant_lifecycle_step_outcome [simp]: "dec_option dec_tenant_lifecycle_step_outcome (enc_tenant_lifecycle_step_outcome x) = Some (Some x)"
  by (cases x) (simp_all add: dec_option_def dec_tenant_lifecycle_step_outcome_def dec_enum_def)

lemma enc_tenant_lifecycle_step_outcome_scalar [simp]: "enc_tenant_lifecycle_step_outcome x \<noteq> JNull"
  by (cases x) simp_all

record tenant_lifecycle_step_completion =
  td_lease_token :: string
  td_outcome :: tenant_lifecycle_step_outcome
  td_receipt :: "json option"
  td_error :: "string option"

definition enc_tenant_lifecycle_step_completion :: "tenant_lifecycle_step_completion \<Rightarrow> json" where
  "enc_tenant_lifecycle_step_completion x = JObject (
    [(''lease_token'', JString (td_lease_token x)),
      (''outcome'', enc_tenant_lifecycle_step_outcome (td_outcome x))]
    @ skip_none ''receipt'' (\<lambda>j. j) (td_receipt x)
    @ skip_none ''error'' JString (td_error x))"

section \<open>Certification\<close>

record certification_case =
  cc_id :: string
  cc_category :: string
  cc_expected :: string
  cc_observed :: string
  cc_passed :: bool

definition enc_certification_case :: "certification_case \<Rightarrow> json" where
  "enc_certification_case x = JObject (
    [(''id'', JString (cc_id x)),
      (''category'', JString (cc_category x)),
      (''expected'', JString (cc_expected x)),
      (''observed'', JString (cc_observed x)),
      (''passed'', JBool (cc_passed x))])"

definition dec_certification_case :: "certification_case dec" where
  "dec_certification_case j = do {
     f \<leftarrow> struct_fields False
       [''id'', ''category'', ''expected'', ''observed'', ''passed''] j;
     v1 \<leftarrow> need f ''id'' dec_string;
     v2 \<leftarrow> need f ''category'' dec_string;
     v3 \<leftarrow> need f ''expected'' dec_string;
     v4 \<leftarrow> need f ''observed'' dec_string;
     v5 \<leftarrow> need f ''passed'' dec_bool;
     Some \<lparr>cc_id = v1,
       cc_category = v2,
       cc_expected = v3,
       cc_observed = v4,
       cc_passed = v5\<rparr> }"

interpretation certification_case_codec: codec enc_certification_case dec_certification_case "\<lambda>_. True"
  by unfold_locales
    (auto simp: enc_certification_case_def dec_certification_case_def record_simps split: option.split)

record certification_request =
  cq_sdk_version :: string
  cq_proxy_url :: string
  cq_catalog_sha256 :: string
  cq_cases :: "certification_case list"
  cq_total :: u32
  cq_passed :: u32

definition enc_certification_request :: "certification_request \<Rightarrow> json" where
  "enc_certification_request x = JObject (
    [(''sdk_version'', JString (cq_sdk_version x)),
      (''proxy_url'', JString (cq_proxy_url x)),
      (''catalog_sha256'', JString (cq_catalog_sha256 x)),
      (''cases'', enc_list enc_certification_case (cq_cases x)),
      (''total'', enc_u32 (cq_total x)),
      (''passed'', enc_u32 (cq_passed x))])"

definition dec_certification_request :: "certification_request dec" where
  "dec_certification_request j = do {
     f \<leftarrow> struct_fields False
       [''sdk_version'', ''proxy_url'', ''catalog_sha256'', ''cases'', ''total'', ''passed''] j;
     v1 \<leftarrow> need f ''sdk_version'' dec_string;
     v2 \<leftarrow> need f ''proxy_url'' dec_string;
     v3 \<leftarrow> need f ''catalog_sha256'' dec_string;
     v4 \<leftarrow> need f ''cases'' (dec_list dec_certification_case);
     v5 \<leftarrow> need f ''total'' dec_u32;
     v6 \<leftarrow> need f ''passed'' dec_u32;
     Some \<lparr>cq_sdk_version = v1,
       cq_proxy_url = v2,
       cq_catalog_sha256 = v3,
       cq_cases = v4,
       cq_total = v5,
       cq_passed = v6\<rparr> }"

interpretation certification_request_codec: codec enc_certification_request dec_certification_request "\<lambda>_. True"
  by unfold_locales
    (auto simp: enc_certification_request_def dec_certification_request_def record_simps certification_case_codec.read_back certification_case_codec.read_back_list certification_case_codec.read_back_option split: option.split)

record certificate_body =
  cb_schema :: string
  cb_agent_id :: string
  cb_tenant :: string
  cb_agent_name :: string
  cb_sdk_version :: string
  cb_proxy_url :: string
  cb_catalog_sha256 :: string
  cb_cases :: "certification_case list"
  cb_total :: u32
  cb_passed :: u32
  cb_certified_at :: string

definition enc_certificate_body :: "certificate_body \<Rightarrow> json" where
  "enc_certificate_body x = JObject (
    [(''schema'', JString (cb_schema x)),
      (''agent_id'', JString (cb_agent_id x)),
      (''tenant'', JString (cb_tenant x)),
      (''agent_name'', JString (cb_agent_name x)),
      (''sdk_version'', JString (cb_sdk_version x)),
      (''proxy_url'', JString (cb_proxy_url x)),
      (''catalog_sha256'', JString (cb_catalog_sha256 x)),
      (''cases'', enc_list enc_certification_case (cb_cases x)),
      (''total'', enc_u32 (cb_total x)),
      (''passed'', enc_u32 (cb_passed x)),
      (''certified_at'', JString (cb_certified_at x))])"

definition dec_certificate_body :: "certificate_body dec" where
  "dec_certificate_body j = do {
     f \<leftarrow> struct_fields False
       [''schema'', ''agent_id'', ''tenant'', ''agent_name'', ''sdk_version'',
        ''proxy_url'', ''catalog_sha256'', ''cases'', ''total'', ''passed'',
        ''certified_at''] j;
     v1 \<leftarrow> need f ''schema'' dec_string;
     v2 \<leftarrow> need f ''agent_id'' dec_string;
     v3 \<leftarrow> need f ''tenant'' dec_string;
     v4 \<leftarrow> need f ''agent_name'' dec_string;
     v5 \<leftarrow> need f ''sdk_version'' dec_string;
     v6 \<leftarrow> need f ''proxy_url'' dec_string;
     v7 \<leftarrow> need f ''catalog_sha256'' dec_string;
     v8 \<leftarrow> need f ''cases'' (dec_list dec_certification_case);
     v9 \<leftarrow> need f ''total'' dec_u32;
     v10 \<leftarrow> need f ''passed'' dec_u32;
     v11 \<leftarrow> need f ''certified_at'' dec_string;
     Some \<lparr>cb_schema = v1,
       cb_agent_id = v2,
       cb_tenant = v3,
       cb_agent_name = v4,
       cb_sdk_version = v5,
       cb_proxy_url = v6,
       cb_catalog_sha256 = v7,
       cb_cases = v8,
       cb_total = v9,
       cb_passed = v10,
       cb_certified_at = v11\<rparr> }"

interpretation certificate_body_codec: codec enc_certificate_body dec_certificate_body "\<lambda>_. True"
  by unfold_locales
    (auto simp: enc_certificate_body_def dec_certificate_body_def record_simps certification_case_codec.read_back certification_case_codec.read_back_list certification_case_codec.read_back_option split: option.split)

record signed_certificate =
  sc_certificate :: certificate_body
  sc_certificate_sha256 :: string
  sc_signature :: string
  sc_key_id :: string
  sc_algorithm :: string

definition enc_signed_certificate :: "signed_certificate \<Rightarrow> json" where
  "enc_signed_certificate x = JObject (
    [(''certificate'', enc_certificate_body (sc_certificate x)),
      (''certificate_sha256'', JString (sc_certificate_sha256 x)),
      (''signature'', JString (sc_signature x)),
      (''key_id'', JString (sc_key_id x)),
      (''algorithm'', JString (sc_algorithm x))])"

definition dec_signed_certificate :: "signed_certificate dec" where
  "dec_signed_certificate j = do {
     f \<leftarrow> struct_fields False
       [''certificate'', ''certificate_sha256'', ''signature'', ''key_id'', ''algorithm''] j;
     v1 \<leftarrow> need f ''certificate'' dec_certificate_body;
     v2 \<leftarrow> need f ''certificate_sha256'' dec_string;
     v3 \<leftarrow> need f ''signature'' dec_string;
     v4 \<leftarrow> need f ''key_id'' dec_string;
     v5 \<leftarrow> need f ''algorithm'' dec_string;
     Some \<lparr>sc_certificate = v1,
       sc_certificate_sha256 = v2,
       sc_signature = v3,
       sc_key_id = v4,
       sc_algorithm = v5\<rparr> }"

interpretation signed_certificate_codec: codec enc_signed_certificate dec_signed_certificate "\<lambda>_. True"
  by unfold_locales
    (auto simp: enc_signed_certificate_def dec_signed_certificate_def record_simps certificate_body_codec.read_back certificate_body_codec.read_back_list certificate_body_codec.read_back_option split: option.split)

section \<open>Requests and the remaining replies\<close>

record agent_list_filter =
  lf_state :: "agent_state option"
  lf_owner_team :: "string option"

definition no_filter :: agent_list_filter where
  "no_filter = \<lparr>lf_state = None, lf_owner_team = None\<rparr>"

record orphan_workload =
  ow_agent_name :: string
  ow_last_seen :: string
  ow_svid_count :: i64

definition dec_orphan_workload :: "orphan_workload dec" where
  "dec_orphan_workload j = do {
     f \<leftarrow> struct_fields False
       [''agent_name'', ''last_seen'', ''svid_count''] j;
     v1 \<leftarrow> need f ''agent_name'' dec_string;
     v2 \<leftarrow> need f ''last_seen'' dec_string;
     v3 \<leftarrow> need f ''svid_count'' dec_i64;
     Some \<lparr>ow_agent_name = v1,
       ow_last_seen = v2,
       ow_svid_count = v3\<rparr> }"

record create_agent_request =
  cr_tenant :: string
  cr_agent_name :: string
  cr_owner_team :: string
  cr_scope_envelope :: "string list"
  cr_yellow_envelope :: "string list"
  cr_attestation_kinds :: "string list"
  cr_description :: "string option"
  cr_actor_sub :: "string option"

definition enc_create_agent_request :: "create_agent_request \<Rightarrow> json" where
  "enc_create_agent_request x = JObject (
    [(''tenant'', JString (cr_tenant x)),
      (''agent_name'', JString (cr_agent_name x)),
      (''owner_team'', JString (cr_owner_team x)),
      (''scope_envelope'', enc_list JString (cr_scope_envelope x)),
      (''yellow_envelope'', enc_list JString (cr_yellow_envelope x)),
      (''attestation_kinds'', enc_list JString (cr_attestation_kinds x))]
    @ skip_none ''description'' JString (cr_description x)
    @ skip_none ''actor_sub'' JString (cr_actor_sub x))"

record agent_created =
  ac_record :: agent_record
  ac_spiffe_id_pattern :: string

definition enc_agent_created :: "agent_created \<Rightarrow> json" where
  "enc_agent_created x = JObject (members (enc_agent_record (ac_record x)) @ [(''spiffe_id_pattern'', JString (ac_spiffe_id_pattern x))])"

definition dec_agent_created :: "agent_created dec" where
  "dec_agent_created j = (case j of JObject kvs \<Rightarrow> do {
     f \<leftarrow> struct_fields False [''spiffe_id_pattern''] j;
     v1 \<leftarrow> need f ''spiffe_id_pattern'' dec_string;
     x \<leftarrow> dec_agent_record (JObject (filter (\<lambda>(k, v). k \<notin> {''spiffe_id_pattern''}) kvs));
     Some \<lparr>ac_record = x, ac_spiffe_id_pattern = v1\<rparr> }
   | _ \<Rightarrow> None)"

interpretation agent_created_codec: codec enc_agent_created dec_agent_created "\<lambda>_. True"
proof
  fix x :: agent_created
  show "dec_agent_created (enc_agent_created x) = Some x"
    using agent_record_codec.read_back [of "ac_record x"]
    by (auto simp: enc_agent_created_def dec_agent_created_def enc_agent_record_def members_def record_simps
        split: option.splits if_splits)
qed

record envelope_request =
  er_scope_envelope :: "string list"
  er_yellow_envelope :: "string list"
  er_reason :: "string option"

definition enc_envelope_request :: "envelope_request \<Rightarrow> json" where
  "enc_envelope_request x = JObject (
    [(''scope_envelope'', enc_list JString (er_scope_envelope x)),
      (''yellow_envelope'', enc_list JString (er_yellow_envelope x))]
    @ skip_none ''reason'' JString (er_reason x))"

record lifecycle_request =
  lq_reason :: "string option"

definition enc_lifecycle_request :: "lifecycle_request \<Rightarrow> json" where
  "enc_lifecycle_request x = JObject (
    skip_none ''reason'' JString (lq_reason x))"

record lifecycle_response =
  lr_state :: agent_state
  lr_state_changed_at :: string

definition enc_lifecycle_response :: "lifecycle_response \<Rightarrow> json" where
  "enc_lifecycle_response x = JObject (
    [(''state'', enc_agent_state (lr_state x)),
      (''state_changed_at'', JString (lr_state_changed_at x))])"

definition dec_lifecycle_response :: "lifecycle_response dec" where
  "dec_lifecycle_response j = do {
     f \<leftarrow> struct_fields False
       [''state'', ''state_changed_at''] j;
     v1 \<leftarrow> need f ''state'' dec_agent_state;
     v2 \<leftarrow> need f ''state_changed_at'' dec_string;
     Some \<lparr>lr_state = v1,
       lr_state_changed_at = v2\<rparr> }"

interpretation lifecycle_response_codec: codec enc_lifecycle_response dec_lifecycle_response "\<lambda>_. True"
  by unfold_locales
    (auto simp: enc_lifecycle_response_def dec_lifecycle_response_def record_simps split: option.split)

record force_hil_flag =
  fh_expires_at :: string
  fh_reason :: "string option"
  fh_correlation_id :: "string option"
  fh_applied_at :: string
  fh_actor :: string

definition enc_force_hil_flag :: "force_hil_flag \<Rightarrow> json" where
  "enc_force_hil_flag x = JObject (
    [(''expires_at'', JString (fh_expires_at x)),
      (''reason'', enc_option JString (fh_reason x)),
      (''correlation_id'', enc_option JString (fh_correlation_id x)),
      (''applied_at'', JString (fh_applied_at x)),
      (''actor'', JString (fh_actor x))])"

definition dec_force_hil_flag :: "force_hil_flag dec" where
  "dec_force_hil_flag j = do {
     f \<leftarrow> struct_fields False
       [''expires_at'', ''reason'', ''correlation_id'', ''applied_at'', ''actor''] j;
     v1 \<leftarrow> need f ''expires_at'' dec_string;
     v2 \<leftarrow> dflt f ''reason'' None (dec_option dec_string);
     v3 \<leftarrow> dflt f ''correlation_id'' None (dec_option dec_string);
     v4 \<leftarrow> need f ''applied_at'' dec_string;
     v5 \<leftarrow> need f ''actor'' dec_string;
     Some \<lparr>fh_expires_at = v1,
       fh_reason = v2,
       fh_correlation_id = v3,
       fh_applied_at = v4,
       fh_actor = v5\<rparr> }"

interpretation force_hil_flag_codec: codec enc_force_hil_flag dec_force_hil_flag "\<lambda>_. True"
  by unfold_locales
    (auto simp: enc_force_hil_flag_def dec_force_hil_flag_def record_simps split: option.split)

record containment_status =
  cs_force_hil :: "force_hil_flag option"

definition enc_containment_status :: "containment_status \<Rightarrow> json" where
  "enc_containment_status x = JObject (
    [(''force_hil'', enc_option enc_force_hil_flag (cs_force_hil x))])"

definition dec_containment_status :: "containment_status dec" where
  "dec_containment_status j = do {
     f \<leftarrow> struct_fields False
       [''force_hil''] j;
     v1 \<leftarrow> opt f ''force_hil'' dec_force_hil_flag;
     Some \<lparr>cs_force_hil = v1\<rparr> }"

interpretation containment_status_codec: codec enc_containment_status dec_containment_status "\<lambda>_. True"
  by unfold_locales
    (auto simp: enc_containment_status_def dec_containment_status_def record_simps force_hil_flag_codec.read_back force_hil_flag_codec.read_back_list force_hil_flag_codec.read_back_option enc_force_hil_flag_def split: option.split)

record grant_consumption =
  gc_jti :: string
  gc_agent_spiffe :: string
  gc_human_sub :: string
  gc_max_uses :: "u32 option"
  gc_uses :: u32
  gc_not_before :: "string option"
  gc_not_after :: "string option"
  gc_exp :: string
  gc_recurrence_summary :: "string option"

definition enc_grant_consumption :: "grant_consumption \<Rightarrow> json" where
  "enc_grant_consumption x = JObject (
    [(''jti'', JString (gc_jti x)),
      (''agent_spiffe'', JString (gc_agent_spiffe x)),
      (''human_sub'', JString (gc_human_sub x)),
      (''max_uses'', enc_option enc_u32 (gc_max_uses x)),
      (''uses'', enc_u32 (gc_uses x)),
      (''not_before'', enc_option JString (gc_not_before x)),
      (''not_after'', enc_option JString (gc_not_after x)),
      (''exp'', JString (gc_exp x)),
      (''recurrence_summary'', enc_option JString (gc_recurrence_summary x))])"

definition dec_grant_consumption :: "grant_consumption dec" where
  "dec_grant_consumption j = do {
     f \<leftarrow> struct_fields False
       [''jti'', ''agent_spiffe'', ''human_sub'', ''max_uses'', ''uses'', ''not_before'',
        ''not_after'', ''exp'', ''recurrence_summary''] j;
     v1 \<leftarrow> need f ''jti'' dec_string;
     v2 \<leftarrow> need f ''agent_spiffe'' dec_string;
     v3 \<leftarrow> need f ''human_sub'' dec_string;
     v4 \<leftarrow> opt f ''max_uses'' dec_u32;
     v5 \<leftarrow> need f ''uses'' dec_u32;
     v6 \<leftarrow> opt f ''not_before'' dec_string;
     v7 \<leftarrow> opt f ''not_after'' dec_string;
     v8 \<leftarrow> need f ''exp'' dec_string;
     v9 \<leftarrow> dflt f ''recurrence_summary'' None (dec_option dec_string);
     Some \<lparr>gc_jti = v1,
       gc_agent_spiffe = v2,
       gc_human_sub = v3,
       gc_max_uses = v4,
       gc_uses = v5,
       gc_not_before = v6,
       gc_not_after = v7,
       gc_exp = v8,
       gc_recurrence_summary = v9\<rparr> }"

interpretation grant_consumption_codec: codec enc_grant_consumption dec_grant_consumption "\<lambda>_. True"
  by unfold_locales
    (auto simp: enc_grant_consumption_def dec_grant_consumption_def record_simps split: option.split)

record grants_response =
  gr_grants :: "grant_consumption list"

definition dec_grants_response :: "grants_response dec" where
  "dec_grants_response j = do {
     f \<leftarrow> struct_fields False
       [''grants''] j;
     v1 \<leftarrow> need f ''grants'' (dec_list dec_grant_consumption);
     Some \<lparr>gr_grants = v1\<rparr> }"

end
