(* ===== verification/Agents.thy ===== *)
theory Agents
  imports Wire_Agents
begin

text \<open>
  \<open>AgentsClient\<close> (agents.rs): the agent registry, its lifecycle, budgets and the durable
  tenant lifecycle. Every operation builds one request, sends it once with the bearer of the
  client and decodes the reply; a malformed endpoint is reported before anything is sent.
\<close>

section \<open>The client\<close>

record 'p agents_client =
  an_base_url :: string
  an_http :: 'p
  an_bearer :: "string option"

definition agents_new :: "libs \<Rightarrow> 'p option \<Rightarrow> transport_error + 'p \<Rightarrow> string \<Rightarrow> clavenar_error + 'p agents_client" where
  "agents_new L installed fresh base_url =
     bindR (parse_base_url L base_url) (\<lambda>url.
     bindR (default_provider installed fresh) (\<lambda>http.
     Inr \<lparr>an_base_url = url, an_http = http, an_bearer = None\<rparr>))"

definition agents_with_http_provider :: "'p \<Rightarrow> 'p agents_client \<Rightarrow> 'p agents_client" where
  "agents_with_http_provider p c = c\<lparr>an_http := p\<rparr>"

definition agents_with_bearer :: "string \<Rightarrow> 'p agents_client \<Rightarrow> 'p agents_client" where
  "agents_with_bearer token c = c\<lparr>an_bearer := Some token\<rparr>"

definition agents_has_bearer :: "'p agents_client \<Rightarrow> bool" where
  "agents_has_bearer c \<longleftrightarrow> an_bearer c \<noteq> None"

definition hex_lower :: "nat \<Rightarrow> char" where
  "hex_lower d = (if d < 10 then char_of (48 + d) else char_of (87 + d))"

definition hex_byte :: "char \<Rightarrow> string" where
  "hex_byte b = [hex_lower (byte b div 16), hex_lower (byte b mod 16)]"

definition bearer_fingerprint :: "libs \<Rightarrow> 'p agents_client \<Rightarrow> string option" where
  "bearer_fingerprint L c =
     map_option (\<lambda>token. concat (map hex_byte (take 4 (sha256_digest L token)))) (an_bearer c)"

section \<open>Endpoints and calls\<close>

definition agents_join :: "libs \<Rightarrow> 'p agents_client \<Rightarrow> string \<Rightarrow> clavenar_error + string" where
  "agents_join L c suffix = join_endpoint L (an_base_url c) suffix suffix"

definition id_with_tenant ::
  "libs \<Rightarrow> 'p agents_client \<Rightarrow> string \<Rightarrow> string \<Rightarrow> string \<Rightarrow> clavenar_error + string" where
  "id_with_tenant L c agent verb tenant =
     (let path = ''agents/'' @ percent_encode agent @ ''/'' @ verb in
      bindR (join_endpoint L (an_base_url c) path path) (\<lambda>url.
      Inr (url_append_pair L url ''tenant'' tenant)))"

definition agents_get_json :: "libs \<Rightarrow> 'p agents_client \<Rightarrow> 'a dec \<Rightarrow> string \<Rightarrow> (clavenar_error, 'a) prog" where
  "agents_get_json L c d url = send_decoded L d (with_token (an_bearer c) (request GET url))"

definition agents_post_json ::
  "libs \<Rightarrow> 'p agents_client \<Rightarrow> 'a dec \<Rightarrow> string \<Rightarrow> json \<Rightarrow> (clavenar_error, 'a) prog" where
  "agents_post_json L c d url body =
     send_decoded L d (with_token (an_bearer c) (json_body body (request POST url)))"

definition lifecycle_call ::
  "libs \<Rightarrow> 'p agents_client \<Rightarrow> string \<Rightarrow> string \<Rightarrow> string \<Rightarrow> string option
   \<Rightarrow> (clavenar_error, lifecycle_response) prog" where
  "lifecycle_call L c agent tenant verb reason =
     tryP (id_with_tenant L c agent verb tenant) (\<lambda>url.
     agents_post_json L c dec_lifecycle_response url (enc_lifecycle_request \<lparr>lq_reason = reason\<rparr>))"

section \<open>The registry\<close>

definition list_url :: "libs \<Rightarrow> string \<Rightarrow> agent_list_filter \<Rightarrow> string \<Rightarrow> string" where
  "list_url L tenant flt url =
     (let url = url_append_pair L url ''tenant'' tenant;
          url = (case lf_state flt of None \<Rightarrow> url | Some s \<Rightarrow> url_append_pair L url ''state'' (as_wire s))
      in case lf_owner_team flt of None \<Rightarrow> url | Some team \<Rightarrow> url_append_pair L url ''owner_team'' team)"

definition agents_list ::
  "libs \<Rightarrow> 'p agents_client \<Rightarrow> string \<Rightarrow> agent_list_filter \<Rightarrow> (clavenar_error, agent_record list) prog" where
  "agents_list L c tenant flt =
     tryP (join_endpoint L (an_base_url c) ''agents'' ''agents'') (\<lambda>url.
     agents_get_json L c (dec_list dec_agent_record) (list_url L tenant flt url))"

definition list_orphans ::
  "libs \<Rightarrow> 'p agents_client \<Rightarrow> string \<Rightarrow> (clavenar_error, orphan_workload list) prog" where
  "list_orphans L c tenant =
     tryP (join_endpoint L (an_base_url c) ''agents/orphans'' ''agents/orphans'') (\<lambda>url.
     agents_get_json L c (dec_list dec_orphan_workload) (url_append_pair L url ''tenant'' tenant))"

definition agents_get ::
  "libs \<Rightarrow> 'p agents_client \<Rightarrow> string \<Rightarrow> string \<Rightarrow> (clavenar_error, agent_record) prog" where
  "agents_get L c agent tenant =
     (let path = ''agents/'' @ percent_encode agent in
      tryP (join_endpoint L (an_base_url c) path path) (\<lambda>url.
      agents_get_json L c dec_agent_record (url_append_pair L url ''tenant'' tenant)))"

definition list_active_grants ::
  "libs \<Rightarrow> 'p agents_client \<Rightarrow> string \<Rightarrow> string \<Rightarrow> (clavenar_error, grant_consumption list) prog" where
  "list_active_grants L c tenant agent_name =
     tryP (join_endpoint L (an_base_url c) ''grants'' ''grants'') (\<lambda>url.
     bindP (agents_get_json L c dec_grants_response
       (url_append_pair L (url_append_pair L (url_append_pair L url
          ''tenant'' tenant) ''agent_name'' agent_name) ''active'' ''true''))
     (\<lambda>resp. okP (gr_grants resp)))"

definition find_by_name ::
  "libs \<Rightarrow> 'p agents_client \<Rightarrow> string \<Rightarrow> string \<Rightarrow> (clavenar_error, agent_record option) prog" where
  "find_by_name L c tenant agent_name =
     bindP (agents_list L c tenant no_filter) (\<lambda>rows.
     okP (find (\<lambda>r. ag_agent_name r = agent_name) rows))"

definition agents_create ::
  "libs \<Rightarrow> 'p agents_client \<Rightarrow> create_agent_request \<Rightarrow> (clavenar_error, agent_created) prog" where
  "agents_create L c req =
     tryP (agents_join L c ''agents'') (\<lambda>url.
     agents_post_json L c dec_agent_created url (enc_create_agent_request req))"

text \<open>\<open>create_request_matches\<close> and its set comparison by sorting and removing neighbours.\<close>

definition same_set :: "string list \<Rightarrow> string list \<Rightarrow> bool" where
  "same_set a b \<longleftrightarrow> remdups_adj (sort a) = remdups_adj (sort b)"

definition create_request_matches :: "create_agent_request \<Rightarrow> agent_record \<Rightarrow> bool" where
  "create_request_matches req r =
     (if cr_tenant req \<noteq> ag_tenant r \<or> cr_agent_name req \<noteq> ag_agent_name r
         \<or> cr_owner_team req \<noteq> ag_owner_team r then False
      else if \<not> same_set (cr_scope_envelope req) (ag_scope_envelope r)
         \<or> \<not> same_set (cr_yellow_envelope req) (ag_yellow_envelope r)
         \<or> \<not> same_set (cr_attestation_kinds req) (ag_attestation_kinds_accepted r) then False
      else True)"

section \<open>Lifecycle and containment\<close>

definition suspend ::
  "libs \<Rightarrow> 'p agents_client \<Rightarrow> string \<Rightarrow> string \<Rightarrow> string option \<Rightarrow> (clavenar_error, lifecycle_response) prog" where
  "suspend L c agent tenant reason = lifecycle_call L c agent tenant ''suspend'' reason"

definition unsuspend ::
  "libs \<Rightarrow> 'p agents_client \<Rightarrow> string \<Rightarrow> string \<Rightarrow> string option \<Rightarrow> (clavenar_error, lifecycle_response) prog" where
  "unsuspend L c agent tenant reason = lifecycle_call L c agent tenant ''unsuspend'' reason"

definition decommission ::
  "libs \<Rightarrow> 'p agents_client \<Rightarrow> string \<Rightarrow> string \<Rightarrow> string option \<Rightarrow> (clavenar_error, lifecycle_response) prog" where
  "decommission L c agent tenant reason = lifecycle_call L c agent tenant ''decommission'' reason"

definition containment ::
  "libs \<Rightarrow> 'p agents_client \<Rightarrow> string \<Rightarrow> string \<Rightarrow> (clavenar_error, containment_status) prog" where
  "containment L c agent tenant =
     tryP (id_with_tenant L c agent ''containment'' tenant) (agents_get_json L c dec_containment_status)"

definition clear_containment ::
  "libs \<Rightarrow> 'p agents_client \<Rightarrow> string \<Rightarrow> string \<Rightarrow> string option \<Rightarrow> (clavenar_error, containment_status) prog" where
  "clear_containment L c agent tenant reason =
     tryP (id_with_tenant L c agent ''containment/clear'' tenant) (\<lambda>url.
     agents_post_json L c dec_containment_status url (enc_lifecycle_request \<lparr>lq_reason = reason\<rparr>))"

definition envelope_narrow ::
  "libs \<Rightarrow> 'p agents_client \<Rightarrow> string \<Rightarrow> string \<Rightarrow> envelope_request \<Rightarrow> (clavenar_error, agent_record) prog" where
  "envelope_narrow L c agent tenant envelope =
     tryP (id_with_tenant L c agent ''envelope/narrow'' tenant) (\<lambda>url.
     agents_post_json L c dec_agent_record url (enc_envelope_request envelope))"

definition envelope_widen ::
  "libs \<Rightarrow> 'p agents_client \<Rightarrow> string \<Rightarrow> string \<Rightarrow> envelope_request \<Rightarrow> (clavenar_error, agent_record) prog" where
  "envelope_widen L c agent tenant envelope =
     tryP (id_with_tenant L c agent ''envelope/widen'' tenant) (\<lambda>url.
     agents_post_json L c dec_agent_record url (enc_envelope_request envelope))"

definition attestation_kinds ::
  "libs \<Rightarrow> 'p agents_client \<Rightarrow> string \<Rightarrow> string \<Rightarrow> string list \<Rightarrow> (clavenar_error, agent_record) prog" where
  "attestation_kinds L c agent tenant kinds =
     tryP (id_with_tenant L c agent ''attestation-kinds'' tenant) (\<lambda>url.
     agents_post_json L c dec_agent_record url
       (normalize (JObject [(''attestation_kinds'', enc_list JString kinds)])))"

definition transfer_owner_team ::
  "libs \<Rightarrow> 'p agents_client \<Rightarrow> string \<Rightarrow> string \<Rightarrow> string \<Rightarrow> (clavenar_error, agent_record) prog" where
  "transfer_owner_team L c agent tenant new_team =
     tryP (id_with_tenant L c agent ''owner-team'' tenant) (\<lambda>url.
     agents_post_json L c dec_agent_record url (normalize (JObject [(''owner_team'', JString new_team)])))"

definition record_certification ::
  "libs \<Rightarrow> 'p agents_client \<Rightarrow> string \<Rightarrow> string \<Rightarrow> certification_request \<Rightarrow> (clavenar_error, signed_certificate) prog" where
  "record_certification L c agent tenant req =
     tryP (id_with_tenant L c agent ''certification'' tenant) (\<lambda>url.
     agents_post_json L c dec_signed_certificate url (enc_certification_request req))"

definition set_description ::
  "libs \<Rightarrow> 'p agents_client \<Rightarrow> string \<Rightarrow> string \<Rightarrow> string option \<Rightarrow> (clavenar_error, agent_record) prog" where
  "set_description L c agent tenant txt =
     tryP (id_with_tenant L c agent ''description'' tenant) (\<lambda>url.
     agents_post_json L c dec_agent_record url
       (normalize (JObject [(''description'', enc_option JString txt)])))"

section \<open>Tenants\<close>

definition get_budget :: "libs \<Rightarrow> 'p agents_client \<Rightarrow> string \<Rightarrow> (clavenar_error, tenant_budget) prog" where
  "get_budget L c tenant =
     tryP (agents_join L c (''tenants/'' @ percent_encode tenant @ ''/budget''))
       (agents_get_json L c dec_tenant_budget)"

definition set_budget ::
  "libs \<Rightarrow> 'p agents_client \<Rightarrow> string \<Rightarrow> i64 \<Rightarrow> (clavenar_error, tenant_budget) prog" where
  "set_budget L c tenant budget_micros =
     tryP (agents_join L c (''tenants/'' @ percent_encode tenant @ ''/budget'')) (\<lambda>url.
     agents_post_json L c dec_tenant_budget url
       (normalize (JObject [(''budget_micros'', enc_i64 budget_micros)])))"

definition start_tenant_lifecycle ::
  "libs \<Rightarrow> 'p agents_client \<Rightarrow> string \<Rightarrow> string \<Rightarrow> tenant_lifecycle_kind \<Rightarrow> string \<Rightarrow> string
   \<Rightarrow> (clavenar_error, tenant_lifecycle_operation) prog" where
  "start_tenant_lifecycle L c tenant idempotency_key kind confirm reason =
     tryP (agents_join L c (''tenants/'' @ percent_encode tenant @ ''/lifecycle'')) (\<lambda>url.
     send_decoded L dec_tenant_lifecycle_operation (with_token (an_bearer c)
       (json_body (normalize (JObject [(''kind'', enc_tenant_lifecycle_kind kind),
            (''confirm'', JString confirm), (''reason'', JString reason)]))
         (header ''Idempotency-Key'' idempotency_key (request POST url)))))"

definition agents_tenant_lifecycle ::
  "libs \<Rightarrow> 'p agents_client \<Rightarrow> string \<Rightarrow> string \<Rightarrow> (clavenar_error, tenant_lifecycle_operation) prog" where
  "agents_tenant_lifecycle L c tenant operation_id =
     tryP (agents_join L c (''tenants/'' @ percent_encode tenant @ ''/lifecycle/'' @ percent_encode operation_id))
       (agents_get_json L c dec_tenant_lifecycle_operation)"

definition lifecycle_step_suffix :: "string \<Rightarrow> string \<Rightarrow> string \<Rightarrow> string \<Rightarrow> string" where
  "lifecycle_step_suffix tenant operation_id step_id verb =
     ''tenants/'' @ percent_encode tenant @ ''/lifecycle/'' @ percent_encode operation_id
       @ ''/steps/'' @ percent_encode step_id @ ''/'' @ verb"

definition claim_tenant_lifecycle_step ::
  "libs \<Rightarrow> 'p agents_client \<Rightarrow> string \<Rightarrow> string \<Rightarrow> string \<Rightarrow> string
   \<Rightarrow> (clavenar_error, tenant_lifecycle_step_claim) prog" where
  "claim_tenant_lifecycle_step L c tenant operation_id step_id owner =
     tryP (agents_join L c (lifecycle_step_suffix tenant operation_id step_id ''claim'')) (\<lambda>url.
     agents_post_json L c dec_tenant_lifecycle_step_claim url (normalize (JObject [(''owner'', JString owner)])))"

definition complete_tenant_lifecycle_step ::
  "libs \<Rightarrow> 'p agents_client \<Rightarrow> string \<Rightarrow> string \<Rightarrow> string \<Rightarrow> tenant_lifecycle_step_completion
   \<Rightarrow> (clavenar_error, tenant_lifecycle_operation) prog" where
  "complete_tenant_lifecycle_step L c tenant operation_id step_id completion =
     tryP (agents_join L c (lifecycle_step_suffix tenant operation_id step_id ''complete'')) (\<lambda>url.
     agents_post_json L c dec_tenant_lifecycle_operation url (enc_tenant_lifecycle_step_completion completion))"

definition retry_tenant_lifecycle_step ::
  "libs \<Rightarrow> 'p agents_client \<Rightarrow> string \<Rightarrow> string \<Rightarrow> string \<Rightarrow> (clavenar_error, tenant_lifecycle_operation) prog" where
  "retry_tenant_lifecycle_step L c tenant operation_id step_id =
     tryP (agents_join L c (lifecycle_step_suffix tenant operation_id step_id ''retry'')) (\<lambda>url.
     agents_post_json L c dec_tenant_lifecycle_operation url (JObject []))"

definition offboard_tenant_effect ::
  "libs \<Rightarrow> 'p agents_client \<Rightarrow> string \<Rightarrow> string \<Rightarrow> string option \<Rightarrow> string \<Rightarrow> string
   \<Rightarrow> (clavenar_error, tenant_offboard_result) prog" where
  "offboard_tenant_effect L c tenant confirm reason operation_id lease_token =
     tryP (agents_join L c (''tenants/'' @ percent_encode tenant @ ''/offboard'')) (\<lambda>url.
     send_decoded L dec_tenant_offboard_result (with_token (an_bearer c)
       (json_body (normalize (JObject [(''confirm'', JString confirm), (''reason'', enc_option JString reason)]))
         (header ''X-Clavenar-Lifecycle-Lease'' lease_token
         (header ''X-Clavenar-Lifecycle-Operation'' operation_id (request POST url))))))"

end
