(* ===== verification/Agents_Claims.thy ===== *)
theory Agents_Claims
  imports Agents Sample
begin

text \<open>
  The properties of the agents client: the idempotency check compares the envelopes as sets,
  the flattened reply is read back, every operation makes one call confined to its tenant,
  endpoints identify what they address, and a lookup by name is exact.
\<close>

section \<open>The idempotency check\<close>

lemma sorted_dedup_distinct: "sorted xs \<Longrightarrow> distinct (remdups_adj xs)"
  by (induction xs rule: remdups_adj.induct) (auto simp: order.antisym)

lemma sorted_sort_dedup: "remdups_adj (sort xs) = sorted_list_of_set (set xs)"
  by (rule sorted_distinct_set_unique) (simp_all add: sorted_dedup_distinct)

lemma same_set_iff: "same_set a b \<longleftrightarrow> set a = set b"
  by (metis same_set_def sorted_sort_dedup remdups_adj_set set_sort)

text \<open>C24: \<open>create_request_matches\<close> decides whether creating the agent would land the row that
  is already there: the same tenant, name and owner team, and the same envelopes and
  attestation kinds as sets, whatever their order and duplicates, and whatever the
  description.\<close>

theorem create_request_matches_iff:
  "create_request_matches req r \<longleftrightarrow>
     cr_tenant req = ag_tenant r \<and> cr_agent_name req = ag_agent_name r
   \<and> cr_owner_team req = ag_owner_team r
   \<and> set (cr_scope_envelope req) = set (ag_scope_envelope r)
   \<and> set (cr_yellow_envelope req) = set (ag_yellow_envelope r)
   \<and> set (cr_attestation_kinds req) = set (ag_attestation_kinds_accepted r)"
  by (auto simp: create_request_matches_def same_set_iff)

section \<open>The flattened reply\<close>

text \<open>C25: the reply of a creation, written with the record flattened, is read back unchanged;
  and a reader that only knows the record reads the same record off the same document.\<close>

theorem agent_created_flattened:
  "dec_agent_created (enc_agent_created x) = Some x
   \<and> dec_agent_record (enc_agent_created x) = Some (ac_record x)
   \<and> dec_agent_state (JString (as_wire (ag_state (ac_record x)))) = Some (ag_state (ac_record x))"
proof (intro conjI)
  show "dec_agent_created (enc_agent_created x) = Some x"
    by (rule agent_created_codec.read_back) simp
  show "dec_agent_record (enc_agent_created x) = Some (ac_record x)"
    by (auto simp: enc_agent_created_def enc_agent_record_def dec_agent_record_def members_def record_simps)
  show "dec_agent_state (JString (as_wire (ag_state (ac_record x)))) = Some (ag_state (ac_record x))"
    using dec_enc_agent_state by (simp add: enc_agent_state_def)
qed

section \<open>Tenant confinement\<close>

text \<open>Every operation of the client, on behalf of tenant \<open>t\<close>.\<close>

inductive agents_operation :: "libs \<Rightarrow> 'p agents_client \<Rightarrow> string \<Rightarrow> (clavenar_error, unit) prog \<Rightarrow> bool"
  for L c t where
  "agents_operation L c t (forgetP (agents_list L c t flt))"
| "agents_operation L c t (forgetP (list_orphans L c t))"
| "agents_operation L c t (forgetP (agents_get L c agent t))"
| "agents_operation L c t (forgetP (list_active_grants L c t agent_name))"
| "agents_operation L c t (forgetP (find_by_name L c t agent_name))"
| "cr_tenant req = t \<Longrightarrow> agents_operation L c t (forgetP (agents_create L c req))"
| "agents_operation L c t (forgetP (suspend L c agent t reason))"
| "agents_operation L c t (forgetP (unsuspend L c agent t reason))"
| "agents_operation L c t (forgetP (decommission L c agent t reason))"
| "agents_operation L c t (forgetP (containment L c agent t))"
| "agents_operation L c t (forgetP (clear_containment L c agent t reason))"
| "agents_operation L c t (forgetP (envelope_narrow L c agent t envelope))"
| "agents_operation L c t (forgetP (envelope_widen L c agent t envelope))"
| "agents_operation L c t (forgetP (attestation_kinds L c agent t kinds))"
| "agents_operation L c t (forgetP (transfer_owner_team L c agent t new_team))"
| "agents_operation L c t (forgetP (record_certification L c agent t cert))"
| "agents_operation L c t (forgetP (set_description L c agent t txt))"
| "agents_operation L c t (forgetP (get_budget L c t))"
| "agents_operation L c t (forgetP (set_budget L c t micros))"
| "agents_operation L c t (forgetP (start_tenant_lifecycle L c t key kind confirm why))"
| "agents_operation L c t (forgetP (agents_tenant_lifecycle L c t operation_id))"
| "agents_operation L c t (forgetP (claim_tenant_lifecycle_step L c t operation_id step_id owner))"
| "agents_operation L c t (forgetP (complete_tenant_lifecycle_step L c t operation_id step_id completion))"
| "agents_operation L c t (forgetP (retry_tenant_lifecycle_step L c t operation_id step_id))"
| "agents_operation L c t (forgetP (offboard_tenant_effect L c t confirm reason operation_id lease))"

text \<open>A request names its tenant: first in the query, as a path segment, or in the body.\<close>

definition names_tenant :: "libs \<Rightarrow> string \<Rightarrow> string \<Rightarrow> http_request \<Rightarrow> bool" where
  "names_tenant L base t q \<longleftrightarrow>
     (\<exists>rel url pairs. url_join L base rel = Inr url \<and> hr_url q = query L ((''tenant'', t) # pairs) url)
   \<or> (\<exists>rest. url_join L base (''tenants/'' @ percent_encode t @ ''/'' @ rest) = Inr (hr_url q))
   \<or> (\<exists>kvs. hr_body q = JsonBody (JObject kvs) \<and> map_of kvs ''tenant'' = Some (JString t))"

lemma names_query: "url_join L base rel = Inr url \<Longrightarrow>
    hr_url q = query L ((''tenant'', t) # pairs) url \<Longrightarrow> names_tenant L base t q"
  by (auto simp: names_tenant_def)

lemma id_with_tenant_Inl: "id_with_tenant L c agent verb t = Inl e \<Longrightarrow> \<exists>m. e = InvalidConfig m"
  by (auto simp: id_with_tenant_def Let_def bindR_def split: sum.splits dest: join_endpoint_Inl)

lemma id_with_tenant_Inr: "id_with_tenant L c agent verb t = Inr url \<longleftrightarrow>
    (\<exists>u. url_join L (an_base_url c) (''agents/'' @ percent_encode agent @ ''/'' @ verb) = Inr u
       \<and> url = url_append_pair L u ''tenant'' t)"
  by (auto simp: id_with_tenant_def Let_def bindR_Inr join_endpoint_Inr)

lemma agents_join_Inl: "agents_join L c suffix = Inl e \<Longrightarrow> \<exists>m. e = InvalidConfig m"
  by (auto simp: agents_join_def dest: join_endpoint_Inl)

lemma confined_by_id:
  "f = (\<lambda>url. with_token (an_bearer c) (g url)) \<Longrightarrow> (\<And>url. hr_url (g url) = url \<and> hr_headers (g url) = []) \<Longrightarrow>
    confined_call (names_tenant L (an_base_url c) t) (an_bearer c)
     (forgetP (tryP (id_with_tenant L c agent verb t) (\<lambda>url. send_decoded L d (f url))))"
  by (rule confined_one_call)
    (auto simp: id_with_tenant_Inr intro: names_query [where pairs = "[]"] dest: id_with_tenant_Inl)

lemma confined_by_path:
  "suffix = ''tenants/'' @ percent_encode t @ ''/'' @ rest \<Longrightarrow>
    (\<And>url. hr_url (f url) = url \<and> filter (\<lambda>h. fst h = ''authorization'') (hr_headers (f url)) = token_headers (an_bearer c)) \<Longrightarrow>
    confined_call (names_tenant L (an_base_url c) t) (an_bearer c)
     (forgetP (tryP (agents_join L c suffix) (\<lambda>url. send_decoded L d (f url))))"
  by (rule confined_one_call)
    (auto simp: agents_join_def join_endpoint_Inr names_tenant_def dest: join_endpoint_Inl)

lemma confined_by_query:
  "f = (\<lambda>url. with_token (an_bearer c) (request GET (query L ((''tenant'', t) # pairs) url))) \<Longrightarrow>
    confined_call (names_tenant L (an_base_url c) t) (an_bearer c)
     (forgetP (tryP (join_endpoint L (an_base_url c) rel label) (\<lambda>url. send_decoded L d (f url))))"
  by (rule confined_one_call) (auto simp: join_endpoint_Inr intro: names_query dest: join_endpoint_Inl)

lemmas call_defs = agents_get_json_def agents_post_json_def

lemmas id_operations = suspend_def unsuspend_def decommission_def lifecycle_call_def containment_def
  clear_containment_def envelope_narrow_def envelope_widen_def attestation_kinds_def transfer_owner_team_def
  record_certification_def set_description_def call_defs

lemma step_suffix: "lifecycle_step_suffix t operation_id step_id verb =
    ''tenants/'' @ percent_encode t @ ''/'' @ (''lifecycle/'' @ percent_encode operation_id
      @ ''/steps/'' @ percent_encode step_id @ ''/'' @ verb)"
  by (simp add: lifecycle_step_suffix_def)

lemma agents_operation_confined:
  "agents_operation L c t p \<Longrightarrow> confined_call (names_tenant L (an_base_url c) t) (an_bearer c) p"
proof (induction rule: agents_operation.induct)
  case (1 flt)
  define pairs where "pairs = (case lf_state flt of None \<Rightarrow> [] | Some s \<Rightarrow> [(''state'', as_wire s)])
    @ (case lf_owner_team flt of None \<Rightarrow> [] | Some team \<Rightarrow> [(''owner_team'', team)])"
  have "list_url L t flt = query L ((''tenant'', t) # pairs)"
    by (rule ext) (simp add: list_url_def pairs_def Let_def split: option.split)
  then show ?case unfolding agents_list_def call_defs by (auto intro: confined_by_query)
next
  case 2
  show ?case unfolding list_orphans_def call_defs by (rule confined_by_query [where pairs = "[]"]) simp
next
  case (3 agent)
  show ?case unfolding agents_get_def call_defs Let_def by (rule confined_by_query [where pairs = "[]"]) simp
next
  case (4 agent_name)
  show ?case unfolding list_active_grants_def call_defs forgetP_try_bind
    by (rule confined_by_query [where pairs = "[(''agent_name'', agent_name), (''active'', ''true'')]"]) simp
next
  case (5 agent_name)
  show ?case unfolding find_by_name_def agents_list_def call_defs forgetP_bind
    by (rule confined_by_query [where pairs = "[]"]) (simp add: list_url_def no_filter_def)
next
  case (6 req)
  show ?case unfolding agents_create_def call_defs
    by (rule confined_one_call)
      (auto simp: names_tenant_def enc_create_agent_request_def 6 dest: agents_join_Inl)
next
  case (18)
  show ?case unfolding get_budget_def call_defs
    by (rule confined_by_path [where rest = "''budget''"]) simp_all
next
  case (19 micros)
  show ?case unfolding set_budget_def call_defs
    by (rule confined_by_path [where rest = "''budget''"]) simp_all
next
  case (20 key kind confirm why)
  show ?case unfolding start_tenant_lifecycle_def
    by (rule confined_by_path [where rest = "''lifecycle''"]) simp_all
next
  case (21 operation_id)
  show ?case unfolding agents_tenant_lifecycle_def call_defs
    by (rule confined_by_path [where rest = "''lifecycle/'' @ percent_encode operation_id"]) simp_all
next
  case (22 operation_id step_id owner)
  show ?case unfolding claim_tenant_lifecycle_step_def call_defs
    by (rule confined_by_path [OF step_suffix]) simp
next
  case (23 operation_id step_id completion)
  show ?case unfolding complete_tenant_lifecycle_step_def call_defs
    by (rule confined_by_path [OF step_suffix]) simp
next
  case (24 operation_id step_id)
  show ?case unfolding retry_tenant_lifecycle_step_def call_defs
    by (rule confined_by_path [OF step_suffix]) simp
next
  case (25 confirm reason operation_id lease)
  show ?case unfolding offboard_tenant_effect_def
    by (rule confined_by_path [where rest = "''offboard''"]) simp_all
qed (unfold id_operations, (rule confined_by_id, rule refl, simp)+)

text \<open>C21: every operation of the agents client makes at most one request, confined to the tenant
  it was called for: the request names that tenant (first in its query, as its path segment, or
  as the body's tenant), carries the client's bearer and no other credential; an endpoint that
  cannot be built is reported before anything is sent, a transport error as such, and only a
  200 or a 201 is a success.\<close>

theorem agents_calls_confined:
  assumes "agents_operation L c t p" and "runs p es r"
  shows "(es = [] \<and> (\<exists>m. r = Inl (InvalidConfig m)))
    \<or> (\<exists>q z. es = [Sent q z] \<and> names_tenant L (an_base_url c) t q
         \<and> filter (\<lambda>h. fst h = ''authorization'') (hr_headers q) = token_headers (an_bearer c)
         \<and> (case z of Inl e \<Rightarrow> r = Inl (Transport e)
            | Inr resp \<Rightarrow> is_ok r \<longrightarrow> hs_status resp = 200 \<or> hs_status resp = 201))"
  using agents_operation_confined [OF assms(1)] assms(2) unfolding confined_call_def by blast

end
