(* ===== verification/Agents_Claims2.thy ===== *)
theory Agents_Claims2
  imports Agents_Claims
begin

text \<open>
  Endpoints of the agents client identify what they address, looking an agent up by its name
  is exact, and the witnesses of this client's properties on a sample deployment.
\<close>

section \<open>Endpoints\<close>

text \<open>The constant paths under an agent.\<close>

definition agent_verbs :: "string list" where
  "agent_verbs = [''suspend'', ''unsuspend'', ''decommission'', ''containment'', ''containment/clear'',
     ''envelope/narrow'', ''envelope/widen'', ''attestation-kinds'', ''owner-team'', ''certification'',
     ''description'']"

definition verb_segments :: "string \<Rightarrow> string list" where
  "verb_segments verb = (if verb = ''containment/clear'' then [''containment'', ''clear'']
     else if verb = ''envelope/narrow'' then [''envelope'', ''narrow'']
     else if verb = ''envelope/widen'' then [''envelope'', ''widen''] else [verb])"

lemma verb_path:
  assumes "verb \<in> set agent_verbs"
  shows "''agents/'' @ percent_encode agent @ ''/'' @ verb = segment_path (''agents'' # agent # verb_segments verb)"
    and "list_all (\<lambda>x. x \<noteq> ''.'' \<and> x \<noteq> ''..'') (verb_segments verb)"
proof -
  have "list_all (\<lambda>v. segment_path (verb_segments v) = v \<and> verb_segments v \<noteq> []
    \<and> list_all (\<lambda>x. x \<noteq> ''.'' \<and> x \<noteq> ''..'') (verb_segments v)) agent_verbs"
    by code_simp
  with assms have "segment_path (verb_segments verb) = verb \<and> verb_segments verb \<noteq> []
    \<and> list_all (\<lambda>x. x \<noteq> ''.'' \<and> x \<noteq> ''..'') (verb_segments verb)"
    by (simp add: list_all_iff)
  moreover have "percent_encode ''agents'' = ''agents''"
    by code_simp
  ultimately show "''agents/'' @ percent_encode agent @ ''/'' @ verb
      = segment_path (''agents'' # agent # verb_segments verb)"
    and "list_all (\<lambda>x. x \<noteq> ''.'' \<and> x \<noteq> ''..'') (verb_segments verb)"
    by (simp_all add: segment_path_def join_with_Cons)
qed

lemma id_with_tenant_url:
  assumes "url_laws L" "plain_base (an_base_url c)" "verb \<in> set agent_verbs" "agent \<notin> {''.'', ''..''}"
    and "id_with_tenant L c agent verb t = Inr url"
  shows "url = url_append_pair L (an_base_url c @ segment_path (''agents'' # agent # verb_segments verb)) ''tenant'' t"
proof -
  let ?xs = "''agents'' # agent # verb_segments verb"
  have "plain_segments ?xs" using verb_path(2) [OF assms(3)] assms(4) by (simp add: plain_segments_def)
  with assms(1,2) have "url_join L (an_base_url c) (segment_path ?xs) = Inr (an_base_url c @ segment_path ?xs)"
    by (simp add: url_laws_def)
  with assms(5) show ?thesis
    by (simp only: id_with_tenant_Inr verb_path(1) [OF assms(3)]) auto
qed

lemma percent_encode_plain_agents: "percent_encode ''agents'' = ''agents''"
  by code_simp

text \<open>The operations on one agent, by what follows its identifier in the path: nothing to read it,
  and a constant path for the other eleven.\<close>

inductive agent_call ::
  "libs \<Rightarrow> 'p agents_client \<Rightarrow> string \<Rightarrow> string \<Rightarrow> string \<Rightarrow> (clavenar_error, unit) prog \<Rightarrow> bool"
  for L c agent t where
  "agent_call L c agent t '''' (forgetP (agents_get L c agent t))"
| "agent_call L c agent t ''suspend'' (forgetP (suspend L c agent t reason))"
| "agent_call L c agent t ''unsuspend'' (forgetP (unsuspend L c agent t reason))"
| "agent_call L c agent t ''decommission'' (forgetP (decommission L c agent t reason))"
| "agent_call L c agent t ''containment'' (forgetP (containment L c agent t))"
| "agent_call L c agent t ''containment/clear'' (forgetP (clear_containment L c agent t reason))"
| "agent_call L c agent t ''envelope/narrow'' (forgetP (envelope_narrow L c agent t envelope))"
| "agent_call L c agent t ''envelope/widen'' (forgetP (envelope_widen L c agent t envelope))"
| "agent_call L c agent t ''attestation-kinds'' (forgetP (attestation_kinds L c agent t kinds))"
| "agent_call L c agent t ''owner-team'' (forgetP (transfer_owner_team L c agent t new_team))"
| "agent_call L c agent t ''certification'' (forgetP (record_certification L c agent t cert))"
| "agent_call L c agent t ''description'' (forgetP (set_description L c agent t txt))"

lemma agents_get_json_call: "agents_get_json L c d = (\<lambda>url. send_decoded L d (with_token (an_bearer c) (request GET url)))"
  by (rule ext) (simp add: agents_get_json_def)

lemma agent_call_sends:
  assumes "agent_call L c agent t op p" "runs p es r" "Sent q z \<in> set es"
  shows "(op = '''' \<and> (\<exists>u. url_join L (an_base_url c) (''agents/'' @ percent_encode agent) = Inr u
        \<and> hr_url q = url_append_pair L u ''tenant'' t))
    \<or> (op \<in> set agent_verbs \<and> id_with_tenant L c agent op t = Inr (hr_url q))"
  using assms
  by cases
    (auto simp: agents_get_def suspend_def unsuspend_def decommission_def containment_def lifecycle_call_def
      clear_containment_def envelope_narrow_def envelope_widen_def attestation_kinds_def
      transfer_owner_team_def record_certification_def set_description_def agents_get_json_call
      agents_post_json_def agent_verbs_def
      runs_one_call join_endpoint_Inr Let_def)

definition op_segments :: "string \<Rightarrow> string list" where
  "op_segments op = (if op = '''' then [] else verb_segments op)"

lemma agent_call_url:
  assumes "url_laws L" "plain_base (an_base_url c)" "agent \<notin> {''.'', ''..''}"
    and "agent_call L c agent t op p" "runs p es r" "Sent q z \<in> set es"
  shows "hr_url q = url_append_pair L (an_base_url c @ segment_path (''agents'' # agent # op_segments op)) ''tenant'' t"
    and "op = '''' \<or> op \<in> set agent_verbs"
proof -
  from agent_call_sends [OF assms(4-6)]
  have "hr_url q = url_append_pair L (an_base_url c @ segment_path (''agents'' # agent # op_segments op)) ''tenant'' t
    \<and> (op = '''' \<or> op \<in> set agent_verbs)"
  proof (elim disjE conjE exE)
    fix u
    assume u: "op = ''''" "url_join L (an_base_url c) (''agents/'' @ percent_encode agent) = Inr u"
      "hr_url q = url_append_pair L u ''tenant'' t"
    have path: "''agents/'' @ percent_encode agent = segment_path [''agents'', agent]"
      using percent_encode_plain_agents by (simp add: segment_path_def join_with_Cons)
    have "plain_segments [''agents'', agent]" using assms(3) by (simp add: plain_segments_def)
    with assms(1,2) have "url_join L (an_base_url c) (segment_path [''agents'', agent])
        = Inr (an_base_url c @ segment_path [''agents'', agent])"
      by (simp add: url_laws_def)
    with u path show ?thesis by (simp add: op_segments_def)
  next
    assume op: "op \<in> set agent_verbs" "id_with_tenant L c agent op t = Inr (hr_url q)"
    then have "op \<noteq> ''''" by (auto simp: agent_verbs_def)
    with op id_with_tenant_url [OF assms(1,2) op(1) assms(3) op(2)] show ?thesis by (simp add: op_segments_def)
  qed
  then show "hr_url q = url_append_pair L (an_base_url c @ segment_path (''agents'' # agent # op_segments op)) ''tenant'' t"
    and "op = '''' \<or> op \<in> set agent_verbs" by simp_all
qed

lemma op_path:
  assumes "op = '''' \<or> op \<in> set agent_verbs"
  shows "segment_path (''agents'' # agent # op_segments op)
    = ''agents/'' @ percent_encode agent @ (if op = '''' then '''' else ''/'' @ op)"
proof (cases "op = ''''")
  case True
  then show ?thesis
    using percent_encode_plain_agents by (simp add: op_segments_def segment_path_def join_with_Cons)
next
  case False
  with assms verb_path(1) [of op agent] show ?thesis by (simp add: op_segments_def)
qed

lemma op_path_inject:
  assumes "op = '''' \<or> op \<in> set agent_verbs" "op' = '''' \<or> op' \<in> set agent_verbs"
    and "segment_path (''agents'' # agent # op_segments op) = segment_path (''agents'' # agent' # op_segments op')"
  shows "agent = agent' \<and> op = op'"
proof -
  have no_slash: "CHR ''/'' \<notin> set (percent_encode a)" for a
    using percent_encode_chars [of "CHR ''/''" a] by (auto simp: unreserved_def byte_def)
  from assms(3) have same: "percent_encode agent @ (if op = '''' then '''' else ''/'' @ op)
      = percent_encode agent' @ (if op' = '''' then '''' else ''/'' @ op')"
    by (simp add: op_path [OF assms(1)] op_path [OF assms(2)])
  show ?thesis
  proof (cases "op = '''' \<or> op' = ''''")
    case True
    have "percent_encode a @ CHR ''/'' # v \<noteq> percent_encode a'" for a v a'
      using no_slash [of a'] by (metis in_set_conv_decomp)
    with True same have "op = '''' \<and> op' = ''''"
      by (auto split: if_splits dest: sym)
    with same show ?thesis by (simp add: percent.enc_inject)
  next
    case False
    with same have "percent_encode agent @ CHR ''/'' # op = percent_encode agent' @ CHR ''/'' # op'" by simp
    from percent.split_at_delim [OF _ _ this] show ?thesis by (simp add: delimiter_def)
  qed
qed

text \<open>C22: the endpoint of a call on an agent determines the agent, the operation and the tenant.
  Two calls of the twelve operations on one agent (reading it and the eleven that change or read
  something under it) that send requests to the same URL address the same agent with the same
  operation for the same tenant, however hostile the characters of the identifiers. The agent
  identifiers \<open>.\<close> and \<open>..\<close> are excluded: joining a URL removes such segments and
  \<open>percent_encode\<close> leaves them as they are. The list of orphans is not an operation on an agent,
  and has the path of reading an agent named \<open>orphans\<close>.\<close>

theorem agents_paths_identify:
  assumes "url_laws L" "plain_base (an_base_url c)"
    and "agent \<notin> {''.'', ''..''}" "agent' \<notin> {''.'', ''..''}"
    and "agent_call L c agent t op p" "runs p es r" "Sent q z \<in> set es"
    and "agent_call L c agent' t' op' p'" "runs p' es' r'" "Sent q' z' \<in> set es'"
    and "hr_url q = hr_url q'"
  shows "agent = agent' \<and> op = op' \<and> t = t'"
proof -
  note here = agent_call_url [OF assms(1-3,5-7)] and there = agent_call_url [OF assms(1,2,4,8-10)]
  let ?u = "\<lambda>a v. an_base_url c @ segment_path (''agents'' # a # op_segments v)"
  have "url_append_pair L (?u agent op) ''tenant'' t = url_append_pair L (?u agent' op') ''tenant'' t'"
    using here(1) there(1) assms(11) by simp
  with assms(1) no_query [OF assms(2)] have same: "?u agent op = ?u agent' op'" and "t = t'"
    unfolding url_laws_def by blast+
  with op_path_inject [OF here(2) there(2)] show ?thesis by simp
qed

section \<open>A sample deployment\<close>

definition sample_agents :: "unit agents_client" where
  "sample_agents = \<lparr>an_base_url = ''http://i/'', an_http = (), an_bearer = Some ''tok''\<rparr>"

lemma sample_agents_sel [simp]: "an_base_url sample_agents = ''http://i/''" "an_bearer sample_agents = Some ''tok''"
  by (simp_all add: sample_agents_def)

lemma sample_agents_base: "plain_base ''http://i/''"
  by (simp add: plain_base_def ends_with_def)

theorem agents_paths_identify_witness:
  "id_with_tenant sample_libs sample_agents ''a/../b'' ''suspend'' ''acme''
     \<noteq> id_with_tenant sample_libs sample_agents ''b'' ''suspend'' ''acme''"
proof
  let ?p = "\<lambda>a. forgetP (suspend sample_libs sample_agents a ''acme'' None)"
  let ?q = "\<lambda>url. with_token (Some ''tok'') (json_body (enc_lifecycle_request \<lparr>lq_reason = None\<rparr>) (request POST url))"
  let ?z = "Inr (reply 200 [])"
  assume same: "id_with_tenant sample_libs sample_agents ''a/../b'' ''suspend'' ''acme''
     = id_with_tenant sample_libs sample_agents ''b'' ''suspend'' ''acme''"
  obtain url where url: "id_with_tenant sample_libs sample_agents ''b'' ''suspend'' ''acme'' = Inr url"
    by (auto simp: id_with_tenant_Inr)
  have sends: "\<exists>es r. runs (?p a) es r \<and> Sent (?q url) ?z \<in> set es"
    if "id_with_tenant sample_libs sample_agents a ''suspend'' ''acme'' = Inr url" for a
    unfolding suspend_def lifecycle_call_def agents_post_json_def runs_one_call
    using that by (intro exI [of _ "[Sent (?q url) ?z]"]) auto
  obtain es r es' r' where runs: "runs (?p ''a/../b'') es r" "Sent (?q url) ?z \<in> set es"
      "runs (?p ''b'') es' r'" "Sent (?q url) ?z \<in> set es'"
    using sends [OF same [unfolded url]] sends [OF url] by blast
  have "''a/../b'' = ''b'' \<and> ''suspend'' = ''suspend'' \<and> ''acme'' = ''acme''"
    by (rule agents_paths_identify [OF sample_url_laws _ _ _ agent_call.intros(2) runs(1,2)
      agent_call.intros(2) runs(3,4) refl])
      (simp_all add: sample_agents_base)
  then show False by simp
qed

definition sample_row :: "string \<Rightarrow> agent_record" where
  "sample_row name = \<lparr>ag_id = ''id-'' @ name, ag_tenant = ''acme'', ag_agent_name = name, ag_state = AgentActive,
     ag_scope_envelope = [''read''], ag_yellow_envelope = [], ag_attestation_kinds_accepted = [],
     ag_created_by_sub = ''s'', ag_created_by_idp = ''i'', ag_owner_team = ''ops'', ag_created_at = ''t'',
     ag_state_changed_at = ''t'', ag_state_changed_by = ''s'', ag_description = None,
     ag_certified_at_version = None, ag_certified_at = None\<rparr>"

abbreviation row_libs :: libs where
  "row_libs \<equiv> with_parser (\<lambda>s. Some (enc_list enc_agent_record [sample_row ''a'', sample_row ''b'']))"

definition sample_list_request :: http_request where
  "sample_list_request = with_token (Some ''tok'') (request GET ''http://i/agents?tenant=acme'')"

section \<open>Looking up by name\<close>

text \<open>C26: looking an agent up by name lists the tenant's agents in one call and answers the first
  listed row with exactly that name; it answers none only when no listed row has it, and a
  failed listing is an error, never an absent agent.\<close>

theorem find_by_name_exact:
  assumes "runs (find_by_name L c t name) es (Inr found)"
  shows "\<exists>q resp body rows. es = [Sent q (Inr resp)] \<and> read_text_limited resp = Inr body
    \<and> from_str L (dec_list dec_agent_record) body = Inr rows
    \<and> (case found of
         None \<Rightarrow> name \<notin> ag_agent_name ` set rows
       | Some r \<Rightarrow> ag_agent_name r = name
           \<and> (\<exists>before after. rows = before @ r # after \<and> name \<notin> ag_agent_name ` set before))"
proof -
  from assms obtain rows where list: "runs (agents_list L c t no_filter) es (Inr rows)"
    and found: "found = find (\<lambda>r. ag_agent_name r = name) rows"
    by (auto simp: find_by_name_def runs_bindP_Inr)
  then obtain q resp where "es = [Sent q (Inr resp)]" "read_decoded L (dec_list dec_agent_record) resp = Inr rows"
    by (auto simp: agents_list_def call_defs tryP_def decoded.success split: sum.splits)
  moreover have "case found of None \<Rightarrow> name \<notin> ag_agent_name ` set rows
       | Some r \<Rightarrow> ag_agent_name r = name
           \<and> (\<exists>before after. rows = before @ r # after \<and> name \<notin> ag_agent_name ` set before)"
  proof (cases found)
    case None
    with found have "find (\<lambda>r. ag_agent_name r = name) rows = None" by simp
    with None show ?thesis by (auto simp: find_None_iff)
  next
    case (Some r)
    with found obtain i where i: "i < length rows" "ag_agent_name (rows ! i) = name" "r = rows ! i"
      and first: "\<forall>j < i. ag_agent_name (rows ! j) \<noteq> name"
      by (auto simp: find_Some_iff eq_commute [of "Some r"])
    then have "rows = take i rows @ r # drop (Suc i) rows" by (simp add: id_take_nth_drop)
    moreover have "name \<notin> ag_agent_name ` set (take i rows)"
      using first i(1) by (fastforce simp: in_set_conv_nth)
    ultimately show ?thesis using Some i by auto
  qed
  ultimately show ?thesis
    by (auto simp: read_decoded_def bindR_Inr decode_response_def split: if_splits)
qed

lemma sample_find_run:
  "runs (find_by_name row_libs sample_agents ''acme'' ''b'')
     [Sent sample_list_request (Inr (reply 200 ''x''))] (Inr (Some (sample_row ''b'')))"
proof -
  have "dec_list dec_agent_record (enc_list enc_agent_record [sample_row ''a'', sample_row ''b''])
      = Some [sample_row ''a'', sample_row ''b'']"
    by (rule agent_record_codec.read_back_list) simp
  moreover have "read_text_limited (reply 200 ''x'') = Inr ''x''" by (simp add: byte_def)
  ultimately have "read_decoded row_libs (dec_list dec_agent_record) (reply 200 ''x'')
      = Inr [sample_row ''a'', sample_row ''b'']"
    by (simp add: read_decoded_def decode_response_def from_str_def)
  moreover have "ag_agent_name (sample_row n) = n" for n by (simp add: sample_row_def)
  moreover have "url_append_pair sample_libs ''http://i/agents'' ''tenant'' ''acme'' = ''http://i/agents?tenant=acme''"
    by (simp add: sample_libs_def)
  ultimately have run: "runs (agents_list row_libs sample_agents ''acme'' no_filter)
      [Sent sample_list_request (Inr (reply 200 ''x''))] (Inr [sample_row ''a'', sample_row ''b''])"
    and found: "find (\<lambda>r. ag_agent_name r = ''b'') [sample_row ''a'', sample_row ''b''] = Some (sample_row ''b'')"
    by (simp_all add: agents_list_def call_defs decoded.success join_endpoint_def
        list_url_def no_filter_def sample_list_request_def)
  show ?thesis using runs_bind_ok [OF run] found unfolding find_by_name_def by metis
qed

theorem find_by_name_exact_witness:
  "ag_agent_name (sample_row ''b'') = ''b'' \<and> (\<exists>q resp. [Sent sample_list_request (Inr (reply 200 ''x''))] = [Sent q (Inr resp)])"
  using find_by_name_exact [OF sample_find_run] by auto

theorem agents_calls_confined_witness:
  "\<exists>q z. [Sent sample_list_request (Inr (reply 200 ''x''))] = [Sent q z]
     \<and> names_tenant row_libs ''http://i/'' ''acme'' q
     \<and> filter (\<lambda>h. fst h = ''authorization'') (hr_headers q) = token_headers (Some ''tok'')"
proof -
  have "runs (forgetP (find_by_name row_libs sample_agents ''acme'' ''b''))
      [Sent sample_list_request (Inr (reply 200 ''x''))] (Inr ())"
    using sample_find_run by (auto simp: forgetP_def mapP_def runs_bindP_Inr)
  from agents_calls_confined [OF agents_operation.intros(5) this] show ?thesis by auto
qed

end
