(* ===== verification/Wire_Policies.thy ===== *)
theory Wire_Policies
  imports Rest
begin

text \<open>
  The wire types of the policy surface (policies.rs): policy rows and versions, the bodies
  and replies of mutations, the Policy Lab's batch evaluation and the template catalogue.
  Conventions are those of \<open>Wire_Authorization\<close>. The miner's types, which carry
  32-bit floats, are in \<open>Mine\<close>.
\<close>

section \<open>Rows\<close>

record policy_row =
  pr_name :: string
  pr_content_type :: string
  pr_active :: bool
  pr_protected :: bool
  pr_current_version :: i64
  pr_deleted_at :: "string option"
  pr_created_at :: string
  pr_updated_at :: string
  pr_domain :: "string option"
  pr_severity :: "string option"
  pr_frameworks :: "string list"
  pr_tags :: "string list"
  pr_tier :: "string option"
  pr_tool_surface :: "string list"
  pr_summary :: "string option"

definition enc_policy_row :: "policy_row \<Rightarrow> json" where
  "enc_policy_row x = JObject (
    [(''name'', JString (pr_name x)),
      (''content_type'', JString (pr_content_type x)),
      (''active'', JBool (pr_active x)),
      (''protected'', JBool (pr_protected x)),
      (''current_version'', enc_i64 (pr_current_version x)),
      (''deleted_at'', enc_option JString (pr_deleted_at x)),
      (''created_at'', JString (pr_created_at x)),
      (''updated_at'', JString (pr_updated_at x)),
      (''domain'', enc_option JString (pr_domain x)),
      (''severity'', enc_option JString (pr_severity x)),
      (''frameworks'', enc_list JString (pr_frameworks x)),
      (''tags'', enc_list JString (pr_tags x)),
      (''tier'', enc_option JString (pr_tier x)),
      (''tool_surface'', enc_list JString (pr_tool_surface x)),
      (''summary'', enc_option JString (pr_summary x))])"

definition dec_policy_row :: "policy_row dec" where
  "dec_policy_row j = do {
     f \<leftarrow> struct_fields False
       [''name'', ''content_type'', ''active'', ''protected'', ''current_version'',
        ''deleted_at'', ''created_at'', ''updated_at'', ''domain'', ''severity'',
        ''frameworks'', ''tags'', ''tier'', ''tool_surface'', ''summary''] j;
     v1 \<leftarrow> need f ''name'' dec_string;
     v2 \<leftarrow> need f ''content_type'' dec_string;
     v3 \<leftarrow> need f ''active'' dec_bool;
     v4 \<leftarrow> dflt f ''protected'' False dec_bool;
     v5 \<leftarrow> need f ''current_version'' dec_i64;
     v6 \<leftarrow> opt f ''deleted_at'' dec_string;
     v7 \<leftarrow> need f ''created_at'' dec_string;
     v8 \<leftarrow> need f ''updated_at'' dec_string;
     v9 \<leftarrow> dflt f ''domain'' None (dec_option dec_string);
     v10 \<leftarrow> dflt f ''severity'' None (dec_option dec_string);
     v11 \<leftarrow> dflt f ''frameworks'' [] (dec_list dec_string);
     v12 \<leftarrow> dflt f ''tags'' [] (dec_list dec_string);
     v13 \<leftarrow> dflt f ''tier'' None (dec_option dec_string);
     v14 \<leftarrow> dflt f ''tool_surface'' [] (dec_list dec_string);
     v15 \<leftarrow> dflt f ''summary'' None (dec_option dec_string);
     Some \<lparr>pr_name = v1,
       pr_content_type = v2,
       pr_active = v3,
       pr_protected = v4,
       pr_current_version = v5,
       pr_deleted_at = v6,
       pr_created_at = v7,
       pr_updated_at = v8,
       pr_domain = v9,
       pr_severity = v10,
       pr_frameworks = v11,
       pr_tags = v12,
       pr_tier = v13,
       pr_tool_surface = v14,
       pr_summary = v15\<rparr> }"

interpretation policy_row_codec: codec enc_policy_row dec_policy_row "\<lambda>_. True"
  by unfold_locales
    (auto simp: enc_policy_row_def dec_policy_row_def record_simps split: option.split)

record policy_version_row =
  pv_name :: string
  pv_version :: i64
  pv_body :: string
  pv_body_sha256 :: string
  pv_reason :: string
  pv_actor_sub :: string
  pv_actor_idp :: string
  pv_chain_seq :: "i64 option"
  pv_created_at :: string

definition enc_policy_version_row :: "policy_version_row \<Rightarrow> json" where
  "enc_policy_version_row x = JObject (
    [(''name'', JString (pv_name x)),
      (''version'', enc_i64 (pv_version x)),
      (''body'', JString (pv_body x)),
      (''body_sha256'', JString (pv_body_sha256 x)),
      (''reason'', JString (pv_reason x)),
      (''actor_sub'', JString (pv_actor_sub x)),
      (''actor_idp'', JString (pv_actor_idp x)),
      (''chain_seq'', enc_option enc_i64 (pv_chain_seq x)),
      (''created_at'', JString (pv_created_at x))])"

definition dec_policy_version_row :: "policy_version_row dec" where
  "dec_policy_version_row j = do {
     f \<leftarrow> struct_fields False
       [''name'', ''version'', ''body'', ''body_sha256'', ''reason'', ''actor_sub'',
        ''actor_idp'', ''chain_seq'', ''created_at''] j;
     v1 \<leftarrow> need f ''name'' dec_string;
     v2 \<leftarrow> need f ''version'' dec_i64;
     v3 \<leftarrow> need f ''body'' dec_string;
     v4 \<leftarrow> need f ''body_sha256'' dec_string;
     v5 \<leftarrow> need f ''reason'' dec_string;
     v6 \<leftarrow> need f ''actor_sub'' dec_string;
     v7 \<leftarrow> need f ''actor_idp'' dec_string;
     v8 \<leftarrow> opt f ''chain_seq'' dec_i64;
     v9 \<leftarrow> need f ''created_at'' dec_string;
     Some \<lparr>pv_name = v1,
       pv_version = v2,
       pv_body = v3,
       pv_body_sha256 = v4,
       pv_reason = v5,
       pv_actor_sub = v6,
       pv_actor_idp = v7,
       pv_chain_seq = v8,
       pv_created_at = v9\<rparr> }"

interpretation policy_version_row_codec: codec enc_policy_version_row dec_policy_version_row "\<lambda>_. True"
  by unfold_locales
    (auto simp: enc_policy_version_row_def dec_policy_version_row_def record_simps split: option.split)

record policy_detail =
  pd_policy :: policy_row
  pd_current_body :: string
  pd_current_body_sha256 :: string

definition enc_policy_detail :: "policy_detail \<Rightarrow> json" where
  "enc_policy_detail x = JObject (members (enc_policy_row (pd_policy x)) @ [(''current_body'', JString (pd_current_body x)), (''current_body_sha256'', JString (pd_current_body_sha256 x))])"

definition dec_policy_detail :: "policy_detail dec" where
  "dec_policy_detail j = (case j of JObject kvs \<Rightarrow> do {
     f \<leftarrow> struct_fields False [''current_body'', ''current_body_sha256''] j;
     v1 \<leftarrow> need f ''current_body'' dec_string;
     v2 \<leftarrow> need f ''current_body_sha256'' dec_string;
     x \<leftarrow> dec_policy_row (JObject (filter (\<lambda>(k, v). k \<notin> {''current_body'', ''current_body_sha256''}) kvs));
     Some \<lparr>pd_policy = x, pd_current_body = v1, pd_current_body_sha256 = v2\<rparr> }
   | _ \<Rightarrow> None)"

interpretation policy_detail_codec: codec enc_policy_detail dec_policy_detail "\<lambda>_. True"
proof
  fix x :: policy_detail
  show "dec_policy_detail (enc_policy_detail x) = Some x"
    using policy_row_codec.read_back [of "pd_policy x"]
    by (auto simp: enc_policy_detail_def dec_policy_detail_def enc_policy_row_def members_def record_simps
        split: option.splits if_splits)
qed

record mutation_response =
  mr_name :: string
  mr_version :: i64
  mr_body_sha256 :: string
  mr_current_version :: i64
  mr_active :: bool
  mr_event_kind :: string

definition enc_mutation_response :: "mutation_response \<Rightarrow> json" where
  "enc_mutation_response x = JObject (
    [(''name'', JString (mr_name x)),
      (''version'', enc_i64 (mr_version x)),
      (''body_sha256'', JString (mr_body_sha256 x)),
      (''current_version'', enc_i64 (mr_current_version x)),
      (''active'', JBool (mr_active x)),
      (''event_kind'', JString (mr_event_kind x))])"

definition dec_mutation_response :: "mutation_response dec" where
  "dec_mutation_response j = do {
     f \<leftarrow> struct_fields False
       [''name'', ''version'', ''body_sha256'', ''current_version'', ''active'',
        ''event_kind''] j;
     v1 \<leftarrow> need f ''name'' dec_string;
     v2 \<leftarrow> need f ''version'' dec_i64;
     v3 \<leftarrow> need f ''body_sha256'' dec_string;
     v4 \<leftarrow> need f ''current_version'' dec_i64;
     v5 \<leftarrow> need f ''active'' dec_bool;
     v6 \<leftarrow> need f ''event_kind'' dec_string;
     Some \<lparr>mr_name = v1,
       mr_version = v2,
       mr_body_sha256 = v3,
       mr_current_version = v4,
       mr_active = v5,
       mr_event_kind = v6\<rparr> }"

interpretation mutation_response_codec: codec enc_mutation_response dec_mutation_response "\<lambda>_. True"
  by unfold_locales
    (auto simp: enc_mutation_response_def dec_mutation_response_def record_simps split: option.split)

record conflict_response =
  cf_error :: string
  cf_policy :: policy_row

definition enc_conflict_response :: "conflict_response \<Rightarrow> json" where
  "enc_conflict_response x = JObject (
    [(''error'', JString (cf_error x)),
      (''policy'', enc_policy_row (cf_policy x))])"

definition dec_conflict_response :: "conflict_response dec" where
  "dec_conflict_response j = do {
     f \<leftarrow> struct_fields False
       [''error'', ''policy''] j;
     v1 \<leftarrow> need f ''error'' dec_string;
     v2 \<leftarrow> need f ''policy'' dec_policy_row;
     Some \<lparr>cf_error = v1,
       cf_policy = v2\<rparr> }"

interpretation conflict_response_codec: codec enc_conflict_response dec_conflict_response "\<lambda>_. True"
  by unfold_locales
    (auto simp: enc_conflict_response_def dec_conflict_response_def record_simps policy_row_codec.read_back policy_row_codec.read_back_list policy_row_codec.read_back_option split: option.split)

section \<open>Mutations\<close>

record create_policy_request =
  ct_name :: string
  ct_content_type :: string
  ct_body :: string
  ct_reason :: string
  ct_actor_sub :: string
  ct_actor_idp :: string
  ct_active :: "bool option"

definition enc_create_policy_request :: "create_policy_request \<Rightarrow> json" where
  "enc_create_policy_request x = JObject (
    [(''name'', JString (ct_name x)),
      (''content_type'', JString (ct_content_type x)),
      (''body'', JString (ct_body x)),
      (''reason'', JString (ct_reason x)),
      (''actor_sub'', JString (ct_actor_sub x)),
      (''actor_idp'', JString (ct_actor_idp x))]
    @ skip_none ''active'' JBool (ct_active x))"

record update_policy_request =
  up_body :: string
  up_reason :: string
  up_actor_sub :: string
  up_actor_idp :: string
  up_expected_current_version :: i64

definition enc_update_policy_request :: "update_policy_request \<Rightarrow> json" where
  "enc_update_policy_request x = JObject (
    [(''body'', JString (up_body x)),
      (''reason'', JString (up_reason x)),
      (''actor_sub'', JString (up_actor_sub x)),
      (''actor_idp'', JString (up_actor_idp x)),
      (''expected_current_version'', enc_i64 (up_expected_current_version x))])"

record state_change_request =
  st_reason :: string
  st_actor_sub :: string
  st_actor_idp :: string
  st_expected_current_version :: i64

definition enc_state_change_request :: "state_change_request \<Rightarrow> json" where
  "enc_state_change_request x = JObject (
    [(''reason'', JString (st_reason x)),
      (''actor_sub'', JString (st_actor_sub x)),
      (''actor_idp'', JString (st_actor_idp x)),
      (''expected_current_version'', enc_i64 (st_expected_current_version x))])"

record rollback_request =
  rb_reason :: string
  rb_actor_sub :: string
  rb_actor_idp :: string

definition enc_rollback_request :: "rollback_request \<Rightarrow> json" where
  "enc_rollback_request x = JObject (
    [(''reason'', JString (rb_reason x)),
      (''actor_sub'', JString (rb_actor_sub x)),
      (''actor_idp'', JString (rb_actor_idp x))])"

record batch_state_change_request =
  bs_reason :: string
  bs_actor_sub :: string
  bs_actor_idp :: string

definition enc_batch_state_change_request :: "batch_state_change_request \<Rightarrow> json" where
  "enc_batch_state_change_request x = JObject (
    [(''reason'', JString (bs_reason x)),
      (''actor_sub'', JString (bs_actor_sub x)),
      (''actor_idp'', JString (bs_actor_idp x))])"

record batch_mutation_response =
  bm_changed :: usize
  bm_skipped :: usize
  bm_results :: "mutation_response list"

definition enc_batch_mutation_response :: "batch_mutation_response \<Rightarrow> json" where
  "enc_batch_mutation_response x = JObject (
    [(''changed'', enc_u64 (bm_changed x)),
      (''skipped'', enc_u64 (bm_skipped x)),
      (''results'', enc_list enc_mutation_response (bm_results x))])"

definition dec_batch_mutation_response :: "batch_mutation_response dec" where
  "dec_batch_mutation_response j = do {
     f \<leftarrow> struct_fields False
       [''changed'', ''skipped'', ''results''] j;
     v1 \<leftarrow> need f ''changed'' dec_u64;
     v2 \<leftarrow> need f ''skipped'' dec_u64;
     v3 \<leftarrow> need f ''results'' (dec_list dec_mutation_response);
     Some \<lparr>bm_changed = v1,
       bm_skipped = v2,
       bm_results = v3\<rparr> }"

interpretation batch_mutation_response_codec: codec enc_batch_mutation_response dec_batch_mutation_response "\<lambda>_. True"
  by unfold_locales
    (auto simp: enc_batch_mutation_response_def dec_batch_mutation_response_def record_simps mutation_response_codec.read_back mutation_response_codec.read_back_list mutation_response_codec.read_back_option split: option.split)

record policies_list_response =
  pl_policies :: "policy_row list"

definition enc_policies_list_response :: "policies_list_response \<Rightarrow> json" where
  "enc_policies_list_response x = JObject (
    [(''policies'', enc_list enc_policy_row (pl_policies x))])"

definition dec_policies_list_response :: "policies_list_response dec" where
  "dec_policies_list_response j = do {
     f \<leftarrow> struct_fields False
       [''policies''] j;
     v1 \<leftarrow> need f ''policies'' (dec_list dec_policy_row);
     Some \<lparr>pl_policies = v1\<rparr> }"

interpretation policies_list_response_codec: codec enc_policies_list_response dec_policies_list_response "\<lambda>_. True"
  by unfold_locales
    (auto simp: enc_policies_list_response_def dec_policies_list_response_def record_simps policy_row_codec.read_back policy_row_codec.read_back_list policy_row_codec.read_back_option split: option.split)

record versions_list_response =
  vl_versions :: "policy_version_row list"

definition enc_versions_list_response :: "versions_list_response \<Rightarrow> json" where
  "enc_versions_list_response x = JObject (
    [(''versions'', enc_list enc_policy_version_row (vl_versions x))])"

definition dec_versions_list_response :: "versions_list_response dec" where
  "dec_versions_list_response j = do {
     f \<leftarrow> struct_fields False
       [''versions''] j;
     v1 \<leftarrow> need f ''versions'' (dec_list dec_policy_version_row);
     Some \<lparr>vl_versions = v1\<rparr> }"

interpretation versions_list_response_codec: codec enc_versions_list_response dec_versions_list_response "\<lambda>_. True"
  by unfold_locales
    (auto simp: enc_versions_list_response_def dec_versions_list_response_def record_simps policy_version_row_codec.read_back policy_version_row_codec.read_back_list policy_version_row_codec.read_back_option split: option.split)

record diff_response =
  df_name :: string
  df_from :: i64
  df_to :: i64
  df_diff :: string

definition enc_diff_response :: "diff_response \<Rightarrow> json" where
  "enc_diff_response x = JObject (
    [(''name'', JString (df_name x)),
      (''from'', enc_i64 (df_from x)),
      (''to'', enc_i64 (df_to x)),
      (''diff'', JString (df_diff x))])"

definition dec_diff_response :: "diff_response dec" where
  "dec_diff_response j = do {
     f \<leftarrow> struct_fields False
       [''name'', ''from'', ''to'', ''diff''] j;
     v1 \<leftarrow> need f ''name'' dec_string;
     v2 \<leftarrow> need f ''from'' dec_i64;
     v3 \<leftarrow> need f ''to'' dec_i64;
     v4 \<leftarrow> need f ''diff'' dec_string;
     Some \<lparr>df_name = v1,
       df_from = v2,
       df_to = v3,
       df_diff = v4\<rparr> }"

interpretation diff_response_codec: codec enc_diff_response dec_diff_response "\<lambda>_. True"
  by unfold_locales
    (auto simp: enc_diff_response_def dec_diff_response_def record_simps split: option.split)

section \<open>The Policy Lab\<close>

datatype batch_mode =
    Add | Replace

fun enc_batch_mode :: "batch_mode \<Rightarrow> json" where
  "enc_batch_mode Add = JString ''add''"
| "enc_batch_mode Replace = JString ''replace''"

definition dec_batch_mode :: "batch_mode dec" where
  "dec_batch_mode = dec_enum [(''add'', Add),
     (''replace'', Replace)]"

lemma dec_enc_batch_mode [simp]: "dec_batch_mode (enc_batch_mode x) = Some x"
  by (cases x) (simp_all add: dec_batch_mode_def dec_enum_def)

lemma dec_option_batch_mode [simp]: "dec_option dec_batch_mode (enc_batch_mode x) = Some (Some x)"
  by (cases x) (simp_all add: dec_option_def dec_batch_mode_def dec_enum_def)

lemma enc_batch_mode_scalar [simp]: "enc_batch_mode x \<noteq> JNull"
  by (cases x) simp_all

datatype diff_class =
    AllowToDeny | AllowToYellow | DenyToAllow | YellowToAllow | YellowToDeny | DenyToYellow | Unchanged

fun enc_diff_class :: "diff_class \<Rightarrow> json" where
  "enc_diff_class AllowToDeny = JString ''allow_to_deny''"
| "enc_diff_class AllowToYellow = JString ''allow_to_yellow''"
| "enc_diff_class DenyToAllow = JString ''deny_to_allow''"
| "enc_diff_class YellowToAllow = JString ''yellow_to_allow''"
| "enc_diff_class YellowToDeny = JString ''yellow_to_deny''"
| "enc_diff_class DenyToYellow = JString ''deny_to_yellow''"
| "enc_diff_class Unchanged = JString ''unchanged''"

definition dec_diff_class :: "diff_class dec" where
  "dec_diff_class = dec_enum [(''allow_to_deny'', AllowToDeny),
     (''allow_to_yellow'', AllowToYellow),
     (''deny_to_allow'', DenyToAllow),
     (''yellow_to_allow'', YellowToAllow),
     (''yellow_to_deny'', YellowToDeny),
     (''deny_to_yellow'', DenyToYellow),
     (''unchanged'', Unchanged)]"

lemma dec_enc_diff_class [simp]: "dec_diff_class (enc_diff_class x) = Some x"
  by (cases x) (simp_all add: dec_diff_class_def dec_enum_def)

lemma dec_option_diff_class [simp]: "dec_option dec_diff_class (enc_diff_class x) = Some (Some x)"
  by (cases x) (simp_all add: dec_option_def dec_diff_class_def dec_enum_def)

lemma enc_diff_class_scalar [simp]: "enc_diff_class x \<noteq> JNull"
  by (cases x) simp_all

record batch_verdict =
  bv_allow :: bool
  bv_reasons :: "string list"
  bv_review_reasons :: "string list"

definition enc_batch_verdict :: "batch_verdict \<Rightarrow> json" where
  "enc_batch_verdict x = JObject (
    [(''allow'', JBool (bv_allow x)),
      (''reasons'', enc_list JString (bv_reasons x)),
      (''review_reasons'', enc_list JString (bv_review_reasons x))])"

definition dec_batch_verdict :: "batch_verdict dec" where
  "dec_batch_verdict j = do {
     f \<leftarrow> struct_fields False
       [''allow'', ''reasons'', ''review_reasons''] j;
     v1 \<leftarrow> need f ''allow'' dec_bool;
     v2 \<leftarrow> need f ''reasons'' (dec_list dec_string);
     v3 \<leftarrow> dflt f ''review_reasons'' [] (dec_list dec_string);
     Some \<lparr>bv_allow = v1,
       bv_reasons = v2,
       bv_review_reasons = v3\<rparr> }"

interpretation batch_verdict_codec: codec enc_batch_verdict dec_batch_verdict "\<lambda>_. True"
  by unfold_locales
    (auto simp: enc_batch_verdict_def dec_batch_verdict_def record_simps split: option.split)

record batch_verdict_result =
  br_correlation_id :: "string option"
  br_input :: "json option"
  br_before :: batch_verdict
  br_after :: batch_verdict
  br_diff :: diff_class

definition enc_batch_verdict_result :: "batch_verdict_result \<Rightarrow> json" where
  "enc_batch_verdict_result x = JObject (
    skip_none ''correlation_id'' JString (br_correlation_id x)
    @ skip_none ''input'' (\<lambda>j. j) (br_input x)
    @ [(''before'', enc_batch_verdict (br_before x)),
      (''after'', enc_batch_verdict (br_after x)),
      (''diff'', enc_diff_class (br_diff x))])"

definition dec_batch_verdict_result :: "batch_verdict_result dec" where
  "dec_batch_verdict_result j = do {
     f \<leftarrow> struct_fields False
       [''correlation_id'', ''input'', ''before'', ''after'', ''diff''] j;
     v1 \<leftarrow> dflt f ''correlation_id'' None (dec_option dec_string);
     v2 \<leftarrow> dflt f ''input'' None (dec_option dec_value);
     v3 \<leftarrow> need f ''before'' dec_batch_verdict;
     v4 \<leftarrow> need f ''after'' dec_batch_verdict;
     v5 \<leftarrow> need f ''diff'' dec_diff_class;
     Some \<lparr>br_correlation_id = v1,
       br_input = v2,
       br_before = v3,
       br_after = v4,
       br_diff = v5\<rparr> }"

definition ok_batch_verdict_result :: "batch_verdict_result \<Rightarrow> bool" where
  "ok_batch_verdict_result x \<longleftrightarrow> pred_option (\<lambda>j. json_wf j \<and> j \<noteq> JNull) (br_input x)"

interpretation batch_verdict_result_codec: codec enc_batch_verdict_result dec_batch_verdict_result ok_batch_verdict_result
  by unfold_locales
    (auto simp: enc_batch_verdict_result_def dec_batch_verdict_result_def ok_batch_verdict_result_def record_simps batch_verdict_codec.read_back batch_verdict_codec.read_back_list batch_verdict_codec.read_back_option split: option.split)

record evaluate_batch_request =
  eb_candidate_rego :: string
  eb_candidate_name :: string
  eb_mode :: batch_mode
  eb_replace_rule_name :: "string option"
  eb_inputs :: "json list"

definition enc_evaluate_batch_request :: "evaluate_batch_request \<Rightarrow> json" where
  "enc_evaluate_batch_request x = JObject (
    [(''candidate_rego'', JString (eb_candidate_rego x)),
      (''candidate_name'', JString (eb_candidate_name x)),
      (''mode'', enc_batch_mode (eb_mode x))]
    @ skip_none ''replace_rule_name'' JString (eb_replace_rule_name x)
    @ [(''inputs'', enc_list (\<lambda>j. j) (eb_inputs x))])"

definition dec_evaluate_batch_request :: "evaluate_batch_request dec" where
  "dec_evaluate_batch_request j = do {
     f \<leftarrow> struct_fields False
       [''candidate_rego'', ''candidate_name'', ''mode'', ''replace_rule_name'', ''inputs''] j;
     v1 \<leftarrow> need f ''candidate_rego'' dec_string;
     v2 \<leftarrow> need f ''candidate_name'' dec_string;
     v3 \<leftarrow> need f ''mode'' dec_batch_mode;
     v4 \<leftarrow> dflt f ''replace_rule_name'' None (dec_option dec_string);
     v5 \<leftarrow> need f ''inputs'' (dec_list dec_value);
     Some \<lparr>eb_candidate_rego = v1,
       eb_candidate_name = v2,
       eb_mode = v3,
       eb_replace_rule_name = v4,
       eb_inputs = v5\<rparr> }"

definition ok_evaluate_batch_request :: "evaluate_batch_request \<Rightarrow> bool" where
  "ok_evaluate_batch_request x \<longleftrightarrow> list_all json_wf (eb_inputs x)"

interpretation evaluate_batch_request_codec: codec enc_evaluate_batch_request dec_evaluate_batch_request ok_evaluate_batch_request
  by unfold_locales
    (auto simp: enc_evaluate_batch_request_def dec_evaluate_batch_request_def ok_evaluate_batch_request_def record_simps split: option.split)

record evaluate_batch_response =
  ep_active_compile_ok :: bool
  ep_candidate_compile_ok :: bool
  ep_results :: "batch_verdict_result list"

definition enc_evaluate_batch_response :: "evaluate_batch_response \<Rightarrow> json" where
  "enc_evaluate_batch_response x = JObject (
    [(''active_compile_ok'', JBool (ep_active_compile_ok x)),
      (''candidate_compile_ok'', JBool (ep_candidate_compile_ok x)),
      (''results'', enc_list enc_batch_verdict_result (ep_results x))])"

definition dec_evaluate_batch_response :: "evaluate_batch_response dec" where
  "dec_evaluate_batch_response j = do {
     f \<leftarrow> struct_fields False
       [''active_compile_ok'', ''candidate_compile_ok'', ''results''] j;
     v1 \<leftarrow> need f ''active_compile_ok'' dec_bool;
     v2 \<leftarrow> need f ''candidate_compile_ok'' dec_bool;
     v3 \<leftarrow> need f ''results'' (dec_list dec_batch_verdict_result);
     Some \<lparr>ep_active_compile_ok = v1,
       ep_candidate_compile_ok = v2,
       ep_results = v3\<rparr> }"

definition ok_evaluate_batch_response :: "evaluate_batch_response \<Rightarrow> bool" where
  "ok_evaluate_batch_response x \<longleftrightarrow> list_all ok_batch_verdict_result (ep_results x)"

interpretation evaluate_batch_response_codec: codec enc_evaluate_batch_response dec_evaluate_batch_response ok_evaluate_batch_response
  by unfold_locales
    (auto simp: enc_evaluate_batch_response_def dec_evaluate_batch_response_def ok_evaluate_batch_response_def record_simps batch_verdict_result_codec.read_back batch_verdict_result_codec.read_back_list batch_verdict_result_codec.read_back_option split: option.split)

record compile_error =
  ce_message :: string
  ce_line :: "u32 option"
  ce_column :: "u32 option"

definition enc_compile_error :: "compile_error \<Rightarrow> json" where
  "enc_compile_error x = JObject (
    [(''message'', JString (ce_message x))]
    @ skip_none ''line'' enc_u32 (ce_line x)
    @ skip_none ''column'' enc_u32 (ce_column x))"

definition dec_compile_error :: "compile_error dec" where
  "dec_compile_error j = do {
     f \<leftarrow> struct_fields False
       [''message'', ''line'', ''column''] j;
     v1 \<leftarrow> need f ''message'' dec_string;
     v2 \<leftarrow> dflt f ''line'' None (dec_option dec_u32);
     v3 \<leftarrow> dflt f ''column'' None (dec_option dec_u32);
     Some \<lparr>ce_message = v1,
       ce_line = v2,
       ce_column = v3\<rparr> }"

interpretation compile_error_codec: codec enc_compile_error dec_compile_error "\<lambda>_. True"
  by unfold_locales
    (auto simp: enc_compile_error_def dec_compile_error_def record_simps split: option.split)

record evaluate_batch_error =
  ee_active_compile_ok :: bool
  ee_candidate_compile_ok :: bool
  ee_compile_error :: compile_error

definition enc_evaluate_batch_error :: "evaluate_batch_error \<Rightarrow> json" where
  "enc_evaluate_batch_error x = JObject (
    [(''active_compile_ok'', JBool (ee_active_compile_ok x)),
      (''candidate_compile_ok'', JBool (ee_candidate_compile_ok x)),
      (''compile_error'', enc_compile_error (ee_compile_error x))])"

definition dec_evaluate_batch_error :: "evaluate_batch_error dec" where
  "dec_evaluate_batch_error j = do {
     f \<leftarrow> struct_fields False
       [''active_compile_ok'', ''candidate_compile_ok'', ''compile_error''] j;
     v1 \<leftarrow> need f ''active_compile_ok'' dec_bool;
     v2 \<leftarrow> need f ''candidate_compile_ok'' dec_bool;
     v3 \<leftarrow> need f ''compile_error'' dec_compile_error;
     Some \<lparr>ee_active_compile_ok = v1,
       ee_candidate_compile_ok = v2,
       ee_compile_error = v3\<rparr> }"

interpretation evaluate_batch_error_codec: codec enc_evaluate_batch_error dec_evaluate_batch_error "\<lambda>_. True"
  by unfold_locales
    (auto simp: enc_evaluate_batch_error_def dec_evaluate_batch_error_def record_simps compile_error_codec.read_back compile_error_codec.read_back_list compile_error_codec.read_back_option split: option.split)

section \<open>Templates, validation and the tenant lifecycle\<close>

record policy_template =
  pt_name :: string
  pt_content_type :: string
  pt_domain :: "string option"
  pt_severity :: "string option"
  pt_frameworks :: "string list"
  pt_tags :: "string list"
  pt_tier :: "string option"
  pt_tool_surface :: "string list"
  pt_summary :: "string option"
  pt_installed :: bool

definition enc_policy_template :: "policy_template \<Rightarrow> json" where
  "enc_policy_template x = JObject (
    [(''name'', JString (pt_name x)),
      (''content_type'', JString (pt_content_type x)),
      (''domain'', enc_option JString (pt_domain x)),
      (''severity'', enc_option JString (pt_severity x)),
      (''frameworks'', enc_list JString (pt_frameworks x)),
      (''tags'', enc_list JString (pt_tags x)),
      (''tier'', enc_option JString (pt_tier x)),
      (''tool_surface'', enc_list JString (pt_tool_surface x)),
      (''summary'', enc_option JString (pt_summary x)),
      (''installed'', JBool (pt_installed x))])"

definition dec_policy_template :: "policy_template dec" where
  "dec_policy_template j = do {
     f \<leftarrow> struct_fields False
       [''name'', ''content_type'', ''domain'', ''severity'', ''frameworks'', ''tags'',
        ''tier'', ''tool_surface'', ''summary'', ''installed''] j;
     v1 \<leftarrow> need f ''name'' dec_string;
     v2 \<leftarrow> need f ''content_type'' dec_string;
     v3 \<leftarrow> dflt f ''domain'' None (dec_option dec_string);
     v4 \<leftarrow> dflt f ''severity'' None (dec_option dec_string);
     v5 \<leftarrow> dflt f ''frameworks'' [] (dec_list dec_string);
     v6 \<leftarrow> dflt f ''tags'' [] (dec_list dec_string);
     v7 \<leftarrow> dflt f ''tier'' None (dec_option dec_string);
     v8 \<leftarrow> dflt f ''tool_surface'' [] (dec_list dec_string);
     v9 \<leftarrow> dflt f ''summary'' None (dec_option dec_string);
     v10 \<leftarrow> need f ''installed'' dec_bool;
     Some \<lparr>pt_name = v1,
       pt_content_type = v2,
       pt_domain = v3,
       pt_severity = v4,
       pt_frameworks = v5,
       pt_tags = v6,
       pt_tier = v7,
       pt_tool_surface = v8,
       pt_summary = v9,
       pt_installed = v10\<rparr> }"

interpretation policy_template_codec: codec enc_policy_template dec_policy_template "\<lambda>_. True"
  by unfold_locales
    (auto simp: enc_policy_template_def dec_policy_template_def record_simps split: option.split)

record policy_template_detail =
  pe_template :: policy_template
  pe_body :: string
  pe_body_sha256 :: string

definition enc_policy_template_detail :: "policy_template_detail \<Rightarrow> json" where
  "enc_policy_template_detail x = JObject (members (enc_policy_template (pe_template x)) @ [(''body'', JString (pe_body x)), (''body_sha256'', JString (pe_body_sha256 x))])"

definition dec_policy_template_detail :: "policy_template_detail dec" where
  "dec_policy_template_detail j = (case j of JObject kvs \<Rightarrow> do {
     f \<leftarrow> struct_fields False [''body'', ''body_sha256''] j;
     v1 \<leftarrow> need f ''body'' dec_string;
     v2 \<leftarrow> need f ''body_sha256'' dec_string;
     x \<leftarrow> dec_policy_template (JObject (filter (\<lambda>(k, v). k \<notin> {''body'', ''body_sha256''}) kvs));
     Some \<lparr>pe_template = x, pe_body = v1, pe_body_sha256 = v2\<rparr> }
   | _ \<Rightarrow> None)"

interpretation policy_template_detail_codec: codec enc_policy_template_detail dec_policy_template_detail "\<lambda>_. True"
proof
  fix x :: policy_template_detail
  show "dec_policy_template_detail (enc_policy_template_detail x) = Some x"
    using policy_template_codec.read_back [of "pe_template x"]
    by (auto simp: enc_policy_template_detail_def dec_policy_template_detail_def enc_policy_template_def members_def record_simps
        split: option.splits if_splits)
qed

record install_template_request =
  it_reason :: string
  it_actor_sub :: string
  it_actor_idp :: string

definition enc_install_template_request :: "install_template_request \<Rightarrow> json" where
  "enc_install_template_request x = JObject (
    [(''reason'', JString (it_reason x)),
      (''actor_sub'', JString (it_actor_sub x)),
      (''actor_idp'', JString (it_actor_idp x))])"

record lab_template_request =
  lt_mode :: "batch_mode option"
  lt_replace_rule_name :: "string option"
  lt_inputs :: "json list"

definition enc_lab_template_request :: "lab_template_request \<Rightarrow> json" where
  "enc_lab_template_request x = JObject (
    skip_none ''mode'' enc_batch_mode (lt_mode x)
    @ skip_none ''replace_rule_name'' JString (lt_replace_rule_name x)
    @ [(''inputs'', enc_list (\<lambda>j. j) (lt_inputs x))])"

definition dec_lab_template_request :: "lab_template_request dec" where
  "dec_lab_template_request j = do {
     f \<leftarrow> struct_fields False
       [''mode'', ''replace_rule_name'', ''inputs''] j;
     v1 \<leftarrow> dflt f ''mode'' None (dec_option dec_batch_mode);
     v2 \<leftarrow> dflt f ''replace_rule_name'' None (dec_option dec_string);
     v3 \<leftarrow> need f ''inputs'' (dec_list dec_value);
     Some \<lparr>lt_mode = v1,
       lt_replace_rule_name = v2,
       lt_inputs = v3\<rparr> }"

definition ok_lab_template_request :: "lab_template_request \<Rightarrow> bool" where
  "ok_lab_template_request x \<longleftrightarrow> list_all json_wf (lt_inputs x)"

interpretation lab_template_request_codec: codec enc_lab_template_request dec_lab_template_request ok_lab_template_request
  by unfold_locales
    (auto simp: enc_lab_template_request_def dec_lab_template_request_def ok_lab_template_request_def record_simps split: option.split)

record validate_policy_request =
  vq_name :: string
  vq_content_type :: string
  vq_body :: string

definition enc_validate_policy_request :: "validate_policy_request \<Rightarrow> json" where
  "enc_validate_policy_request x = JObject (
    [(''name'', JString (vq_name x)),
      (''content_type'', JString (vq_content_type x)),
      (''body'', JString (vq_body x))])"

record validate_policy_response =
  vr_ok :: bool
  vr_error :: "compile_error option"

definition enc_validate_policy_response :: "validate_policy_response \<Rightarrow> json" where
  "enc_validate_policy_response x = JObject (
    [(''ok'', JBool (vr_ok x)),
      (''error'', enc_option enc_compile_error (vr_error x))])"

definition dec_validate_policy_response :: "validate_policy_response dec" where
  "dec_validate_policy_response j = do {
     f \<leftarrow> struct_fields False
       [''ok'', ''error''] j;
     v1 \<leftarrow> need f ''ok'' dec_bool;
     v2 \<leftarrow> dflt f ''error'' None (dec_option dec_compile_error);
     Some \<lparr>vr_ok = v1,
       vr_error = v2\<rparr> }"

interpretation validate_policy_response_codec: codec enc_validate_policy_response dec_validate_policy_response "\<lambda>_. True"
  by unfold_locales
    (auto simp: enc_validate_policy_response_def dec_validate_policy_response_def record_simps compile_error_codec.read_back compile_error_codec.read_back_list compile_error_codec.read_back_option enc_compile_error_def split: option.split)

datatype policy_tenant_lifecycle_kind =
    PolicyProvision | PolicyOffboard

fun enc_policy_tenant_lifecycle_kind :: "policy_tenant_lifecycle_kind \<Rightarrow> json" where
  "enc_policy_tenant_lifecycle_kind PolicyProvision = JString ''provision''"
| "enc_policy_tenant_lifecycle_kind PolicyOffboard = JString ''offboard''"

definition dec_policy_tenant_lifecycle_kind :: "policy_tenant_lifecycle_kind dec" where
  "dec_policy_tenant_lifecycle_kind = dec_enum [(''provision'', PolicyProvision),
     (''offboard'', PolicyOffboard)]"

lemma dec_enc_policy_tenant_lifecycle_kind [simp]: "dec_policy_tenant_lifecycle_kind (enc_policy_tenant_lifecycle_kind x) = Some x"
  by (cases x) (simp_all add: dec_policy_tenant_lifecycle_kind_def dec_enum_def)

lemma dec_option_policy_tenant_lifecycle_kind [simp]: "dec_option dec_policy_tenant_lifecycle_kind (enc_policy_tenant_lifecycle_kind x) = Some (Some x)"
  by (cases x) (simp_all add: dec_option_def dec_policy_tenant_lifecycle_kind_def dec_enum_def)

lemma enc_policy_tenant_lifecycle_kind_scalar [simp]: "enc_policy_tenant_lifecycle_kind x \<noteq> JNull"
  by (cases x) simp_all

record policy_tenant_lifecycle_receipt =
  py_tenant :: string
  py_operation_id :: uuid
  py_kind :: policy_tenant_lifecycle_kind
  py_state :: string
  py_generation :: i64
  py_policies :: usize
  py_receipt_sha256 :: string
  py_updated_at :: string

definition enc_policy_tenant_lifecycle_receipt :: "libs \<Rightarrow> policy_tenant_lifecycle_receipt \<Rightarrow> json" where
  "enc_policy_tenant_lifecycle_receipt L x = JObject (
    [(''tenant'', JString (py_tenant x)),
      (''operation_id'', enc_uuid L (py_operation_id x)),
      (''kind'', enc_policy_tenant_lifecycle_kind (py_kind x)),
      (''state'', JString (py_state x)),
      (''generation'', enc_i64 (py_generation x)),
      (''policies'', enc_u64 (py_policies x)),
      (''receipt_sha256'', JString (py_receipt_sha256 x)),
      (''updated_at'', JString (py_updated_at x))])"

definition dec_policy_tenant_lifecycle_receipt :: "libs \<Rightarrow> policy_tenant_lifecycle_receipt dec" where
  "dec_policy_tenant_lifecycle_receipt L j = do {
     f \<leftarrow> struct_fields False
       [''tenant'', ''operation_id'', ''kind'', ''state'', ''generation'', ''policies'',
        ''receipt_sha256'', ''updated_at''] j;
     v1 \<leftarrow> need f ''tenant'' dec_string;
     v2 \<leftarrow> need f ''operation_id'' (dec_uuid L);
     v3 \<leftarrow> need f ''kind'' dec_policy_tenant_lifecycle_kind;
     v4 \<leftarrow> need f ''state'' dec_string;
     v5 \<leftarrow> need f ''generation'' dec_i64;
     v6 \<leftarrow> need f ''policies'' dec_u64;
     v7 \<leftarrow> need f ''receipt_sha256'' dec_string;
     v8 \<leftarrow> need f ''updated_at'' dec_string;
     Some \<lparr>py_tenant = v1,
       py_operation_id = v2,
       py_kind = v3,
       py_state = v4,
       py_generation = v5,
       py_policies = v6,
       py_receipt_sha256 = v7,
       py_updated_at = v8\<rparr> }"

definition ok_policy_tenant_lifecycle_receipt :: "libs \<Rightarrow> policy_tenant_lifecycle_receipt \<Rightarrow> bool" where
  "ok_policy_tenant_lifecycle_receipt L x \<longleftrightarrow> uuid_laws L"

interpretation policy_tenant_lifecycle_receipt_codec: codec "enc_policy_tenant_lifecycle_receipt L" "dec_policy_tenant_lifecycle_receipt L" "ok_policy_tenant_lifecycle_receipt L"
  by unfold_locales
    (auto simp: enc_policy_tenant_lifecycle_receipt_def dec_policy_tenant_lifecycle_receipt_def ok_policy_tenant_lifecycle_receipt_def record_simps split: option.split)

record policy_tenant_lifecycle_request =
  pq_operation_id :: uuid
  pq_kind :: policy_tenant_lifecycle_kind

definition enc_policy_tenant_lifecycle_request :: "libs \<Rightarrow> policy_tenant_lifecycle_request \<Rightarrow> json" where
  "enc_policy_tenant_lifecycle_request L x = JObject (
    [(''operation_id'', enc_uuid L (pq_operation_id x)),
      (''kind'', enc_policy_tenant_lifecycle_kind (pq_kind x))])"

end
