(* ===== verification/Policies.thy ===== *)
theory Policies
  imports Wire_Policies
begin

text \<open>
  \<open>PoliciesClient\<close> (policies.rs): reading, mutating and evaluating the managed policies, the
  template catalogue and the owner step of the tenant lifecycle. \<open>policies_join\<close> is the one
  place where a tenant-scoped client stamps its tenant on an endpoint. The miner's call is in
  \<open>Mine\<close>.
\<close>

section \<open>The client\<close>

record 'p policies_client =
  po_base_url :: string
  po_http :: 'p
  po_bearer :: "string option"
  po_tenant :: "string option"

definition policies_new ::
  "libs \<Rightarrow> 'p option \<Rightarrow> transport_error + 'p \<Rightarrow> string \<Rightarrow> clavenar_error + 'p policies_client" where
  "policies_new L installed fresh base_url =
     bindR (parse_base_url L base_url) (\<lambda>url.
     bindR (default_provider installed fresh) (\<lambda>http.
     Inr \<lparr>po_base_url = url, po_http = http, po_bearer = None, po_tenant = None\<rparr>))"

definition policies_with_http_provider :: "'p \<Rightarrow> 'p policies_client \<Rightarrow> 'p policies_client" where
  "policies_with_http_provider p c = c\<lparr>po_http := p\<rparr>"

definition policies_with_bearer :: "string \<Rightarrow> 'p policies_client \<Rightarrow> 'p policies_client" where
  "policies_with_bearer token c = c\<lparr>po_bearer := Some token\<rparr>"

definition policies_with_tenant :: "string option \<Rightarrow> 'p policies_client \<Rightarrow> 'p policies_client" where
  "policies_with_tenant t c = c\<lparr>po_tenant := t\<rparr>"

definition policies_has_bearer :: "'p policies_client \<Rightarrow> bool" where
  "policies_has_bearer c \<longleftrightarrow> po_bearer c \<noteq> None"

section \<open>Endpoints and calls\<close>

definition policies_join :: "libs \<Rightarrow> 'p policies_client \<Rightarrow> string \<Rightarrow> clavenar_error + string" where
  "policies_join L c suffix =
     bindR (join_endpoint L (po_base_url c) suffix suffix) (\<lambda>url.
     Inr (case po_tenant c of None \<Rightarrow> url | Some t \<Rightarrow> url_append_pair L url ''tenant'' t))"

definition policies_get_json ::
  "libs \<Rightarrow> 'p policies_client \<Rightarrow> 'a dec \<Rightarrow> string \<Rightarrow> (clavenar_error, 'a) prog" where
  "policies_get_json L c d url = send_decoded L d (with_token (po_bearer c) (request GET url))"

definition policies_send_json ::
  "libs \<Rightarrow> 'p policies_client \<Rightarrow> 'a dec \<Rightarrow> http_method \<Rightarrow> json \<Rightarrow> string \<Rightarrow> (clavenar_error, 'a) prog" where
  "policies_send_json L c d m body url =
     send_decoded L d (with_token (po_bearer c) (json_body body (request m url)))"

definition policy_suffix :: "string \<Rightarrow> string \<Rightarrow> string" where
  "policy_suffix name rest = ''policies/'' @ percent_encode name @ rest"

section \<open>The tenant lifecycle\<close>

definition policies_tenant_lifecycle ::
  "libs \<Rightarrow> 'p policies_client \<Rightarrow> string \<Rightarrow> uuid \<Rightarrow> policy_tenant_lifecycle_kind
   \<Rightarrow> (clavenar_error, policy_tenant_lifecycle_receipt) prog" where
  "policies_tenant_lifecycle L c tenant operation_id kind =
     tryP (join_endpoint L (po_base_url c) (''admin/tenants/'' @ percent_encode tenant @ ''/lifecycle'')
       ''policy lifecycle'') (\<lambda>url.
     policies_send_json L c (dec_policy_tenant_lifecycle_receipt L) POST
       (enc_policy_tenant_lifecycle_request L \<lparr>pq_operation_id = operation_id, pq_kind = kind\<rparr>) url)"

text \<open>Success needs only the status: the body is read, bounded, on the error path alone.\<close>

definition read_provision :: "http_response \<Rightarrow> clavenar_error + unit" where
  "read_provision response =
     (if 200 \<le> hs_status response \<and> hs_status response < 300 then Inr ()
      else bindR (read_text_limited response) (\<lambda>body. Inl (Server (hs_status response) body)))"

definition send_provision :: "http_request \<Rightarrow> (clavenar_error, unit) prog" where
  "send_provision q = bindP (sendP q) (\<lambda>response. Return (read_provision response))"

definition provision_tenant :: "libs \<Rightarrow> 'p policies_client \<Rightarrow> string \<Rightarrow> (clavenar_error, unit) prog" where
  "provision_tenant L c prefix =
     tryP (join_endpoint L (po_base_url c) (''policies/tenant/'' @ percent_encode prefix @ ''/provision'')
       ''provision'') (\<lambda>url.
     send_provision (with_token (po_bearer c) (request POST url)))"

interpretation provision: json_call send_provision read_provision
  by unfold_locales (simp add: send_provision_def runs_sendP_bind)

section \<open>Reading\<close>

definition policies_list :: "libs \<Rightarrow> 'p policies_client \<Rightarrow> bool \<Rightarrow> (clavenar_error, policy_row list) prog" where
  "policies_list L c include_deleted =
     tryP (policies_join L c ''policies'') (\<lambda>url.
     bindP (policies_get_json L c dec_policies_list_response
       (if include_deleted then url_append_pair L url ''include_deleted'' ''true'' else url))
     (\<lambda>resp. okP (pl_policies resp)))"

definition policies_get :: "libs \<Rightarrow> 'p policies_client \<Rightarrow> string \<Rightarrow> (clavenar_error, policy_detail) prog" where
  "policies_get L c name =
     tryP (policies_join L c (policy_suffix name '''')) (policies_get_json L c dec_policy_detail)"

definition list_versions ::
  "libs \<Rightarrow> 'p policies_client \<Rightarrow> string \<Rightarrow> (clavenar_error, policy_version_row list) prog" where
  "list_versions L c name =
     tryP (policies_join L c (policy_suffix name ''/versions'')) (\<lambda>url.
     bindP (policies_get_json L c dec_versions_list_response url) (\<lambda>resp. okP (vl_versions resp)))"

definition get_version ::
  "libs \<Rightarrow> 'p policies_client \<Rightarrow> string \<Rightarrow> i64 \<Rightarrow> (clavenar_error, policy_version_row) prog" where
  "get_version L c name version =
     tryP (policies_join L c (policy_suffix name (''/versions/'' @ show_i64 version)))
       (policies_get_json L c dec_policy_version_row)"

definition policies_diff ::
  "libs \<Rightarrow> 'p policies_client \<Rightarrow> string \<Rightarrow> i64 \<Rightarrow> i64 \<Rightarrow> (clavenar_error, diff_response) prog" where
  "policies_diff L c name from_version to_version =
     tryP (policies_join L c (policy_suffix name ''/diff'')) (\<lambda>url.
     policies_get_json L c dec_diff_response
       (url_append_pair L (url_append_pair L url ''from'' (show_i64 from_version)) ''to'' (show_i64 to_version)))"

section \<open>Mutations\<close>

definition policies_create ::
  "libs \<Rightarrow> 'p policies_client \<Rightarrow> create_policy_request \<Rightarrow> (clavenar_error, mutation_response) prog" where
  "policies_create L c req = tryP (policies_join L c ''policies'')
     (policies_send_json L c dec_mutation_response POST (enc_create_policy_request req))"

definition policies_validate ::
  "libs \<Rightarrow> 'p policies_client \<Rightarrow> validate_policy_request \<Rightarrow> (clavenar_error, validate_policy_response) prog" where
  "policies_validate L c req = tryP (policies_join L c ''policies/validate'')
     (policies_send_json L c dec_validate_policy_response POST (enc_validate_policy_request req))"

definition policies_update ::
  "libs \<Rightarrow> 'p policies_client \<Rightarrow> string \<Rightarrow> update_policy_request \<Rightarrow> (clavenar_error, mutation_response) prog" where
  "policies_update L c name req = tryP (policies_join L c (policy_suffix name ''''))
     (policies_send_json L c dec_mutation_response PUT (enc_update_policy_request req))"

definition policies_activate ::
  "libs \<Rightarrow> 'p policies_client \<Rightarrow> string \<Rightarrow> state_change_request \<Rightarrow> (clavenar_error, mutation_response) prog" where
  "policies_activate L c name req = tryP (policies_join L c (policy_suffix name ''/activate''))
     (policies_send_json L c dec_mutation_response POST (enc_state_change_request req))"

definition policies_deactivate ::
  "libs \<Rightarrow> 'p policies_client \<Rightarrow> string \<Rightarrow> state_change_request \<Rightarrow> (clavenar_error, mutation_response) prog" where
  "policies_deactivate L c name req = tryP (policies_join L c (policy_suffix name ''/deactivate''))
     (policies_send_json L c dec_mutation_response POST (enc_state_change_request req))"

definition policies_delete ::
  "libs \<Rightarrow> 'p policies_client \<Rightarrow> string \<Rightarrow> state_change_request \<Rightarrow> (clavenar_error, mutation_response) prog" where
  "policies_delete L c name req = tryP (policies_join L c (policy_suffix name ''''))
     (policies_send_json L c dec_mutation_response DELETE (enc_state_change_request req))"

definition policies_rollback ::
  "libs \<Rightarrow> 'p policies_client \<Rightarrow> string \<Rightarrow> i64 \<Rightarrow> rollback_request \<Rightarrow> (clavenar_error, mutation_response) prog" where
  "policies_rollback L c name version req =
     tryP (policies_join L c (policy_suffix name (''/rollback/'' @ show_i64 version)))
       (policies_send_json L c dec_mutation_response POST (enc_rollback_request req))"

definition activate_category ::
  "libs \<Rightarrow> 'p policies_client \<Rightarrow> string \<Rightarrow> batch_state_change_request
   \<Rightarrow> (clavenar_error, batch_mutation_response) prog" where
  "activate_category L c domain req =
     tryP (policies_join L c (''policies/categories/'' @ percent_encode domain @ ''/activate''))
       (policies_send_json L c dec_batch_mutation_response POST (enc_batch_state_change_request req))"

definition deactivate_category ::
  "libs \<Rightarrow> 'p policies_client \<Rightarrow> string \<Rightarrow> batch_state_change_request
   \<Rightarrow> (clavenar_error, batch_mutation_response) prog" where
  "deactivate_category L c domain req =
     tryP (policies_join L c (''policies/categories/'' @ percent_encode domain @ ''/deactivate''))
       (policies_send_json L c dec_batch_mutation_response POST (enc_batch_state_change_request req))"

section \<open>The Policy Lab and the templates\<close>

definition evaluate_batch ::
  "libs \<Rightarrow> 'p policies_client \<Rightarrow> evaluate_batch_request \<Rightarrow> (clavenar_error, evaluate_batch_response) prog" where
  "evaluate_batch L c req = tryP (policies_join L c ''policies/evaluate-batch'')
     (policies_send_json L c dec_evaluate_batch_response POST (enc_evaluate_batch_request req))"

definition list_templates :: "libs \<Rightarrow> 'p policies_client \<Rightarrow> (clavenar_error, policy_template list) prog" where
  "list_templates L c = tryP (policies_join L c ''policies/templates'')
     (policies_get_json L c (dec_list dec_policy_template))"

definition get_template ::
  "libs \<Rightarrow> 'p policies_client \<Rightarrow> string \<Rightarrow> (clavenar_error, policy_template_detail) prog" where
  "get_template L c name = tryP (policies_join L c (''policies/templates/'' @ percent_encode name))
     (policies_get_json L c dec_policy_template_detail)"

definition install_template ::
  "libs \<Rightarrow> 'p policies_client \<Rightarrow> string \<Rightarrow> install_template_request \<Rightarrow> (clavenar_error, mutation_response) prog" where
  "install_template L c name req =
     tryP (policies_join L c (''policies/templates/'' @ percent_encode name @ ''/install''))
       (policies_send_json L c dec_mutation_response POST (enc_install_template_request req))"

definition lab_template ::
  "libs \<Rightarrow> 'p policies_client \<Rightarrow> string \<Rightarrow> lab_template_request \<Rightarrow> (clavenar_error, evaluate_batch_response) prog" where
  "lab_template L c name req =
     tryP (policies_join L c (''policies/templates/'' @ percent_encode name @ ''/lab''))
       (policies_send_json L c dec_evaluate_batch_response POST (enc_lab_template_request req))"

text \<open>Reading the bodies of refused calls.\<close>

definition parse_conflict :: "libs \<Rightarrow> string \<Rightarrow> conflict_response option" where
  "parse_conflict L body = (case from_str L dec_conflict_response body of Inl _ \<Rightarrow> None | Inr x \<Rightarrow> Some x)"

definition parse_batch_error :: "libs \<Rightarrow> string \<Rightarrow> evaluate_batch_error option" where
  "parse_batch_error L body = (case from_str L dec_evaluate_batch_error body of Inl _ \<Rightarrow> None | Inr x \<Rightarrow> Some x)"

end
