(* ===== verification/Mine.thy ===== *)
theory Mine
  imports Policies
begin

text \<open>
  The policy miner's call (policies.rs): its request, the candidates it answers and its typed
  error. Scores are 32-bit floats, which serde reads by Rust's \<open>as f32\<close> from whatever number
  the document holds, rounding to nearest with ties to even.
\<close>

section \<open>32-bit floats\<close>

type_synonym f32 = "32 word"

text \<open>
  The magnitude bits nearest to \<open>m * 2 ^ e\<close>: \<open>u\<close> is the exponent of the last place, and a
  carry out of the significand moves to the next exponent by itself; beyond the largest finite
  float the result is infinity.
\<close>

definition round_f32 :: "nat \<Rightarrow> int \<Rightarrow> nat" where
  "round_f32 m e = (if m = 0 then 0
     else let u = max (int (log2_floor m) + e - 23) (- 149);
              r = (if u \<le> e then m * 2 ^ nat (e - u) else div_half_even m (2 ^ nat (u - e)))
          in min (nat (u + 149) * 2 ^ 23 + r) 0x7F800000)"

definition f32_of_f64 :: "f64 \<Rightarrow> f32" where
  "f32_of_f64 b = (let sign = unat b div 2 ^ 63; ex = unat b div 2 ^ 52 mod 2 ^ 11; m = unat b mod 2 ^ 52;
       magnitude = (if ex = 2047 then (if m = 0 then 0x7F800000 else 0x7FC00000)
         else if ex = 0 then round_f32 m (- 1074) else round_f32 (2 ^ 52 + m) (int ex - 1075))
     in of_nat (sign * 2 ^ 31 + magnitude))"

definition dec_f32 :: "f32 dec" where
  "dec_f32 j = (case j of
     JNumber (PosInt n) \<Rightarrow> Some (of_nat (round_f32 (unat n) 0))
   | JNumber (NegInt i) \<Rightarrow> Some (of_nat (2 ^ 31 + round_f32 (nat (- sint i)) 0))
   | JNumber (Float b) \<Rightarrow> Some (f32_of_f64 b)
   | _ \<Rightarrow> None)"

section \<open>Wire types\<close>

record mine_lab_replay =
  ml_allow_to_deny :: u32
  ml_allow_to_yellow :: u32
  ml_deny_to_allow :: u32
  ml_deny_to_yellow :: u32
  ml_yellow_to_allow :: u32
  ml_yellow_to_deny :: u32
  ml_unchanged :: u32
  ml_catalog_regressions :: u32

definition enc_mine_lab_replay :: "mine_lab_replay \<Rightarrow> json" where
  "enc_mine_lab_replay x = JObject (
    [(''allow_to_deny'', enc_u32 (ml_allow_to_deny x)),
      (''allow_to_yellow'', enc_u32 (ml_allow_to_yellow x)),
      (''deny_to_allow'', enc_u32 (ml_deny_to_allow x)),
      (''deny_to_yellow'', enc_u32 (ml_deny_to_yellow x)),
      (''yellow_to_allow'', enc_u32 (ml_yellow_to_allow x)),
      (''yellow_to_deny'', enc_u32 (ml_yellow_to_deny x)),
      (''unchanged'', enc_u32 (ml_unchanged x)),
      (''catalog_regressions'', enc_u32 (ml_catalog_regressions x))])"

definition dec_mine_lab_replay :: "mine_lab_replay dec" where
  "dec_mine_lab_replay j = do {
     f \<leftarrow> struct_fields False
       [''allow_to_deny'', ''allow_to_yellow'', ''deny_to_allow'', ''deny_to_yellow'',
        ''yellow_to_allow'', ''yellow_to_deny'', ''unchanged'', ''catalog_regressions''] j;
     v1 \<leftarrow> need f ''allow_to_deny'' dec_u32;
     v2 \<leftarrow> need f ''allow_to_yellow'' dec_u32;
     v3 \<leftarrow> need f ''deny_to_allow'' dec_u32;
     v4 \<leftarrow> need f ''deny_to_yellow'' dec_u32;
     v5 \<leftarrow> need f ''yellow_to_allow'' dec_u32;
     v6 \<leftarrow> need f ''yellow_to_deny'' dec_u32;
     v7 \<leftarrow> need f ''unchanged'' dec_u32;
     v8 \<leftarrow> need f ''catalog_regressions'' dec_u32;
     Some \<lparr>ml_allow_to_deny = v1,
       ml_allow_to_yellow = v2,
       ml_deny_to_allow = v3,
       ml_deny_to_yellow = v4,
       ml_yellow_to_allow = v5,
       ml_yellow_to_deny = v6,
       ml_unchanged = v7,
       ml_catalog_regressions = v8\<rparr> }"

interpretation mine_lab_replay_codec: codec enc_mine_lab_replay dec_mine_lab_replay "\<lambda>_. True"
  by unfold_locales
    (auto simp: enc_mine_lab_replay_def dec_mine_lab_replay_def record_simps split: option.split)

record mine_flipped_example =
  mf_correlation_id :: "string option"
  mf_diff_label :: string
  mf_tool_type :: string
  mf_method :: "string option"
  mf_agent_kind :: string
  mf_current_time :: "string option"
  mf_intent_score :: f32
  mf_recent_request_count :: u32
  mf_before_reasons :: "string list"
  mf_after_reasons :: "string list"

definition dec_mine_flipped_example :: "mine_flipped_example dec" where
  "dec_mine_flipped_example j = do {
     f \<leftarrow> struct_fields False
       [''correlation_id'', ''diff_label'', ''tool_type'', ''method'', ''agent_kind'',
        ''current_time'', ''intent_score'', ''recent_request_count'', ''before_reasons'',
        ''after_reasons''] j;
     v1 \<leftarrow> dflt f ''correlation_id'' None (dec_option dec_string);
     v2 \<leftarrow> need f ''diff_label'' dec_string;
     v3 \<leftarrow> need f ''tool_type'' dec_string;
     v4 \<leftarrow> dflt f ''method'' None (dec_option dec_string);
     v5 \<leftarrow> need f ''agent_kind'' dec_string;
     v6 \<leftarrow> dflt f ''current_time'' None (dec_option dec_string);
     v7 \<leftarrow> need f ''intent_score'' dec_f32;
     v8 \<leftarrow> need f ''recent_request_count'' dec_u32;
     v9 \<leftarrow> need f ''before_reasons'' (dec_list dec_string);
     v10 \<leftarrow> need f ''after_reasons'' (dec_list dec_string);
     Some \<lparr>mf_correlation_id = v1,
       mf_diff_label = v2,
       mf_tool_type = v3,
       mf_method = v4,
       mf_agent_kind = v5,
       mf_current_time = v6,
       mf_intent_score = v7,
       mf_recent_request_count = v8,
       mf_before_reasons = v9,
       mf_after_reasons = v10\<rparr> }"

record mine_candidate =
  mc_id :: string
  mc_kind :: string
  mc_rule_name :: string
  mc_one_liner :: string
  mc_rationale :: "string option"
  mc_brain_enriched :: bool
  mc_rego_body :: string
  mc_compile_ok :: bool
  mc_evidence_count :: u32
  mc_score :: f32
  mc_lab_replay :: mine_lab_replay
  mc_threshold :: json
  mc_flipped_examples :: "mine_flipped_example list"

definition dec_mine_candidate :: "mine_candidate dec" where
  "dec_mine_candidate j = do {
     f \<leftarrow> struct_fields False
       [''id'', ''kind'', ''rule_name'', ''one_liner'', ''rationale'', ''brain_enriched'',
        ''rego_body'', ''compile_ok'', ''evidence_count'', ''score'', ''lab_replay'',
        ''threshold'', ''flipped_examples''] j;
     v1 \<leftarrow> need f ''id'' dec_string;
     v2 \<leftarrow> need f ''kind'' dec_string;
     v3 \<leftarrow> need f ''rule_name'' dec_string;
     v4 \<leftarrow> need f ''one_liner'' dec_string;
     v5 \<leftarrow> dflt f ''rationale'' None (dec_option dec_string);
     v6 \<leftarrow> dflt f ''brain_enriched'' False dec_bool;
     v7 \<leftarrow> need f ''rego_body'' dec_string;
     v8 \<leftarrow> need f ''compile_ok'' dec_bool;
     v9 \<leftarrow> need f ''evidence_count'' dec_u32;
     v10 \<leftarrow> need f ''score'' dec_f32;
     v11 \<leftarrow> need f ''lab_replay'' dec_mine_lab_replay;
     v12 \<leftarrow> dflt f ''threshold'' JNull dec_value;
     v13 \<leftarrow> dflt f ''flipped_examples'' [] (dec_list dec_mine_flipped_example);
     Some \<lparr>mc_id = v1,
       mc_kind = v2,
       mc_rule_name = v3,
       mc_one_liner = v4,
       mc_rationale = v5,
       mc_brain_enriched = v6,
       mc_rego_body = v7,
       mc_compile_ok = v8,
       mc_evidence_count = v9,
       mc_score = v10,
       mc_lab_replay = v11,
       mc_threshold = v12,
       mc_flipped_examples = v13\<rparr> }"

record mine_request =
  mq_corpus :: "json list"
  mq_historical_verdicts :: "batch_verdict list"
  mq_max_candidates :: u32
  mq_ask_brain :: bool

definition enc_mine_request :: "mine_request \<Rightarrow> json" where
  "enc_mine_request x = JObject (
    [(''corpus'', enc_list (\<lambda>j. j) (mq_corpus x)),
      (''historical_verdicts'', enc_list enc_batch_verdict (mq_historical_verdicts x)),
      (''max_candidates'', enc_u32 (mq_max_candidates x)),
      (''ask_brain'', JBool (mq_ask_brain x))])"

definition dec_mine_request :: "mine_request dec" where
  "dec_mine_request j = do {
     f \<leftarrow> struct_fields False
       [''corpus'', ''historical_verdicts'', ''max_candidates'', ''ask_brain''] j;
     v1 \<leftarrow> need f ''corpus'' (dec_list dec_value);
     v2 \<leftarrow> dflt f ''historical_verdicts'' [] (dec_list dec_batch_verdict);
     v3 \<leftarrow> need f ''max_candidates'' dec_u32;
     v4 \<leftarrow> need f ''ask_brain'' dec_bool;
     Some \<lparr>mq_corpus = v1,
       mq_historical_verdicts = v2,
       mq_max_candidates = v3,
       mq_ask_brain = v4\<rparr> }"

definition ok_mine_request :: "mine_request \<Rightarrow> bool" where
  "ok_mine_request x \<longleftrightarrow> list_all json_wf (mq_corpus x)"

interpretation mine_request_codec: codec enc_mine_request dec_mine_request ok_mine_request
  by unfold_locales
    (auto simp: enc_mine_request_def dec_mine_request_def ok_mine_request_def record_simps batch_verdict_codec.read_back batch_verdict_codec.read_back_list batch_verdict_codec.read_back_option split: option.split)

record mine_response =
  mr_candidates :: "mine_candidate list"
  mr_corpus_size :: u32
  mr_candidates_dropped :: u32
  mr_evaluated_in_ms :: u64

definition dec_mine_response :: "mine_response dec" where
  "dec_mine_response j = do {
     f \<leftarrow> struct_fields False
       [''candidates'', ''corpus_size'', ''candidates_dropped'', ''evaluated_in_ms''] j;
     v1 \<leftarrow> need f ''candidates'' (dec_list dec_mine_candidate);
     v2 \<leftarrow> need f ''corpus_size'' dec_u32;
     v3 \<leftarrow> need f ''candidates_dropped'' dec_u32;
     v4 \<leftarrow> need f ''evaluated_in_ms'' dec_u64;
     Some \<lparr>mr_candidates = v1,
       mr_corpus_size = v2,
       mr_candidates_dropped = v3,
       mr_evaluated_in_ms = v4\<rparr> }"

record mine_error =
  me_message :: string

definition enc_mine_error :: "mine_error \<Rightarrow> json" where
  "enc_mine_error x = JObject (
    [(''message'', JString (me_message x))])"

definition dec_mine_error :: "mine_error dec" where
  "dec_mine_error j = do {
     f \<leftarrow> struct_fields False
       [''message''] j;
     v1 \<leftarrow> need f ''message'' dec_string;
     Some \<lparr>me_message = v1\<rparr> }"

interpretation mine_error_codec: codec enc_mine_error dec_mine_error "\<lambda>_. True"
  by unfold_locales
    (auto simp: enc_mine_error_def dec_mine_error_def record_simps split: option.split)

section \<open>The call\<close>

definition policies_mine :: "libs \<Rightarrow> 'p policies_client \<Rightarrow> mine_request \<Rightarrow> (clavenar_error, mine_response) prog" where
  "policies_mine L c req = tryP (policies_join L c ''policies/mine'')
     (policies_send_json L c dec_mine_response POST (enc_mine_request req))"

definition parse_mine_error :: "libs \<Rightarrow> string \<Rightarrow> mine_error option" where
  "parse_mine_error L body = (case from_str L dec_mine_error body of Inl _ \<Rightarrow> None | Inr x \<Rightarrow> Some x)"

end
