(* ===== verification/Policies_Claims.thy ===== *)
theory Policies_Claims
  imports Mine Sample
begin

text \<open>
  The properties of the policies client: a tenant-scoped client stamps its tenant on every
  call, a lost update is refused with a readable conflict, a compile error arrives as a bad
  request, provisioning depends on the status alone, and the flattened details are read back.
\<close>

section \<open>Tenant scope\<close>

inductive policies_operation :: "libs \<Rightarrow> 'p policies_client \<Rightarrow> (clavenar_error, unit) prog \<Rightarrow> bool"
  for L c where
  "policies_operation L c (forgetP (policies_list L c include_deleted))"
| "policies_operation L c (forgetP (policies_get L c name))"
| "policies_operation L c (forgetP (list_versions L c name))"
| "policies_operation L c (forgetP (get_version L c name version))"
| "policies_operation L c (forgetP (policies_diff L c name v1 v2))"
| "policies_operation L c (forgetP (policies_create L c cr))"
| "policies_operation L c (forgetP (policies_validate L c vq))"
| "policies_operation L c (forgetP (policies_update L c name up))"
| "policies_operation L c (forgetP (policies_activate L c name st))"
| "policies_operation L c (forgetP (policies_deactivate L c name st))"
| "policies_operation L c (forgetP (policies_delete L c name st))"
| "policies_operation L c (forgetP (policies_rollback L c name version rb))"
| "policies_operation L c (forgetP (activate_category L c domain bs))"
| "policies_operation L c (forgetP (deactivate_category L c domain bs))"
| "policies_operation L c (forgetP (evaluate_batch L c eb))"
| "policies_operation L c (forgetP (list_templates L c))"
| "policies_operation L c (forgetP (get_template L c name))"
| "policies_operation L c (forgetP (install_template L c name it))"
| "policies_operation L c (forgetP (lab_template L c name lt))"
| "policies_operation L c (forgetP (policies_mine L c mq))"

definition tenant_pairs :: "'p policies_client \<Rightarrow> (string \<times> string) list" where
  "tenant_pairs c = (case po_tenant c of None \<Rightarrow> [] | Some t \<Rightarrow> [(''tenant'', t)])"

definition tenant_scoped :: "libs \<Rightarrow> 'p policies_client \<Rightarrow> http_request \<Rightarrow> bool" where
  "tenant_scoped L c q \<longleftrightarrow> (\<exists>rel url pairs. url_join L (po_base_url c) rel = Inr url
     \<and> hr_url q = query L (tenant_pairs c @ pairs) url \<and> ''tenant'' \<notin> fst ` set pairs)"

lemma query_append [simp]: "query L (ps @ qs) url = query L qs (query L ps url)"
  by (simp add: query_def)

lemma policies_join_Inr: "policies_join L c suffix = Inr url \<longleftrightarrow>
    (\<exists>u. url_join L (po_base_url c) suffix = Inr u \<and> url = query L (tenant_pairs c) u)"
  by (auto simp: policies_join_def bindR_Inr join_endpoint_Inr tenant_pairs_def split: option.splits)

lemma policies_join_Inl: "policies_join L c suffix = Inl e \<Longrightarrow> \<exists>m. e = InvalidConfig m"
  by (auto simp: policies_join_def bindR_def split: sum.splits option.splits dest: join_endpoint_Inl)

lemma scoped_call:
  assumes "\<And>url. hr_url (f url) = query L pairs url \<and> ''tenant'' \<notin> fst ` set pairs
    \<and> filter (\<lambda>h. fst h = ''authorization'') (hr_headers (f url)) = token_headers (po_bearer c)"
  shows "confined_call (tenant_scoped L c) (po_bearer c)
     (forgetP (tryP (policies_join L c suffix) (\<lambda>url. send_decoded L d (f url))))"
proof (rule confined_one_call)
  fix url
  assume "policies_join L c suffix = Inr url"
  then obtain u where "url_join L (po_base_url c) suffix = Inr u" "url = query L (tenant_pairs c) u"
    by (auto simp: policies_join_Inr)
  with assms [of url] show "tenant_scoped L c (f url)
      \<and> filter (\<lambda>h. fst h = ''authorization'') (hr_headers (f url)) = token_headers (po_bearer c)"
    unfolding tenant_scoped_def query_append [symmetric] by (metis query_append)
qed (rule policies_join_Inl)

lemmas policies_defs = policies_get_def list_versions_def get_version_def policies_create_def policies_validate_def
  policies_update_def policies_activate_def policies_deactivate_def policies_delete_def policies_rollback_def
  activate_category_def deactivate_category_def evaluate_batch_def list_templates_def get_template_def
  install_template_def lab_template_def policies_mine_def policies_get_json_def policies_send_json_def forgetP_try_bind

lemma policies_operation_scoped:
  "policies_operation L c p \<Longrightarrow> confined_call (tenant_scoped L c) (po_bearer c) p"
proof (induction rule: policies_operation.induct)
  case (1 include_deleted)
  show ?case unfolding policies_list_def policies_get_json_def forgetP_try_bind
    by (rule scoped_call [where pairs = "if include_deleted then [(''include_deleted'', ''true'')] else []"]) simp
next
  case (5 name v1 v2)
  show ?case unfolding policies_diff_def policies_get_json_def
    by (rule scoped_call [where pairs = "[(''from'', show_i64 v1), (''to'', show_i64 v2)]"]) simp
qed (unfold policies_defs, (rule scoped_call [where pairs = "[]"], simp)+)

text \<open>All calls of the client, by how they name a tenant: the twenty of \<open>policies_operation\<close> act
  for the tenant of the client; the owner step of the tenant lifecycle and the provisioning of a
  tenant act on the tenant they are given, which is a segment of their path.\<close>

datatype policies_target = ClientTenant | LifecycleOf string | ProvisionOf string

inductive policies_call :: "libs \<Rightarrow> 'p policies_client \<Rightarrow> policies_target \<Rightarrow> (clavenar_error, unit) prog \<Rightarrow> bool"
  for L c where
  "policies_operation L c p \<Longrightarrow> policies_call L c ClientTenant p"
| "policies_call L c (LifecycleOf t) (forgetP (policies_tenant_lifecycle L c t operation_id kind))"
| "policies_call L c (ProvisionOf t) (provision_tenant L c t)"

fun addressed :: "libs \<Rightarrow> 'p policies_client \<Rightarrow> policies_target \<Rightarrow> http_request \<Rightarrow> bool" where
  "addressed L c ClientTenant q \<longleftrightarrow> tenant_scoped L c q"
| "addressed L c (LifecycleOf t) q \<longleftrightarrow>
     url_join L (po_base_url c) (''admin/tenants/'' @ percent_encode t @ ''/lifecycle'') = Inr (hr_url q)"
| "addressed L c (ProvisionOf t) q \<longleftrightarrow>
     url_join L (po_base_url c) (''policies/tenant/'' @ percent_encode t @ ''/provision'') = Inr (hr_url q)"

fun succeeds_on :: "policies_target \<Rightarrow> nat set" where
  "succeeds_on (ProvisionOf t) = {200..299}"
| "succeeds_on _ = {200, 201}"

lemma lifecycle_addressed:
  "confined_call (addressed L c (LifecycleOf t)) (po_bearer c)
     (forgetP (policies_tenant_lifecycle L c t operation_id kind))"
  unfolding policies_tenant_lifecycle_def policies_send_json_def
  by (rule confined_one_call) (auto simp: join_endpoint_Inr dest: join_endpoint_Inl)

lemma provision_addressed:
  assumes "runs (provision_tenant L c t) es r"
  shows "(es = [] \<and> (\<exists>m. r = Inl (InvalidConfig m)))
    \<or> (\<exists>q z. es = [Sent q z] \<and> addressed L c (ProvisionOf t) q
         \<and> filter (\<lambda>h. fst h = ''authorization'') (hr_headers q) = token_headers (po_bearer c)
         \<and> (case z of Inl e \<Rightarrow> r = Inl (Transport e) | Inr resp \<Rightarrow> is_ok r \<longrightarrow> hs_status resp \<in> {200..299}))"
proof (cases "join_endpoint L (po_base_url c) (''policies/tenant/'' @ percent_encode t @ ''/provision'') ''provision''")
  case (Inl e)
  with assms join_endpoint_Inl [OF Inl] show ?thesis by (simp add: provision_tenant_def)
next
  case (Inr url)
  let ?q = "with_token (po_bearer c) (request POST url)"
  from assms Inr obtain z where es: "es = [Sent ?q z]" and r: "r = reply_of read_provision z"
    by (auto simp: provision_tenant_def provision.one_request)
  have "case z of Inl e \<Rightarrow> r = Inl (Transport e) | Inr resp \<Rightarrow> is_ok r \<longrightarrow> hs_status resp \<in> {200..299}"
    unfolding r by (auto simp: read_provision_def bindR_def split: sum.splits)
  moreover have "addressed L c (ProvisionOf t) ?q" using Inr by (simp add: join_endpoint_Inr)
  ultimately show ?thesis using es by (intro disjI2 exI [of _ ?q] exI [of _ z]) simp
qed

text \<open>C27: every call of the policies client makes at most one request, with the client's bearer
  as its only credential. A call for the client's own tenant carries that tenant as the first
  query pair of its endpoint, nothing the call adds after it names a tenant again, and a client
  without a tenant adds none. The two calls that act on a tenant they are given, the lifecycle
  step and the provisioning, have that tenant encoded in their path, and their URL is exactly the
  joined path: it carries no tenant query. Only a 200 or a 201 is a success, and for the
  provisioning a status from 200 to 299.\<close>

theorem policies_calls_scoped:
  assumes "policies_call L c target p" and "runs p es r"
  shows "(es = [] \<and> (\<exists>m. r = Inl (InvalidConfig m)))
    \<or> (\<exists>q z. es = [Sent q z] \<and> addressed L c target q
         \<and> filter (\<lambda>h. fst h = ''authorization'') (hr_headers q) = token_headers (po_bearer c)
         \<and> (case z of Inl e \<Rightarrow> r = Inl (Transport e)
            | Inr resp \<Rightarrow> is_ok r \<longrightarrow> hs_status resp \<in> succeeds_on target))"
  using assms(1)
proof cases
  case 1
  show ?thesis
    using policies_operation_scoped [OF 1(2)] assms(2)
    unfolding confined_call_def 1(1) addressed.simps succeeds_on.simps insert_iff empty_iff simp_thms by blast
next
  case (2 t operation_id kind)
  show ?thesis
    using lifecycle_addressed [of L c t operation_id kind] assms(2)
    unfolding confined_call_def 2 succeeds_on.simps insert_iff empty_iff simp_thms by blast
next
  case (3 t)
  show ?thesis
    using provision_addressed [of L c t] assms(2) unfolding 3 succeeds_on.simps by blast
qed

definition sample_policies :: "unit policies_client" where
  "sample_policies = \<lparr>po_base_url = ''http://e/'', po_http = (), po_bearer = None, po_tenant = Some ''acme''\<rparr>"

lemma sample_policies_sel [simp]: "po_base_url sample_policies = ''http://e/''" "po_bearer sample_policies = None"
  "po_tenant sample_policies = Some ''acme''" "tenant_pairs sample_policies = [(''tenant'', ''acme'')]"
  by (simp_all add: sample_policies_def tenant_pairs_def)

lemma sample_policies_join:
  "policies_join sample_libs sample_policies suffix = Inr (''http://e/'' @ suffix @ ''?tenant=acme'')"
  by (simp add: policies_join_def join_endpoint_def) (simp add: sample_libs_def)

theorem policies_calls_scoped_witness:
  "\<exists>q z. [Sent (request GET ''http://e/policies/templates?tenant=acme'') (Inl ''timeout'')] = [Sent q z]
     \<and> tenant_scoped sample_libs sample_policies q"
proof -
  have "runs (forgetP (list_templates sample_libs sample_policies))
      [Sent (request GET ''http://e/policies/templates?tenant=acme'') (Inl ''timeout'')] (Inl (Transport ''timeout''))"
    by (simp add: list_templates_def sample_policies_join policies_get_json_def forgetP_def decoded.mapped with_token_def)
  from policies_calls_scoped [OF policies_call.intros(1) [OF policies_operation.intros(16)] this] show ?thesis by simp
qed

section \<open>Conflicts\<close>

text \<open>The operations under optimistic concurrency, with the version each one expects.\<close>

inductive versioned_mutation ::
  "libs \<Rightarrow> 'p policies_client \<Rightarrow> string \<Rightarrow> i64 \<Rightarrow> (clavenar_error, mutation_response) prog \<Rightarrow> bool"
  for L c name where
  "versioned_mutation L c name (up_expected_current_version u) (policies_update L c name u)"
| "versioned_mutation L c name (st_expected_current_version s) (policies_activate L c name s)"
| "versioned_mutation L c name (st_expected_current_version s) (policies_deactivate L c name s)"
| "versioned_mutation L c name (st_expected_current_version s) (policies_delete L c name s)"

definition body_member :: "http_request \<Rightarrow> string \<Rightarrow> json option" where
  "body_member q k = (case hr_body q of JsonBody (JObject kvs) \<Rightarrow> map_of kvs k | _ \<Rightarrow> None)"

lemma runs_built_call: "runs (tryP b (policies_send_json L c d m body)) es r \<longleftrightarrow>
    (\<exists>e. b = Inl e \<and> es = [] \<and> r = Inl e)
    \<or> (\<exists>url z. b = Inr url \<and> es = [Sent (with_token (po_bearer c) (json_body body (request m url))) z]
        \<and> r = reply_of (read_decoded L d) z)"
  by (cases b) (auto simp: policies_send_json_def decoded.one_request)

lemma read_decoded_other: "read_text_limited resp = Inr raw \<Longrightarrow> hs_status resp \<notin> {200, 201, 400, 401} \<Longrightarrow>
    read_decoded L d resp = Inl (Server (hs_status resp) raw)"
  by (simp add: read_decoded_def decode_response_def)

text \<open>C28: a versioned mutation sends the version the caller expects to replace, and a lost race is
  never silent: a 409 is an error that carries the body verbatim, from which
  \<open>parse_conflict\<close> reads the current row back when the service sent one.\<close>

theorem lost_update_is_reported:
  assumes "versioned_mutation L c name v p" and "runs p es r" and "Sent q z \<in> set es"
  shows "body_member q ''expected_current_version'' = Some (enc_i64 v)
    \<and> (\<forall>resp raw. z = Inr resp \<and> hs_status resp = 409 \<and> read_text_limited resp = Inr raw \<longrightarrow>
         r = Inl (Server 409 raw)
         \<and> (\<forall>cf. json_parse L raw = Some (enc_conflict_response cf) \<longrightarrow> parse_conflict L raw = Some cf))"
proof -
  have conflict: "parse_conflict L raw = Some cf" if "json_parse L raw = Some (enc_conflict_response cf)" for raw cf
    using that conflict_response_codec.read_back [of cf] by (simp add: parse_conflict_def from_str_def)
  have sent: "body_member q ''expected_current_version'' = Some (enc_i64 v) \<and> r = reply_of (read_decoded L dec_mutation_response) z"
    using assms
    by (induction rule: versioned_mutation.induct)
      (auto simp: policies_update_def policies_activate_def policies_deactivate_def policies_delete_def
        runs_built_call body_member_def enc_update_policy_request_def enc_state_change_request_def)
  with conflict show ?thesis using read_decoded_other [of _ _ L dec_mutation_response] by auto
qed

definition sample_update :: update_policy_request where
  "sample_update = \<lparr>up_body = ''b'', up_reason = ''r'', up_actor_sub = ''s'', up_actor_idp = ''i'',
     up_expected_current_version = 3\<rparr>"

theorem lost_update_is_reported_witness:
  "runs (policies_update sample_libs sample_policies ''p'' sample_update)
     [Sent (json_body (enc_update_policy_request sample_update) (request PUT ''http://e/policies/p?tenant=acme''))
        (Inr (reply 409 ''x''))] (Inl (Server 409 ''x''))"
proof -
  have p: "percent_encode ''p'' = ''p''" by code_simp
  let ?q = "json_body (enc_update_policy_request sample_update) (request PUT ''http://e/policies/p?tenant=acme'')"
  obtain r where run: "runs (policies_update sample_libs sample_policies ''p'' sample_update)
     [Sent ?q (Inr (reply 409 ''x''))] r"
    by (simp add: policies_update_def sample_policies_join policy_suffix_def p policies_send_json_def decoded.one_request with_token_def)
  have "r = Inl (Server 409 ''x'')"
    using lost_update_is_reported [OF versioned_mutation.intros(1) run, of ?q "Inr (reply 409 ''x'')"]
    by (simp add: byte_def)
  with run show ?thesis by simp
qed

section \<open>Compile errors\<close>

text \<open>C29: a candidate the engine cannot compile (a 400) reaches the caller of
  \<open>evaluate_batch\<close> as \<open>BadRequest\<close> with the body verbatim, never as \<open>Server\<close>; the typed error
  is read back from that body.\<close>

theorem compile_error_is_a_bad_request:
  assumes "runs (evaluate_batch L c req) es r" and "Sent q (Inr resp) \<in> set es"
    and "hs_status resp = 400" and "read_text_limited resp = Inr raw"
  shows "r = Inl (BadRequest raw)
    \<and> (\<forall>e. json_parse L raw = Some (enc_evaluate_batch_error e) \<longrightarrow> parse_batch_error L raw = Some e)"
proof
  show "r = Inl (BadRequest raw)"
    using assms by (auto simp: evaluate_batch_def runs_built_call read_decoded_def decode_response_def)
  show "\<forall>e. json_parse L raw = Some (enc_evaluate_batch_error e) \<longrightarrow> parse_batch_error L raw = Some e"
    using evaluate_batch_error_codec.read_back by (simp add: parse_batch_error_def from_str_def)
qed

definition sample_batch_request :: evaluate_batch_request where
  "sample_batch_request = \<lparr>eb_candidate_rego = ''x'', eb_candidate_name = ''n'', eb_mode = Add,
     eb_replace_rule_name = None, eb_inputs = []\<rparr>"

theorem compile_error_is_a_bad_request_witness:
  "runs (evaluate_batch sample_libs sample_policies sample_batch_request)
     [Sent (json_body (enc_evaluate_batch_request sample_batch_request)
         (request POST ''http://e/policies/evaluate-batch?tenant=acme''))
        (Inr (reply 400 ''x''))] (Inl (BadRequest ''x''))"
proof -
  let ?q = "json_body (enc_evaluate_batch_request sample_batch_request)
         (request POST ''http://e/policies/evaluate-batch?tenant=acme'')"
  obtain r where run: "runs (evaluate_batch sample_libs sample_policies sample_batch_request)
     [Sent ?q (Inr (reply 400 ''x''))] r"
    by (simp add: evaluate_batch_def sample_policies_join policies_send_json_def decoded.one_request with_token_def)
  have "r = Inl (BadRequest ''x'')"
    using compile_error_is_a_bad_request [OF run, of ?q "reply 400 ''x''" "''x''"] by (simp add: byte_def)
  with run show ?thesis by simp
qed

section \<open>Provisioning and details\<close>

text \<open>Provisioning a tenant succeeds exactly on a status from 200 to 299, whatever the body,
  even one that is oversized, broken or not text; on any other status the error is that
  status with the body, or what reading the body gave.\<close>

theorem provision_depends_on_status:
  assumes "runs (provision_tenant L c prefix) es r"
  shows "(es = [] \<and> (\<exists>m. r = Inl (InvalidConfig m)))
    \<or> (\<exists>q z. es = [Sent q z] \<and> hr_method q = POST \<and> hr_body q = NoBody
        \<and> (case z of Inl e \<Rightarrow> r = Inl (Transport e)
           | Inr resp \<Rightarrow> (r = Inr () \<longleftrightarrow> 200 \<le> hs_status resp \<and> hs_status resp \<le> 299)
               \<and> (\<forall>raw. r \<noteq> Inr () \<and> read_text_limited resp = Inr raw \<longrightarrow> r = Inl (Server (hs_status resp) raw))))"
proof (cases "join_endpoint L (po_base_url c) (''policies/tenant/'' @ percent_encode prefix @ ''/provision'') ''provision''")
  case (Inl e)
  with assms join_endpoint_Inl [OF Inl] show ?thesis by (simp add: provision_tenant_def)
next
  case (Inr url)
  let ?q = "with_token (po_bearer c) (request POST url)"
  from assms Inr obtain z where es: "es = [Sent ?q z]" and r: "r = reply_of read_provision z"
    by (auto simp: provision_tenant_def provision.one_request)
  have "case z of Inl e \<Rightarrow> r = Inl (Transport e)
     | Inr resp \<Rightarrow> (r = Inr () \<longleftrightarrow> 200 \<le> hs_status resp \<and> hs_status resp \<le> 299)
         \<and> (\<forall>raw. r \<noteq> Inr () \<and> read_text_limited resp = Inr raw \<longrightarrow> r = Inl (Server (hs_status resp) raw))"
    unfolding r by (auto simp: read_provision_def bindR_def split: sum.splits)
  with es show ?thesis by (intro disjI2 exI [of _ ?q] exI [of _ z]) simp
qed

theorem provision_depends_on_status_witness:
  "runs (provision_tenant sample_libs sample_policies ''d'')
     [Sent (request POST ''http://e/policies/tenant/d/provision'') (Inr (reply 204 ''x''))] (Inr ())"
proof -
  have d: "percent_encode ''d'' = ''d''" by code_simp
  obtain r where run: "runs (provision_tenant sample_libs sample_policies ''d'')
     [Sent (request POST ''http://e/policies/tenant/d/provision'') (Inr (reply 204 ''x''))] r"
    by (simp add: provision_tenant_def join_endpoint_def d provision.one_request with_token_def)
  have "r = Inr ()" using provision_depends_on_status [OF run] by auto
  with run show ?thesis by simp
qed

text \<open>The details of a policy and of a template, flattened into one object with their bodies,
  are read back unchanged, and a reader of the plain row reads the same row.\<close>

theorem policy_details_flattened:
  "dec_policy_detail (enc_policy_detail d) = Some d
   \<and> dec_policy_row (enc_policy_detail d) = Some (pd_policy d)
   \<and> dec_policy_template_detail (enc_policy_template_detail t) = Some t"
proof (intro conjI)
  show "dec_policy_detail (enc_policy_detail d) = Some d" by (rule policy_detail_codec.read_back) simp
  show "dec_policy_row (enc_policy_detail d) = Some (pd_policy d)"
    by (auto simp: enc_policy_detail_def enc_policy_row_def dec_policy_row_def members_def record_simps)
  show "dec_policy_template_detail (enc_policy_template_detail t) = Some t"
    by (rule policy_template_detail_codec.read_back) simp
qed

end
