(* ===== verification/Wire_Hil.thy ===== *)
theory Wire_Hil
  imports Rest
begin

text \<open>
  The wire types of the human-in-the-loop surface (hil.rs): the modification contract, a
  pending request with everything a reviewer sees, the decision body, decision links, the
  tenant lifecycle and legal holds, channel status and approval statistics. Conventions are
  those of \<open>Wire_Authorization\<close>; most replies are only read.
\<close>

section \<open>Modifications and principals\<close>

definition MODIFICATION_DIFF_CONTRACT :: string where
  "MODIFICATION_DIFF_CONTRACT = ''clavenar.hil.modification-diff/v1''"

record argument_scalar_replacement =
  as_path :: "string list"
  as_value :: json

definition enc_argument_scalar_replacement :: "argument_scalar_replacement \<Rightarrow> json" where
  "enc_argument_scalar_replacement x = JObject (
    [(''path'', enc_list JString (as_path x)),
      (''value'', as_value x)])"

definition dec_argument_scalar_replacement :: "argument_scalar_replacement dec" where
  "dec_argument_scalar_replacement j = do {
     f \<leftarrow> struct_fields True
       [''path'', ''value''] j;
     v1 \<leftarrow> need f ''path'' (dec_list dec_string);
     v2 \<leftarrow> need f ''value'' dec_value;
     Some \<lparr>as_path = v1,
       as_value = v2\<rparr> }"

definition ok_argument_scalar_replacement :: "argument_scalar_replacement \<Rightarrow> bool" where
  "ok_argument_scalar_replacement x \<longleftrightarrow> json_wf (as_value x)"

interpretation argument_scalar_replacement_codec: codec enc_argument_scalar_replacement dec_argument_scalar_replacement ok_argument_scalar_replacement
  by unfold_locales
    (auto simp: enc_argument_scalar_replacement_def dec_argument_scalar_replacement_def ok_argument_scalar_replacement_def record_simps split: option.split)

record modification_diff =
  md_contract :: string
  md_replacements :: "argument_scalar_replacement list"

definition enc_modification_diff :: "modification_diff \<Rightarrow> json" where
  "enc_modification_diff x = JObject (
    [(''contract'', JString (md_contract x)),
      (''replacements'', enc_list enc_argument_scalar_replacement (md_replacements x))])"

definition dec_modification_diff :: "modification_diff dec" where
  "dec_modification_diff j = do {
     f \<leftarrow> struct_fields True
       [''contract'', ''replacements''] j;
     v1 \<leftarrow> need f ''contract'' dec_string;
     v2 \<leftarrow> need f ''replacements'' (dec_list dec_argument_scalar_replacement);
     Some \<lparr>md_contract = v1,
       md_replacements = v2\<rparr> }"

definition ok_modification_diff :: "modification_diff \<Rightarrow> bool" where
  "ok_modification_diff x \<longleftrightarrow> list_all ok_argument_scalar_replacement (md_replacements x)"

interpretation modification_diff_codec: codec enc_modification_diff dec_modification_diff ok_modification_diff
  by unfold_locales
    (auto simp: enc_modification_diff_def dec_modification_diff_def ok_modification_diff_def record_simps argument_scalar_replacement_codec.read_back argument_scalar_replacement_codec.read_back_list argument_scalar_replacement_codec.read_back_option split: option.split)

definition modification_diff_v1 :: "argument_scalar_replacement list \<Rightarrow> modification_diff" where
  "modification_diff_v1 replacements = \<lparr>md_contract = MODIFICATION_DIFF_CONTRACT, md_replacements = replacements\<rparr>"

datatype decision_principal_method =
    Oidc | Saml | BasicAdmin | OperatorMtls

fun enc_decision_principal_method :: "decision_principal_method \<Rightarrow> json" where
  "enc_decision_principal_method Oidc = JString ''oidc''"
| "enc_decision_principal_method Saml = JString ''saml''"
| "enc_decision_principal_method BasicAdmin = JString ''basic-admin''"
| "enc_decision_principal_method OperatorMtls = JString ''operator-mtls''"

definition dec_decision_principal_method :: "decision_principal_method dec" where
  "dec_decision_principal_method = dec_enum [(''oidc'', Oidc),
     (''saml'', Saml),
     (''basic-admin'', BasicAdmin),
     (''operator-mtls'', OperatorMtls)]"

lemma dec_enc_decision_principal_method [simp]: "dec_decision_principal_method (enc_decision_principal_method x) = Some x"
  by (cases x) (simp_all add: dec_decision_principal_method_def dec_enum_def)

lemma dec_option_decision_principal_method [simp]: "dec_option dec_decision_principal_method (enc_decision_principal_method x) = Some (Some x)"
  by (cases x) (simp_all add: dec_option_def dec_decision_principal_method_def dec_enum_def)

lemma enc_decision_principal_method_scalar [simp]: "enc_decision_principal_method x \<noteq> JNull"
  by (cases x) simp_all

record console_principal_claim =
  pc_subject :: string
  pc_tenant :: string
  pc_method :: decision_principal_method

definition enc_console_principal_claim :: "console_principal_claim \<Rightarrow> json" where
  "enc_console_principal_claim x = JObject (
    [(''subject'', JString (pc_subject x)),
      (''tenant'', JString (pc_tenant x)),
      (''method'', enc_decision_principal_method (pc_method x))])"

section \<open>Pending requests\<close>

datatype pending_status =
    HilPending | HilApproved | HilDenied | HilExpired

fun enc_pending_status :: "pending_status \<Rightarrow> json" where
  "enc_pending_status HilPending = JString ''pending''"
| "enc_pending_status HilApproved = JString ''approved''"
| "enc_pending_status HilDenied = JString ''denied''"
| "enc_pending_status HilExpired = JString ''expired''"

definition dec_pending_status :: "pending_status dec" where
  "dec_pending_status = dec_enum [(''pending'', HilPending),
     (''approved'', HilApproved),
     (''denied'', HilDenied),
     (''expired'', HilExpired)]"

lemma dec_enc_pending_status [simp]: "dec_pending_status (enc_pending_status x) = Some x"
  by (cases x) (simp_all add: dec_pending_status_def dec_enum_def)

lemma dec_option_pending_status [simp]: "dec_option dec_pending_status (enc_pending_status x) = Some (Some x)"
  by (cases x) (simp_all add: dec_option_def dec_pending_status_def dec_enum_def)

lemma enc_pending_status_scalar [simp]: "enc_pending_status x \<noteq> JNull"
  by (cases x) simp_all

fun status_label :: "pending_status \<Rightarrow> string" where
  "status_label HilPending = ''Pending''"
| "status_label HilApproved = ''Approved''"
| "status_label HilDenied = ''Denied''"
| "status_label HilExpired = ''Expired''"

record hil_retention_metadata =
  rm_retention_policy :: string
  rm_retention_purpose :: string
  rm_retention_tier :: string
  rm_payload_protection :: string
  rm_payload_key_id :: string
  rm_protected_at :: datetime
  rm_payload_retention_expires_at :: datetime
  rm_metadata_retention_expires_at :: datetime
  rm_payload_availability :: string
  rm_minimization_profile :: string
  rm_minimized_payload :: json

definition dec_hil_retention_metadata :: "libs \<Rightarrow> hil_retention_metadata dec" where
  "dec_hil_retention_metadata L j = do {
     f \<leftarrow> struct_fields False
       [''retention_policy'', ''retention_purpose'', ''retention_tier'',
        ''payload_protection'', ''payload_key_id'', ''protected_at'',
        ''payload_retention_expires_at'', ''metadata_retention_expires_at'',
        ''payload_availability'', ''minimization_profile'', ''minimized_payload''] j;
     v1 \<leftarrow> need f ''retention_policy'' dec_string;
     v2 \<leftarrow> need f ''retention_purpose'' dec_string;
     v3 \<leftarrow> need f ''retention_tier'' dec_string;
     v4 \<leftarrow> need f ''payload_protection'' dec_string;
     v5 \<leftarrow> need f ''payload_key_id'' dec_string;
     v6 \<leftarrow> need f ''protected_at'' (dec_datetime L);
     v7 \<leftarrow> need f ''payload_retention_expires_at'' (dec_datetime L);
     v8 \<leftarrow> need f ''metadata_retention_expires_at'' (dec_datetime L);
     v9 \<leftarrow> need f ''payload_availability'' dec_string;
     v10 \<leftarrow> need f ''minimization_profile'' dec_string;
     v11 \<leftarrow> need f ''minimized_payload'' dec_value;
     Some \<lparr>rm_retention_policy = v1,
       rm_retention_purpose = v2,
       rm_retention_tier = v3,
       rm_payload_protection = v4,
       rm_payload_key_id = v5,
       rm_protected_at = v6,
       rm_payload_retention_expires_at = v7,
       rm_metadata_retention_expires_at = v8,
       rm_payload_availability = v9,
       rm_minimization_profile = v10,
       rm_minimized_payload = v11\<rparr> }"

record pending_request =
  hp_id :: uuid
  hp_correlation_id :: uuid
  hp_agent_id :: string
  hp_method :: string
  hp_request_payload :: json
  hp_risk_summary :: string
  hp_created_at :: datetime
  hp_ttl_seconds :: i64
  hp_status :: pending_status
  hp_decided_at :: "datetime option"
  hp_decided_by :: "string option"
  hp_decision_reason :: "string option"
  hp_modified_payload :: "json option"
  hp_modification_diff :: "modification_diff option"
  hp_original_payload_digest :: "string option"
  hp_reviewed_payload_digest :: "string option"
  hp_candidate_execution_payload_digest :: "string option"
  hp_sandbox_report :: "json option"
  hp_delegation_jti :: "string option"
  hp_human_sub :: "string option"
  hp_approver_assertion :: "json option"
  hp_escalated_at :: "datetime option"
  hp_incident_summary :: "string option"
  hp_grant_max_uses :: "i64 option"
  hp_grant_not_before :: "i64 option"
  hp_grant_not_after :: "i64 option"
  hp_grant_recurrence_summary :: "string option"
  hp_brain_scores :: "json option"
  hp_required_approvers :: "i64 option"
  hp_approvals :: "json option"
  hp_assigned_to :: "string option"
  hp_escalation_pool :: "string option"
  hp_projected_cost_micros :: "i64 option"
  hp_approval_tier :: "string option"
  hp_tenant :: "string option"
  hp_retention :: "hil_retention_metadata option"

definition dec_pending_request :: "libs \<Rightarrow> pending_request dec" where
  "dec_pending_request L j = do {
     f \<leftarrow> struct_fields False
       [''id'', ''correlation_id'', ''agent_id'', ''method'', ''request_payload'',
        ''risk_summary'', ''created_at'', ''ttl_seconds'', ''status'', ''decided_at'',
        ''decided_by'', ''decision_reason'', ''modified_payload'', ''modification_diff'',
        ''original_payload_digest'', ''reviewed_payload_digest'',
        ''candidate_execution_payload_digest'', ''sandbox_report'', ''delegation_jti'',
        ''human_sub'', ''approver_assertion'', ''escalated_at'', ''incident_summary'',
        ''grant_max_uses'', ''grant_not_before'', ''grant_not_after'',
        ''grant_recurrence_summary'', ''brain_scores'', ''required_approvers'',
        ''approvals'', ''assigned_to'', ''escalation_pool'', ''projected_cost_micros'',
        ''approval_tier'', ''tenant'', ''retention''] j;
     v1 \<leftarrow> need f ''id'' (dec_uuid L);
     v2 \<leftarrow> need f ''correlation_id'' (dec_uuid L);
     v3 \<leftarrow> need f ''agent_id'' dec_string;
     v4 \<leftarrow> need f ''method'' dec_string;
     v5 \<leftarrow> need f ''request_payload'' dec_value;
     v6 \<leftarrow> need f ''risk_summary'' dec_string;
     v7 \<leftarrow> need f ''created_at'' (dec_datetime L);
     v8 \<leftarrow> need f ''ttl_seconds'' dec_i64;
     v9 \<leftarrow> need f ''status'' dec_pending_status;
     v10 \<leftarrow> dflt f ''decided_at'' None (dec_option (dec_datetime L));
     v11 \<leftarrow> dflt f ''decided_by'' None (dec_option dec_string);
     v12 \<leftarrow> dflt f ''decision_reason'' None (dec_option dec_string);
     v13 \<leftarrow> dflt f ''modified_payload'' None (dec_option dec_value);
     v14 \<leftarrow> dflt f ''modification_diff'' None (dec_option dec_modification_diff);
     v15 \<leftarrow> dflt f ''original_payload_digest'' None (dec_option dec_string);
     v16 \<leftarrow> dflt f ''reviewed_payload_digest'' None (dec_option dec_string);
     v17 \<leftarrow> dflt f ''candidate_execution_payload_digest'' None (dec_option dec_string);
     v18 \<leftarrow> dflt f ''sandbox_report'' None (dec_option dec_value);
     v19 \<leftarrow> dflt f ''delegation_jti'' None (dec_option dec_string);
     v20 \<leftarrow> dflt f ''human_sub'' None (dec_option dec_string);
     v21 \<leftarrow> dflt f ''approver_assertion'' None (dec_option dec_value);
     v22 \<leftarrow> dflt f ''escalated_at'' None (dec_option (dec_datetime L));
     v23 \<leftarrow> dflt f ''incident_summary'' None (dec_option dec_string);
     v24 \<leftarrow> dflt f ''grant_max_uses'' None (dec_option dec_i64);
     v25 \<leftarrow> dflt f ''grant_not_before'' None (dec_option dec_i64);
     v26 \<leftarrow> dflt f ''grant_not_after'' None (dec_option dec_i64);
     v27 \<leftarrow> dflt f ''grant_recurrence_summary'' None (dec_option dec_string);
     v28 \<leftarrow> dflt f ''brain_scores'' None (dec_option dec_value);
     v29 \<leftarrow> dflt f ''required_approvers'' None (dec_option dec_i64);
     v30 \<leftarrow> dflt f ''approvals'' None (dec_option dec_value);
     v31 \<leftarrow> dflt f ''assigned_to'' None (dec_option dec_string);
     v32 \<leftarrow> dflt f ''escalation_pool'' None (dec_option dec_string);
     v33 \<leftarrow> dflt f ''projected_cost_micros'' None (dec_option dec_i64);
     v34 \<leftarrow> dflt f ''approval_tier'' None (dec_option dec_string);
     v35 \<leftarrow> dflt f ''tenant'' None (dec_option dec_string);
     v36 \<leftarrow> dflt f ''retention'' None (dec_option (dec_hil_retention_metadata L));
     Some \<lparr>hp_id = v1,
       hp_correlation_id = v2,
       hp_agent_id = v3,
       hp_method = v4,
       hp_request_payload = v5,
       hp_risk_summary = v6,
       hp_created_at = v7,
       hp_ttl_seconds = v8,
       hp_status = v9,
       hp_decided_at = v10,
       hp_decided_by = v11,
       hp_decision_reason = v12,
       hp_modified_payload = v13,
       hp_modification_diff = v14,
       hp_original_payload_digest = v15,
       hp_reviewed_payload_digest = v16,
       hp_candidate_execution_payload_digest = v17,
       hp_sandbox_report = v18,
       hp_delegation_jti = v19,
       hp_human_sub = v20,
       hp_approver_assertion = v21,
       hp_escalated_at = v22,
       hp_incident_summary = v23,
       hp_grant_max_uses = v24,
       hp_grant_not_before = v25,
       hp_grant_not_after = v26,
       hp_grant_recurrence_summary = v27,
       hp_brain_scores = v28,
       hp_required_approvers = v29,
       hp_approvals = v30,
       hp_assigned_to = v31,
       hp_escalation_pool = v32,
       hp_projected_cost_micros = v33,
       hp_approval_tier = v34,
       hp_tenant = v35,
       hp_retention = v36\<rparr> }"

section \<open>Decisions\<close>

datatype decision =
    Approve | Deny | Modify

fun enc_decision :: "decision \<Rightarrow> json" where
  "enc_decision Approve = JString ''approve''"
| "enc_decision Deny = JString ''deny''"
| "enc_decision Modify = JString ''modify''"

record decide_request =
  dq_decision :: decision
  dq_decided_by :: string
  dq_reason :: "string option"
  dq_modification_diff :: "modification_diff option"
  dq_approver_assertion :: "json option"
  dq_decided_via :: "string option"
  dq_tenant :: "string option"

definition enc_decide_request :: "decide_request \<Rightarrow> json" where
  "enc_decide_request x = JObject (
    [(''decision'', enc_decision (dq_decision x)),
      (''decided_by'', JString (dq_decided_by x))]
    @ skip_none ''reason'' JString (dq_reason x)
    @ skip_none ''modification_diff'' enc_modification_diff (dq_modification_diff x)
    @ skip_none ''approver_assertion'' (\<lambda>j. j) (dq_approver_assertion x)
    @ skip_none ''decided_via'' JString (dq_decided_via x)
    @ skip_none ''tenant'' JString (dq_tenant x))"

record decision_link_pending =
  dp_agent_id :: string
  dp_method :: string
  dp_tool :: "string option"
  dp_risk_summary :: string
  dp_status :: string
  dp_correlation_id :: string
  dp_tenant :: "string option"

definition dec_decision_link_pending :: "decision_link_pending dec" where
  "dec_decision_link_pending j = do {
     f \<leftarrow> struct_fields False
       [''agent_id'', ''method'', ''tool'', ''risk_summary'', ''status'',
        ''correlation_id'', ''tenant''] j;
     v1 \<leftarrow> need f ''agent_id'' dec_string;
     v2 \<leftarrow> need f ''method'' dec_string;
     v3 \<leftarrow> dflt f ''tool'' None (dec_option dec_string);
     v4 \<leftarrow> need f ''risk_summary'' dec_string;
     v5 \<leftarrow> need f ''status'' dec_string;
     v6 \<leftarrow> need f ''correlation_id'' dec_string;
     v7 \<leftarrow> dflt f ''tenant'' None (dec_option dec_string);
     Some \<lparr>dp_agent_id = v1,
       dp_method = v2,
       dp_tool = v3,
       dp_risk_summary = v4,
       dp_status = v5,
       dp_correlation_id = v6,
       dp_tenant = v7\<rparr> }"

record decision_link_verify =
  dl_valid :: bool
  dl_reason :: string
  dl_pending_id :: "uuid option"
  dl_action :: "string option"
  dl_pending :: "decision_link_pending option"

definition dec_decision_link_verify :: "libs \<Rightarrow> decision_link_verify dec" where
  "dec_decision_link_verify L j = do {
     f \<leftarrow> struct_fields False
       [''valid'', ''reason'', ''pending_id'', ''action'', ''pending''] j;
     v1 \<leftarrow> need f ''valid'' dec_bool;
     v2 \<leftarrow> need f ''reason'' dec_string;
     v3 \<leftarrow> dflt f ''pending_id'' None (dec_option (dec_uuid L));
     v4 \<leftarrow> dflt f ''action'' None (dec_option dec_string);
     v5 \<leftarrow> dflt f ''pending'' None (dec_option dec_decision_link_pending);
     Some \<lparr>dl_valid = v1,
       dl_reason = v2,
       dl_pending_id = v3,
       dl_action = v4,
       dl_pending = v5\<rparr> }"

datatype hil_decide_credential =
    SessionCookie string
  | BearerPrincipal string string decision_principal_method   \<comment> \<open>token, subject, method\<close>
  | DemoSession string

section \<open>Administration\<close>

datatype hil_tenant_lifecycle_kind =
    HilProvision | HilOffboard

fun enc_hil_tenant_lifecycle_kind :: "hil_tenant_lifecycle_kind \<Rightarrow> json" where
  "enc_hil_tenant_lifecycle_kind HilProvision = JString ''provision''"
| "enc_hil_tenant_lifecycle_kind HilOffboard = JString ''offboard''"

definition dec_hil_tenant_lifecycle_kind :: "hil_tenant_lifecycle_kind dec" where
  "dec_hil_tenant_lifecycle_kind = dec_enum [(''provision'', HilProvision),
     (''offboard'', HilOffboard)]"

lemma dec_enc_hil_tenant_lifecycle_kind [simp]: "dec_hil_tenant_lifecycle_kind (enc_hil_tenant_lifecycle_kind x) = Some x"
  by (cases x) (simp_all add: dec_hil_tenant_lifecycle_kind_def dec_enum_def)

lemma dec_option_hil_tenant_lifecycle_kind [simp]: "dec_option dec_hil_tenant_lifecycle_kind (enc_hil_tenant_lifecycle_kind x) = Some (Some x)"
  by (cases x) (simp_all add: dec_option_def dec_hil_tenant_lifecycle_kind_def dec_enum_def)

lemma enc_hil_tenant_lifecycle_kind_scalar [simp]: "enc_hil_tenant_lifecycle_kind x \<noteq> JNull"
  by (cases x) simp_all

record hil_tenant_lifecycle_receipt =
  ht_tenant :: string
  ht_operation_id :: uuid
  ht_kind :: hil_tenant_lifecycle_kind
  ht_state :: string
  ht_generation :: i64
  ht_pending_denied :: i64
  ht_rows_erased :: i64
  ht_rows_held :: i64
  ht_deletion_audits :: i64
  ht_receipt_sha256 :: string
  ht_updated_at :: string

definition enc_hil_tenant_lifecycle_receipt :: "libs \<Rightarrow> hil_tenant_lifecycle_receipt \<Rightarrow> json" where
  "enc_hil_tenant_lifecycle_receipt L x = JObject (
    [(''tenant'', JString (ht_tenant x)),
      (''operation_id'', enc_uuid L (ht_operation_id x)),
      (''kind'', enc_hil_tenant_lifecycle_kind (ht_kind x)),
      (''state'', JString (ht_state x)),
      (''generation'', enc_i64 (ht_generation x)),
      (''pending_denied'', enc_i64 (ht_pending_denied x)),
      (''rows_erased'', enc_i64 (ht_rows_erased x)),
      (''rows_held'', enc_i64 (ht_rows_held x)),
      (''deletion_audits'', enc_i64 (ht_deletion_audits x)),
      (''receipt_sha256'', JString (ht_receipt_sha256 x)),
      (''updated_at'', JString (ht_updated_at x))])"

definition dec_hil_tenant_lifecycle_receipt :: "libs \<Rightarrow> hil_tenant_lifecycle_receipt dec" where
  "dec_hil_tenant_lifecycle_receipt L j = do {
     f \<leftarrow> struct_fields False
       [''tenant'', ''operation_id'', ''kind'', ''state'', ''generation'',
        ''pending_denied'', ''rows_erased'', ''rows_held'', ''deletion_audits'',
        ''receipt_sha256'', ''updated_at''] j;
     v1 \<leftarrow> need f ''tenant'' dec_string;
     v2 \<leftarrow> need f ''operation_id'' (dec_uuid L);
     v3 \<leftarrow> need f ''kind'' dec_hil_tenant_lifecycle_kind;
     v4 \<leftarrow> need f ''state'' dec_string;
     v5 \<leftarrow> need f ''generation'' dec_i64;
     v6 \<leftarrow> need f ''pending_denied'' dec_i64;
     v7 \<leftarrow> dflt f ''rows_erased'' 0 dec_i64;
     v8 \<leftarrow> dflt f ''rows_held'' 0 dec_i64;
     v9 \<leftarrow> dflt f ''deletion_audits'' 0 dec_i64;
     v10 \<leftarrow> need f ''receipt_sha256'' dec_string;
     v11 \<leftarrow> need f ''updated_at'' dec_string;
     Some \<lparr>ht_tenant = v1,
       ht_operation_id = v2,
       ht_kind = v3,
       ht_state = v4,
       ht_generation = v5,
       ht_pending_denied = v6,
       ht_rows_erased = v7,
       ht_rows_held = v8,
       ht_deletion_audits = v9,
       ht_receipt_sha256 = v10,
       ht_updated_at = v11\<rparr> }"

definition ok_hil_tenant_lifecycle_receipt :: "libs \<Rightarrow> hil_tenant_lifecycle_receipt \<Rightarrow> bool" where
  "ok_hil_tenant_lifecycle_receipt L x \<longleftrightarrow> uuid_laws L"

interpretation hil_tenant_lifecycle_receipt_codec: codec "enc_hil_tenant_lifecycle_receipt L" "dec_hil_tenant_lifecycle_receipt L" "ok_hil_tenant_lifecycle_receipt L"
  by unfold_locales
    (auto simp: enc_hil_tenant_lifecycle_receipt_def dec_hil_tenant_lifecycle_receipt_def ok_hil_tenant_lifecycle_receipt_def record_simps split: option.split)

record hil_tenant_lifecycle_request =
  hq_operation_id :: uuid
  hq_kind :: hil_tenant_lifecycle_kind

definition enc_hil_tenant_lifecycle_request :: "libs \<Rightarrow> hil_tenant_lifecycle_request \<Rightarrow> json" where
  "enc_hil_tenant_lifecycle_request L x = JObject (
    [(''operation_id'', enc_uuid L (hq_operation_id x)),
      (''kind'', enc_hil_tenant_lifecycle_kind (hq_kind x))])"

datatype hil_legal_hold_action =
    HoldApply | HoldRelease

fun enc_hil_legal_hold_action :: "hil_legal_hold_action \<Rightarrow> json" where
  "enc_hil_legal_hold_action HoldApply = JString ''apply''"
| "enc_hil_legal_hold_action HoldRelease = JString ''release''"

definition dec_hil_legal_hold_action :: "hil_legal_hold_action dec" where
  "dec_hil_legal_hold_action = dec_enum [(''apply'', HoldApply),
     (''release'', HoldRelease)]"

lemma dec_enc_hil_legal_hold_action [simp]: "dec_hil_legal_hold_action (enc_hil_legal_hold_action x) = Some x"
  by (cases x) (simp_all add: dec_hil_legal_hold_action_def dec_enum_def)

lemma dec_option_hil_legal_hold_action [simp]: "dec_option dec_hil_legal_hold_action (enc_hil_legal_hold_action x) = Some (Some x)"
  by (cases x) (simp_all add: dec_option_def dec_hil_legal_hold_action_def dec_enum_def)

lemma enc_hil_legal_hold_action_scalar [simp]: "enc_hil_legal_hold_action x \<noteq> JNull"
  by (cases x) simp_all

record hil_legal_hold_receipt =
  hh_contract :: string
  hh_operation_id :: uuid
  hh_action :: hil_legal_hold_action
  hh_hold_id :: uuid
  hh_state :: string
  hh_deletion_disposition :: "string option"
  hh_receipt_sha256 :: string
  hh_updated_at :: string

definition enc_hil_legal_hold_receipt :: "libs \<Rightarrow> hil_legal_hold_receipt \<Rightarrow> json" where
  "enc_hil_legal_hold_receipt L x = JObject (
    [(''contract'', JString (hh_contract x)),
      (''operation_id'', enc_uuid L (hh_operation_id x)),
      (''action'', enc_hil_legal_hold_action (hh_action x)),
      (''hold_id'', enc_uuid L (hh_hold_id x)),
      (''state'', JString (hh_state x))]
    @ skip_none ''deletion_disposition'' JString (hh_deletion_disposition x)
    @ [(''receipt_sha256'', JString (hh_receipt_sha256 x)),
      (''updated_at'', JString (hh_updated_at x))])"

definition dec_hil_legal_hold_receipt :: "libs \<Rightarrow> hil_legal_hold_receipt dec" where
  "dec_hil_legal_hold_receipt L j = do {
     f \<leftarrow> struct_fields False
       [''contract'', ''operation_id'', ''action'', ''hold_id'', ''state'',
        ''deletion_disposition'', ''receipt_sha256'', ''updated_at''] j;
     v1 \<leftarrow> need f ''contract'' dec_string;
     v2 \<leftarrow> need f ''operation_id'' (dec_uuid L);
     v3 \<leftarrow> need f ''action'' dec_hil_legal_hold_action;
     v4 \<leftarrow> need f ''hold_id'' (dec_uuid L);
     v5 \<leftarrow> need f ''state'' dec_string;
     v6 \<leftarrow> opt f ''deletion_disposition'' dec_string;
     v7 \<leftarrow> need f ''receipt_sha256'' dec_string;
     v8 \<leftarrow> need f ''updated_at'' dec_string;
     Some \<lparr>hh_contract = v1,
       hh_operation_id = v2,
       hh_action = v3,
       hh_hold_id = v4,
       hh_state = v5,
       hh_deletion_disposition = v6,
       hh_receipt_sha256 = v7,
       hh_updated_at = v8\<rparr> }"

definition ok_hil_legal_hold_receipt :: "libs \<Rightarrow> hil_legal_hold_receipt \<Rightarrow> bool" where
  "ok_hil_legal_hold_receipt L x \<longleftrightarrow> uuid_laws L"

interpretation hil_legal_hold_receipt_codec: codec "enc_hil_legal_hold_receipt L" "dec_hil_legal_hold_receipt L" "ok_hil_legal_hold_receipt L"
  by unfold_locales
    (auto simp: enc_hil_legal_hold_receipt_def dec_hil_legal_hold_receipt_def ok_hil_legal_hold_receipt_def record_simps split: option.split)

record hil_legal_hold_request =
  hd_operation_id :: uuid
  hd_action :: hil_legal_hold_action
  hd_hold_id :: uuid
  hd_authority_reason_sha256 :: string

definition enc_hil_legal_hold_request :: "libs \<Rightarrow> hil_legal_hold_request \<Rightarrow> json" where
  "enc_hil_legal_hold_request L x = JObject (
    [(''operation_id'', enc_uuid L (hd_operation_id x)),
      (''action'', enc_hil_legal_hold_action (hd_action x)),
      (''hold_id'', enc_uuid L (hd_hold_id x)),
      (''authority_reason_sha256'', JString (hd_authority_reason_sha256 x))])"

section \<open>Status, statistics and identities\<close>

record channel_status =
  ch_slack :: bool
  ch_teams :: bool
  ch_pagerduty :: bool
  ch_webhook :: bool
  ch_smtp :: bool
  ch_escalation_pools :: "string list"

definition dec_channel_status :: "channel_status dec" where
  "dec_channel_status j = do {
     f \<leftarrow> struct_fields False
       [''slack'', ''teams'', ''pagerduty'', ''webhook'', ''smtp'', ''escalation_pools''] j;
     v1 \<leftarrow> need f ''slack'' dec_bool;
     v2 \<leftarrow> need f ''teams'' dec_bool;
     v3 \<leftarrow> need f ''pagerduty'' dec_bool;
     v4 \<leftarrow> need f ''webhook'' dec_bool;
     v5 \<leftarrow> need f ''smtp'' dec_bool;
     v6 \<leftarrow> dflt f ''escalation_pools'' [] (dec_list dec_string);
     Some \<lparr>ch_slack = v1,
       ch_teams = v2,
       ch_pagerduty = v3,
       ch_webhook = v4,
       ch_smtp = v5,
       ch_escalation_pools = v6\<rparr> }"

record approver_stat =
  at_decided_by :: string
  at_count :: u64
  at_deny_rate :: f64
  at_median_secs :: "f64 option"

definition dec_approver_stat :: "approver_stat dec" where
  "dec_approver_stat j = do {
     f \<leftarrow> struct_fields False
       [''decided_by'', ''count'', ''deny_rate'', ''median_secs''] j;
     v1 \<leftarrow> need f ''decided_by'' dec_string;
     v2 \<leftarrow> need f ''count'' dec_u64;
     v3 \<leftarrow> need f ''deny_rate'' dec_f64;
     v4 \<leftarrow> dflt f ''median_secs'' None (dec_option dec_f64);
     Some \<lparr>at_decided_by = v1,
       at_count = v2,
       at_deny_rate = v3,
       at_median_secs = v4\<rparr> }"

record approval_stats =
  ap_window :: string
  ap_pending_count :: u64
  ap_oldest_pending_secs :: "f64 option"
  ap_total_decided :: u64
  ap_approved :: u64
  ap_modified :: u64
  ap_denied :: u64
  ap_expired :: u64
  ap_deny_rate :: "f64 option"
  ap_median_time_to_decide_secs :: "f64 option"
  ap_p95_time_to_decide_secs :: "f64 option"
  ap_by_approver :: "approver_stat list"

definition dec_approval_stats :: "approval_stats dec" where
  "dec_approval_stats j = do {
     f \<leftarrow> struct_fields False
       [''window'', ''pending_count'', ''oldest_pending_secs'', ''total_decided'',
        ''approved'', ''modified'', ''denied'', ''expired'', ''deny_rate'',
        ''median_time_to_decide_secs'', ''p95_time_to_decide_secs'', ''by_approver''] j;
     v1 \<leftarrow> need f ''window'' dec_string;
     v2 \<leftarrow> need f ''pending_count'' dec_u64;
     v3 \<leftarrow> dflt f ''oldest_pending_secs'' None (dec_option dec_f64);
     v4 \<leftarrow> need f ''total_decided'' dec_u64;
     v5 \<leftarrow> need f ''approved'' dec_u64;
     v6 \<leftarrow> need f ''modified'' dec_u64;
     v7 \<leftarrow> need f ''denied'' dec_u64;
     v8 \<leftarrow> need f ''expired'' dec_u64;
     v9 \<leftarrow> dflt f ''deny_rate'' None (dec_option dec_f64);
     v10 \<leftarrow> dflt f ''median_time_to_decide_secs'' None (dec_option dec_f64);
     v11 \<leftarrow> dflt f ''p95_time_to_decide_secs'' None (dec_option dec_f64);
     v12 \<leftarrow> dflt f ''by_approver'' [] (dec_list dec_approver_stat);
     Some \<lparr>ap_window = v1,
       ap_pending_count = v2,
       ap_oldest_pending_secs = v3,
       ap_total_decided = v4,
       ap_approved = v5,
       ap_modified = v6,
       ap_denied = v7,
       ap_expired = v8,
       ap_deny_rate = v9,
       ap_median_time_to_decide_secs = v10,
       ap_p95_time_to_decide_secs = v11,
       ap_by_approver = v12\<rparr> }"

record user_identities =
  ui_oidc_sub :: string
  ui_slack_user_id :: "string option"
  ui_teams_user_id :: "string option"
  ui_linked_at :: datetime
  ui_last_verified :: datetime

definition dec_user_identities :: "libs \<Rightarrow> user_identities dec" where
  "dec_user_identities L j = do {
     f \<leftarrow> struct_fields False
       [''oidc_sub'', ''slack_user_id'', ''teams_user_id'', ''linked_at'', ''last_verified''] j;
     v1 \<leftarrow> need f ''oidc_sub'' dec_string;
     v2 \<leftarrow> dflt f ''slack_user_id'' None (dec_option dec_string);
     v3 \<leftarrow> dflt f ''teams_user_id'' None (dec_option dec_string);
     v4 \<leftarrow> need f ''linked_at'' (dec_datetime L);
     v5 \<leftarrow> need f ''last_verified'' (dec_datetime L);
     Some \<lparr>ui_oidc_sub = v1,
       ui_slack_user_id = v2,
       ui_teams_user_id = v3,
       ui_linked_at = v4,
       ui_last_verified = v5\<rparr> }"

end
