(* ===== verification/Hil.thy ===== *)
theory Hil
  imports Wire_Hil
begin

text \<open>
  \<open>HilClient\<close> (hil.rs): the pending queue, the decision with its three credentials, the
  authentication proxy and the identity links. Unlike the other clients, every status outside
  200 to 299 is reported as \<open>Server\<close> with the body verbatim (\<open>read_json\<close>).
\<close>

section \<open>The client\<close>

definition HIL_SESSION_COOKIE :: string where "HIL_SESSION_COOKIE = ''clavenar_hil_session''"
definition DEMO_SESSION_COOKIE :: string where "DEMO_SESSION_COOKIE = ''clavenar_demo_session''"
definition DECISION_PRINCIPAL_HEADER :: string where "DECISION_PRINCIPAL_HEADER = ''x-clavenar-decision-principal''"
definition TENANT_SCOPE_HEADER :: string where "TENANT_SCOPE_HEADER = ''x-clavenar-tenant-scope''"

record 'p hil_client =
  hl_base_url :: string
  hl_http :: 'p
  hl_tenant :: "string option"

definition hil_new :: "libs \<Rightarrow> 'p option \<Rightarrow> transport_error + 'p \<Rightarrow> string \<Rightarrow> clavenar_error + 'p hil_client" where
  "hil_new L installed fresh base_url =
     bindR (parse_base_url L base_url) (\<lambda>url.
     bindR (default_provider installed fresh) (\<lambda>http.
     Inr \<lparr>hl_base_url = url, hl_http = http, hl_tenant = None\<rparr>))"

definition hil_with_tenant :: "string option \<Rightarrow> 'p hil_client \<Rightarrow> 'p hil_client" where
  "hil_with_tenant t c = c\<lparr>hl_tenant := t\<rparr>"

definition hil_with_http_provider :: "'p \<Rightarrow> 'p hil_client \<Rightarrow> 'p hil_client" where
  "hil_with_http_provider p c = c\<lparr>hl_http := p\<rparr>"

definition apply_tenant_scope :: "'p hil_client \<Rightarrow> http_request \<Rightarrow> http_request" where
  "apply_tenant_scope c q = (case hl_tenant c of None \<Rightarrow> q | Some t \<Rightarrow> header TENANT_SCOPE_HEADER t q)"

definition hil_join :: "libs \<Rightarrow> 'p hil_client \<Rightarrow> string \<Rightarrow> clavenar_error + string" where
  "hil_join L c path = join_endpoint L (hl_base_url c) path (CHR ''/'' # path)"

section \<open>Replies\<close>

definition read_json :: "libs \<Rightarrow> 'a dec \<Rightarrow> http_response \<Rightarrow> clavenar_error + 'a" where
  "read_json L d resp = bindR (read_text_limited resp) (\<lambda>body.
     if \<not> is_success (hs_status resp) then Inl (Server (hs_status resp) body) else from_str L d body)"

definition send_hil :: "libs \<Rightarrow> 'a dec \<Rightarrow> http_request \<Rightarrow> (clavenar_error, 'a) prog" where
  "send_hil L d q = bindP (sendP q) (\<lambda>resp. Return (read_json L d resp))"

text \<open>A lookup whose 404 means absent, and is not read.\<close>

definition read_lookup :: "libs \<Rightarrow> 'a dec \<Rightarrow> http_response \<Rightarrow> clavenar_error + 'a option" where
  "read_lookup L d resp = (if hs_status resp = 404 then Inr None
     else bindR (read_json L d resp) (\<lambda>x. Inr (Some x)))"

definition send_lookup :: "libs \<Rightarrow> 'a dec \<Rightarrow> http_request \<Rightarrow> (clavenar_error, 'a option) prog" where
  "send_lookup L d q = bindP (sendP q) (\<lambda>resp. Return (read_lookup L d resp))"

interpretation hil: json_call "send_hil L d" "read_json L d"
  by unfold_locales (simp add: send_hil_def runs_sendP_bind)

interpretation hil_lookup: json_call "send_lookup L d" "read_lookup L d"
  by unfold_locales (simp add: send_lookup_def runs_sendP_bind)

section \<open>Administration\<close>

definition hil_tenant_lifecycle ::
  "libs \<Rightarrow> 'p hil_client \<Rightarrow> string \<Rightarrow> uuid \<Rightarrow> hil_tenant_lifecycle_kind
   \<Rightarrow> (clavenar_error, hil_tenant_lifecycle_receipt) prog" where
  "hil_tenant_lifecycle L c tenant operation_id kind =
     tryP (hil_join L c (''admin/tenants/'' @ percent_encode tenant @ ''/lifecycle'')) (\<lambda>url.
     send_hil L (dec_hil_tenant_lifecycle_receipt L)
       (json_body (enc_hil_tenant_lifecycle_request L \<lparr>hq_operation_id = operation_id, hq_kind = kind\<rparr>)
         (apply_tenant_scope c (request POST url))))"

definition legal_hold ::
  "libs \<Rightarrow> 'p hil_client \<Rightarrow> uuid \<Rightarrow> uuid \<Rightarrow> hil_legal_hold_action \<Rightarrow> uuid \<Rightarrow> string
   \<Rightarrow> (clavenar_error, hil_legal_hold_receipt) prog" where
  "legal_hold L c pending_id operation_id action hold_id authority_reason_sha256 =
     tryP (hil_join L c (''admin/pending/'' @ uuid_string L pending_id @ ''/legal-hold'')) (\<lambda>url.
     send_hil L (dec_hil_legal_hold_receipt L)
       (json_body (enc_hil_legal_hold_request L \<lparr>hd_operation_id = operation_id, hd_action = action,
            hd_hold_id = hold_id, hd_authority_reason_sha256 = authority_reason_sha256\<rparr>)
         (apply_tenant_scope c (request POST url))))"

section \<open>The queue\<close>

definition create_pending :: "libs \<Rightarrow> 'p hil_client \<Rightarrow> json \<Rightarrow> (clavenar_error, pending_request) prog" where
  "create_pending L c body =
     tryP (hil_join L c ''pending'') (\<lambda>url.
     send_hil L (dec_pending_request L) (json_body body (request POST url)))"

definition with_demo :: "string option \<Rightarrow> http_request \<Rightarrow> http_request" where
  "with_demo jwt q = (case jwt of None \<Rightarrow> q | Some j \<Rightarrow> header ''cookie'' (DEMO_SESSION_COOKIE @ ''='' @ j) q)"

definition list_by_status ::
  "libs \<Rightarrow> 'p hil_client \<Rightarrow> string \<Rightarrow> string option \<Rightarrow> (clavenar_error, pending_request list) prog" where
  "list_by_status L c status demo_session_jwt =
     tryP (hil_join L c ''pending'') (\<lambda>url.
     send_hil L (dec_list (dec_pending_request L))
       (apply_tenant_scope c (with_demo demo_session_jwt
         (request GET (url_append_pair L url ''status'' status)))))"

definition list_pending :: "libs \<Rightarrow> 'p hil_client \<Rightarrow> (clavenar_error, pending_request list) prog" where
  "list_pending L c = list_by_status L c ''pending'' None"

definition list_pending_scoped :: "libs \<Rightarrow> 'p hil_client \<Rightarrow> string \<Rightarrow> (clavenar_error, pending_request list) prog" where
  "list_pending_scoped L c jwt = list_by_status L c ''pending'' (Some jwt)"

definition auto_approved :: "pending_request \<Rightarrow> bool" where
  "auto_approved p \<longleftrightarrow> hp_decided_by p = Some ''system:policy-tier''"

definition list_auto_approved :: "libs \<Rightarrow> 'p hil_client \<Rightarrow> (clavenar_error, pending_request list) prog" where
  "list_auto_approved L c = bindP (list_by_status L c ''approved'' None) (\<lambda>rows. okP (filter auto_approved rows))"

definition list_auto_approved_scoped ::
  "libs \<Rightarrow> 'p hil_client \<Rightarrow> string \<Rightarrow> (clavenar_error, pending_request list) prog" where
  "list_auto_approved_scoped L c jwt =
     bindP (list_by_status L c ''approved'' (Some jwt)) (\<lambda>rows. okP (filter auto_approved rows))"

definition verify_decision_link :: "libs \<Rightarrow> 'p hil_client \<Rightarrow> string \<Rightarrow> (clavenar_error, decision_link_verify) prog" where
  "verify_decision_link L c token =
     tryP (hil_join L c ''decision-link/verify'') (\<lambda>url.
     send_hil L (dec_decision_link_verify L)
       (json_body (normalize (JObject [(''token'', JString token)])) (request POST url)))"

definition patch_incident_summary ::
  "libs \<Rightarrow> 'p hil_client \<Rightarrow> uuid \<Rightarrow> string \<Rightarrow> (clavenar_error, pending_request) prog" where
  "patch_incident_summary L c pending incident_summary =
     tryP (hil_join L c (''pending/'' @ uuid_string L pending @ ''/incident'')) (\<lambda>url.
     send_hil L (dec_pending_request L)
       (json_body (normalize (JObject [(''incident_summary'', JString incident_summary)]))
         (apply_tenant_scope c (request PATCH url))))"

definition hil_assign ::
  "libs \<Rightarrow> 'p hil_client \<Rightarrow> uuid \<Rightarrow> string \<Rightarrow> string option \<Rightarrow> (clavenar_error, pending_request) prog" where
  "hil_assign L c pending assigned_to escalation_pool =
     tryP (hil_join L c (''pending/'' @ uuid_string L pending @ ''/assign'')) (\<lambda>url.
     send_hil L (dec_pending_request L)
       (json_body (normalize (JObject [(''assigned_to'', JString assigned_to),
            (''escalation_pool'', enc_option JString escalation_pool)]))
         (apply_tenant_scope c (request POST url))))"

definition notifications_config :: "libs \<Rightarrow> 'p hil_client \<Rightarrow> (clavenar_error, channel_status) prog" where
  "notifications_config L c = tryP (hil_join L c ''notifications/config'') (\<lambda>url.
     send_hil L dec_channel_status (request GET url))"

definition notifications_test :: "libs \<Rightarrow> 'p hil_client \<Rightarrow> (clavenar_error, channel_status) prog" where
  "notifications_test L c = tryP (hil_join L c ''notifications/test'') (\<lambda>url.
     send_hil L dec_channel_status (request POST url))"

definition get_pending_by_correlation ::
  "libs \<Rightarrow> 'p hil_client \<Rightarrow> string \<Rightarrow> (clavenar_error, pending_request option) prog" where
  "get_pending_by_correlation L c correlation_id =
     tryP (hil_join L c (''pending/by-correlation/'' @ correlation_id)) (\<lambda>url.
     send_lookup L (dec_pending_request L) (apply_tenant_scope c (request GET url)))"

definition get_pending :: "libs \<Rightarrow> 'p hil_client \<Rightarrow> uuid \<Rightarrow> (clavenar_error, pending_request option) prog" where
  "get_pending L c pending =
     tryP (hil_join L c (''pending/'' @ uuid_string L pending)) (\<lambda>url.
     send_lookup L (dec_pending_request L) (apply_tenant_scope c (request GET url)))"

definition approvals_stats_inner ::
  "libs \<Rightarrow> 'p hil_client \<Rightarrow> string \<Rightarrow> string option \<Rightarrow> (clavenar_error, approval_stats) prog" where
  "approvals_stats_inner L c window demo_session_jwt =
     tryP (hil_join L c ''approvals/stats'') (\<lambda>url.
     send_hil L dec_approval_stats
       (apply_tenant_scope c (with_demo demo_session_jwt (request GET (url_append_pair L url ''window'' window)))))"

definition approvals_stats :: "libs \<Rightarrow> 'p hil_client \<Rightarrow> string \<Rightarrow> (clavenar_error, approval_stats) prog" where
  "approvals_stats L c window = approvals_stats_inner L c window None"

definition approvals_stats_scoped ::
  "libs \<Rightarrow> 'p hil_client \<Rightarrow> string \<Rightarrow> string \<Rightarrow> (clavenar_error, approval_stats) prog" where
  "approvals_stats_scoped L c window jwt = approvals_stats_inner L c window (Some jwt)"

text \<open>The event stream: a success hands the unread response to the caller.\<close>

definition read_stream :: "http_response \<Rightarrow> clavenar_error + http_response" where
  "read_stream resp = (if \<not> is_success (hs_status resp)
     then bindR (read_text_limited resp) (\<lambda>body. Inl (Server (hs_status resp) body)) else Inr resp)"

definition send_stream :: "http_request \<Rightarrow> (clavenar_error, http_response) prog" where
  "send_stream q = bindP (sendP q) (\<lambda>resp. Return (read_stream resp))"

interpretation hil_stream: json_call send_stream read_stream
  by unfold_locales (simp add: send_stream_def runs_sendP_bind)

definition stream_pending_inner :: "libs \<Rightarrow> 'p hil_client \<Rightarrow> string option \<Rightarrow> (clavenar_error, http_response) prog" where
  "stream_pending_inner L c demo_session_jwt =
     tryP (hil_join L c ''pending/stream'') (\<lambda>url.
     send_stream (apply_tenant_scope c (with_demo demo_session_jwt
       (header ''accept'' ''text/event-stream'' (request GET url)))))"

definition stream_pending :: "libs \<Rightarrow> 'p hil_client \<Rightarrow> (clavenar_error, http_response) prog" where
  "stream_pending L c = stream_pending_inner L c None"

definition stream_pending_scoped :: "libs \<Rightarrow> 'p hil_client \<Rightarrow> string \<Rightarrow> (clavenar_error, http_response) prog" where
  "stream_pending_scoped L c jwt = stream_pending_inner L c (Some jwt)"

section \<open>Deciding\<close>

definition with_credential ::
  "libs \<Rightarrow> 'p hil_client \<Rightarrow> hil_decide_credential option \<Rightarrow> http_request \<Rightarrow> http_request" where
  "with_credential L c credential q = (case credential of
     Some (SessionCookie cookie) \<Rightarrow> header ''cookie'' (HIL_SESSION_COOKIE @ ''='' @ cookie) q
   | Some (BearerPrincipal token subject m) \<Rightarrow>
       header DECISION_PRINCIPAL_HEADER (hex_encode L (json_text L (enc_console_principal_claim
           \<lparr>pc_subject = subject, pc_tenant = (case hl_tenant c of None \<Rightarrow> ''unscoped'' | Some t \<Rightarrow> t), pc_method = m\<rparr>)))
         (header ''authorization'' (''Bearer '' @ token) q)
   | Some (DemoSession jwt) \<Rightarrow> header ''cookie'' (DEMO_SESSION_COOKIE @ ''='' @ jwt) q
   | None \<Rightarrow> q)"

definition decide ::
  "libs \<Rightarrow> 'p hil_client \<Rightarrow> uuid \<Rightarrow> decision \<Rightarrow> string \<Rightarrow> string option \<Rightarrow> modification_diff option
   \<Rightarrow> json option \<Rightarrow> hil_decide_credential option \<Rightarrow> string option \<Rightarrow> (clavenar_error, pending_request) prog" where
  "decide L c pending dec decided_by reason diff approver_assertion credential decided_via =
     tryP (hil_join L c (''decide/'' @ uuid_string L pending)) (\<lambda>url.
     let body = \<lparr>dq_decision = dec, dq_decided_by = decided_by, dq_reason = reason,
           dq_modification_diff = diff, dq_approver_assertion = approver_assertion, dq_decided_via = decided_via,
           dq_tenant = (if credential = None then hl_tenant c else None)\<rparr>
     in send_hil L (dec_pending_request L)
          (with_credential L c credential
            (json_body (enc_decide_request body) (apply_tenant_scope c (request POST url)))))"

section \<open>The authentication proxy and identities\<close>

record auth_proxy_response =
  ax_status :: nat
  ax_body :: json
  ax_set_cookies :: "string list"

text \<open>\<open>HeaderValue::to_str\<close>: visible ASCII, space and tab.\<close>

definition header_text :: "string \<Rightarrow> bool" where
  "header_text v \<longleftrightarrow> list_all (\<lambda>ch. (32 \<le> byte ch \<and> byte ch < 127) \<or> byte ch = 9) v"

definition set_cookies_of :: "http_response \<Rightarrow> string list" where
  "set_cookies_of resp = filter header_text (map snd (filter (\<lambda>h. fst h = ''set-cookie'') (hs_headers resp)))"

definition read_auth_proxy :: "libs \<Rightarrow> http_response \<Rightarrow> clavenar_error + auth_proxy_response" where
  "read_auth_proxy L resp = (let status = hs_status resp; set_cookies = set_cookies_of resp in
     bindR (read_text_limited resp) (\<lambda>txt.
     let body = (if txt = [] then JNull
       else case from_str L dec_value txt of Inl _ \<Rightarrow> JString txt | Inr v \<Rightarrow> v)
     in Inr \<lparr>ax_status = status, ax_body = body, ax_set_cookies = set_cookies\<rparr>))"

definition send_auth_proxy :: "libs \<Rightarrow> http_request \<Rightarrow> (clavenar_error, auth_proxy_response) prog" where
  "send_auth_proxy L q = bindP (sendP q) (\<lambda>resp. Return (read_auth_proxy L resp))"

interpretation auth_proxy: json_call "send_auth_proxy L" "read_auth_proxy L"
  by unfold_locales (simp add: send_auth_proxy_def runs_sendP_bind)

definition auth_proxy_post ::
  "libs \<Rightarrow> 'p hil_client \<Rightarrow> string \<Rightarrow> json \<Rightarrow> string option \<Rightarrow> (clavenar_error, auth_proxy_response) prog" where
  "auth_proxy_post L c sub_path body hil_cookie =
     tryP (hil_join L c (''auth/'' @ sub_path)) (\<lambda>url.
     send_auth_proxy L
       (case hil_cookie of None \<Rightarrow> json_body body (request POST url)
        | Some k \<Rightarrow> header ''cookie'' k (json_body body (request POST url))))"

definition identities_upsert ::
  "libs \<Rightarrow> 'p hil_client \<Rightarrow> string \<Rightarrow> string \<Rightarrow> string option \<Rightarrow> string option
   \<Rightarrow> (clavenar_error, user_identities) prog" where
  "identities_upsert L c bearer oidc_sub slack_user_id teams_user_id =
     tryP (hil_join L c ''identities/upsert'') (\<lambda>url.
     send_hil L (dec_user_identities L)
       (json_body (normalize (JObject [(''oidc_sub'', JString oidc_sub),
            (''slack_user_id'', enc_option JString slack_user_id),
            (''teams_user_id'', enc_option JString teams_user_id)]))
         (header ''authorization'' (''Bearer '' @ bearer) (request POST url))))"

definition identities_get ::
  "libs \<Rightarrow> 'p hil_client \<Rightarrow> string \<Rightarrow> string \<Rightarrow> (clavenar_error, user_identities option) prog" where
  "identities_get L c bearer oidc_sub =
     tryP (hil_join L c (''identities/'' @ oidc_sub)) (\<lambda>url.
     send_lookup L (dec_user_identities L) (header ''authorization'' (''Bearer '' @ bearer) (request GET url)))"

text \<open>\<open>Value::get\<close> and \<open>as_bool\<close> on the reply.\<close>

definition cleared_of :: "json \<Rightarrow> bool" where
  "cleared_of body = (case body of
     JObject kvs \<Rightarrow> (case map_of kvs ''cleared'' of Some (JBool b) \<Rightarrow> b | _ \<Rightarrow> False)
   | _ \<Rightarrow> False)"

definition identities_unlink ::
  "libs \<Rightarrow> 'p hil_client \<Rightarrow> string \<Rightarrow> string \<Rightarrow> string \<Rightarrow> (clavenar_error, bool) prog" where
  "identities_unlink L c bearer oidc_sub channel =
     tryP (hil_join L c (''identities/'' @ oidc_sub @ ''/'' @ channel)) (\<lambda>url.
     bindP (send_hil L dec_value (header ''authorization'' (''Bearer '' @ bearer) (request DELETE url)))
     (\<lambda>body. okP (cleared_of body)))"

definition identities_unlink_slack :: "libs \<Rightarrow> 'p hil_client \<Rightarrow> string \<Rightarrow> string \<Rightarrow> (clavenar_error, bool) prog" where
  "identities_unlink_slack L c bearer oidc_sub = identities_unlink L c bearer oidc_sub ''slack''"

definition identities_unlink_teams :: "libs \<Rightarrow> 'p hil_client \<Rightarrow> string \<Rightarrow> string \<Rightarrow> (clavenar_error, bool) prog" where
  "identities_unlink_teams L c bearer oidc_sub = identities_unlink L c bearer oidc_sub ''teams''"

end
