(* ===== verification/Hil_Claims.thy ===== *)
theory Hil_Claims
  imports Hil Sample
begin

text \<open>
  The properties of the human-in-the-loop client: the credential of a decision decides which
  headers go out and who may name the tenant, errors keep their status and body, the tenant
  scope is stamped where it is due, and a lookup is absent exactly on 404.
\<close>

section \<open>Calls that keep the status\<close>

definition header_values :: "http_request \<Rightarrow> string \<Rightarrow> string list" where
  "header_values q k = map snd (filter (\<lambda>h. fst h = k) (hr_headers q))"

definition scope_values :: "'p hil_client \<Rightarrow> bool \<Rightarrow> string list" where
  "scope_values c scoped = (if scoped then (case hl_tenant c of None \<Rightarrow> [] | Some t \<Rightarrow> [t]) else [])"

text \<open>What an operation tells of the reply: that it answered, that what was looked up is absent,
  or the status it relays.\<close>

datatype hil_answer = Answered | Absent | Relayed nat

datatype hil_kind = Plain | Lookup | Proxy

text \<open>The error of a refused call: the status with the body, or that the body cannot be read.\<close>

definition refused :: "http_response \<Rightarrow> clavenar_error" where
  "refused resp = (case read_text_limited resp of Inl e \<Rightarrow> e | Inr raw \<Rightarrow> Server (hs_status resp) raw)"

definition told :: "'b \<Rightarrow> clavenar_error + 'b \<Rightarrow> bool" where
  "told a r \<longleftrightarrow> (\<exists>e. r = Inl e) \<or> r = Inr a"

lemma told_simps [simp]: "told a (map_sum id (\<lambda>_. a) x)" "told a (Inl e)" "told a (Inr b) \<longleftrightarrow> b = a"
  by (cases x) (auto simp: told_def)

text \<open>What becomes of each status. A plain call answers only on a status from 200 to 299, and every
  other status is refused. A lookup moreover answers absent on a 404 and on nothing else. The proxy
  relays every status whose body can be read.\<close>

fun status_rule :: "hil_kind \<Rightarrow> http_response \<Rightarrow> clavenar_error + hil_answer \<Rightarrow> bool" where
  "status_rule Plain resp r \<longleftrightarrow> (if is_success (hs_status resp) then told Answered r
     else r = Inl (refused resp))"
| "status_rule Lookup resp r \<longleftrightarrow> (if hs_status resp = 404 then r = Inr Absent
     else if is_success (hs_status resp) then told Answered r
     else r = Inl (refused resp))"
| "status_rule Proxy resp r \<longleftrightarrow> r = (case read_text_limited resp of Inl e \<Rightarrow> Inl e | Inr _ \<Rightarrow> Inr (Relayed (hs_status resp)))"

definition keeps_status :: "'p hil_client \<Rightarrow> bool \<Rightarrow> hil_kind \<Rightarrow> (clavenar_error, hil_answer) prog \<Rightarrow> bool" where
  "keeps_status c scoped kind p \<longleftrightarrow> (\<forall>es r. runs p es r \<longrightarrow>
     (es = [] \<and> (\<exists>m. r = Inl (InvalidConfig m)))
   \<or> (\<exists>q z. es = [Sent q z] \<and> header_values q TENANT_SCOPE_HEADER = scope_values c scoped
        \<and> (case z of Inl e \<Rightarrow> r = Inl (Transport e) | Inr resp \<Rightarrow> status_rule kind resp r)))"

lemma runs_map_any: "runs (mapP g p) es r \<longleftrightarrow> (\<exists>r'. runs p es r' \<and> r = map_sum id g r')"
  unfolding mapP_def bindP_matchP runs_matchP by (auto split: sum.splits simp: split_sum_ex)

lemma runs_forget_any: "runs (forgetP p) es r \<longleftrightarrow> (\<exists>r'. runs p es r' \<and> r = map_sum id (\<lambda>_. ()) r')"
  unfolding forgetP_def by (rule runs_map_any)

lemma hil_join_Inl: "hil_join L c path = Inl e \<Longrightarrow> \<exists>m. e = InvalidConfig m"
  unfolding hil_join_def by (rule join_endpoint_Inl)

lemma hil_join_Inr: "hil_join L c path = Inr url \<longleftrightarrow> url_join L (hl_base_url c) path = Inr url"
  by (simp add: hil_join_def join_endpoint_Inr)

text \<open>A call whose reader keeps the rule of its kind.\<close>

locale status_call = json_call send read
  for send :: "http_request \<Rightarrow> (clavenar_error, 'a) prog"
    and read :: "http_response \<Rightarrow> clavenar_error + 'a" +
  fixes kind :: hil_kind and answer :: "'a \<Rightarrow> hil_answer"
  assumes rule_kept: "status_rule kind resp (map_sum id answer (read resp))"
begin

lemma keeps:
  assumes "\<And>url. header_values (f url) TENANT_SCOPE_HEADER = scope_values c scoped"
  shows "keeps_status c scoped kind (mapP answer (tryP (hil_join L c path) (\<lambda>url. send (f url))))"
proof (cases "hil_join L c path")
  case (Inl e)
  with hil_join_Inl [OF Inl] show ?thesis by (auto simp: keeps_status_def runs_map_any)
next
  case (Inr url)
  show ?thesis
    unfolding keeps_status_def runs_map_any Inr tryP_simps one_request
  proof (intro allI impI disjI2)
    fix es r
    assume "\<exists>r'. (\<exists>z. es = [Sent (f url) z] \<and> r' = reply_of read z) \<and> r = map_sum id answer r'"
    then obtain z where es: "es = [Sent (f url) z]" and r: "r = map_sum id answer (reply_of read z)" by blast
    have "case z of Inl e \<Rightarrow> r = Inl (Transport e) | Inr resp \<Rightarrow> status_rule kind resp r"
      unfolding r using rule_kept by (cases z) simp_all
    with es assms [of url] show "\<exists>q z. es = [Sent q z] \<and> header_values q TENANT_SCOPE_HEADER = scope_values c scoped
        \<and> (case z of Inl e \<Rightarrow> r = Inl (Transport e) | Inr resp \<Rightarrow> status_rule kind resp r)"
      by blast
  qed
qed

end

text \<open>The answers of the four readers.\<close>

definition looked_up :: "'a option \<Rightarrow> hil_answer" where
  "looked_up x = (case x of None \<Rightarrow> Absent | Some _ \<Rightarrow> Answered)"

definition relayed :: "auth_proxy_response \<Rightarrow> hil_answer" where
  "relayed a = Relayed (ax_status a)"

interpretation hil_status: status_call "send_hil L d" "read_json L d" Plain "\<lambda>_. Answered"
  by unfold_locales (auto simp: read_json_def bindR_def refused_def split: sum.split)

interpretation stream_status: status_call send_stream read_stream Plain "\<lambda>_. Answered"
  by unfold_locales (auto simp: read_stream_def bindR_def refused_def split: sum.split)

interpretation lookup_status: status_call "send_lookup L d" "read_lookup L d" Lookup looked_up
  by unfold_locales (auto simp: read_lookup_def read_json_def bindR_def refused_def looked_up_def split: sum.split)

interpretation proxy_status: status_call "send_auth_proxy L" "read_auth_proxy L" Proxy relayed
  by unfold_locales (auto simp: read_auth_proxy_def bindR_def relayed_def Let_def split: sum.split)

text \<open>The plain operations, whose result is not told.\<close>

definition answered :: "(clavenar_error, 'a) prog \<Rightarrow> (clavenar_error, hil_answer) prog" where
  "answered p = mapP (\<lambda>_. Answered) p"

lemma answered_bind: "answered (bindP p (\<lambda>x. okP (g x))) = answered p"
  unfolding answered_def mapP_def bindP_matchP matchP_assoc
  by (rule arg_cong [of _ _ "matchP p"]) (auto split: sum.split)

lemma answered_try_bind: "answered (tryP b (\<lambda>u. bindP (f u) (\<lambda>x. okP (g x)))) = answered (tryP b f)"
proof (cases b)
  case (Inl e)
  then show ?thesis by (simp add: answered_def)
next
  case (Inr u)
  then show ?thesis by (simp add: answered_bind)
qed

lemma header_values_simps [simp]:
  "header_values (json_body j q) k = header_values q k"
  "header_values (header k' v q) k = header_values q k @ (if k' = k then [v] else [])"
  "header_values (request m u) k = []"
  by (simp_all add: header_values_def)

lemma header_values_scope [simp]:
  "header_values (apply_tenant_scope c q) k =
     header_values q k @ (if k = TENANT_SCOPE_HEADER then scope_values c True else [])"
  by (auto simp: apply_tenant_scope_def scope_values_def split: option.split)

lemma header_values_demo [simp]:
  "k \<noteq> ''cookie'' \<Longrightarrow> header_values (with_demo jwt q) k = header_values q k"
  by (auto simp: with_demo_def split: option.split)

lemma header_names [simp]: "TENANT_SCOPE_HEADER \<noteq> ''cookie''" "TENANT_SCOPE_HEADER \<noteq> ''authorization''"
  "TENANT_SCOPE_HEADER \<noteq> ''accept''" "TENANT_SCOPE_HEADER \<noteq> DECISION_PRINCIPAL_HEADER"
  "DECISION_PRINCIPAL_HEADER \<noteq> ''cookie''" "DECISION_PRINCIPAL_HEADER \<noteq> ''authorization''"
  by (simp_all add: TENANT_SCOPE_HEADER_def DECISION_PRINCIPAL_HEADER_def)

lemma header_names_sym [simp]: "''cookie'' \<noteq> TENANT_SCOPE_HEADER" "''authorization'' \<noteq> TENANT_SCOPE_HEADER"
  "''accept'' \<noteq> TENANT_SCOPE_HEADER" "DECISION_PRINCIPAL_HEADER \<noteq> TENANT_SCOPE_HEADER"
  "''cookie'' \<noteq> DECISION_PRINCIPAL_HEADER" "''authorization'' \<noteq> DECISION_PRINCIPAL_HEADER"
  by (rule not_sym, simp)+

lemma scope_values_False [simp]: "scope_values c False = []"
  by (simp add: scope_values_def)

lemma header_values_credential [simp]:
  "header_values (with_credential L c cred q) TENANT_SCOPE_HEADER = header_values q TENANT_SCOPE_HEADER"
  by (auto simp: with_credential_def split: option.split hil_decide_credential.split)

text \<open>Every operation of the client, whether it is scoped to the tenant, and its kind.\<close>

inductive hil_operation :: "libs \<Rightarrow> 'p hil_client \<Rightarrow> bool \<Rightarrow> hil_kind \<Rightarrow> (clavenar_error, hil_answer) prog \<Rightarrow> bool"
  for L c where
  "hil_operation L c True Plain (answered (hil_tenant_lifecycle L c tenant op kind))"
| "hil_operation L c True Plain (answered (legal_hold L c pid op act hold sha))"
| "hil_operation L c False Plain (answered (create_pending L c body))"
| "hil_operation L c True Plain (answered (list_pending L c))"
| "hil_operation L c True Plain (answered (list_pending_scoped L c jwt))"
| "hil_operation L c True Plain (answered (list_auto_approved L c))"
| "hil_operation L c True Plain (answered (list_auto_approved_scoped L c jwt))"
| "hil_operation L c False Plain (answered (verify_decision_link L c token))"
| "hil_operation L c True Plain (answered (patch_incident_summary L c pid incident))"
| "hil_operation L c True Plain (answered (hil_assign L c pid who pool))"
| "hil_operation L c False Plain (answered (notifications_config L c))"
| "hil_operation L c False Plain (answered (notifications_test L c))"
| "hil_operation L c True Plain (answered (approvals_stats L c window))"
| "hil_operation L c True Plain (answered (approvals_stats_scoped L c window jwt))"
| "hil_operation L c True Plain (answered (stream_pending L c))"
| "hil_operation L c True Plain (answered (stream_pending_scoped L c jwt))"
| "hil_operation L c True Plain (answered (decide L c pid dec by_whom reason diff assertion cred via))"
| "hil_operation L c False Plain (answered (identities_upsert L c bearer sub slack teams))"
| "hil_operation L c False Plain (answered (identities_unlink_slack L c bearer sub))"
| "hil_operation L c False Plain (answered (identities_unlink_teams L c bearer sub))"
| "hil_operation L c True Lookup (mapP looked_up (get_pending L c pid))"
| "hil_operation L c True Lookup (mapP looked_up (get_pending_by_correlation L c cid))"
| "hil_operation L c False Lookup (mapP looked_up (identities_get L c bearer sub))"
| "hil_operation L c False Proxy (mapP relayed (auth_proxy_post L c sub_path body hil_cookie))"

lemmas hil_defs = hil_tenant_lifecycle_def legal_hold_def create_pending_def list_pending_def list_pending_scoped_def
  list_auto_approved_def list_auto_approved_scoped_def list_by_status_def verify_decision_link_def
  patch_incident_summary_def hil_assign_def notifications_config_def notifications_test_def approvals_stats_def
  approvals_stats_scoped_def approvals_stats_inner_def stream_pending_def stream_pending_scoped_def
  stream_pending_inner_def decide_def Let_def identities_upsert_def identities_unlink_slack_def
  identities_unlink_teams_def identities_unlink_def answered_bind answered_try_bind
  get_pending_def get_pending_by_correlation_def identities_get_def auth_proxy_post_def

lemma header_values_cookie [simp]:
  "header_values (case k of None \<Rightarrow> q | Some v \<Rightarrow> header ''cookie'' v q) TENANT_SCOPE_HEADER
     = header_values q TENANT_SCOPE_HEADER"
  by (simp split: option.split)

lemma hil_operation_keeps: "hil_operation L c scoped kind p \<Longrightarrow> keeps_status c scoped kind p"
  by (induction rule: hil_operation.induct)
    (unfold hil_defs, unfold answered_def,
      (rule hil_status.keeps stream_status.keeps lookup_status.keeps proxy_status.keeps; simp)+)

text \<open>C31: no status is lost. Every operation of the client makes at most one request, which carries
  the tenant scope of the client exactly where the operation acts on a tenant's queue, and what
  it says follows the status. A plain operation succeeds only on 200 to 299, and any other status
  is an error with that status and the body verbatim (or what reading the body gave). The three
  lookups are the same, except that they answer absent on a 404, whatever its body, and only then.
  The authentication proxy never turns a status into an error: it relays every status whose body
  can be read.\<close>

theorem hil_errors_keep_status:
  assumes "hil_operation L c scoped kind p" and "runs p es r"
  shows "(es = [] \<and> (\<exists>m. r = Inl (InvalidConfig m)))
   \<or> (\<exists>q z. es = [Sent q z] \<and> header_values q TENANT_SCOPE_HEADER = scope_values c scoped
        \<and> (case z of Inl e \<Rightarrow> r = Inl (Transport e) | Inr resp \<Rightarrow> status_rule kind resp r))"
  using hil_operation_keeps [OF assms(1)] assms(2) unfolding keeps_status_def by blast

end
