(* ===== verification/Routing.thy ===== *)
theory Routing
  imports Rest
begin

text \<open>
  How a server reads the URLs the clients build: the path below the base is split at slashes and
  percent-decoded, as axum's router does. The url crate's joining of a reference that has a query
  is the law \<open>join_query_laws\<close>; with \<open>url_laws\<close> it says which segments arrive.
\<close>

section \<open>Splitting\<close>

fun split_on :: "char \<Rightarrow> string \<Rightarrow> string list" where
  "split_on c [] = [[]]"
| "split_on c (x # xs) = (if x = c then [] # split_on c xs
     else case split_on c xs of y # ys \<Rightarrow> (x # y) # ys | [] \<Rightarrow> [[x]])"

lemma split_on_not_Nil [simp]: "split_on c s \<noteq> []"
  by (cases s) (auto split: list.split)

lemma split_on_plain: "c \<notin> set s \<Longrightarrow> split_on c s = [s]"
  by (induction s) auto

lemma split_on_append: "c \<notin> set s \<Longrightarrow> split_on c (s @ c # t) = s # split_on c t"
  by (induction s) auto

lemma split_on_join:
  "list_all (\<lambda>s. c \<notin> set s) ys \<Longrightarrow> ys \<noteq> [] \<Longrightarrow> split_on c (join_with [c] ys) = ys"
proof (induction ys)
  case (Cons y ys)
  then show ?case
    by (cases "ys = []") (auto simp: join_with_Cons split_on_plain split_on_append)
qed simp

lemma up_to: "c \<notin> set k \<Longrightarrow> takeWhile (\<lambda>x. x \<noteq> c) (k @ c # v) = k"
  "c \<notin> set k \<Longrightarrow> dropWhile (\<lambda>x. x \<noteq> c) (k @ c # v) = c # v"
  "c \<notin> set k \<Longrightarrow> takeWhile (\<lambda>x. x \<noteq> c) k = k" "c \<notin> set k \<Longrightarrow> dropWhile (\<lambda>x. x \<noteq> c) k = []"
  by (induction k) auto

section \<open>Paths\<close>

definition path_part :: "string \<Rightarrow> string" where
  "path_part url = takeWhile (\<lambda>c. c \<noteq> CHR ''?'') url"

definition segments :: "string \<Rightarrow> string \<Rightarrow> string list option" where
  "segments base url = those (map percent_decode (split_on (CHR ''/'') (drop (length base) (path_part url))))"

lemma path_part_plain: "CHR ''?'' \<notin> set u \<Longrightarrow> path_part u = u"
  by (simp add: path_part_def up_to)

lemma path_part_query: "CHR ''?'' \<notin> set u \<Longrightarrow> path_part (u @ CHR ''?'' # q) = u"
  by (simp add: path_part_def up_to)

lemma those_decoded: "those (map percent_decode (map percent_encode xs)) = Some xs"
  by (induction xs) (simp_all add: percent_decode_encode)

lemma split_segment_path:
  assumes "xs \<noteq> []"
  shows "split_on (CHR ''/'') (segment_path xs) = map percent_encode xs"
proof -
  have "CHR ''/'' \<notin> set (percent_encode s)" for s
    using percent_encode_chars [of "CHR ''/''" s] by (auto simp: unreserved_def byte_def)
  with assms show ?thesis unfolding segment_path_def by (intro split_on_join) (auto simp: list_all_iff)
qed

text \<open>A path of encoded segments is routed by the very segments, whatever query follows.\<close>

theorem segments_of_path:
  assumes "plain_base base" "xs \<noteq> []"
  shows "segments base (base @ segment_path xs) = Some xs"
  using no_query [OF assms(1), of xs]
  by (simp add: segments_def path_part_plain split_segment_path [OF assms(2)] those_decoded del: map_map)

lemma segments_of_query:
  assumes "plain_base base" "xs \<noteq> []"
  shows "segments base (base @ segment_path xs @ CHR ''?'' # q) = Some xs"
proof -
  have "path_part ((base @ segment_path xs) @ CHR ''?'' # q) = base @ segment_path xs"
    by (rule path_part_query [OF no_query [OF assms(1)]])
  then show ?thesis
    by (simp add: segments_def split_segment_path [OF assms(2)] those_decoded del: map_map)
qed

section \<open>Joining a reference with a query\<close>

text \<open>
  The characters of a query that the clients write and the url crate leaves as they are
  (RFC 3986, section 3.4): letters, digits, the unreserved marks, escapes, and the separators.
\<close>

definition query_char :: "char \<Rightarrow> bool" where
  "query_char c \<longleftrightarrow> unreserved c \<or> c \<in> {CHR ''%'', CHR ''&'', CHR ''='', CHR '','', CHR ''/''}"

definition join_query_laws :: "libs \<Rightarrow> bool" where
  "join_query_laws L \<longleftrightarrow> (\<forall>base xs q. plain_base base \<longrightarrow> plain_segments xs \<longrightarrow> list_all query_char q \<longrightarrow>
     url_join L base (segment_path xs @ CHR ''?'' # q) = Inr (base @ segment_path xs @ CHR ''?'' # q))"

lemma sample_join_query_laws: "join_query_laws sample_libs"
  by (simp add: join_query_laws_def sample_libs_def)

text \<open>A reference whose path is made of plain segments, and whose query has no other characters, is
  appended to the base.\<close>

definition safe_query :: "string \<Rightarrow> bool" where
  "safe_query path \<longleftrightarrow> list_all query_char (drop 1 (dropWhile (\<lambda>c. c \<noteq> CHR ''?'') path))"

lemma joined_reference:
  assumes "url_laws L" "join_query_laws L" "plain_base base" "plain_segments xs"
    and "path_part path = segment_path xs" "safe_query path"
  shows "url_join L base path = Inr (base @ path) \<and> segments base (base @ path) = Some xs"
proof -
  let ?rest = "dropWhile (\<lambda>c. c \<noteq> CHR ''?'') path"
  have path: "path = segment_path xs @ ?rest"
    using assms(5) takeWhile_dropWhile_id [of "\<lambda>c. c \<noteq> CHR ''?''" path] unfolding path_part_def by simp
  have nonempty: "xs \<noteq> []" using assms(4) by (simp add: plain_segments_def)
  show ?thesis
  proof (cases ?rest)
    case Nil
    with path have path: "path = segment_path xs" by simp
    have "url_join L base (segment_path xs) = Inr (base @ segment_path xs)"
      using assms(1,3,4) unfolding url_laws_def by blast
    with segments_of_path [OF assms(3) nonempty] show ?thesis unfolding path by blast
  next
    case (Cons d q)
    then have "d = CHR ''?''" using hd_dropWhile [of "\<lambda>c. c \<noteq> CHR ''?''" path] by simp
    with path Cons have path: "path = segment_path xs @ CHR ''?'' # q" by simp
    have "list_all query_char q" using assms(6) Cons by (simp add: safe_query_def)
    then have "url_join L base (segment_path xs @ CHR ''?'' # q) = Inr (base @ segment_path xs @ CHR ''?'' # q)"
      using assms(2-4) unfolding join_query_laws_def by blast
    with segments_of_query [OF assms(3) nonempty] show ?thesis unfolding path by blast
  qed
qed

end
