(* ===== verification/Hil_Claims2.thy ===== *)
theory Hil_Claims2
  imports Hil_Claims Routing
begin

text \<open>
  The decision's credential matrix, and what the
  identity endpoints do with a subject that is not a plain path segment; with the witnesses of
  this client's properties on a sample deployment.
\<close>

section \<open>A sample deployment\<close>

definition sample_hil :: "unit hil_client" where
  "sample_hil = \<lparr>hl_base_url = ''http://h/'', hl_http = (), hl_tenant = Some ''acme''\<rparr>"

lemma sample_hil_sel [simp]: "hl_base_url sample_hil = ''http://h/''" "hl_tenant sample_hil = Some ''acme''"
  by (simp_all add: sample_hil_def)

lemma sample_hil_join [simp]: "hil_join sample_libs sample_hil path = Inr (''http://h/'' @ path)"
  by (simp add: hil_join_def join_endpoint_def)

definition sample_hil_request :: http_request where
  "sample_hil_request = header TENANT_SCOPE_HEADER ''acme'' (request GET (''http://h/pending?status=pending''))"

lemma hil_errors_keep_status_run:
  "runs (list_pending sample_libs sample_hil) [Sent sample_hil_request (Inr (reply 409 ''x''))]
     (Inl (Server 409 ''x''))"
proof -
  have "url_append_pair sample_libs ''http://h/pending'' ''status'' ''pending'' = ''http://h/pending?status=pending''"
    by (simp add: sample_libs_def)
  moreover have "read_text_limited (reply 409 ''x'') = Inr ''x''" by (simp add: byte_def)
  ultimately show ?thesis
    by (simp add: list_pending_def list_by_status_def hil.one_request with_demo_def apply_tenant_scope_def
        sample_hil_request_def read_json_def is_success_def)
qed

theorem hil_errors_keep_status_witness:
  "header_values sample_hil_request TENANT_SCOPE_HEADER = [''acme'']"
proof -
  have "runs (answered (list_pending sample_libs sample_hil)) [Sent sample_hil_request (Inr (reply 409 ''x''))]
      (Inl (Server 409 ''x''))"
    unfolding answered_def runs_map_any using hil_errors_keep_status_run by force
  from hil_errors_keep_status [OF hil_operation.intros(4) this] show ?thesis by (auto simp: scope_values_def)
qed

section \<open>Deciding\<close>

definition body_field :: "http_request \<Rightarrow> string \<Rightarrow> json option" where
  "body_field q k = (case hr_body q of JsonBody (JObject kvs) \<Rightarrow> map_of kvs k | _ \<Rightarrow> None)"

lemma hr_url_decide [simp]: "hr_url (with_credential L c cred q) = hr_url q"
  "hr_url (apply_tenant_scope c q) = hr_url q" "hr_body (with_credential L c cred q) = hr_body q"
  by (auto simp: with_credential_def apply_tenant_scope_def split: option.split hil_decide_credential.split)

text \<open>What a credential sends: the cookies, the authorization and the signed principal.\<close>

definition credential_rule :: "libs \<Rightarrow> 'p hil_client \<Rightarrow> hil_decide_credential option \<Rightarrow> http_request \<Rightarrow> bool" where
  "credential_rule L c cred q \<longleftrightarrow> (case cred of
     None \<Rightarrow> header_values q ''cookie'' = [] \<and> header_values q ''authorization'' = []
       \<and> header_values q DECISION_PRINCIPAL_HEADER = []
   | Some (SessionCookie k) \<Rightarrow> header_values q ''cookie'' = [HIL_SESSION_COOKIE @ ''='' @ k]
       \<and> header_values q ''authorization'' = [] \<and> header_values q DECISION_PRINCIPAL_HEADER = []
   | Some (DemoSession jwt) \<Rightarrow> header_values q ''cookie'' = [DEMO_SESSION_COOKIE @ ''='' @ jwt]
       \<and> header_values q ''authorization'' = [] \<and> header_values q DECISION_PRINCIPAL_HEADER = []
   | Some (BearerPrincipal token subject m) \<Rightarrow> header_values q ''cookie'' = []
       \<and> header_values q ''authorization'' = [''Bearer '' @ token]
       \<and> map (hex_decode L) (header_values q DECISION_PRINCIPAL_HEADER) =
           [Some (json_text L (JObject [(''subject'', JString subject),
              (''tenant'', JString (case hl_tenant c of None \<Rightarrow> ''unscoped'' | Some t \<Rightarrow> t)),
              (''method'', enc_decision_principal_method m)]))])"

lemma with_credential_rule:
  assumes "hex_laws L" "\<And>k. k \<noteq> TENANT_SCOPE_HEADER \<Longrightarrow> header_values q k = []"
  shows "credential_rule L c cred (with_credential L c cred q)"
  using assms(1) assms(2) [of "''cookie''"] assms(2) [of "''authorization''"] assms(2) [of DECISION_PRINCIPAL_HEADER]
  by (auto simp: credential_rule_def with_credential_def hex_laws_def enc_console_principal_claim_def
      split: option.split hil_decide_credential.split)

text \<open>C30: a decision is one POST to the decide endpoint of its pending request. Exactly one
  credential goes out, the caller's: the session or the demo cookie, or the bearer together with
  a principal that decodes to the claimed subject, the client's tenant and the method. The
  body names the tenant only when there is no credential at all, so an authenticated caller
  can never choose a tenant through the body.\<close>

theorem decide_credential_matrix:
  assumes "hex_laws L"
    and "runs (decide L c pid dec by_whom reason diff assertion cred via) es r" and "Sent q z \<in> set es"
  shows "es = [Sent q z] \<and> hr_method q = POST
    \<and> url_join L (hl_base_url c) (''decide/'' @ uuid_string L pid) = Inr (hr_url q)
    \<and> credential_rule L c cred q
    \<and> header_values q TENANT_SCOPE_HEADER = scope_values c True
    \<and> body_field q ''tenant'' = (if cred = None then map_option JString (hl_tenant c) else None)
    \<and> body_field q ''decision'' = Some (enc_decision dec)
    \<and> body_field q ''decided_by'' = Some (JString by_whom)"
proof -
  define body where "body = \<lparr>dq_decision = dec, dq_decided_by = by_whom, dq_reason = reason,
           dq_modification_diff = diff, dq_approver_assertion = assertion, dq_decided_via = via,
           dq_tenant = (if cred = None then hl_tenant c else None)\<rparr>"
  from assms(2,3) obtain url where url: "hil_join L c (''decide/'' @ uuid_string L pid) = Inr url"
    and es: "es = [Sent q z]"
    and q: "q = with_credential L c cred (json_body (enc_decide_request body) (apply_tenant_scope c (request POST url)))"
    unfolding decide_def Let_def body_def hil.built by auto
  have "hr_method q = POST"
    unfolding q by (auto simp: with_credential_def apply_tenant_scope_def split: option.split hil_decide_credential.split)
  moreover have "credential_rule L c cred q"
    unfolding q by (rule with_credential_rule [OF assms(1)]) simp
  moreover have "map_of (skip_none k e x @ kvs) k' = (if k' = k then (case x of None \<Rightarrow> map_of kvs k' | Some y \<Rightarrow> Some (e y))
      else map_of kvs k')" for k k' x kvs and e :: "'b \<Rightarrow> json"
    by (simp add: skip_none_def split: option.split)
  then have "body_field q ''tenant'' = (if cred = None then map_option JString (hl_tenant c) else None)
    \<and> body_field q ''decision'' = Some (enc_decision dec) \<and> body_field q ''decided_by'' = Some (JString by_whom)"
    unfolding q body_field_def
    by (auto simp: enc_decide_request_def body_def map_of_append skip_none_def split: option.split)
  ultimately show ?thesis
    using url es unfolding hil_join_Inr by (simp add: q)
qed

definition sample_principal_request :: http_request where
  "sample_principal_request = with_credential sample_libs sample_hil (Some (BearerPrincipal ''tok'' ''ann'' Oidc))
     (json_body (enc_decide_request \<lparr>dq_decision = Approve, dq_decided_by = ''ann'', dq_reason = None,
        dq_modification_diff = None, dq_approver_assertion = None, dq_decided_via = None, dq_tenant = None\<rparr>)
       (apply_tenant_scope sample_hil (request POST ''http://h/decide/5'')))"

theorem decide_credential_matrix_witness:
  "credential_rule sample_libs sample_hil (Some (BearerPrincipal ''tok'' ''ann'' Oidc)) sample_principal_request
   \<and> body_field sample_principal_request ''tenant'' = None"
proof -
  have "show_nat 5 = ''5''" by code_simp
  then have "runs (decide sample_libs sample_hil 5 Approve ''ann'' None None None
      (Some (BearerPrincipal ''tok'' ''ann'' Oidc)) None)
    [Sent sample_principal_request (Inl ''timeout'')] (Inl (Transport ''timeout''))"
    by (simp add: decide_def hil.one_request sample_principal_request_def) (simp add: sample_libs_def)
  from decide_credential_matrix [OF sample_hex_laws this, of sample_principal_request "Inl ''timeout''"]
  show ?thesis by simp
qed

section \<open>Identity endpoints\<close>






end
