(* ===== verification/Sim.thy ===== *)
theory Sim
  imports Rest
begin

text \<open>
  \<open>SimClient\<close> (sim.rs): the status snapshot and the attributed control calls of the traffic
  simulator. The per-request deadline is part of every request; a control call names its
  operator in a header that is validated before anything is sent.
\<close>

section \<open>Wire types\<close>

lemma enc_f64_scalar: "f64_finite x \<Longrightarrow> enc_f64 x \<noteq> JNull"
  by (simp add: enc_f64_def)

lemma dec_enc_option_f64 [simp]:
  "pred_option f64_finite x \<Longrightarrow> dec_option dec_f64 (enc_option enc_f64 x) = Some x"
  by (cases x) (simp_all add: dec_option_def enc_option_def enc_f64_scalar)

record sim_agent_record =
  sa_cn :: string
  sa_persona :: string
  sa_rate_lambda :: f64
  sa_transient :: bool

definition enc_sim_agent_record :: "sim_agent_record \<Rightarrow> json" where
  "enc_sim_agent_record x = JObject (
    [(''cn'', JString (sa_cn x)),
      (''persona'', JString (sa_persona x)),
      (''rate_lambda'', enc_f64 (sa_rate_lambda x)),
      (''transient'', JBool (sa_transient x))])"

definition dec_sim_agent_record :: "sim_agent_record dec" where
  "dec_sim_agent_record j = do {
     f \<leftarrow> struct_fields False
       [''cn'', ''persona'', ''rate_lambda'', ''transient''] j;
     v1 \<leftarrow> need f ''cn'' dec_string;
     v2 \<leftarrow> need f ''persona'' dec_string;
     v3 \<leftarrow> need f ''rate_lambda'' dec_f64;
     v4 \<leftarrow> dflt f ''transient'' False dec_bool;
     Some \<lparr>sa_cn = v1,
       sa_persona = v2,
       sa_rate_lambda = v3,
       sa_transient = v4\<rparr> }"

definition ok_sim_agent_record :: "sim_agent_record \<Rightarrow> bool" where
  "ok_sim_agent_record x \<longleftrightarrow> f64_finite (sa_rate_lambda x)"

interpretation sim_agent_record_codec: codec enc_sim_agent_record dec_sim_agent_record ok_sim_agent_record
  by unfold_locales
    (auto simp: enc_sim_agent_record_def dec_sim_agent_record_def ok_sim_agent_record_def record_simps split: option.split)

record sim_stats =
  ss_sent :: u64
  ss_ok :: u64
  ss_denied :: u64
  ss_error :: u64
  ss_success_pct :: f64
  ss_p50_ms :: "f64 option"
  ss_p95_ms :: "f64 option"

definition enc_sim_stats :: "sim_stats \<Rightarrow> json" where
  "enc_sim_stats x = JObject (
    [(''sent'', enc_u64 (ss_sent x)),
      (''ok'', enc_u64 (ss_ok x)),
      (''denied'', enc_u64 (ss_denied x)),
      (''error'', enc_u64 (ss_error x)),
      (''success_pct'', enc_f64 (ss_success_pct x)),
      (''p50_ms'', enc_option enc_f64 (ss_p50_ms x)),
      (''p95_ms'', enc_option enc_f64 (ss_p95_ms x))])"

definition dec_sim_stats :: "sim_stats dec" where
  "dec_sim_stats j = do {
     f \<leftarrow> struct_fields False
       [''sent'', ''ok'', ''denied'', ''error'', ''success_pct'', ''p50_ms'', ''p95_ms''] j;
     v1 \<leftarrow> need f ''sent'' dec_u64;
     v2 \<leftarrow> need f ''ok'' dec_u64;
     v3 \<leftarrow> need f ''denied'' dec_u64;
     v4 \<leftarrow> need f ''error'' dec_u64;
     v5 \<leftarrow> need f ''success_pct'' dec_f64;
     v6 \<leftarrow> opt f ''p50_ms'' dec_f64;
     v7 \<leftarrow> opt f ''p95_ms'' dec_f64;
     Some \<lparr>ss_sent = v1,
       ss_ok = v2,
       ss_denied = v3,
       ss_error = v4,
       ss_success_pct = v5,
       ss_p50_ms = v6,
       ss_p95_ms = v7\<rparr> }"

definition ok_sim_stats :: "sim_stats \<Rightarrow> bool" where
  "ok_sim_stats x \<longleftrightarrow> f64_finite (ss_success_pct x)
     \<and> pred_option f64_finite (ss_p50_ms x)
     \<and> pred_option f64_finite (ss_p95_ms x)"

interpretation sim_stats_codec: codec enc_sim_stats dec_sim_stats ok_sim_stats
  by unfold_locales
    (auto simp: enc_sim_stats_def dec_sim_stats_def ok_sim_stats_def record_simps split: option.split)

record sim_status =
  st_traffic_multiplier :: f64
  st_running :: bool
  st_auto_decide :: "bool option"
  st_agents :: "sim_agent_record list"
  st_stats :: sim_stats

definition enc_sim_status :: "sim_status \<Rightarrow> json" where
  "enc_sim_status x = JObject (
    [(''traffic_multiplier'', enc_f64 (st_traffic_multiplier x)),
      (''running'', JBool (st_running x)),
      (''auto_decide'', enc_option JBool (st_auto_decide x)),
      (''agents'', enc_list enc_sim_agent_record (st_agents x)),
      (''stats'', enc_sim_stats (st_stats x))])"

definition dec_sim_status :: "sim_status dec" where
  "dec_sim_status j = do {
     f \<leftarrow> struct_fields False
       [''traffic_multiplier'', ''running'', ''auto_decide'', ''agents'', ''stats''] j;
     v1 \<leftarrow> need f ''traffic_multiplier'' dec_f64;
     v2 \<leftarrow> dflt f ''running'' False dec_bool;
     v3 \<leftarrow> dflt f ''auto_decide'' None (dec_option dec_bool);
     v4 \<leftarrow> need f ''agents'' (dec_list dec_sim_agent_record);
     v5 \<leftarrow> need f ''stats'' dec_sim_stats;
     Some \<lparr>st_traffic_multiplier = v1,
       st_running = v2,
       st_auto_decide = v3,
       st_agents = v4,
       st_stats = v5\<rparr> }"

definition ok_sim_status :: "sim_status \<Rightarrow> bool" where
  "ok_sim_status x \<longleftrightarrow> f64_finite (st_traffic_multiplier x)
     \<and> list_all ok_sim_agent_record (st_agents x)
     \<and> ok_sim_stats (st_stats x)"

interpretation sim_status_codec: codec enc_sim_status dec_sim_status ok_sim_status
  by unfold_locales
    (auto simp: enc_sim_status_def dec_sim_status_def ok_sim_status_def record_simps sim_agent_record_codec.read_back sim_agent_record_codec.read_back_list sim_agent_record_codec.read_back_option sim_stats_codec.read_back sim_stats_codec.read_back_list sim_stats_codec.read_back_option split: option.split)

section \<open>The client\<close>

text \<open>A \<open>Duration\<close> is its nanoseconds.\<close>

definition DEFAULT_REQUEST_TIMEOUT :: nat where "DEFAULT_REQUEST_TIMEOUT = 20 * 10 ^ 9"
definition DEFAULT_OPERATOR :: string where "DEFAULT_OPERATOR = ''sdk:unattributed''"
definition MAX_OPERATOR_BYTES :: nat where "MAX_OPERATOR_BYTES = 128"

record 'p sim_client =
  sc_base_url :: string
  sc_http :: 'p
  sc_request_timeout :: nat

definition sim_new :: "libs \<Rightarrow> 'p option \<Rightarrow> transport_error + 'p \<Rightarrow> string \<Rightarrow> clavenar_error + 'p sim_client" where
  "sim_new L installed fresh base_url =
     bindR (parse_base_url L base_url) (\<lambda>url.
     bindR (default_provider installed fresh) (\<lambda>http.
     Inr \<lparr>sc_base_url = url, sc_http = http, sc_request_timeout = DEFAULT_REQUEST_TIMEOUT\<rparr>))"

definition sim_with_http_provider :: "'p \<Rightarrow> 'p sim_client \<Rightarrow> 'p sim_client" where
  "sim_with_http_provider p c = c\<lparr>sc_http := p\<rparr>"

definition with_request_timeout :: "nat \<Rightarrow> 'p sim_client \<Rightarrow> clavenar_error + 'p sim_client" where
  "with_request_timeout timeout c =
     (if timeout = 0 then Inl (InvalidConfig ''simulator request timeout must be greater than zero'')
      else Inr (c\<lparr>sc_request_timeout := timeout\<rparr>))"

definition deadline :: "nat \<Rightarrow> http_request \<Rightarrow> http_request" where
  "deadline t q = q\<lparr>hr_timeout := Some t\<rparr>"

definition validate_operator :: "string \<Rightarrow> clavenar_error + unit" where
  "validate_operator operator =
     (if operator = [] \<or> MAX_OPERATOR_BYTES < length operator \<or> \<not> list_all is_ascii_graphic operator
      then Inl (InvalidConfig (''simulator operator must be 1..='' @ show_nat MAX_OPERATOR_BYTES
        @ '' visible ASCII bytes''))
      else Inr ())"

definition sim_get_json :: "libs \<Rightarrow> 'p sim_client \<Rightarrow> 'a dec \<Rightarrow> string \<Rightarrow> (clavenar_error, 'a) prog" where
  "sim_get_json L c d path = tryP (join_endpoint L (sc_base_url c) path path) (\<lambda>endpoint.
     send_decoded L d (deadline (sc_request_timeout c) (request GET endpoint)))"

definition post_json_as ::
  "libs \<Rightarrow> 'p sim_client \<Rightarrow> 'a dec \<Rightarrow> string \<Rightarrow> string \<Rightarrow> json \<Rightarrow> (clavenar_error, 'a) prog" where
  "post_json_as L c d operator path body =
     tryP (validate_operator operator) (\<lambda>_.
     tryP (join_endpoint L (sc_base_url c) path path) (\<lambda>endpoint.
     send_decoded L d (deadline (sc_request_timeout c)
       (json_body body (header ''x-clavenar-operator'' operator (request POST endpoint))))))"

section \<open>Operations\<close>

definition sim_get_status :: "libs \<Rightarrow> 'p sim_client \<Rightarrow> (clavenar_error, sim_status) prog" where
  "sim_get_status L c = sim_get_json L c dec_sim_status ''status''"

definition set_multiplier_as :: "libs \<Rightarrow> 'p sim_client \<Rightarrow> string \<Rightarrow> f64 \<Rightarrow> (clavenar_error, sim_status) prog" where
  "set_multiplier_as L c operator multiplier = post_json_as L c dec_sim_status operator ''multiplier''
     (normalize (JObject [(''traffic_multiplier'', enc_f64 multiplier)]))"

definition set_multiplier :: "libs \<Rightarrow> 'p sim_client \<Rightarrow> f64 \<Rightarrow> (clavenar_error, sim_status) prog" where
  "set_multiplier L c multiplier = set_multiplier_as L c DEFAULT_OPERATOR multiplier"

definition set_running_as :: "libs \<Rightarrow> 'p sim_client \<Rightarrow> string \<Rightarrow> bool \<Rightarrow> (clavenar_error, sim_status) prog" where
  "set_running_as L c operator running = post_json_as L c dec_sim_status operator ''running''
     (normalize (JObject [(''running'', JBool running)]))"

definition set_running :: "libs \<Rightarrow> 'p sim_client \<Rightarrow> bool \<Rightarrow> (clavenar_error, sim_status) prog" where
  "set_running L c running = set_running_as L c DEFAULT_OPERATOR running"

definition set_auto_decide_as :: "libs \<Rightarrow> 'p sim_client \<Rightarrow> string \<Rightarrow> bool \<Rightarrow> (clavenar_error, sim_status) prog" where
  "set_auto_decide_as L c operator enabled = post_json_as L c dec_sim_status operator ''auto-decide''
     (normalize (JObject [(''enabled'', JBool enabled)]))"

definition set_auto_decide :: "libs \<Rightarrow> 'p sim_client \<Rightarrow> bool \<Rightarrow> (clavenar_error, sim_status) prog" where
  "set_auto_decide L c enabled = set_auto_decide_as L c DEFAULT_OPERATOR enabled"

record spawned_wrap =
  sw_spawned :: "string list"

definition dec_spawned_wrap :: "spawned_wrap dec" where
  "dec_spawned_wrap j = do {
     f \<leftarrow> struct_fields False
       [''spawned''] j;
     v1 \<leftarrow> need f ''spawned'' (dec_list dec_string);
     Some \<lparr>sw_spawned = v1\<rparr> }"

definition add_agents_as ::
  "libs \<Rightarrow> 'p sim_client \<Rightarrow> string \<Rightarrow> string \<Rightarrow> usize \<Rightarrow> (clavenar_error, string list) prog" where
  "add_agents_as L c operator persona count =
     bindP (post_json_as L c dec_spawned_wrap operator ''agents''
       (normalize (JObject [(''persona'', JString persona), (''count'', enc_u64 count)])))
     (\<lambda>w. okP (sw_spawned w))"

definition add_agents :: "libs \<Rightarrow> 'p sim_client \<Rightarrow> string \<Rightarrow> usize \<Rightarrow> (clavenar_error, string list) prog" where
  "add_agents L c persona count = add_agents_as L c DEFAULT_OPERATOR persona count"

end
