(* ===== verification/Sim_Claims.thy ===== *)
theory Sim_Claims
  imports Sim
begin

text \<open>
  The clients a caller can build have a positive deadline, every request of theirs carries it,
  and a control request names a validated operator.
\<close>

inductive sim_client_built :: "libs \<Rightarrow> 'p sim_client \<Rightarrow> bool" for L where
  "sim_new L installed fresh base_url = Inr c \<Longrightarrow> sim_client_built L c"
| "sim_client_built L c \<Longrightarrow> sim_client_built L (sim_with_http_provider p c)"
| "sim_client_built L c \<Longrightarrow> with_request_timeout t c = Inr c' \<Longrightarrow> sim_client_built L c'"

text \<open>The operations, each with the operator it acts for; reading the status has none.\<close>

inductive sim_operation :: "libs \<Rightarrow> 'p sim_client \<Rightarrow> string option \<Rightarrow> (clavenar_error, unit) prog \<Rightarrow> bool"
  for L c where
  "sim_operation L c None (forgetP (sim_get_status L c))"
| "sim_operation L c (Some operator) (forgetP (set_multiplier_as L c operator multiplier))"
| "sim_operation L c (Some operator) (forgetP (set_running_as L c operator running))"
| "sim_operation L c (Some operator) (forgetP (set_auto_decide_as L c operator enabled))"
| "sim_operation L c (Some operator) (forgetP (add_agents_as L c operator persona count))"
| "sim_operation L c (Some DEFAULT_OPERATOR) (forgetP (set_multiplier L c multiplier))"
| "sim_operation L c (Some DEFAULT_OPERATOR) (forgetP (set_running L c running))"
| "sim_operation L c (Some DEFAULT_OPERATOR) (forgetP (set_auto_decide L c enabled))"
| "sim_operation L c (Some DEFAULT_OPERATOR) (forgetP (add_agents L c persona count))"

lemma deadline_simps [simp]: "hr_timeout (deadline t q) = Some t" "hr_headers (deadline t q) = hr_headers q"
  "hr_method (deadline t q) = hr_method q" "hr_url (deadline t q) = hr_url q" "hr_body (deadline t q) = hr_body q"
  by (simp_all add: deadline_def)

lemma sim_timeout_positive: "sim_client_built L c \<Longrightarrow> 0 < sc_request_timeout c"
  by (induction rule: sim_client_built.induct)
    (auto simp: sim_new_def bindR_Inr DEFAULT_REQUEST_TIMEOUT_def sim_with_http_provider_def
      with_request_timeout_def split: if_splits)

definition operator_ok :: "string \<Rightarrow> bool" where
  "operator_ok operator \<longleftrightarrow> operator \<noteq> [] \<and> length operator \<le> 128 \<and> list_all is_ascii_graphic operator"

lemma validate_operator_Inr: "validate_operator operator = Inr u \<longleftrightarrow> operator_ok operator"
  by (auto simp: validate_operator_def operator_ok_def MAX_OPERATOR_BYTES_def)

lemma validate_operator_Inl: "validate_operator operator = Inl e \<Longrightarrow> \<exists>m. e = InvalidConfig m"
  by (auto simp: validate_operator_def split: if_splits)

definition attributed_call :: "'p sim_client \<Rightarrow> string option \<Rightarrow> (clavenar_error, unit) prog \<Rightarrow> bool" where
  "attributed_call c who p \<longleftrightarrow> (\<forall>es r. runs p es r \<longrightarrow>
     (es = [] \<and> (\<exists>m. r = Inl (InvalidConfig m)))
   \<or> (\<exists>q z. es = [Sent q z] \<and> hr_timeout q = Some (sc_request_timeout c)
        \<and> hr_headers q = (case who of None \<Rightarrow> [] | Some operator \<Rightarrow> [(''x-clavenar-operator'', operator)])
        \<and> hr_method q = (if who = None then GET else POST)
        \<and> pred_option operator_ok who))"

lemma forget_post: "forgetP (post_json_as L c d operator path body) =
    tryP (validate_operator operator) (\<lambda>_.
      forgetP (tryP (join_endpoint L (sc_base_url c) path path) (\<lambda>endpoint.
        send_decoded L d (deadline (sc_request_timeout c)
          (json_body body (header ''x-clavenar-operator'' operator (request POST endpoint)))))))"
  unfolding post_json_as_def by (cases "validate_operator operator") simp_all

lemma attributed_get: "attributed_call c None (forgetP (sim_get_json L c d path))"
  unfolding attributed_call_def sim_get_json_def runs_one_call
  by (auto dest!: join_endpoint_Inl)

lemma attributed_post: "attributed_call c (Some operator) (forgetP (post_json_as L c d operator path body))"
proof (cases "validate_operator operator")
  case (Inl e)
  then show ?thesis
    using validate_operator_Inl by (auto simp: attributed_call_def forget_post)
next
  case (Inr u)
  then have "operator_ok operator" by (simp add: validate_operator_Inr)
  with Inr show ?thesis
    unfolding attributed_call_def forget_post
    by (auto simp: runs_one_call dest!: join_endpoint_Inl)
qed

lemmas sim_defs = sim_get_status_def set_multiplier_def set_multiplier_as_def set_running_def set_running_as_def
  set_auto_decide_def set_auto_decide_as_def add_agents_def add_agents_as_def forgetP_bind

lemma sim_operation_attributed: "sim_operation L c who p \<Longrightarrow> attributed_call c who p"
  by (induction rule: sim_operation.induct) (unfold sim_defs, (rule attributed_get attributed_post)+)

text \<open>C37: a simulator client that can be built at all has a positive deadline, and every one of
  its requests carries it. A control operation sends one POST that names its operator, which is
  1 to 128 visible ASCII bytes; with any other operator it fails as a configuration error and
  nothing is sent.\<close>

theorem sim_requests_attributed:
  assumes "sim_client_built L c" and "sim_operation L c who p" and "runs p es r"
  shows "(es = [] \<and> (\<exists>m. r = Inl (InvalidConfig m)))
   \<or> (\<exists>q z t. es = [Sent q z] \<and> hr_timeout q = Some t \<and> 0 < t
        \<and> hr_headers q = (case who of None \<Rightarrow> [] | Some operator \<Rightarrow> [(''x-clavenar-operator'', operator)])
        \<and> hr_method q = (if who = None then GET else POST)
        \<and> pred_option (\<lambda>operator. operator \<noteq> [] \<and> length operator \<le> 128
             \<and> list_all is_ascii_graphic operator) who)"
  using sim_operation_attributed [OF assms(2)] assms(3) sim_timeout_positive [OF assms(1)]
  unfolding attributed_call_def operator_ok_def by blast

definition sample_sim :: "unit sim_client" where
  "sample_sim = \<lparr>sc_base_url = ''http://s/'', sc_http = (), sc_request_timeout = DEFAULT_REQUEST_TIMEOUT\<rparr>"

definition sample_control :: http_request where
  "sample_control = deadline DEFAULT_REQUEST_TIMEOUT (json_body (JObject [(''running'', JBool True)])
     (header ''x-clavenar-operator'' ''ann'' (request POST ''http://s/running'')))"

theorem sim_requests_attributed_witness:
  "hr_headers sample_control = [(''x-clavenar-operator'', ''ann'')] \<and> hr_timeout sample_control = Some (20 * 10 ^ 9)
   \<and> list_all is_ascii_graphic ''ann''"
proof -
  have "sim_new sample_libs (Some ()) (Inl ''none'') ''http://s/'' = Inr sample_sim"
    by (simp add: sim_new_def sample_sim_def parse_base_url_def default_provider_def sample_libs_def
        ends_with_def)
  then have built: "sim_client_built sample_libs sample_sim" by (rule sim_client_built.intros)
  have "validate_operator ''ann'' = Inr ()"
    by (simp add: validate_operator_def MAX_OPERATOR_BYTES_def is_ascii_graphic_def byte_def)
  moreover have "url_join sample_libs ''http://s/'' ''running'' = Inr ''http://s/running''"
    by (simp add: sample_libs_def)
  ultimately have "runs (forgetP (set_running_as sample_libs sample_sim ''ann'' True))
      [Sent sample_control (Inl ''timeout'')] (Inl (Transport ''timeout''))"
    by (simp add: set_running_as_def post_json_as_def join_endpoint_def sample_sim_def sample_control_def
        forgetP_def decoded.mapped btree_of_def)
  from sim_requests_attributed [OF built sim_operation.intros(3) this]
  show ?thesis by (simp add: sample_control_def DEFAULT_REQUEST_TIMEOUT_def)
qed

end
