(* ===== verification/Brain.thy ===== *)
theory Brain
  imports Rest
begin

text \<open>
  \<open>BrainClient\<close> (brain.rs): the one call of the brain's surface, explaining a mined pattern.
\<close>

record explain_pattern_request =
  ep_kind :: string
  ep_tool_type :: string
  ep_threshold :: json
  ep_evidence_count :: u32

definition enc_explain_pattern_request :: "explain_pattern_request \<Rightarrow> json" where
  "enc_explain_pattern_request x = JObject (
    [(''kind'', JString (ep_kind x)),
      (''tool_type'', JString (ep_tool_type x)),
      (''threshold'', ep_threshold x),
      (''evidence_count'', enc_u32 (ep_evidence_count x))])"

definition dec_explain_pattern_request :: "explain_pattern_request dec" where
  "dec_explain_pattern_request j = do {
     f \<leftarrow> struct_fields False
       [''kind'', ''tool_type'', ''threshold'', ''evidence_count''] j;
     v1 \<leftarrow> need f ''kind'' dec_string;
     v2 \<leftarrow> need f ''tool_type'' dec_string;
     v3 \<leftarrow> need f ''threshold'' dec_value;
     v4 \<leftarrow> need f ''evidence_count'' dec_u32;
     Some \<lparr>ep_kind = v1,
       ep_tool_type = v2,
       ep_threshold = v3,
       ep_evidence_count = v4\<rparr> }"

definition ok_explain_pattern_request :: "explain_pattern_request \<Rightarrow> bool" where
  "ok_explain_pattern_request x \<longleftrightarrow> json_wf (ep_threshold x)"

interpretation explain_pattern_request_codec: codec enc_explain_pattern_request dec_explain_pattern_request ok_explain_pattern_request
  by unfold_locales
    (auto simp: enc_explain_pattern_request_def dec_explain_pattern_request_def ok_explain_pattern_request_def record_simps split: option.split)

record explain_pattern_response =
  er_one_liner :: string
  er_rationale :: string

definition enc_explain_pattern_response :: "explain_pattern_response \<Rightarrow> json" where
  "enc_explain_pattern_response x = JObject (
    [(''one_liner'', JString (er_one_liner x)),
      (''rationale'', JString (er_rationale x))])"

definition dec_explain_pattern_response :: "explain_pattern_response dec" where
  "dec_explain_pattern_response j = do {
     f \<leftarrow> struct_fields False
       [''one_liner'', ''rationale''] j;
     v1 \<leftarrow> need f ''one_liner'' dec_string;
     v2 \<leftarrow> need f ''rationale'' dec_string;
     Some \<lparr>er_one_liner = v1,
       er_rationale = v2\<rparr> }"

interpretation explain_pattern_response_codec: codec enc_explain_pattern_response dec_explain_pattern_response "\<lambda>_. True"
  by unfold_locales
    (auto simp: enc_explain_pattern_response_def dec_explain_pattern_response_def record_simps split: option.split)

record 'p brain_client =
  br_base_url :: string
  br_http :: 'p
  br_bearer :: "string option"

definition brain_new :: "libs \<Rightarrow> 'p option \<Rightarrow> transport_error + 'p \<Rightarrow> string \<Rightarrow> clavenar_error + 'p brain_client" where
  "brain_new L installed fresh base_url =
     bindR (parse_base_url L base_url) (\<lambda>url.
     bindR (default_provider installed fresh) (\<lambda>http.
     Inr \<lparr>br_base_url = url, br_http = http, br_bearer = None\<rparr>))"

definition brain_with_http_provider :: "'p \<Rightarrow> 'p brain_client \<Rightarrow> 'p brain_client" where
  "brain_with_http_provider p c = c\<lparr>br_http := p\<rparr>"

definition brain_with_bearer :: "string \<Rightarrow> 'p brain_client \<Rightarrow> 'p brain_client" where
  "brain_with_bearer token c = c\<lparr>br_bearer := Some token\<rparr>"

definition explain_pattern ::
  "libs \<Rightarrow> 'p brain_client \<Rightarrow> explain_pattern_request \<Rightarrow> (clavenar_error, explain_pattern_response) prog" where
  "explain_pattern L c req =
     tryP (join_endpoint L (br_base_url c) ''explain-pattern'' ''explain-pattern'') (\<lambda>url.
     send_decoded L dec_explain_pattern_response
       (with_token (br_bearer c) (json_body (enc_explain_pattern_request req) (request POST url))))"

end
