(* ===== verification/Pack.thy ===== *)
theory Pack
  imports Rest
begin

text \<open>
  Signed policy packs (pack.rs): the manifest, the bytes its signature commits to, the
  verification of a detached signature, and the resolution of the verifying key from a PEM or
  a JWKS document. Ed25519, the hexadecimal and base64 decoders' messages and the key formats
  are the crates', as one record of functions over the type of keys.
\<close>

section \<open>The manifest\<close>

definition PACK_MANIFEST_SCHEMA_VERSION :: string where "PACK_MANIFEST_SCHEMA_VERSION = ''1''"
definition PACK_MANIFEST_FILENAME :: string where "PACK_MANIFEST_FILENAME = ''pack.json''"
definition PACK_SIGNATURE_SIDECAR :: string where "PACK_SIGNATURE_SIDECAR = ''pack.sig''"
definition PACK_AUDIENCE :: string where "PACK_AUDIENCE = ''policy-pack''"

record pack_entry =
  pe_path :: string
  pe_content_type :: string
  pe_body_sha256 :: string

definition enc_pack_entry :: "pack_entry \<Rightarrow> json" where
  "enc_pack_entry x = JObject (
    [(''path'', JString (pe_path x)),
      (''content_type'', JString (pe_content_type x)),
      (''body_sha256'', JString (pe_body_sha256 x))])"

definition dec_pack_entry :: "pack_entry dec" where
  "dec_pack_entry j = do {
     f \<leftarrow> struct_fields False
       [''path'', ''content_type'', ''body_sha256''] j;
     v1 \<leftarrow> need f ''path'' dec_string;
     v2 \<leftarrow> need f ''content_type'' dec_string;
     v3 \<leftarrow> need f ''body_sha256'' dec_string;
     Some \<lparr>pe_path = v1,
       pe_content_type = v2,
       pe_body_sha256 = v3\<rparr> }"

interpretation pack_entry_codec: codec enc_pack_entry dec_pack_entry "\<lambda>_. True"
  by unfold_locales
    (auto simp: enc_pack_entry_def dec_pack_entry_def record_simps split: option.split)

record pack_signature_ref =
  pr_sidecar :: string
  pr_algorithm :: string
  pr_digest_alg :: string
  pr_key_id :: string
  pr_signed_at :: datetime

definition enc_pack_signature_ref :: "libs \<Rightarrow> pack_signature_ref \<Rightarrow> json" where
  "enc_pack_signature_ref L x = JObject (
    [(''sidecar'', JString (pr_sidecar x)),
      (''algorithm'', JString (pr_algorithm x)),
      (''digest_alg'', JString (pr_digest_alg x)),
      (''key_id'', JString (pr_key_id x)),
      (''signed_at'', enc_datetime L (pr_signed_at x))])"

definition dec_pack_signature_ref :: "libs \<Rightarrow> pack_signature_ref dec" where
  "dec_pack_signature_ref L j = do {
     f \<leftarrow> struct_fields False
       [''sidecar'', ''algorithm'', ''digest_alg'', ''key_id'', ''signed_at''] j;
     v1 \<leftarrow> need f ''sidecar'' dec_string;
     v2 \<leftarrow> need f ''algorithm'' dec_string;
     v3 \<leftarrow> need f ''digest_alg'' dec_string;
     v4 \<leftarrow> need f ''key_id'' dec_string;
     v5 \<leftarrow> need f ''signed_at'' (dec_datetime L);
     Some \<lparr>pr_sidecar = v1,
       pr_algorithm = v2,
       pr_digest_alg = v3,
       pr_key_id = v4,
       pr_signed_at = v5\<rparr> }"

definition ok_pack_signature_ref :: "libs \<Rightarrow> pack_signature_ref \<Rightarrow> bool" where
  "ok_pack_signature_ref L x \<longleftrightarrow> datetime_laws L"

interpretation pack_signature_ref_codec: codec "enc_pack_signature_ref L" "dec_pack_signature_ref L" "ok_pack_signature_ref L"
  by unfold_locales
    (auto simp: enc_pack_signature_ref_def dec_pack_signature_ref_def ok_pack_signature_ref_def record_simps split: option.split)

lemma enc_pack_signature_ref_scalar: "enc_pack_signature_ref L x \<noteq> JNull"
  by (simp add: enc_pack_signature_ref_def)

record pack_manifest =
  pm_schema_version :: string
  pm_name :: string
  pm_version :: string
  pm_entries :: "pack_entry list"
  pm_generated_at :: datetime
  pm_signature :: "pack_signature_ref option"

definition enc_pack_manifest :: "libs \<Rightarrow> pack_manifest \<Rightarrow> json" where
  "enc_pack_manifest L x = JObject (
    [(''schema_version'', JString (pm_schema_version x)),
      (''name'', JString (pm_name x)),
      (''version'', JString (pm_version x)),
      (''entries'', enc_list enc_pack_entry (pm_entries x)),
      (''generated_at'', enc_datetime L (pm_generated_at x)),
      (''signature'', enc_option (enc_pack_signature_ref L) (pm_signature x))])"

definition dec_pack_manifest :: "libs \<Rightarrow> pack_manifest dec" where
  "dec_pack_manifest L j = do {
     f \<leftarrow> struct_fields False
       [''schema_version'', ''name'', ''version'', ''entries'', ''generated_at'',
        ''signature''] j;
     v1 \<leftarrow> need f ''schema_version'' dec_string;
     v2 \<leftarrow> need f ''name'' dec_string;
     v3 \<leftarrow> need f ''version'' dec_string;
     v4 \<leftarrow> need f ''entries'' (dec_list dec_pack_entry);
     v5 \<leftarrow> need f ''generated_at'' (dec_datetime L);
     v6 \<leftarrow> dflt f ''signature'' None (dec_option (dec_pack_signature_ref L));
     Some \<lparr>pm_schema_version = v1,
       pm_name = v2,
       pm_version = v3,
       pm_entries = v4,
       pm_generated_at = v5,
       pm_signature = v6\<rparr> }"

definition ok_pack_manifest :: "libs \<Rightarrow> pack_manifest \<Rightarrow> bool" where
  "ok_pack_manifest L x \<longleftrightarrow> datetime_laws L
     \<and> pred_option (ok_pack_signature_ref L) (pm_signature x)"

interpretation pack_manifest_codec: codec "enc_pack_manifest L" "dec_pack_manifest L" "ok_pack_manifest L"
  by unfold_locales
    (auto simp: enc_pack_manifest_def dec_pack_manifest_def ok_pack_manifest_def record_simps pack_entry_codec.read_back pack_entry_codec.read_back_list pack_entry_codec.read_back_option pack_signature_ref_codec.read_back pack_signature_ref_codec.read_back_list pack_signature_ref_codec.read_back_option enc_pack_signature_ref_def split: option.split)

definition canonical_unsigned :: "libs \<Rightarrow> pack_manifest \<Rightarrow> clavenar_error + string" where
  "canonical_unsigned L m = Inr (json_pretty L (enc_pack_manifest L (m\<lparr>pm_signature := None\<rparr>)))"

definition digest_hex :: "libs \<Rightarrow> pack_manifest \<Rightarrow> clavenar_error + string" where
  "digest_hex L m = bindR (canonical_unsigned L m) (\<lambda>c. Inr (hex_encode L (sha256_digest L c)))"

section \<open>Verification\<close>

record 'k ed25519 =
  signature_from_slice :: "string \<Rightarrow> string + string"
  verify_signature :: "'k \<Rightarrow> string \<Rightarrow> string \<Rightarrow> bool"    \<comment> \<open>key, message, signature\<close>
  key_from_pem :: "string \<Rightarrow> string + 'k"
  key_from_bytes :: "string \<Rightarrow> string + 'k"
  hex_error :: "string \<Rightarrow> string"                    \<comment> \<open>the text of \<open>hex::decode\<close>'s error\<close>
  base64_error :: "string \<Rightarrow> string"
  error_display :: "clavenar_error \<Rightarrow> string"         \<comment> \<open>the derived \<open>Display\<close> of the error type\<close>

datatype pack_verify_outcome = PackValid | PackUnsigned | PackForged string | PackMalformed string

definition verify_pack :: "libs \<Rightarrow> 'k ed25519 \<Rightarrow> pack_manifest \<Rightarrow> string \<Rightarrow> 'k \<Rightarrow> pack_verify_outcome" where
  "verify_pack L C manifest sig_hex key =
     (if pm_signature manifest = None then PackUnsigned
      else case canonical_unsigned L manifest of
        Inl e \<Rightarrow> PackMalformed (''canonical: '' @ error_display C e)
      | Inr c \<Rightarrow> (let digest = sha256_digest L c in
          case hex_decode L (trim sig_hex) of
            None \<Rightarrow> PackMalformed (''signature hex: '' @ hex_error C (trim sig_hex))
          | Some raw \<Rightarrow> (case signature_from_slice C raw of
              Inl e \<Rightarrow> PackMalformed (''signature bytes: '' @ e)
            | Inr s \<Rightarrow> if verify_signature C key digest s then PackValid
                else PackForged ''ed25519 verification failed'')))"

section \<open>Keys\<close>

definition verifying_key_from_pem :: "'k ed25519 \<Rightarrow> string \<Rightarrow> clavenar_error + 'k" where
  "verifying_key_from_pem C pem = (case key_from_pem C pem of
     Inl e \<Rightarrow> Inl (InvalidConfig (''public key PEM: '' @ e)) | Inr k \<Rightarrow> Inr k)"

text \<open>\<open>Value::get\<close> with a key, \<open>as_array\<close> and \<open>as_str\<close>.\<close>

definition value_get :: "json \<Rightarrow> string \<Rightarrow> json option" where
  "value_get j k = (case j of JObject kvs \<Rightarrow> map_of kvs k | _ \<Rightarrow> None)"

definition as_str :: "json \<Rightarrow> string option" where
  "as_str j = (case j of JString s \<Rightarrow> Some s | _ \<Rightarrow> None)"

definition as_array :: "json \<Rightarrow> json list option" where
  "as_array j = (case j of JArray xs \<Rightarrow> Some xs | _ \<Rightarrow> None)"

definition ok_or :: "string \<Rightarrow> 'a option \<Rightarrow> clavenar_error + 'a" where
  "ok_or message x = (case x of None \<Rightarrow> Inl (InvalidConfig message) | Some y \<Rightarrow> Inr y)"

definition verifying_key_from_jwks :: "libs \<Rightarrow> 'k ed25519 \<Rightarrow> json \<Rightarrow> string \<Rightarrow> clavenar_error + 'k" where
  "verifying_key_from_jwks L C jwks key_id =
     bindR (ok_or ''jwks: missing `keys` array'' (Option.bind (value_get jwks ''keys'') as_array)) (\<lambda>keys.
     bindR (ok_or (''jwks: no key with kid='' @ key_id)
       (find (\<lambda>k. Option.bind (value_get k ''kid'') as_str = Some key_id) keys)) (\<lambda>jwk.
     bindR (ok_or ''jwks: key missing `x`'' (Option.bind (value_get jwk ''x'') as_str)) (\<lambda>x_b64.
     bindR (ok_or (''jwks: x base64url: '' @ base64_error C x_b64) (base64url_decode L x_b64)) (\<lambda>bytes.
     if length bytes \<noteq> 32 then Inl (InvalidConfig ''jwks: x is not 32 bytes'')
     else case key_from_bytes C bytes of
         Inl e \<Rightarrow> Inl (InvalidConfig (''jwks: invalid ed25519 key: '' @ e))
       | Inr k \<Rightarrow> Inr k))))"

section \<open>The retired signer\<close>

datatype pack_signer = PackSigner

record pack_signature =
  pg_signature_hex :: string
  pg_key_id :: string
  pg_algorithm :: string
  pg_signed_at :: datetime

definition pack_signer_new :: "string \<Rightarrow> string \<Rightarrow> pack_signer" where
  "pack_signer_new base_url caller_spiffe = PackSigner"

definition pack_sign :: "pack_signer \<Rightarrow> string \<Rightarrow> clavenar_error + pack_signature" where
  "pack_sign signer digest_sha256_hex = Inl (InvalidConfig
     (''policy-pack signing is disabled: identity /sign/blob is ledger-only; configure a dedicated ''
      @ ''identity.sign.policy-pack capability before enabling this operation''))"

end
