(* ===== verification/Pack_Claims.thy ===== *)
theory Pack_Claims
  imports Pack
begin

text \<open>
  What a valid pack signature commits to, and which key a JWKS document resolves to; with the
  witnesses on a sample signature scheme.
\<close>

section \<open>The text of a document determines it\<close>

text \<open>The printer's documented behaviour: a printed document is parsed back, so no two share a text.\<close>

definition pretty_laws :: "libs \<Rightarrow> bool" where
  "pretty_laws L \<longleftrightarrow> inj_on (json_pretty L) {j. numbers_ok j}"

lemma sample_pretty_array:
  assumes "\<And>a b x y. a \<in> set xs \<Longrightarrow> sample_pretty a @ x = sample_pretty b @ y \<Longrightarrow> a = b \<and> x = y"
    and "concat (map (\<lambda>x. CHR ''+'' # sample_pretty x) xs) @ CHR ''.'' # x
       = concat (map (\<lambda>x. CHR ''+'' # sample_pretty x) ys) @ CHR ''.'' # y"
  shows "xs = ys \<and> x = y"
  using assms
proof (induction xs arbitrary: ys)
  case Nil
  then show ?case by (cases ys) auto
next
  case (Cons a xs)
  obtain b bs where ys: "ys = b # bs" using Cons.prems(2) by (cases ys) auto
  have eq: "sample_pretty a @ concat (map (\<lambda>x. CHR ''+'' # sample_pretty x) xs) @ CHR ''.'' # x
    = sample_pretty b @ concat (map (\<lambda>x. CHR ''+'' # sample_pretty x) bs) @ CHR ''.'' # y"
    using Cons.prems(2) by (simp add: ys)
  have "a = b \<and> concat (map (\<lambda>x. CHR ''+'' # sample_pretty x) xs) @ CHR ''.'' # x
    = concat (map (\<lambda>x. CHR ''+'' # sample_pretty x) bs) @ CHR ''.'' # y"
    by (rule Cons.prems(1) [OF _ eq]) simp
  moreover from this have "xs = bs \<and> x = y"
    by (intro Cons.IH Cons.prems(1)) simp_all
  ultimately show ?case by (simp add: ys)
qed

lemma sample_pretty_object:
  assumes "\<And>v w x y. v \<in> snd ` set kvs \<Longrightarrow> sample_pretty v @ x = sample_pretty w @ y \<Longrightarrow> v = w \<and> x = y"
    and "concat (map (\<lambda>(k, v). CHR ''+'' # quoted k @ sample_pretty v) kvs) @ CHR ''.'' # x
       = concat (map (\<lambda>(k, v). CHR ''+'' # quoted k @ sample_pretty v) kws) @ CHR ''.'' # y"
  shows "kvs = kws \<and> x = y"
  using assms
proof (induction kvs arbitrary: kws)
  case Nil
  then show ?case by (cases kws) auto
next
  case (Cons kv kvs)
  obtain k v where kv: "kv = (k, v)" by force
  obtain l w kws' where kws: "kws = (l, w) # kws'" using Cons.prems(2) by (cases kws) (auto simp: kv)
  let ?rest = "\<lambda>m z. concat (map (\<lambda>(k, v). CHR ''+'' # quoted k @ sample_pretty v) m) @ CHR ''.'' # z"
  have "quoted k @ sample_pretty v @ ?rest kvs x = quoted l @ sample_pretty w @ ?rest kws' y"
    using Cons.prems(2) by (simp add: kv kws)
  then have k: "k = l" and eq: "sample_pretty v @ ?rest kvs x = sample_pretty w @ ?rest kws' y"
    using quoted_prefix_code by blast+
  have "v = w \<and> ?rest kvs x = ?rest kws' y"
    by (rule Cons.prems(1) [OF _ eq]) (simp add: kv)
  moreover from this have "kvs = kws' \<and> x = y"
    by (intro Cons.IH Cons.prems(1)) (auto simp: kv)
  ultimately show ?case by (simp add: kv kws k)
qed

lemma sample_pretty_prefix: "sample_pretty j @ x = sample_pretty k @ y \<Longrightarrow> j = k \<and> x = y"
proof (induction j arbitrary: k x y)
  case JNull
  then show ?case by (cases k rule: sample_pretty.cases) (auto split: if_splits)
next
  case (JBool b)
  then show ?case by (cases k rule: sample_pretty.cases) (auto split: if_splits)
next
  case (JNumber n)
  then show ?case
    by (cases n; cases k rule: sample_pretty.cases)
      (auto simp: show_nat_inject word_unat_eq_iff dest!: quoted_prefix_code split: if_splits)
next
  case (JString s)
  then show ?case
    by (cases k rule: sample_pretty.cases) (auto dest!: quoted_prefix_code split: if_splits)
next
  case (JArray xs)
  then obtain ys where k: "k = JArray ys"
    by (cases k rule: sample_pretty.cases) (auto split: if_splits)
  from JArray show ?case
    using sample_pretty_array [of xs x ys y] by (auto simp: k)
next
  case (JObject kvs)
  then obtain kws where k: "k = JObject kws"
    by (cases k rule: sample_pretty.cases) (auto split: if_splits)
  from JObject.prems
  have "concat (map (\<lambda>(k, v). CHR ''+'' # quoted k @ sample_pretty v) kvs) @ CHR ''.'' # x
       = concat (map (\<lambda>(k, v). CHR ''+'' # quoted k @ sample_pretty v) kws) @ CHR ''.'' # y"
    by (simp add: k)
  with JObject.IH have "kvs = kws \<and> x = y"
    by (intro sample_pretty_object) (fastforce simp: snds.simps)+
  then show ?case by (simp add: k)
qed

lemma sample_pretty_laws: "pretty_laws sample_libs"
  unfolding pretty_laws_def
  by (rule inj_onI) (use sample_pretty_prefix [of _ "[]" _ "[]"] in \<open>simp add: sample_libs_def\<close>)

section \<open>Signatures\<close>

definition unsigned :: "pack_manifest \<Rightarrow> pack_manifest" where
  "unsigned m = m\<lparr>pm_signature := None\<rparr>"

definition signed_text :: "libs \<Rightarrow> pack_manifest \<Rightarrow> string" where
  "signed_text L m = json_pretty L (enc_pack_manifest L (unsigned m))"

lemma canonical_unsigned_text: "canonical_unsigned L m = Inr (signed_text L m)"
  by (simp add: canonical_unsigned_def signed_text_def unsigned_def)

lemma numbers_ok_manifest: "numbers_ok (enc_pack_manifest L m)"
  by (auto simp: enc_pack_manifest_def enc_list_def enc_pack_entry_def enc_option_def enc_datetime_def
      enc_pack_signature_ref_def split: option.split)

lemma signed_text_inject:
  assumes "pretty_laws L" "datetime_laws L" "signed_text L m = signed_text L m'"
  shows "unsigned m = unsigned m'"
proof -
  have "enc_pack_manifest L (unsigned m) = enc_pack_manifest L (unsigned m')"
    using assms(1,3) unfolding pretty_laws_def signed_text_def
    by (rule inj_onD) (simp_all add: numbers_ok_manifest)
  moreover have "ok_pack_manifest L (unsigned n)" for n
    using assms(2) by (simp add: ok_pack_manifest_def unsigned_def)
  ultimately show ?thesis using pack_manifest_codec.enc_inject by blast
qed

lemma verify_pack_Valid: "verify_pack L C m sig_hex key = PackValid \<longleftrightarrow>
    pm_signature m \<noteq> None
    \<and> (\<exists>raw s. hex_decode L (trim sig_hex) = Some raw \<and> signature_from_slice C raw = Inr s
        \<and> verify_signature C key (sha256_digest L (signed_text L m)) s)"
  by (auto simp: verify_pack_def canonical_unsigned_text Let_def split: option.split sum.split)

text \<open>C33: a valid signature commits to the whole manifest. A pack is valid exactly when the manifest
  has a signature block and its sidecar decodes to a signature that verifies, under the key, on
  the SHA-256 digest of the signed text; and two manifests have the same signed text exactly when
  they agree in every field but the signature block (schema, name, version, time and each entry's
  path, type and body hash). So, whatever manifests \<open>S\<close> the key's holder has signed, a valid pack
  agrees with one of them up to the signature block, or exhibits two texts with one SHA-256
  digest, or exhibits a forgery: a signature that verifies on a digest that was never signed.\<close>

theorem pack_signature_commits:
  assumes "pretty_laws L" and "datetime_laws L"
  shows "(verify_pack L C m sig_hex key = PackValid \<longleftrightarrow> pm_signature m \<noteq> None
      \<and> (\<exists>raw s. hex_decode L (trim sig_hex) = Some raw \<and> signature_from_slice C raw = Inr s
          \<and> verify_signature C key (sha256_digest L (signed_text L m)) s))
    \<and> (signed_text L m = signed_text L m' \<longleftrightarrow> m\<lparr>pm_signature := None\<rparr> = m'\<lparr>pm_signature := None\<rparr>)
    \<and> (verify_pack L C m sig_hex key = PackValid \<longrightarrow>
        (\<exists>m0 \<in> S. m\<lparr>pm_signature := None\<rparr> = m0\<lparr>pm_signature := None\<rparr>)
      \<or> (\<exists>m0 \<in> S. signed_text L m \<noteq> signed_text L m0
          \<and> sha256_digest L (signed_text L m) = sha256_digest L (signed_text L m0))
      \<or> (\<exists>raw s. hex_decode L (trim sig_hex) = Some raw \<and> signature_from_slice C raw = Inr s
          \<and> verify_signature C key (sha256_digest L (signed_text L m)) s
          \<and> (\<forall>m0 \<in> S. sha256_digest L (signed_text L m) \<noteq> sha256_digest L (signed_text L m0))))"
proof -
  have "signed_text L m = signed_text L n \<longleftrightarrow> m\<lparr>pm_signature := None\<rparr> = n\<lparr>pm_signature := None\<rparr>" for n
    using signed_text_inject [OF assms] unfolding unsigned_def signed_text_def by metis
  then show ?thesis
    unfolding verify_pack_Valid by blast
qed

text \<open>A sample scheme: the key's one signature is the digest itself.\<close>

definition sample_manifest :: pack_manifest where
  "sample_manifest = \<lparr>pm_schema_version = ''1'', pm_name = ''acme'', pm_version = ''3'',
     pm_entries = [\<lparr>pe_path = ''a.rego'', pe_content_type = ''rego'', pe_body_sha256 = ''ab''\<rparr>],
     pm_generated_at = 5, pm_signature = Some \<lparr>pr_sidecar = ''pack.sig'', pr_algorithm = ''ed25519'',
       pr_digest_alg = ''sha256'', pr_key_id = ''k'', pr_signed_at = 5\<rparr>\<rparr>"

definition sample_digest :: string where
  "sample_digest = sha256_digest sample_libs (signed_text sample_libs sample_manifest)"

definition sample_ed25519 :: "string ed25519" where
  "sample_ed25519 = \<lparr>signature_from_slice = Inr, verify_signature = (\<lambda>k d s. d = k \<and> s = ''s''),
     key_from_pem = Inr, key_from_bytes = Inr, hex_error = (\<lambda>s. s), base64_error = (\<lambda>s. s),
     error_display = (\<lambda>e. [])\<rparr>"

theorem pack_signature_commits_witness:
  "verify_pack sample_libs sample_ed25519 sample_manifest ''ss'' sample_digest = PackValid
   \<and> signed_text sample_libs sample_manifest \<noteq> signed_text sample_libs (sample_manifest\<lparr>pm_version := ''4''\<rparr>)"
proof -
  have "skip_ws ''ss'' = None" "skip_ws_end ''ss'' = None" by code_simp+
  then have trimmed: "trim ''ss'' = ''ss''"
    by (simp add: trim_def trim_start.simps [of "''ss''"] trim_end.simps [of "''ss''"])
  have "verify_pack sample_libs sample_ed25519 sample_manifest ''ss'' sample_digest = PackValid"
    unfolding pack_signature_commits [OF sample_pretty_laws sample_datetime_laws, THEN conjunct1] trimmed
    by (simp add: sample_ed25519_def sample_digest_def sample_manifest_def) (simp add: sample_libs_def)
  moreover have "signed_text sample_libs sample_manifest \<noteq> signed_text sample_libs (sample_manifest\<lparr>pm_version := ''4''\<rparr>)"
    unfolding pack_signature_commits [OF sample_pretty_laws sample_datetime_laws, THEN conjunct2, THEN conjunct1]
    by (simp add: sample_manifest_def)
  ultimately show ?thesis ..
qed

section \<open>Keys\<close>

definition key_id_of :: "json \<Rightarrow> string option" where
  "key_id_of jwk = Option.bind (value_get jwk ''kid'') as_str"

lemma find_first:
  "find P xs = Some x \<longleftrightarrow> (\<exists>before after. xs = before @ x # after \<and> P x \<and> list_all (\<lambda>k. \<not> P k) before)"
proof
  assume "find P xs = Some x"
  then show "\<exists>before after. xs = before @ x # after \<and> P x \<and> list_all (\<lambda>k. \<not> P k) before"
  proof (induction xs)
    case (Cons a xs)
    show ?case
    proof (cases "P a")
      case True
      with Cons.prems have "a # xs = [] @ x # xs \<and> P x" by simp
      then show ?thesis by fastforce
    next
      case False
      with Cons obtain before after where "xs = before @ x # after" "P x" "list_all (\<lambda>k. \<not> P k) before"
        by auto
      with False have "a # xs = (a # before) @ x # after \<and> P x \<and> list_all (\<lambda>k. \<not> P k) (a # before)" by simp
      then show ?thesis by blast
    qed
  qed simp
next
  have "find P (before @ x # after) = Some x" if "P x" "list_all (\<lambda>k. \<not> P k) before" for before after
    using that by (induction before) simp_all
  then show "\<exists>before after. xs = before @ x # after \<and> P x \<and> list_all (\<lambda>k. \<not> P k) before \<Longrightarrow> find P xs = Some x"
    by blast
qed

text \<open>C34: resolving a key succeeds exactly when the document has a keys array whose first entry
  with that key identifier has a coordinate that decodes to 32 bytes the curve accepts, and it
  answers the key of those bytes.\<close>

theorem jwks_first_key:
  "verifying_key_from_jwks L C jwks key_id = Inr key \<longleftrightarrow>
    (\<exists>before jwk after x bytes.
       value_get jwks ''keys'' = Some (JArray (before @ jwk # after))
       \<and> key_id_of jwk = Some key_id \<and> list_all (\<lambda>k. key_id_of k \<noteq> Some key_id) before
       \<and> value_get jwk ''x'' = Some (JString x) \<and> base64url_decode L x = Some bytes
       \<and> length bytes = 32 \<and> key_from_bytes C bytes = Inr key)"
proof -
  have arr: "as_array j = Some xs \<longleftrightarrow> j = JArray xs" for j xs
    by (cases j) (simp_all add: as_array_def)
  have str: "as_str j = Some s \<longleftrightarrow> j = JString s" for j s
    by (cases j) (simp_all add: as_str_def)
  have ok: "ok_or message x = Inr y \<longleftrightarrow> x = Some y" for message and y :: 'b and x
    by (cases x) (simp_all add: ok_or_def)
  have last: "(if length bytes \<noteq> 32 then Inl (InvalidConfig m) else case key_from_bytes C bytes of
        Inl e \<Rightarrow> Inl (InvalidConfig (m' @ e)) | Inr k \<Rightarrow> Inr k) = Inr key
    \<longleftrightarrow> length bytes = 32 \<and> key_from_bytes C bytes = Inr key" for bytes m m'
    by (simp split: sum.split)
  show ?thesis
    unfolding verifying_key_from_jwks_def bindR_Inr ok bind_eq_Some_conv arr str find_first key_id_of_def
      last
    by (rule iffI; elim exE conjE; hypsubst?; intro exI conjI; (assumption | rule refl)+)
qed

end
