(* ===== verification/Transport.thy ===== *)
theory Transport
  imports Http
begin

text \<open>
  The rotation-safe transport profile (secure_transport.rs): building a complete client from the
  configured credentials, and publishing a replacement atomically.

  Reading a file, invoking the application's token callback, parsing certificates and building
  the client are outside the program: a \<open>build_env\<close> answers them for one build. The files may
  change between two reads of one build, so each read has its own view of the file system. A
  client of type \<open>'c\<close> is what the builder makes of a \<open>client_spec\<close>. The lock's poison flag is
  state: a poisoned lock is an error of a reload and a panic (\<open>None\<close>) of a read.
\<close>

section \<open>Configuration\<close>

datatype token_source = TokenNone | TokenFile string | TokenCallback

datatype proxy_policy = ProxyDirect | ProxyEnvironment | ProxyExplicit string

record secure_transport_config =
  tc_ca_bundle_path :: string
  tc_client_certificate_path :: string
  tc_private_key_path :: string
  tc_token_source :: token_source
  tc_connect_timeout :: nat
  tc_request_timeout :: nat
  tc_proxy :: proxy_policy

section \<open>One build\<close>

datatype 'x proxy_use = NoProxy | SystemProxy | ProxyThrough 'x

record ('r, 'i, 'x) client_spec =
  cs_built_in_root_certs :: bool
  cs_root :: 'r
  cs_identity :: 'i
  cs_connect_timeout :: nat
  cs_timeout :: nat
  cs_default_headers :: "(string \<times> string) list"
  cs_proxy :: "'x proxy_use"

record ('r, 'i, 'x, 'c) build_env =
  be_ca_file :: "string \<Rightarrow> string + string"      \<comment> \<open>\<open>std::fs::read\<close>: the error's text or the bytes\<close>
  be_cert_file :: "string \<Rightarrow> string + string"
  be_key_file :: "string \<Rightarrow> string + string"
  be_token_file :: "string \<Rightarrow> string + string"
  be_callback :: "clavenar_error + string option"
  be_certificate :: "string \<Rightarrow> string + 'r"       \<comment> \<open>\<open>Certificate::from_pem\<close>\<close>
  be_identity :: "string \<Rightarrow> string + 'i"          \<comment> \<open>\<open>Identity::from_pem\<close>\<close>
  be_header_value :: "string \<Rightarrow> bool"             \<comment> \<open>whether \<open>HeaderValue::from_str\<close> accepts it\<close>
  be_proxy_all :: "string \<Rightarrow> string + 'x"
  be_build :: "('r, 'i, 'x) client_spec \<Rightarrow> transport_error + 'c"

definition read_nonempty :: "(string \<Rightarrow> string + string) \<Rightarrow> string \<Rightarrow> string \<Rightarrow> clavenar_error + string" where
  "read_nonempty file path label = (case file path of
     Inl e \<Rightarrow> Inl (InvalidConfig (''cannot read '' @ label @ '' '' @ path @ '': '' @ e))
   | Inr bytes \<Rightarrow> if bytes = [] then Inl (InvalidConfig (label @ '' '' @ path @ '' is empty'')) else Inr bytes)"

definition invalid_source :: "string \<Rightarrow> string \<Rightarrow> string \<Rightarrow> clavenar_error" where
  "invalid_source label path e = InvalidConfig (''invalid '' @ label @ '' '' @ path @ '': '' @ e)"

definition trimmed_token :: "string \<Rightarrow> clavenar_error + string" where
  "trimmed_token v = (let trimmed = trim v in
     if trimmed = [] then Inl (InvalidConfig ''token source returned an empty token'') else Inr trimmed)"

definition load_token :: "('r, 'i, 'x, 'c) build_env \<Rightarrow> token_source \<Rightarrow> clavenar_error + string option" where
  "load_token E source =
     bindR (case source of
         TokenNone \<Rightarrow> Inr None
       | TokenFile path \<Rightarrow> bindR (read_nonempty (be_token_file E) path ''token'') (\<lambda>bytes.
           case from_utf8 bytes of
             Inl _ \<Rightarrow> Inl (InvalidConfig ''token file is not UTF-8'')
           | Inr s \<Rightarrow> Inr (Some s))
       | TokenCallback \<Rightarrow> be_callback E) (\<lambda>token.
     case token of None \<Rightarrow> Inr None | Some v \<Rightarrow> bindR (trimmed_token v) (\<lambda>t. Inr (Some t)))"

definition proxy_of :: "('r, 'i, 'x, 'c) build_env \<Rightarrow> proxy_policy \<Rightarrow> clavenar_error + 'x proxy_use" where
  "proxy_of E policy = (case policy of
     ProxyDirect \<Rightarrow> Inr NoProxy
   | ProxyEnvironment \<Rightarrow> Inr SystemProxy
   | ProxyExplicit url \<Rightarrow> (case be_proxy_all E url of
       Inl e \<Rightarrow> Inl (InvalidConfig (''invalid explicit proxy URL: '' @ e))
     | Inr x \<Rightarrow> Inr (ProxyThrough x)))"

definition token_header :: "('r, 'i, 'x, 'c) build_env \<Rightarrow> string option \<Rightarrow> clavenar_error + (string \<times> string) list" where
  "token_header E token = (case token of
     None \<Rightarrow> Inr []
   | Some t \<Rightarrow> if be_header_value E (''Bearer '' @ t) then Inr [(''authorization'', ''Bearer '' @ t)]
       else Inl (InvalidConfig ''token source produced invalid header bytes''))"

definition identity_pem_of :: "string \<Rightarrow> string \<Rightarrow> string" where
  "identity_pem_of cert_pem key_pem =
     (if ends_with [CHR 0x0A] cert_pem then cert_pem else cert_pem @ [CHR 0x0A]) @ key_pem"

definition build_transport_client ::
  "('r, 'i, 'x, 'c) build_env \<Rightarrow> secure_transport_config \<Rightarrow> clavenar_error + 'c" where
  "build_transport_client E config =
     (if tc_connect_timeout config = 0 \<or> tc_request_timeout config = 0
      then Inl (InvalidConfig ''secure transport timeouts must be positive'')
      else
       bindR (read_nonempty (be_ca_file E) (tc_ca_bundle_path config) ''CA bundle'') (\<lambda>ca_pem.
       bindR (read_nonempty (be_cert_file E) (tc_client_certificate_path config) ''client certificate'') (\<lambda>cert_pem.
       bindR (read_nonempty (be_key_file E) (tc_private_key_path config) ''private key'') (\<lambda>key_pem.
       case be_certificate E ca_pem of
         Inl e \<Rightarrow> Inl (invalid_source ''CA bundle'' (tc_ca_bundle_path config) e)
       | Inr root \<Rightarrow> (case be_identity E (identity_pem_of cert_pem key_pem) of
         Inl e \<Rightarrow> Inl (invalid_source ''client identity'' (tc_client_certificate_path config) e)
       | Inr identity \<Rightarrow>
         bindR (load_token E (tc_token_source config)) (\<lambda>token.
         bindR (token_header E token) (\<lambda>headers.
         bindR (proxy_of E (tc_proxy config)) (\<lambda>proxy.
         case be_build E \<lparr>cs_built_in_root_certs = False, cs_root = root, cs_identity = identity,
             cs_connect_timeout = tc_connect_timeout config, cs_timeout = tc_request_timeout config,
             cs_default_headers = headers, cs_proxy = proxy\<rparr> of
           Inl e \<Rightarrow> Inl (Transport e)
         | Inr client \<Rightarrow> Inr client))))))))"

section \<open>The profile\<close>

record 'c secure_transport_profile =
  tp_config :: secure_transport_config
  tp_current :: 'c
  tp_poisoned :: bool

definition profile_new ::
  "('r, 'i, 'x, 'c) build_env \<Rightarrow> secure_transport_config \<Rightarrow> clavenar_error + 'c secure_transport_profile" where
  "profile_new E config = bindR (build_transport_client E config) (\<lambda>client.
     Inr \<lparr>tp_config = config, tp_current = client, tp_poisoned = False\<rparr>)"

definition profile_reload ::
  "('r, 'i, 'x, 'c) build_env \<Rightarrow> ('c secure_transport_profile, clavenar_error, unit) eff" where
  "profile_reload E p = (case build_transport_client E (tp_config p) of
     Inl e \<Rightarrow> (p, Inl e)
   | Inr replacement \<Rightarrow>
       if tp_poisoned p then (p, Inl (InvalidConfig ''transport profile lock poisoned''))
       else (p\<lparr>tp_current := replacement\<rparr>, Inr ()))"

definition profile_client :: "'c secure_transport_profile \<Rightarrow> 'c option" where
  "profile_client p = (if tp_poisoned p then None else Some (tp_current p))"

end
