(* ===== verification/Transport_Claims.thy ===== *)
theory Transport_Claims
  imports Transport
begin

text \<open>
  The life of a profile: its creation, any number of reloads (each with its own view of the
  credentials) and reads by the clients that share it.
\<close>

inductive profile_life ::
  "secure_transport_config \<Rightarrow> ('r, 'i, 'x, 'c) build_env list \<Rightarrow> 'c secure_transport_profile \<Rightarrow> 'c list \<Rightarrow> bool"
  for config where
  created: "profile_new E config = Inr p \<Longrightarrow> profile_life config [E] p []"
| reloaded: "profile_life config Es p handed \<Longrightarrow> profile_reload E p = (p', r) \<Longrightarrow>
    profile_life config (Es @ [E]) p' handed"
| client_read: "profile_life config Es p handed \<Longrightarrow> profile_client p = Some c \<Longrightarrow>
    profile_life config Es p (handed @ [c])"

definition latest_build ::
  "secure_transport_config \<Rightarrow> ('r, 'i, 'x, 'c) build_env list \<Rightarrow> clavenar_error + 'c" where
  "latest_build config Es = last (filter is_ok (map (\<lambda>E. build_transport_client E config) Es))"

lemma latest_build_snoc: "latest_build config (Es @ [E]) =
    (if is_ok (build_transport_client E config) then build_transport_client E config else latest_build config Es)"
  by (simp add: latest_build_def)

lemma profile_life_invariant:
  "profile_life config Es p handed \<Longrightarrow>
     tp_config p = config \<and> \<not> tp_poisoned p \<and> latest_build config Es = Inr (tp_current p)
     \<and> (\<forall>c \<in> insert (tp_current p) (set handed). \<exists>E \<in> set Es. build_transport_client E config = Inr c)"
proof (induction rule: profile_life.induct)
  case (created E p)
  then show ?case by (auto simp: profile_new_def bindR_Inr latest_build_def)
next
  case (reloaded Es p handed E p' r)
  then show ?case
    by (cases "build_transport_client E config") (auto simp: profile_reload_def latest_build_snoc)
next
  case (client_read Es p handed c)
  then show ?case by (auto simp: profile_client_def)
qed

lemma read_nonempty_Inr: "read_nonempty file path label = Inr b \<longleftrightarrow> file path = Inr b \<and> b \<noteq> []"
  by (auto simp: read_nonempty_def split: sum.splits)

lemma match_Inr: "(case a of Inl e \<Rightarrow> Inl (f e) | Inr x \<Rightarrow> g x) = Inr y \<longleftrightarrow> (\<exists>x. a = Inr x \<and> g x = Inr y)"
  by (cases a) simp_all

section \<open>What a client is built from\<close>

text \<open>The token a source gives: none is configured, or the file's text without the white space around
  it, or what the callback answers, trimmed alike; a token is never empty.\<close>

definition token_given :: "('r, 'i, 'x, 'c) build_env \<Rightarrow> token_source \<Rightarrow> string option \<Rightarrow> bool" where
  "token_given E source token \<longleftrightarrow> (case source of
     TokenNone \<Rightarrow> token = None
   | TokenFile path \<Rightarrow> (\<exists>bytes s. be_token_file E path = Inr bytes \<and> bytes \<noteq> [] \<and> from_utf8 bytes = Inr s
       \<and> trim s \<noteq> [] \<and> token = Some (trim s))
   | TokenCallback \<Rightarrow> (be_callback E = Inr None \<and> token = None)
       \<or> (\<exists>v. be_callback E = Inr (Some v) \<and> trim v \<noteq> [] \<and> token = Some (trim v)))"

definition proxy_given :: "('r, 'i, 'x, 'c) build_env \<Rightarrow> proxy_policy \<Rightarrow> 'x proxy_use \<Rightarrow> bool" where
  "proxy_given E policy proxy \<longleftrightarrow> (case policy of
     ProxyDirect \<Rightarrow> proxy = NoProxy
   | ProxyEnvironment \<Rightarrow> proxy = SystemProxy
   | ProxyExplicit url \<Rightarrow> (\<exists>x. be_proxy_all E url = Inr x \<and> proxy = ProxyThrough x))"

lemma trimmed_token_Inr: "trimmed_token v = Inr t \<longleftrightarrow> trim v \<noteq> [] \<and> t = trim v"
  by (auto simp: trimmed_token_def Let_def)

lemma load_token_Inr: "load_token E source = Inr token \<longleftrightarrow> token_given E source token"
proof (cases source)
  case TokenNone
  then show ?thesis by (auto simp: load_token_def token_given_def)
next
  case (TokenFile path)
  then show ?thesis
    by (auto simp: load_token_def token_given_def bindR_Inr match_Inr read_nonempty_Inr trimmed_token_Inr)
next
  case TokenCallback
  then show ?thesis
    by (auto simp: load_token_def token_given_def bindR_Inr trimmed_token_Inr split: option.splits)
qed

lemma token_header_Inr: "token_header E token = Inr headers \<longleftrightarrow>
    pred_option (\<lambda>t. be_header_value E (''Bearer '' @ t)) token
    \<and> headers = (case token of None \<Rightarrow> [] | Some t \<Rightarrow> [(''authorization'', ''Bearer '' @ t)])"
  by (cases token) (auto simp: token_header_def)

lemma proxy_of_Inr: "proxy_of E policy = Inr proxy \<longleftrightarrow> proxy_given E policy proxy"
  by (cases policy) (auto simp: proxy_of_def proxy_given_def match_Inr)

text \<open>C35: whatever reloads succeed or fail, the profile keeps its configuration, its lock is never
  poisoned, and it always hands out a client: the one of the most recent build that succeeded.
  Every client ever handed out comes from a single build of this configuration, so certificate,
  key, CA, token, deadlines and proxy of one snapshot belong together and a failed reload
  changes nothing.\<close>

theorem transport_snapshots_whole:
  assumes "profile_life config Es p handed"
  shows "tp_config p = config
    \<and> (\<exists>c. profile_client p = Some c
        \<and> last (filter is_ok (map (\<lambda>E. build_transport_client E config) Es)) = Inr c)
    \<and> (\<forall>c \<in> set handed. \<exists>E \<in> set Es. build_transport_client E config = Inr c)"
  using profile_life_invariant [OF assms] by (simp add: profile_client_def latest_build_def)

text \<open>C36: a client is built exactly from complete credentials. Building succeeds if and only if both
  deadlines are positive, the CA bundle, the certificate and the key are read and not empty, the
  bundle parses, the certificate (closed by a newline) followed by the key parses as one identity,
  the token source gives a token or none, which is the trimmed, non-empty text of the file or of
  the callback's answer and a legal header value, and the proxy of the policy can be made. The
  client is then the one built from exactly these: the built-in roots off, the bundle as the root,
  the identity, the two deadlines, one authorization header with the token when there is one, and
  the proxy. Anything else is an error and there is no client.\<close>

theorem transport_client_complete:
  "build_transport_client E config = Inr c \<longleftrightarrow>
    0 < tc_connect_timeout config \<and> 0 < tc_request_timeout config
    \<and> (\<exists>ca cert key root identity token proxy.
        be_ca_file E (tc_ca_bundle_path config) = Inr ca \<and> ca \<noteq> []
      \<and> be_cert_file E (tc_client_certificate_path config) = Inr cert \<and> cert \<noteq> []
      \<and> be_key_file E (tc_private_key_path config) = Inr key \<and> key \<noteq> []
      \<and> be_certificate E ca = Inr root
      \<and> be_identity E ((if last cert = CHR 0x0A then cert else cert @ [CHR 0x0A]) @ key) = Inr identity
      \<and> token_given E (tc_token_source config) token
      \<and> pred_option (\<lambda>t. be_header_value E (''Bearer '' @ t)) token
      \<and> proxy_given E (tc_proxy config) proxy
      \<and> be_build E \<lparr>cs_built_in_root_certs = False, cs_root = root, cs_identity = identity,
          cs_connect_timeout = tc_connect_timeout config, cs_timeout = tc_request_timeout config,
          cs_default_headers = (case token of None \<Rightarrow> [] | Some t \<Rightarrow> [(''authorization'', ''Bearer '' @ t)]),
          cs_proxy = proxy\<rparr> = Inr c)"
proof -
  have pem: "identity_pem_of cert key = (if last cert = CHR 0x0A then cert else cert @ [CHR 0x0A]) @ key"
    if "cert \<noteq> []" for cert key
    using that by (cases cert rule: rev_cases) (auto simp: identity_pem_of_def ends_with_def)
  have "build_transport_client E config = Inr c \<longleftrightarrow>
      0 < tc_connect_timeout config \<and> 0 < tc_request_timeout config
    \<and> (\<exists>ca. (be_ca_file E (tc_ca_bundle_path config) = Inr ca \<and> ca \<noteq> [])
      \<and> (\<exists>cert. (be_cert_file E (tc_client_certificate_path config) = Inr cert \<and> cert \<noteq> [])
      \<and> (\<exists>key. (be_key_file E (tc_private_key_path config) = Inr key \<and> key \<noteq> [])
      \<and> (\<exists>root. be_certificate E ca = Inr root
      \<and> (\<exists>identity. be_identity E (identity_pem_of cert key) = Inr identity
      \<and> (\<exists>token. token_given E (tc_token_source config) token
      \<and> (\<exists>headers. (pred_option (\<lambda>t. be_header_value E (''Bearer '' @ t)) token
          \<and> headers = (case token of None \<Rightarrow> [] | Some t \<Rightarrow> [(''authorization'', ''Bearer '' @ t)]))
      \<and> (\<exists>proxy. proxy_given E (tc_proxy config) proxy
      \<and> be_build E \<lparr>cs_built_in_root_certs = False, cs_root = root, cs_identity = identity,
          cs_connect_timeout = tc_connect_timeout config, cs_timeout = tc_request_timeout config,
          cs_default_headers = headers, cs_proxy = proxy\<rparr> = Inr c))))))))"
    unfolding build_transport_client_def
    by (simp add: bindR_Inr read_nonempty_Inr match_Inr load_token_Inr token_header_Inr proxy_of_Inr)
  also have "\<dots> \<longleftrightarrow>
    0 < tc_connect_timeout config \<and> 0 < tc_request_timeout config
    \<and> (\<exists>ca cert key root identity token proxy.
        be_ca_file E (tc_ca_bundle_path config) = Inr ca \<and> ca \<noteq> []
      \<and> be_cert_file E (tc_client_certificate_path config) = Inr cert \<and> cert \<noteq> []
      \<and> be_key_file E (tc_private_key_path config) = Inr key \<and> key \<noteq> []
      \<and> be_certificate E ca = Inr root
      \<and> be_identity E (identity_pem_of cert key) = Inr identity
      \<and> token_given E (tc_token_source config) token
      \<and> pred_option (\<lambda>t. be_header_value E (''Bearer '' @ t)) token
      \<and> proxy_given E (tc_proxy config) proxy
      \<and> be_build E \<lparr>cs_built_in_root_certs = False, cs_root = root, cs_identity = identity,
          cs_connect_timeout = tc_connect_timeout config, cs_timeout = tc_request_timeout config,
          cs_default_headers = (case token of None \<Rightarrow> [] | Some t \<Rightarrow> [(''authorization'', ''Bearer '' @ t)]),
          cs_proxy = proxy\<rparr> = Inr c)"
    by (rule iffI; (elim conjE exE)?; hypsubst?; intro conjI exI; (assumption | rule refl))
  finally show ?thesis by (simp add: pem cong: conj_cong)
qed

section \<open>A sample rotation\<close>

definition sample_env :: "string \<Rightarrow> (string, string, string, string) build_env" where
  "sample_env key = \<lparr>be_ca_file = \<lambda>p. Inr ''ca'', be_cert_file = \<lambda>p. Inr ''cert'', be_key_file = \<lambda>p. Inr key,
     be_token_file = \<lambda>p. Inl ''missing'', be_callback = Inr None, be_certificate = Inr, be_identity = Inr,
     be_header_value = \<lambda>v. True, be_proxy_all = Inr, be_build = \<lambda>spec. Inr (cs_identity spec)\<rparr>"

definition sample_config :: secure_transport_config where
  "sample_config = \<lparr>tc_ca_bundle_path = ''/ca'', tc_client_certificate_path = ''/cert'', tc_private_key_path = ''/key'',
     tc_token_source = TokenNone, tc_connect_timeout = 5, tc_request_timeout = 30, tc_proxy = ProxyDirect\<rparr>"

definition identity_text :: "string \<Rightarrow> string" where
  "identity_text key = ''cert'' @ [CHR 0x0A] @ key"

lemma sample_build: "build_transport_client (sample_env key) sample_config =
    (if key = [] then Inl (InvalidConfig ''private key /key is empty'') else Inr (identity_text key))"
  by (simp add: build_transport_client_def sample_env_def sample_config_def read_nonempty_def load_token_def
      token_header_def proxy_of_def identity_pem_of_def ends_with_def identity_text_def)

definition sample_profile :: "string \<Rightarrow> string secure_transport_profile" where
  "sample_profile key = \<lparr>tp_config = sample_config, tp_current = identity_text key, tp_poisoned = False\<rparr>"

text \<open>A rotation to a new key, followed by a reload that finds the key file empty.\<close>

lemma sample_life:
  "profile_life sample_config [sample_env ''k1'', sample_env ''k2'', sample_env []] (sample_profile ''k2'')
     [identity_text ''k1'', identity_text ''k2'']"
proof -
  have "profile_new (sample_env ''k1'') sample_config = Inr (sample_profile ''k1'')"
    by (simp add: profile_new_def sample_build sample_profile_def)
  from profile_life.client_read [OF profile_life.created [OF this], of "identity_text ''k1''"]
  have a: "profile_life sample_config [sample_env ''k1''] (sample_profile ''k1'') [identity_text ''k1'']"
    by (simp add: profile_client_def sample_profile_def)
  have "profile_reload (sample_env ''k2'') (sample_profile ''k1'') = (sample_profile ''k2'', Inr ())"
    by (simp add: profile_reload_def sample_profile_def sample_build)
  from profile_life.client_read [OF profile_life.reloaded [OF a this], of "identity_text ''k2''"]
  have b: "profile_life sample_config ([sample_env ''k1''] @ [sample_env ''k2'']) (sample_profile ''k2'')
      ([identity_text ''k1''] @ [identity_text ''k2''])"
    by (simp add: profile_client_def sample_profile_def)
  have "profile_reload (sample_env []) (sample_profile ''k2'') =
      (sample_profile ''k2'', Inl (InvalidConfig ''private key /key is empty''))"
    by (simp add: profile_reload_def sample_profile_def sample_build)
  from profile_life.reloaded [OF b this] show ?thesis by simp
qed

theorem transport_snapshots_whole_witness:
  "profile_client (sample_profile ''k2'') = Some (identity_text ''k2'')
   \<and> \<not> is_ok (build_transport_client (sample_env []) sample_config)"
proof -
  have "last (filter is_ok (map (\<lambda>E. build_transport_client E sample_config)
      [sample_env ''k1'', sample_env ''k2'', sample_env []])) = Inr (identity_text ''k2'')"
    by (simp add: sample_build)
  with transport_snapshots_whole [OF sample_life] show ?thesis by (auto simp: sample_build)
qed

text \<open>A deployment whose token is in a file, with a newline at its end.\<close>

definition token_env :: "(string, string, string, (string \<times> string) list) build_env" where
  "token_env = \<lparr>be_ca_file = \<lambda>p. Inr ''ca'', be_cert_file = \<lambda>p. Inr ''cert'', be_key_file = \<lambda>p. Inr ''k1'',
     be_token_file = \<lambda>p. if p = ''/token'' then Inr (''tok'' @ [CHR 0x0A]) else Inl ''missing'', be_callback = Inr None,
     be_certificate = Inr, be_identity = Inr, be_header_value = \<lambda>v. True, be_proxy_all = Inr,
     be_build = \<lambda>spec. Inr (cs_default_headers spec)\<rparr>"

theorem transport_client_complete_witness:
  "build_transport_client token_env (sample_config\<lparr>tc_token_source := TokenFile ''/token''\<rparr>)
     = Inr [(''authorization'', ''Bearer tok'')]"
proof -
  have "trim (''tok'' @ [CHR 0x0A]) = ''tok''" "from_utf8 (''tok'' @ [CHR 0x0A]) = Inr (''tok'' @ [CHR 0x0A])"
    by code_simp+
  then have "token_given token_env (TokenFile ''/token'') (Some ''tok'')"
    by (simp add: token_given_def token_env_def)
  moreover have "proxy_given token_env ProxyDirect NoProxy" by (simp add: proxy_given_def)
  ultimately show ?thesis
    unfolding transport_client_complete
    by (intro conjI exI [of _ "''ca''"] exI [of _ "''cert''"] exI [of _ "''k1''"] exI [of _ "''cert'' @ [CHR 0x0A] @ ''k1''"]
        exI [of _ "Some ''tok''"] exI [of _ NoProxy])
      (simp_all add: sample_config_def token_env_def)
qed

end
