(* ===== verification/Wire_Ledger.thy ===== *)
theory Wire_Ledger
  imports Rest
begin

text \<open>
  The wire types of the ledger's surface (ledger.rs), first part: chain rows and their
  lifecycle projection, verification and anchors, exports and the replay corpus, the tenant
  lifecycle, compliance evidence and log entries.
\<close>

text \<open>\<open>()\<close>, and a \<open>BTreeMap<String, String>\<close> as its sorted members.\<close>

fun dec_unit :: "unit dec" where
  "dec_unit JNull = Some ()"
| "dec_unit _ = None"

lemma dec_enc_list_i64 [simp]: "dec_list dec_i64 (enc_list enc_i64 xs) = Some xs"
  by (rule i64_codec.read_back_list) (simp add: list_all_iff)

text \<open>
  Reading back a long record with many skipped members: its members are looked up by key, so
  no case split on which of them are present is needed.
\<close>

named_theorems skipped "reading members that may be skipped"

definition has_key :: "string \<Rightarrow> (string \<times> json) list \<Rightarrow> bool" where
  "has_key k kvs \<longleftrightarrow> k \<in> fst ` set kvs"

definition distinct_keys :: "(string \<times> json) list \<Rightarrow> bool" where
  "distinct_keys kvs \<longleftrightarrow> distinct (map fst kvs)"

lemma struct_object [skipped]:
  "distinct_keys kvs \<Longrightarrow> struct_fields False names (JObject kvs) = Some (False, map_of kvs)"
  by (simp add: struct_fields_def distinct_keys_def)

lemma has_key_simps [skipped]:
  "has_key k (skip_none k' e x @ kvs) \<longleftrightarrow> (x \<noteq> None \<and> k = k') \<or> has_key k kvs"
  "has_key k (skip_none k' e x) \<longleftrightarrow> x \<noteq> None \<and> k = k'"
  "has_key k ((k', v) # kvs) \<longleftrightarrow> k = k' \<or> has_key k kvs" "\<not> has_key k []"
  by (cases x; auto simp: skip_none_def has_key_def)+

lemma distinct_keys_simps [skipped]:
  "distinct_keys (skip_none k e x @ kvs) \<longleftrightarrow> (x \<noteq> None \<longrightarrow> \<not> has_key k kvs) \<and> distinct_keys kvs"
  "distinct_keys (skip_none k e x)" "distinct_keys []"
  "distinct_keys ((k, v) # kvs) \<longleftrightarrow> \<not> has_key k kvs \<and> distinct_keys kvs"
  by (cases x; auto simp: skip_none_def has_key_def distinct_keys_def)+

lemma skipped_lookup [skipped]:
  "\<not> has_key k kvs \<Longrightarrow> map_of (skip_none k e x @ kvs) k = map_option e x"
  "k \<noteq> k' \<Longrightarrow> map_of (skip_none k' e x @ kvs) k = map_of kvs k"
  "map_of (skip_none k e x) k = map_option e x"
  "k \<noteq> k' \<Longrightarrow> map_of (skip_none k' e x) k = None"
  by (cases x; auto simp: skip_none_def has_key_def map_of_eq_None_iff)+

lemma skipped_read [skipped]:
  "(case x of None \<Rightarrow> Some None | Some y \<Rightarrow> (dec_option dec_string \<circ> JString) y) = Some x"
  "pred_option (\<lambda>j. json_wf j \<and> j \<noteq> JNull) v \<Longrightarrow>
   (case v of None \<Rightarrow> Some None | Some j \<Rightarrow> dec_option dec_value j) = Some v"
  by (cases x; simp) (cases v; simp)

lemma flattened:
  assumes "\<not> has_key k m"
  shows "filter (\<lambda>(k', v). k' \<notin> {k}) (m @ [(k, v)]) = m"
    and "struct_fields False [k] (JObject (m @ [(k, v)])) = Some (False, map_of (m @ [(k, v)]))"
    and "map_of (m @ [(k, v)]) k = Some v"
proof -
  from assms have "filter (\<lambda>k'. k' \<in> set [k]) (map fst m) = []" "map_of m k = None"
    by (auto simp: has_key_def filter_empty_conv map_of_eq_None_iff)
  moreover from assms show "filter (\<lambda>(k', v). k' \<notin> {k}) (m @ [(k, v)]) = m"
    by (force simp: has_key_def intro!: filter_True)
  ultimately show "struct_fields False [k] (JObject (m @ [(k, v)])) = Some (False, map_of (m @ [(k, v)]))"
    "map_of (m @ [(k, v)]) k = Some v"
    by (simp_all add: struct_fields_def map_add_def)
qed

section \<open>Chain rows\<close>

definition default_chain_version :: i64 where
  "default_chain_version = 1"

record ledger_entry =
  le_id :: uuid
  le_timestamp :: datetime
  le_agent_id :: string
  le_method :: string
  le_intent_category :: string
  le_authorized :: bool
  le_reasoning :: string
  le_policy_decision :: "json option"
  le_seq :: i64
  le_prev_hash :: string
  le_entry_hash :: string
  le_correlation_id :: "string option"
  le_chain_version :: i64
  le_source :: "string option"
  le_signal :: "string option"
  le_event_kind :: "string option"
  le_tenant :: "string option"
  le_agent_name :: "string option"
  le_actor_sub :: "string option"
  le_actor_idp :: "string option"
  le_payload_sha256 :: "string option"
  le_signature :: "string option"
  le_key_id :: "string option"
  le_agent_spiffe :: "string option"
  le_approver_assertion :: "string option"
  le_brain_evidence_sha256 :: "string option"
  le_brain_scores :: "json option"
  le_tool_params_sha256 :: "string option"
  le_credential_fingerprint :: "string option"
  le_tool_name :: "string option"

definition enc_ledger_entry :: "libs \<Rightarrow> ledger_entry \<Rightarrow> json" where
  "enc_ledger_entry L x = JObject (
    [(''id'', enc_uuid L (le_id x)),
      (''timestamp'', enc_datetime L (le_timestamp x)),
      (''agent_id'', JString (le_agent_id x)),
      (''method'', JString (le_method x)),
      (''intent_category'', JString (le_intent_category x)),
      (''authorized'', JBool (le_authorized x)),
      (''reasoning'', JString (le_reasoning x)),
      (''policy_decision'', enc_option (\<lambda>j. j) (le_policy_decision x)),
      (''seq'', enc_i64 (le_seq x)),
      (''prev_hash'', JString (le_prev_hash x)),
      (''entry_hash'', JString (le_entry_hash x)),
      (''correlation_id'', enc_option JString (le_correlation_id x)),
      (''chain_version'', enc_i64 (le_chain_version x)),
      (''source'', enc_option JString (le_source x)),
      (''signal'', enc_option JString (le_signal x))]
    @ skip_none ''event_kind'' JString (le_event_kind x)
    @ skip_none ''tenant'' JString (le_tenant x)
    @ skip_none ''agent_name'' JString (le_agent_name x)
    @ skip_none ''actor_sub'' JString (le_actor_sub x)
    @ skip_none ''actor_idp'' JString (le_actor_idp x)
    @ skip_none ''payload_sha256'' JString (le_payload_sha256 x)
    @ skip_none ''signature'' JString (le_signature x)
    @ skip_none ''key_id'' JString (le_key_id x)
    @ skip_none ''agent_spiffe'' JString (le_agent_spiffe x)
    @ [(''approver_assertion'', enc_option JString (le_approver_assertion x))]
    @ skip_none ''brain_evidence_sha256'' JString (le_brain_evidence_sha256 x)
    @ skip_none ''brain_scores'' (\<lambda>j. j) (le_brain_scores x)
    @ skip_none ''tool_params_sha256'' JString (le_tool_params_sha256 x)
    @ skip_none ''credential_fingerprint'' JString (le_credential_fingerprint x)
    @ skip_none ''tool_name'' JString (le_tool_name x))"

definition dec_ledger_entry :: "libs \<Rightarrow> ledger_entry dec" where
  "dec_ledger_entry L j = do {
     f \<leftarrow> struct_fields False
       [''id'', ''timestamp'', ''agent_id'', ''method'', ''intent_category'',
        ''authorized'', ''reasoning'', ''policy_decision'', ''seq'', ''prev_hash'',
        ''entry_hash'', ''correlation_id'', ''chain_version'', ''source'', ''signal'',
        ''event_kind'', ''tenant'', ''agent_name'', ''actor_sub'', ''actor_idp'',
        ''payload_sha256'', ''signature'', ''key_id'', ''agent_spiffe'',
        ''approver_assertion'', ''brain_evidence_sha256'', ''brain_scores'',
        ''tool_params_sha256'', ''credential_fingerprint'', ''tool_name''] j;
     v1 \<leftarrow> need f ''id'' (dec_uuid L);
     v2 \<leftarrow> need f ''timestamp'' (dec_datetime L);
     v3 \<leftarrow> need f ''agent_id'' dec_string;
     v4 \<leftarrow> need f ''method'' dec_string;
     v5 \<leftarrow> need f ''intent_category'' dec_string;
     v6 \<leftarrow> need f ''authorized'' dec_bool;
     v7 \<leftarrow> need f ''reasoning'' dec_string;
     v8 \<leftarrow> opt f ''policy_decision'' dec_value;
     v9 \<leftarrow> need f ''seq'' dec_i64;
     v10 \<leftarrow> need f ''prev_hash'' dec_string;
     v11 \<leftarrow> need f ''entry_hash'' dec_string;
     v12 \<leftarrow> dflt f ''correlation_id'' None (dec_option dec_string);
     v13 \<leftarrow> dflt f ''chain_version'' default_chain_version dec_i64;
     v14 \<leftarrow> dflt f ''source'' None (dec_option dec_string);
     v15 \<leftarrow> dflt f ''signal'' None (dec_option dec_string);
     v16 \<leftarrow> dflt f ''event_kind'' None (dec_option dec_string);
     v17 \<leftarrow> dflt f ''tenant'' None (dec_option dec_string);
     v18 \<leftarrow> dflt f ''agent_name'' None (dec_option dec_string);
     v19 \<leftarrow> dflt f ''actor_sub'' None (dec_option dec_string);
     v20 \<leftarrow> dflt f ''actor_idp'' None (dec_option dec_string);
     v21 \<leftarrow> dflt f ''payload_sha256'' None (dec_option dec_string);
     v22 \<leftarrow> dflt f ''signature'' None (dec_option dec_string);
     v23 \<leftarrow> dflt f ''key_id'' None (dec_option dec_string);
     v24 \<leftarrow> dflt f ''agent_spiffe'' None (dec_option dec_string);
     v25 \<leftarrow> dflt f ''approver_assertion'' None (dec_option dec_string);
     v26 \<leftarrow> dflt f ''brain_evidence_sha256'' None (dec_option dec_string);
     v27 \<leftarrow> dflt f ''brain_scores'' None (dec_option dec_value);
     v28 \<leftarrow> dflt f ''tool_params_sha256'' None (dec_option dec_string);
     v29 \<leftarrow> dflt f ''credential_fingerprint'' None (dec_option dec_string);
     v30 \<leftarrow> dflt f ''tool_name'' None (dec_option dec_string);
     Some \<lparr>le_id = v1,
       le_timestamp = v2,
       le_agent_id = v3,
       le_method = v4,
       le_intent_category = v5,
       le_authorized = v6,
       le_reasoning = v7,
       le_policy_decision = v8,
       le_seq = v9,
       le_prev_hash = v10,
       le_entry_hash = v11,
       le_correlation_id = v12,
       le_chain_version = v13,
       le_source = v14,
       le_signal = v15,
       le_event_kind = v16,
       le_tenant = v17,
       le_agent_name = v18,
       le_actor_sub = v19,
       le_actor_idp = v20,
       le_payload_sha256 = v21,
       le_signature = v22,
       le_key_id = v23,
       le_agent_spiffe = v24,
       le_approver_assertion = v25,
       le_brain_evidence_sha256 = v26,
       le_brain_scores = v27,
       le_tool_params_sha256 = v28,
       le_credential_fingerprint = v29,
       le_tool_name = v30\<rparr> }"

definition ok_ledger_entry :: "libs \<Rightarrow> ledger_entry \<Rightarrow> bool" where
  "ok_ledger_entry L x \<longleftrightarrow> uuid_laws L
     \<and> datetime_laws L
     \<and> pred_option (\<lambda>j. json_wf j \<and> j \<noteq> JNull) (le_policy_decision x)
     \<and> pred_option (\<lambda>j. json_wf j \<and> j \<noteq> JNull) (le_brain_scores x)"

lemma dec_enc_ledger_entry: "ok_ledger_entry L x \<Longrightarrow> dec_ledger_entry L (enc_ledger_entry L x) = Some x"
  unfolding enc_ledger_entry_def dec_ledger_entry_def ok_ledger_entry_def append_Cons append_Nil
  by (cases "le_brain_scores x") (simp_all add: skipped need_def opt_def dflt_def del: map_of_append)

interpretation ledger_entry_codec: codec "enc_ledger_entry L" "dec_ledger_entry L" "ok_ledger_entry L"
  by unfold_locales (rule dec_enc_ledger_entry)


text \<open>\<open>#[serde(flatten)]\<close> of the row, followed by the optional payload.\<close>

record lifecycle_row =
  lr_entry :: ledger_entry
  lr_payload :: "json option"

definition enc_lifecycle_row :: "libs \<Rightarrow> lifecycle_row \<Rightarrow> json" where
  "enc_lifecycle_row L x = JObject (members (enc_ledger_entry L (lr_entry x)) @ [(''payload'', enc_option (\<lambda>j. j) (lr_payload x))])"

definition dec_lifecycle_row :: "libs \<Rightarrow> lifecycle_row dec" where
  "dec_lifecycle_row L j = (case j of JObject kvs \<Rightarrow> do {
     f \<leftarrow> struct_fields False [''payload''] j;
     v1 \<leftarrow> opt f ''payload'' dec_value;
     x \<leftarrow> dec_ledger_entry L (JObject (filter (\<lambda>(k, v). k \<notin> {''payload''}) kvs));
     Some \<lparr>lr_entry = x, lr_payload = v1\<rparr> }
   | _ \<Rightarrow> None)"

definition ok_lifecycle_row :: "libs \<Rightarrow> lifecycle_row \<Rightarrow> bool" where
  "ok_lifecycle_row L x \<longleftrightarrow> ok_ledger_entry L (lr_entry x)"

lemma payload_not_in_row: "\<not> has_key ''payload'' (members (enc_ledger_entry L x))"
  unfolding enc_ledger_entry_def members_def append_Cons append_Nil json.case by (simp add: skipped)

interpretation lifecycle_row_codec: codec "enc_lifecycle_row L" "dec_lifecycle_row L"
  "\<lambda>x. ok_lifecycle_row L x \<and> pred_option (\<lambda>j. json_wf j \<and> j \<noteq> JNull) (lr_payload x)"
proof
  fix x :: lifecycle_row
  assume ok: "ok_lifecycle_row L x \<and> pred_option (\<lambda>j. json_wf j \<and> j \<noteq> JNull) (lr_payload x)"
  have "JObject (members (enc_ledger_entry L e)) = enc_ledger_entry L e" for e
    by (simp add: members_def enc_ledger_entry_def)
  with ok dec_enc_ledger_entry [of L "lr_entry x"] show "dec_lifecycle_row L (enc_lifecycle_row L x) = Some x"
    unfolding enc_lifecycle_row_def dec_lifecycle_row_def json.case flattened [OF payload_not_in_row]
    by (simp add: ok_lifecycle_row_def opt_def flattened [OF payload_not_in_row] del: map_of_append)
qed


section \<open>Exports and verification\<close>

record export_record =
  xr_snapshot_id :: uuid
  xr_written_at :: datetime
  xr_data_uri :: string
  xr_manifest_uri :: string
  xr_data_sha256 :: string
  xr_byte_size :: usize
  xr_row_count :: usize
  xr_seq_lo :: i64
  xr_seq_hi :: i64

definition enc_export_record :: "libs \<Rightarrow> export_record \<Rightarrow> json" where
  "enc_export_record L x = JObject (
    [(''snapshot_id'', enc_uuid L (xr_snapshot_id x)),
      (''written_at'', enc_datetime L (xr_written_at x)),
      (''data_uri'', JString (xr_data_uri x)),
      (''manifest_uri'', JString (xr_manifest_uri x)),
      (''data_sha256'', JString (xr_data_sha256 x)),
      (''byte_size'', enc_u64 (xr_byte_size x)),
      (''row_count'', enc_u64 (xr_row_count x)),
      (''seq_lo'', enc_i64 (xr_seq_lo x)),
      (''seq_hi'', enc_i64 (xr_seq_hi x))])"

definition dec_export_record :: "libs \<Rightarrow> export_record dec" where
  "dec_export_record L j = do {
     f \<leftarrow> struct_fields False
       [''snapshot_id'', ''written_at'', ''data_uri'', ''manifest_uri'', ''data_sha256'',
        ''byte_size'', ''row_count'', ''seq_lo'', ''seq_hi''] j;
     v1 \<leftarrow> need f ''snapshot_id'' (dec_uuid L);
     v2 \<leftarrow> need f ''written_at'' (dec_datetime L);
     v3 \<leftarrow> need f ''data_uri'' dec_string;
     v4 \<leftarrow> need f ''manifest_uri'' dec_string;
     v5 \<leftarrow> need f ''data_sha256'' dec_string;
     v6 \<leftarrow> need f ''byte_size'' dec_u64;
     v7 \<leftarrow> need f ''row_count'' dec_u64;
     v8 \<leftarrow> need f ''seq_lo'' dec_i64;
     v9 \<leftarrow> need f ''seq_hi'' dec_i64;
     Some \<lparr>xr_snapshot_id = v1,
       xr_written_at = v2,
       xr_data_uri = v3,
       xr_manifest_uri = v4,
       xr_data_sha256 = v5,
       xr_byte_size = v6,
       xr_row_count = v7,
       xr_seq_lo = v8,
       xr_seq_hi = v9\<rparr> }"

definition ok_export_record :: "libs \<Rightarrow> export_record \<Rightarrow> bool" where
  "ok_export_record L x \<longleftrightarrow> uuid_laws L
     \<and> datetime_laws L"

interpretation export_record_codec: codec "enc_export_record L" "dec_export_record L" "ok_export_record L"
  by unfold_locales
    (auto simp: enc_export_record_def dec_export_record_def ok_export_record_def record_simps split: option.split)

text \<open>An externally tagged enum: the unit variant is its name, the other one member.\<close>

datatype export_outcome = NothingToExport | Wrote export_record

fun enc_export_outcome :: "libs \<Rightarrow> export_outcome \<Rightarrow> json" where
  "enc_export_outcome L NothingToExport = JString ''NothingToExport''"
| "enc_export_outcome L (Wrote r) = JObject [(''Wrote'', enc_export_record L r)]"

definition dec_export_outcome :: "libs \<Rightarrow> export_outcome dec" where
  "dec_export_outcome L j = (case j of
     JString s \<Rightarrow> if s = ''NothingToExport'' then Some NothingToExport else None
   | JObject [(s, v)] \<Rightarrow>
       if s = ''NothingToExport'' then (if v = JNull then Some NothingToExport else None)
       else if s = ''Wrote'' then map_option Wrote (dec_export_record L v)
       else None
   | _ \<Rightarrow> None)"

definition ok_export_outcome :: "libs \<Rightarrow> export_outcome \<Rightarrow> bool" where
  "ok_export_outcome L x \<longleftrightarrow> (case x of NothingToExport \<Rightarrow> True | Wrote r \<Rightarrow> ok_export_record L r)"

interpretation export_outcome_codec: codec "enc_export_outcome L" "dec_export_outcome L" "ok_export_outcome L"
proof
  fix x :: export_outcome
  assume "ok_export_outcome L x"
  then show "dec_export_outcome L (enc_export_outcome L x) = Some x"
    by (cases x) (simp_all add: dec_export_outcome_def ok_export_outcome_def export_record_codec.read_back)
qed

record anchor_summary =
  an_anchored_seq :: i64
  an_anchored_entry_hash :: string
  an_source :: string
  an_status :: string
  an_gen_time :: "string option"
  an_proof_sha256 :: "string option"
  an_anchored_at :: "string option"
  an_chain_match :: "bool option"

definition enc_anchor_summary :: "anchor_summary \<Rightarrow> json" where
  "enc_anchor_summary x = JObject (
    [(''anchored_seq'', enc_i64 (an_anchored_seq x)),
      (''anchored_entry_hash'', JString (an_anchored_entry_hash x)),
      (''source'', JString (an_source x)),
      (''status'', JString (an_status x))]
    @ skip_none ''gen_time'' JString (an_gen_time x)
    @ skip_none ''proof_sha256'' JString (an_proof_sha256 x)
    @ skip_none ''anchored_at'' JString (an_anchored_at x)
    @ skip_none ''chain_match'' JBool (an_chain_match x))"

definition dec_anchor_summary :: "anchor_summary dec" where
  "dec_anchor_summary j = do {
     f \<leftarrow> struct_fields False
       [''anchored_seq'', ''anchored_entry_hash'', ''source'', ''status'', ''gen_time'',
        ''proof_sha256'', ''anchored_at'', ''chain_match''] j;
     v1 \<leftarrow> need f ''anchored_seq'' dec_i64;
     v2 \<leftarrow> need f ''anchored_entry_hash'' dec_string;
     v3 \<leftarrow> need f ''source'' dec_string;
     v4 \<leftarrow> need f ''status'' dec_string;
     v5 \<leftarrow> dflt f ''gen_time'' None (dec_option dec_string);
     v6 \<leftarrow> dflt f ''proof_sha256'' None (dec_option dec_string);
     v7 \<leftarrow> dflt f ''anchored_at'' None (dec_option dec_string);
     v8 \<leftarrow> dflt f ''chain_match'' None (dec_option dec_bool);
     Some \<lparr>an_anchored_seq = v1,
       an_anchored_entry_hash = v2,
       an_source = v3,
       an_status = v4,
       an_gen_time = v5,
       an_proof_sha256 = v6,
       an_anchored_at = v7,
       an_chain_match = v8\<rparr> }"

interpretation anchor_summary_codec: codec enc_anchor_summary dec_anchor_summary "\<lambda>_. True"
  by unfold_locales
    (auto simp: enc_anchor_summary_def dec_anchor_summary_def record_simps split: option.split)

record verify_result =
  vr_valid :: bool
  vr_entries_checked :: usize
  vr_first_invalid_seq :: "i64 option"
  vr_unsupported_chain_version :: "i64 option"
  vr_anchors :: "anchor_summary list"
  vr_anchor_mismatch :: "bool option"

definition enc_verify_result :: "verify_result \<Rightarrow> json" where
  "enc_verify_result x = JObject (
    [(''valid'', JBool (vr_valid x)),
      (''entries_checked'', enc_u64 (vr_entries_checked x)),
      (''first_invalid_seq'', enc_option enc_i64 (vr_first_invalid_seq x))]
    @ skip_none ''unsupported_chain_version'' enc_i64 (vr_unsupported_chain_version x)
    @ (if vr_anchors x = [] then [] else [(''anchors'', enc_list enc_anchor_summary (vr_anchors x))])
    @ skip_none ''anchor_mismatch'' JBool (vr_anchor_mismatch x))"

definition dec_verify_result :: "verify_result dec" where
  "dec_verify_result j = do {
     f \<leftarrow> struct_fields False
       [''valid'', ''entries_checked'', ''first_invalid_seq'',
        ''unsupported_chain_version'', ''anchors'', ''anchor_mismatch''] j;
     v1 \<leftarrow> need f ''valid'' dec_bool;
     v2 \<leftarrow> need f ''entries_checked'' dec_u64;
     v3 \<leftarrow> opt f ''first_invalid_seq'' dec_i64;
     v4 \<leftarrow> dflt f ''unsupported_chain_version'' None (dec_option dec_i64);
     v5 \<leftarrow> dflt f ''anchors'' [] (dec_list dec_anchor_summary);
     v6 \<leftarrow> dflt f ''anchor_mismatch'' None (dec_option dec_bool);
     Some \<lparr>vr_valid = v1,
       vr_entries_checked = v2,
       vr_first_invalid_seq = v3,
       vr_unsupported_chain_version = v4,
       vr_anchors = v5,
       vr_anchor_mismatch = v6\<rparr> }"

interpretation verify_result_codec: codec enc_verify_result dec_verify_result "\<lambda>_. True"
  by unfold_locales
    (auto simp: enc_verify_result_def dec_verify_result_def record_simps anchor_summary_codec.read_back anchor_summary_codec.read_back_list anchor_summary_codec.read_back_option split: option.split)

section \<open>Replay and tenant lifecycle\<close>

record corpus_entry =
  ce_correlation_id :: "string option"
  ce_captured_at :: datetime
  ce_agent_id :: string
  ce_method :: string
  ce_input :: json
  ce_historical_verdict :: json

definition enc_corpus_entry :: "libs \<Rightarrow> corpus_entry \<Rightarrow> json" where
  "enc_corpus_entry L x = JObject (
    skip_none ''correlation_id'' JString (ce_correlation_id x)
    @ [(''captured_at'', enc_datetime L (ce_captured_at x)),
      (''agent_id'', JString (ce_agent_id x)),
      (''method'', JString (ce_method x)),
      (''input'', ce_input x),
      (''historical_verdict'', ce_historical_verdict x)])"

definition dec_corpus_entry :: "libs \<Rightarrow> corpus_entry dec" where
  "dec_corpus_entry L j = do {
     f \<leftarrow> struct_fields False
       [''correlation_id'', ''captured_at'', ''agent_id'', ''method'', ''input'',
        ''historical_verdict''] j;
     v1 \<leftarrow> dflt f ''correlation_id'' None (dec_option dec_string);
     v2 \<leftarrow> need f ''captured_at'' (dec_datetime L);
     v3 \<leftarrow> need f ''agent_id'' dec_string;
     v4 \<leftarrow> need f ''method'' dec_string;
     v5 \<leftarrow> need f ''input'' dec_value;
     v6 \<leftarrow> need f ''historical_verdict'' dec_value;
     Some \<lparr>ce_correlation_id = v1,
       ce_captured_at = v2,
       ce_agent_id = v3,
       ce_method = v4,
       ce_input = v5,
       ce_historical_verdict = v6\<rparr> }"

definition ok_corpus_entry :: "libs \<Rightarrow> corpus_entry \<Rightarrow> bool" where
  "ok_corpus_entry L x \<longleftrightarrow> datetime_laws L
     \<and> json_wf (ce_input x)
     \<and> json_wf (ce_historical_verdict x)"

interpretation corpus_entry_codec: codec "enc_corpus_entry L" "dec_corpus_entry L" "ok_corpus_entry L"
  by unfold_locales
    (auto simp: enc_corpus_entry_def dec_corpus_entry_def ok_corpus_entry_def record_simps split: option.split)

record replay_corpus =
  rp_corpus :: "corpus_entry list"
  rp_total_in_window :: i64
  rp_returned :: i64
  rp_sampled :: bool

definition enc_replay_corpus :: "libs \<Rightarrow> replay_corpus \<Rightarrow> json" where
  "enc_replay_corpus L x = JObject (
    [(''corpus'', enc_list (enc_corpus_entry L) (rp_corpus x)),
      (''total_in_window'', enc_i64 (rp_total_in_window x)),
      (''returned'', enc_i64 (rp_returned x)),
      (''sampled'', JBool (rp_sampled x))])"

definition dec_replay_corpus :: "libs \<Rightarrow> replay_corpus dec" where
  "dec_replay_corpus L j = do {
     f \<leftarrow> struct_fields False
       [''corpus'', ''total_in_window'', ''returned'', ''sampled''] j;
     v1 \<leftarrow> need f ''corpus'' (dec_list (dec_corpus_entry L));
     v2 \<leftarrow> need f ''total_in_window'' dec_i64;
     v3 \<leftarrow> need f ''returned'' dec_i64;
     v4 \<leftarrow> need f ''sampled'' dec_bool;
     Some \<lparr>rp_corpus = v1,
       rp_total_in_window = v2,
       rp_returned = v3,
       rp_sampled = v4\<rparr> }"

definition ok_replay_corpus :: "libs \<Rightarrow> replay_corpus \<Rightarrow> bool" where
  "ok_replay_corpus L x \<longleftrightarrow> list_all (ok_corpus_entry L) (rp_corpus x)"

interpretation replay_corpus_codec: codec "enc_replay_corpus L" "dec_replay_corpus L" "ok_replay_corpus L"
  by unfold_locales
    (auto simp: enc_replay_corpus_def dec_replay_corpus_def ok_replay_corpus_def record_simps corpus_entry_codec.read_back corpus_entry_codec.read_back_list corpus_entry_codec.read_back_option split: option.split)

datatype ledger_tenant_lifecycle_kind =
    FinalExport | Tombstone

fun enc_ledger_tenant_lifecycle_kind :: "ledger_tenant_lifecycle_kind \<Rightarrow> json" where
  "enc_ledger_tenant_lifecycle_kind FinalExport = JString ''final_export''"
| "enc_ledger_tenant_lifecycle_kind Tombstone = JString ''tombstone''"

definition dec_ledger_tenant_lifecycle_kind :: "ledger_tenant_lifecycle_kind dec" where
  "dec_ledger_tenant_lifecycle_kind = dec_enum [(''final_export'', FinalExport),
     (''tombstone'', Tombstone)]"

lemma dec_enc_ledger_tenant_lifecycle_kind [simp]: "dec_ledger_tenant_lifecycle_kind (enc_ledger_tenant_lifecycle_kind x) = Some x"
  by (cases x) (simp_all add: dec_ledger_tenant_lifecycle_kind_def dec_enum_def)

lemma dec_option_ledger_tenant_lifecycle_kind [simp]: "dec_option dec_ledger_tenant_lifecycle_kind (enc_ledger_tenant_lifecycle_kind x) = Some (Some x)"
  by (cases x) (simp_all add: dec_option_def dec_ledger_tenant_lifecycle_kind_def dec_enum_def)

lemma enc_ledger_tenant_lifecycle_kind_scalar [simp]: "enc_ledger_tenant_lifecycle_kind x \<noteq> JNull"
  by (cases x) simp_all

record ledger_tenant_lifecycle_receipt =
  lt_tenant :: string
  lt_operation_id :: uuid
  lt_kind :: ledger_tenant_lifecycle_kind
  lt_state :: string
  lt_generation :: i64
  lt_rows_affected :: i64
  lt_artifact_sha256 :: "string option"
  lt_artifact_bytes :: "usize option"
  lt_receipt_sha256 :: string
  lt_updated_at :: string

definition enc_ledger_tenant_lifecycle_receipt :: "libs \<Rightarrow> ledger_tenant_lifecycle_receipt \<Rightarrow> json" where
  "enc_ledger_tenant_lifecycle_receipt L x = JObject (
    [(''tenant'', JString (lt_tenant x)),
      (''operation_id'', enc_uuid L (lt_operation_id x)),
      (''kind'', enc_ledger_tenant_lifecycle_kind (lt_kind x)),
      (''state'', JString (lt_state x)),
      (''generation'', enc_i64 (lt_generation x)),
      (''rows_affected'', enc_i64 (lt_rows_affected x)),
      (''artifact_sha256'', enc_option JString (lt_artifact_sha256 x)),
      (''artifact_bytes'', enc_option enc_u64 (lt_artifact_bytes x)),
      (''receipt_sha256'', JString (lt_receipt_sha256 x)),
      (''updated_at'', JString (lt_updated_at x))])"

definition dec_ledger_tenant_lifecycle_receipt :: "libs \<Rightarrow> ledger_tenant_lifecycle_receipt dec" where
  "dec_ledger_tenant_lifecycle_receipt L j = do {
     f \<leftarrow> struct_fields False
       [''tenant'', ''operation_id'', ''kind'', ''state'', ''generation'',
        ''rows_affected'', ''artifact_sha256'', ''artifact_bytes'', ''receipt_sha256'',
        ''updated_at''] j;
     v1 \<leftarrow> need f ''tenant'' dec_string;
     v2 \<leftarrow> need f ''operation_id'' (dec_uuid L);
     v3 \<leftarrow> need f ''kind'' dec_ledger_tenant_lifecycle_kind;
     v4 \<leftarrow> need f ''state'' dec_string;
     v5 \<leftarrow> need f ''generation'' dec_i64;
     v6 \<leftarrow> need f ''rows_affected'' dec_i64;
     v7 \<leftarrow> opt f ''artifact_sha256'' dec_string;
     v8 \<leftarrow> opt f ''artifact_bytes'' dec_u64;
     v9 \<leftarrow> need f ''receipt_sha256'' dec_string;
     v10 \<leftarrow> need f ''updated_at'' dec_string;
     Some \<lparr>lt_tenant = v1,
       lt_operation_id = v2,
       lt_kind = v3,
       lt_state = v4,
       lt_generation = v5,
       lt_rows_affected = v6,
       lt_artifact_sha256 = v7,
       lt_artifact_bytes = v8,
       lt_receipt_sha256 = v9,
       lt_updated_at = v10\<rparr> }"

definition ok_ledger_tenant_lifecycle_receipt :: "libs \<Rightarrow> ledger_tenant_lifecycle_receipt \<Rightarrow> bool" where
  "ok_ledger_tenant_lifecycle_receipt L x \<longleftrightarrow> uuid_laws L"

interpretation ledger_tenant_lifecycle_receipt_codec: codec "enc_ledger_tenant_lifecycle_receipt L" "dec_ledger_tenant_lifecycle_receipt L" "ok_ledger_tenant_lifecycle_receipt L"
  by unfold_locales
    (auto simp: enc_ledger_tenant_lifecycle_receipt_def dec_ledger_tenant_lifecycle_receipt_def ok_ledger_tenant_lifecycle_receipt_def record_simps split: option.split)

record ledger_tenant_lifecycle_request =
  lq_operation_id :: uuid
  lq_kind :: ledger_tenant_lifecycle_kind

definition enc_ledger_tenant_lifecycle_request :: "libs \<Rightarrow> ledger_tenant_lifecycle_request \<Rightarrow> json" where
  "enc_ledger_tenant_lifecycle_request L x = JObject (
    [(''operation_id'', enc_uuid L (lq_operation_id x)),
      (''kind'', enc_ledger_tenant_lifecycle_kind (lq_kind x))])"

section \<open>Compliance and logging\<close>

datatype evidence_status =
    Satisfied | Partial | NoData

fun enc_evidence_status :: "evidence_status \<Rightarrow> json" where
  "enc_evidence_status Satisfied = JString ''satisfied''"
| "enc_evidence_status Partial = JString ''partial''"
| "enc_evidence_status NoData = JString ''no_data''"

definition dec_evidence_status :: "evidence_status dec" where
  "dec_evidence_status = dec_enum [(''satisfied'', Satisfied),
     (''partial'', Partial),
     (''no_data'', NoData)]"

lemma dec_enc_evidence_status [simp]: "dec_evidence_status (enc_evidence_status x) = Some x"
  by (cases x) (simp_all add: dec_evidence_status_def dec_enum_def)

lemma dec_option_evidence_status [simp]: "dec_option dec_evidence_status (enc_evidence_status x) = Some (Some x)"
  by (cases x) (simp_all add: dec_option_def dec_evidence_status_def dec_enum_def)

lemma enc_evidence_status_scalar [simp]: "enc_evidence_status x \<noteq> JNull"
  by (cases x) simp_all

record control_evidence =
  cv_control_id :: string
  cv_framework :: string
  cv_title :: string
  cv_status :: evidence_status
  cv_metric :: json
  cv_sample_seqs :: "i64 list"
  cv_narrative :: string

definition enc_control_evidence :: "control_evidence \<Rightarrow> json" where
  "enc_control_evidence x = JObject (
    [(''control_id'', JString (cv_control_id x)),
      (''framework'', JString (cv_framework x)),
      (''title'', JString (cv_title x)),
      (''status'', enc_evidence_status (cv_status x)),
      (''metric'', cv_metric x),
      (''sample_seqs'', enc_list enc_i64 (cv_sample_seqs x)),
      (''narrative'', JString (cv_narrative x))])"

definition dec_control_evidence :: "control_evidence dec" where
  "dec_control_evidence j = do {
     f \<leftarrow> struct_fields False
       [''control_id'', ''framework'', ''title'', ''status'', ''metric'', ''sample_seqs'',
        ''narrative''] j;
     v1 \<leftarrow> need f ''control_id'' dec_string;
     v2 \<leftarrow> need f ''framework'' dec_string;
     v3 \<leftarrow> need f ''title'' dec_string;
     v4 \<leftarrow> need f ''status'' dec_evidence_status;
     v5 \<leftarrow> need f ''metric'' dec_value;
     v6 \<leftarrow> need f ''sample_seqs'' (dec_list dec_i64);
     v7 \<leftarrow> need f ''narrative'' dec_string;
     Some \<lparr>cv_control_id = v1,
       cv_framework = v2,
       cv_title = v3,
       cv_status = v4,
       cv_metric = v5,
       cv_sample_seqs = v6,
       cv_narrative = v7\<rparr> }"

definition ok_control_evidence :: "control_evidence \<Rightarrow> bool" where
  "ok_control_evidence x \<longleftrightarrow> json_wf (cv_metric x)"

interpretation control_evidence_codec: codec enc_control_evidence dec_control_evidence ok_control_evidence
  by unfold_locales
    (auto simp: enc_control_evidence_def dec_control_evidence_def ok_control_evidence_def record_simps split: option.split)

record chain_verify_summary =
  cs_valid :: bool
  cs_entries_checked :: usize
  cs_first_invalid_seq :: "i64 option"

definition enc_chain_verify_summary :: "chain_verify_summary \<Rightarrow> json" where
  "enc_chain_verify_summary x = JObject (
    [(''valid'', JBool (cs_valid x)),
      (''entries_checked'', enc_u64 (cs_entries_checked x)),
      (''first_invalid_seq'', enc_option enc_i64 (cs_first_invalid_seq x))])"

definition dec_chain_verify_summary :: "chain_verify_summary dec" where
  "dec_chain_verify_summary j = do {
     f \<leftarrow> struct_fields False
       [''valid'', ''entries_checked'', ''first_invalid_seq''] j;
     v1 \<leftarrow> need f ''valid'' dec_bool;
     v2 \<leftarrow> need f ''entries_checked'' dec_u64;
     v3 \<leftarrow> opt f ''first_invalid_seq'' dec_i64;
     Some \<lparr>cs_valid = v1,
       cs_entries_checked = v2,
       cs_first_invalid_seq = v3\<rparr> }"

interpretation chain_verify_summary_codec: codec enc_chain_verify_summary dec_chain_verify_summary "\<lambda>_. True"
  by unfold_locales
    (auto simp: enc_chain_verify_summary_def dec_chain_verify_summary_def record_simps split: option.split)

record register_window =
  rw_from :: datetime
  rw_to :: datetime

definition enc_register_window :: "libs \<Rightarrow> register_window \<Rightarrow> json" where
  "enc_register_window L x = JObject (
    [(''from'', enc_datetime L (rw_from x)),
      (''to'', enc_datetime L (rw_to x))])"

definition dec_register_window :: "libs \<Rightarrow> register_window dec" where
  "dec_register_window L j = do {
     f \<leftarrow> struct_fields False
       [''from'', ''to''] j;
     v1 \<leftarrow> need f ''from'' (dec_datetime L);
     v2 \<leftarrow> need f ''to'' (dec_datetime L);
     Some \<lparr>rw_from = v1,
       rw_to = v2\<rparr> }"

definition ok_register_window :: "libs \<Rightarrow> register_window \<Rightarrow> bool" where
  "ok_register_window L x \<longleftrightarrow> datetime_laws L"

interpretation register_window_codec: codec "enc_register_window L" "dec_register_window L" "ok_register_window L"
  by unfold_locales
    (auto simp: enc_register_window_def dec_register_window_def ok_register_window_def record_simps split: option.split)

record compliance_register =
  cr_schema_version :: string
  cr_generated_at :: datetime
  cr_window :: register_window
  cr_row_count :: usize
  cr_chain_verify :: chain_verify_summary
  cr_controls :: "control_evidence list"
  cr_disclaimer :: string

definition enc_compliance_register :: "libs \<Rightarrow> compliance_register \<Rightarrow> json" where
  "enc_compliance_register L x = JObject (
    [(''schema_version'', JString (cr_schema_version x)),
      (''generated_at'', enc_datetime L (cr_generated_at x)),
      (''window'', enc_register_window L (cr_window x)),
      (''row_count'', enc_u64 (cr_row_count x)),
      (''chain_verify'', enc_chain_verify_summary (cr_chain_verify x)),
      (''controls'', enc_list enc_control_evidence (cr_controls x)),
      (''disclaimer'', JString (cr_disclaimer x))])"

definition dec_compliance_register :: "libs \<Rightarrow> compliance_register dec" where
  "dec_compliance_register L j = do {
     f \<leftarrow> struct_fields False
       [''schema_version'', ''generated_at'', ''window'', ''row_count'', ''chain_verify'',
        ''controls'', ''disclaimer''] j;
     v1 \<leftarrow> need f ''schema_version'' dec_string;
     v2 \<leftarrow> need f ''generated_at'' (dec_datetime L);
     v3 \<leftarrow> need f ''window'' (dec_register_window L);
     v4 \<leftarrow> need f ''row_count'' dec_u64;
     v5 \<leftarrow> need f ''chain_verify'' dec_chain_verify_summary;
     v6 \<leftarrow> need f ''controls'' (dec_list dec_control_evidence);
     v7 \<leftarrow> need f ''disclaimer'' dec_string;
     Some \<lparr>cr_schema_version = v1,
       cr_generated_at = v2,
       cr_window = v3,
       cr_row_count = v4,
       cr_chain_verify = v5,
       cr_controls = v6,
       cr_disclaimer = v7\<rparr> }"

definition ok_compliance_register :: "libs \<Rightarrow> compliance_register \<Rightarrow> bool" where
  "ok_compliance_register L x \<longleftrightarrow> datetime_laws L
     \<and> ok_register_window L (cr_window x)
     \<and> list_all ok_control_evidence (cr_controls x)"

interpretation compliance_register_codec: codec "enc_compliance_register L" "dec_compliance_register L" "ok_compliance_register L"
  by unfold_locales
    (auto simp: enc_compliance_register_def dec_compliance_register_def ok_compliance_register_def record_simps chain_verify_summary_codec.read_back chain_verify_summary_codec.read_back_list chain_verify_summary_codec.read_back_option control_evidence_codec.read_back control_evidence_codec.read_back_list control_evidence_codec.read_back_option register_window_codec.read_back register_window_codec.read_back_list register_window_codec.read_back_option split: option.split)

record log_entry =
  lg_state_namespace :: string
  lg_agent_id :: string
  lg_method :: string
  lg_intent_category :: string
  lg_authorized :: bool
  lg_reasoning :: string
  lg_policy_decision :: "json option"
  lg_correlation_id :: "string option"
  lg_source :: "string option"

definition enc_log_entry :: "log_entry \<Rightarrow> json" where
  "enc_log_entry x = JObject (
    [(''state_namespace'', JString (lg_state_namespace x)),
      (''agent_id'', JString (lg_agent_id x)),
      (''method'', JString (lg_method x)),
      (''intent_category'', JString (lg_intent_category x)),
      (''authorized'', JBool (lg_authorized x)),
      (''reasoning'', JString (lg_reasoning x)),
      (''policy_decision'', enc_option (\<lambda>j. j) (lg_policy_decision x))]
    @ skip_none ''correlation_id'' JString (lg_correlation_id x)
    @ skip_none ''source'' JString (lg_source x))"

record log_receipt =
  lo_status :: string
  lo_seq :: i64
  lo_entry_hash :: string

definition dec_log_receipt :: "log_receipt dec" where
  "dec_log_receipt j = do {
     f \<leftarrow> struct_fields False
       [''status'', ''seq'', ''entry_hash''] j;
     v1 \<leftarrow> need f ''status'' dec_string;
     v2 \<leftarrow> need f ''seq'' dec_i64;
     v3 \<leftarrow> need f ''entry_hash'' dec_string;
     Some \<lparr>lo_status = v1,
       lo_seq = v2,
       lo_entry_hash = v3\<rparr> }"

end
