(* ===== verification/Wire_Analysis.thy ===== *)
theory Wire_Analysis
  imports Wire_Ledger
begin

text \<open>
  The wire types of the ledger's surface (ledger.rs), second part: envelope analysis, behavioural
  baselines and the fleet diff, the model-upgrade canary, hunting, spend and active-agent
  metering, and cases.
\<close>

text \<open>A \<open>BTreeMap<String, String>\<close> is its sorted members; a repeated key keeps its last value.\<close>

definition enc_string_map :: "(string \<times> string) list \<Rightarrow> json" where
  "enc_string_map m = JObject (map (\<lambda>(k, v). (k, JString v)) m)"

definition dec_string_map :: "(string \<times> string) list dec" where
  "dec_string_map j = (case j of
     JObject kvs \<Rightarrow> map_option (\<lambda>vs. btree_of (zip (map fst kvs) vs)) (those (map (dec_string \<circ> snd) kvs))
   | _ \<Rightarrow> None)"

interpretation string_map_codec: codec enc_string_map dec_string_map btree_sorted
proof
  fix m :: "(string \<times> string) list"
  assume sorted: "btree_sorted m"
  have "map (dec_string \<circ> snd) (map (\<lambda>(k, v). (k, JString v)) m) = map Some (map snd m)"
    by (induction m) auto
  then have "those (map (dec_string \<circ> snd) (map (\<lambda>(k, v). (k, JString v)) m)) = Some (map snd m)"
    by (simp only: those_Some)
  moreover have "map fst (map (\<lambda>(k, v). (k, JString v)) m) = map fst m"
    by (induction m) auto
  ultimately show "dec_string_map (enc_string_map m) = Some m"
    using sorted
    by (simp only: dec_string_map_def enc_string_map_def json.case option.map zip_map_fst_snd btree_of_id)
qed

section \<open>Behaviour\<close>

record tool_usage =
  tu_tool_type :: string
  tu_used_count :: i64
  tu_confidence :: string

definition enc_tool_usage :: "tool_usage \<Rightarrow> json" where
  "enc_tool_usage x = JObject (
    [(''tool_type'', JString (tu_tool_type x)),
      (''used_count'', enc_i64 (tu_used_count x)),
      (''confidence'', JString (tu_confidence x))])"

definition dec_tool_usage :: "tool_usage dec" where
  "dec_tool_usage j = do {
     f \<leftarrow> struct_fields False
       [''tool_type'', ''used_count'', ''confidence''] j;
     v1 \<leftarrow> need f ''tool_type'' dec_string;
     v2 \<leftarrow> need f ''used_count'' dec_i64;
     v3 \<leftarrow> need f ''confidence'' dec_string;
     Some \<lparr>tu_tool_type = v1,
       tu_used_count = v2,
       tu_confidence = v3\<rparr> }"

interpretation tool_usage_codec: codec enc_tool_usage dec_tool_usage "\<lambda>_. True"
  by unfold_locales
    (auto simp: enc_tool_usage_def dec_tool_usage_def record_simps split: option.split)

record envelope_analysis_t =
  ea_agent_id :: string
  ea_window_days :: i64
  ea_since :: string
  ea_until :: string
  ea_total_calls :: i64
  ea_used_tools :: "tool_usage list"

definition enc_envelope_analysis_t :: "envelope_analysis_t \<Rightarrow> json" where
  "enc_envelope_analysis_t x = JObject (
    [(''agent_id'', JString (ea_agent_id x)),
      (''window_days'', enc_i64 (ea_window_days x)),
      (''since'', JString (ea_since x)),
      (''until'', JString (ea_until x)),
      (''total_calls'', enc_i64 (ea_total_calls x)),
      (''used_tools'', enc_list enc_tool_usage (ea_used_tools x))])"

definition dec_envelope_analysis_t :: "envelope_analysis_t dec" where
  "dec_envelope_analysis_t j = do {
     f \<leftarrow> struct_fields False
       [''agent_id'', ''window_days'', ''since'', ''until'', ''total_calls'', ''used_tools''] j;
     v1 \<leftarrow> need f ''agent_id'' dec_string;
     v2 \<leftarrow> need f ''window_days'' dec_i64;
     v3 \<leftarrow> need f ''since'' dec_string;
     v4 \<leftarrow> need f ''until'' dec_string;
     v5 \<leftarrow> need f ''total_calls'' dec_i64;
     v6 \<leftarrow> need f ''used_tools'' (dec_list dec_tool_usage);
     Some \<lparr>ea_agent_id = v1,
       ea_window_days = v2,
       ea_since = v3,
       ea_until = v4,
       ea_total_calls = v5,
       ea_used_tools = v6\<rparr> }"

interpretation envelope_analysis_t_codec: codec enc_envelope_analysis_t dec_envelope_analysis_t "\<lambda>_. True"
  by unfold_locales
    (auto simp: enc_envelope_analysis_t_def dec_envelope_analysis_t_def record_simps tool_usage_codec.read_back tool_usage_codec.read_back_list tool_usage_codec.read_back_option split: option.split)

record silent_agent =
  sg_agent_name :: string
  sg_tenant :: "string option"
  sg_last_activity :: "string option"
  sg_enrolled_at :: string
  sg_silent_hours :: i64
  sg_never_active :: bool

definition enc_silent_agent :: "silent_agent \<Rightarrow> json" where
  "enc_silent_agent x = JObject (
    [(''agent_name'', JString (sg_agent_name x)),
      (''tenant'', enc_option JString (sg_tenant x)),
      (''last_activity'', enc_option JString (sg_last_activity x)),
      (''enrolled_at'', JString (sg_enrolled_at x)),
      (''silent_hours'', enc_i64 (sg_silent_hours x)),
      (''never_active'', JBool (sg_never_active x))])"

definition dec_silent_agent :: "silent_agent dec" where
  "dec_silent_agent j = do {
     f \<leftarrow> struct_fields False
       [''agent_name'', ''tenant'', ''last_activity'', ''enrolled_at'', ''silent_hours'',
        ''never_active''] j;
     v1 \<leftarrow> need f ''agent_name'' dec_string;
     v2 \<leftarrow> opt f ''tenant'' dec_string;
     v3 \<leftarrow> opt f ''last_activity'' dec_string;
     v4 \<leftarrow> need f ''enrolled_at'' dec_string;
     v5 \<leftarrow> need f ''silent_hours'' dec_i64;
     v6 \<leftarrow> need f ''never_active'' dec_bool;
     Some \<lparr>sg_agent_name = v1,
       sg_tenant = v2,
       sg_last_activity = v3,
       sg_enrolled_at = v4,
       sg_silent_hours = v5,
       sg_never_active = v6\<rparr> }"

interpretation silent_agent_codec: codec enc_silent_agent dec_silent_agent "\<lambda>_. True"
  by unfold_locales
    (auto simp: enc_silent_agent_def dec_silent_agent_def record_simps split: option.split)

record silent_agents_report =
  sp_threshold_hours :: i64
  sp_generated_at :: string
  sp_silent_agents :: "silent_agent list"
  sp_active_total :: usize

definition enc_silent_agents_report :: "silent_agents_report \<Rightarrow> json" where
  "enc_silent_agents_report x = JObject (
    [(''threshold_hours'', enc_i64 (sp_threshold_hours x)),
      (''generated_at'', JString (sp_generated_at x)),
      (''silent_agents'', enc_list enc_silent_agent (sp_silent_agents x)),
      (''active_total'', enc_u64 (sp_active_total x))])"

definition dec_silent_agents_report :: "silent_agents_report dec" where
  "dec_silent_agents_report j = do {
     f \<leftarrow> struct_fields False
       [''threshold_hours'', ''generated_at'', ''silent_agents'', ''active_total''] j;
     v1 \<leftarrow> need f ''threshold_hours'' dec_i64;
     v2 \<leftarrow> need f ''generated_at'' dec_string;
     v3 \<leftarrow> need f ''silent_agents'' (dec_list dec_silent_agent);
     v4 \<leftarrow> need f ''active_total'' dec_u64;
     Some \<lparr>sp_threshold_hours = v1,
       sp_generated_at = v2,
       sp_silent_agents = v3,
       sp_active_total = v4\<rparr> }"

interpretation silent_agents_report_codec: codec enc_silent_agents_report dec_silent_agents_report "\<lambda>_. True"
  by unfold_locales
    (auto simp: enc_silent_agents_report_def dec_silent_agents_report_def record_simps silent_agent_codec.read_back silent_agent_codec.read_back_list silent_agent_codec.read_back_option split: option.split)

record tool_share =
  ts_tool_type :: string
  ts_count :: i64

definition enc_tool_share :: "tool_share \<Rightarrow> json" where
  "enc_tool_share x = JObject (
    [(''tool_type'', JString (ts_tool_type x)),
      (''count'', enc_i64 (ts_count x))])"

definition dec_tool_share :: "tool_share dec" where
  "dec_tool_share j = do {
     f \<leftarrow> struct_fields False
       [''tool_type'', ''count''] j;
     v1 \<leftarrow> need f ''tool_type'' dec_string;
     v2 \<leftarrow> need f ''count'' dec_i64;
     Some \<lparr>ts_tool_type = v1,
       ts_count = v2\<rparr> }"

interpretation tool_share_codec: codec enc_tool_share dec_tool_share "\<lambda>_. True"
  by unfold_locales
    (auto simp: enc_tool_share_def dec_tool_share_def record_simps split: option.split)

record baseline_window_profile =
  bw_since :: string
  bw_until :: string
  bw_total :: i64
  bw_authorized :: i64
  bw_denied :: i64
  bw_deny_rate :: f64
  bw_intent_mean :: f64
  bw_tool_mix :: "tool_share list"
  bw_hourly :: "i64 list"

definition enc_baseline_window_profile :: "baseline_window_profile \<Rightarrow> json" where
  "enc_baseline_window_profile x = JObject (
    [(''since'', JString (bw_since x)),
      (''until'', JString (bw_until x)),
      (''total'', enc_i64 (bw_total x)),
      (''authorized'', enc_i64 (bw_authorized x)),
      (''denied'', enc_i64 (bw_denied x)),
      (''deny_rate'', enc_f64 (bw_deny_rate x)),
      (''intent_mean'', enc_f64 (bw_intent_mean x)),
      (''tool_mix'', enc_list enc_tool_share (bw_tool_mix x)),
      (''hourly'', enc_list enc_i64 (bw_hourly x))])"

definition dec_baseline_window_profile :: "baseline_window_profile dec" where
  "dec_baseline_window_profile j = do {
     f \<leftarrow> struct_fields False
       [''since'', ''until'', ''total'', ''authorized'', ''denied'', ''deny_rate'',
        ''intent_mean'', ''tool_mix'', ''hourly''] j;
     v1 \<leftarrow> need f ''since'' dec_string;
     v2 \<leftarrow> need f ''until'' dec_string;
     v3 \<leftarrow> need f ''total'' dec_i64;
     v4 \<leftarrow> need f ''authorized'' dec_i64;
     v5 \<leftarrow> need f ''denied'' dec_i64;
     v6 \<leftarrow> need f ''deny_rate'' dec_f64;
     v7 \<leftarrow> need f ''intent_mean'' dec_f64;
     v8 \<leftarrow> need f ''tool_mix'' (dec_list dec_tool_share);
     v9 \<leftarrow> need f ''hourly'' (dec_list dec_i64);
     Some \<lparr>bw_since = v1,
       bw_until = v2,
       bw_total = v3,
       bw_authorized = v4,
       bw_denied = v5,
       bw_deny_rate = v6,
       bw_intent_mean = v7,
       bw_tool_mix = v8,
       bw_hourly = v9\<rparr> }"

definition ok_baseline_window_profile :: "baseline_window_profile \<Rightarrow> bool" where
  "ok_baseline_window_profile x \<longleftrightarrow> f64_finite (bw_deny_rate x)
     \<and> f64_finite (bw_intent_mean x)"

interpretation baseline_window_profile_codec: codec enc_baseline_window_profile dec_baseline_window_profile ok_baseline_window_profile
  by unfold_locales
    (auto simp: enc_baseline_window_profile_def dec_baseline_window_profile_def ok_baseline_window_profile_def record_simps tool_share_codec.read_back tool_share_codec.read_back_list tool_share_codec.read_back_option split: option.split)

record baseline_deviation =
  bd_tool_mix :: f64
  bd_hourly :: f64
  bd_intent :: f64
  bd_deny_rate :: f64
  bd_overall :: f64

definition enc_baseline_deviation :: "baseline_deviation \<Rightarrow> json" where
  "enc_baseline_deviation x = JObject (
    [(''tool_mix'', enc_f64 (bd_tool_mix x)),
      (''hourly'', enc_f64 (bd_hourly x)),
      (''intent'', enc_f64 (bd_intent x)),
      (''deny_rate'', enc_f64 (bd_deny_rate x)),
      (''overall'', enc_f64 (bd_overall x))])"

definition dec_baseline_deviation :: "baseline_deviation dec" where
  "dec_baseline_deviation j = do {
     f \<leftarrow> struct_fields False
       [''tool_mix'', ''hourly'', ''intent'', ''deny_rate'', ''overall''] j;
     v1 \<leftarrow> need f ''tool_mix'' dec_f64;
     v2 \<leftarrow> need f ''hourly'' dec_f64;
     v3 \<leftarrow> need f ''intent'' dec_f64;
     v4 \<leftarrow> need f ''deny_rate'' dec_f64;
     v5 \<leftarrow> need f ''overall'' dec_f64;
     Some \<lparr>bd_tool_mix = v1,
       bd_hourly = v2,
       bd_intent = v3,
       bd_deny_rate = v4,
       bd_overall = v5\<rparr> }"

definition ok_baseline_deviation :: "baseline_deviation \<Rightarrow> bool" where
  "ok_baseline_deviation x \<longleftrightarrow> f64_finite (bd_tool_mix x)
     \<and> f64_finite (bd_hourly x)
     \<and> f64_finite (bd_intent x)
     \<and> f64_finite (bd_deny_rate x)
     \<and> f64_finite (bd_overall x)"

interpretation baseline_deviation_codec: codec enc_baseline_deviation dec_baseline_deviation ok_baseline_deviation
  by unfold_locales
    (auto simp: enc_baseline_deviation_def dec_baseline_deviation_def ok_baseline_deviation_def record_simps split: option.split)

record window_diff =
  wd_new_tools :: "string list"
  wd_vanished_tools :: "string list"
  wd_deny_rate_delta :: f64
  wd_intent_delta :: f64
  wd_total_delta :: i64

definition enc_window_diff :: "window_diff \<Rightarrow> json" where
  "enc_window_diff x = JObject (
    [(''new_tools'', enc_list JString (wd_new_tools x)),
      (''vanished_tools'', enc_list JString (wd_vanished_tools x)),
      (''deny_rate_delta'', enc_f64 (wd_deny_rate_delta x)),
      (''intent_delta'', enc_f64 (wd_intent_delta x)),
      (''total_delta'', enc_i64 (wd_total_delta x))])"

definition dec_window_diff :: "window_diff dec" where
  "dec_window_diff j = do {
     f \<leftarrow> struct_fields False
       [''new_tools'', ''vanished_tools'', ''deny_rate_delta'', ''intent_delta'',
        ''total_delta''] j;
     v1 \<leftarrow> need f ''new_tools'' (dec_list dec_string);
     v2 \<leftarrow> need f ''vanished_tools'' (dec_list dec_string);
     v3 \<leftarrow> need f ''deny_rate_delta'' dec_f64;
     v4 \<leftarrow> need f ''intent_delta'' dec_f64;
     v5 \<leftarrow> need f ''total_delta'' dec_i64;
     Some \<lparr>wd_new_tools = v1,
       wd_vanished_tools = v2,
       wd_deny_rate_delta = v3,
       wd_intent_delta = v4,
       wd_total_delta = v5\<rparr> }"

definition ok_window_diff :: "window_diff \<Rightarrow> bool" where
  "ok_window_diff x \<longleftrightarrow> f64_finite (wd_deny_rate_delta x)
     \<and> f64_finite (wd_intent_delta x)"

interpretation window_diff_codec: codec enc_window_diff dec_window_diff ok_window_diff
  by unfold_locales
    (auto simp: enc_window_diff_def dec_window_diff_def ok_window_diff_def record_simps split: option.split)

text \<open>\<open>WindowDiff::default()\<close>, for rows that predate the field.\<close>

definition window_diff_default :: window_diff where
  "window_diff_default = \<lparr>wd_new_tools = [], wd_vanished_tools = [], wd_deny_rate_delta = 0,
     wd_intent_delta = 0, wd_total_delta = 0\<rparr>"

record behavioral_baseline_t =
  bb_agent_id :: string
  bb_baseline_days :: i64
  bb_recent_days :: i64
  bb_baseline :: baseline_window_profile
  bb_recent :: baseline_window_profile
  bb_deviation :: baseline_deviation
  bb_diff :: window_diff
  bb_drifted :: bool
  bb_insufficient :: bool

definition enc_behavioral_baseline_t :: "behavioral_baseline_t \<Rightarrow> json" where
  "enc_behavioral_baseline_t x = JObject (
    [(''agent_id'', JString (bb_agent_id x)),
      (''baseline_days'', enc_i64 (bb_baseline_days x)),
      (''recent_days'', enc_i64 (bb_recent_days x)),
      (''baseline'', enc_baseline_window_profile (bb_baseline x)),
      (''recent'', enc_baseline_window_profile (bb_recent x)),
      (''deviation'', enc_baseline_deviation (bb_deviation x)),
      (''diff'', enc_window_diff (bb_diff x)),
      (''drifted'', JBool (bb_drifted x)),
      (''insufficient'', JBool (bb_insufficient x))])"

definition dec_behavioral_baseline_t :: "behavioral_baseline_t dec" where
  "dec_behavioral_baseline_t j = do {
     f \<leftarrow> struct_fields False
       [''agent_id'', ''baseline_days'', ''recent_days'', ''baseline'', ''recent'',
        ''deviation'', ''diff'', ''drifted'', ''insufficient''] j;
     v1 \<leftarrow> need f ''agent_id'' dec_string;
     v2 \<leftarrow> need f ''baseline_days'' dec_i64;
     v3 \<leftarrow> need f ''recent_days'' dec_i64;
     v4 \<leftarrow> need f ''baseline'' dec_baseline_window_profile;
     v5 \<leftarrow> need f ''recent'' dec_baseline_window_profile;
     v6 \<leftarrow> need f ''deviation'' dec_baseline_deviation;
     v7 \<leftarrow> dflt f ''diff'' window_diff_default dec_window_diff;
     v8 \<leftarrow> need f ''drifted'' dec_bool;
     v9 \<leftarrow> need f ''insufficient'' dec_bool;
     Some \<lparr>bb_agent_id = v1,
       bb_baseline_days = v2,
       bb_recent_days = v3,
       bb_baseline = v4,
       bb_recent = v5,
       bb_deviation = v6,
       bb_diff = v7,
       bb_drifted = v8,
       bb_insufficient = v9\<rparr> }"

definition ok_behavioral_baseline_t :: "behavioral_baseline_t \<Rightarrow> bool" where
  "ok_behavioral_baseline_t x \<longleftrightarrow> ok_baseline_window_profile (bb_baseline x)
     \<and> ok_baseline_window_profile (bb_recent x)
     \<and> ok_baseline_deviation (bb_deviation x)
     \<and> ok_window_diff (bb_diff x)"

interpretation behavioral_baseline_t_codec: codec enc_behavioral_baseline_t dec_behavioral_baseline_t ok_behavioral_baseline_t
  by unfold_locales
    (auto simp: enc_behavioral_baseline_t_def dec_behavioral_baseline_t_def ok_behavioral_baseline_t_def record_simps baseline_deviation_codec.read_back baseline_deviation_codec.read_back_list baseline_deviation_codec.read_back_option baseline_window_profile_codec.read_back baseline_window_profile_codec.read_back_list baseline_window_profile_codec.read_back_option window_diff_codec.read_back window_diff_codec.read_back_list window_diff_codec.read_back_option split: option.split)

record fleet_diff_row =
  fd_agent_id :: string
  fd_recent_total :: i64
  fd_baseline_total :: i64
  fd_deny_rate_delta :: f64
  fd_intent_delta :: f64
  fd_total_delta :: i64
  fd_new_tools :: "string list"
  fd_vanished_tools :: "string list"
  fd_drift_overall :: f64
  fd_drifted :: bool
  fd_insufficient :: bool

definition enc_fleet_diff_row :: "fleet_diff_row \<Rightarrow> json" where
  "enc_fleet_diff_row x = JObject (
    [(''agent_id'', JString (fd_agent_id x)),
      (''recent_total'', enc_i64 (fd_recent_total x)),
      (''baseline_total'', enc_i64 (fd_baseline_total x)),
      (''deny_rate_delta'', enc_f64 (fd_deny_rate_delta x)),
      (''intent_delta'', enc_f64 (fd_intent_delta x)),
      (''total_delta'', enc_i64 (fd_total_delta x)),
      (''new_tools'', enc_list JString (fd_new_tools x)),
      (''vanished_tools'', enc_list JString (fd_vanished_tools x)),
      (''drift_overall'', enc_f64 (fd_drift_overall x)),
      (''drifted'', JBool (fd_drifted x)),
      (''insufficient'', JBool (fd_insufficient x))])"

definition dec_fleet_diff_row :: "fleet_diff_row dec" where
  "dec_fleet_diff_row j = do {
     f \<leftarrow> struct_fields False
       [''agent_id'', ''recent_total'', ''baseline_total'', ''deny_rate_delta'',
        ''intent_delta'', ''total_delta'', ''new_tools'', ''vanished_tools'',
        ''drift_overall'', ''drifted'', ''insufficient''] j;
     v1 \<leftarrow> need f ''agent_id'' dec_string;
     v2 \<leftarrow> need f ''recent_total'' dec_i64;
     v3 \<leftarrow> need f ''baseline_total'' dec_i64;
     v4 \<leftarrow> need f ''deny_rate_delta'' dec_f64;
     v5 \<leftarrow> need f ''intent_delta'' dec_f64;
     v6 \<leftarrow> need f ''total_delta'' dec_i64;
     v7 \<leftarrow> need f ''new_tools'' (dec_list dec_string);
     v8 \<leftarrow> need f ''vanished_tools'' (dec_list dec_string);
     v9 \<leftarrow> need f ''drift_overall'' dec_f64;
     v10 \<leftarrow> need f ''drifted'' dec_bool;
     v11 \<leftarrow> need f ''insufficient'' dec_bool;
     Some \<lparr>fd_agent_id = v1,
       fd_recent_total = v2,
       fd_baseline_total = v3,
       fd_deny_rate_delta = v4,
       fd_intent_delta = v5,
       fd_total_delta = v6,
       fd_new_tools = v7,
       fd_vanished_tools = v8,
       fd_drift_overall = v9,
       fd_drifted = v10,
       fd_insufficient = v11\<rparr> }"

definition ok_fleet_diff_row :: "fleet_diff_row \<Rightarrow> bool" where
  "ok_fleet_diff_row x \<longleftrightarrow> f64_finite (fd_deny_rate_delta x)
     \<and> f64_finite (fd_intent_delta x)
     \<and> f64_finite (fd_drift_overall x)"

interpretation fleet_diff_row_codec: codec enc_fleet_diff_row dec_fleet_diff_row ok_fleet_diff_row
  by unfold_locales
    (auto simp: enc_fleet_diff_row_def dec_fleet_diff_row_def ok_fleet_diff_row_def record_simps split: option.split)

record fleet_behavioral_diff =
  fb_baseline_days :: i64
  fb_recent_days :: i64
  fb_since_baseline :: string
  fb_since_recent :: string
  fb_now :: string
  fb_agents :: "fleet_diff_row list"
  fb_returned :: i64

definition enc_fleet_behavioral_diff :: "fleet_behavioral_diff \<Rightarrow> json" where
  "enc_fleet_behavioral_diff x = JObject (
    [(''baseline_days'', enc_i64 (fb_baseline_days x)),
      (''recent_days'', enc_i64 (fb_recent_days x)),
      (''since_baseline'', JString (fb_since_baseline x)),
      (''since_recent'', JString (fb_since_recent x)),
      (''now'', JString (fb_now x)),
      (''agents'', enc_list enc_fleet_diff_row (fb_agents x)),
      (''returned'', enc_i64 (fb_returned x))])"

definition dec_fleet_behavioral_diff :: "fleet_behavioral_diff dec" where
  "dec_fleet_behavioral_diff j = do {
     f \<leftarrow> struct_fields False
       [''baseline_days'', ''recent_days'', ''since_baseline'', ''since_recent'', ''now'',
        ''agents'', ''returned''] j;
     v1 \<leftarrow> need f ''baseline_days'' dec_i64;
     v2 \<leftarrow> need f ''recent_days'' dec_i64;
     v3 \<leftarrow> need f ''since_baseline'' dec_string;
     v4 \<leftarrow> need f ''since_recent'' dec_string;
     v5 \<leftarrow> need f ''now'' dec_string;
     v6 \<leftarrow> need f ''agents'' (dec_list dec_fleet_diff_row);
     v7 \<leftarrow> need f ''returned'' dec_i64;
     Some \<lparr>fb_baseline_days = v1,
       fb_recent_days = v2,
       fb_since_baseline = v3,
       fb_since_recent = v4,
       fb_now = v5,
       fb_agents = v6,
       fb_returned = v7\<rparr> }"

definition ok_fleet_behavioral_diff :: "fleet_behavioral_diff \<Rightarrow> bool" where
  "ok_fleet_behavioral_diff x \<longleftrightarrow> list_all ok_fleet_diff_row (fb_agents x)"

interpretation fleet_behavioral_diff_codec: codec enc_fleet_behavioral_diff dec_fleet_behavioral_diff ok_fleet_behavioral_diff
  by unfold_locales
    (auto simp: enc_fleet_behavioral_diff_def dec_fleet_behavioral_diff_def ok_fleet_behavioral_diff_def record_simps fleet_diff_row_codec.read_back fleet_diff_row_codec.read_back_list fleet_diff_row_codec.read_back_option split: option.split)

section \<open>The model-upgrade canary\<close>

record canary_signal_share =
  cg_signal :: string
  cg_count :: i64

definition enc_canary_signal_share :: "canary_signal_share \<Rightarrow> json" where
  "enc_canary_signal_share x = JObject (
    [(''signal'', JString (cg_signal x)),
      (''count'', enc_i64 (cg_count x))])"

definition dec_canary_signal_share :: "canary_signal_share dec" where
  "dec_canary_signal_share j = do {
     f \<leftarrow> struct_fields False
       [''signal'', ''count''] j;
     v1 \<leftarrow> need f ''signal'' dec_string;
     v2 \<leftarrow> need f ''count'' dec_i64;
     Some \<lparr>cg_signal = v1,
       cg_count = v2\<rparr> }"

interpretation canary_signal_share_codec: codec enc_canary_signal_share dec_canary_signal_share "\<lambda>_. True"
  by unfold_locales
    (auto simp: enc_canary_signal_share_def dec_canary_signal_share_def record_simps split: option.split)

record canary_model =
  cm_brain_version :: string
  cm_mock_mode :: bool
  cm_provider_models :: "(string \<times> string) list"
  cm_observed :: i64

definition enc_canary_model :: "canary_model \<Rightarrow> json" where
  "enc_canary_model x = JObject (
    [(''brain_version'', JString (cm_brain_version x)),
      (''mock_mode'', JBool (cm_mock_mode x)),
      (''provider_models'', enc_string_map (cm_provider_models x)),
      (''observed'', enc_i64 (cm_observed x))])"

definition dec_canary_model :: "canary_model dec" where
  "dec_canary_model j = do {
     f \<leftarrow> struct_fields False
       [''brain_version'', ''mock_mode'', ''provider_models'', ''observed''] j;
     v1 \<leftarrow> need f ''brain_version'' dec_string;
     v2 \<leftarrow> need f ''mock_mode'' dec_bool;
     v3 \<leftarrow> need f ''provider_models'' dec_string_map;
     v4 \<leftarrow> need f ''observed'' dec_i64;
     Some \<lparr>cm_brain_version = v1,
       cm_mock_mode = v2,
       cm_provider_models = v3,
       cm_observed = v4\<rparr> }"

definition ok_canary_model :: "canary_model \<Rightarrow> bool" where
  "ok_canary_model x \<longleftrightarrow> btree_sorted (cm_provider_models x)"

interpretation canary_model_codec: codec enc_canary_model dec_canary_model ok_canary_model
  by unfold_locales
    (auto simp: enc_canary_model_def dec_canary_model_def ok_canary_model_def record_simps string_map_codec.read_back split: option.split)

record canary_window =
  cw_since :: string
  cw_until :: string
  cw_total :: i64
  cw_authorized :: i64
  cw_denied :: i64
  cw_deny_rate :: f64
  cw_intent_mean :: f64
  cw_signal_mix :: "canary_signal_share list"
  cw_models :: "canary_model list"
  cw_models_sampled :: i64

definition enc_canary_window :: "canary_window \<Rightarrow> json" where
  "enc_canary_window x = JObject (
    [(''since'', JString (cw_since x)),
      (''until'', JString (cw_until x)),
      (''total'', enc_i64 (cw_total x)),
      (''authorized'', enc_i64 (cw_authorized x)),
      (''denied'', enc_i64 (cw_denied x)),
      (''deny_rate'', enc_f64 (cw_deny_rate x)),
      (''intent_mean'', enc_f64 (cw_intent_mean x)),
      (''signal_mix'', enc_list enc_canary_signal_share (cw_signal_mix x)),
      (''models'', enc_list enc_canary_model (cw_models x)),
      (''models_sampled'', enc_i64 (cw_models_sampled x))])"

definition dec_canary_window :: "canary_window dec" where
  "dec_canary_window j = do {
     f \<leftarrow> struct_fields False
       [''since'', ''until'', ''total'', ''authorized'', ''denied'', ''deny_rate'',
        ''intent_mean'', ''signal_mix'', ''models'', ''models_sampled''] j;
     v1 \<leftarrow> need f ''since'' dec_string;
     v2 \<leftarrow> need f ''until'' dec_string;
     v3 \<leftarrow> need f ''total'' dec_i64;
     v4 \<leftarrow> need f ''authorized'' dec_i64;
     v5 \<leftarrow> need f ''denied'' dec_i64;
     v6 \<leftarrow> need f ''deny_rate'' dec_f64;
     v7 \<leftarrow> need f ''intent_mean'' dec_f64;
     v8 \<leftarrow> need f ''signal_mix'' (dec_list dec_canary_signal_share);
     v9 \<leftarrow> need f ''models'' (dec_list dec_canary_model);
     v10 \<leftarrow> need f ''models_sampled'' dec_i64;
     Some \<lparr>cw_since = v1,
       cw_until = v2,
       cw_total = v3,
       cw_authorized = v4,
       cw_denied = v5,
       cw_deny_rate = v6,
       cw_intent_mean = v7,
       cw_signal_mix = v8,
       cw_models = v9,
       cw_models_sampled = v10\<rparr> }"

definition ok_canary_window :: "canary_window \<Rightarrow> bool" where
  "ok_canary_window x \<longleftrightarrow> f64_finite (cw_deny_rate x)
     \<and> f64_finite (cw_intent_mean x)
     \<and> list_all ok_canary_model (cw_models x)"

interpretation canary_window_codec: codec enc_canary_window dec_canary_window ok_canary_window
  by unfold_locales
    (auto simp: enc_canary_window_def dec_canary_window_def ok_canary_window_def record_simps canary_model_codec.read_back canary_model_codec.read_back_list canary_model_codec.read_back_option canary_signal_share_codec.read_back canary_signal_share_codec.read_back_list canary_signal_share_codec.read_back_option split: option.split)

record canary_deltas =
  cd_deny_rate_delta :: f64
  cd_intent_mean_delta :: f64
  cd_total_delta :: i64
  cd_new_signals :: "string list"
  cd_vanished_signals :: "string list"

definition enc_canary_deltas :: "canary_deltas \<Rightarrow> json" where
  "enc_canary_deltas x = JObject (
    [(''deny_rate_delta'', enc_f64 (cd_deny_rate_delta x)),
      (''intent_mean_delta'', enc_f64 (cd_intent_mean_delta x)),
      (''total_delta'', enc_i64 (cd_total_delta x)),
      (''new_signals'', enc_list JString (cd_new_signals x)),
      (''vanished_signals'', enc_list JString (cd_vanished_signals x))])"

definition dec_canary_deltas :: "canary_deltas dec" where
  "dec_canary_deltas j = do {
     f \<leftarrow> struct_fields False
       [''deny_rate_delta'', ''intent_mean_delta'', ''total_delta'', ''new_signals'',
        ''vanished_signals''] j;
     v1 \<leftarrow> need f ''deny_rate_delta'' dec_f64;
     v2 \<leftarrow> need f ''intent_mean_delta'' dec_f64;
     v3 \<leftarrow> need f ''total_delta'' dec_i64;
     v4 \<leftarrow> need f ''new_signals'' (dec_list dec_string);
     v5 \<leftarrow> need f ''vanished_signals'' (dec_list dec_string);
     Some \<lparr>cd_deny_rate_delta = v1,
       cd_intent_mean_delta = v2,
       cd_total_delta = v3,
       cd_new_signals = v4,
       cd_vanished_signals = v5\<rparr> }"

definition ok_canary_deltas :: "canary_deltas \<Rightarrow> bool" where
  "ok_canary_deltas x \<longleftrightarrow> f64_finite (cd_deny_rate_delta x)
     \<and> f64_finite (cd_intent_mean_delta x)"

interpretation canary_deltas_codec: codec enc_canary_deltas dec_canary_deltas ok_canary_deltas
  by unfold_locales
    (auto simp: enc_canary_deltas_def dec_canary_deltas_def ok_canary_deltas_def record_simps split: option.split)

record model_upgrade_canary =
  mu_cutover :: string
  mu_window_hours :: i64
  mu_before :: canary_window
  mu_after :: canary_window
  mu_deltas :: canary_deltas
  mu_model_changed :: bool
  mu_insufficient :: bool

definition enc_model_upgrade_canary :: "model_upgrade_canary \<Rightarrow> json" where
  "enc_model_upgrade_canary x = JObject (
    [(''cutover'', JString (mu_cutover x)),
      (''window_hours'', enc_i64 (mu_window_hours x)),
      (''before'', enc_canary_window (mu_before x)),
      (''after'', enc_canary_window (mu_after x)),
      (''deltas'', enc_canary_deltas (mu_deltas x)),
      (''model_changed'', JBool (mu_model_changed x)),
      (''insufficient'', JBool (mu_insufficient x))])"

definition dec_model_upgrade_canary :: "model_upgrade_canary dec" where
  "dec_model_upgrade_canary j = do {
     f \<leftarrow> struct_fields False
       [''cutover'', ''window_hours'', ''before'', ''after'', ''deltas'', ''model_changed'',
        ''insufficient''] j;
     v1 \<leftarrow> need f ''cutover'' dec_string;
     v2 \<leftarrow> need f ''window_hours'' dec_i64;
     v3 \<leftarrow> need f ''before'' dec_canary_window;
     v4 \<leftarrow> need f ''after'' dec_canary_window;
     v5 \<leftarrow> need f ''deltas'' dec_canary_deltas;
     v6 \<leftarrow> need f ''model_changed'' dec_bool;
     v7 \<leftarrow> need f ''insufficient'' dec_bool;
     Some \<lparr>mu_cutover = v1,
       mu_window_hours = v2,
       mu_before = v3,
       mu_after = v4,
       mu_deltas = v5,
       mu_model_changed = v6,
       mu_insufficient = v7\<rparr> }"

definition ok_model_upgrade_canary :: "model_upgrade_canary \<Rightarrow> bool" where
  "ok_model_upgrade_canary x \<longleftrightarrow> ok_canary_window (mu_before x)
     \<and> ok_canary_window (mu_after x)
     \<and> ok_canary_deltas (mu_deltas x)"

interpretation model_upgrade_canary_codec: codec enc_model_upgrade_canary dec_model_upgrade_canary ok_model_upgrade_canary
  by unfold_locales
    (auto simp: enc_model_upgrade_canary_def dec_model_upgrade_canary_def ok_model_upgrade_canary_def record_simps canary_deltas_codec.read_back canary_deltas_codec.read_back_list canary_deltas_codec.read_back_option canary_window_codec.read_back canary_window_codec.read_back_list canary_window_codec.read_back_option split: option.split)

section \<open>Hunting and spend\<close>

record hunt_agent_rollup =
  hg_agent_id :: string
  hg_agent_name :: "string option"
  hg_hit_count :: i64
  hg_deny_count :: i64
  hg_worst_signal :: "string option"
  hg_latest_hit_ts :: string
  hg_latest_correlation_id :: "string option"
  hg_methods :: "string list"

definition enc_hunt_agent_rollup :: "hunt_agent_rollup \<Rightarrow> json" where
  "enc_hunt_agent_rollup x = JObject (
    [(''agent_id'', JString (hg_agent_id x)),
      (''agent_name'', enc_option JString (hg_agent_name x)),
      (''hit_count'', enc_i64 (hg_hit_count x)),
      (''deny_count'', enc_i64 (hg_deny_count x)),
      (''worst_signal'', enc_option JString (hg_worst_signal x)),
      (''latest_hit_ts'', JString (hg_latest_hit_ts x)),
      (''latest_correlation_id'', enc_option JString (hg_latest_correlation_id x)),
      (''methods'', enc_list JString (hg_methods x))])"

definition dec_hunt_agent_rollup :: "hunt_agent_rollup dec" where
  "dec_hunt_agent_rollup j = do {
     f \<leftarrow> struct_fields False
       [''agent_id'', ''agent_name'', ''hit_count'', ''deny_count'', ''worst_signal'',
        ''latest_hit_ts'', ''latest_correlation_id'', ''methods''] j;
     v1 \<leftarrow> need f ''agent_id'' dec_string;
     v2 \<leftarrow> dflt f ''agent_name'' None (dec_option dec_string);
     v3 \<leftarrow> need f ''hit_count'' dec_i64;
     v4 \<leftarrow> need f ''deny_count'' dec_i64;
     v5 \<leftarrow> dflt f ''worst_signal'' None (dec_option dec_string);
     v6 \<leftarrow> need f ''latest_hit_ts'' dec_string;
     v7 \<leftarrow> dflt f ''latest_correlation_id'' None (dec_option dec_string);
     v8 \<leftarrow> dflt f ''methods'' [] (dec_list dec_string);
     Some \<lparr>hg_agent_id = v1,
       hg_agent_name = v2,
       hg_hit_count = v3,
       hg_deny_count = v4,
       hg_worst_signal = v5,
       hg_latest_hit_ts = v6,
       hg_latest_correlation_id = v7,
       hg_methods = v8\<rparr> }"

interpretation hunt_agent_rollup_codec: codec enc_hunt_agent_rollup dec_hunt_agent_rollup "\<lambda>_. True"
  by unfold_locales
    (auto simp: enc_hunt_agent_rollup_def dec_hunt_agent_rollup_def record_simps split: option.split)

record hunt_result =
  hu_agents :: "hunt_agent_rollup list"
  hu_returned :: i64
  hu_from :: "string option"
  hu_to :: "string option"

definition enc_hunt_result :: "hunt_result \<Rightarrow> json" where
  "enc_hunt_result x = JObject (
    [(''agents'', enc_list enc_hunt_agent_rollup (hu_agents x)),
      (''returned'', enc_i64 (hu_returned x)),
      (''from'', enc_option JString (hu_from x)),
      (''to'', enc_option JString (hu_to x))])"

definition dec_hunt_result :: "hunt_result dec" where
  "dec_hunt_result j = do {
     f \<leftarrow> struct_fields False
       [''agents'', ''returned'', ''from'', ''to''] j;
     v1 \<leftarrow> need f ''agents'' (dec_list dec_hunt_agent_rollup);
     v2 \<leftarrow> need f ''returned'' dec_i64;
     v3 \<leftarrow> dflt f ''from'' None (dec_option dec_string);
     v4 \<leftarrow> dflt f ''to'' None (dec_option dec_string);
     Some \<lparr>hu_agents = v1,
       hu_returned = v2,
       hu_from = v3,
       hu_to = v4\<rparr> }"

interpretation hunt_result_codec: codec enc_hunt_result dec_hunt_result "\<lambda>_. True"
  by unfold_locales
    (auto simp: enc_hunt_result_def dec_hunt_result_def record_simps hunt_agent_rollup_codec.read_back hunt_agent_rollup_codec.read_back_list hunt_agent_rollup_codec.read_back_option split: option.split)

record spend_agent_row =
  sr_agent_id :: string
  sr_agent_name :: "string option"
  sr_spend_micros :: i64
  sr_request_count :: i64
  sr_priced_count :: i64
  sr_latest_ts :: "string option"

definition enc_spend_agent_row :: "spend_agent_row \<Rightarrow> json" where
  "enc_spend_agent_row x = JObject (
    [(''agent_id'', JString (sr_agent_id x)),
      (''agent_name'', enc_option JString (sr_agent_name x)),
      (''spend_micros'', enc_i64 (sr_spend_micros x)),
      (''request_count'', enc_i64 (sr_request_count x)),
      (''priced_count'', enc_i64 (sr_priced_count x)),
      (''latest_ts'', enc_option JString (sr_latest_ts x))])"

definition dec_spend_agent_row :: "spend_agent_row dec" where
  "dec_spend_agent_row j = do {
     f \<leftarrow> struct_fields False
       [''agent_id'', ''agent_name'', ''spend_micros'', ''request_count'', ''priced_count'',
        ''latest_ts''] j;
     v1 \<leftarrow> need f ''agent_id'' dec_string;
     v2 \<leftarrow> dflt f ''agent_name'' None (dec_option dec_string);
     v3 \<leftarrow> need f ''spend_micros'' dec_i64;
     v4 \<leftarrow> need f ''request_count'' dec_i64;
     v5 \<leftarrow> need f ''priced_count'' dec_i64;
     v6 \<leftarrow> dflt f ''latest_ts'' None (dec_option dec_string);
     Some \<lparr>sr_agent_id = v1,
       sr_agent_name = v2,
       sr_spend_micros = v3,
       sr_request_count = v4,
       sr_priced_count = v5,
       sr_latest_ts = v6\<rparr> }"

interpretation spend_agent_row_codec: codec enc_spend_agent_row dec_spend_agent_row "\<lambda>_. True"
  by unfold_locales
    (auto simp: enc_spend_agent_row_def dec_spend_agent_row_def record_simps split: option.split)

record spend_rollup =
  so_window :: "string option"
  so_agents :: "spend_agent_row list"
  so_total_spend_micros :: i64
  so_total_requests :: i64
  so_total_priced :: i64
  so_returned :: i64

definition enc_spend_rollup :: "spend_rollup \<Rightarrow> json" where
  "enc_spend_rollup x = JObject (
    [(''window'', enc_option JString (so_window x)),
      (''agents'', enc_list enc_spend_agent_row (so_agents x)),
      (''total_spend_micros'', enc_i64 (so_total_spend_micros x)),
      (''total_requests'', enc_i64 (so_total_requests x)),
      (''total_priced'', enc_i64 (so_total_priced x)),
      (''returned'', enc_i64 (so_returned x))])"

definition dec_spend_rollup :: "spend_rollup dec" where
  "dec_spend_rollup j = do {
     f \<leftarrow> struct_fields False
       [''window'', ''agents'', ''total_spend_micros'', ''total_requests'',
        ''total_priced'', ''returned''] j;
     v1 \<leftarrow> dflt f ''window'' None (dec_option dec_string);
     v2 \<leftarrow> need f ''agents'' (dec_list dec_spend_agent_row);
     v3 \<leftarrow> need f ''total_spend_micros'' dec_i64;
     v4 \<leftarrow> need f ''total_requests'' dec_i64;
     v5 \<leftarrow> need f ''total_priced'' dec_i64;
     v6 \<leftarrow> need f ''returned'' dec_i64;
     Some \<lparr>so_window = v1,
       so_agents = v2,
       so_total_spend_micros = v3,
       so_total_requests = v4,
       so_total_priced = v5,
       so_returned = v6\<rparr> }"

interpretation spend_rollup_codec: codec enc_spend_rollup dec_spend_rollup "\<lambda>_. True"
  by unfold_locales
    (auto simp: enc_spend_rollup_def dec_spend_rollup_def record_simps spend_agent_row_codec.read_back spend_agent_row_codec.read_back_list spend_agent_row_codec.read_back_option split: option.split)

section \<open>Active-agent metering\<close>

record active_agent_meter_row =
  am_agent_key :: string
  am_qualified_events :: usize
  am_late_events :: usize
  am_first_qualified_at :: string
  am_last_qualified_at :: string
  am_source_commitment :: string

definition enc_active_agent_meter_row :: "active_agent_meter_row \<Rightarrow> json" where
  "enc_active_agent_meter_row x = JObject (
    [(''agent_key'', JString (am_agent_key x)),
      (''qualified_events'', enc_u64 (am_qualified_events x)),
      (''late_events'', enc_u64 (am_late_events x)),
      (''first_qualified_at'', JString (am_first_qualified_at x)),
      (''last_qualified_at'', JString (am_last_qualified_at x)),
      (''source_commitment'', JString (am_source_commitment x))])"

definition dec_active_agent_meter_row :: "active_agent_meter_row dec" where
  "dec_active_agent_meter_row j = do {
     f \<leftarrow> struct_fields False
       [''agent_key'', ''qualified_events'', ''late_events'', ''first_qualified_at'',
        ''last_qualified_at'', ''source_commitment''] j;
     v1 \<leftarrow> need f ''agent_key'' dec_string;
     v2 \<leftarrow> need f ''qualified_events'' dec_u64;
     v3 \<leftarrow> need f ''late_events'' dec_u64;
     v4 \<leftarrow> need f ''first_qualified_at'' dec_string;
     v5 \<leftarrow> need f ''last_qualified_at'' dec_string;
     v6 \<leftarrow> need f ''source_commitment'' dec_string;
     Some \<lparr>am_agent_key = v1,
       am_qualified_events = v2,
       am_late_events = v3,
       am_first_qualified_at = v4,
       am_last_qualified_at = v5,
       am_source_commitment = v6\<rparr> }"

interpretation active_agent_meter_row_codec: codec enc_active_agent_meter_row dec_active_agent_meter_row "\<lambda>_. True"
  by unfold_locales
    (auto simp: enc_active_agent_meter_row_def dec_active_agent_meter_row_def record_simps split: option.split)

datatype active_agent_adjustment_kind =
    Credit | Correction

fun enc_active_agent_adjustment_kind :: "active_agent_adjustment_kind \<Rightarrow> json" where
  "enc_active_agent_adjustment_kind Credit = JString ''credit''"
| "enc_active_agent_adjustment_kind Correction = JString ''correction''"

definition dec_active_agent_adjustment_kind :: "active_agent_adjustment_kind dec" where
  "dec_active_agent_adjustment_kind = dec_enum [(''credit'', Credit),
     (''correction'', Correction)]"

lemma dec_enc_active_agent_adjustment_kind [simp]: "dec_active_agent_adjustment_kind (enc_active_agent_adjustment_kind x) = Some x"
  by (cases x) (simp_all add: dec_active_agent_adjustment_kind_def dec_enum_def)

lemma dec_option_active_agent_adjustment_kind [simp]: "dec_option dec_active_agent_adjustment_kind (enc_active_agent_adjustment_kind x) = Some (Some x)"
  by (cases x) (simp_all add: dec_option_def dec_active_agent_adjustment_kind_def dec_enum_def)

lemma enc_active_agent_adjustment_kind_scalar [simp]: "enc_active_agent_adjustment_kind x \<noteq> JNull"
  by (cases x) simp_all

record active_agent_applied_adjustment =
  aa_idempotency_key :: uuid
  aa_kind :: active_agent_adjustment_kind
  aa_units_delta :: i64
  aa_agent_key :: "string option"
  aa_reason :: string
  aa_recorded_at :: string
  aa_source_entry_id :: uuid
  aa_source_entry_hash :: string

definition enc_active_agent_applied_adjustment :: "libs \<Rightarrow> active_agent_applied_adjustment \<Rightarrow> json" where
  "enc_active_agent_applied_adjustment L x = JObject (
    [(''idempotency_key'', enc_uuid L (aa_idempotency_key x)),
      (''kind'', enc_active_agent_adjustment_kind (aa_kind x)),
      (''units_delta'', enc_i64 (aa_units_delta x)),
      (''agent_key'', enc_option JString (aa_agent_key x)),
      (''reason'', JString (aa_reason x)),
      (''recorded_at'', JString (aa_recorded_at x)),
      (''source_entry_id'', enc_uuid L (aa_source_entry_id x)),
      (''source_entry_hash'', JString (aa_source_entry_hash x))])"

definition dec_active_agent_applied_adjustment :: "libs \<Rightarrow> active_agent_applied_adjustment dec" where
  "dec_active_agent_applied_adjustment L j = do {
     f \<leftarrow> struct_fields False
       [''idempotency_key'', ''kind'', ''units_delta'', ''agent_key'', ''reason'',
        ''recorded_at'', ''source_entry_id'', ''source_entry_hash''] j;
     v1 \<leftarrow> need f ''idempotency_key'' (dec_uuid L);
     v2 \<leftarrow> need f ''kind'' dec_active_agent_adjustment_kind;
     v3 \<leftarrow> need f ''units_delta'' dec_i64;
     v4 \<leftarrow> dflt f ''agent_key'' None (dec_option dec_string);
     v5 \<leftarrow> need f ''reason'' dec_string;
     v6 \<leftarrow> need f ''recorded_at'' dec_string;
     v7 \<leftarrow> need f ''source_entry_id'' (dec_uuid L);
     v8 \<leftarrow> need f ''source_entry_hash'' dec_string;
     Some \<lparr>aa_idempotency_key = v1,
       aa_kind = v2,
       aa_units_delta = v3,
       aa_agent_key = v4,
       aa_reason = v5,
       aa_recorded_at = v6,
       aa_source_entry_id = v7,
       aa_source_entry_hash = v8\<rparr> }"

definition ok_active_agent_applied_adjustment :: "libs \<Rightarrow> active_agent_applied_adjustment \<Rightarrow> bool" where
  "ok_active_agent_applied_adjustment L x \<longleftrightarrow> uuid_laws L"

interpretation active_agent_applied_adjustment_codec: codec "enc_active_agent_applied_adjustment L" "dec_active_agent_applied_adjustment L" "ok_active_agent_applied_adjustment L"
  by unfold_locales
    (auto simp: enc_active_agent_applied_adjustment_def dec_active_agent_applied_adjustment_def ok_active_agent_applied_adjustment_def record_simps split: option.split)

record active_agent_meter_window =
  aw_kind :: string
  aw_days :: i64
  aw_from :: string
  aw_to :: string

definition enc_active_agent_meter_window :: "active_agent_meter_window \<Rightarrow> json" where
  "enc_active_agent_meter_window x = JObject (
    [(''kind'', JString (aw_kind x)),
      (''days'', enc_i64 (aw_days x)),
      (''from'', JString (aw_from x)),
      (''to'', JString (aw_to x))])"

definition dec_active_agent_meter_window :: "active_agent_meter_window dec" where
  "dec_active_agent_meter_window j = do {
     f \<leftarrow> struct_fields False
       [''kind'', ''days'', ''from'', ''to''] j;
     v1 \<leftarrow> need f ''kind'' dec_string;
     v2 \<leftarrow> need f ''days'' dec_i64;
     v3 \<leftarrow> need f ''from'' dec_string;
     v4 \<leftarrow> need f ''to'' dec_string;
     Some \<lparr>aw_kind = v1,
       aw_days = v2,
       aw_from = v3,
       aw_to = v4\<rparr> }"

interpretation active_agent_meter_window_codec: codec enc_active_agent_meter_window dec_active_agent_meter_window "\<lambda>_. True"
  by unfold_locales
    (auto simp: enc_active_agent_meter_window_def dec_active_agent_meter_window_def record_simps split: option.split)

record active_agent_finalization =
  af_late_event_grace_hours :: i64
  af_final_at :: string
  af_status :: string

definition enc_active_agent_finalization :: "active_agent_finalization \<Rightarrow> json" where
  "enc_active_agent_finalization x = JObject (
    [(''late_event_grace_hours'', enc_i64 (af_late_event_grace_hours x)),
      (''final_at'', JString (af_final_at x)),
      (''status'', JString (af_status x))])"

definition dec_active_agent_finalization :: "active_agent_finalization dec" where
  "dec_active_agent_finalization j = do {
     f \<leftarrow> struct_fields False
       [''late_event_grace_hours'', ''final_at'', ''status''] j;
     v1 \<leftarrow> need f ''late_event_grace_hours'' dec_i64;
     v2 \<leftarrow> need f ''final_at'' dec_string;
     v3 \<leftarrow> need f ''status'' dec_string;
     Some \<lparr>af_late_event_grace_hours = v1,
       af_final_at = v2,
       af_status = v3\<rparr> }"

interpretation active_agent_finalization_codec: codec enc_active_agent_finalization dec_active_agent_finalization "\<lambda>_. True"
  by unfold_locales
    (auto simp: enc_active_agent_finalization_def dec_active_agent_finalization_def record_simps split: option.split)

record active_agent_meter_source =
  as_qualification :: string
  as_deduplication :: string
  as_qualified_event_count :: usize
  as_late_event_count :: usize
  as_event_commitment :: string
  as_adjustment_commitment :: string
  as_chain_length :: i64
  as_chain_head :: "string option"

definition enc_active_agent_meter_source :: "active_agent_meter_source \<Rightarrow> json" where
  "enc_active_agent_meter_source x = JObject (
    [(''qualification'', JString (as_qualification x)),
      (''deduplication'', JString (as_deduplication x)),
      (''qualified_event_count'', enc_u64 (as_qualified_event_count x)),
      (''late_event_count'', enc_u64 (as_late_event_count x)),
      (''event_commitment'', JString (as_event_commitment x)),
      (''adjustment_commitment'', JString (as_adjustment_commitment x)),
      (''chain_length'', enc_i64 (as_chain_length x)),
      (''chain_head'', enc_option JString (as_chain_head x))])"

definition dec_active_agent_meter_source :: "active_agent_meter_source dec" where
  "dec_active_agent_meter_source j = do {
     f \<leftarrow> struct_fields False
       [''qualification'', ''deduplication'', ''qualified_event_count'',
        ''late_event_count'', ''event_commitment'', ''adjustment_commitment'',
        ''chain_length'', ''chain_head''] j;
     v1 \<leftarrow> need f ''qualification'' dec_string;
     v2 \<leftarrow> need f ''deduplication'' dec_string;
     v3 \<leftarrow> need f ''qualified_event_count'' dec_u64;
     v4 \<leftarrow> need f ''late_event_count'' dec_u64;
     v5 \<leftarrow> need f ''event_commitment'' dec_string;
     v6 \<leftarrow> need f ''adjustment_commitment'' dec_string;
     v7 \<leftarrow> need f ''chain_length'' dec_i64;
     v8 \<leftarrow> dflt f ''chain_head'' None (dec_option dec_string);
     Some \<lparr>as_qualification = v1,
       as_deduplication = v2,
       as_qualified_event_count = v3,
       as_late_event_count = v4,
       as_event_commitment = v5,
       as_adjustment_commitment = v6,
       as_chain_length = v7,
       as_chain_head = v8\<rparr> }"

interpretation active_agent_meter_source_codec: codec enc_active_agent_meter_source dec_active_agent_meter_source "\<lambda>_. True"
  by unfold_locales
    (auto simp: enc_active_agent_meter_source_def dec_active_agent_meter_source_def record_simps split: option.split)

record active_agent_invoice_t =
  ai_contract :: string
  ai_meter_version :: string
  ai_tenant :: string
  ai_window :: active_agent_meter_window
  ai_observed_through :: string
  ai_finalization :: active_agent_finalization
  ai_agents :: "active_agent_meter_row list"
  ai_base_active_agents :: usize
  ai_adjustments :: "active_agent_applied_adjustment list"
  ai_net_active_agents :: i64
  ai_source :: active_agent_meter_source
  ai_invoice_sha256 :: string

definition enc_active_agent_invoice_t :: "libs \<Rightarrow> active_agent_invoice_t \<Rightarrow> json" where
  "enc_active_agent_invoice_t L x = JObject (
    [(''contract'', JString (ai_contract x)),
      (''meter_version'', JString (ai_meter_version x)),
      (''tenant'', JString (ai_tenant x)),
      (''window'', enc_active_agent_meter_window (ai_window x)),
      (''observed_through'', JString (ai_observed_through x)),
      (''finalization'', enc_active_agent_finalization (ai_finalization x)),
      (''agents'', enc_list enc_active_agent_meter_row (ai_agents x)),
      (''base_active_agents'', enc_u64 (ai_base_active_agents x)),
      (''adjustments'', enc_list (enc_active_agent_applied_adjustment L) (ai_adjustments x)),
      (''net_active_agents'', enc_i64 (ai_net_active_agents x)),
      (''source'', enc_active_agent_meter_source (ai_source x)),
      (''invoice_sha256'', JString (ai_invoice_sha256 x))])"

definition dec_active_agent_invoice_t :: "libs \<Rightarrow> active_agent_invoice_t dec" where
  "dec_active_agent_invoice_t L j = do {
     f \<leftarrow> struct_fields False
       [''contract'', ''meter_version'', ''tenant'', ''window'', ''observed_through'',
        ''finalization'', ''agents'', ''base_active_agents'', ''adjustments'',
        ''net_active_agents'', ''source'', ''invoice_sha256''] j;
     v1 \<leftarrow> need f ''contract'' dec_string;
     v2 \<leftarrow> need f ''meter_version'' dec_string;
     v3 \<leftarrow> need f ''tenant'' dec_string;
     v4 \<leftarrow> need f ''window'' dec_active_agent_meter_window;
     v5 \<leftarrow> need f ''observed_through'' dec_string;
     v6 \<leftarrow> need f ''finalization'' dec_active_agent_finalization;
     v7 \<leftarrow> need f ''agents'' (dec_list dec_active_agent_meter_row);
     v8 \<leftarrow> need f ''base_active_agents'' dec_u64;
     v9 \<leftarrow> need f ''adjustments'' (dec_list (dec_active_agent_applied_adjustment L));
     v10 \<leftarrow> need f ''net_active_agents'' dec_i64;
     v11 \<leftarrow> need f ''source'' dec_active_agent_meter_source;
     v12 \<leftarrow> need f ''invoice_sha256'' dec_string;
     Some \<lparr>ai_contract = v1,
       ai_meter_version = v2,
       ai_tenant = v3,
       ai_window = v4,
       ai_observed_through = v5,
       ai_finalization = v6,
       ai_agents = v7,
       ai_base_active_agents = v8,
       ai_adjustments = v9,
       ai_net_active_agents = v10,
       ai_source = v11,
       ai_invoice_sha256 = v12\<rparr> }"

definition ok_active_agent_invoice_t :: "libs \<Rightarrow> active_agent_invoice_t \<Rightarrow> bool" where
  "ok_active_agent_invoice_t L x \<longleftrightarrow> list_all (ok_active_agent_applied_adjustment L) (ai_adjustments x)"

interpretation active_agent_invoice_t_codec: codec "enc_active_agent_invoice_t L" "dec_active_agent_invoice_t L" "ok_active_agent_invoice_t L"
  by unfold_locales
    (auto simp: enc_active_agent_invoice_t_def dec_active_agent_invoice_t_def ok_active_agent_invoice_t_def record_simps active_agent_applied_adjustment_codec.read_back active_agent_applied_adjustment_codec.read_back_list active_agent_applied_adjustment_codec.read_back_option active_agent_finalization_codec.read_back active_agent_finalization_codec.read_back_list active_agent_finalization_codec.read_back_option active_agent_meter_row_codec.read_back active_agent_meter_row_codec.read_back_list active_agent_meter_row_codec.read_back_option active_agent_meter_source_codec.read_back active_agent_meter_source_codec.read_back_list active_agent_meter_source_codec.read_back_option active_agent_meter_window_codec.read_back active_agent_meter_window_codec.read_back_list active_agent_meter_window_codec.read_back_option split: option.split)

record active_agent_adjustment =
  aj_contract :: string
  aj_meter_version :: string
  aj_tenant :: string
  aj_target_as_of :: string
  aj_idempotency_key :: uuid
  aj_kind :: active_agent_adjustment_kind
  aj_units_delta :: i64
  aj_agent_key :: "string option"
  aj_reason :: string

definition enc_active_agent_adjustment :: "libs \<Rightarrow> active_agent_adjustment \<Rightarrow> json" where
  "enc_active_agent_adjustment L x = JObject (
    [(''contract'', JString (aj_contract x)),
      (''meter_version'', JString (aj_meter_version x)),
      (''tenant'', JString (aj_tenant x)),
      (''target_as_of'', JString (aj_target_as_of x)),
      (''idempotency_key'', enc_uuid L (aj_idempotency_key x)),
      (''kind'', enc_active_agent_adjustment_kind (aj_kind x)),
      (''units_delta'', enc_i64 (aj_units_delta x)),
      (''agent_key'', enc_option JString (aj_agent_key x)),
      (''reason'', JString (aj_reason x))])"

definition new_adjustment ::
  "string \<Rightarrow> string \<Rightarrow> uuid \<Rightarrow> active_agent_adjustment_kind \<Rightarrow> i64 \<Rightarrow> string \<Rightarrow> active_agent_adjustment" where
  "new_adjustment tenant target_as_of idempotency_key kind units_delta reason =
     \<lparr>aj_contract = ''clavenar.active-agent-adjustment/v1'', aj_meter_version = ''1.0.0'',
       aj_tenant = tenant, aj_target_as_of = target_as_of, aj_idempotency_key = idempotency_key,
       aj_kind = kind, aj_units_delta = units_delta, aj_agent_key = None, aj_reason = reason\<rparr>"

definition for_agent :: "string \<Rightarrow> active_agent_adjustment \<Rightarrow> active_agent_adjustment" where
  "for_agent agent_key a = a\<lparr>aj_agent_key := Some agent_key\<rparr>"

record active_agent_adjustment_receipt =
  ar_retained :: bool
  ar_adjustment_sha256 :: string
  ar_entry_id :: uuid
  ar_entry_seq :: i64
  ar_entry_hash :: string

definition enc_active_agent_adjustment_receipt :: "libs \<Rightarrow> active_agent_adjustment_receipt \<Rightarrow> json" where
  "enc_active_agent_adjustment_receipt L x = JObject (
    [(''retained'', JBool (ar_retained x)),
      (''adjustment_sha256'', JString (ar_adjustment_sha256 x)),
      (''entry_id'', enc_uuid L (ar_entry_id x)),
      (''entry_seq'', enc_i64 (ar_entry_seq x)),
      (''entry_hash'', JString (ar_entry_hash x))])"

definition dec_active_agent_adjustment_receipt :: "libs \<Rightarrow> active_agent_adjustment_receipt dec" where
  "dec_active_agent_adjustment_receipt L j = do {
     f \<leftarrow> struct_fields False
       [''retained'', ''adjustment_sha256'', ''entry_id'', ''entry_seq'', ''entry_hash''] j;
     v1 \<leftarrow> need f ''retained'' dec_bool;
     v2 \<leftarrow> need f ''adjustment_sha256'' dec_string;
     v3 \<leftarrow> need f ''entry_id'' (dec_uuid L);
     v4 \<leftarrow> need f ''entry_seq'' dec_i64;
     v5 \<leftarrow> need f ''entry_hash'' dec_string;
     Some \<lparr>ar_retained = v1,
       ar_adjustment_sha256 = v2,
       ar_entry_id = v3,
       ar_entry_seq = v4,
       ar_entry_hash = v5\<rparr> }"

definition ok_active_agent_adjustment_receipt :: "libs \<Rightarrow> active_agent_adjustment_receipt \<Rightarrow> bool" where
  "ok_active_agent_adjustment_receipt L x \<longleftrightarrow> uuid_laws L"

interpretation active_agent_adjustment_receipt_codec: codec "enc_active_agent_adjustment_receipt L" "dec_active_agent_adjustment_receipt L" "ok_active_agent_adjustment_receipt L"
  by unfold_locales
    (auto simp: enc_active_agent_adjustment_receipt_def dec_active_agent_adjustment_receipt_def ok_active_agent_adjustment_receipt_def record_simps split: option.split)

section \<open>Cases\<close>

record case_timeline_event =
  ct_at :: string
  ct_kind :: string
  ct_actor :: string
  ct_detail :: string

definition enc_case_timeline_event :: "case_timeline_event \<Rightarrow> json" where
  "enc_case_timeline_event x = JObject (
    [(''at'', JString (ct_at x)),
      (''kind'', JString (ct_kind x)),
      (''actor'', JString (ct_actor x)),
      (''detail'', JString (ct_detail x))])"

definition dec_case_timeline_event :: "case_timeline_event dec" where
  "dec_case_timeline_event j = do {
     f \<leftarrow> struct_fields False
       [''at'', ''kind'', ''actor'', ''detail''] j;
     v1 \<leftarrow> need f ''at'' dec_string;
     v2 \<leftarrow> need f ''kind'' dec_string;
     v3 \<leftarrow> need f ''actor'' dec_string;
     v4 \<leftarrow> need f ''detail'' dec_string;
     Some \<lparr>ct_at = v1,
       ct_kind = v2,
       ct_actor = v3,
       ct_detail = v4\<rparr> }"

interpretation case_timeline_event_codec: codec enc_case_timeline_event dec_case_timeline_event "\<lambda>_. True"
  by unfold_locales
    (auto simp: enc_case_timeline_event_def dec_case_timeline_event_def record_simps split: option.split)

record case_record =
  ca_id :: string
  ca_title :: string
  ca_status :: string
  ca_created_at :: string
  ca_updated_at :: string
  ca_agent_ids :: "string list"
  ca_correlation_ids :: "string list"
  ca_timeline :: "case_timeline_event list"
  ca_severity :: "string option"
  ca_regulatory_deadline :: "string option"

definition enc_case_record :: "case_record \<Rightarrow> json" where
  "enc_case_record x = JObject (
    [(''id'', JString (ca_id x)),
      (''title'', JString (ca_title x)),
      (''status'', JString (ca_status x)),
      (''created_at'', JString (ca_created_at x)),
      (''updated_at'', JString (ca_updated_at x)),
      (''agent_ids'', enc_list JString (ca_agent_ids x)),
      (''correlation_ids'', enc_list JString (ca_correlation_ids x)),
      (''timeline'', enc_list enc_case_timeline_event (ca_timeline x)),
      (''severity'', enc_option JString (ca_severity x)),
      (''regulatory_deadline'', enc_option JString (ca_regulatory_deadline x))])"

definition dec_case_record :: "case_record dec" where
  "dec_case_record j = do {
     f \<leftarrow> struct_fields False
       [''id'', ''title'', ''status'', ''created_at'', ''updated_at'', ''agent_ids'',
        ''correlation_ids'', ''timeline'', ''severity'', ''regulatory_deadline''] j;
     v1 \<leftarrow> need f ''id'' dec_string;
     v2 \<leftarrow> need f ''title'' dec_string;
     v3 \<leftarrow> need f ''status'' dec_string;
     v4 \<leftarrow> need f ''created_at'' dec_string;
     v5 \<leftarrow> need f ''updated_at'' dec_string;
     v6 \<leftarrow> dflt f ''agent_ids'' [] (dec_list dec_string);
     v7 \<leftarrow> dflt f ''correlation_ids'' [] (dec_list dec_string);
     v8 \<leftarrow> dflt f ''timeline'' [] (dec_list dec_case_timeline_event);
     v9 \<leftarrow> dflt f ''severity'' None (dec_option dec_string);
     v10 \<leftarrow> dflt f ''regulatory_deadline'' None (dec_option dec_string);
     Some \<lparr>ca_id = v1,
       ca_title = v2,
       ca_status = v3,
       ca_created_at = v4,
       ca_updated_at = v5,
       ca_agent_ids = v6,
       ca_correlation_ids = v7,
       ca_timeline = v8,
       ca_severity = v9,
       ca_regulatory_deadline = v10\<rparr> }"

interpretation case_record_codec: codec enc_case_record dec_case_record "\<lambda>_. True"
  by unfold_locales
    (auto simp: enc_case_record_def dec_case_record_def record_simps case_timeline_event_codec.read_back case_timeline_event_codec.read_back_list case_timeline_event_codec.read_back_option split: option.split)

record case_detail =
  cx_case :: case_record
  cx_evidence :: "ledger_entry list"

definition dec_case_detail :: "libs \<Rightarrow> case_detail dec" where
  "dec_case_detail L j = do {
     f \<leftarrow> struct_fields False
       [''case'', ''evidence''] j;
     v1 \<leftarrow> need f ''case'' dec_case_record;
     v2 \<leftarrow> dflt f ''evidence'' [] (dec_list (dec_ledger_entry L));
     Some \<lparr>cx_case = v1,
       cx_evidence = v2\<rparr> }"

end
