(* ===== verification/Ledger.thy ===== *)
theory Ledger
  imports Wire_Analysis
begin

text \<open>
  \<open>LedgerClient\<close> (ledger.rs): audit reads, analyses, metering, exports, compliance, cases and the
  tenant lifecycle. Query strings are built by hand: every text value is percent-encoded into
  the path before it is joined onto the base URL. Outside the expected status every call
  answers \<open>Server\<close> with the body verbatim, and the client has no credential of its own.
\<close>

section \<open>Parameters\<close>

record replay_corpus_params =
  rc_since :: datetime
  rc_until :: "datetime option"
  rc_agent_id :: "string option"
  rc_tool_type :: "string option"
  rc_tenant_prefix :: "string option"
  rc_limit :: i64

record regulatory_export_options =
  ro_tenant :: "string option"
  ro_readme :: "string option"
  ro_include_exports :: bool
  ro_include_compliance :: bool

record compliance_evidence_scope =
  co_demo_session_token :: "string option"
  co_tenant :: "string option"

record fleet_behavioral_diff_scope =
  fs_demo_session_token :: "string option"
  fs_tenant :: "string option"

record model_upgrade_canary_scope =
  ms_demo_session_token :: "string option"
  ms_tenant :: "string option"

record hunt_params =
  hn_method :: "string option"
  hn_signal :: "string option"
  hn_authorized :: "bool option"
  hn_from :: "datetime option"
  hn_to :: "datetime option"
  hn_limit :: i64
  hn_demo_session_token :: "string option"
  hn_tenant :: "string option"

record audit_filter_params =
  fl_seq_from :: "i64 option"
  fl_seq_to :: "i64 option"
  fl_from :: "datetime option"
  fl_to :: "datetime option"
  fl_methods :: "string list"
  fl_original_method :: "string option"
  fl_reason :: "string option"
  fl_verdict :: "string option"
  fl_brain_delta :: "string option"

text \<open>The pieces of a query string, as \<open>format!\<close> and \<open>push_str\<close> write them.\<close>

definition query_start :: "string \<Rightarrow> string \<Rightarrow> string" where
  "query_start k v = CHR ''?'' # k @ CHR ''='' # v"

definition amp :: "string \<Rightarrow> string \<Rightarrow> string" where
  "amp k v = CHR ''&'' # k @ CHR ''='' # v"

definition amp_opt :: "string \<Rightarrow> ('a \<Rightarrow> string) \<Rightarrow> 'a option \<Rightarrow> string" where
  "amp_opt k f x = (case x of None \<Rightarrow> [] | Some v \<Rightarrow> amp k (f v))"

definition show_bool :: "bool \<Rightarrow> string" where
  "show_bool b = (if b then ''true'' else ''false'')"

definition rfc3339_param :: "libs \<Rightarrow> datetime \<Rightarrow> string" where
  "rfc3339_param L t = percent_encode (to_rfc3339 L t)"

definition named_methods :: "string list \<Rightarrow> string list" where
  "named_methods methods = filter (\<lambda>m. trim m \<noteq> []) methods"

definition append_query :: "libs \<Rightarrow> audit_filter_params \<Rightarrow> string \<Rightarrow> string" where
  "append_query L f path = path
     @ amp_opt ''seq_from'' show_i64 (fl_seq_from f)
     @ amp_opt ''seq_to'' show_i64 (fl_seq_to f)
     @ amp_opt ''from'' (rfc3339_param L) (fl_from f)
     @ amp_opt ''to'' (rfc3339_param L) (fl_to f)
     @ (let methods = join_with '','' (map percent_encode (named_methods (fl_methods f)))
        in if fl_methods f = [] \<or> methods = [] then [] else amp ''methods'' methods)
     @ amp_opt ''original_method'' percent_encode (fl_original_method f)
     @ amp_opt ''reason'' percent_encode (fl_reason f)
     @ amp_opt ''verdict'' percent_encode (fl_verdict f)
     @ amp_opt ''brain_delta'' percent_encode (fl_brain_delta f)"

section \<open>The client\<close>

record 'p ledger_client =
  lc_base_url :: string
  lc_http :: 'p

definition ledger_new ::
  "libs \<Rightarrow> 'p option \<Rightarrow> transport_error + 'p \<Rightarrow> string \<Rightarrow> clavenar_error + 'p ledger_client" where
  "ledger_new L installed fresh base_url =
     bindR (parse_base_url L base_url) (\<lambda>url.
     bindR (default_provider installed fresh) (\<lambda>http.
     Inr \<lparr>lc_base_url = url, lc_http = http\<rparr>))"

definition ledger_with_http_provider :: "'p \<Rightarrow> 'p ledger_client \<Rightarrow> 'p ledger_client" where
  "ledger_with_http_provider p c = c\<lparr>lc_http := p\<rparr>"

text \<open>A read succeeds on 200 only; a write on any 2xx, an empty reply counting as \<open>null\<close>.\<close>

definition read_ok :: "libs \<Rightarrow> 'a dec \<Rightarrow> http_response \<Rightarrow> clavenar_error + 'a" where
  "read_ok L d resp = bindR (read_text_limited resp) (\<lambda>raw.
     if hs_status resp = 200 then from_str L d raw else Inl (Server (hs_status resp) raw))"

definition read_posted :: "libs \<Rightarrow> 'a dec \<Rightarrow> http_response \<Rightarrow> clavenar_error + 'a" where
  "read_posted L d resp = bindR (read_text_limited resp) (\<lambda>raw.
     if is_success (hs_status resp) then from_str L d (if trim raw = [] then ''null'' else raw)
     else Inl (Server (hs_status resp) raw))"

definition send_read :: "libs \<Rightarrow> 'a dec \<Rightarrow> http_request \<Rightarrow> (clavenar_error, 'a) prog" where
  "send_read L d q = bindP (sendP q) (\<lambda>resp. Return (read_ok L d resp))"

definition send_posted :: "libs \<Rightarrow> 'a dec \<Rightarrow> http_request \<Rightarrow> (clavenar_error, 'a) prog" where
  "send_posted L d q = bindP (sendP q) (\<lambda>resp. Return (read_posted L d resp))"

interpretation ledger_read: json_call "send_read L d" "read_ok L d"
  by unfold_locales (simp add: send_read_def runs_sendP_bind)

interpretation ledger_posted: json_call "send_posted L d" "read_posted L d"
  by unfold_locales (simp add: send_posted_def runs_sendP_bind)

definition ledger_join :: "libs \<Rightarrow> 'p ledger_client \<Rightarrow> string \<Rightarrow> clavenar_error + string" where
  "ledger_join L c path = join_endpoint L (lc_base_url c) path path"

definition ledger_get_json :: "libs \<Rightarrow> 'p ledger_client \<Rightarrow> 'a dec \<Rightarrow> string \<Rightarrow> (clavenar_error, 'a) prog" where
  "ledger_get_json L c d path = tryP (ledger_join L c path) (\<lambda>endpoint. send_read L d (request GET endpoint))"

definition ledger_post_json ::
  "libs \<Rightarrow> 'p ledger_client \<Rightarrow> 'a dec \<Rightarrow> string \<Rightarrow> json \<Rightarrow> (clavenar_error, 'a) prog" where
  "ledger_post_json L c d path body = tryP (ledger_join L c path) (\<lambda>endpoint.
     send_posted L d (json_body body (request POST endpoint)))"

section \<open>Audit reads\<close>

abbreviation entries :: "libs \<Rightarrow> ledger_entry list dec" where
  "entries L \<equiv> dec_list (dec_ledger_entry L)"

definition audit_correlation :: "libs \<Rightarrow> 'p ledger_client \<Rightarrow> string \<Rightarrow> (clavenar_error, ledger_entry list) prog" where
  "audit_correlation L c correlation_id =
     ledger_get_json L c (entries L) (''audit/correlation/'' @ percent_encode correlation_id)"

definition audit_agent :: "libs \<Rightarrow> 'p ledger_client \<Rightarrow> string \<Rightarrow> (clavenar_error, ledger_entry list) prog" where
  "audit_agent L c agent_id = ledger_get_json L c (entries L) (''audit/'' @ percent_encode agent_id)"

definition audit_agent_paged ::
  "libs \<Rightarrow> 'p ledger_client \<Rightarrow> string \<Rightarrow> usize \<Rightarrow> usize \<Rightarrow> (clavenar_error, ledger_entry list) prog" where
  "audit_agent_paged L c agent_id limit offset = ledger_get_json L c (entries L)
     (''audit/'' @ percent_encode agent_id @ query_start ''limit'' (show_u64 limit) @ amp ''offset'' (show_u64 offset))"

definition audit_agent_paged_before ::
  "libs \<Rightarrow> 'p ledger_client \<Rightarrow> string \<Rightarrow> usize \<Rightarrow> i64 \<Rightarrow> (clavenar_error, ledger_entry list) prog" where
  "audit_agent_paged_before L c agent_id limit before_seq = ledger_get_json L c (entries L)
     (''audit/'' @ percent_encode agent_id @ query_start ''limit'' (show_u64 limit) @ amp ''before'' (show_i64 before_seq))"

definition audit_agent_paged_after ::
  "libs \<Rightarrow> 'p ledger_client \<Rightarrow> string \<Rightarrow> usize \<Rightarrow> i64 \<Rightarrow> (clavenar_error, ledger_entry list) prog" where
  "audit_agent_paged_after L c agent_id limit after_seq = ledger_get_json L c (entries L)
     (''audit/'' @ percent_encode agent_id @ query_start ''limit'' (show_u64 limit) @ amp ''after'' (show_i64 after_seq))"

definition audit_agent_paged_since_for_tenant ::
  "libs \<Rightarrow> 'p ledger_client \<Rightarrow> string \<Rightarrow> usize \<Rightarrow> usize \<Rightarrow> datetime \<Rightarrow> string option
   \<Rightarrow> (clavenar_error, ledger_entry list) prog" where
  "audit_agent_paged_since_for_tenant L c agent_id limit offset since tenant = ledger_get_json L c (entries L)
     (''audit/'' @ percent_encode agent_id @ query_start ''limit'' (show_u64 limit) @ amp ''offset'' (show_u64 offset)
       @ amp ''since'' (rfc3339_param L since) @ amp_opt ''tenant'' percent_encode tenant)"

definition audit_agent_paged_since ::
  "libs \<Rightarrow> 'p ledger_client \<Rightarrow> string \<Rightarrow> usize \<Rightarrow> usize \<Rightarrow> datetime \<Rightarrow> (clavenar_error, ledger_entry list) prog" where
  "audit_agent_paged_since L c agent_id limit offset since =
     audit_agent_paged_since_for_tenant L c agent_id limit offset since None"

definition audit_agent_paged_filtered ::
  "libs \<Rightarrow> 'p ledger_client \<Rightarrow> string \<Rightarrow> usize \<Rightarrow> usize \<Rightarrow> audit_filter_params
   \<Rightarrow> (clavenar_error, ledger_entry list) prog" where
  "audit_agent_paged_filtered L c agent_id limit offset filter_params = ledger_get_json L c (entries L)
     (append_query L filter_params (''audit/'' @ percent_encode agent_id @ query_start ''limit'' (show_u64 limit)
       @ amp ''offset'' (show_u64 offset)))"

definition audit_agent_paged_before_filtered ::
  "libs \<Rightarrow> 'p ledger_client \<Rightarrow> string \<Rightarrow> usize \<Rightarrow> i64 \<Rightarrow> audit_filter_params
   \<Rightarrow> (clavenar_error, ledger_entry list) prog" where
  "audit_agent_paged_before_filtered L c agent_id limit before_seq filter_params = ledger_get_json L c (entries L)
     (append_query L filter_params (''audit/'' @ percent_encode agent_id @ query_start ''limit'' (show_u64 limit)
       @ amp ''before'' (show_i64 before_seq)))"

definition audit_agent_paged_after_filtered ::
  "libs \<Rightarrow> 'p ledger_client \<Rightarrow> string \<Rightarrow> usize \<Rightarrow> i64 \<Rightarrow> audit_filter_params
   \<Rightarrow> (clavenar_error, ledger_entry list) prog" where
  "audit_agent_paged_after_filtered L c agent_id limit after_seq filter_params = ledger_get_json L c (entries L)
     (append_query L filter_params (''audit/'' @ percent_encode agent_id @ query_start ''limit'' (show_u64 limit)
       @ amp ''after'' (show_i64 after_seq)))"

text \<open>The inline response structs are their one member; \<open>count.max(0) as usize\<close>.\<close>

definition dec_member :: "string \<Rightarrow> 'a dec \<Rightarrow> 'a dec" where
  "dec_member k d j = do { f \<leftarrow> struct_fields False [k] j; need f k d }"

definition count_of :: "i64 \<Rightarrow> usize" where
  "count_of n = (if sint n < 0 then 0 else n)"

definition audit_agent_count :: "libs \<Rightarrow> 'p ledger_client \<Rightarrow> string \<Rightarrow> (clavenar_error, usize) prog" where
  "audit_agent_count L c agent_id =
     bindP (ledger_get_json L c (dec_member ''count'' dec_i64) (''audit/'' @ percent_encode agent_id @ ''/count''))
       (\<lambda>n. okP (count_of n))"

definition audit_agent_count_filtered ::
  "libs \<Rightarrow> 'p ledger_client \<Rightarrow> string \<Rightarrow> audit_filter_params \<Rightarrow> (clavenar_error, usize) prog" where
  "audit_agent_count_filtered L c agent_id filter_params =
     bindP (ledger_get_json L c (dec_member ''count'' dec_i64)
         (append_query L filter_params (''audit/'' @ percent_encode agent_id @ ''/count?'')))
       (\<lambda>n. okP (count_of n))"

definition ledger_verify :: "libs \<Rightarrow> 'p ledger_client \<Rightarrow> (clavenar_error, verify_result) prog" where
  "ledger_verify L c = ledger_get_json L c dec_verify_result ''verify''"

definition list_agents :: "libs \<Rightarrow> 'p ledger_client \<Rightarrow> (clavenar_error, string list) prog" where
  "list_agents L c = ledger_get_json L c (dec_member ''agents'' (dec_list dec_string)) ''agents''"

definition lifecycle_for_agent ::
  "libs \<Rightarrow> 'p ledger_client \<Rightarrow> string \<Rightarrow> string \<Rightarrow> (clavenar_error, lifecycle_row list) prog" where
  "lifecycle_for_agent L c tenant agent_id = ledger_get_json L c (dec_list (dec_lifecycle_row L))
     (''audit/agent/'' @ percent_encode tenant @ ''/'' @ percent_encode agent_id @ ''/lifecycle'')"

definition dec_masked_params :: "json option dec" where
  "dec_masked_params j = do { f \<leftarrow> struct_fields False [''masked_params''] j; opt f ''masked_params'' dec_value }"

definition masked_params_for_entry :: "libs \<Rightarrow> 'p ledger_client \<Rightarrow> string \<Rightarrow> (clavenar_error, json option) prog" where
  "masked_params_for_entry L c entry_id = ledger_get_json L c dec_masked_params
     (''audit/entry/'' @ percent_encode entry_id @ ''/masked-params'')"

definition audit_replay_corpus ::
  "libs \<Rightarrow> 'p ledger_client \<Rightarrow> replay_corpus_params \<Rightarrow> (clavenar_error, replay_corpus) prog" where
  "audit_replay_corpus L c p = ledger_get_json L c (dec_replay_corpus L)
     (''audit/replay/corpus'' @ query_start ''since'' (rfc3339_param L (rc_since p)) @ amp ''limit'' (show_i64 (rc_limit p))
       @ amp_opt ''until'' (rfc3339_param L) (rc_until p)
       @ amp_opt ''agent_id'' percent_encode (rc_agent_id p)
       @ amp_opt ''tool_type'' percent_encode (rc_tool_type p)
       @ amp_opt ''tenant_prefix'' percent_encode (rc_tenant_prefix p))"

section \<open>Analyses\<close>

definition envelope_analysis_for_tenant ::
  "libs \<Rightarrow> 'p ledger_client \<Rightarrow> string \<Rightarrow> u32 \<Rightarrow> string option \<Rightarrow> (clavenar_error, envelope_analysis_t) prog" where
  "envelope_analysis_for_tenant L c agent_id window_days tenant = ledger_get_json L c dec_envelope_analysis_t
     (''analysis/agent-envelope-recommendations'' @ query_start ''agent_id'' (percent_encode agent_id)
       @ amp ''window_days'' (show_u32 window_days) @ amp_opt ''tenant'' percent_encode tenant)"

definition envelope_analysis ::
  "libs \<Rightarrow> 'p ledger_client \<Rightarrow> string \<Rightarrow> u32 \<Rightarrow> (clavenar_error, envelope_analysis_t) prog" where
  "envelope_analysis L c agent_id window_days = envelope_analysis_for_tenant L c agent_id window_days None"

definition behavioral_baseline_for_tenant ::
  "libs \<Rightarrow> 'p ledger_client \<Rightarrow> string \<Rightarrow> u32 \<Rightarrow> u32 \<Rightarrow> string option
   \<Rightarrow> (clavenar_error, behavioral_baseline_t) prog" where
  "behavioral_baseline_for_tenant L c agent_id baseline_days recent_days tenant =
     ledger_get_json L c dec_behavioral_baseline_t
       (''analysis/agent-behavioral-baseline'' @ query_start ''agent_id'' (percent_encode agent_id)
         @ amp ''baseline_days'' (show_u32 baseline_days) @ amp ''recent_days'' (show_u32 recent_days)
         @ amp_opt ''tenant'' percent_encode tenant)"

definition behavioral_baseline ::
  "libs \<Rightarrow> 'p ledger_client \<Rightarrow> string \<Rightarrow> u32 \<Rightarrow> u32 \<Rightarrow> (clavenar_error, behavioral_baseline_t) prog" where
  "behavioral_baseline L c agent_id baseline_days recent_days =
     behavioral_baseline_for_tenant L c agent_id baseline_days recent_days None"

definition silent_agents_for_tenant ::
  "libs \<Rightarrow> 'p ledger_client \<Rightarrow> u32 \<Rightarrow> string option \<Rightarrow> (clavenar_error, silent_agents_report) prog" where
  "silent_agents_for_tenant L c since_hours tenant = ledger_get_json L c dec_silent_agents_report
     (''analysis/silent-agents'' @ query_start ''since_hours'' (show_u32 since_hours)
       @ amp_opt ''tenant'' percent_encode tenant)"

definition silent_agents :: "libs \<Rightarrow> 'p ledger_client \<Rightarrow> u32 \<Rightarrow> (clavenar_error, silent_agents_report) prog" where
  "silent_agents L c since_hours = silent_agents_for_tenant L c since_hours None"

definition fleet_behavioral_diff_scoped ::
  "libs \<Rightarrow> 'p ledger_client \<Rightarrow> u32 \<Rightarrow> u32 \<Rightarrow> i64 \<Rightarrow> fleet_behavioral_diff_scope
   \<Rightarrow> (clavenar_error, fleet_behavioral_diff) prog" where
  "fleet_behavioral_diff_scoped L c baseline_days recent_days limit scope =
     ledger_get_json L c dec_fleet_behavioral_diff
       (''analysis/fleet-behavioral-diff'' @ query_start ''baseline_days'' (show_u32 baseline_days)
         @ amp ''recent_days'' (show_u32 recent_days) @ amp ''limit'' (show_i64 limit)
         @ amp_opt ''demo_session_token'' percent_encode (fs_demo_session_token scope)
         @ amp_opt ''tenant'' percent_encode (fs_tenant scope))"

definition fleet_behavioral_diff_for_tenant ::
  "libs \<Rightarrow> 'p ledger_client \<Rightarrow> u32 \<Rightarrow> u32 \<Rightarrow> i64 \<Rightarrow> string option \<Rightarrow> (clavenar_error, fleet_behavioral_diff) prog" where
  "fleet_behavioral_diff_for_tenant L c baseline_days recent_days limit tenant =
     fleet_behavioral_diff_scoped L c baseline_days recent_days limit
       \<lparr>fs_demo_session_token = None, fs_tenant = tenant\<rparr>"

definition model_upgrade_canary_scoped ::
  "libs \<Rightarrow> 'p ledger_client \<Rightarrow> string option \<Rightarrow> u32 \<Rightarrow> model_upgrade_canary_scope
   \<Rightarrow> (clavenar_error, model_upgrade_canary) prog" where
  "model_upgrade_canary_scoped L c cutover window_hours scope = ledger_get_json L c dec_model_upgrade_canary
     (''analysis/model-upgrade-canary'' @ query_start ''window_hours'' (show_u32 window_hours)
       @ amp_opt ''cutover'' percent_encode cutover
       @ amp_opt ''demo_session_token'' percent_encode (ms_demo_session_token scope)
       @ amp_opt ''tenant'' percent_encode (ms_tenant scope))"

definition model_upgrade_canary_for_tenant ::
  "libs \<Rightarrow> 'p ledger_client \<Rightarrow> string option \<Rightarrow> u32 \<Rightarrow> string option \<Rightarrow> (clavenar_error, model_upgrade_canary) prog" where
  "model_upgrade_canary_for_tenant L c cutover window_hours tenant =
     model_upgrade_canary_scoped L c cutover window_hours \<lparr>ms_demo_session_token = None, ms_tenant = tenant\<rparr>"

definition hunt :: "libs \<Rightarrow> 'p ledger_client \<Rightarrow> hunt_params \<Rightarrow> (clavenar_error, hunt_result) prog" where
  "hunt L c p = ledger_get_json L c dec_hunt_result
     (''audit/hunt'' @ query_start ''limit'' (show_i64 (hn_limit p))
       @ amp_opt ''method'' percent_encode (hn_method p)
       @ amp_opt ''signal'' percent_encode (hn_signal p)
       @ amp_opt ''authorized'' show_bool (hn_authorized p)
       @ amp_opt ''from'' (rfc3339_param L) (hn_from p)
       @ amp_opt ''to'' (rfc3339_param L) (hn_to p)
       @ amp_opt ''demo_session_token'' percent_encode (hn_demo_session_token p)
       @ amp_opt ''tenant'' percent_encode (hn_tenant p))"

definition finops_spend ::
  "libs \<Rightarrow> 'p ledger_client \<Rightarrow> string option \<Rightarrow> string option \<Rightarrow> i64 \<Rightarrow> (clavenar_error, spend_rollup) prog" where
  "finops_spend L c window tenant limit = ledger_get_json L c dec_spend_rollup
     (''finops/spend'' @ query_start ''limit'' (show_i64 limit)
       @ amp_opt ''window'' percent_encode window @ amp_opt ''tenant'' percent_encode tenant)"

definition active_agent_invoice ::
  "libs \<Rightarrow> 'p ledger_client \<Rightarrow> string \<Rightarrow> string \<Rightarrow> string \<Rightarrow> (clavenar_error, active_agent_invoice_t) prog" where
  "active_agent_invoice L c tenant as_of observed_through = ledger_get_json L c (dec_active_agent_invoice_t L)
     (''finops/active-agents'' @ query_start ''tenant'' (percent_encode tenant)
       @ amp ''as_of'' (percent_encode as_of) @ amp ''observed_through'' (percent_encode observed_through))"

definition create_active_agent_adjustment ::
  "libs \<Rightarrow> 'p ledger_client \<Rightarrow> active_agent_adjustment \<Rightarrow> (clavenar_error, active_agent_adjustment_receipt) prog" where
  "create_active_agent_adjustment L c adjustment = ledger_post_json L c (dec_active_agent_adjustment_receipt L)
     ''finops/active-agents/adjustments'' (enc_active_agent_adjustment L adjustment)"

section \<open>Exports and compliance\<close>

definition list_exports :: "libs \<Rightarrow> 'p ledger_client \<Rightarrow> (clavenar_error, export_record list) prog" where
  "list_exports L c = ledger_get_json L c (dec_list (dec_export_record L)) ''exports''"

definition trigger_export :: "libs \<Rightarrow> 'p ledger_client \<Rightarrow> (clavenar_error, export_outcome) prog" where
  "trigger_export L c = tryP (ledger_join L c ''export'') (\<lambda>endpoint.
     send_read L (dec_export_outcome L) (request POST endpoint))"

text \<open>The archive is read as bytes, within the larger limit.\<close>

definition read_archive :: "http_response \<Rightarrow> clavenar_error + string" where
  "read_archive resp = (if \<not> is_success (hs_status resp)
     then bindR (read_text_limited resp) (\<lambda>body. Inl (Server (hs_status resp) body))
     else read_body_limited resp BINARY_RESPONSE_BODY_LIMIT)"

definition send_archive :: "http_request \<Rightarrow> (clavenar_error, string) prog" where
  "send_archive q = bindP (sendP q) (\<lambda>resp. Return (read_archive resp))"

interpretation ledger_archive: json_call send_archive read_archive
  by unfold_locales (simp add: send_archive_def runs_sendP_bind)

definition with_readme :: "string option \<Rightarrow> http_request \<Rightarrow> http_request" where
  "with_readme readme q = (case readme of None \<Rightarrow> q
     | Some text \<Rightarrow> (header ''content-type'' ''text/markdown'' q)\<lparr>hr_body := BytesBody text\<rparr>)"

definition regulatory_path :: "libs \<Rightarrow> datetime \<Rightarrow> datetime \<Rightarrow> regulatory_export_options \<Rightarrow> string \<Rightarrow> string" where
  "regulatory_path L from to opts tenant =
     ''export/regulatory'' @ query_start ''tenant'' (percent_encode tenant)
       @ amp ''from'' (percent_encode (to_rfc3339_secs L from)) @ amp ''to'' (percent_encode (to_rfc3339_secs L to))
       @ (if ro_include_exports opts then amp ''include_exports'' ''true'' else [])
       @ (if ro_include_compliance opts then amp ''include_compliance'' ''true'' else [])"

definition regulatory_export ::
  "libs \<Rightarrow> 'p ledger_client \<Rightarrow> datetime \<Rightarrow> datetime \<Rightarrow> regulatory_export_options \<Rightarrow> (clavenar_error, string) prog" where
  "regulatory_export L c from to opts = (case ro_tenant opts of
     None \<Rightarrow> errP (InvalidConfig ''regulatory export requires an authenticated tenant'')
   | Some tenant \<Rightarrow> tryP (ledger_join L c (regulatory_path L from to opts tenant)) (\<lambda>endpoint.
       send_archive (with_readme (ro_readme opts) (request POST endpoint))))"

definition compliance_evidence_scoped ::
  "libs \<Rightarrow> 'p ledger_client \<Rightarrow> datetime \<Rightarrow> datetime \<Rightarrow> compliance_evidence_scope
   \<Rightarrow> (clavenar_error, compliance_register) prog" where
  "compliance_evidence_scoped L c from to scope =
     tryP (ledger_join L c (''compliance/evidence''
         @ query_start ''from'' (percent_encode (to_rfc3339_secs L from))
         @ amp ''to'' (percent_encode (to_rfc3339_secs L to))
         @ amp_opt ''demo_session_token'' percent_encode (co_demo_session_token scope)
         @ amp_opt ''tenant'' percent_encode (co_tenant scope))) (\<lambda>endpoint.
     send_read L (dec_compliance_register L) (request POST endpoint))"

section \<open>Cases, log entries and tenants\<close>

definition create_case ::
  "libs \<Rightarrow> 'p ledger_client \<Rightarrow> string \<Rightarrow> string list \<Rightarrow> string list \<Rightarrow> string option
   \<Rightarrow> (clavenar_error, case_record) prog" where
  "create_case L c title agent_ids correlation_ids actor = ledger_post_json L c dec_case_record ''cases''
     (normalize (JObject [(''title'', JString title), (''agent_ids'', enc_list JString agent_ids),
       (''correlation_ids'', enc_list JString correlation_ids), (''actor'', enc_option JString actor)]))"

definition list_cases :: "libs \<Rightarrow> 'p ledger_client \<Rightarrow> string option \<Rightarrow> i64 \<Rightarrow> (clavenar_error, case_record list) prog" where
  "list_cases L c status limit = ledger_get_json L c (dec_list dec_case_record)
     (''cases'' @ query_start ''limit'' (show_i64 limit) @ amp_opt ''status'' percent_encode status)"

definition get_case :: "libs \<Rightarrow> 'p ledger_client \<Rightarrow> string \<Rightarrow> (clavenar_error, case_detail) prog" where
  "get_case L c case_id = ledger_get_json L c (dec_case_detail L) (''cases/'' @ percent_encode case_id)"

definition append_case_timeline ::
  "libs \<Rightarrow> 'p ledger_client \<Rightarrow> string \<Rightarrow> case_timeline_event \<Rightarrow> (clavenar_error, unit) prog" where
  "append_case_timeline L c case_id ev = ledger_post_json L c dec_unit
     (''cases/'' @ percent_encode case_id @ ''/timeline'') (enc_case_timeline_event ev)"

definition set_case_status :: "libs \<Rightarrow> 'p ledger_client \<Rightarrow> string \<Rightarrow> string \<Rightarrow> (clavenar_error, unit) prog" where
  "set_case_status L c case_id status = ledger_post_json L c dec_unit
     (''cases/'' @ percent_encode case_id @ ''/status'') (normalize (JObject [(''status'', JString status)]))"

definition log_decision :: "libs \<Rightarrow> 'p ledger_client \<Rightarrow> log_entry \<Rightarrow> (clavenar_error, log_receipt) prog" where
  "log_decision L c entry = ledger_post_json L c dec_log_receipt ''log'' (enc_log_entry entry)"

definition dec_classified :: "(string \<times> string) dec" where
  "dec_classified j = do {
     f \<leftarrow> struct_fields False [''severity'', ''regulatory_deadline''] j;
     v1 \<leftarrow> need f ''severity'' dec_string;
     v2 \<leftarrow> need f ''regulatory_deadline'' dec_string;
     Some (v1, v2) }"

definition classify_case ::
  "libs \<Rightarrow> 'p ledger_client \<Rightarrow> string \<Rightarrow> string \<Rightarrow> (clavenar_error, string \<times> string) prog" where
  "classify_case L c case_id severity = ledger_post_json L c dec_classified
     (''cases/'' @ percent_encode case_id @ ''/classify'') (normalize (JObject [(''severity'', JString severity)]))"

definition attach_case ::
  "libs \<Rightarrow> 'p ledger_client \<Rightarrow> string \<Rightarrow> string list \<Rightarrow> string list \<Rightarrow> (clavenar_error, unit) prog" where
  "attach_case L c case_id agent_ids correlation_ids = ledger_post_json L c dec_unit
     (''cases/'' @ percent_encode case_id @ ''/attach'')
     (normalize (JObject [(''agent_ids'', enc_list JString agent_ids),
       (''correlation_ids'', enc_list JString correlation_ids)]))"

definition ledger_tenant_lifecycle ::
  "libs \<Rightarrow> 'p ledger_client \<Rightarrow> string \<Rightarrow> uuid \<Rightarrow> ledger_tenant_lifecycle_kind
   \<Rightarrow> (clavenar_error, ledger_tenant_lifecycle_receipt) prog" where
  "ledger_tenant_lifecycle L c tenant operation_id kind = ledger_post_json L c (dec_ledger_tenant_lifecycle_receipt L)
     (''admin/tenants/'' @ percent_encode tenant @ ''/lifecycle'')
     (enc_ledger_tenant_lifecycle_request L \<lparr>lq_operation_id = operation_id, lq_kind = kind\<rparr>)"

definition tombstone_tenant ::
  "libs \<Rightarrow> 'p ledger_client \<Rightarrow> string \<Rightarrow> string option \<Rightarrow> (clavenar_error, i64) prog" where
  "tombstone_tenant L c tenant reason = ledger_post_json L c (dec_member ''tombstoned'' dec_i64)
     (''admin/tenants/'' @ percent_encode tenant @ ''/tombstone'')
     (normalize (JObject [(''reason'', enc_option JString reason)]))"

end
