(* ===== verification/Ledger_Query.thy ===== *)
theory Ledger_Query
  imports Ledger Routing
begin

text \<open>
  A reference reading of a query string, the way a server splits it (at each ampersand, at the
  first equals sign, percent-decoding the value, dropping empty pieces), and the rules by which
  the pieces the ledger client writes are read back. The collection \<open>query_read\<close> holds them.
\<close>

named_theorems query_read "reading the query strings the client writes"

definition pair_of :: "string \<Rightarrow> string \<times> string option" where
  "pair_of s = (takeWhile (\<lambda>c. c \<noteq> CHR ''='') s, percent_decode (drop 1 (dropWhile (\<lambda>c. c \<noteq> CHR ''='') s)))"

definition amp_pairs :: "string \<Rightarrow> (string \<times> string option) list" where
  "amp_pairs s = map pair_of (filter (\<lambda>p. p \<noteq> []) (split_on (CHR ''&'') s))"

definition query_pairs :: "string \<Rightarrow> (string \<times> string option) list" where
  "query_pairs url = amp_pairs (drop 1 (dropWhile (\<lambda>c. c \<noteq> CHR ''?'') url))"

lemma amp_pairs_Nil [query_read]: "amp_pairs [] = []"
  by (simp add: amp_pairs_def)

definition amp_text :: "string \<Rightarrow> bool" where
  "amp_text s \<longleftrightarrow> s = [] \<or> hd s = CHR ''&''"

definition plain_key :: "string \<Rightarrow> bool" where
  "plain_key k \<longleftrightarrow> CHR ''='' \<notin> set k \<and> CHR ''&'' \<notin> set k \<and> CHR ''?'' \<notin> set k"

lemma amp_text_simps [query_read]: "amp_text []" "amp_text (amp k v @ s)" "amp_text (amp k v)"
  "amp_text s \<Longrightarrow> amp_text (amp_opt k f x @ s)" "amp_text (amp_opt k f x)"
  by (auto simp: amp_text_def amp_def amp_opt_def split: option.split)

lemma pair_of_text: "plain_key k \<Longrightarrow> pair_of (k @ CHR ''='' # v) = (k, percent_decode v)"
  by (simp add: pair_of_def plain_key_def up_to)

lemma amp_pairs_piece:
  assumes "plain_key k" "CHR ''&'' \<notin> set v" "amp_text s"
  shows "amp_pairs (k @ CHR ''='' # v @ s) = (k, percent_decode v) # amp_pairs s"
proof -
  have plain: "CHR ''&'' \<notin> set (k @ CHR ''='' # v)"
    using assms by (auto simp: plain_key_def)
  show ?thesis
  proof (cases s)
    case Nil
    then show ?thesis
      using split_on_plain [OF plain] pair_of_text [OF assms(1)] by (simp add: amp_pairs_def)
  next
    case (Cons c t)
    then have "s = CHR ''&'' # t" using assms(3) by (simp add: amp_text_def)
    then show ?thesis
      using split_on_append [OF plain, of t] pair_of_text [OF assms(1), of v] by (simp add: amp_pairs_def)
  qed
qed

lemma amp_pairs_amp [query_read]:
  assumes "plain_key k" "CHR ''&'' \<notin> set v"
  shows "amp_text s \<Longrightarrow> amp_pairs (amp k v @ s) = (k, percent_decode v) # amp_pairs s"
    and "amp_pairs (amp k v) = [(k, percent_decode v)]"
proof -
  show *: "amp_pairs (amp k v @ s) = (k, percent_decode v) # amp_pairs s" if "amp_text s" for s
    using amp_pairs_piece [OF assms that] by (simp add: amp_def amp_pairs_def)
  show "amp_pairs (amp k v) = [(k, percent_decode v)]"
    using * [of "[]"] by (simp add: amp_text_def amp_pairs_def)
qed

definition sel :: "string \<Rightarrow> ('a \<Rightarrow> string) \<Rightarrow> 'a option \<Rightarrow> (string \<times> string) list" where
  "sel k g x = (case x of None \<Rightarrow> [] | Some v \<Rightarrow> [(k, g v)])"

definition given :: "(string \<times> string) list \<Rightarrow> (string \<times> string option) list" where
  "given = map (\<lambda>(k, v). (k, Some v))"

lemma sel_simps [query_read]: "sel k g None = []" "sel k g (Some v) = [(k, g v)]"
  by (simp_all add: sel_def)

lemma given_simps [query_read]: "given [] = []" "given ((k, v) # ps) = (k, Some v) # given ps"
  "given (ps @ qs) = given ps @ given qs"
  by (simp_all add: given_def)

text \<open>A value printer whose text is read back as what it stands for.\<close>

definition readable :: "('a \<Rightarrow> string) \<Rightarrow> ('a \<Rightarrow> string) \<Rightarrow> bool" where
  "readable f g \<longleftrightarrow> (\<forall>v. CHR ''&'' \<notin> set (f v) \<and> percent_decode (f v) = Some (g v))"

lemma amp_pairs_opt:
  assumes "plain_key k" "readable f g"
  shows "amp_text s \<Longrightarrow> amp_pairs (amp_opt k f x @ s) = given (sel k g x) @ amp_pairs s"
    and "amp_pairs (amp_opt k f x) = given (sel k g x)"
  using assms amp_pairs_amp [OF assms(1)]
  by (cases x; simp add: amp_opt_def sel_def readable_def amp_pairs_Nil given_simps)+

text \<open>The path is peeled off piece by piece, down to the query.\<close>

lemma path_part_pieces [query_read]:
  "CHR ''?'' \<notin> set s \<Longrightarrow> path_part (s @ t) = s @ path_part t" "CHR ''?'' \<notin> set s \<Longrightarrow> path_part s = s"
  "path_part (query_start k v @ t) = []" "path_part (query_start k v) = []" "path_part (CHR ''?'' # t) = []"
  "c \<noteq> CHR ''?'' \<Longrightarrow> path_part (c # t) = c # path_part t"
  by (simp_all add: path_part_def query_start_def up_to) (induction s; auto)

text \<open>So is the query, for the characters it is made of.\<close>

definition query_text :: "string \<Rightarrow> bool" where
  "query_text s \<longleftrightarrow> list_all query_char s"

lemma query_text_simps [query_read]: "query_text []" "query_text (c # s) \<longleftrightarrow> query_char c \<and> query_text s"
  "query_text (s @ t) \<longleftrightarrow> query_text s \<and> query_text t"
  "query_text (amp k v) \<longleftrightarrow> query_text k \<and> query_text v"
  by (auto simp: query_text_def amp_def query_char_def)

lemma query_text_opt: "(\<And>v. query_text (f v)) \<Longrightarrow> query_text k \<Longrightarrow> query_text (amp_opt k f x)"
  by (simp add: amp_opt_def query_text_simps split: option.split)

lemma safe_query_pieces [query_read]:
  "CHR ''?'' \<notin> set s \<Longrightarrow> safe_query (s @ t) = safe_query t" "CHR ''?'' \<notin> set s \<Longrightarrow> safe_query s"
  "safe_query (CHR ''?'' # t) = query_text t" "c \<noteq> CHR ''?'' \<Longrightarrow> safe_query (c # t) = safe_query t"
  "safe_query (query_start k v) \<longleftrightarrow> query_text k \<and> query_text v"
  "safe_query (query_start k v @ t) \<longleftrightarrow> query_text k \<and> query_text v \<and> query_text t"
  by (simp_all add: safe_query_def up_to query_text_def query_start_def query_char_def) (induction s; auto)

lemma unreserved_query: "list_all unreserved s \<Longrightarrow> query_text s"
  by (auto simp: query_text_def list_all_iff query_char_def)

lemma query_text_nat: "query_text (show_nat n)"
  by (rule unreserved_query) (use show_nat_digits in \<open>fastforce simp: list_all_iff is_digit_char_def unreserved_def\<close>)

lemma query_text_values [query_read]: "query_text (percent_encode s)" "query_text (show_u64 a)"
  "query_text (show_u32 b)" "query_text (show_i64 i)" "query_text (rfc3339_param L t)" "query_text (show_bool d)"
proof -
  show encoded: "query_text (percent_encode s)" for s
    using percent_encode_chars [of _ s] by (auto simp: query_text_def list_all_iff query_char_def)
  show "query_text (show_u64 a)" "query_text (show_u32 b)"
    by (simp_all add: show_u64_def show_u32_def query_text_nat)
  show "query_text (show_i64 i)"
    by (simp add: show_i64_def show_int_def query_text_nat query_text_simps query_char_def unreserved_def)
  show "query_text (rfc3339_param L t)" by (simp add: rfc3339_param_def encoded)
  show "query_text (show_bool d)"
    by (simp add: show_bool_def query_text_simps query_char_def unreserved_def byte_def)
qed

lemmas query_text_opts [query_read] = query_text_opt [of percent_encode, OF query_text_values(1)]
  query_text_opt [of show_i64, OF query_text_values(4)] query_text_opt [of show_bool, OF query_text_values(6)]

lemma query_text_time [query_read]: "query_text k \<Longrightarrow> query_text (amp_opt k (rfc3339_param L) x)"
  by (rule query_text_opt) (rule query_text_values)

text \<open>A literal is made of letters, digits, underscores, dashes and slashes.\<close>

lemma query_char_literal [query_read]:
  "query_char c \<longleftrightarrow> unreserved c \<or> c \<in> {CHR ''%'', CHR ''&'', CHR ''='', CHR '','', CHR ''/''}"
  "unreserved c \<longleftrightarrow> (65 \<le> byte c \<and> byte c \<le> 90) \<or> (97 \<le> byte c \<and> byte c \<le> 122)
     \<or> (48 \<le> byte c \<and> byte c \<le> 57) \<or> c \<in> {CHR ''-'', CHR ''.'', CHR ''_'', CHR ''~''}"
  "byte c = of_char c"
  by (simp_all add: query_char_def unreserved_def byte_def)

text \<open>A path is the path of its segments, of which the constant ones encode to themselves.\<close>

lemma segment_path_pieces [query_read]: "segment_path [x] = percent_encode x"
  "segment_path (x # y # ys) = percent_encode x @ CHR ''/'' # segment_path (y # ys)"
  by (simp_all add: segment_path_def join_with_Cons)

lemmas literal_encoded [query_read] = percent_encode_unreserved

lemma query_pairs_pieces [query_read]:
  "CHR ''?'' \<notin> set s \<Longrightarrow> query_pairs (s @ t) = query_pairs t" "CHR ''?'' \<notin> set s \<Longrightarrow> query_pairs s = []"
  "query_pairs (CHR ''?'' # t) = amp_pairs t" "c \<noteq> CHR ''?'' \<Longrightarrow> query_pairs (c # t) = query_pairs t"
  by (simp_all add: query_pairs_def up_to amp_pairs_Nil) (induction s; auto)

lemma query_pairs_start [query_read]:
  assumes "plain_key k" "CHR ''&'' \<notin> set v"
  shows "amp_text t \<Longrightarrow> query_pairs (query_start k v @ t) = (k, percent_decode v) # amp_pairs t"
    and "query_pairs (query_start k v) = [(k, percent_decode v)]"
proof -
  show *: "query_pairs (query_start k v @ t) = (k, percent_decode v) # amp_pairs t" if "amp_text t" for t
    using amp_pairs_piece [OF assms that] by (simp add: query_start_def query_pairs_pieces(3))
  show "query_pairs (query_start k v) = [(k, percent_decode v)]"
    using * [of "[]"] by (simp add: amp_text_def amp_pairs_def)
qed

section \<open>What the values stand for\<close>

lemma plain_decode: "list_all (\<lambda>c. c \<noteq> CHR ''%'') s \<Longrightarrow> percent_decode s = Some s"
  by (induction s) simp_all

lemma digits_plain: "list_all (\<lambda>c. c \<noteq> CHR ''%'') (show_nat n)" "CHR ''&'' \<notin> set (show_nat n)"
  using show_nat_digits by (fastforce simp: list_all_iff is_digit_char_def byte_def)+

lemma value_u64 [query_read]: "percent_decode (show_u64 n) = Some (show_u64 n)" "CHR ''&'' \<notin> set (show_u64 n)"
  by (simp_all add: show_u64_def digits_plain plain_decode)

lemma value_u32 [query_read]: "percent_decode (show_u32 n) = Some (show_u32 n)" "CHR ''&'' \<notin> set (show_u32 n)"
  by (simp_all add: show_u32_def digits_plain plain_decode)

lemma value_i64 [query_read]: "percent_decode (show_i64 n) = Some (show_i64 n)" "CHR ''&'' \<notin> set (show_i64 n)"
  by (simp_all add: show_i64_def show_int_def digits_plain plain_decode)

lemma value_encoded [query_read]: "percent_decode (percent_encode v) = Some v"
  "CHR ''&'' \<notin> set (percent_encode v)" "CHR ''?'' \<notin> set (percent_encode v)"
  using percent.enc_no_delim [of "CHR ''&''" v] percent.enc_no_delim [of "CHR ''?''" v]
  by (auto simp: percent_decode_encode delimiter_def)

lemma value_time [query_read]: "percent_decode (rfc3339_param L t) = Some (to_rfc3339 L t)"
  "CHR ''&'' \<notin> set (rfc3339_param L t)"
  by (simp_all add: rfc3339_param_def query_read)

lemma value_literal [query_read]: "percent_decode ''true'' = Some ''true''" "CHR ''&'' \<notin> set ''true''"
  by simp_all

lemma readable_values [query_read]: "readable percent_encode (\<lambda>v. v)" "readable show_i64 show_i64"
  "readable (rfc3339_param L) (to_rfc3339 L)" "readable show_bool show_bool"
  by (simp_all add: readable_def query_read show_bool_def)

lemmas amp_pairs_values [query_read] = amp_pairs_opt [OF _ readable_values(1)] amp_pairs_opt [OF _ readable_values(2)]
  amp_pairs_opt [OF _ readable_values(3)] amp_pairs_opt [OF _ readable_values(4)]

lemma join_encoded: "percent_decode (join_with '','' (map percent_encode ms)) = Some (join_with '','' ms)"
proof (induction ms)
  case (Cons m ms)
  then show ?case by (simp add: join_with_Cons percent_decode_append percent_decode_encode)
qed simp

lemma join_encoded_plain: "CHR ''&'' \<notin> set (join_with '','' (map percent_encode ms))"
  by (induction ms) (auto simp: join_with_Cons query_read)

lemma plain_keys [query_read]: "list_all (\<lambda>c. c \<noteq> CHR ''='' \<and> c \<noteq> CHR ''&'' \<and> c \<noteq> CHR ''?'') k \<Longrightarrow> plain_key k"
  by (auto simp: plain_key_def list_all_iff)

section \<open>The audit filter\<close>

definition filter_pairs :: "libs \<Rightarrow> audit_filter_params \<Rightarrow> (string \<times> string) list" where
  "filter_pairs L f =
     sel ''seq_from'' show_i64 (fl_seq_from f) @ sel ''seq_to'' show_i64 (fl_seq_to f)
     @ sel ''from'' (to_rfc3339 L) (fl_from f) @ sel ''to'' (to_rfc3339 L) (fl_to f)
     @ (if named_methods (fl_methods f) = [] then []
        else [(''methods'', join_with '','' (named_methods (fl_methods f)))])
     @ sel ''original_method'' (\<lambda>v. v) (fl_original_method f) @ sel ''reason'' (\<lambda>v. v) (fl_reason f)
     @ sel ''verdict'' (\<lambda>v. v) (fl_verdict f) @ sel ''brain_delta'' (\<lambda>v. v) (fl_brain_delta f)"

definition methods_text :: "string list \<Rightarrow> string" where
  "methods_text ms = (let methods = join_with '','' (map percent_encode (named_methods ms))
     in if ms = [] \<or> methods = [] then [] else amp ''methods'' methods)"

lemma named_methods_nonempty: "m \<in> set (named_methods ms) \<Longrightarrow> m \<noteq> []"
  by (auto simp: named_methods_def)

lemma encode_nonempty: "percent_encode m = [] \<longleftrightarrow> m = []"
  by (cases m) (simp_all add: percent_encode_def encode_byte_def)

lemma methods_text_read [query_read]:
  "amp_text s \<Longrightarrow> amp_pairs (methods_text ms @ s) = given (if named_methods ms = [] then []
     else [(''methods'', join_with '','' (named_methods ms))]) @ amp_pairs s"
  "amp_text s \<Longrightarrow> amp_text (methods_text ms @ s)"
proof -
  have "join_with '','' (map percent_encode (named_methods ms)) = [] \<longleftrightarrow> named_methods ms = []"
    using named_methods_nonempty [of _ ms]
    by (cases "named_methods ms") (auto simp: join_with_Cons encode_nonempty)
  then have shown: "methods_text ms = (if named_methods ms = [] then []
      else amp ''methods'' (join_with '','' (map percent_encode (named_methods ms))))"
    by (auto simp: methods_text_def Let_def named_methods_def)
  show "amp_text s \<Longrightarrow> amp_pairs (methods_text ms @ s) = given (if named_methods ms = [] then []
     else [(''methods'', join_with '','' (named_methods ms))]) @ amp_pairs s"
    by (simp add: shown query_read join_encoded join_encoded_plain)
  show "amp_text s \<Longrightarrow> amp_text (methods_text ms @ s)" by (simp add: shown query_read)
qed

definition filter_text :: "libs \<Rightarrow> audit_filter_params \<Rightarrow> string" where
  "filter_text L f = append_query L f []"

lemma append_query_text [query_read]: "append_query L f path = path @ filter_text L f"
  by (simp add: filter_text_def append_query_def)

lemma filter_text_read [query_read]: "amp_text (filter_text L f)"
  "amp_pairs (filter_text L f) = given (filter_pairs L f)"
  unfolding filter_text_def append_query_def methods_text_def [symmetric] filter_pairs_def append_Nil
  by (simp_all add: query_read)

lemma methods_text_chars: "query_text (methods_text ms)"
proof -
  have "query_text (join_with '','' (map percent_encode xs))" for xs
    by (induction xs) (auto simp: join_with_Cons query_read)
  then show ?thesis by (simp add: methods_text_def Let_def query_text_simps query_char_literal)
qed

lemma filter_text_chars [query_read]: "query_text (filter_text L f)"
  unfolding filter_text_def append_query_def methods_text_def [symmetric] append_Nil
  by (simp add: query_read methods_text_chars)

text \<open>The methods of a filter are one parameter, joined with commas; when none of them contains a
  comma, splitting its value at the commas recovers them.\<close>

lemma methods_recovered:
  "named_methods ms \<noteq> [] \<Longrightarrow> list_all (\<lambda>m. CHR '','' \<notin> set m) (named_methods ms) \<Longrightarrow>
    split_on (CHR '','') (join_with '','' (named_methods ms)) = named_methods ms"
  by (rule split_on_join)

end
