(* ===== verification/Ledger_Claims.thy ===== *)
theory Ledger_Claims
  imports Ledger_Query
begin

text \<open>
  Which parameters each ledger read sends, how replies are dispatched on their status, what an
  empty reply to a write means, and the bounds of counts and archives.
\<close>

section \<open>Parameters arrive exactly\<close>

text \<open>
  An operation that makes at most one call, without headers or a body, to the endpoint joined from
  a reference whose path is that of the segments \<open>segs\<close> and whose query a server reads as exactly
  the given pairs.
\<close>

definition exact_query ::
  "libs \<Rightarrow> 'p ledger_client \<Rightarrow> http_method \<Rightarrow> string list \<Rightarrow> (string \<times> string) list \<Rightarrow> (clavenar_error, unit) prog \<Rightarrow> bool"
  where
  "exact_query L c m segs pairs p \<longleftrightarrow> (\<exists>path. path_part path = segment_path segs
     \<and> query_pairs path = given pairs \<and> safe_query path
     \<and> (\<forall>url es r. url_join L (lc_base_url c) path = Inr url \<and> runs p es r \<longrightarrow> (\<exists>z. es = [Sent (request m url) z])))"

lemma exact_get:
  assumes "path_part path = segment_path segs" "query_pairs path = given pairs" "safe_query path"
  shows "exact_query L c GET segs pairs (forgetP (ledger_get_json L c d path))"
proof -
  have "\<exists>z. es = [Sent (request GET url) z]"
    if "url_join L (lc_base_url c) path = Inr url" "runs (forgetP (ledger_get_json L c d path)) es r" for url es r
    using that by (auto simp: ledger_get_json_def ledger_join_def join_endpoint_def forgetP_def ledger_read.mapped)
  with assms show ?thesis unfolding exact_query_def by blast
qed

lemma exact_post:
  assumes "path_part path = segment_path segs" "query_pairs path = given pairs" "safe_query path"
  shows "exact_query L c POST segs pairs (forgetP (tryP (ledger_join L c path) (\<lambda>u. send_read L d (request POST u))))"
proof -
  have "\<exists>z. es = [Sent (request POST url) z]"
    if "url_join L (lc_base_url c) path = Inr url"
      "runs (forgetP (tryP (ledger_join L c path) (\<lambda>u. send_read L d (request POST u)))) es r" for url es r
    using that by (auto simp: ledger_join_def join_endpoint_def forgetP_def ledger_read.mapped)
  with assms show ?thesis unfolding exact_query_def by blast
qed

inductive ledger_query ::
  "libs \<Rightarrow> 'p ledger_client \<Rightarrow> http_method \<Rightarrow> string list \<Rightarrow> (string \<times> string) list \<Rightarrow> (clavenar_error, unit) prog \<Rightarrow> bool"
  for L c where
  "ledger_query L c GET [''audit'', ''correlation'', cid] [] (forgetP (audit_correlation L c cid))"
| "ledger_query L c GET [''audit'', a] [] (forgetP (audit_agent L c a))"
| "ledger_query L c GET [''audit'', a] [(''limit'', show_u64 n), (''offset'', show_u64 k)]
     (forgetP (audit_agent_paged L c a n k))"
| "ledger_query L c GET [''audit'', a] [(''limit'', show_u64 n), (''before'', show_i64 s)]
     (forgetP (audit_agent_paged_before L c a n s))"
| "ledger_query L c GET [''audit'', a] [(''limit'', show_u64 n), (''after'', show_i64 s)]
     (forgetP (audit_agent_paged_after L c a n s))"
| "ledger_query L c GET [''audit'', a]
     ([(''limit'', show_u64 n), (''offset'', show_u64 k), (''since'', to_rfc3339 L t)] @ sel ''tenant'' (\<lambda>v. v) tenant)
     (forgetP (audit_agent_paged_since_for_tenant L c a n k t tenant))"
| "ledger_query L c GET [''audit'', a]
     [(''limit'', show_u64 n), (''offset'', show_u64 k), (''since'', to_rfc3339 L t)]
     (forgetP (audit_agent_paged_since L c a n k t))"
| "ledger_query L c GET [''audit'', a]
     ([(''limit'', show_u64 n), (''offset'', show_u64 k)] @ filter_pairs L f)
     (forgetP (audit_agent_paged_filtered L c a n k f))"
| "ledger_query L c GET [''audit'', a]
     ([(''limit'', show_u64 n), (''before'', show_i64 s)] @ filter_pairs L f)
     (forgetP (audit_agent_paged_before_filtered L c a n s f))"
| "ledger_query L c GET [''audit'', a]
     ([(''limit'', show_u64 n), (''after'', show_i64 s)] @ filter_pairs L f)
     (forgetP (audit_agent_paged_after_filtered L c a n s f))"
| "ledger_query L c GET [''audit'', a, ''count''] [] (forgetP (audit_agent_count L c a))"
| "ledger_query L c GET [''audit'', a, ''count''] (filter_pairs L f)
     (forgetP (audit_agent_count_filtered L c a f))"
| "ledger_query L c GET [''audit'', ''agent'', t, a, ''lifecycle''] []
     (forgetP (lifecycle_for_agent L c t a))"
| "ledger_query L c GET [''audit'', ''entry'', e, ''masked-params''] []
     (forgetP (masked_params_for_entry L c e))"
| "ledger_query L c GET [''audit'', ''replay'', ''corpus'']
     ([(''since'', to_rfc3339 L (rc_since rp)), (''limit'', show_i64 (rc_limit rp))]
       @ sel ''until'' (to_rfc3339 L) (rc_until rp) @ sel ''agent_id'' (\<lambda>v. v) (rc_agent_id rp)
       @ sel ''tool_type'' (\<lambda>v. v) (rc_tool_type rp) @ sel ''tenant_prefix'' (\<lambda>v. v) (rc_tenant_prefix rp))
     (forgetP (audit_replay_corpus L c rp))"
| "ledger_query L c GET [''analysis'', ''agent-envelope-recommendations'']
     ([(''agent_id'', a), (''window_days'', show_u32 w)] @ sel ''tenant'' (\<lambda>v. v) tenant)
     (forgetP (envelope_analysis_for_tenant L c a w tenant))"
| "ledger_query L c GET [''analysis'', ''agent-behavioral-baseline'']
     ([(''agent_id'', a), (''baseline_days'', show_u32 b), (''recent_days'', show_u32 w)] @ sel ''tenant'' (\<lambda>v. v) tenant)
     (forgetP (behavioral_baseline_for_tenant L c a b w tenant))"
| "ledger_query L c GET [''analysis'', ''silent-agents''] ([(''since_hours'', show_u32 w)] @ sel ''tenant'' (\<lambda>v. v) tenant)
     (forgetP (silent_agents_for_tenant L c w tenant))"
| "ledger_query L c GET [''analysis'', ''fleet-behavioral-diff'']
     ([(''baseline_days'', show_u32 b), (''recent_days'', show_u32 w), (''limit'', show_i64 lim)]
       @ sel ''demo_session_token'' (\<lambda>v. v) (fs_demo_session_token fs) @ sel ''tenant'' (\<lambda>v. v) (fs_tenant fs))
     (forgetP (fleet_behavioral_diff_scoped L c b w lim fs))"
| "ledger_query L c GET [''analysis'', ''model-upgrade-canary'']
     ([(''window_hours'', show_u32 w)] @ sel ''cutover'' (\<lambda>v. v) co_at
       @ sel ''demo_session_token'' (\<lambda>v. v) (ms_demo_session_token ms) @ sel ''tenant'' (\<lambda>v. v) (ms_tenant ms))
     (forgetP (model_upgrade_canary_scoped L c co_at w ms))"
| "ledger_query L c GET [''audit'', ''hunt'']
     ([(''limit'', show_i64 (hn_limit hp))] @ sel ''method'' (\<lambda>v. v) (hn_method hp)
       @ sel ''signal'' (\<lambda>v. v) (hn_signal hp) @ sel ''authorized'' show_bool (hn_authorized hp)
       @ sel ''from'' (to_rfc3339 L) (hn_from hp) @ sel ''to'' (to_rfc3339 L) (hn_to hp)
       @ sel ''demo_session_token'' (\<lambda>v. v) (hn_demo_session_token hp) @ sel ''tenant'' (\<lambda>v. v) (hn_tenant hp))
     (forgetP (hunt L c hp))"
| "ledger_query L c GET [''finops'', ''spend'']
     ([(''limit'', show_i64 lim)] @ sel ''window'' (\<lambda>v. v) win @ sel ''tenant'' (\<lambda>v. v) tenant)
     (forgetP (finops_spend L c win tenant lim))"
| "ledger_query L c GET [''finops'', ''active-agents'']
     [(''tenant'', t), (''as_of'', as_of), (''observed_through'', obs)] (forgetP (active_agent_invoice L c t as_of obs))"
| "ledger_query L c GET [''cases''] ([(''limit'', show_i64 lim)] @ sel ''status'' (\<lambda>v. v) st)
     (forgetP (list_cases L c st lim))"
| "ledger_query L c GET [''cases'', i] [] (forgetP (get_case L c i))"
| "ledger_query L c POST [''compliance'', ''evidence'']
     ([(''from'', to_rfc3339_secs L t1), (''to'', to_rfc3339_secs L t2)]
       @ sel ''demo_session_token'' (\<lambda>v. v) (co_demo_session_token co) @ sel ''tenant'' (\<lambda>v. v) (co_tenant co))
     (forgetP (compliance_evidence_scoped L c t1 t2 co))"

lemmas ledger_query_defs = audit_correlation_def audit_agent_def audit_agent_paged_def audit_agent_paged_before_def
  audit_agent_paged_after_def audit_agent_paged_since_def audit_agent_paged_since_for_tenant_def
  audit_agent_paged_filtered_def audit_agent_paged_before_filtered_def audit_agent_paged_after_filtered_def
  audit_agent_count_def audit_agent_count_filtered_def lifecycle_for_agent_def masked_params_for_entry_def
  audit_replay_corpus_def envelope_analysis_for_tenant_def behavioral_baseline_for_tenant_def
  silent_agents_for_tenant_def fleet_behavioral_diff_scoped_def model_upgrade_canary_scoped_def hunt_def
  finops_spend_def active_agent_invoice_def list_cases_def get_case_def compliance_evidence_scoped_def forgetP_bind

lemma ledger_query_exact: "ledger_query L c m segs pairs p \<Longrightarrow> exact_query L c m segs pairs p"
  by (induction rule: ledger_query.induct)
    (unfold ledger_query_defs, (rule exact_get exact_post; simp add: query_read)+)

lemma ledger_query_segments: "ledger_query L c m segs pairs p \<Longrightarrow> segs \<noteq> [] \<and> hd segs \<noteq> []"
  by (induction rule: ledger_query.induct) simp_all

text \<open>C38: no value a caller passes can add, drop or change a parameter of a ledger read. Each read
  makes one request, without credentials or a body. A server that splits the path of the request's
  URL below the base at the slashes and decodes the pieces gets exactly the operation's segments,
  with the identifiers as they were given; and one that splits its query at the ampersands and
  decodes the values gets exactly the given pairs, in order. So a tenant or an agent that contains
  an ampersand, an equals sign, a slash or a question mark stays one value. Two things are not
  values of their own: the methods of an audit filter are one parameter, the non-blank ones joined
  with commas, so a method with a comma is not told apart from two (\<open>methods_ambiguous\<close>); and the
  identifiers \<open>.\<close> and \<open>..\<close> are excluded, since joining a URL removes such segments
  (\<open>dot_segments_escape\<close>).\<close>

theorem ledger_queries_exact:
  assumes "url_laws L" "join_query_laws L" "plain_base (lc_base_url c)"
    and "ledger_query L c m segs pairs p" and "list_all (\<lambda>x. x \<noteq> ''.'' \<and> x \<noteq> ''..'') segs"
    and "runs p es r"
  shows "\<exists>url z. es = [Sent (request m url) z] \<and> segments (lc_base_url c) url = Some segs
    \<and> query_pairs url = map (\<lambda>(k, v). (k, Some v)) pairs"
proof -
  have "plain_segments segs"
    using ledger_query_segments [OF assms(4)] assms(5) by (simp add: plain_segments_def)
  moreover obtain path where path: "path_part path = segment_path segs" "query_pairs path = given pairs"
      "safe_query path"
    and sends: "\<And>url. url_join L (lc_base_url c) path = Inr url \<Longrightarrow> \<exists>z. es = [Sent (request m url) z]"
    using ledger_query_exact [OF assms(4)] assms(6) unfolding exact_query_def by blast
  ultimately have join: "url_join L (lc_base_url c) path = Inr (lc_base_url c @ path)"
    and segs: "segments (lc_base_url c) (lc_base_url c @ path) = Some segs"
    using joined_reference [OF assms(1-3)] by blast+
  have "query_pairs (lc_base_url c @ path) = given pairs"
    using assms(3) path(2) by (simp add: plain_base_def query_read)
  with sends [OF join] segs show ?thesis unfolding given_def by blast
qed

definition sample_ledger :: "unit ledger_client" where
  "sample_ledger = \<lparr>lc_base_url = ''http://l/'', lc_http = ()\<rparr>"

text \<open>A hostile tenant that tries to widen the limit.\<close>

definition hostile_request :: http_request where
  "hostile_request = request GET (''http://l/cases'' @ query_start ''limit'' ''5''
     @ amp ''status'' (percent_encode ''open&limit=9''))"

theorem ledger_queries_exact_witness:
  "segments ''http://l/'' (hr_url hostile_request) = Some [''cases'']
     \<and> query_pairs (hr_url hostile_request) = [(''limit'', Some ''5''), (''status'', Some ''open&limit=9'')]"
proof -
  have five: "show_i64 5 = ''5''" by code_simp
  have join: "ledger_join sample_libs sample_ledger path = Inr (''http://l/'' @ path)" for path
    by (simp add: ledger_join_def join_endpoint_def sample_ledger_def) (simp add: sample_libs_def)
  have "runs (forgetP (list_cases sample_libs sample_ledger (Some ''open&limit=9'') 5))
      [Sent hostile_request (Inl ''timeout'')] (Inl (Transport ''timeout''))"
    by (simp add: list_cases_def ledger_get_json_def join forgetP_def ledger_read.mapped hostile_request_def
        amp_opt_def five)
  moreover have "plain_base (lc_base_url sample_ledger)"
    by (simp add: sample_ledger_def plain_base_def ends_with_def)
  ultimately obtain url where url: "hostile_request = request GET url"
    "segments (lc_base_url sample_ledger) url = Some [''cases'']"
    "query_pairs url = [(''limit'', Some ''5''), (''status'', Some ''open&limit=9'')]"
    using ledger_queries_exact [OF sample_url_laws sample_join_query_laws _ ledger_query.intros(24)]
    by (fastforce simp: five sel_def)
  moreover have "hr_url hostile_request = url" unfolding url by simp
  ultimately show ?thesis by (simp add: sample_ledger_def)
qed

section \<open>Writes to a case\<close>

inductive case_write :: "libs \<Rightarrow> 'p ledger_client \<Rightarrow> (clavenar_error, unit) prog \<Rightarrow> bool" for L c where
  "case_write L c (append_case_timeline L c i ev)"
| "case_write L c (set_case_status L c i st)"
| "case_write L c (attach_case L c i agents cids)"

lemma posted_unit:
  assumes "json_parse L ''null'' = Some JNull"
    and "runs (ledger_post_json L c dec_unit path body) [Sent q (Inr resp)] r"
    and "read_text_limited resp = Inr raw"
  shows "(r = Inr () \<longleftrightarrow> is_success (hs_status resp) \<and> (trim raw = [] \<or> json_parse L raw = Some JNull))
    \<and> (\<not> is_success (hs_status resp) \<longrightarrow> r = Inl (Server (hs_status resp) raw))"
proof -
  have null: "dec_unit j = Some () \<longleftrightarrow> j = JNull" for j by (cases j) simp_all
  have "r = read_posted L dec_unit resp"
    using assms(2) unfolding ledger_post_json_def by (cases "ledger_join L c path") (auto simp: ledger_posted.one_request)
  with assms(1,3) show ?thesis
    by (auto simp: read_posted_def from_str_Inr null)
qed

text \<open>C40: appending to a case, changing its status or attaching to it is acknowledged exactly on a 2xx
  whose body is blank or the JSON null; any other status is an error that keeps the status and the
  body verbatim, and a 2xx with another document is a decoding error, not a silent success.\<close>

theorem case_writes_acknowledged:
  assumes "json_parse L ''null'' = Some JNull" and "case_write L c p"
    and "runs p [Sent q (Inr resp)] r" and "read_text_limited resp = Inr raw"
  shows "(r = Inr () \<longleftrightarrow> is_success (hs_status resp) \<and> (trim raw = [] \<or> json_parse L raw = Some JNull))
    \<and> (\<not> is_success (hs_status resp) \<longrightarrow> r = Inl (Server (hs_status resp) raw))"
  using assms(2,1,3,4)
  by (induction rule: case_write.induct)
    (unfold append_case_timeline_def set_case_status_def attach_case_def, (rule posted_unit; assumption)+)

section \<open>The regulatory archive\<close>

lemma read_body_limited_Inr:
  assumes "read_body_limited resp limit = Inr bytes"
  shows "length bytes \<le> unat limit \<and> list_all is_ok (hs_chunks resp) \<and> bytes = concat (map projr (hs_chunks resp))"
  using assms read_chunks_bound [of limit "[]" "hs_chunks resp" bytes]
  by (auto simp: read_body_limited_def read_chunks_Inr split: if_splits)

text \<open>C39: an archive is only ever requested for a tenant: without one nothing is sent. What is answered
  is the body of one 2xx response, complete and unchanged, and never more than 64 MiB; every
  other status is an error.\<close>

theorem regulatory_export_bounded:
  assumes "runs (regulatory_export L c from to opts) es r"
  shows "(ro_tenant opts = None \<longrightarrow> es = [] \<and> (\<exists>m. r = Inl (InvalidConfig m)))
    \<and> (\<forall>bytes. r = Inr bytes \<longrightarrow> (\<exists>q resp tenant. es = [Sent q (Inr resp)] \<and> ro_tenant opts = Some tenant
         \<and> is_success (hs_status resp) \<and> list_all is_ok (hs_chunks resp)
         \<and> bytes = concat (map projr (hs_chunks resp)) \<and> length bytes \<le> 64 * 1024 * 1024))"
proof (cases "ro_tenant opts")
  case None
  with assms show ?thesis by (auto simp: regulatory_export_def)
next
  case (Some tenant)
  have "\<exists>q resp. es = [Sent q (Inr resp)] \<and> read_archive resp = Inr bytes" if "r = Inr bytes" for bytes
    using assms that Some
    by (cases "ledger_join L c (regulatory_path L from to opts tenant)")
      (auto simp: regulatory_export_def ledger_archive.success)
  moreover have "is_success (hs_status resp) \<and> read_body_limited resp BINARY_RESPONSE_BODY_LIMIT = Inr bytes"
    if "read_archive resp = Inr bytes" for resp bytes
    using that by (auto simp: read_archive_def bindR_Inr split: if_splits)
  moreover have "unat BINARY_RESPONSE_BODY_LIMIT = 64 * 1024 * 1024"
    by (simp add: BINARY_RESPONSE_BODY_LIMIT_def)
  ultimately show ?thesis
    using Some read_body_limited_Inr by fastforce
qed

section \<open>Witnesses\<close>

text \<open>A reply whose body arrives in two chunks, and one the ledger leaves empty.\<close>

definition two_chunks :: "nat \<Rightarrow> http_response" where
  "two_chunks status = \<lparr>hs_status = status, hs_headers = [], hs_content_length = None, hs_chunks = [Inr ''PK'', Inr ''zip'']\<rparr>"

definition no_body :: "nat \<Rightarrow> http_response" where
  "no_body status = \<lparr>hs_status = status, hs_headers = [], hs_content_length = None, hs_chunks = []\<rparr>"

definition export_options :: regulatory_export_options where
  "export_options = \<lparr>ro_tenant = Some ''acme'', ro_readme = None, ro_include_exports = False, ro_include_compliance = False\<rparr>"

theorem regulatory_export_bounded_witness:
  "\<exists>q. runs (regulatory_export sample_libs sample_ledger 1 2 export_options) [Sent q (Inr (two_chunks 200))] (Inr ''PKzip'')
     \<and> is_success (hs_status (two_chunks 200))"
proof -
  have join: "ledger_join sample_libs sample_ledger path = Inr (''http://l/'' @ path)" for path
    by (simp add: ledger_join_def join_endpoint_def sample_ledger_def) (simp add: sample_libs_def)
  have "read_archive (two_chunks 200) = Inr ''PKzip''"
    by (simp add: read_archive_def is_success_def two_chunks_def read_body_limited_def BINARY_RESPONSE_BODY_LIMIT_def)
  then obtain q where run: "runs (regulatory_export sample_libs sample_ledger 1 2 export_options)
      [Sent q (Inr (two_chunks 200))] (Inr ''PKzip'')"
    by (auto simp: regulatory_export_def export_options_def join ledger_archive.success)
  from regulatory_export_bounded [OF this] have "is_success (hs_status (two_chunks 200))" by simp
  with run show ?thesis by blast
qed

definition null_libs :: libs where
  "null_libs = sample_libs\<lparr>json_parse := (\<lambda>s. if s = ''null'' then Some JNull else None)\<rparr>"

theorem case_writes_acknowledged_witness:
  "\<exists>q. runs (set_case_status null_libs sample_ledger ''c1'' ''closed'') [Sent q (Inr (no_body 204))] (Inr ())"
proof -
  have join: "ledger_join null_libs sample_ledger path = Inr (''http://l/'' @ path)" for path
    by (simp add: ledger_join_def join_endpoint_def sample_ledger_def null_libs_def) (simp add: sample_libs_def)
  obtain q r where run: "runs (set_case_status null_libs sample_ledger ''c1'' ''closed'') [Sent q (Inr (no_body 204))] r"
    by (auto simp: set_case_status_def ledger_post_json_def join ledger_posted.one_request)
  have "json_parse null_libs ''null'' = Some JNull" by (simp add: null_libs_def)
  moreover have "read_text_limited (no_body 204) = Inr []"
    by (simp add: read_text_limited_def read_body_limited_def no_body_def from_utf8_def)
  ultimately have "r = Inr ()"
    using case_writes_acknowledged [OF _ case_write.intros(2) run] by (simp add: is_success_def no_body_def)
  with run show ?thesis by blast
qed

end
