(* ===== verification/Store_Refine.thy ===== *)
theory Store_Refine
  imports Exec_Store
begin

text \<open>
  What a durable store promises, as an abstract machine, and the in-memory store's
  refinement of it. The machine keeps one phase and the first recorded intent per
  authorization, the set of spent single-use authorizations and the outbox. It has no
  logs and no lists of intents; \<open>abs_store\<close> forgets those of \<open>memory_state\<close>.

  Clients only see a store through its replies, so the refinement is observational: any
  sequence of calls gets the same replies from both.
\<close>

section \<open>Calls and replies\<close>

datatype store_call =
    CallIntent execution_intent
  | CallClaim execution_intent
  | CallBegin execution_intent effect_authorization_use
  | CallLoad uuid
  | CallCommit execution_completion
  | CallPending usize
  | CallMark string receipt_recorded

datatype store_reply =
    Acked "clavenar_error + unit"
  | ClaimReply "clavenar_error + authorization_claim"
  | BeginReply "clavenar_error + effect_attempt_claim"
  | LoadReply "clavenar_error + execution_intent option"
  | CommitReply "clavenar_error + receipt_outbox_entry"
  | PendingReply "clavenar_error + receipt_outbox_entry list"

fun store_answer :: "'s durable_store \<Rightarrow> store_call \<Rightarrow> 's \<Rightarrow> 's \<times> store_reply" where
  "store_answer st (CallIntent i) s = map_prod id Acked (ds_commit_intent st i s)"
| "store_answer st (CallClaim i) s = map_prod id ClaimReply (ds_claim_intent_once st i s)"
| "store_answer st (CallBegin i u) s = map_prod id BeginReply (ds_begin_effect_attempt st i u s)"
| "store_answer st (CallLoad a) s = map_prod id LoadReply (ds_load_uncertain_intent st a s)"
| "store_answer st (CallCommit c) s = map_prod id CommitReply (ds_commit_effect st c s)"
| "store_answer st (CallPending n) s = map_prod id PendingReply (ds_pending_receipts st n s)"
| "store_answer st (CallMark k m) s = map_prod id Acked (ds_mark_delivered st k m s)"

fun replies :: "('c \<Rightarrow> 's \<Rightarrow> 's \<times> 'r) \<Rightarrow> 'c list \<Rightarrow> 's \<Rightarrow> 'r list" where
  "replies f [] s = []"
| "replies f (c # cs) s = (case f c s of (s', r) \<Rightarrow> r # replies f cs s')"

text \<open>A functional simulation makes the replies equal.\<close>

lemma replies_simulate:
  assumes "\<And>c s s' r. ok s \<Longrightarrow> f c s = (s', r) \<Longrightarrow> ok s' \<and> g c (\<alpha> s) = (\<alpha> s', r)"
  shows "ok s \<Longrightarrow> replies f cs s = replies g cs (\<alpha> s)"
proof (induction cs arbitrary: s)
  case Nil
  then show ?case by simp
next
  case (Cons c cs)
  obtain s' r where "f c s = (s', r)" by (cases "f c s")
  with assms [OF Cons.prems this] Cons.IH show ?case by simp
qed

section \<open>The abstract machine\<close>

text \<open>
  An authorization is \<open>Fresh\<close>, then \<open>Running\<close> from the start of its attempt to the commit
  of its completion, then \<open>Settled\<close>.
\<close>

datatype phase = Fresh | Running | Settled

fun rank :: "phase \<Rightarrow> nat" where
  "rank Fresh = 0"
| "rank Running = 1"
| "rank Settled = 2"

text \<open>The phases in the order an authorization goes through them.\<close>

instantiation phase :: linorder
begin

definition less_eq_phase :: "phase \<Rightarrow> phase \<Rightarrow> bool" where
  "less_eq_phase p q \<longleftrightarrow> rank p \<le> rank q"

definition less_phase :: "phase \<Rightarrow> phase \<Rightarrow> bool" where
  "less_phase p q \<longleftrightarrow> rank p < rank q"

instance
proof
  show "p \<le> q \<Longrightarrow> q \<le> p \<Longrightarrow> p = q" for p q :: phase
    by (cases p; cases q) (simp_all add: less_eq_phase_def)
qed (auto simp: less_eq_phase_def less_phase_def)

end

lemma phase_simps [simp]: "Fresh \<le> p" "p \<le> Settled" "Running \<le> p \<longleftrightarrow> p \<noteq> Fresh"
  by (cases p; simp add: less_eq_phase_def)+

record store_spec =
  sp_phase :: "uuid \<Rightarrow> phase"
  sp_intent :: "uuid \<Rightarrow> execution_intent option"
  sp_spent :: "uuid set"
  sp_outbox :: "receipt_outbox_entry list"
  sp_refuses :: bool

definition remember :: "execution_intent \<Rightarrow> store_spec \<Rightarrow> store_spec" where
  "remember i m = (case sp_intent m (in_authorization_id i) of
     Some _ \<Rightarrow> m
   | None \<Rightarrow> m\<lparr>sp_intent := (sp_intent m)(in_authorization_id i := Some i)\<rparr>)"

definition substituted :: "execution_intent \<Rightarrow> store_spec \<Rightarrow> bool" where
  "substituted i m \<longleftrightarrow> (\<exists>e. sp_intent m (in_authorization_id i) = Some e \<and> \<not> intent_eq e i)"

definition spec_begin ::
  "execution_intent \<Rightarrow> effect_authorization_use \<Rightarrow> (store_spec, clavenar_error, effect_attempt_claim) eff" where
  "spec_begin i u m =
     (if substituted i m then (m, Inl (InvalidConfig ''authorization intent substitution rejected''))
      else case sp_phase m (in_authorization_id i) of
        Settled \<Rightarrow> (m, Inr AlreadyCompleted)
      | Running \<Rightarrow> (m, Inr AlreadyInFlight)
      | Fresh \<Rightarrow>
          if u = SingleUse \<and> in_authorization_id i \<in> sp_spent m then (m, Inr AlreadyInFlight)
          else (let m' = remember i m in
                m'\<lparr>sp_phase := (sp_phase m)(in_authorization_id i := Running),
                   sp_spent := sp_spent m \<union> (if u = SingleUse then {in_authorization_id i} else {})\<rparr>,
                Inr Started))"

definition receipt_entry :: "libs \<Rightarrow> execution_completion \<Rightarrow> receipt_outbox_entry" where
  "receipt_entry L c = \<lparr>ob_outbox_id = ''receipt-'' @ uuid_string L (cp_authorization_id c),
                        ob_receipt = cp_receipt c\<rparr>"

fun spec_answer :: "libs \<Rightarrow> store_call \<Rightarrow> store_spec \<Rightarrow> store_spec \<times> store_reply" where
  "spec_answer L (CallIntent i) m =
     (if sp_refuses m then (m, Acked (Inl (InvalidConfig ''durable intent store unavailable'')))
      else (remember i m, Acked (Inr ())))"
| "spec_answer L (CallClaim i) m =
     (if sp_refuses m then (m, ClaimReply (Inl (InvalidConfig ''durable intent store unavailable'')))
      else if in_authorization_id i \<in> sp_spent m then (m, ClaimReply (Inr AlreadyClaimed))
      else (remember i m\<lparr>sp_spent := insert (in_authorization_id i) (sp_spent m)\<rparr>, ClaimReply (Inr Claimed)))"
| "spec_answer L (CallBegin i u) m =
     (if sp_refuses m then (m, BeginReply (Inl (InvalidConfig ''durable intent store unavailable'')))
      else map_prod id BeginReply (spec_begin i u m))"
| "spec_answer L (CallLoad a) m =
     (m, LoadReply (Inr (if sp_phase m a = Running then sp_intent m a else None)))"
| "spec_answer L (CallCommit c) m =
     (m\<lparr>sp_phase := (sp_phase m)(cp_authorization_id c := Settled),
        sp_outbox := sp_outbox m @ [receipt_entry L c]\<rparr>, CommitReply (Inr (receipt_entry L c)))"
| "spec_answer L (CallPending n) m = (m, PendingReply (Inr (take (unat n) (sp_outbox m))))"
| "spec_answer L (CallMark k r) m =
     (if k \<in> ob_outbox_id ` set (sp_outbox m)
      then (m\<lparr>sp_outbox := takeWhile (\<lambda>e. ob_outbox_id e \<noteq> k) (sp_outbox m)
                @ tl (dropWhile (\<lambda>e. ob_outbox_id e \<noteq> k) (sp_outbox m))\<rparr>, Acked (Inr ()))
      else (m, Acked (Inl (InvalidConfig ''receipt outbox entry is not pending''))))"

section \<open>The simulation\<close>

definition abs_store :: "memory_state \<Rightarrow> store_spec" where
  "abs_store s = \<lparr>
     sp_phase = (\<lambda>a. if a \<in> ms_completed s then Settled else if a \<in> ms_in_flight s then Running else Fresh),
     sp_intent = (\<lambda>a. intent_for a (ms_intents s)),
     sp_spent = ms_claimed s,
     sp_outbox = ms_pending s,
     sp_refuses = ms_fail_intent s \<rparr>"

definition store_inv :: "memory_state \<Rightarrow> bool" where
  "store_inv s \<longleftrightarrow> ms_in_flight s \<inter> ms_completed s = {}"

lemma intent_for_snoc:
  "intent_for a (is @ [i]) = (case intent_for a is of Some e \<Rightarrow> Some e
     | None \<Rightarrow> if in_authorization_id i = a then Some i else None)"
  by (induction "is") (auto simp: intent_for_def)

lemma remove_first_spec:
  "remove_first P xs = (if \<exists>x \<in> set xs. P x
     then Some (takeWhile (\<lambda>x. \<not> P x) xs @ tl (dropWhile (\<lambda>x. \<not> P x) xs)) else None)"
  by (induction xs) auto

lemma abs_store_append:
  "(\<lambda>a. intent_for a (ms_intents s @ [i])) = sp_intent (remember i (abs_store s))"
  by (rule ext) (auto simp: remember_def abs_store_def intent_for_snoc split: option.splits)

lemma remember_simps [simp]:
  "sp_phase (remember i m) = sp_phase m" "sp_spent (remember i m) = sp_spent m"
  "sp_outbox (remember i m) = sp_outbox m" "sp_refuses (remember i m) = sp_refuses m"
  by (simp_all add: remember_def split: option.split)

lemma abs_store_simps [simp]:
  "sp_phase (abs_store s) =
     (\<lambda>a. if a \<in> ms_completed s then Settled else if a \<in> ms_in_flight s then Running else Fresh)"
  "sp_intent (abs_store s) = (\<lambda>a. intent_for a (ms_intents s))"
  "sp_spent (abs_store s) = ms_claimed s" "sp_outbox (abs_store s) = ms_pending s"
  "sp_refuses (abs_store s) = ms_fail_intent s"
  by (simp_all add: abs_store_def)

lemma substituted_abs:
  "substituted i (abs_store s) \<longleftrightarrow> (case intent_for (in_authorization_id i) (ms_intents s) of
     None \<Rightarrow> False | Some existing \<Rightarrow> \<not> intent_eq existing i)"
  by (simp add: substituted_def split: option.split)

lemma begin_simulates:
  assumes "store_inv s" "mem_begin_effect_attempt i u s = (s', r)"
  shows "store_inv s' \<and> spec_answer L (CallBegin i u) (abs_store s) = (abs_store s', BeginReply r)"
  using assms unfolding mem_begin_effect_attempt_def spec_answer.simps spec_begin_def substituted_abs Let_def
  by (auto simp: store_inv_def abs_store_append split: if_splits intro!: store_spec.equality ext)

lemma store_simulates:
  assumes "store_inv s" "store_answer (memory_store L) c s = (s', r)"
  shows "store_inv s' \<and> spec_answer L c (abs_store s) = (abs_store s', r)"
proof (cases c)
  case (CallBegin i u)
  with assms(2) obtain q where "mem_begin_effect_attempt i u s = (s', q)" "r = BeginReply q"
    by (auto simp: memory_store_def map_prod_def split: prod.splits)
  with begin_simulates [OF assms(1) this(1)] CallBegin show ?thesis by simp
qed (use assms in \<open>auto simp: memory_store_def mem_commit_intent_def mem_claim_intent_once_def
  mem_load_uncertain_intent_def mem_commit_effect_def mem_pending_receipts_def mem_mark_delivered_def
  store_inv_def remove_first_spec Let_def abs_store_append receipt_entry_def split: if_splits
  intro!: store_spec.equality ext\<close>)

section \<open>The refinement\<close>

definition spec_empty :: "bool \<Rightarrow> store_spec" where
  "spec_empty b = \<lparr>sp_phase = (\<lambda>_. Fresh), sp_intent = (\<lambda>_. None), sp_spent = {}, sp_outbox = [], sp_refuses = b\<rparr>"

fun starts :: "uuid \<Rightarrow> store_call \<Rightarrow> store_reply \<Rightarrow> bool" where
  "starts a (CallBegin i u) r \<longleftrightarrow> in_authorization_id i = a \<and> r = BeginReply (Inr Started)"
| "starts a _ r \<longleftrightarrow> False"

definition times_started :: "uuid \<Rightarrow> store_call list \<Rightarrow> store_reply list \<Rightarrow> nat" where
  "times_started a cs rs = length (filter (\<lambda>(c, r). starts a c r) (zip cs rs))"

lemma times_started_Cons:
  "times_started a (c # cs) (r # rs) = (if starts a c r then 1 else 0) + times_started a cs rs"
  by (simp add: times_started_def)

text \<open>A phase is never left backwards, and only a fresh authorization is started.\<close>

lemma spec_begin_phase:
  "spec_begin i u m = (m', r) \<Longrightarrow>
     (r = Inr Started \<longrightarrow> sp_phase m (in_authorization_id i) = Fresh \<and> sp_phase m' (in_authorization_id i) = Running)
     \<and> sp_phase m a \<le> sp_phase m' a"
  by (auto simp: spec_begin_def Let_def split: if_splits phase.splits)

lemma spec_step_phase:
  assumes "spec_answer L c m = (m', r)"
  shows "starts a c r \<Longrightarrow> sp_phase m a = Fresh \<and> Running \<le> sp_phase m' a"
    and "sp_phase m a \<le> sp_phase m' a"
  using assms
  by (cases c; auto split: if_splits prod.splits simp: map_prod_def dest: spec_begin_phase [where a = a])+

lemma spec_starts_once:
  "times_started a cs (replies (spec_answer L) cs m) \<le> (if sp_phase m a = Fresh then 1 else 0)"
proof (induction cs arbitrary: m)
  case Nil
  then show ?case by (simp add: times_started_def)
next
  case (Cons c cs)
  obtain m' r where step: "spec_answer L c m = (m', r)" by (cases "spec_answer L c m")
  have "Running \<le> sp_phase m' a" if "Running \<le> sp_phase m a"
    using that spec_step_phase(2) [OF step] by (rule order_trans)
  with spec_step_phase(1) [OF step] Cons.IH [of m'] step show ?case
    by (auto simp: times_started_Cons split: if_splits)
qed

text \<open>C2: a client of the in-memory store cannot tell it from the abstract machine: whatever
  calls are made, in whatever order, every reply is the machine's, refusals and injected
  failures included. So no sequence of calls starts the effect of one authorization twice.\<close>

theorem mem_store_refines:
  "replies (store_answer (memory_store L)) cs (memory_empty\<lparr>ms_fail_intent := b\<rparr>)
     = replies (spec_answer L) cs (spec_empty b)
   \<and> times_started a cs (replies (store_answer (memory_store L)) cs (memory_empty\<lparr>ms_fail_intent := b\<rparr>)) \<le> 1"
proof -
  have "abs_store (memory_empty\<lparr>ms_fail_intent := b\<rparr>) = spec_empty b"
    by (simp add: abs_store_def memory_empty_def spec_empty_def intent_for_def)
  moreover have "store_inv (memory_empty\<lparr>ms_fail_intent := b\<rparr>)" by (simp add: store_inv_def memory_empty_def)
  ultimately have "replies (store_answer (memory_store L)) cs (memory_empty\<lparr>ms_fail_intent := b\<rparr>)
      = replies (spec_answer L) cs (spec_empty b)"
    using replies_simulate [of store_inv "store_answer (memory_store L)" "spec_answer L" abs_store]
      store_simulates by metis
  moreover have "times_started a cs (replies (spec_answer L) cs (spec_empty b)) \<le> 1"
    using spec_starts_once [of a cs L "spec_empty b"] by (simp split: if_splits)
  ultimately show ?thesis by simp
qed

end
