(* ===== verification/Exec_Claims2.thy ===== *)
theory Exec_Claims2
  imports Exec_Claims
begin

text \<open>
  Further properties of SDK-governed execution: what an executor call rests on, failing
  closed without the required dependencies, pending reviews and resuming them.
\<close>

section \<open>Supporting facts\<close>

text \<open>
  \<open>rests_on H p\<close>: whenever \<open>p\<close> calls the executor, the call is of a granted decision whose
  request is in \<open>H\<close> or was sent by \<open>p\<close> before, and directly follows its own Started reply.
\<close>

definition granted :: "libs \<Rightarrow> ('n, 's, 'x) clavenar_client \<Rightarrow> signed_authorization \<Rightarrow> event \<Rightarrow> bool" where
  "granted L c sa e \<longleftrightarrow> (\<exists>endpoint u body h resp.
     e = Sent (decision_request L c endpoint u body h) (Inr resp)
     \<and> read_decision L u body h resp = Inr (Authorized sa))"

definition rests_on :: "libs \<Rightarrow> ('n, 's, 'x) clavenar_client \<Rightarrow> event set \<Rightarrow> ('e, 'a) prog \<Rightarrow> bool" where
  "rests_on L c H p \<longleftrightarrow> (\<forall>es r q z. runs p es r \<longrightarrow> Executed q z \<in> set es \<longrightarrow>
     (\<exists>ex sa pre use post. cl_tool_executor c = Some ex
        \<and> es = pre @ [Begun (intent_of (ex_id ex) sa) use (Inr Started), Executed q z] @ post
        \<and> q = execution_request (ex_id ex) sa
        \<and> (\<exists>e \<in> H \<union> set pre. granted L c sa e)))"

lemma rests_on_quiet: "never_executes p \<Longrightarrow> rests_on L c H p"
  using never_executes_runs by (fastforce simp: rests_on_def)

lemma rests_on_bindP:
  assumes "never_executes p"
    and "\<And>es x. runs p es (Inr x) \<Longrightarrow> rests_on L c (H \<union> set es) (f x)"
  shows "rests_on L c H (bindP p f)"
  unfolding rests_on_def
proof (intro allI impI)
  fix es r q z
  assume run: "runs (bindP p f) es r" and exec: "Executed q z \<in> set es"
  have quiet: "Executed q z \<notin> set es'" if "runs p es' r'" for es' r'
    using never_executes_runs [OF assms(1) that] .
  from run exec quiet obtain es1 es2 x where es: "es = es1 @ es2" and p: "runs p es1 (Inr x)"
    and f: "runs (f x) es2 r"
    by (cases r) (auto simp: runs_bindP_Inr runs_bindP_Inl)
  have "Executed q z \<in> set es2" using exec quiet [OF p] by (simp add: es)
  with assms(2) [OF p] f obtain ex sa pre use post where "cl_tool_executor c = Some ex"
    "es2 = pre @ [Begun (intent_of (ex_id ex) sa) use (Inr Started), Executed q z] @ post"
    "q = execution_request (ex_id ex) sa" "\<exists>e \<in> H \<union> set es1 \<union> set pre. granted L c sa e"
    unfolding rests_on_def by blast
  then show "\<exists>ex sa pre use post. cl_tool_executor c = Some ex
        \<and> es = pre @ [Begun (intent_of (ex_id ex) sa) use (Inr Started), Executed q z] @ post
        \<and> q = execution_request (ex_id ex) sa
        \<and> (\<exists>e \<in> H \<union> set pre. granted L c sa e)"
    by (intro exI [of _ ex] exI [of _ sa] exI [of _ "es1 @ pre"] exI [of _ use] exI [of _ post]) (auto simp: es)
qed

lemma rests_on_tryP: "(\<And>x. r = Inr x \<Longrightarrow> rests_on L c H (f x)) \<Longrightarrow> rests_on L c H (tryP r f)"
  by (cases r) (auto simp: rests_on_def)

lemma rests_on_mapP: "rests_on L c H p \<Longrightarrow> rests_on L c H (mapP f p)"
  unfolding rests_on_def
proof (intro allI impI)
  fix es r q z
  assume hyp: "\<forall>es r q z. runs p es r \<longrightarrow> Executed q z \<in> set es \<longrightarrow>
     (\<exists>ex sa pre use post. cl_tool_executor c = Some ex
        \<and> es = pre @ [Begun (intent_of (ex_id ex) sa) use (Inr Started), Executed q z] @ post
        \<and> q = execution_request (ex_id ex) sa \<and> (\<exists>e \<in> H \<union> set pre. granted L c sa e))"
    and "runs (mapP f p) es r" "Executed q z \<in> set es"
  then obtain r' where "runs p es r'" by (cases r) (auto simp: runs_mapP)
  with hyp \<open>Executed q z \<in> set es\<close> show "\<exists>ex sa pre use post. cl_tool_executor c = Some ex
        \<and> es = pre @ [Begun (intent_of (ex_id ex) sa) use (Inr Started), Executed q z] @ post
        \<and> q = execution_request (ex_id ex) sa \<and> (\<exists>e \<in> H \<union> set pre. granted L c sa e)" by blast
qed

lemma rests_on_forget: "rests_on L c H p \<Longrightarrow> rests_on L c H (forget p)"
  unfolding rests_on_def runs_forget by blast

lemma after_execution_quiet: "after_execution L c ex key sa v es r \<Longrightarrow> Executed q z \<notin> set es"
  by (auto simp: after_execution_def Let_def completion_trace_def split: sum.splits if_splits
      dest: never_executes_runs [OF quiet_complete])

lemma rests_on_execute:
  assumes "cl_tool_executor c = Some ex" "e \<in> H" "granted L c sa e"
  shows "rests_on L c H (execute_authorization L c ex key sa su)"
  unfolding rests_on_def
proof (intro allI impI)
  fix es r q z
  assume "runs (execute_authorization L c ex key sa su) es r" "Executed q z \<in> set es"
  then obtain es' where "es = Begun (intent_of (ex_id ex) sa) (use_of su) (Inr Started) # Executed q z # es'"
    "q = execution_request (ex_id ex) sa"
    by (auto simp: runs_execute_authorization Let_def dest: after_execution_quiet)
  with assms show "\<exists>ex sa pre use post. cl_tool_executor c = Some ex
        \<and> es = pre @ [Begun (intent_of (ex_id ex) sa) use (Inr Started), Executed q z] @ post
        \<and> q = execution_request (ex_id ex) sa \<and> (\<exists>e \<in> H \<union> set pre. granted L c sa e)"
    by (intro exI [of _ ex] exI [of _ sa] exI [of _ "[]"] exI [of _ "use_of su"] exI [of _ es']) auto
qed

lemma grantedI: "read_decision L u body h resp = Inr (Authorized sa) \<Longrightarrow>
    granted L c sa (Sent (decision_request L c endpoint u body h) (Inr resp))"
  unfolding granted_def by blast

lemma rests_on_Return [simp]: "rests_on L c H (Return r)"
  by (simp add: rests_on_def)

lemma authorize_state_grants:
  assumes "runs (authorize_payload_state L c u body h) es (Inr (Authorized sa))"
  shows "\<exists>e \<in> set es. granted L c sa e"
  using assms by (auto simp: runs_authorize_state intro: grantedI)

lemma authorize_tool_grants:
  assumes "runs (authorize_tool L c u n a) es (Inr sa)"
  shows "\<exists>e \<in> set es. granted L c sa e"
  using assms by (auto simp: authorize_tool_def runs_authorize_payload intro: grantedI)

lemma authorize_tool_batch_grants:
  assumes "runs (authorize_tool_batch L c u calls) es (Inr sa)"
  shows "\<exists>e \<in> set es. granted L c sa e"
  using assms
  by (auto simp: authorize_tool_batch_def runs_tryP_Inr runs_bindP_Inr runs_authorize_payload Let_def
      intro: grantedI)

lemma dependencies_executor:
  "runs (execution_dependencies c) es (Inr (ex, key)) \<Longrightarrow> cl_tool_executor c = Some ex"
  by (simp add: runs_dependencies equipped_def)

lemmas rests_rules = rests_on_tryP rests_on_bindP rests_on_mapP

lemma rests_on_execute_state:
  assumes "cl_tool_executor c = Some ex" "runs (authorize_payload_state L c u body h) es (Inr (Authorized sa))"
  shows "rests_on L c (H \<union> set es) (execute_authorization L c ex key sa su)"
  using authorize_state_grants [OF assms(2)] assms(1) by (auto intro: rests_on_execute)

lemma rests_on_operations:
  "rests_on L c H (execute_tool L c u n a)"
  "rests_on L c H (execute_tool_batch L c u calls)"
  "rests_on L c H (begin_prepared_tool_execution L c p)"
  "rests_on L c H (resume_prepared_tool_execution L c p h)"
  "rests_on L c H (begin_prepared_tool_batch_execution L c b)"
  "rests_on L c H (resume_prepared_tool_batch_execution L c b h)"
proof -
  show "rests_on L c H (execute_tool L c u n a)"
    unfolding execute_tool_def
    by (auto split: prod.split intro!: rests_rules dest!: dependencies_executor authorize_tool_grants
        intro: rests_on_execute)
  show "rests_on L c H (execute_tool_batch L c u calls)"
    unfolding execute_tool_batch_def
    by (auto split: prod.split intro!: rests_rules dest!: dependencies_executor authorize_tool_batch_grants
        intro: rests_on_execute)
qed (auto simp: begin_prepared_tool_execution_def resume_prepared_tool_execution_def
      begin_prepared_tool_batch_execution_def resume_prepared_tool_batch_execution_def Let_def
      split: prod.split authorization_state.split
      intro!: rests_rules rests_on_execute_state dest!: dependencies_executor intro: rests_on_quiet)

lemma sdk_operation_rests_on: "sdk_operation L c p \<Longrightarrow> rests_on L c H p"
  by (induction rule: sdk_operation.induct)
    (auto simp: execute_prepared_tool_def execute_prepared_tool_batch_def
      intro!: rests_on_forget rests_on_tryP rests_on_operations intro: rests_on_quiet)

section \<open>What an executor call rests on\<close>

text \<open>C5: whenever an SDK operation calls the executor, the call directly follows the durable
  Started reply for its own intent, carries the authorization's identifiers and payload, and
  rests on an earlier decision response that passed validation: the right contract, stage,
  idempotency identity, payload digest and signature algorithm, and, when the authorization
  claims no modification, the very payload that was requested.\<close>

theorem executor_called_only_when_granted:
  assumes "sdk_operation L c p" and "runs p es r" and "Executed q z \<in> set es"
  shows "\<exists>ex sa pre use post endpoint u body h resp.
    cl_tool_executor c = Some ex
    \<and> es = pre @ [Begun (intent_of (ex_id ex) sa) use (Inr Started), Executed q z] @ post
    \<and> q = execution_request (ex_id ex) sa
    \<and> Sent (decision_request L c endpoint u body h) (Inr resp) \<in> set pre
    \<and> hs_status resp = 200 \<and> accepts_authorization L sa u
    \<and> (az_modification_diff (authorization sa) = None \<longrightarrow>
         value_eq (az_execution_payload (authorization sa)) body)
    \<and> (\<forall>p. h = Some p \<longrightarrow> az_correlation_id (authorization sa) = pa_correlation_id p)"
proof -
  from sdk_operation_rests_on [OF assms(1), of "{}"] assms(2,3) obtain ex sa pre use post e where
    "cl_tool_executor c = Some ex" "q = execution_request (ex_id ex) sa"
    "es = pre @ [Begun (intent_of (ex_id ex) sa) use (Inr Started), Executed q z] @ post"
    "e \<in> set pre" "granted L c sa e"
    unfolding rests_on_def by blast
  moreover from \<open>granted L c sa e\<close> obtain endpoint u body h resp where
    "e = Sent (decision_request L c endpoint u body h) (Inr resp)"
    and read: "read_decision L u body h resp = Inr (Authorized sa)" by (auto simp: granted_def)
  moreover note read_decision_Authorized(1-4) [OF read]
  ultimately show ?thesis by (metis (no_types))
qed

theorem executor_called_only_when_granted_witness:
  "\<exists>ex sa pre use post endpoint u body h resp.
    cl_tool_executor sample_client = Some ex
    \<and> sample_trace = pre @ [Begun (intent_of (ex_id ex) sa) use (Inr Started),
        Executed (execution_request ''exec'' sample_auth) (Inr sample_effect)] @ post
    \<and> execution_request ''exec'' sample_auth = execution_request (ex_id ex) sa
    \<and> Sent (decision_request SL sample_client endpoint u body h) (Inr resp) \<in> set pre
    \<and> hs_status resp = 200 \<and> accepts_authorization SL sa u
    \<and> (az_modification_diff (authorization sa) = None \<longrightarrow>
         value_eq (az_execution_payload (authorization sa)) body)
    \<and> (\<forall>p. h = Some p \<longrightarrow> az_correlation_id (authorization sa) = pa_correlation_id p)"
proof (rule executor_called_only_when_granted [OF sdk_operation.intros(5)])
  show "runs (forget (execute_tool SL sample_client 7 ''read_file'' JNull)) sample_trace (Inr ())"
    using sample_runs by (auto simp: runs_forget)
qed (simp add: sample_trace_def)

section \<open>Failing closed\<close>

text \<open>The operations that can reach an executor or an effect.\<close>

inductive effect_operation :: "libs \<Rightarrow> ('n, 's, 'x) clavenar_client \<Rightarrow> (unit, unit) prog \<Rightarrow> bool"
  for L c where
  "effect_operation L c (forget (execute_tool L c u name args))"
| "effect_operation L c (forget (execute_prepared_tool L c prepared))"
| "effect_operation L c (forget (execute_tool_batch L c u calls))"
| "effect_operation L c (forget (execute_prepared_tool_batch L c prepared_batch))"
| "effect_operation L c (forget (begin_prepared_tool_execution L c prepared))"
| "effect_operation L c (forget (resume_prepared_tool_execution L c prepared pending))"
| "effect_operation L c (forget (begin_prepared_tool_batch_execution L c prepared_batch))"
| "effect_operation L c (forget (resume_prepared_tool_batch_execution L c prepared_batch pending))"
| "effect_operation L c (forget (reconcile_uncertain_effect L c uncertain))"

definition fails_closed :: "('n, 's, 'x) clavenar_client \<Rightarrow> (clavenar_error, 'a) prog \<Rightarrow> bool" where
  "fails_closed c p \<longleftrightarrow> (\<forall>es r. runs p es r \<longrightarrow>
     (\<exists>ex key rest. equipped c ex key \<and> es = AskedReconciliation True # rest)
     \<or> ((es = [] \<or> es = [AskedReconciliation False]) \<and> (\<exists>m. r = Inl (InvalidConfig m))))"

lemma fails_closed_dependencies: "fails_closed c (bindP (execution_dependencies c) f)"
  unfolding fails_closed_def
proof (intro allI impI)
  fix es r
  assume run: "runs (bindP (execution_dependencies c) f) es r"
  show "(\<exists>ex key rest. equipped c ex key \<and> es = AskedReconciliation True # rest)
     \<or> ((es = [] \<or> es = [AskedReconciliation False]) \<and> (\<exists>m. r = Inl (InvalidConfig m)))"
  proof (cases r)
    case (Inr y)
    with run show ?thesis by (auto simp: runs_bindP_Inr runs_dependencies)
  next
    case (Inl e)
    with run show ?thesis
      using runs_dependencies_Inl [of c es e] by (auto simp: runs_bindP_Inl runs_dependencies)
  qed
qed

lemma fails_closed_tryP:
  "(\<And>e. r = Inl e \<Longrightarrow> \<exists>m. e = InvalidConfig m) \<Longrightarrow> (\<And>x. fails_closed c (f x)) \<Longrightarrow> fails_closed c (tryP r f)"
  unfolding fails_closed_def by (cases r) auto

lemma validate_request_error: "validate_request p = Inl e \<Longrightarrow> \<exists>m. e = InvalidConfig m"
  by (auto simp: validate_request_def validate_tool_name_def reject_if_Inl)

lemma check_calls_error: "check_calls ids calls = Inl e \<Longrightarrow> \<exists>m. e = InvalidConfig m"
  by (induction ids calls rule: check_calls.induct) (auto split: if_splits)

lemma validate_batch_error: "validate_batch b = Inl e \<Longrightarrow> \<exists>m. e = InvalidConfig m"
  by (auto simp: validate_batch_def validate_model_tool_calls_def dest: check_calls_error split: if_splits)

lemma validate_uncertain_error: "validate_uncertain_execution u = Inl e \<Longrightarrow> \<exists>m. e = InvalidConfig m"
  by (auto simp: validate_uncertain_execution_def validate_executor_id_def bindR_def reject_if_Inl
      split: sum.splits)

lemmas fails_closed_rules = fails_closed_tryP fails_closed_dependencies
  validate_request_error validate_batch_error validate_uncertain_error

lemma fails_closed_operations:
  "fails_closed c (execute_tool L c u n a)"
  "fails_closed c (execute_tool_batch L c u calls)"
  "fails_closed c (begin_prepared_tool_execution L c p)"
  "fails_closed c (resume_prepared_tool_execution L c p h)"
  "fails_closed c (begin_prepared_tool_batch_execution L c b)"
  "fails_closed c (resume_prepared_tool_batch_execution L c b h)"
  "fails_closed c (reconcile_uncertain_effect L c v)"
  unfolding execute_tool_def execute_tool_batch_def begin_prepared_tool_execution_def
    resume_prepared_tool_execution_def begin_prepared_tool_batch_execution_def
    resume_prepared_tool_batch_execution_def reconcile_uncertain_effect_def
  by (intro fails_closed_rules; assumption?)+

definition touches_nothing_unless_equipped ::
  "('n, 's, 'x) clavenar_client \<Rightarrow> (unit, unit) prog \<Rightarrow> bool" where
  "touches_nothing_unless_equipped c p \<longleftrightarrow> (\<forall>es r. runs p es r \<longrightarrow>
     (\<exists>ex key rest. equipped c ex key \<and> es = AskedReconciliation True # rest)
     \<or> es = [] \<or> es = [AskedReconciliation False])"

lemma fails_closed_forget: "fails_closed c p \<Longrightarrow> touches_nothing_unless_equipped c (forget p)"
  unfolding fails_closed_def touches_nothing_unless_equipped_def runs_forget by blast

lemma effect_operation_closed: "effect_operation L c p \<Longrightarrow> touches_nothing_unless_equipped c p"
  by (induction rule: effect_operation.induct)
    (auto simp: execute_prepared_tool_def execute_prepared_tool_batch_def
      intro!: fails_closed_forget fails_closed_operations fails_closed_tryP
      dest: validate_request_error validate_batch_error)

text \<open>C6: an operation that could reach an effect touches nothing, not even the network, unless
  the client carries a valid executor, a signing key and a durable store, and the store says
  it supports uncertain-effect reconciliation. Otherwise its only possible event is that
  question, answered no.\<close>

theorem effect_operations_fail_closed:
  assumes "effect_operation L c p" and "runs p es r"
  shows "(\<exists>ex key rest. equipped c ex key \<and> es = AskedReconciliation True # rest)
    \<or> es = [] \<or> es = [AskedReconciliation False]"
  using effect_operation_closed [OF assms(1)] assms(2)
  unfolding touches_nothing_unless_equipped_def by blast

theorem effect_operations_fail_closed_witness:
  "(\<forall>ex key. \<not> equipped (sample_client\<lparr>cl_tool_executor := None\<rparr>) ex key)
   \<and> ((\<exists>ex key rest. equipped (sample_client\<lparr>cl_tool_executor := None\<rparr>) ex key
        \<and> [] = AskedReconciliation True # rest)
      \<or> ([] :: event list) = [] \<or> [] = [AskedReconciliation False])"
proof
  show "\<forall>ex key. \<not> equipped (sample_client\<lparr>cl_tool_executor := None\<rparr>) ex key" by (simp add: equipped_def)
  have "runs (execute_tool SL (sample_client\<lparr>cl_tool_executor := None\<rparr>) 7 ''read_file'' JNull) []
      (Inl (InvalidConfig ''tool_executor is required for SDK-governed execution''))"
    by (simp add: execute_tool_def execution_dependencies_def required_def)
  then have run: "runs (forget (execute_tool SL (sample_client\<lparr>cl_tool_executor := None\<rparr>) 7 ''read_file'' JNull))
      [] (Inr ())" by (auto simp: runs_forget)
  show "(\<exists>ex key rest. equipped (sample_client\<lparr>cl_tool_executor := None\<rparr>) ex key
        \<and> [] = AskedReconciliation True # rest)
      \<or> ([] :: event list) = [] \<or> [] = [AskedReconciliation False]"
    by (rule effect_operations_fail_closed [OF effect_operation.intros(1) run])
qed

section \<open>Pending reviews\<close>

text \<open>C12: when beginning a prepared tool or batch ends in a pending review, the only events are
  the capability question and one decision request answered 202; no effect was admitted or
  executed, and the handle is valid for exactly this request: contract, identity, payload
  digest, a lifetime of at most a day and a poll interval of at most a minute.\<close>

theorem pending_releases_no_effect:
  assumes "runs (begin_prepared_tool_execution L c p) es (Inr (PendingOutcome h))
    \<or> runs (begin_prepared_tool_batch_execution L c b) es (Inr (PendingOutcome h))"
  shows "\<exists>u body q resp. es = [AskedReconciliation True, Sent q (Inr resp)] \<and> hs_status resp = 202
    \<and> accepts_pending L h u body
    \<and> ((u = ptr_idempotency_id p \<and> body = tool_envelope L u (ptr_name p) (ptr_arguments p))
       \<or> (u = ptb_idempotency_id b \<and> body = atomic_batch_envelope L u (ptb_calls b)))"
proof -
  have state: "\<exists>q resp. es' = [Sent q (Inr resp)] \<and> hs_status resp = 202 \<and> accepts_pending L h u body"
    if "runs (authorize_payload_state L c u body None) es' (Inr (Pending h))" for es' u body
    using that read_decision_Pending [of L u body None _ h] by (auto simp: runs_authorize_state)
  from assms show ?thesis
  proof
    assume "runs (begin_prepared_tool_execution L c p) es (Inr (PendingOutcome h))"
    then obtain es' where "es = AskedReconciliation True # es'"
      "runs (authorize_payload_state L c (ptr_idempotency_id p)
        (tool_envelope L (ptr_idempotency_id p) (ptr_name p) (ptr_arguments p)) None) es' (Inr (Pending h))"
      by (auto simp: begin_prepared_tool_execution_def Let_def runs_tryP_Inr runs_bindP_Inr
          runs_dependencies runs_case_prod runs_case_state runs_mapP)
    with state show ?thesis by blast
  next
    assume "runs (begin_prepared_tool_batch_execution L c b) es (Inr (PendingOutcome h))"
    then obtain es' where "es = AskedReconciliation True # es'"
      "runs (authorize_payload_state L c (ptb_idempotency_id b)
        (atomic_batch_envelope L (ptb_idempotency_id b) (ptb_calls b)) None) es' (Inr (Pending h))"
      by (auto simp: begin_prepared_tool_batch_execution_def Let_def runs_tryP_Inr runs_bindP_Inr
          runs_dependencies runs_case_prod runs_case_state runs_mapP)
    with state show ?thesis by blast
  qed
qed

definition sample_request :: prepared_tool_request where
  "sample_request = \<lparr>ptr_idempotency_id = 7, ptr_name = ''read_file'', ptr_arguments = JNull\<rparr>"

definition sample_batch :: prepared_tool_batch where
  "sample_batch = \<lparr>ptb_idempotency_id = 8, ptb_calls = []\<rparr>"

lemma sample_equipped: "equipped sample_client sample_executor sample_key"
  by (simp add: equipped_def) (simp add: sample_client_def sample_executor_def new_reconciling_def
      is_ascii_graphic_def byte_def sample_key_def)

lemma sample_request_simps [simp]: "ptr_idempotency_id sample_request = 7"
  "validate_request sample_request = Inr ()"
  "tool_envelope sample_libs 7 (ptr_name sample_request) (ptr_arguments sample_request) = sample_payload"
  by (simp_all add: sample_request_def validate_request_def validators sample_payload_def)

lemma sample_pending_run:
  "runs (begin_prepared_tool_execution SL sample_client sample_request)
    [AskedReconciliation True, Sent sample_decision_request (Inr (reply 202 ''pend''))]
    (Inr (PendingOutcome sample_pending))"
  by (auto simp: begin_prepared_tool_execution_def reject_if_def)

theorem pending_releases_no_effect_witness:
  "\<exists>u body q resp. [AskedReconciliation True, Sent sample_decision_request (Inr (reply 202 ''pend''))]
      = [AskedReconciliation True, Sent q (Inr resp)] \<and> hs_status resp = 202
    \<and> accepts_pending SL sample_pending u body
    \<and> ((u = ptr_idempotency_id sample_request
          \<and> body = tool_envelope SL u (ptr_name sample_request) (ptr_arguments sample_request))
       \<or> (u = ptb_idempotency_id sample_batch \<and> body = atomic_batch_envelope SL u (ptb_calls sample_batch)))"
  by (rule pending_releases_no_effect [OF disjI1 [OF sample_pending_run]])

text \<open>Where an attempt is admitted, and with which use.\<close>

definition admits_with :: "effect_authorization_use \<Rightarrow> event list \<Rightarrow> bool" where
  "admits_with use es \<longleftrightarrow> (\<forall>i v z. Begun i v z \<in> set es \<longrightarrow> v = use)"

lemma runs_mapP_any: "runs (mapP f p) es r \<Longrightarrow> \<exists>q. runs p es q"
  by (cases r) (auto simp: runs_mapP)

lemma emits_sendP [simp]: "emits P (sendP q) \<longleftrightarrow> (\<forall>z. P (Sent q z))"
  by (simp add: sendP_def)

text \<open>The events of delivery, completion and execution, up to where they are sent.\<close>

definition delivery_event :: "string \<Rightarrow> event \<Rightarrow> bool" where
  "delivery_event k x \<longleftrightarrow> (\<exists>q z. x = Sent q z) \<or> (\<exists>m z. x = Marked k m z)"

lemma emits_record: "emits (delivery_event k) (record_receipt L c r)"
  by (auto simp: record_receipt_def delivery_event_def intro!: emits_rules)

lemma emits_deliver: "emits (delivery_event (ob_outbox_id e)) (deliver_outbox_entry L c e)"
  by (auto simp: deliver_outbox_entry_def emits_record split: sum.split intro!: emits_rules)
    (auto simp: delivery_event_def)

definition completion_event :: "execution_completion \<Rightarrow> event \<Rightarrow> bool" where
  "completion_event cp x \<longleftrightarrow> (\<exists>k. delivery_event k x) \<or> (\<exists>z. x = Committed cp z)"

lemma emits_complete:
  "emits (completion_event (completion_of L key sa effect i)) (complete_known_effect L c key sa effect i)"
  by (auto simp: complete_known_effect_def map_errP_commit split: sum.split
      intro!: emits_rules emits_mono [OF emits_deliver])
    (auto simp: completion_event_def)

definition attempt_event :: "execution_intent \<Rightarrow> effect_authorization_use \<Rightarrow> event \<Rightarrow> bool" where
  "attempt_event i u x \<longleftrightarrow> (\<exists>k. delivery_event k x)
     \<or> (\<exists>cp z. x = Committed cp z \<and> cp_authorization_id cp = in_authorization_id i)
     \<or> (\<exists>z. x = Begun i u z) \<or> (\<exists>q z. x = Executed q z \<and> rq_authorization_id q = in_authorization_id i)"

lemma emits_execute:
  "emits (attempt_event (intent_of (ex_id ex) sa) (use_of su)) (execute_authorization L c ex key sa su)"
  by (auto simp: execute_authorization_def Let_def use_of_def
      split: sum.split effect_attempt_claim.split known_effect_completion_error.split
      intro!: emits_rules emits_mono [OF emits_complete])
    (auto simp: attempt_event_def completion_event_def intent_of_def execution_request_def completion_of_def Let_def)

lemma emits_authorize_state:
  "(\<And>endpoint z. P (Sent (decision_request L c endpoint u body h) z)) \<Longrightarrow>
   emits P (authorize_payload_state L c u body h)"
  by (auto simp: authorize_payload_state_def intro!: emits_rules)

lemma emits_dependencies: "(\<And>b. P (AskedReconciliation b)) \<Longrightarrow> emits P (execution_dependencies c)"
  by (auto simp: execution_dependencies_def require_uncertain_effect_store_def split: sum.split intro!: emits_rules)

lemma emits_single_use: "(\<And>b. P (AskedSingleUse b)) \<Longrightarrow> emits P require_single_use_store"
  by (simp add: require_single_use_store_def)


lemma emits_resume:
  assumes "\<And>b. P (AskedReconciliation b)" "\<And>b. P (AskedSingleUse b)"
    and "\<And>endpoint body z. P (Sent (decision_request L c endpoint (ptr_idempotency_id p) body (Some h)) z)"
    and "\<And>i x. attempt_event i SingleUse x \<Longrightarrow> P x"
  shows "emits P (resume_prepared_tool_execution L c p h)"
  using assms
  by (auto simp: resume_prepared_tool_execution_def Let_def split: prod.split authorization_state.split
      intro!: emits_rules emits_dependencies emits_single_use emits_authorize_state
        emits_mono [OF emits_execute [where su = True, unfolded use_of_def if_True]])

text \<open>C9: resuming polls with the retained handle: every attempt it admits consumes the
  authorization as single use; while the review is pending it returns the very handle it was
  given, having admitted and executed nothing; and it completes only through a decision for
  that handle's correlation, after the store said it supports single-use claims.\<close>

theorem resume_keeps_the_handle:
  assumes "runs (resume_prepared_tool_execution L c p pending) es r"
  shows "(\<forall>i use z. Begun i use z \<in> set es \<longrightarrow> use = SingleUse)
    \<and> (\<forall>h. r = Inr (PendingOutcome h) \<longrightarrow> h = pending \<and> (\<exists>endpoint body resp.
          es = [AskedReconciliation True, AskedSingleUse True,
            Sent (decision_request L c endpoint (ptr_idempotency_id p) body (Some pending)) (Inr resp)]))
    \<and> (\<forall>out. r = Inr (CompletedOutcome out) \<longrightarrow> (\<exists>ex sa endpoint body resp effect tail.
          es = [AskedReconciliation True, AskedSingleUse True,
            Sent (decision_request L c endpoint (ptr_idempotency_id p) body (Some pending)) (Inr resp),
            Begun (intent_of (ex_id ex) sa) SingleUse (Inr Started),
            Executed (execution_request (ex_id ex) sa) (Inr effect)] @ tail
          \<and> cl_tool_executor c = Some ex
          \<and> az_correlation_id (authorization sa) = pa_correlation_id pending))"
proof (intro conjI allI impI)
  fix i use z
  assume "Begun i use z \<in> set es"
  moreover have "emits (\<lambda>x. \<forall>i v z. x = Begun i v z \<longrightarrow> v = SingleUse)
      (resume_prepared_tool_execution L c p pending)"
    by (rule emits_resume) (auto simp: attempt_event_def delivery_event_def)
  ultimately show "use = SingleUse" using emits_runs assms by blast
next
  fix h
  assume r: "r = Inr (PendingOutcome h)"
  show "h = pending"
    "\<exists>endpoint body resp. es = [AskedReconciliation True, AskedSingleUse True,
      Sent (decision_request L c endpoint (ptr_idempotency_id p) body (Some pending)) (Inr resp)]"
    using assms unfolding r resume_prepared_tool_execution_def Let_def
    by (auto simp: runs_tryP_Inr runs_bindP_Inr runs_dependencies runs_case_prod runs_single_use runs_mapP
        runs_authorize_state runs_case_state runs_if)
next
  fix out
  assume r: "r = Inr (CompletedOutcome out)"
  from assms obtain ex key endpoint body resp sa tail where
    es: "es = [AskedReconciliation True, AskedSingleUse True,
      Sent (decision_request L c endpoint (ptr_idempotency_id p) body (Some pending)) (Inr resp)] @ tail"
    and read: "read_decision L (ptr_idempotency_id p) body (Some pending) resp = Inr (Authorized sa)"
    and exec: "runs (execute_authorization L c ex key sa True) tail (Inr out)"
    and ex: "cl_tool_executor c = Some ex"
    unfolding r resume_prepared_tool_execution_def Let_def
    by (auto simp: runs_tryP_Inr runs_bindP_Inr runs_dependencies runs_case_prod runs_single_use runs_mapP
        runs_authorize_state runs_case_state runs_if equipped_def)
  from exec obtain effect rest where "tail = [Begun (intent_of (ex_id ex) sa) (use_of True) (Inr Started),
      Executed (execution_request (ex_id ex) sa) (Inr effect)] @ rest"
    by (rule runs_execute_success)
  with es read_decision_Authorized(4) [OF read refl]
  show "\<exists>ex sa endpoint body resp effect tail.
          es = [AskedReconciliation True, AskedSingleUse True,
            Sent (decision_request L c endpoint (ptr_idempotency_id p) body (Some pending)) (Inr resp),
            Begun (intent_of (ex_id ex) sa) SingleUse (Inr Started),
            Executed (execution_request (ex_id ex) sa) (Inr effect)] @ tail
          \<and> cl_tool_executor c = Some ex
          \<and> az_correlation_id (authorization sa) = pa_correlation_id pending"
    by (intro exI [of _ ex] exI [of _ sa] exI [of _ endpoint] exI [of _ body] exI [of _ resp]
        exI [of _ effect] exI [of _ rest]) (simp add: use_of_def ex)
qed

lemma sample_validate_pending [simp]: "validate_pending_authorization SL sample_pending 7 sample_payload = Inr ()"
  by (simp only: validators sample_accepted)

lemma sample_resume_run:
  "runs (resume_prepared_tool_execution SL sample_client sample_request sample_pending)
    [AskedReconciliation True, AskedSingleUse True,
     Sent (decision_request SL sample_client ''http://p/mcp'' 7 sample_payload (Some sample_pending))
       (Inr (reply 202 ''pend''))]
    (Inr (PendingOutcome sample_pending))"
  by (auto simp: resume_prepared_tool_execution_def reject_if_def require_single_use_store_def
      authorize_payload_state_def join_endpoint_def sendP_def)

theorem resume_keeps_the_handle_witness:
  "\<exists>endpoint body resp. [AskedReconciliation True, AskedSingleUse True,
      Sent (decision_request SL sample_client ''http://p/mcp'' 7 sample_payload (Some sample_pending))
        (Inr (reply 202 ''pend''))]
    = [AskedReconciliation True, AskedSingleUse True,
      Sent (decision_request SL sample_client endpoint (ptr_idempotency_id sample_request) body
        (Some sample_pending)) (Inr resp)]"
  using resume_keeps_the_handle [OF sample_resume_run] by blast

end
