(* ===== verification/Exec_Claims3.thy ===== *)
theory Exec_Claims3
  imports Exec_Claims2
begin

text \<open>
  Properties of SDK-governed execution, continued: what is reported once the boundary is
  crossed, and reconciliation.
\<close>

section \<open>After the boundary\<close>

text \<open>How an execution that was not started ends: the store failed, reports an earlier attempt
  that is still in flight, or one that is completed.\<close>

definition ends_unstarted ::
  "'x registered_tool_executor \<Rightarrow> signed_authorization \<Rightarrow> clavenar_error + effect_attempt_claim
   \<Rightarrow> clavenar_error \<Rightarrow> bool" where
  "ends_unstarted ex sa z e \<longleftrightarrow> (case z of
     Inl err \<Rightarrow> e = err
   | Inr Started \<Rightarrow> False
   | Inr AlreadyInFlight \<Rightarrow>
       e = ExecutionUncertain (uncertain_from_intent (intent_of (ex_id ex) sa) InFlightAfterPriorAttempt (has_lookup ex))
   | Inr AlreadyCompleted \<Rightarrow>
       e = ExecutionAlreadyCompleted (az_authorization_id (authorization sa)) (az_idempotency_id (authorization sa)))"

lemma same_handle:
  "uncertain_with_reason (uncertain_from_intent i r f) r' f' = uncertain_from_intent i r' f'"
  by (simp add: uncertain_with_reason_def uncertain_from_intent_def)

text \<open>C7: an error of the execution boundary is one of two things. Either the attempt was not
  admitted: the store's answer to the begin is all that happened, and the error says which
  answer it was. Or the attempt was durably started, and then the executor was called, and the
  error is never a plain failure: it is the uncertain handle of this very intent, with the
  reason (the executor failed, its effect is malformed, or the effect could not be committed
  with the receipt the SDK signed), or the effect was committed with that receipt and the error
  is the one its delivery reported.\<close>

theorem started_effects_end_explicitly:
  assumes "runs (execute_authorization L c ex key sa su) es (Inl e)"
  shows "(\<exists>z. es = [Begun (intent_of (ex_id ex) sa) (use_of su) z] \<and> ends_unstarted ex sa z e)
    \<or> (\<exists>executed rest. es = Begun (intent_of (ex_id ex) sa) (use_of su) (Inr Started)
          # Executed (execution_request (ex_id ex) sa) executed # rest
        \<and> (case executed of
             Inl d \<Rightarrow> rest = [] \<and> e = ExecutionUncertain
               (uncertain_from_intent (intent_of (ex_id ex) sa) ExecutorOutcomeUnknown (has_lookup ex))
           | Inr effect \<Rightarrow>
               if \<not> is_ok (validate_execution_effect effect)
               then rest = [] \<and> e = ExecutionUncertain
                 (uncertain_from_intent (intent_of (ex_id ex) sa) LookupInvalid (has_lookup ex))
               else (\<exists>z tail. rest = Committed (completion_of L key sa effect (ex_id ex)) z # tail
                 \<and> (if \<exists>queued. z = Inr queued \<and> receipt_eq (ob_receipt queued) (signed_receipt L key sa effect)
                     then (\<exists>queued. z = Inr queued \<and> runs (deliver_outbox_entry L c queued) tail (Inl e))
                     else tail = [] \<and> e = ExecutionUncertain
                       (uncertain_from_intent (intent_of (ex_id ex) sa) ExecutorOutcomeUnknown (has_lookup ex))))))"
proof -
  from assms consider
      (not_started) z where "es = [Begun (intent_of (ex_id ex) sa) (use_of su) z]" "ends_unstarted ex sa z e"
    | (started) executed es' where "es = Begun (intent_of (ex_id ex) sa) (use_of su) (Inr Started)
        # Executed (execution_request (ex_id ex) sa) executed # es'"
      "after_execution L c ex key sa executed es' (Inl e)"
    by (auto simp: runs_execute_authorization Let_def ends_unstarted_def same_handle)
  then show ?thesis
  proof cases
    case not_started
    then show ?thesis by blast
  next
    case started
    then show ?thesis
      by (cases executed)
        (auto simp: after_execution_def Let_def same_handle runs_complete_Inl split: if_splits)
  qed
qed

text \<open>An executor that times out.\<close>

lemma sample_uncertain_run:
  "runs (execute_authorization SL sample_client sample_executor sample_key sample_auth False)
    [Begun sample_intent Direct (Inr Started),
     Executed (execution_request ''exec'' sample_auth) (Inl (InvalidConfig ''timeout''))]
    (Inl (ExecutionUncertain (uncertain_from_intent sample_intent ExecutorOutcomeUnknown True)))"
  by (auto simp: execute_authorization_def Let_def sample_intent_def)

lemma two_events:
  "[b, Executed q (Inl d)] = b' # Executed q' x # rest \<longleftrightarrow> b = b' \<and> q = q' \<and> x = Inl d \<and> rest = []"
  "[b, ev] \<noteq> [ev']"
  by auto

theorem started_effects_end_explicitly_witness:
  "(ExecutionUncertain (uncertain_from_intent sample_intent ExecutorOutcomeUnknown True) :: clavenar_error)
     = ExecutionUncertain (uncertain_from_intent (intent_of (ex_id sample_executor) sample_auth) ExecutorOutcomeUnknown
         (has_lookup sample_executor))"
  using started_effects_end_explicitly [OF sample_uncertain_run]
  by (elim disjE exE conjE) (simp_all only: two_events simp_thms sum.case)

section \<open>Reconciliation\<close>

lemma emits_reconcile:
  assumes "\<And>b. P (AskedReconciliation b)" "\<And>a z. P (Loaded a z)" "\<And>q z. P (LookedUp q z)"
    and "\<And>cp x. completion_event cp x \<Longrightarrow> P x"
  shows "emits P (reconcile_uncertain_effect L c u)"
  using assms
  by (auto simp: reconcile_uncertain_effect_def still_uncertain_def lookup_effect_def
      split: prod.split sum.split option.split effect_lookup_outcome.split known_effect_completion_error.split
      intro!: emits_rules emits_dependencies emits_mono [OF emits_complete])

lemma is_ok_unit: "is_ok r \<longleftrightarrow> r = Inr ()"
  by (cases r) simp_all


text \<open>C10: reconciliation never calls the executor and never admits an attempt; it reports
  completion only for an effect the registered lookup found under the identifiers of the
  exact durable intent of the handle, after committing it and delivering its receipt; and
  everything else leaves the handle as it was, up to its reason and lookup flag.\<close>

theorem reconcile_never_executes:
  assumes "runs (reconcile_uncertain_effect L c u) es r"
  shows "(\<forall>q z. Executed q z \<notin> set es) \<and> (\<forall>i v z. Begun i v z \<notin> set es)
    \<and> (\<forall>out. r = Inr (ReconciledCompleted out) \<longrightarrow> (\<exists>ex key intent effect tail.
          equipped c ex key \<and> ex_id ex = un_executor_id u
          \<and> es = [AskedReconciliation True, Loaded (un_authorization_id u) (Inr (Some intent)),
                  LookedUp (lookup_request intent) (Inr (Found effect))] @ tail
          \<and> intent = intent_of (un_executor_id u) (in_authorization intent)
          \<and> accepts_authorization L (in_authorization intent) (un_idempotency_id u)
          \<and> completion_trace L c key (in_authorization intent) effect (ex_id ex) out tail))
    \<and> (\<forall>v. r = Inr (ReconciledUncertain v) \<longrightarrow> v = uncertain_with_reason u (un_reason v) (un_effect_lookup_registered v))"
proof (intro conjI allI impI)
  have "emits (\<lambda>x. (\<forall>q z. x \<noteq> Executed q z) \<and> (\<forall>i v z. x \<noteq> Begun i v z)) (reconcile_uncertain_effect L c u)"
    by (rule emits_reconcile) (auto simp: completion_event_def delivery_event_def)
  then show "Executed q z \<notin> set es" "Begun i v z' \<notin> set es" for q z i v z'
    using emits_runs assms by blast+
next
  fix out
  assume r: "r = Inr (ReconciledCompleted out)"
  from assms obtain ex key intent effect tail where
    es: "es = [AskedReconciliation True, Loaded (un_authorization_id u) (Inr (Some intent)),
          LookedUp (lookup_request intent) (Inr (Found effect))] @ tail"
    and ex: "equipped c ex key" "ex_id ex = un_executor_id u"
    and intent: "is_ok (validate_uncertain_intent L u intent)"
    and tail: "completion_trace L c key (in_authorization intent) effect (un_executor_id u) out tail"
    unfolding r reconcile_uncertain_effect_def
    by (auto simp: runs_tryP_Inr runs_bindP_Inr runs_dependencies runs_cases runs_matchP
        still_uncertain_def lookup_effect_def runs_complete)
  from intent have "intent = intent_of (un_executor_id u) (in_authorization intent)"
    "accepts_authorization L (in_authorization intent) (un_idempotency_id u)"
    by (simp_all add: is_ok_unit validators)
  with es ex tail show "\<exists>ex key intent effect tail.
          equipped c ex key \<and> ex_id ex = un_executor_id u
          \<and> es = [AskedReconciliation True, Loaded (un_authorization_id u) (Inr (Some intent)),
                  LookedUp (lookup_request intent) (Inr (Found effect))] @ tail
          \<and> intent = intent_of (un_executor_id u) (in_authorization intent)
          \<and> accepts_authorization L (in_authorization intent) (un_idempotency_id u)
          \<and> completion_trace L c key (in_authorization intent) effect (ex_id ex) out tail"
    by metis
next
  fix v
  assume r: "r = Inr (ReconciledUncertain v)"
  show "v = uncertain_with_reason u (un_reason v) (un_effect_lookup_registered v)"
    using assms unfolding r reconcile_uncertain_effect_def
    by (auto simp: runs_tryP_Inr runs_bindP_Inr runs_dependencies runs_cases runs_matchP still_uncertain_def lookup_effect_def runs_complete uncertain_with_reason_def)
qed


lemma runs_matchP_intro: "runs p es q \<Longrightarrow> runs (f q) [] r \<Longrightarrow> runs (matchP p f) es r"
  unfolding runs_matchP by (metis append_Nil2)

text \<open>A deployment in which the first attempt is in flight: the lookup finds its effect.\<close>

definition sample_uncertain :: uncertain_execution where
  "sample_uncertain = uncertain_from_intent sample_intent ExecutorOutcomeUnknown True"

lemma sample_uncertain_ok [simp]: "validate_uncertain_execution sample_uncertain = Inr ()"
  unfolding validators
  by (simp add: accepts_uncertain_def sample_uncertain_def uncertain_from_intent_def sample_intent_def
      intent_of_def sample_auth_def length_sample_sha sample_sha_prefix is_ascii_graphic_def byte_def Let_def)

lemma sample_intent_ok [simp]: "validate_uncertain_intent SL sample_uncertain sample_intent = Inr ()"
proof -
  have "in_authorization sample_intent = sample_auth" "un_idempotency_id sample_uncertain = 7"
    by (simp_all add: sample_uncertain_def uncertain_from_intent_def sample_intent_def intent_of_def
        sample_auth_def Let_def)
  then show ?thesis
    unfolding validators
    by (simp add: sample_uncertain_def uncertain_from_intent_def uncertain_with_reason_def)
      (simp add: sample_intent_def intent_of_def Let_def)
qed

definition sample_reconcile_trace :: "event list" where
  "sample_reconcile_trace = [AskedReconciliation True,
     Loaded 11 (Inr (Some sample_intent)), LookedUp (lookup_request sample_intent) (Inr (Found sample_effect))]
     @ drop 4 sample_trace"

lemma sample_reconcile_run:
  "runs (reconcile_uncertain_effect SL sample_client sample_uncertain) sample_reconcile_trace
    (Inr (ReconciledCompleted sample_outcome))"
proof -
  have ids: "un_authorization_id sample_uncertain = 11" "un_executor_id sample_uncertain = ''exec''"
    "in_authorization sample_intent = sample_auth"
    by (simp_all add: sample_uncertain_def uncertain_from_intent_def sample_intent_def intent_of_def
        sample_auth_def Let_def)
  have "runs (complete_known_effect SL sample_client sample_key sample_auth sample_effect ''exec'')
      (drop 4 sample_trace) (Inr sample_outcome)"
    by (simp add: complete_known_effect_def map_errP_def sample_trace_def sendP_def byte_def)
      (simp add: sample_outcome_def sample_effect_def sample_entry_def)
  note complete = runs_matchP_intro [OF this]
  show ?thesis
    by (simp add: reconcile_uncertain_effect_def reject_if_def ids lookup_effect_def
        sample_reconcile_trace_def) (rule exI [of _ True], simp add: complete)
qed

theorem reconcile_never_executes_witness:
  "\<forall>q z. Executed q z \<notin> set sample_reconcile_trace"
  using reconcile_never_executes [OF sample_reconcile_run] by blast



end
