(* ===== verification/Envelope.thy ===== *)
theory Envelope
  imports Exec_Handles
begin

text \<open>
  The JSON-RPC envelopes as the sorted objects they are on the wire, and reading a batch
  envelope back: the batch Proxy authorizes unmodified is the batch that was requested.
\<close>

lemma tool_envelope_text: "tool_envelope L u n a = JObject [
   (''id'', JString (uuid_string L u)), (''jsonrpc'', JString ''2.0''), (''method'', JString ''tools/call''),
   (''params'', JObject [(''arguments'', normalize a), (''name'', JString n)])]"
  by (simp add: tool_envelope_def btree_of_def less_char_def)

lemma normalize_call: "normalize (enc_model_tool_call c) = JObject [(''arguments'', normalize (call_arguments c)), (''id'', JString (call_id c)), (''name'', JString (call_name c))]"
  by (simp add: enc_model_tool_call_def btree_of_def less_char_def)

lemma dec_call: "json_wf (call_arguments c) \<Longrightarrow> dec_model_tool_call (normalize (enc_model_tool_call c)) = Some c"
  unfolding normalize_call by (simp add: dec_model_tool_call_def read_simps normalize_id)

lemma batch_envelope_text: "atomic_batch_envelope L u calls = JObject [
   (''id'', JString (uuid_string L u)), (''jsonrpc'', JString ''2.0''), (''method'', JString ATOMIC_TOOL_CALL_BATCH_METHOD),
   (''params'', JObject [(''arguments'', JObject [(''calls'', JArray (map (\<lambda>c. normalize (enc_model_tool_call c)) calls)),
       (''contract'', JString ATOMIC_TOOL_CALL_BATCH_CONTRACT)]), (''name'', JString ATOMIC_TOOL_CALL_BATCH_NAME)])]"
  by (simp add: atomic_batch_envelope_def btree_of_def less_char_def enc_list_def)

lemma dec_envelope:
  assumes "\<forall>c \<in> set calls. json_wf (call_arguments c)"
  shows "dec_atomic_batch_envelope_t (atomic_batch_envelope L u calls) = Some
    \<lparr>be_jsonrpc = ''2.0'', be_id = uuid_string L u, be_method = ATOMIC_TOOL_CALL_BATCH_METHOD,
     be_params = \<lparr>bp_name = ATOMIC_TOOL_CALL_BATCH_NAME,
       bp_arguments = \<lparr>ba_contract = ATOMIC_TOOL_CALL_BATCH_CONTRACT, ba_calls = calls\<rparr>\<rparr>\<rparr>"
proof -
  have "dec_list dec_model_tool_call (JArray (map (\<lambda>c. normalize (enc_model_tool_call c)) calls)) = Some calls"
    using assms by (induction calls) (simp_all add: dec_call)
  then show ?thesis
    unfolding batch_envelope_text
    by (simp add: dec_atomic_batch_envelope_t_def dec_atomic_batch_params_def dec_atomic_batch_arguments_def
        struct_fields_def need_def del: dec_list.simps)
qed

lemma tool_envelope_inject:
  assumes "uuid_laws L" "tool_envelope L u n a = tool_envelope L v m b"
  shows "u = v \<and> n = m \<and> normalize a = normalize b"
  using assms by (simp add: tool_envelope_text uuid_string_inject)

lemma unmodified_batch_accepted:
  assumes "well_formed_batch calls" "\<forall>c \<in> set calls. json_wf (call_arguments c)"
    and "az_execution_payload (authorization sa) = atomic_batch_envelope L u calls"
  shows "accepts_batch L sa u calls (atomic_batch_envelope L u calls)"
  unfolding accepts_batch_def assms(3) dec_envelope [OF assms(2)] using assms(1) by simp

end
