(* ===== verification/Exec_Claims4.thy ===== *)
theory Exec_Claims4
  imports Exec_Claims3 Envelope
begin


section \<open>The receipt outbox\<close>

text \<open>One confirmed delivery: the receipt is posted, and marked with what Proxy confirmed.\<close>

definition delivered ::
  "libs \<Rightarrow> ('n, 's, 'x) clavenar_client \<Rightarrow> receipt_outbox_entry \<Rightarrow> event list \<Rightarrow> bool" where
  "delivered L c e es \<longleftrightarrow> (\<exists>endpoint resp recorded.
     es = [Sent (receipt_request L c endpoint (ob_receipt e)) (Inr resp),
           Marked (ob_outbox_id e) recorded (Inr ())]
     \<and> reads_receipt L resp recorded \<and> confirms recorded (ob_receipt e) \<and> validate_outbox_entry e = Inr ())"

lemma deliver_delivered: "runs (deliver_outbox_entry L c e) es (Inr recorded) \<Longrightarrow> delivered L c e es"
  by (auto simp: runs_deliver delivered_def)

lemma flush_entries_Inr:
  "runs (flush_entries L c k entries) es (Inr n) \<Longrightarrow>
     \<exists>ds. list_all2 (delivered L c) entries ds \<and> es = concat ds \<and> n = k + of_nat (length entries)"
proof (induction entries arbitrary: k es)
  case Nil
  then show ?case by simp
next
  case (Cons e entries)
  then obtain es1 es2 recorded where es: "es = es1 @ es2"
    and first: "runs (deliver_outbox_entry L c e) es1 (Inr recorded)"
    and rest: "runs (flush_entries L c (k + 1) entries) es2 (Inr n)"
    by (auto simp: runs_bindP_Inr)
  from Cons.IH [OF rest] obtain ds where "list_all2 (delivered L c) entries ds" "es2 = concat ds"
    "n = k + 1 + of_nat (length entries)" by blast
  with deliver_delivered [OF first] es show ?case
    by (intro exI [of _ "es1 # ds"]) simp
qed

lemma flush_entries_Inl:
  "runs (flush_entries L c k entries) es (Inl err) \<Longrightarrow>
     \<exists>sent x blocked ds rest. entries = sent @ x # blocked \<and> list_all2 (delivered L c) sent ds
       \<and> es = concat ds @ rest \<and> runs (deliver_outbox_entry L c x) rest (Inl err)"
proof (induction entries arbitrary: k es)
  case Nil
  then show ?case by simp
next
  case (Cons e entries)
  then consider (here) "runs (deliver_outbox_entry L c e) es (Inl err)"
    | (later) es1 es2 recorded where "es = es1 @ es2" "runs (deliver_outbox_entry L c e) es1 (Inr recorded)"
        "runs (flush_entries L c (k + 1) entries) es2 (Inl err)"
    by (auto simp: runs_bindP_Inl)
  then show ?case
  proof cases
    case here
    then show ?thesis by (intro exI [of _ "[]"] exI [of _ e] exI [of _ entries] exI [of _ es]) auto
  next
    case later
    from Cons.IH [OF later(3)] obtain sent x blocked ds rest where "entries = sent @ x # blocked"
      "list_all2 (delivered L c) sent ds" "es2 = concat ds @ rest"
      "runs (deliver_outbox_entry L c x) rest (Inl err)" by blast
    with deliver_delivered [OF later(2)] later(1) show ?thesis
      by (intro exI [of _ "e # sent"] exI [of _ x] exI [of _ blocked] exI [of _ "es1 # ds"] exI [of _ rest]) simp
  qed
qed

text \<open>C15: flushing the outbox asks the store for at most the given number of entries, between 1
  and 128, and delivers them in the store's order, each posted once and marked with its
  confirmation; it reports how many it delivered. At the first entry whose delivery fails it
  stops: the entries behind it are not attempted, and nothing of it is marked.\<close>

theorem flush_delivers_in_order:
  assumes "runs (flush_execution_receipt_outbox L c n) es r"
  shows "(\<forall>k. r = Inr k \<longrightarrow> 1 \<le> unat n \<and> unat n \<le> 128 \<and> (\<exists>entries ds.
            es = Listed n (Inr entries) # concat ds \<and> list_all2 (delivered L c) entries ds
            \<and> unat k = length entries \<and> length entries \<le> unat n))
    \<and> (\<forall>err entries. r = Inl err \<longrightarrow> Listed n (Inr entries) \<in> set es \<longrightarrow> length entries \<le> unat n \<longrightarrow>
          (\<exists>sent x blocked ds rest. entries = sent @ x # blocked \<and> list_all2 (delivered L c) sent ds
            \<and> es = Listed n (Inr entries) # concat ds @ rest
            \<and> (\<forall>k m. Marked k m (Inr ()) \<notin> set rest)))"
proof (intro conjI allI impI)
  fix k
  assume "r = Inr k"
  with assms obtain entries es' where limit: "n \<noteq> 0" "\<not> n > MAX_OUTBOX_FLUSH"
    and es: "es = Listed n (Inr entries) # es'" and len: "length entries \<le> unat n"
    and flush: "runs (flush_entries L c 0 entries) es' (Inr k)"
    by (auto simp: flush_execution_receipt_outbox_def runs_tryP_Inr runs_cases split_sum_ex not_less)
  from limit(2) have bound: "unat n \<le> 128"
    by (simp add: MAX_OUTBOX_FLUSH_def word_less_nat_alt not_less)
  show "1 \<le> unat n" "unat n \<le> 128" using limit(1) bound by (simp_all add: u64_positive)
  from flush_entries_Inr [OF flush] obtain ds where "list_all2 (delivered L c) entries ds" "es' = concat ds"
    and k: "k = of_nat (length entries)" by auto
  moreover have "unat k = length entries"
    unfolding k using len bound by (simp add: unat_of_nat take_bit_nat_eq_self)
  ultimately show "\<exists>entries ds. es = Listed n (Inr entries) # concat ds \<and> list_all2 (delivered L c) entries ds
      \<and> unat k = length entries \<and> length entries \<le> unat n"
    using es len by blast
next
  fix err entries
  assume r: "r = Inl err" and listed: "Listed n (Inr entries) \<in> set es" and len: "length entries \<le> unat n"
  from assms r consider "es = []" | d where "es = [Listed n (Inl d)]"
    | entries' where "es = [Listed n (Inr entries')]" "\<not> length entries' \<le> unat n"
    | entries' es' where "es = Listed n (Inr entries') # es'" "runs (flush_entries L c 0 entries') es' (Inl err)"
    by (auto simp: flush_execution_receipt_outbox_def runs_tryP runs_cases split_sum_ex not_less split: if_splits)
  then show "\<exists>sent x blocked ds rest. entries = sent @ x # blocked \<and> list_all2 (delivered L c) sent ds
      \<and> es = Listed n (Inr entries) # concat ds @ rest \<and> (\<forall>k m. Marked k m (Inr ()) \<notin> set rest)"
  proof cases
    case (4 entries' es')
    from flush_entries_Inl [OF 4(2)] obtain sent x blocked ds rest where split: "entries' = sent @ x # blocked"
      "list_all2 (delivered L c) sent ds" "es' = concat ds @ rest"
      and fail: "runs (deliver_outbox_entry L c x) rest (Inl err)" by blast
    have "Listed n (Inr entries) \<notin> set (concat ds)"
      using split(2) by (induction rule: list_all2_induct) (auto simp: delivered_def)
    moreover have "Listed n (Inr entries) \<notin> set rest"
      using emits_runs [OF emits_deliver fail] by (auto simp: delivery_event_def)
    ultimately have "entries' = entries" using listed 4(1) split(3) by auto
    moreover have "Marked k m (Inr ()) \<notin> set rest" for k m by (rule runs_deliver_Inl [OF fail])
    ultimately show ?thesis using 4(1) split by blast
  qed (use listed len in auto)
qed

lemma sample_flush_run:
  "runs (flush_execution_receipt_outbox SL sample_client 1)
     (Listed 1 (Inr [sample_entry]) # drop 5 sample_trace) (Inr 1)"
  by (simp add: flush_execution_receipt_outbox_def reject_if_def MAX_OUTBOX_FLUSH_def required_def
      sample_trace_def sendP_def byte_def)

theorem flush_delivers_in_order_witness:
  "1 \<le> unat (1 :: usize) \<and> unat (1 :: usize) \<le> 128 \<and> (\<exists>entries ds.
     Listed 1 (Inr [sample_entry]) # drop 5 sample_trace = Listed 1 (Inr entries) # concat ds
     \<and> list_all2 (delivered SL sample_client) entries ds \<and> unat (1 :: usize) = length entries
     \<and> length entries \<le> unat (1 :: usize))"
  using flush_delivers_in_order [OF sample_flush_run] by blast


section \<open>Batches\<close>

text \<open>C13: an authorized batch is exactly the requested one: a non-empty batch of at most 128
  calls with distinct identifiers went out in one decision request, and the authorized
  envelope decodes to the batch method and contract with the same identifiers in the same
  order under the same request identity, and to the very request when it is unmodified.\<close>

theorem batch_authorization_is_exact:
  assumes "runs (authorize_tool_batch L c u calls) es (Inr sa)"
  shows "1 \<le> length calls \<and> length calls \<le> 128 \<and> distinct (map call_id calls)
    \<and> (\<exists>endpoint resp. es = [Sent (decision_request L c endpoint u (atomic_batch_envelope L u calls) None) (Inr resp)])
    \<and> accepts_authorization L sa u
    \<and> (\<exists>e. dec_atomic_batch_envelope_t (az_execution_payload (authorization sa)) = Some e
        \<and> be_id e = uuid_string L u \<and> be_method e = ATOMIC_TOOL_CALL_BATCH_METHOD
        \<and> map call_id (ba_calls (bp_arguments (be_params e))) = map call_id calls)
    \<and> (az_modification_diff (authorization sa) = None \<longrightarrow>
        value_eq (az_execution_payload (authorization sa)) (atomic_batch_envelope L u calls))"
proof -
  from assms obtain endpoint resp where batch: "well_formed_batch calls"
    "accepts_batch L sa u calls (atomic_batch_envelope L u calls)"
    and es: "es = [Sent (decision_request L c endpoint u (atomic_batch_envelope L u calls) None) (Inr resp)]"
    and read: "read_decision L u (atomic_batch_envelope L u calls) None resp = Inr (Authorized sa)"
    by (auto simp: authorize_tool_batch_def Let_def runs_tryP_Inr runs_bindP_Inr runs_authorize_payload validators)
  from batch show ?thesis
    using es read_decision_Authorized(2) [OF read] unfolding well_formed_batch_def accepts_batch_def by blast
qed

definition sample_calls :: "model_tool_call list" where
  "sample_calls = [\<lparr>call_id = ''a'', call_name = ''read'', call_arguments = JNull\<rparr>,
     \<lparr>call_id = ''b'', call_name = ''list'', call_arguments = JBool True\<rparr>]"

definition batch_auth :: signed_authorization where
  "batch_auth = sample_auth\<lparr>authorization := (authorization sample_auth)\<lparr>
     az_execution_payload := atomic_batch_envelope sample_libs 7 sample_calls,
     az_payload_sha256 := sha256 sample_libs
       (canonical_json_value sample_libs (atomic_batch_envelope sample_libs 7 sample_calls))\<rparr>\<rparr>"

abbreviation BL :: libs where
  "BL \<equiv> with_parser (\<lambda>s. Some (enc_signed_authorization sample_libs batch_auth))"

lemma batch_auth_simps [simp]:
  "az_execution_payload (authorization batch_auth) = atomic_batch_envelope sample_libs 7 sample_calls"
  "az_modification_diff (authorization batch_auth) = None"
  by (simp_all add: batch_auth_def sample_auth_def)

lemma sample_calls_ok: "well_formed_batch sample_calls" "\<forall>c \<in> set sample_calls. json_wf (call_arguments c)"
  by (simp_all add: sample_calls_def well_formed_batch_def)

lemma batch_accepted: "accepts_authorization BL batch_auth 7"
  "accepts_batch BL batch_auth 7 sample_calls (atomic_batch_envelope BL 7 sample_calls)"
  using unmodified_batch_accepted [OF sample_calls_ok, of batch_auth BL 7]
  by (simp_all add: accepts_authorization_def) (simp_all add: batch_auth_def sample_auth_def)

lemma batch_run:
  "runs (authorize_tool_batch BL sample_client 7 sample_calls)
     [Sent (decision_request BL sample_client ''http://p/mcp'' 7 (atomic_batch_envelope BL 7 sample_calls) None)
        (Inr (reply 200 ''x''))] (Inr batch_auth)"
proof -
  have "json_wf (atomic_batch_envelope sample_libs 7 sample_calls)"
    by (simp add: atomic_batch_envelope_def normalize_wf del: normalize.simps)
  then have "ok_signed_authorization sample_libs batch_auth"
    by (simp add: ok_signed_authorization_def ok_authorization_claims_def)
      (simp add: batch_auth_def sample_auth_def)
  then have parse: "from_str BL (dec_signed_authorization BL) ''x'' = Inr batch_auth"
    by (simp add: from_str_def signed_authorization_codec.read_back)
  have v: "validate_authorization BL batch_auth 7 = Inr ()"
    "validate_batch_authorization BL batch_auth 7 sample_calls (atomic_batch_envelope BL 7 sample_calls) = Inr ()"
    "validate_model_tool_calls sample_calls = Inr ()"
    by (simp_all only: validators batch_accepted sample_calls_ok)
  have "read_decision BL 7 (atomic_batch_envelope BL 7 sample_calls) None (reply 200 ''x'') = Inr (Authorized batch_auth)"
    using v(1) parse by (simp add: read_decision_def byte_def)
  then show ?thesis
    using v(2, 3)
    by (simp add: authorize_tool_batch_def Let_def authorize_payload_def
        authorize_payload_state_def join_endpoint_def sendP_def)
qed

theorem batch_authorization_is_exact_witness:
  "\<exists>e. dec_atomic_batch_envelope_t (az_execution_payload (authorization batch_auth)) = Some e
        \<and> be_id e = uuid_string BL 7 \<and> be_method e = ATOMIC_TOOL_CALL_BATCH_METHOD
        \<and> map call_id (ba_calls (bp_arguments (be_params e))) = [''a'', ''b'']"
  using batch_authorization_is_exact [OF batch_run] by (auto simp: sample_calls_def)

end
