(* ===== verification/Exec_Recovery.thy ===== *)
theory Exec_Recovery
  imports Exec_Claims4
begin

text \<open>
  What execution.rs reads and what it persists. The values embedded in a decoded document
  are normal (object keys in \<open>BTreeMap\<close> order, numbers as \<open>serde_json\<close> holds them), so
  what the client decoded is what it writes and reads back; a process that lost everything
  but the stored intent and the reported handle can therefore reconcile.
\<close>

section \<open>Decoded documents are well typed\<close>

lemma normalize_JNull: "normalize j = JNull \<longleftrightarrow> j = JNull"
  by (cases j) simp_all

lemma need_value_wf: "need f k dec_value = Some x \<Longrightarrow> json_wf x"
  by (auto simp: need_def dec_value_def normalize_wf split: option.splits)

lemma opt_value_wf: "opt f k dec_value = Some x \<Longrightarrow> pred_option (\<lambda>j. json_wf j \<and> j \<noteq> JNull) x"
  by (auto simp: opt_def dec_option_def dec_value_def normalize_wf normalize_JNull
      split: option.splits if_splits)

lemma claims_well_typed:
  "dec_authorization_claims L j = Some x \<Longrightarrow> uuid_laws L \<Longrightarrow> ok_authorization_claims L x"
  unfolding dec_authorization_claims_def ok_authorization_claims_def
  by (auto simp: bind_eq_Some_conv dest!: need_value_wf opt_value_wf)

lemma signed_well_typed:
  "dec_signed_authorization L j = Some x \<Longrightarrow> uuid_laws L \<Longrightarrow> ok_signed_authorization L x"
  using claims_well_typed unfolding dec_signed_authorization_def ok_signed_authorization_def
  by (fastforce simp: bind_eq_Some_conv need_def split: option.splits)

lemma decision_ok:
  "read_decision L u body p resp = Inr (Authorized sa) \<Longrightarrow> uuid_laws L \<Longrightarrow> ok_signed_authorization L sa"
  using read_decision_Authorized(5) signed_well_typed by (force simp: from_str_Inr)

definition decision_well_typed :: "libs \<Rightarrow> authorization_state \<Rightarrow> bool" where
  "decision_well_typed L st \<longleftrightarrow> (case st of
     Authorized sa \<Rightarrow> json_wf (az_execution_payload (authorization sa))
       \<and> json_wf (az_decision_principal (authorization sa))
       \<and> pred_option json_wf (az_modification_diff (authorization sa))
       \<and> dec_signed_authorization L (enc_signed_authorization L sa) = Some sa
   | Pending q \<Rightarrow> dec_pending_authorization L (enc_pending_authorization L q) = Some q
       \<and> 0 < sint (pa_ttl_seconds q) \<and> sint (pa_ttl_seconds q) \<le> 86400
       \<and> 0 < unat (pa_poll_after_ms q) \<and> unat (pa_poll_after_ms q) \<le> 60000)"

text \<open>C18: whatever bytes Proxy answers, a decision the client accepts is well typed: the payload,
  principal and diff of an authorization are normal JSON values, a pending handle's deadlines
  are in range, and either is written out and read back unchanged.\<close>

theorem decisions_well_typed:
  assumes "uuid_laws L" and "read_decision L u body p resp = Inr st"
  shows "decision_well_typed L st"
proof (cases st)
  case (Authorized sa)
  with assms decision_ok have ok: "ok_signed_authorization L sa" by blast
  from signed_authorization_codec.read_back [OF ok] ok Authorized show ?thesis
    by (auto simp: decision_well_typed_def ok_signed_authorization_def ok_authorization_claims_def
        elim: option.pred_mono_strong)
next
  case (Pending q)
  with assms read_decision_Pending(2) have "accepts_pending L q u body" by blast
  with Pending assms(1) pending_authorization_codec.read_back [of L q] show ?thesis
    by (simp add: decision_well_typed_def accepts_pending_def ok_pending_authorization_def)
qed

theorem decisions_well_typed_witness:
  "decision_well_typed SL (Authorized sample_auth) \<and> decision_well_typed SL (Pending sample_pending)"
  using decisions_well_typed [OF _ sample_decision(1)] decisions_well_typed [OF _ sample_decision(3)]
  by simp

section \<open>Recovery\<close>

text \<open>C11: recovery from storage: the intent and the handle of an effect that was started on an
  accepted decision survive being written and read back; the stored intent is accepted as
  that of the handle; and the handle itself is accepted for reconciliation exactly when Proxy
  named a tenant, a workload and its identity and neither identifier is nil, which accepting
  the authorization does not check.\<close>

theorem uncertain_handles_recoverable:
  assumes "uuid_laws L" and "\<forall>s. length (sha256 L s) = 71"
    and "read_decision L u body p resp = Inr (Authorized sa)" and "validate_executor_id e = Inr ()"
    and "i = intent_of e sa" and "un = uncertain_from_intent i reason registered"
  shows "dec_execution_intent L (enc_execution_intent L i) = Some i
    \<and> dec_uncertain_execution L (enc_uncertain_execution L un) = Some un
    \<and> validate_uncertain_intent L un i = Inr ()
    \<and> (validate_uncertain_execution un = Inr () \<longleftrightarrow>
         az_authorization_id (authorization sa) \<noteq> 0 \<and> u \<noteq> 0 \<and> az_tenant (authorization sa) \<noteq> []
         \<and> az_agent_id (authorization sa) \<noteq> [] \<and> az_agent_spiffe (authorization sa) \<noteq> [])"
proof -
  have ok: "ok_signed_authorization L sa" and acc: "accepts_authorization L sa u"
    using decision_ok [OF assms(3,1)] read_decision_Authorized(2) [OF assms(3)] .
  have "in_authorization i = sa" by (simp add: assms(5) intent_of_def Let_def)
  with ok assms(1) have "dec_execution_intent L (enc_execution_intent L i) = Some i"
    by (intro execution_intent_codec.read_back) (simp add: ok_execution_intent_def)
  moreover have "dec_uncertain_execution L (enc_uncertain_execution L un) = Some un"
    using assms(1) by (intro uncertain_execution_codec.read_back) (simp add: ok_uncertain_execution_def)
  moreover have "validate_uncertain_intent L un i = Inr ()"
    using acc unfolding validators assms(5,6)
    by (simp add: intent_of_def uncertain_from_intent_def uncertain_with_reason_def
        accepts_authorization_def Let_def)
  moreover have "validate_uncertain_execution un = Inr () \<longleftrightarrow>
      az_authorization_id (authorization sa) \<noteq> 0 \<and> u \<noteq> 0 \<and> az_tenant (authorization sa) \<noteq> []
         \<and> az_agent_id (authorization sa) \<noteq> [] \<and> az_agent_spiffe (authorization sa) \<noteq> []"
    using acc assms(2,4) sample_sha_prefix [of L] unfolding validators
    by (auto simp: assms(5,6) accepts_uncertain_def accepts_authorization_def intent_of_def
        uncertain_from_intent_def Let_def validate_executor_id_Inr)
  ultimately show ?thesis by blast
qed

theorem uncertain_handles_recoverable_witness:
  "validate_uncertain_execution (uncertain_from_intent sample_intent ExecutorOutcomeUnknown True) = Inr ()
   \<and> validate_uncertain_intent SL (uncertain_from_intent sample_intent ExecutorOutcomeUnknown True)
       sample_intent = Inr ()"
proof -
  have "\<forall>s. length (sha256 SL s) = 71" by (simp add: length_sample_sha)
  moreover have "validate_executor_id ''exec'' = Inr ()"
    by (simp add: validate_executor_id_def reject_if_def is_ascii_graphic_def byte_def)
  ultimately show ?thesis
    using uncertain_handles_recoverable [OF _ _ sample_decision(1), of "''exec''" sample_intent _ ExecutorOutcomeUnknown True]
    by (simp add: sample_intent_def) (simp add: sample_auth_def)
qed

end
