(* ===== verification/Exec_Liveness.thy ===== *)
theory Exec_Liveness
  imports Exec_Claims4
begin

text \<open>
  That the operations of execution.rs come to an end, and that flushing makes progress. No
  operation has a loop but the one over the entries of a flush, so each returns after a
  bounded number of actions whatever its environment replies. With a Proxy that keeps
  recording receipts, calling flush again and again empties the outbox of the in-memory
  store in order.
\<close>

section \<open>Bounded runs\<close>

definition at_most :: "nat \<Rightarrow> ('e, 'a) prog \<Rightarrow> bool" where
  "at_most n p \<longleftrightarrow> (\<forall>es r. runs p es r \<longrightarrow> length es \<le> n)"

lemma at_mostD: "at_most n p \<Longrightarrow> runs p es r \<Longrightarrow> length es \<le> n"
  unfolding at_most_def by blast

lemma at_most_mono: "at_most n p \<Longrightarrow> n \<le> m \<Longrightarrow> at_most m p"
  unfolding at_most_def by (meson order_trans)

lemma at_most_Return [simp]: "at_most n (Return r)"
  by (simp add: at_most_def)

lemma at_most_matchP:
  assumes "at_most n p" "\<And>r. at_most m (f r)" shows "at_most (n + m) (matchP p f)"
  using at_mostD [OF assms(1)] at_mostD [OF assms(2)]
  by (force simp: at_most_def runs_matchP intro: add_mono)

lemma at_most_bindP:
  assumes "at_most n p" "\<And>x. at_most m (f x)" shows "at_most (n + m) (bindP p f)"
  unfolding bindP_matchP by (rule at_most_matchP) (auto simp: assms split: sum.split)

lemma at_most_tryP: "(\<And>x. at_most n (f x)) \<Longrightarrow> at_most n (tryP r f)"
  by (cases r) auto

lemma at_most_forget: "at_most n p \<Longrightarrow> at_most n (forget p)"
  unfolding forget_def by (rule at_most_matchP [where m = 0, simplified]) auto

lemma at_most_mapP: "at_most n p \<Longrightarrow> at_most n (mapP g p)"
  unfolding mapP_def by (rule at_most_bindP [where m = 0, simplified]) auto

lemma at_most_map_errP: "at_most n p \<Longrightarrow> at_most n (map_errP g p)"
  unfolding map_errP_def by (rule at_most_matchP [where m = 0, simplified]) auto

text \<open>Each action counts one.\<close>

lemma at_most_actions [simp]:
  "at_most (Suc n) (HttpSend q k1) \<longleftrightarrow> (\<forall>z. at_most n (k1 z))"
  "at_most (Suc n) (AskSingleUse k2) \<longleftrightarrow> (\<forall>z. at_most n (k2 z))"
  "at_most (Suc n) (AskReconciliation k2) \<longleftrightarrow> (\<forall>z. at_most n (k2 z))"
  "at_most (Suc n) (BeginEffect i u k3) \<longleftrightarrow> (\<forall>z. at_most n (k3 z))"
  "at_most (Suc n) (LoadIntent a k4) \<longleftrightarrow> (\<forall>z. at_most n (k4 z))"
  "at_most (Suc n) (CommitEffect cp k5) \<longleftrightarrow> (\<forall>z. at_most n (k5 z))"
  "at_most (Suc n) (ListReceipts l k6) \<longleftrightarrow> (\<forall>z. at_most n (k6 z))"
  "at_most (Suc n) (MarkDelivered s m k7) \<longleftrightarrow> (\<forall>z. at_most n (k7 z))"
  "at_most (Suc n) (ExecuteTool t k8) \<longleftrightarrow> (\<forall>z. at_most n (k8 z))"
  "at_most (Suc n) (LookupEffect e k9) \<longleftrightarrow> (\<forall>z. at_most n (k9 z))"
  by (fastforce simp: at_most_def)+

section \<open>The operations\<close>

named_theorems bounds

lemma at_most_send: "at_most (Suc 0) (sendP q)"
  by (simp add: sendP_def)

lemma at_most_single_use: "at_most (Suc 0) require_single_use_store"
  by (simp add: require_single_use_store_def)

lemmas [bounds] = at_most_tryP at_most_forget at_most_mapP
  at_most_bindP [OF at_most_send, simplified] at_most_bindP [OF at_most_single_use, simplified]

lemma at_most_dependencies: "at_most (Suc 0) (execution_dependencies c)"
  by (auto simp: execution_dependencies_def require_uncertain_effect_store_def split: sum.split intro!: bounds)

lemmas [bounds] = at_most_bindP [OF at_most_dependencies, simplified]

lemma at_most_state: "at_most (Suc 0) (authorize_payload_state L c u body p)"
  by (auto simp: authorize_payload_state_def intro!: bounds)

lemmas [bounds] = at_most_bindP [OF at_most_state, simplified]

lemma at_most_payload: "at_most (Suc 0) (authorize_payload L c u body)"
  by (auto simp: authorize_payload_def split: authorization_state.split intro!: bounds)

lemmas [bounds] = at_most_payload at_most_bindP [OF at_most_payload, simplified]

lemma at_most_tool: "at_most (Suc 0) (authorize_tool L c u name args)"
  by (auto simp: authorize_tool_def intro!: bounds)

lemma at_most_batch: "at_most (Suc 0) (authorize_tool_batch L c u calls)"
  by (auto simp: authorize_tool_batch_def Let_def intro!: bounds)

lemmas [bounds] = at_most_mono [OF at_most_tool] at_most_bindP [OF at_most_tool, simplified]
  at_most_mono [OF at_most_batch] at_most_bindP [OF at_most_batch, simplified]

lemma at_most_record: "at_most (Suc 0) (record_receipt L c r)"
  by (auto simp: record_receipt_def intro!: bounds)

lemmas [bounds] = at_most_bindP [OF at_most_record, simplified]

lemma at_most_deliver: "at_most (Suc (Suc 0)) (deliver_outbox_entry L c e)"
  by (auto simp: deliver_outbox_entry_def split: sum.split intro!: bounds)

lemma at_most_complete: "at_most (Suc (Suc (Suc 0))) (complete_known_effect L c key sa effect i)"
  by (auto simp: complete_known_effect_def map_errP_commit split: sum.split
      intro!: at_most_bindP [OF at_most_map_errP [OF at_most_deliver], where m = 0, simplified])

lemmas [bounds] = at_most_matchP [OF at_most_complete, where m = 0, simplified]

lemma at_most_execute: "at_most (Suc (Suc (Suc (Suc (Suc 0))))) (execute_authorization L c ex key sa su)"
  unfolding execute_authorization_def Let_def
  by (auto split: effect_attempt_claim.split sum.split known_effect_completion_error.split intro!: bounds)

lemmas [bounds] = at_most_mono [OF at_most_execute]

lemma at_most_lookup: "at_most (Suc 0) (lookup_effect ex q)"
  by (simp add: lookup_effect_def)

lemmas [bounds] = at_most_bindP [OF at_most_lookup, simplified]

lemma at_most_reconcile: "at_most (Suc (Suc (Suc (Suc (Suc (Suc 0)))))) (reconcile_uncertain_effect L c u)"
  unfolding reconcile_uncertain_effect_def
  by (auto simp: still_uncertain_def split: sum.split option.split effect_lookup_outcome.split
      known_effect_completion_error.split intro!: bounds)

lemma at_most_flush_entries: "at_most (2 * length entries) (flush_entries L c k entries)"
proof (induction entries arbitrary: k)
  case Nil
  then show ?case by simp
next
  case (Cons e entries)
  show ?case using at_most_bindP [OF at_most_deliver Cons.IH] by simp
qed

lemma at_most_flush: "at_most 257 (flush_execution_receipt_outbox L c n)"
  and flush_length: "runs (flush_execution_receipt_outbox L c n) es r \<Longrightarrow> length es \<le> 1 + 2 * unat n"
proof -
  have bound: "length es \<le> 1 + 2 * unat n \<and> length es \<le> 257"
    if "runs (flush_execution_receipt_outbox L c n) es r" for es r
  proof (cases "length es \<le> 1")
    case False
    with that obtain entries es' where "unat n \<le> 128" "length entries \<le> unat n"
      "es = Listed n (Inr entries) # es'" "runs (flush_entries L c 0 entries) es' r"
      by (auto simp: flush_execution_receipt_outbox_def runs_tryP runs_cases split_sum_ex bindP_matchP
          not_less MAX_OUTBOX_FLUSH_def word_less_nat_alt split: if_splits sum.splits)
    then show ?thesis using at_most_flush_entries [of entries L c 0] by (fastforce dest: at_mostD)
  qed auto
  then show "at_most 257 (flush_execution_receipt_outbox L c n)" by (simp add: at_most_def)
  show "runs (flush_execution_receipt_outbox L c n) es r \<Longrightarrow> length es \<le> 1 + 2 * unat n"
    using bound by blast
qed

lemma flush_unlisted:
  "runs (flush_execution_receipt_outbox L c n) es r \<Longrightarrow> \<forall>k z. Listed k z \<notin> set es \<Longrightarrow> es = []"
  by (fastforce simp: flush_execution_receipt_outbox_def runs_tryP runs_cases split_sum_ex bindP_matchP
      split: if_splits sum.splits)

lemma operation_bound:
  "sdk_operation L c p \<Longrightarrow> at_most (Suc (Suc (Suc (Suc (Suc (Suc (Suc (Suc 0)))))))) p \<or> (\<exists>n. p = forget (flush_execution_receipt_outbox L c n))"
  by (induction rule: sdk_operation.induct)
    (auto simp: authorize_prepared_tool_def authorize_prepared_tool_batch_def execute_tool_def
      execute_prepared_tool_def execute_tool_batch_def execute_prepared_tool_batch_def
      begin_prepared_tool_execution_def resume_prepared_tool_execution_def
      begin_prepared_tool_batch_execution_def resume_prepared_tool_batch_execution_def Let_def
      split: authorization_state.split prod.split intro!: bounds at_most_mono [OF at_most_reconcile])

text \<open>C17: every public operation returns. Executed against any network, store, executor and
  state, it ends with a result, and in every environment it takes at most 257 actions: eight
  when it lists no receipts, so that an execution sends no more than its decision and its
  receipt, and for a flush one listing and two actions for each of at most 128 entries.\<close>

theorem operations_terminate:
  assumes "sdk_operation L c p"
  shows "(\<exists>w' r es. run c p w = (w', r) \<and> wd_trace w' = wd_trace w @ es \<and> runs p es r)
    \<and> (\<forall>es r. runs p es r \<longrightarrow> length es \<le> 257)
    \<and> (\<forall>es r. runs p es r \<longrightarrow> (\<forall>k z. Listed k z \<notin> set es) \<longrightarrow> length es \<le> 8)"
proof -
  have "\<exists>w' r es. run c p w = (w', r) \<and> wd_trace w' = wd_trace w @ es \<and> runs p es r"
    using run_runs [of c p w] by (cases "run c p w") blast
  moreover from operation_bound [OF assms] have "at_most 257 p \<and>
    (\<forall>es r. runs p es r \<longrightarrow> (\<forall>k z. Listed k z \<notin> set es) \<longrightarrow> length es \<le> 8)"
  proof
    assume "at_most (Suc (Suc (Suc (Suc (Suc (Suc (Suc (Suc 0)))))))) p"
    then show ?thesis by (fastforce dest: at_mostD intro: at_most_mono)
  next
    assume "\<exists>n. p = forget (flush_execution_receipt_outbox L c n)"
    then show ?thesis
      by (auto simp: forget_def runs_matchP dest!: flush_unlisted intro!: at_most_forget [unfolded forget_def] at_most_flush)
  qed
  ultimately show ?thesis by (simp add: at_most_def)
qed

lemma sample_terminates: "sdk_operation SL sample_client (forget (execute_tool SL sample_client 7 ''read_file'' JNull))"
  by (rule sdk_operation.intros)

theorem operations_terminate_witness:
  "length sample_trace = 7 \<and> length sample_trace \<le> 8"
proof
  have "runs (forget (execute_tool SL sample_client 7 ''read_file'' JNull)) sample_trace (Inr ())"
    using sample_runs by (auto simp: forget_def runs_matchP)
  moreover have "Listed k z \<notin> set sample_trace" for k z by (simp add: sample_trace_def)
  ultimately show "length sample_trace \<le> 8"
    using operations_terminate [OF sample_terminates] by blast
qed (simp add: sample_trace_def)

section \<open>Draining the outbox\<close>

text \<open>Proxy records the receipt of an entry, whatever the state of the network.\<close>

definition records ::
  "libs \<Rightarrow> ('n, 's, 'x) clavenar_client \<Rightarrow> receipt_outbox_entry \<Rightarrow> bool" where
  "records L c e \<longleftrightarrow> (\<exists>endpoint.
     join_endpoint L (cl_base_url c) ''execution-receipts'' ''/execution-receipts'' = Inr endpoint
     \<and> (\<forall>n. \<exists>n' resp recorded. cl_http c (receipt_request L c endpoint (ob_receipt e)) n = (n', Inr resp)
          \<and> reads_receipt L resp recorded \<and> confirms recorded (ob_receipt e)))"

lemma run_bindP: "run c (bindP p f) w = (case run c p w of (w', r) \<Rightarrow>
    case r of Inl e \<Rightarrow> (w', Inl e) | Inr x \<Rightarrow> run c (f x) w')"
  by (simp add: bindP_matchP run_matchP split: prod.split sum.split)

lemma run_record:
  assumes "records L c e"
  shows "\<exists>q z n recorded. run c (record_receipt L c (ob_receipt e)) w
      = (note_event (Sent q z) (w\<lparr>wd_net := n\<rparr>), Inr recorded) \<and> confirms recorded (ob_receipt e)"
proof -
  from assms obtain endpoint n' resp recorded where
    join: "join_endpoint L (cl_base_url c) ''execution-receipts'' ''/execution-receipts'' = Inr endpoint"
    and answer: "cl_http c (receipt_request L c endpoint (ob_receipt e)) (wd_net w) = (n', Inr resp)"
    and ok: "reads_receipt L resp recorded" "confirms recorded (ob_receipt e)"
    unfolding records_def by blast
  then show ?thesis
    by (force simp: record_receipt_def sendP_def reads_receipt_def receipt_request_def split: if_splits)
qed

text \<open>A delivery removes the first entry of its name and leaves the rest of the store alone.\<close>

lemma run_deliver:
  assumes "cl_durable_store c = Some (memory_store L)" "records L c e" "validate_outbox_entry e = Inr ()"
    and "remove_first (\<lambda>x. ob_outbox_id x = ob_outbox_id e) (ms_pending (wd_store w)) = Some rest"
  shows "\<exists>w' recorded. run c (deliver_outbox_entry L c e) w = (w', Inr recorded)
    \<and> confirms recorded (ob_receipt e) \<and> wd_tools w' = wd_tools w
    \<and> executions a (wd_trace w') = executions a (wd_trace w)
    \<and> wd_store w' = (wd_store w)\<lparr>ms_pending := rest, ms_ordering := ms_ordering (wd_store w) @ [''delivered''],
        ms_delivered := ms_delivered (wd_store w) @ [(ob_outbox_id e, recorded)]\<rparr>"
proof -
  from run_record [OF assms(2), of w] obtain q z n recorded where
    "run c (record_receipt L c (ob_receipt e)) w = (note_event (Sent q z) (w\<lparr>wd_net := n\<rparr>), Inr recorded)"
    "confirms recorded (ob_receipt e)" by blast
  with assms show ?thesis
    by (simp add: deliver_outbox_entry_def run_bindP confirms_def with_store_def memory_store_def
        mem_mark_delivered_def is_execution_def executions_def note_event_def)
qed

lemma run_flush_entries:
  assumes "cl_durable_store c = Some (memory_store L)"
    and "\<forall>e \<in> set es. records L c e \<and> validate_outbox_entry e = Inr ()"
    and "ms_pending (wd_store w) = es @ rest"
  shows "\<exists>w'. run c (flush_entries L c k es) w = (w', Inr (k + of_nat (length es)))
    \<and> ms_pending (wd_store w') = rest
    \<and> map fst (ms_delivered (wd_store w')) = map fst (ms_delivered (wd_store w)) @ map ob_outbox_id es"
  using assms(2,3)
proof (induction es arbitrary: k w)
  case Nil
  then show ?case by simp
next
  case (Cons e es)
  with run_deliver [OF assms(1), of e w "es @ rest" 0] obtain w1 recorded where
    first: "run c (deliver_outbox_entry L c e) w = (w1, Inr recorded)"
    and store: "ms_pending (wd_store w1) = es @ rest"
      "map fst (ms_delivered (wd_store w1)) = map fst (ms_delivered (wd_store w)) @ [ob_outbox_id e]" by auto
  from Cons.IH [OF _ store(1), of "k + 1"] Cons.prems(1) first store(2) show ?case
    by (auto simp: run_bindP)
qed

lemma run_flush:
  assumes "cl_durable_store c = Some (memory_store L)" "1 \<le> unat n" "unat n \<le> 128"
    and "\<forall>e \<in> set (ms_pending (wd_store w)). records L c e \<and> validate_outbox_entry e = Inr ()"
  shows "\<exists>w'. run c (flush_execution_receipt_outbox L c n) w
        = (w', Inr (of_nat (min (unat n) (length (ms_pending (wd_store w))))))
    \<and> ms_pending (wd_store w') = drop (unat n) (ms_pending (wd_store w))
    \<and> map fst (ms_delivered (wd_store w'))
        = map fst (ms_delivered (wd_store w)) @ map ob_outbox_id (take (unat n) (ms_pending (wd_store w)))"
proof -
  let ?es = "take (unat n) (ms_pending (wd_store w))"
  let ?w1 = "note_event (Listed n (Inr ?es)) w"
  have "n \<noteq> 0" "\<not> n > MAX_OUTBOX_FLUSH" using assms(2,3)
    by (auto simp: MAX_OUTBOX_FLUSH_def word_less_nat_alt)
  then have "run c (flush_execution_receipt_outbox L c n) w = run c (flush_entries L c 0 ?es) ?w1"
    using assms(1) by (simp add: flush_execution_receipt_outbox_def required_def reject_if_def
        with_store_def memory_store_def mem_pending_receipts_def)
  moreover have "\<forall>e \<in> set ?es. records L c e \<and> validate_outbox_entry e = Inr ()"
    using assms(4) by (blast dest: in_set_takeD)
  ultimately show ?thesis
    using run_flush_entries [OF assms(1), of ?es ?w1 "drop (unat n) (ms_pending (wd_store w))" 0]
    by (simp add: min.commute)
qed

primrec flushes :: "libs \<Rightarrow> ('n, memory_state, 'x) clavenar_client \<Rightarrow> usize \<Rightarrow> nat
    \<Rightarrow> ('n, memory_state, 'x) world \<Rightarrow> ('n, memory_state, 'x) world" where
  "flushes L c n 0 w = w"
| "flushes L c n (Suc k) w = flushes L c n k (fst (run c (flush_execution_receipt_outbox L c n) w))"

text \<open>C16: flushing makes progress. While Proxy records the receipts it is sent, every flush of
  the in-memory store succeeds and reports exactly what it delivered; \<open>k\<close> flushes deliver the
  first \<open>k\<close> times \<open>n\<close> entries, each once and in the order they were committed, and leave the
  rest pending, so that finitely many flushes empty the outbox whatever the limit.\<close>

theorem outbox_drains:
  assumes "cl_durable_store c = Some (memory_store L)" and "1 \<le> unat n" "unat n \<le> 128"
    and "\<forall>e \<in> set (ms_pending (wd_store w)). records L c e \<and> validate_outbox_entry e = Inr ()"
  shows "ms_pending (wd_store (flushes L c n k w)) = drop (k * unat n) (ms_pending (wd_store w))
    \<and> map fst (ms_delivered (wd_store (flushes L c n k w)))
        = map fst (ms_delivered (wd_store w)) @ map ob_outbox_id (take (k * unat n) (ms_pending (wd_store w)))
    \<and> snd (run c (flush_execution_receipt_outbox L c n) (flushes L c n k w))
        = Inr (of_nat (min (unat n) (length (ms_pending (wd_store w)) - k * unat n)))
    \<and> ms_pending (wd_store (flushes L c n (length (ms_pending (wd_store w))) w)) = []"
proof -
  have drained: "ms_pending (wd_store (flushes L c n k w)) = drop (k * unat n) (ms_pending (wd_store w))
    \<and> map fst (ms_delivered (wd_store (flushes L c n k w)))
        = map fst (ms_delivered (wd_store w)) @ map ob_outbox_id (take (k * unat n) (ms_pending (wd_store w)))" for k
    using assms(4)
  proof (induction k arbitrary: w)
    case 0
    then show ?case by simp
  next
    case (Suc k)
    from run_flush [OF assms(1-3) Suc.prems] obtain w' where
      w': "run c (flush_execution_receipt_outbox L c n) w
        = (w', Inr (of_nat (min (unat n) (length (ms_pending (wd_store w))))))"
      and rest: "ms_pending (wd_store w') = drop (unat n) (ms_pending (wd_store w))"
      and sent: "map fst (ms_delivered (wd_store w'))
        = map fst (ms_delivered (wd_store w)) @ map ob_outbox_id (take (unat n) (ms_pending (wd_store w)))"
      by blast
    have "\<forall>e \<in> set (ms_pending (wd_store w')). records L c e \<and> validate_outbox_entry e = Inr ()"
      unfolding rest using Suc.prems by (blast dest: in_set_dropD)
    from Suc.IH [OF this] w' sent show ?case
      by (simp add: rest add.commute take_add)
  qed
  have "\<forall>e \<in> set (ms_pending (wd_store (flushes L c n k w))). records L c e \<and> validate_outbox_entry e = Inr ()"
    using drained [of k] assms(4) by (metis in_set_dropD)
  from run_flush [OF assms(1-3) this] drained [of k] drained [of "length (ms_pending (wd_store w))"] assms(2)
  show ?thesis by auto
qed

text \<open>Two receipts wait; flushed one at a time, both are delivered.\<close>

definition waiting_world :: "(http_response, memory_state, nat) world" where
  "waiting_world = sample_world\<lparr>wd_store := memory_empty\<lparr>ms_pending := [sample_entry, sample_entry]\<rparr>\<rparr>"

lemma sample_records: "records SL sample_client sample_entry"
  by (force simp: records_def join_endpoint_def receipt_request_def reads_receipt_def confirms_def byte_def
      sample_recorded_def sample_entry_def signed_receipt_def sample_auth_def Let_def)

theorem outbox_drains_witness:
  "length (ms_pending (wd_store waiting_world)) = 2
   \<and> ms_pending (wd_store (flushes SL sample_client 1 2 waiting_world)) = []
   \<and> map fst (ms_delivered (wd_store (flushes SL sample_client 1 2 waiting_world)))
      = [ob_outbox_id sample_entry, ob_outbox_id sample_entry]"
proof -
  have pending: "ms_pending (wd_store waiting_world) = [sample_entry, sample_entry]"
    "ms_delivered (wd_store waiting_world) = []"
    by (simp_all add: waiting_world_def memory_empty_def)
  with sample_records sample_entry_valid have
    "\<forall>e \<in> set (ms_pending (wd_store waiting_world)). records SL sample_client e \<and> validate_outbox_entry e = Inr ()"
    by simp
  from outbox_drains [OF _ _ _ this, of 1 2] pending show ?thesis by simp
qed

end
