(* ===== verification/Exec_Outbox.thy ===== *)
theory Exec_Outbox
  imports Exec_Claims4
begin

text \<open>
  No receipt is lost. Over every interleaving and crash of SDK operations on one store that
  keeps the contract \<open>receipt_store\<close>, a committed receipt is pending until it is marked, and
  a mark is only ever made for an entry the store handed out and whose receipt Proxy
  confirmed. The second half is a discipline of the programs, the first a promise of the store; the invariant joins them.
\<close>

section \<open>The discipline of marking\<close>

text \<open>Among the events \<open>H\<close>, the store handed this entry to the SDK: as the answer to a commit, or
  in a listing of what is pending.\<close>

definition handed :: "event set \<Rightarrow> receipt_outbox_entry \<Rightarrow> bool" where
  "handed H e \<longleftrightarrow> (\<exists>cp. Committed cp (Inr e) \<in> H) \<or> (\<exists>n es. Listed n (Inr es) \<in> H \<and> e \<in> set es)"

text \<open>Among the events \<open>H\<close>, this receipt was posted to Proxy and the answer was \<open>m\<close>, which confirms
  its authorization, contract and stage.\<close>

definition proxy_confirmed :: "libs \<Rightarrow> event set \<Rightarrow> execution_receipt \<Rightarrow> receipt_recorded \<Rightarrow> bool" where
  "proxy_confirmed L H receipt m \<longleftrightarrow> (\<exists>q resp. Sent q (Inr resp) \<in> H \<and> hr_method q = POST
     \<and> hr_body q = JsonBody (enc_execution_receipt L receipt) \<and> reads_receipt L resp m \<and> confirms m receipt)"

text \<open>A mark of \<open>k\<close> with \<open>m\<close> is supported by \<open>H\<close>: the store handed out an entry named \<open>k\<close>, and it is
  the receipt of that entry that Proxy confirmed with \<open>m\<close>.\<close>

definition supports :: "libs \<Rightarrow> event set \<Rightarrow> string \<Rightarrow> receipt_recorded \<Rightarrow> bool" where
  "supports L H k m \<longleftrightarrow> (\<exists>e. handed H e \<and> ob_outbox_id e = k \<and> proxy_confirmed L H (ob_receipt e) m)"

text \<open>A store that gives no two entries of a trace the same outbox identifier.\<close>

definition names_apart :: "event list \<Rightarrow> bool" where
  "names_apart tr \<longleftrightarrow> (\<forall>e e'. handed (set tr) e \<and> handed (set tr) e' \<and> ob_outbox_id e = ob_outbox_id e' \<longrightarrow> e = e')"

lemma handed_mono: "handed H e \<Longrightarrow> H \<subseteq> H' \<Longrightarrow> handed H' e"
  unfolding handed_def by blast

lemma handed_insert: "handed H e \<Longrightarrow> handed (insert ev H) e"
  by (rule handed_mono) auto

lemma handed_here [simp]:
  "handed (insert (Committed cp (Inr e)) H) e"
  "e \<in> set es \<Longrightarrow> handed (insert (Listed n (Inr es)) H) e"
  unfolding handed_def by blast+

lemma proxy_confirmed_mono: "proxy_confirmed L H r m \<Longrightarrow> H \<subseteq> H' \<Longrightarrow> proxy_confirmed L H' r m"
  unfolding proxy_confirmed_def by blast

lemma supports_mono: "supports L H k m \<Longrightarrow> H \<subseteq> H' \<Longrightarrow> supports L H' k m"
  unfolding supports_def using handed_mono proxy_confirmed_mono by blast

text \<open>\<open>p\<close> marks only what the events of \<open>H\<close> and its own requests support.\<close>

primrec marks_on :: "libs \<Rightarrow> ('e, 'a) prog \<Rightarrow> event set \<Rightarrow> bool" where
  "marks_on L (Return r) = (\<lambda>H. True)"
| "marks_on L (HttpSend x k) = (\<lambda>H. \<forall>z. marks_on L (k z) (insert (Sent x z) H))"
| "marks_on L (NextId k) = (\<lambda>H. \<forall>z. marks_on L (k z) H)"
| "marks_on L (NewUuid k) = (\<lambda>H. \<forall>z. marks_on L (k z) H)"
| "marks_on L (AskSingleUse k) = (\<lambda>H. \<forall>z. marks_on L (k z) H)"
| "marks_on L (AskReconciliation k) = (\<lambda>H. \<forall>z. marks_on L (k z) H)"
| "marks_on L (BeginEffect x y k) = (\<lambda>H. \<forall>z. marks_on L (k z) H)"
| "marks_on L (LoadIntent x k) = (\<lambda>H. \<forall>z. marks_on L (k z) H)"
| "marks_on L (CommitEffect x k) = (\<lambda>H. \<forall>z. marks_on L (k z) (insert (Committed x z) H))"
| "marks_on L (ListReceipts x k) = (\<lambda>H. \<forall>z. marks_on L (k z) (insert (Listed x z) H))"
| "marks_on L (MarkDelivered x y k) = (\<lambda>H. supports L H x y \<and> (\<forall>z. marks_on L (k z) H))"
| "marks_on L (ExecuteTool x k) = (\<lambda>H. \<forall>z. marks_on L (k z) H)"
| "marks_on L (LookupEffect x k) = (\<lambda>H. \<forall>z. marks_on L (k z) H)"

lemma marks_on_mono: "marks_on L p H \<Longrightarrow> H \<subseteq> H' \<Longrightarrow> marks_on L p H'"
proof (induction p arbitrary: H H')
  case (HttpSend x k)
  have "marks_on L (k z) (insert (Sent x z) H')" for z
    by (rule HttpSend.IH [OF rangeI, of _ "insert (Sent x z) H"]) (use HttpSend.prems in auto)
  then show ?case by simp
next
  case (CommitEffect x k)
  have "marks_on L (k z) (insert (Committed x z) H')" for z
    by (rule CommitEffect.IH [OF rangeI, of _ "insert (Committed x z) H"]) (use CommitEffect.prems in auto)
  then show ?case by simp
next
  case (ListReceipts x k)
  have "marks_on L (k z) (insert (Listed x z) H')" for z
    by (rule ListReceipts.IH [OF rangeI, of _ "insert (Listed x z) H"]) (use ListReceipts.prems in auto)
  then show ?case by simp
next
  case (MarkDelivered x y k)
  then show ?case using supports_mono [of L H x y H'] by (simp only: marks_on.simps; blast)
qed (simp only: marks_on.simps simp_thms; blast)+

lemma marks_on_insert: "marks_on L p H \<Longrightarrow> marks_on L p (insert ev H)"
  by (rule marks_on_mono) auto

lemma marks_on_matchP:
  "marks_on L p H \<Longrightarrow> (\<And>r. marks_on L (f r) H) \<Longrightarrow> marks_on L (matchP p f) H"
proof (induction p arbitrary: H)
  case (HttpSend x k)
  then have "marks_on L (matchP (k z) f) (insert (Sent x z) H)" for z
    by (intro HttpSend.IH [OF rangeI]) (simp_all add: marks_on_insert)
  then show ?case by simp
next
  case (CommitEffect x k)
  then have "marks_on L (matchP (k z) f) (insert (Committed x z) H)" for z
    by (intro CommitEffect.IH [OF rangeI]) (simp_all add: marks_on_insert)
  then show ?case by simp
next
  case (ListReceipts x k)
  then have "marks_on L (matchP (k z) f) (insert (Listed x z) H)" for z
    by (intro ListReceipts.IH [OF rangeI]) (simp_all add: marks_on_insert)
  then show ?case by simp
qed simp_all

lemma marks_on_bindP:
  "marks_on L p H \<Longrightarrow> (\<And>x. marks_on L (f x) H) \<Longrightarrow> marks_on L (bindP p f) H"
  unfolding bindP_matchP by (rule marks_on_matchP) (auto split: sum.split)

lemma marks_on_tryP: "(\<And>x. r = Inr x \<Longrightarrow> marks_on L (f x) H) \<Longrightarrow> marks_on L (tryP r f) H"
  by (cases r) auto

lemma marks_on_map_errP: "marks_on L p H \<Longrightarrow> marks_on L (map_errP g p) H"
  unfolding map_errP_def by (rule marks_on_matchP) auto

lemma marks_on_mapP: "marks_on L p H \<Longrightarrow> marks_on L (mapP g p) H"
  unfolding mapP_def by (rule marks_on_bindP) auto

lemma marks_on_forget: "marks_on L p H \<Longrightarrow> marks_on L (forget p) H"
  unfolding forget_def by (rule marks_on_matchP) auto

lemmas marks_rules = marks_on_tryP marks_on_bindP marks_on_matchP marks_on_map_errP marks_on_mapP

lemma marks_on_sendP: "marks_on L (sendP q) H"
  by (simp add: sendP_def)

lemma marks_on_deliver: "handed H e \<Longrightarrow> marks_on L (deliver_outbox_entry L c e) H"
proof -
  assume e: "handed H e"
  have "supports L (insert (Sent (receipt_request L c u (ob_receipt e)) (Inr resp)) H) (ob_outbox_id e) m"
    if "reads_receipt L resp m" "confirms m (ob_receipt e)" for u resp m
  proof -
    from that have "proxy_confirmed L (insert (Sent (receipt_request L c u (ob_receipt e)) (Inr resp)) H) (ob_receipt e) m"
      unfolding proxy_confirmed_def
      by (intro exI [of _ "receipt_request L c u (ob_receipt e)"] exI [of _ resp])
        (auto simp: receipt_request_def authorize_request_def json_body_def request_def bearer_auth_def
          header_def split: auth.split)
    then show ?thesis unfolding supports_def using handed_insert [OF e] by blast
  qed
  then show ?thesis
    unfolding deliver_outbox_entry_def record_receipt_def bindP_tryP bindP_bindP
    by (auto simp: sendP_def reads_receipt_def confirms_def receipt_request_def split: sum.split
        intro!: marks_on_tryP)
qed

lemma marks_on_helpers:
  "marks_on L (execution_dependencies c) H" "marks_on L require_single_use_store H"
  "marks_on L (authorize_payload_state L c u body p) H" "marks_on L (authorize_payload L c u body) H"
  "marks_on L (lookup_effect ex q) H"
proof -
  show state: "marks_on L (authorize_payload_state L c u body p) H" for p
    by (auto simp: authorize_payload_state_def intro!: marks_rules marks_on_sendP)
  show "marks_on L (authorize_payload L c u body) H"
    by (auto simp: authorize_payload_def split: authorization_state.split intro!: marks_rules state)
qed (auto simp: execution_dependencies_def require_uncertain_effect_store_def require_single_use_store_def
    lookup_effect_def split: sum.split intro!: marks_rules)

lemma marks_on_complete: "marks_on L (complete_known_effect L c key sa effect i) H"
  by (auto simp: complete_known_effect_def map_errP_commit split: sum.split intro!: marks_rules marks_on_deliver)

lemma marks_on_execute: "marks_on L (execute_authorization L c ex key sa su) H"
  by (auto simp: execute_authorization_def Let_def split: effect_attempt_claim.split sum.split
      known_effect_completion_error.split intro!: marks_rules marks_on_complete)

lemma marks_on_flush: "marks_on L (flush_execution_receipt_outbox L c n) H"
proof -
  have "marks_on L (flush_entries L c k es) H" if "\<forall>e \<in> set es. handed H e" for k es H
    using that by (induction es arbitrary: k) (auto intro!: marks_rules marks_on_deliver)
  then show ?thesis
    by (auto simp: flush_execution_receipt_outbox_def split: sum.split intro!: marks_rules)
qed

lemma marks_on_reconcile: "marks_on L (reconcile_uncertain_effect L c u) H"
  by (auto simp: reconcile_uncertain_effect_def still_uncertain_def split: sum.split option.split
      effect_lookup_outcome.split known_effect_completion_error.split
      intro!: marks_rules marks_on_helpers marks_on_complete)

lemma sdk_operation_marks: "sdk_operation L c p \<Longrightarrow> marks_on L p H"
  by (induction rule: sdk_operation.induct)
    (auto simp: authorize_prepared_tool_def authorize_prepared_tool_batch_def execute_tool_def
      execute_prepared_tool_def execute_tool_batch_def execute_prepared_tool_batch_def
      begin_prepared_tool_execution_def resume_prepared_tool_execution_def authorize_tool_def
      begin_prepared_tool_batch_execution_def resume_prepared_tool_batch_execution_def
      authorize_tool_batch_def Let_def split: authorization_state.split
      intro!: marks_on_forget marks_rules marks_on_helpers marks_on_execute marks_on_flush marks_on_reconcile)

section \<open>The invariant\<close>

text \<open>Every mark in a trace is supported by what came before it.\<close>

definition confirmed :: "libs \<Rightarrow> event list \<Rightarrow> bool" where
  "confirmed L tr \<longleftrightarrow> (\<forall>xs k m z ys. tr = xs @ Marked k m z # ys \<longrightarrow> supports L (set xs) k m)"

lemma confirmed_snoc:
  "confirmed L (tr @ [ev]) \<longleftrightarrow> confirmed L tr \<and> (\<forall>k m z. ev = Marked k m z \<longrightarrow> supports L (set tr) k m)"
proof -
  have cut_at: "tr @ [ev] = xs @ Marked k m z # ys \<longleftrightarrow>
      (ys = [] \<and> xs = tr \<and> ev = Marked k m z) \<or> (\<exists>zs. ys = zs @ [ev] \<and> tr = xs @ Marked k m z # zs)"
    for xs k m z ys by (cases ys rule: rev_cases) auto
  show ?thesis unfolding confirmed_def cut_at by (intro iffI conjI; blast)
qed

context receipt_store begin

definition kept :: "event list \<Rightarrow> 's \<Rightarrow> bool" where
  "kept tr s \<longleftrightarrow> (\<forall>xs cp e ys. tr = xs @ Committed cp (Inr e) # ys \<longrightarrow>
     ob_receipt e = cp_receipt cp
     \<and> (e \<in> set (outbox s) \<or> (\<exists>us m vs. ys = us @ Marked (ob_outbox_id e) m (Inr ()) # vs)))"

text \<open>What one event does to the outbox.\<close>

definition moves :: "event \<Rightarrow> 's \<Rightarrow> 's \<Rightarrow> bool" where
  "moves ev s s' \<longleftrightarrow>
     (\<forall>e \<in> set (outbox s). e \<in> set (outbox s') \<or> (\<exists>m. ev = Marked (ob_outbox_id e) m (Inr ())))
     \<and> (\<forall>cp e. ev = Committed cp (Inr e) \<longrightarrow> e \<in> set (outbox s') \<and> ob_receipt e = cp_receipt cp)"

lemma kept_snoc:
  assumes "kept tr s" "moves ev s s'"
  shows "kept (tr @ [ev]) s'"
  unfolding kept_def
proof (intro allI impI)
  fix xs cp e ys
  assume split: "tr @ [ev] = xs @ Committed cp (Inr e) # ys"
  show "ob_receipt e = cp_receipt cp
     \<and> (e \<in> set (outbox s') \<or> (\<exists>us m vs. ys = us @ Marked (ob_outbox_id e) m (Inr ()) # vs))"
  proof (cases ys rule: rev_cases)
    case Nil
    with split assms(2) show ?thesis by (auto simp: moves_def)
  next
    case (snoc zs ev')
    with split have tr: "tr = xs @ Committed cp (Inr e) # zs" and ys: "ys = zs @ [ev]" by simp_all
    from assms(1) tr have "ob_receipt e = cp_receipt cp"
      and "e \<in> set (outbox s) \<or> (\<exists>us m vs. zs = us @ Marked (ob_outbox_id e) m (Inr ()) # vs)"
      unfolding kept_def by blast+
    with assms(2) ys show ?thesis unfolding moves_def by (metis append.assoc append_Cons)
  qed
qed

lemma advance_moves:
  assumes "cl_durable_store c = Some st" "advance c p w = (p', w')" "marks_on L p (set (wd_trace w))"
  shows "(w' = w \<and> p' = p) \<or> (\<exists>ev. wd_trace w' = wd_trace w @ [ev] \<and> moves ev (wd_store w) (wd_store w')
    \<and> marks_on L p' (set (wd_trace w')) \<and> (\<forall>k m z. ev = Marked k m z \<longrightarrow> supports L (set (wd_trace w)) k m))"
  using assms
proof (cases p)
  case (HttpSend q k)
  with assms obtain n z where "p' = k z" "wd_trace w' = wd_trace w @ [Sent q z]" "wd_store w' = wd_store w"
    by (auto split: prod.splits)
  with assms(3) HttpSend show ?thesis by (auto simp: moves_def)
next
  case (CommitEffect cp k)
  with assms obtain s z where z: "ds_commit_effect st cp (wd_store w) = (s, z)"
    and p': "p' = k z" "wd_trace w' = wd_trace w @ [Committed cp z]" "wd_store w' = s"
    by (auto simp: with_store_def split: prod.splits)
  have "moves (Committed cp z) (wd_store w) s"
    using z commit_pending [OF z] by (auto simp: moves_def dest: commit_enqueues)
  with p' assms(3) CommitEffect show ?thesis by (auto intro!: marks_on_insert)
next
  case (MarkDelivered i m k)
  with assms obtain s z where z: "ds_mark_delivered st i m (wd_store w) = (s, z)"
    and p': "p' = k z" "wd_trace w' = wd_trace w @ [Marked i m z]" "wd_store w' = s"
    by (auto simp: with_store_def split: prod.splits)
  have "moves (Marked i m z) (wd_store w) s"
    using mark_pending [OF z] by (auto simp: moves_def)
  with p' assms(3) MarkDelivered show ?thesis by (auto intro!: marks_on_insert)
qed (auto simp: with_store_def moves_def intro!: marks_on_insert split: prod.splits
    dest!: begin_pending load_pending list_pending with_tools_trace)

text \<open>The invariant of the scheduler.\<close>

definition safe_outbox ::
  "libs \<Rightarrow> (('n, 's, 'x) clavenar_client \<times> ('e, 'a) prog) list \<times> ('n, 's, 'x) world \<Rightarrow> bool" where
  "safe_outbox L cfg \<longleftrightarrow> (case cfg of (ps, w) \<Rightarrow>
     kept (wd_trace w) (wd_store w) \<and> confirmed L (wd_trace w)
     \<and> (\<forall>(c, p) \<in> set ps. cl_durable_store c = Some st \<and> marks_on L p (set (wd_trace w))))"

lemma step_safe_outbox:
  assumes "step ops cfg cfg'" "safe_outbox L cfg"
    and ops: "\<And>c p H. (c, p) \<in> ops \<Longrightarrow> cl_durable_store c = Some st \<and> marks_on L p H"
  shows "safe_outbox L cfg'"
  using assms(1)
proof cases
  case (Start cp ps w)
  with assms(2) ops [of "fst cp" "snd cp"] show ?thesis by (auto simp: safe_outbox_def)
next
  case (Act i ps c p w p' w')
  with assms(2) have inv: "kept (wd_trace w) (wd_store w)" "confirmed L (wd_trace w)"
    and all: "\<forall>(c, p) \<in> set ps. cl_durable_store c = Some st \<and> marks_on L p (set (wd_trace w))"
    by (auto simp: safe_outbox_def)
  have "(c, p) \<in> set ps" using Act(3,4) nth_mem by fastforce
  with all have c: "cl_durable_store c = Some st" "marks_on L p (set (wd_trace w))" by auto
  from advance_moves [OF c(1) Act(5) c(2)] show ?thesis
  proof (elim disjE exE conjE)
    assume "w' = w" "p' = p"
    moreover have "ps[i := (c, p)] = ps" using Act(4) by (metis list_update_id)
    ultimately show ?thesis using assms(2) Act(1,2) by simp
  next
    fix ev
    assume ev: "wd_trace w' = wd_trace w @ [ev]" "moves ev (wd_store w) (wd_store w')"
      "marks_on L p' (set (wd_trace w'))" "\<forall>k m z. ev = Marked k m z \<longrightarrow> supports L (set (wd_trace w)) k m"
    have "\<forall>(c, p) \<in> set (ps[i := (c, p')]). cl_durable_store c = Some st \<and> marks_on L p (set (wd_trace w'))"
      using all c(1) ev(1,3) by (auto dest!: subsetD [OF set_update_subset_insert] intro: marks_on_insert)
    with kept_snoc [OF inv(1) ev(2)] inv(2) ev(1,4) Act(2) show ?thesis
      by (simp add: safe_outbox_def confirmed_snoc)
  qed
next
  case (Crash ps cp qs w)
  with assms(2) show ?thesis by (auto simp: safe_outbox_def)
qed

lemma reachable_safe_outbox:
  assumes "reachable ops w0 cfg" "wd_trace w0 = []"
    and "\<And>c p H. (c, p) \<in> ops \<Longrightarrow> cl_durable_store c = Some st \<and> marks_on L p H"
  shows "safe_outbox L cfg"
  using assms(1)
proof (induction rule: reachable.induct)
  case Initial
  then show ?case by (simp add: safe_outbox_def kept_def confirmed_def assms(2))
next
  case (Next cfg cfg')
  from Next(2,3) assms(3) show ?case by (rule step_safe_outbox)
qed

end

text \<open>C8: no receipt is lost, over any interleaving of any number of SDK operations of any clients
  of one store that keeps the receipt contract, with operations started, crashed or dropped at
  any point. A receipt whose commit the store acknowledged, which is the very receipt of the
  completion, is pending in the outbox until it is marked as delivered; and a mark of its outbox
  identifier is made only for an entry which the store itself handed out before under that
  identifier, by a commit or in a listing, and whose receipt was posted to Proxy and answered
  with a confirmation of its authorization, contract and stage. In a store that gives no two
  entries the same outbox identifier that entry is the committed one.\<close>

theorem receipts_survive:
  assumes "receipt_store st opened outbox"
    and "\<And>c p. (c, p) \<in> ops \<Longrightarrow> cl_durable_store c = Some st \<and> sdk_operation L c p"
    and "wd_trace w0 = []" and "reachable ops w0 (ps, w)"
    and "wd_trace w = xs @ Committed cp (Inr e) # ys"
  shows "ob_receipt e = cp_receipt cp \<and> (e \<in> set (outbox (wd_store w))
    \<or> (\<exists>us m vs e'. ys = us @ Marked (ob_outbox_id e) m (Inr ()) # vs
        \<and> ob_outbox_id e' = ob_outbox_id e
        \<and> handed (set (xs @ Committed cp (Inr e) # us)) e'
        \<and> proxy_confirmed L (set (xs @ Committed cp (Inr e) # us)) (ob_receipt e') m
        \<and> (names_apart (wd_trace w) \<longrightarrow> e' = e)))"
proof -
  have "cl_durable_store c = Some st \<and> marks_on L p H" if "(c, p) \<in> ops" for c p H
    using assms(2) [OF that] sdk_operation_marks by blast
  from receipt_store.reachable_safe_outbox [OF assms(1,4,3) this]
  have kept: "receipt_store.kept outbox (wd_trace w) (wd_store w)" and conf: "confirmed L (wd_trace w)"
    by (simp_all add: receipt_store.safe_outbox_def [OF assms(1)])
  from kept assms(5) have "ob_receipt e = cp_receipt cp"
    and "e \<in> set (outbox (wd_store w)) \<or> (\<exists>us m vs. ys = us @ Marked (ob_outbox_id e) m (Inr ()) # vs)"
    unfolding receipt_store.kept_def [OF assms(1)] by blast+
  moreover have "\<exists>e'. ob_outbox_id e' = ob_outbox_id e
        \<and> handed (set (xs @ Committed cp (Inr e) # us)) e'
        \<and> proxy_confirmed L (set (xs @ Committed cp (Inr e) # us)) (ob_receipt e') m
        \<and> (names_apart (wd_trace w) \<longrightarrow> e' = e)"
    if ys: "ys = us @ Marked (ob_outbox_id e) m (Inr ()) # vs" for us m vs
  proof -
    let ?H = "set (xs @ Committed cp (Inr e) # us)"
    have "supports L ?H (ob_outbox_id e) m"
      using conf assms(5) ys unfolding confirmed_def by (metis append.assoc append_Cons)
    then obtain e' where e': "handed ?H e'" "ob_outbox_id e' = ob_outbox_id e"
      "proxy_confirmed L ?H (ob_receipt e') m" unfolding supports_def by blast
    have "handed (set (wd_trace w)) e'" by (rule handed_mono [OF e'(1)]) (auto simp: assms(5) ys)
    moreover have "handed (set (wd_trace w)) e" by (auto simp: assms(5) handed_def)
    ultimately show ?thesis using e' unfolding names_apart_def by blast
  qed
  ultimately show ?thesis by blast
qed

theorem receipts_survive_witness:
  "\<exists>us m vs. drop 5 sample_trace = us @ Marked (ob_outbox_id sample_entry) m (Inr ()) # vs
     \<and> handed (set (take 5 sample_trace @ us)) sample_entry
     \<and> proxy_confirmed SL (set (take 5 sample_trace @ us)) (ob_receipt sample_entry) m"
proof -
  let ?op = "forget (execute_tool SL sample_client 7 ''read_file'' JNull)"
  have run: "run sample_client ?op sample_world = (sample_world', Inr ())"
    by (rule forget_run [OF sample_run])
  have reach: "reachable {(sample_client, ?op)} sample_world ([(sample_client, Return (Inr ()))], sample_world')"
    by (rule run_reachable [OF start_reachable run]) simp
  have op: "sdk_operation SL sample_client ?op" by (rule sdk_operation.intros)
  have trace: "wd_trace sample_world' = take 4 sample_trace
      @ Committed (completion_of SL sample_key sample_auth sample_effect ''exec'') (Inr sample_entry) # drop 5 sample_trace"
    by (simp add: sample_world'_def sample_trace_def)
  have apart: "names_apart (wd_trace sample_world')"
    by (auto simp: names_apart_def handed_def sample_world'_def sample_trace_def)
  have "take 4 sample_trace @ Committed (completion_of SL sample_key sample_auth sample_effect ''exec'') (Inr sample_entry) # us
      = take 5 sample_trace @ us" for us by (simp add: sample_trace_def)
  note same = this
  have "sample_entry \<notin> set (ms_pending (wd_store sample_world'))"
    by (simp add: sample_world'_def sample_final_def)
  moreover have "wd_trace sample_world = []" by (simp add: sample_world_def)
  moreover have "cl_durable_store c = Some (memory_store SL) \<and> sdk_operation SL c p"
    if "(c, p) \<in> {(sample_client, ?op)}" for c p using that op by simp
  ultimately obtain us m vs e' where
    "drop 5 sample_trace = us @ Marked (ob_outbox_id sample_entry) m (Inr ()) # vs"
    "handed (set (take 5 sample_trace @ us)) e'" "proxy_confirmed SL (set (take 5 sample_trace @ us)) (ob_receipt e') m"
    "e' = sample_entry"
    using receipts_survive [OF mem_receipt.receipt_store_axioms _ _ reach trace, of SL SL] apart
    unfolding same by blast
  then show ?thesis by blast
qed

end
