(* ===== verification/Exec_Progress.thy ===== *)
theory Exec_Progress
  imports Exec_Liveness Store_Refine
begin

text \<open>
  That execution makes progress: with the required dependencies, a Proxy that approves and
  records, and an executor that answers, \<open>execute_tool\<close> runs to its result on the in-memory
  store; asking again executes nothing and says so.
\<close>

section \<open>The steps of a run\<close>

text \<open>Proxy approves the request of \<open>body\<close> under \<open>u\<close> with \<open>sa\<close>, whatever the network's state.\<close>

definition approves ::
  "libs \<Rightarrow> ('n, 's, 'x) clavenar_client \<Rightarrow> uuid \<Rightarrow> json \<Rightarrow> signed_authorization \<Rightarrow> bool" where
  "approves L c u body sa \<longleftrightarrow> (\<exists>endpoint.
     join_endpoint L (cl_base_url c) ''mcp'' ''/mcp'' = Inr endpoint
     \<and> (\<forall>n. \<exists>n' resp. cl_http c (decision_request L c endpoint u body None) n = (n', Inr resp)
          \<and> read_decision L u body None resp = Inr (Authorized sa)))"

lemma approves_idempotency: "approves L c u body sa \<Longrightarrow> az_idempotency_id (authorization sa) = u"
  unfolding approves_def using read_decision_Authorized(2) by (force simp: accepts_authorization_def)

lemma run_dependencies:
  assumes "equipped c ex key" "cl_durable_store c = Some (memory_store L)"
  shows "run c (execution_dependencies c) w = (note_event (AskedReconciliation True) w, Inr (ex, key))"
proof -
  have "validate_executor_id (ex_id ex) = Inr ()"
    using assms(1) unfolding equipped_def validators by blast
  moreover have "asks_store c ds_supports_reconciliation w"
    using assms(2) by (simp add: asks_store_def memory_store_def)
  ultimately show ?thesis
    using assms by (simp add: execution_dependencies_def required_def equipped_def
        require_uncertain_effect_store_def reject_if_def)
qed

lemma run_authorize:
  assumes "approves L c u body sa"
  shows "\<exists>q z n. run c (authorize_payload L c u body) w = (note_event (Sent q z) (w\<lparr>wd_net := n\<rparr>), Inr sa)"
proof -
  from assms obtain endpoint n resp where
    "join_endpoint L (cl_base_url c) ''mcp'' ''/mcp'' = Inr endpoint"
    "cl_http c (decision_request L c endpoint u body None) (wd_net w) = (n, Inr resp)"
    "read_decision L u body None resp = Inr (Authorized sa)"
    unfolding approves_def by blast
  then show ?thesis by (force simp: authorize_payload_def authorize_payload_state_def sendP_def)
qed

lemma run_up_to_decision:
  assumes "equipped c ex key" "cl_durable_store c = Some (memory_store L)"
    and "approves L c u (tool_envelope L u name args) sa"
  shows "\<exists>w1. run c (execute_tool L c u name args) w = run c (execute_authorization L c ex key sa False) w1
    \<and> wd_store w1 = wd_store w \<and> wd_tools w1 = wd_tools w
    \<and> executions a (wd_trace w1) = executions a (wd_trace w)"
proof -
  let ?w = "note_event (AskedReconciliation True) w"
  from run_authorize [OF assms(3), of ?w] obtain q z n where
    "run c (authorize_payload L c u (tool_envelope L u name args)) ?w
      = (note_event (Sent q z) (?w\<lparr>wd_net := n\<rparr>), Inr sa)" by blast
  then show ?thesis
    by (intro exI [of _ "note_event (Sent q z) (?w\<lparr>wd_net := n\<rparr>)"])
      (simp add: execute_tool_def authorize_tool_def run_bindP run_dependencies [OF assms(1,2)]
        is_execution_def executions_def note_event_def)
qed

text \<open>An authorization whose effect the store has settled.\<close>

lemma run_execute_settled:
  assumes "cl_durable_store c = Some (memory_store L)" "\<not> ms_fail_intent (wd_store w)"
    and "intent_for a (ms_intents (wd_store w)) = Some (intent_of (ex_id ex) sa)"
    and "a \<in> ms_completed (wd_store w)" "a = az_authorization_id (authorization sa)"
  shows "\<exists>w'. run c (execute_authorization L c ex key sa False) w
      = (w', Inl (ExecutionAlreadyCompleted a (az_idempotency_id (authorization sa))))
    \<and> wd_store w' = wd_store w \<and> wd_tools w' = wd_tools w
    \<and> executions b (wd_trace w') = executions b (wd_trace w)"
  using assms by (simp add: execute_authorization_def Let_def with_store_def memory_store_def
      mem_begin_effect_attempt_def intent_of_def is_execution_def note_event_def)

text \<open>Entry and store of the effect \<open>effect\<close> of \<open>sa\<close>; the state in which the effect may start.\<close>

definition entry_of ::
  "libs \<Rightarrow> (string \<Rightarrow> string) \<Rightarrow> signed_authorization \<Rightarrow> execution_effect \<Rightarrow> receipt_outbox_entry" where
  "entry_of L key sa effect = \<lparr>ob_outbox_id = ''receipt-'' @ uuid_string L (az_authorization_id (authorization sa)),
     ob_receipt = signed_receipt L key sa effect\<rparr>"

definition startable :: "libs \<Rightarrow> signed_authorization \<Rightarrow> memory_state \<Rightarrow> bool" where
  "startable L sa s \<longleftrightarrow> (let a = az_authorization_id (authorization sa) in
     \<not> ms_fail_intent s \<and> intent_for a (ms_intents s) = None \<and> a \<notin> ms_in_flight s \<and> a \<notin> ms_completed s
     \<and> ''receipt-'' @ uuid_string L a \<notin> ob_outbox_id ` set (ms_pending s))"

lemma remove_first_last:
  "x \<notin> f ` set xs \<Longrightarrow> f y = x \<Longrightarrow> remove_first (\<lambda>z. f z = x) (xs @ [y]) = Some xs"
  by (induction xs) auto

lemma run_complete:
  assumes "cl_durable_store c = Some (memory_store L)" "startable L sa (wd_store w0)"
    and "records L c (entry_of L key sa effect)" "validate_outbox_entry (entry_of L key sa effect) = Inr ()"
    and "ms_pending (wd_store w) = ms_pending (wd_store w0)" "a = az_authorization_id (authorization sa)"
  shows "\<exists>w' out. run c (complete_known_effect L c key sa effect i) w = (w', Inr out)
    \<and> oc_result out = ef_result effect \<and> oc_effect_id out = ef_effect_id effect
    \<and> confirms (oc_receipt out) (signed_receipt L key sa effect)
    \<and> wd_tools w' = wd_tools w \<and> executions a (wd_trace w') = executions a (wd_trace w)
    \<and> ms_pending (wd_store w') = ms_pending (wd_store w0)
    \<and> ms_completed (wd_store w') = insert a (ms_completed (wd_store w))
    \<and> ms_in_flight (wd_store w') = ms_in_flight (wd_store w) - {a}
    \<and> ms_intents (wd_store w') = ms_intents (wd_store w)
    \<and> ms_fail_intent (wd_store w') = ms_fail_intent (wd_store w)"
proof -
  let ?e = "entry_of L key sa effect" and ?cp = "completion_of L key sa effect i"
  obtain s where commit: "mem_commit_effect L ?cp (wd_store w) = (s, Inr ?e)"
    and s: "ms_pending s = ms_pending (wd_store w0) @ [?e]" "ms_completed s = insert a (ms_completed (wd_store w))"
      "ms_in_flight s = ms_in_flight (wd_store w) - {a}" "ms_intents s = ms_intents (wd_store w)"
      "ms_fail_intent s = ms_fail_intent (wd_store w)"
    by (simp add: mem_commit_effect_def completion_of_def entry_of_def Let_def assms(5,6))
  let ?w1 = "note_event (Committed ?cp (Inr ?e)) (w\<lparr>wd_store := s\<rparr>)"
  have "remove_first (\<lambda>x. ob_outbox_id x = ob_outbox_id ?e) (ms_pending (wd_store ?w1))
      = Some (ms_pending (wd_store w0))"
    using assms(2) by (simp add: s remove_first_last startable_def Let_def entry_of_def)
  from run_deliver [OF assms(1,3,4) this, of a] obtain w2 recorded where
    deliver: "run c (deliver_outbox_entry L c ?e) ?w1 = (w2, Inr recorded)"
    and w2: "confirms recorded (ob_receipt ?e)" "wd_tools w2 = wd_tools ?w1"
      "executions a (wd_trace w2) = executions a (wd_trace ?w1)"
      "wd_store w2 = s\<lparr>ms_pending := ms_pending (wd_store w0), ms_ordering := ms_ordering s @ [''delivered''],
        ms_delivered := ms_delivered s @ [(ob_outbox_id ?e, recorded)]\<rparr>" by auto
  have eq: "receipt_eq (ob_receipt ?e) (signed_receipt L key sa effect)" by (simp add: entry_of_def)
  have "run c (complete_known_effect L c key sa effect i) w
      = (w2, Inr \<lparr>oc_receipt = recorded, oc_result = ef_result effect, oc_effect_id = ef_effect_id effect\<rparr>)"
    using assms(1) deliver eq
    by (simp add: complete_known_effect_def map_errP_commit map_errP_def run_bindP run_matchP with_store_def
        memory_store_def commit)
  with w2 s show ?thesis by (simp add: note_event_def is_execution_def executions_def entry_of_def)
qed

lemma run_execute_fresh:
  assumes "cl_durable_store c = Some (memory_store L)" "cl_tool_executor c = Some ex" "startable L sa (wd_store w)"
    and "\<forall>x. \<exists>x'. ex_callback ex (execution_request (ex_id ex) sa) x = (x', Inr effect)"
    and "validate_execution_effect effect = Inr ()"
    and "records L c (entry_of L key sa effect)" "validate_outbox_entry (entry_of L key sa effect) = Inr ()"
    and "a = az_authorization_id (authorization sa)"
  shows "\<exists>w' out. run c (execute_authorization L c ex key sa False) w = (w', Inr out)
    \<and> oc_result out = ef_result effect \<and> oc_effect_id out = ef_effect_id effect
    \<and> confirms (oc_receipt out) (signed_receipt L key sa effect)
    \<and> executions a (wd_trace w') = executions a (wd_trace w) + 1
    \<and> ms_pending (wd_store w') = ms_pending (wd_store w)
    \<and> a \<in> ms_completed (wd_store w') \<and> a \<notin> ms_in_flight (wd_store w')
    \<and> intent_for a (ms_intents (wd_store w')) = Some (intent_of (ex_id ex) sa)
    \<and> \<not> ms_fail_intent (wd_store w')"
proof -
  let ?i = "intent_of (ex_id ex) sa" and ?q = "execution_request (ex_id ex) sa"
  have a: "in_authorization_id ?i = a" by (simp add: intent_of_def assms(8) Let_def)
  obtain s where begun: "mem_begin_effect_attempt ?i Direct (wd_store w) = (s, Inr Started)"
    and s: "ms_pending s = ms_pending (wd_store w)" "ms_in_flight s = insert a (ms_in_flight (wd_store w))"
      "ms_intents s = ms_intents (wd_store w) @ [?i]" "\<not> ms_fail_intent s"
    using assms(3) by (simp add: mem_begin_effect_attempt_def startable_def a Let_def flip: assms(8))
  let ?w1 = "note_event (Begun ?i Direct (Inr Started)) (w\<lparr>wd_store := s\<rparr>)"
  obtain x where call: "ex_callback ex ?q (wd_tools w) = (x, Inr effect)" using assms(4) by blast
  let ?w2 = "note_event (Executed ?q (Inr effect)) (?w1\<lparr>wd_tools := x\<rparr>)"
  have intent: "intent_for a (ms_intents s) = Some ?i"
    using assms(3) a by (simp add: s intent_for_snoc startable_def Let_def flip: assms(8))
  from run_complete [OF assms(1,3,6,7), of ?w2 a "ex_id ex"] s(1) assms(8) obtain w3 out where
    finish: "run c (complete_known_effect L c key sa effect (ex_id ex)) ?w2 = (w3, Inr out)"
    and w3: "oc_result out = ef_result effect" "oc_effect_id out = ef_effect_id effect"
      "confirms (oc_receipt out) (signed_receipt L key sa effect)"
      "executions a (wd_trace w3) = executions a (wd_trace ?w2)"
      "ms_pending (wd_store w3) = ms_pending (wd_store w)" "a \<in> ms_completed (wd_store w3)"
      "a \<notin> ms_in_flight (wd_store w3)" "ms_intents (wd_store w3) = ms_intents s" "\<not> ms_fail_intent (wd_store w3)"
    using s(4) by (auto simp: note_event_def)
  have "run c (execute_authorization L c ex key sa False) w = (w3, Inr out)"
    using assms(1,2,5) finish call
    by (simp add: execute_authorization_def Let_def with_store_def memory_store_def begun with_tools_def
        callback_of_def run_matchP note_event_def)
  moreover have "executions a (wd_trace ?w2) = executions a (wd_trace w) + 1"
    by (simp add: note_event_def executions_def is_execution_def execution_request_def assms(8))
  ultimately show ?thesis using w3 intent by simp
qed

section \<open>Progress\<close>

text \<open>C4: a tool call that is approved completes, once. On the in-memory store, when Proxy approves
  the request and records the receipt, the executor answers with a valid effect and the
  authorization is unused, \<open>execute_tool\<close> returns exactly that effect with Proxy's confirmation:
  the executor is called once, the effect is settled and its receipt delivered, and no other
  receipt is touched. Asking again with the same authorization executes nothing, leaves store
  and tool as they are, and is refused with the error \<open>ExecutionAlreadyCompleted\<close>, which names the
  authorization and the idempotency identifier and carries no result.\<close>

theorem execute_tool_completes:
  assumes "cl_durable_store c = Some (memory_store L)" "equipped c ex key"
    and "approves L c u (tool_envelope L u name args) sa" "startable L sa (wd_store w)"
    and "\<forall>x. \<exists>x'. ex_callback ex (execution_request (ex_id ex) sa) x = (x', Inr effect)"
    and "validate_execution_effect effect = Inr ()"
    and "records L c (entry_of L key sa effect)" "validate_outbox_entry (entry_of L key sa effect) = Inr ()"
    and "a = az_authorization_id (authorization sa)"
  shows "\<exists>w' out. run c (execute_tool L c u name args) w = (w', Inr out)
    \<and> oc_result out = ef_result effect \<and> oc_effect_id out = ef_effect_id effect
    \<and> confirms (oc_receipt out) (signed_receipt L key sa effect)
    \<and> executions a (wd_trace w') = executions a (wd_trace w) + 1
    \<and> a \<in> ms_completed (wd_store w') \<and> ms_pending (wd_store w') = ms_pending (wd_store w)
    \<and> (\<exists>w''. run c (execute_tool L c u name args) w' = (w'', Inl (ExecutionAlreadyCompleted a u))
        \<and> executions a (wd_trace w'') = executions a (wd_trace w')
        \<and> wd_store w'' = wd_store w' \<and> wd_tools w'' = wd_tools w')"
proof -
  have executor: "cl_tool_executor c = Some ex" using assms(2) by (simp add: equipped_def)
  from run_up_to_decision [OF assms(2,1,3), of w a] obtain w1 where
    decided: "run c (execute_tool L c u name args) w = run c (execute_authorization L c ex key sa False) w1"
    and w1: "wd_store w1 = wd_store w" "executions a (wd_trace w1) = executions a (wd_trace w)" by blast
  from run_execute_fresh [OF assms(1) executor _ assms(5-9), of w1] assms(4) w1 obtain w' out where
    first: "run c (execute_authorization L c ex key sa False) w1 = (w', Inr out)"
    and out: "oc_result out = ef_result effect" "oc_effect_id out = ef_effect_id effect"
      "confirms (oc_receipt out) (signed_receipt L key sa effect)"
      "executions a (wd_trace w') = executions a (wd_trace w) + 1"
      "a \<in> ms_completed (wd_store w')" "ms_pending (wd_store w') = ms_pending (wd_store w)"
    and settled: "intent_for a (ms_intents (wd_store w')) = Some (intent_of (ex_id ex) sa)"
      "\<not> ms_fail_intent (wd_store w')" by auto
  from run_up_to_decision [OF assms(2,1,3), of w' a] obtain w2 where
    again: "run c (execute_tool L c u name args) w' = run c (execute_authorization L c ex key sa False) w2"
    and w2: "wd_store w2 = wd_store w'" "wd_tools w2 = wd_tools w'"
      "executions a (wd_trace w2) = executions a (wd_trace w')" by blast
  from run_execute_settled [OF assms(1), of w2 a ex sa key a] settled out(5) w2 assms(9)
    approves_idempotency [OF assms(3)]
  have "\<exists>w''. run c (execute_tool L c u name args) w' = (w'', Inl (ExecutionAlreadyCompleted a u))
        \<and> executions a (wd_trace w'') = executions a (wd_trace w')
        \<and> wd_store w'' = wd_store w' \<and> wd_tools w'' = wd_tools w'" by (auto simp: again)
  with decided first out show ?thesis by simp
qed

text \<open>A Proxy that always approves.\<close>

definition steady_client :: "(http_response, memory_state, nat) clavenar_client" where
  "steady_client = sample_client\<lparr>cl_http :=
     (\<lambda>q n. (n, Inr (if hr_url q = ''http://p/mcp'' then reply 200 ''auth'' else reply 200 ''rec'')))\<rparr>"

lemma steady_simps [simp]: "cl_base_url steady_client = ''http://p/''" "cl_auth steady_client = Bearer ''t''"
  "cl_durable_store steady_client = Some (memory_store SL)"
  by (simp_all add: steady_client_def)

theorem execute_tool_completes_witness:
  "\<exists>w' w'' out. run steady_client (execute_tool SL steady_client 7 ''read_file'' JNull) sample_world = (w', Inr out)
    \<and> oc_result out = JString ''done'' \<and> executions 11 (wd_trace w') = 1
    \<and> run steady_client (execute_tool SL steady_client 7 ''read_file'' JNull) w'
        = (w'', Inl (ExecutionAlreadyCompleted 11 7))"
proof -
  have a: "11 = az_authorization_id (authorization sample_auth)" by (simp add: sample_auth_def)
  have entry: "entry_of SL sample_key sample_auth sample_effect = sample_entry"
    by (simp add: entry_of_def sample_entry_def sample_auth_def)
  have eq: "equipped steady_client sample_executor sample_key"
    by (simp add: equipped_def steady_client_def sample_client_def sample_executor_def new_reconciling_def
        sample_key_def is_ascii_graphic_def byte_def fun_eq_iff)
  have app: "approves SL steady_client 7 (tool_envelope SL 7 ''read_file'' JNull) sample_auth"
    by (simp add: approves_def join_endpoint_def steady_client_def decision_request_def Let_def
        flip: sample_payload_def)
  have st: "startable SL sample_auth (wd_store sample_world)"
    by (simp add: startable_def sample_world_def memory_empty_def intent_for_def Let_def)
  have rec: "records SL steady_client sample_entry"
    by (force simp: records_def join_endpoint_def receipt_request_def reads_receipt_def confirms_def byte_def
        steady_client_def sample_recorded_def sample_entry_def signed_receipt_def sample_auth_def Let_def)
  have call: "\<forall>x. \<exists>x'. ex_callback sample_executor (execution_request (ex_id sample_executor) sample_auth) x
      = (x', Inr sample_effect)"
    by (simp add: sample_executor_def new_reconciling_def sample_effect_def)
  have valid: "validate_execution_effect sample_effect = Inr ()"
    unfolding validators by (simp add: sample_effect_def)
  from execute_tool_completes [OF _ eq app st call valid _ _ a] rec sample_entry_valid entry show ?thesis
    by (auto simp: sample_effect_def sample_world_def)
qed

end
