(* ===== verification/Testing.thy ===== *)
theory Testing
  imports Rest
begin

text \<open>
  The vocabulary of the crate's unit tests, which the theories \<open>Tests_\<close> evaluate on the model.
  A test is a boolean: \<open>unwrap\<close> followed by assertions is \<open>passes\<close>, indexing a \<open>Value\<close> is
  \<open>value_at\<close> and \<open>value_nth\<close>, a \<open>json!\<close> literal read back with \<open>from_value\<close> is \<open>from_value\<close>
  of the tree, whose members a \<open>Value\<close> keeps sorted. What a test uses of a library (an
  identifier's text, a parsed document) is a hypothesis of the lemma that it passes; the
  collection \<open>passing\<close> evaluates the decoders.
\<close>

named_theorems passing "evaluation of the unit tests"

definition passes :: "'a option \<Rightarrow> ('a \<Rightarrow> bool) \<Rightarrow> bool" where
  "passes r P \<longleftrightarrow> (case r of None \<Rightarrow> False | Some x \<Rightarrow> P x)"

definition succeeds :: "'e + 'a \<Rightarrow> ('a \<Rightarrow> bool) \<Rightarrow> bool" where
  "succeeds r P \<longleftrightarrow> (case r of Inl _ \<Rightarrow> False | Inr x \<Rightarrow> P x)"

definition fails :: "'e + 'a \<Rightarrow> ('e \<Rightarrow> bool) \<Rightarrow> bool" where
  "fails r P \<longleftrightarrow> (case r of Inl e \<Rightarrow> P e | Inr _ \<Rightarrow> False)"

lemma outcome_simps [passing]: "passes (Some x) P = P x" "passes None P = False"
  "succeeds (Inr y) Q = Q y" "succeeds (Inl e) Q = False" "fails (Inl e) R = R e" "fails (Inr y) R = False"
  by (simp_all add: passes_def succeeds_def fails_def)

text \<open>\<open>serde_json::from_value\<close>, and indexing a \<open>Value\<close>: what is missing is null.\<close>

definition from_value :: "'a dec \<Rightarrow> json \<Rightarrow> 'a option" where
  "from_value d j = d (normalize j)"

fun json_get :: "string \<Rightarrow> json \<Rightarrow> json option" where
  "json_get k (JObject kvs) = map_of kvs k"
| "json_get k _ = None"

definition value_at :: "string \<Rightarrow> json \<Rightarrow> json" where
  "value_at k j = (case json_get k j of None \<Rightarrow> JNull | Some v \<Rightarrow> v)"

fun value_nth :: "nat \<Rightarrow> json \<Rightarrow> json" where
  "value_nth i (JArray xs) = (if i < length xs then xs ! i else JNull)"
| "value_nth i _ = JNull"

fun array_length :: "json \<Rightarrow> nat option" where
  "array_length (JArray xs) = Some (length xs)"
| "array_length _ = None"

definition repeat_str :: "nat \<Rightarrow> string \<Rightarrow> string" where
  "repeat_str n s = concat (replicate n s)"

text \<open>\<open>Url::query\<close> of a URL's text.\<close>

definition url_query :: "string \<Rightarrow> string option" where
  "url_query u = (let url = takeWhile (\<lambda>c. c \<noteq> CHR ''#'') u in
     if CHR ''?'' \<in> set url then Some (drop 1 (dropWhile (\<lambda>c. c \<noteq> CHR ''?'') url)) else None)"

text \<open>
  What the tests use of the libraries: an identifier and its text, an instant and its text, a
  base URL that is already normal, and how \<open>serde_json\<close> prints a document, but for strings with
  characters it escapes and for numbers other than the unsigned integers.
\<close>

definition knows_uuid :: "libs \<Rightarrow> string \<Rightarrow> uuid \<Rightarrow> bool" where
  "knows_uuid L s u \<longleftrightarrow> uuid_parse L s = Some u \<and> uuid_string L u = s"

definition knows_time :: "libs \<Rightarrow> string \<Rightarrow> datetime \<Rightarrow> bool" where
  "knows_time L s t \<longleftrightarrow> rfc3339_parse L s = Some t"

definition knows_base :: "libs \<Rightarrow> string \<Rightarrow> string \<Rightarrow> bool" where
  "knows_base L given url \<longleftrightarrow> url_parse L given = Inr url \<and> url_path L url = ''/''"

definition plain_char :: "char \<Rightarrow> bool" where
  "plain_char c \<longleftrightarrow> 32 \<le> byte c \<and> byte c < 127 \<and> c \<noteq> CHR 0x22 \<and> c \<noteq> CHR 0x5C"

definition quote :: "string \<Rightarrow> string" where
  "quote s = CHR 0x22 # s @ [CHR 0x22]"

definition prints_compactly :: "libs \<Rightarrow> bool" where
  "prints_compactly L \<longleftrightarrow>
     json_text L JNull = ''null'' \<and> json_text L (JBool True) = ''true'' \<and> json_text L (JBool False) = ''false''
   \<and> (\<forall>n. json_text L (JNumber (PosInt n)) = show_u64 n)
   \<and> (\<forall>s. list_all plain_char s \<longrightarrow> json_text L (JString s) = quote s)
   \<and> (\<forall>xs. json_text L (JArray xs) = CHR ''['' # join_with '','' (map (json_text L) xs) @ '']'')
   \<and> (\<forall>kvs. json_text L (JObject kvs) = CHR ''{'' #
        join_with '','' (map (\<lambda>(k, v). json_text L (JString k) @ CHR '':'' # json_text L v) kvs) @ ''}'')"

lemma compact_simps:
  assumes "prints_compactly L"
  shows "json_text L JNull = ''null''" "json_text L (JBool b) = (if b then ''true'' else ''false'')"
    "json_text L (JNumber (PosInt n)) = show_u64 n"
    "list_all plain_char s \<Longrightarrow> json_text L (JString s) = CHR 0x22 # s @ [CHR 0x22]"
    "json_text L (JArray xs) = CHR ''['' # join_with '','' (map (json_text L) xs) @ '']''"
    "json_text L (JObject kvs) = CHR ''{'' #
       join_with '','' (map (\<lambda>(k, v). json_text L (JString k) @ CHR '':'' # json_text L v) kvs) @ ''}''"
  using assms by (simp_all add: prints_compactly_def quote_def)

text \<open>\<open>str::contains\<close>.\<close>

fun contains :: "string \<Rightarrow> string \<Rightarrow> bool" where
  "contains [] pat \<longleftrightarrow> pat = []"
| "contains (c # s) pat \<longleftrightarrow> starts_with pat (c # s) \<or> contains s pat"

text \<open>\<open>u8::is_ascii_hexdigit\<close> and \<open>u8::is_ascii_uppercase\<close>.\<close>

definition is_ascii_hexdigit :: "char \<Rightarrow> bool" where
  "is_ascii_hexdigit c \<longleftrightarrow> (48 \<le> byte c \<and> byte c \<le> 57) \<or> (65 \<le> byte c \<and> byte c \<le> 70)
     \<or> (97 \<le> byte c \<and> byte c \<le> 102)"

definition is_ascii_uppercase :: "char \<Rightarrow> bool" where
  "is_ascii_uppercase c \<longleftrightarrow> 65 \<le> byte c \<and> byte c \<le> 90"

lemma starts_with_code [passing]: "starts_with [] s" "\<not> starts_with (c # p) []"
  "starts_with (c # p) (d # s) \<longleftrightarrow> c = d \<and> starts_with p s"
  by (auto simp: starts_with_def)

lemmas [passing] = from_value_def value_at_def btree_of_def record_simps dec_value_def
  dec_option_def enc_list_def enc_option_def

end
