(* ===== verification/Tests_Agents.thy ===== *)
theory Tests_Agents
  imports Testing Agents_Claims
begin

text \<open>
  The unit tests of agents.rs on the model: the wire shapes of budgets, offboarding, lifecycle
  operations and records, the serialised creation request, the fingerprint of the bearer and the
  idempotency check.
\<close>

section \<open>Wire shapes\<close>

definition tenant_budget_matches_server_wire_shape :: "bool" where
  "tenant_budget_matches_server_wire_shape \<longleftrightarrow>
    passes (from_value dec_tenant_budget (JObject [
        (''tenant'', JString ''acme'')])) (\<lambda>unset.
      tb_budget_micros unset = None
      \<and> tb_updated_by unset = None)
    \<and> passes (from_value dec_tenant_budget (JObject [
        (''tenant'', JString ''acme''), (''budget_micros'', JNumber (PosInt 50000000)),
        (''updated_at'', JString ''2026-06-29T00:00:00+00:00''),
        (''updated_by'', JString ''user:boss@acme'')])) (\<lambda>s.
      tb_budget_micros s = Some 50000000
      \<and> tb_updated_by s = Some ''user:boss@acme'')"

lemma tenant_budget_matches_server_wire_shape_passes: "tenant_budget_matches_server_wire_shape"
  by (simp add: tenant_budget_matches_server_wire_shape_def dec_tenant_budget_def passing)

definition tenant_offboard_result_matches_server_wire_shape :: "bool" where
  "tenant_offboard_result_matches_server_wire_shape \<longleftrightarrow>
    passes (from_value dec_tenant_offboard_result (JObject [
        (''tenant'', JString ''acme''), (''agents_decommissioned'', JNumber (PosInt 3)),
        (''upstreams_retired'', JNumber (PosInt 1)), (''budget_cleared'', JBool True)])) (\<lambda>r.
      to_tenant r = ''acme''
      \<and> to_agents_decommissioned r = 3
      \<and> to_upstreams_retired r = 1
      \<and> to_budget_cleared r)"

lemma tenant_offboard_result_matches_server_wire_shape_passes: "tenant_offboard_result_matches_server_wire_shape"
  by (simp add: tenant_offboard_result_matches_server_wire_shape_def dec_tenant_offboard_result_def passing)

definition lifecycle_operation_json :: "string \<Rightarrow> json" where
  "lifecycle_operation_json state =
    JObject [
      (''id'', JString ''operation-1''), (''tenant'', JString ''acme''),
      (''kind'', JString ''offboard''), (''idempotency_key'', JString ''request-1''),
      (''intent_sha256'', JString (''sha256:'' @ repeat_str 64 ''a'')),
      (''reason'', JString ''contract ended''), (''state'', JString state),
      (''actor_sub'', JString ''operator''), (''actor_idp'', JString ''issuer''),
      (''created_at'', JString ''2026-07-25T00:00:00.000Z''),
      (''updated_at'', JString ''2026-07-25T00:00:01.000Z''),
      (''steps'', JArray [
        JObject [
          (''id'', JString ''authority_fence''), (''order'', JNumber (PosInt 1)),
          (''owner'', JString ''identity''),
          (''effect'', JString ''decommission-revoke-retire-and-freeze''),
          (''compensation'', JString ''manual-recovery-only''), (''state'', JString ''running''),
          (''attempts'', JNumber (PosInt 1)),
          (''lease_expires_at'', JString ''2026-07-25T00:00:31.000Z''), (''next_retry_at'', JNull),
          (''receipt_sha256'', JNull), (''receipt'', JNull), (''last_error'', JNull),
          (''updated_at'', JString ''2026-07-25T00:00:01.000Z'')]])]"

definition tenant_lifecycle_operation_matches_server_wire_shape :: "bool" where
  "tenant_lifecycle_operation_matches_server_wire_shape \<longleftrightarrow>
    passes (from_value dec_tenant_lifecycle_operation (lifecycle_operation_json ''running'')) (\<lambda>operation.
      tl_kind operation = Offboard
      \<and> tl_state operation = OpRunning
      \<and> ts_state (hd (tl_steps operation)) = StepRunning)"

lemma tenant_lifecycle_operation_matches_server_wire_shape_passes: "tenant_lifecycle_operation_matches_server_wire_shape"
  by (simp add: tenant_lifecycle_operation_matches_server_wire_shape_def lifecycle_operation_json_def
      dec_tenant_lifecycle_operation_def dec_tenant_lifecycle_step_def dec_tenant_lifecycle_kind_def
      dec_tenant_lifecycle_operation_state_def dec_tenant_lifecycle_step_state_def dec_enum_def passing)

definition record_fixture :: "string \<Rightarrow> string \<Rightarrow> string \<Rightarrow> agent_state \<Rightarrow> string \<Rightarrow> agent_record" where
  "record_fixture i tenant name state owner =
    \<lparr>ag_id = i, ag_tenant = tenant, ag_agent_name = name, ag_state = state,
        ag_scope_envelope = [''mcp:read:tickets''], ag_yellow_envelope = [],
        ag_attestation_kinds_accepted = [''tpm''],
        ag_created_by_sub = ''user:alice@acme.com'', ag_created_by_idp = ''okta'',
        ag_owner_team = owner, ag_created_at = ''2026-05-01T00:00:00+00:00'',
        ag_state_changed_at = ''2026-05-01T00:00:00+00:00'',
        ag_state_changed_by = ''user:alice@acme.com'', ag_description = None,
        ag_certified_at_version = None, ag_certified_at = None\<rparr>"

definition fixture_record :: "string \<Rightarrow> agent_record" where
  "fixture_record name =
    \<lparr>ag_id = ''01HW000-'' @ name, ag_tenant = ''acme'', ag_agent_name = name,
        ag_state = AgentActive,
        ag_scope_envelope = [''mcp:read:tickets'', ''mcp:write:tickets''],
        ag_yellow_envelope = [''refund:<=50usd''],
        ag_attestation_kinds_accepted = [''dev-mock''],
        ag_created_by_sub = ''user:alice@acme.com'', ag_created_by_idp = ''okta'',
        ag_owner_team = ''payments'', ag_created_at = ''2026-05-04T00:00:00Z'',
        ag_state_changed_at = ''2026-05-04T00:00:00Z'',
        ag_state_changed_by = ''user:alice@acme.com'', ag_description = None,
        ag_certified_at_version = None, ag_certified_at = None\<rparr>"

definition agent_state_round_trips_through_json :: "bool" where
  "agent_state_round_trips_through_json \<longleftrightarrow>
    (let r = \<lparr>ag_id = ''a'', ag_tenant = ''acme'', ag_agent_name = ''x'',
        ag_state = AgentSuspended, ag_scope_envelope = [], ag_yellow_envelope = [],
        ag_attestation_kinds_accepted = [], ag_created_by_sub = ''u'',
        ag_created_by_idp = ''okta'', ag_owner_team = ''t'',
        ag_created_at = ''2026-05-01T00:00:00Z'',
        ag_state_changed_at = ''2026-05-01T00:00:00Z'', ag_state_changed_by = ''u'',
        ag_description = None, ag_certified_at_version = None, ag_certified_at = None\<rparr>;
      v = normalize (enc_agent_record r)
    in value_at ''state'' v = JString ''suspended''
      \<and> passes (from_value dec_agent_record v) (\<lambda>again. ag_state again = AgentSuspended))"

lemma agent_state_round_trips_through_json_passes: "agent_state_round_trips_through_json"
  by (simp add: agent_state_round_trips_through_json_def enc_agent_record_def enc_agent_state_def dec_agent_record_def dec_agent_state_def
      parse_state_def passing)

definition agent_state_rejects_unknown_value :: "bool" where
  "agent_state_rejects_unknown_value \<longleftrightarrow>
    passes (from_value dec_value (JObject [(''state'', JString ''potato'')])) (\<lambda>_. True)
    \<and> from_value dec_agent_state (JString ''potato'') = None"

lemma agent_state_rejects_unknown_value_passes: "agent_state_rejects_unknown_value"
  by (simp add: agent_state_rejects_unknown_value_def dec_agent_state_def parse_state_def dec_value_def passing)

definition MIGRATION_ACTOR_SUB_PREFIX :: "string" where
  "MIGRATION_ACTOR_SUB_PREFIX =
    ''system:migration:''"

definition create_request_serializes_migration_actor_sub_when_present :: "bool" where
  "create_request_serializes_migration_actor_sub_when_present \<longleftrightarrow>
    value_at ''actor_sub'' (normalize (enc_create_agent_request \<lparr>cr_tenant = ''acme'', cr_agent_name = ''test-agent-007'',
        cr_owner_team = ''payments'', cr_scope_envelope = [''mcp:read:tickets''],
        cr_yellow_envelope = [], cr_attestation_kinds = [''dev-mock''], cr_description = None,
        cr_actor_sub = Some ''system:migration:user:alice@acme.com''\<rparr>))
      = JString ''system:migration:user:alice@acme.com''
    \<and> json_get ''actor_sub'' (normalize (enc_create_agent_request \<lparr>cr_tenant = ''acme'', cr_agent_name = ''test-agent-007'',
        cr_owner_team = ''payments'', cr_scope_envelope = [''mcp:read:tickets''],
        cr_yellow_envelope = [], cr_attestation_kinds = [''dev-mock''], cr_description = None,
        cr_actor_sub = None\<rparr>)) = None
    \<and> starts_with MIGRATION_ACTOR_SUB_PREFIX ''system:migration:user:alice@acme.com''"

lemma create_request_serializes_migration_actor_sub_when_present_passes: "create_request_serializes_migration_actor_sub_when_present"
  by (simp add: create_request_serializes_migration_actor_sub_when_present_def enc_create_agent_request_def
      MIGRATION_ACTOR_SUB_PREFIX_def passing)

section \<open>The bearer and the idempotency check\<close>

lemma hex_lower_digit: "d < 16 \<Longrightarrow> hex_lower d = ''0123456789abcdef'' ! d"
proof -
  have "map hex_lower [0..<16] = ''0123456789abcdef''" by code_simp
  then show "d < 16 \<Longrightarrow> hex_lower d = ''0123456789abcdef'' ! d" by (metis add_0 diff_zero length_upt nth_map nth_upt)
qed

lemma hex_lower_ascii:
  assumes "d < 16" shows "is_ascii_hexdigit (hex_lower d) \<and> \<not> is_ascii_uppercase (hex_lower d)"
proof -
  have "list_all (\<lambda>c. is_ascii_hexdigit c \<and> \<not> is_ascii_uppercase c) ''0123456789abcdef''" by code_simp
  with assms show ?thesis by (simp add: hex_lower_digit list_all_length)
qed

lemma hex_lower_inject: "d < 16 \<Longrightarrow> e < 16 \<Longrightarrow> hex_lower d = hex_lower e \<longleftrightarrow> d = e"
proof -
  have "distinct ''0123456789abcdef''" by simp
  then show "d < 16 \<Longrightarrow> e < 16 \<Longrightarrow> hex_lower d = hex_lower e \<longleftrightarrow> d = e"
    by (simp add: hex_lower_digit nth_eq_iff_index_eq)
qed

lemma byte_nibbles: "byte b div 16 < 16" "byte b mod 16 < 16"
  using byte_less [of b] by (simp_all add: less_mult_imp_div_less)

lemma hex_bytes:
  shows "length (concat (map hex_byte bs)) = 2 * length bs"
    and "list_all (\<lambda>c. is_ascii_hexdigit c \<and> \<not> is_ascii_uppercase c) (concat (map hex_byte bs))"
  by (induction bs) (simp_all add: hex_byte_def hex_lower_ascii byte_nibbles)

lemma hex_bytes_inject: "concat (map hex_byte as) = concat (map hex_byte bs) \<longleftrightarrow> as = bs"
proof (induction as arbitrary: bs)
  case Nil
  then show ?case by (cases bs) (simp_all add: hex_byte_def)
next
  case (Cons a as)
  have nibbles: "a = b" if "byte a div 16 = byte b div 16" "byte a mod 16 = byte b mod 16" for b
    using that by (metis byte_inject div_mult_mod_eq)
  from Cons show ?case
    by (cases bs) (auto simp: hex_byte_def hex_lower_inject byte_nibbles intro: nibbles)
qed

definition bearer_fingerprint_none_when_unset :: "libs \<Rightarrow> 'p option \<Rightarrow> transport_error + 'p \<Rightarrow> bool" where
  "bearer_fingerprint_none_when_unset L installed fresh \<longleftrightarrow>
    succeeds (agents_new L installed fresh ''http://example.test/'') (\<lambda>client.
      \<not> agents_has_bearer client \<and> bearer_fingerprint L client = None)"

lemma bearer_fingerprint_none_when_unset_passes:
  assumes "url_parse L ''http://example.test/'' = Inr ''http://example.test/''" and "url_path L ''http://example.test/'' = ''/''" and "default_provider installed fresh = Inr p"
  shows "bearer_fingerprint_none_when_unset L installed fresh"
  using assms by (simp add: bearer_fingerprint_none_when_unset_def agents_new_def parse_base_url_def ends_with_def agents_has_bearer_def bearer_fingerprint_def
      agents_with_bearer_def hex_byte_def hex_lower_digit byte_def passing)

definition bearer_fingerprint_is_stable_and_8_hex_chars :: "libs \<Rightarrow> 'p option \<Rightarrow> transport_error + 'p \<Rightarrow> bool" where
  "bearer_fingerprint_is_stable_and_8_hex_chars L installed fresh \<longleftrightarrow>
    succeeds (map_sum id (agents_with_bearer ''dev-token'') (agents_new L installed fresh ''http://example.test/'')) (\<lambda>a.
    succeeds (map_sum id (agents_with_bearer ''dev-token'') (agents_new L installed fresh ''http://example.test/'')) (\<lambda>b.
      passes (bearer_fingerprint L a) (\<lambda>fa. passes (bearer_fingerprint L b) (\<lambda>fb.
        fa = fb \<and> length fa = 8
        \<and> list_all (\<lambda>c. is_ascii_hexdigit c \<and> \<not> is_ascii_uppercase c) fa))
      \<and> agents_has_bearer a))"

lemma bearer_fingerprint_is_stable_and_8_hex_chars_passes:
  assumes "url_parse L ''http://example.test/'' = Inr ''http://example.test/''" and "url_path L ''http://example.test/'' = ''/''" and "default_provider installed fresh = Inr p" and "length (sha256_digest L ''dev-token'') = 32"
  shows "bearer_fingerprint_is_stable_and_8_hex_chars L installed fresh"
  using assms hex_bytes [of "take 4 (sha256_digest L ''dev-token'')"]
    by (simp add: bearer_fingerprint_is_stable_and_8_hex_chars_def agents_new_def parse_base_url_def ends_with_def
      agents_has_bearer_def bearer_fingerprint_def agents_with_bearer_def passing)

definition bearer_fingerprint_is_injective_on_different_tokens :: "libs \<Rightarrow> 'p option \<Rightarrow> transport_error + 'p \<Rightarrow> bool" where
  "bearer_fingerprint_is_injective_on_different_tokens L installed fresh \<longleftrightarrow>
    succeeds (map_sum id (agents_with_bearer ''token-one'') (agents_new L installed fresh ''http://example.test/'')) (\<lambda>a.
    succeeds (map_sum id (agents_with_bearer ''token-two'') (agents_new L installed fresh ''http://example.test/'')) (\<lambda>b.
      bearer_fingerprint L a \<noteq> bearer_fingerprint L b))"

lemma bearer_fingerprint_is_injective_on_different_tokens_passes:
  assumes "url_parse L ''http://example.test/'' = Inr ''http://example.test/''" and "url_path L ''http://example.test/'' = ''/''" and "default_provider installed fresh = Inr p" and "take 4 (sha256_digest L ''token-one'') \<noteq> take 4 (sha256_digest L ''token-two'')"
  shows "bearer_fingerprint_is_injective_on_different_tokens L installed fresh"
  using assms by (simp add: bearer_fingerprint_is_injective_on_different_tokens_def agents_new_def parse_base_url_def
      ends_with_def bearer_fingerprint_def agents_with_bearer_def hex_bytes_inject passing)

definition bearer_fingerprint_known_value :: "libs \<Rightarrow> 'p option \<Rightarrow> transport_error + 'p \<Rightarrow> bool" where
  "bearer_fingerprint_known_value L installed fresh \<longleftrightarrow>
    succeeds (map_sum id (agents_with_bearer ''hello'') (agents_new L installed fresh ''http://example.test/'')) (\<lambda>client.
      bearer_fingerprint L client = Some ''2cf24dba'')"

lemma bearer_fingerprint_known_value_passes:
  assumes "url_parse L ''http://example.test/'' = Inr ''http://example.test/''" and "url_path L ''http://example.test/'' = ''/''" and "default_provider installed fresh = Inr p" and "take 4 (sha256_digest L ''hello'') = [CHR 0x2C, CHR 0xF2, CHR 0x4D, CHR 0xBA]"
  shows "bearer_fingerprint_known_value L installed fresh"
  using assms by (simp add: bearer_fingerprint_known_value_def agents_new_def parse_base_url_def ends_with_def agents_has_bearer_def bearer_fingerprint_def
      agents_with_bearer_def hex_byte_def hex_lower_digit byte_def passing)

definition create_request_matches_is_set_insensitive :: "bool" where
  "create_request_matches_is_set_insensitive \<longleftrightarrow>
    (let r = fixture_record ''support-bot-3'' in
      create_request_matches \<lparr>cr_tenant = ''acme'', cr_agent_name = ''support-bot-3'',
        cr_owner_team = ''payments'',
        cr_scope_envelope = [''mcp:write:tickets'', ''mcp:read:tickets''],
        cr_yellow_envelope = [''refund:<=50usd''], cr_attestation_kinds = [''dev-mock''],
        cr_description = None, cr_actor_sub = None\<rparr> r
    \<and> create_request_matches \<lparr>cr_tenant = ''acme'', cr_agent_name = ''support-bot-3'',
        cr_owner_team = ''payments'',
        cr_scope_envelope = [''mcp:read:tickets'', ''mcp:write:tickets'', ''mcp:read:tickets''],
        cr_yellow_envelope = [''refund:<=50usd''], cr_attestation_kinds = [''dev-mock''],
        cr_description = Some ''ignored field'', cr_actor_sub = None\<rparr> r
    \<and> \<not> create_request_matches \<lparr>cr_tenant = ''acme'', cr_agent_name = ''support-bot-3'',
        cr_owner_team = ''infra'',
        cr_scope_envelope = [''mcp:read:tickets'', ''mcp:write:tickets''],
        cr_yellow_envelope = [''refund:<=50usd''], cr_attestation_kinds = [''dev-mock''],
        cr_description = None, cr_actor_sub = None\<rparr> r
    \<and> \<not> create_request_matches \<lparr>cr_tenant = ''acme'', cr_agent_name = ''support-bot-3'',
        cr_owner_team = ''payments'', cr_scope_envelope = [''mcp:read:tickets''],
        cr_yellow_envelope = [''refund:<=50usd''], cr_attestation_kinds = [''dev-mock''],
        cr_description = None, cr_actor_sub = None\<rparr> r)"

lemma create_request_matches_is_set_insensitive_passes: "create_request_matches_is_set_insensitive"
  by (simp add: create_request_matches_is_set_insensitive_def fixture_record_def create_request_matches_def same_set_iff Let_def insert_commute)

end
