(* ===== verification/Tests_Hil.thy ===== *)
theory Tests_Hil
  imports Testing Hil
begin

text \<open>
  The unit tests of hil.rs on the model: pending requests as the service sends them, the
  serialised decisions, the tenant scope of a client and the lifecycle and hold contracts.
\<close>

section \<open>Pending requests\<close>

definition pending_request_round_trips_minimal :: "libs \<Rightarrow> bool" where
  "pending_request_round_trips_minimal L \<longleftrightarrow>
    passes (from_value (dec_pending_request L) (JObject [
        (''id'', JString ''550e8400-e29b-41d4-a716-446655440000''),
        (''correlation_id'', JString ''11111111-2222-3333-4444-555555555555''),
        (''agent_id'', JString ''demo-bot''), (''method'', JString ''tools/call''),
        (''request_payload'', JObject [
          (''name'', JString ''wire_transfer'')]),
        (''risk_summary'', JString ''Wire transfer requested''),
        (''created_at'', JString ''2026-05-02T12:34:56Z''),
        (''ttl_seconds'', JNumber (PosInt 300)), (''status'', JString ''pending'')])) (\<lambda>parsed.
      hp_status parsed = HilPending
      \<and> hp_decided_by parsed = None)"

lemma pending_request_round_trips_minimal_passes:
  assumes "knows_uuid L ''550e8400-e29b-41d4-a716-446655440000'' u" and "knows_uuid L ''11111111-2222-3333-4444-555555555555'' v" and "knows_time L ''2026-05-02T12:34:56Z'' t"
  shows "pending_request_round_trips_minimal L"
  using assms by (simp add: pending_request_round_trips_minimal_def dec_pending_request_def dec_hil_retention_metadata_def dec_pending_status_def dec_uuid_def dec_datetime_def
      dec_enum_def knows_uuid_def knows_time_def passing)

definition pending_request_carries_sandbox_report_when_present :: "libs \<Rightarrow> bool" where
  "pending_request_carries_sandbox_report_when_present L \<longleftrightarrow>
    passes (from_value (dec_pending_request L) (JObject [
        (''id'', JString ''550e8400-e29b-41d4-a716-446655440000''),
        (''correlation_id'', JString ''11111111-2222-3333-4444-555555555555''),
        (''agent_id'', JString ''demo-bot''), (''method'', JString ''delete_file''),
        (''request_payload'', JObject [
          (''path'', JString ''/var/log/audit.log'')]),
        (''risk_summary'', JString ''log deletion''),
        (''created_at'', JString ''2026-05-02T12:34:56Z''),
        (''ttl_seconds'', JNumber (PosInt 300)), (''status'', JString ''pending''),
        (''sandbox_report'', JObject [
          (''operation_class'', JString ''delete''), (''severity'', JString ''destructive''),
          (''targets'', JArray [JString ''/var/log/audit.log'']),
          (''summary'', JString ''delete file `/var/log/audit.log`''),
          (''predicted_changes'', JArray [
            JObject [
              (''kind'', JString ''delete''), (''target'', JString ''/var/log/audit.log'')]])])])) (\<lambda>parsed.
      passes (hp_sandbox_report parsed) (\<lambda>report.
        value_at ''severity'' report = JString ''destructive''
      \<and> value_at ''operation_class'' report = JString ''delete''))"

lemma pending_request_carries_sandbox_report_when_present_passes:
  assumes "knows_uuid L ''550e8400-e29b-41d4-a716-446655440000'' u" and "knows_uuid L ''11111111-2222-3333-4444-555555555555'' v" and "knows_time L ''2026-05-02T12:34:56Z'' t"
  shows "pending_request_carries_sandbox_report_when_present L"
  using assms by (simp add: pending_request_carries_sandbox_report_when_present_def dec_pending_request_def dec_hil_retention_metadata_def dec_pending_status_def dec_uuid_def dec_datetime_def
      dec_enum_def knows_uuid_def knows_time_def passing)

definition pending_request_carries_quorum_and_assignment_fields :: "libs \<Rightarrow> bool" where
  "pending_request_carries_quorum_and_assignment_fields L \<longleftrightarrow>
    passes (from_value (dec_pending_request L) (JObject [
        (''id'', JString ''550e8400-e29b-41d4-a716-446655440000''),
        (''correlation_id'', JString ''11111111-2222-3333-4444-555555555555''),
        (''agent_id'', JString ''agent-quorum''), (''method'', JString ''wire_transfer''),
        (''request_payload'', JObject [
          (''amount'', JNumber (PosInt 50000))]),
        (''risk_summary'', JString ''two-person rule''),
        (''created_at'', JString ''2026-05-02T12:34:56Z''),
        (''ttl_seconds'', JNumber (PosInt 600)), (''status'', JString ''pending''),
        (''required_approvers'', JNumber (PosInt 2)),
        (''approvals'', JArray [
          JObject [
            (''by'', JString ''oidc:alice''), (''provenance'', JString ''oidc''),
            (''at'', JString ''2026-05-02T12:35:00Z'')]]),
        (''assigned_to'', JString ''oidc:bob''), (''escalation_pool'', JString ''oncall'')])) (\<lambda>parsed.
      hp_required_approvers parsed = Some 2
      \<and> Option.bind (hp_approvals parsed) array_length = Some 1
      \<and> hp_assigned_to parsed = Some ''oidc:bob''
      \<and> hp_escalation_pool parsed = Some ''oncall'')"

lemma pending_request_carries_quorum_and_assignment_fields_passes:
  assumes "knows_uuid L ''550e8400-e29b-41d4-a716-446655440000'' u" and "knows_uuid L ''11111111-2222-3333-4444-555555555555'' v" and "knows_time L ''2026-05-02T12:34:56Z'' t"
  shows "pending_request_carries_quorum_and_assignment_fields L"
  using assms by (simp add: pending_request_carries_quorum_and_assignment_fields_def dec_pending_request_def dec_hil_retention_metadata_def dec_pending_status_def dec_uuid_def dec_datetime_def
      dec_enum_def knows_uuid_def knows_time_def passing)

section \<open>Decisions\<close>

lemma show_100: "show_u64 100 = ''100''"
  by code_simp

definition decision_serializes_lowercase :: "libs \<Rightarrow> bool" where
  "decision_serializes_lowercase L \<longleftrightarrow>
    (let text = json_text L (enc_decide_request \<lparr>dq_decision = Approve, dq_decided_by = ''clavenar-console'', dq_reason = None,
        dq_modification_diff = None, dq_approver_assertion = None, dq_decided_via = None,
        dq_tenant = None\<rparr>)
    in contains text ([CHR 0x22] @ ''decision'' @ [CHR 0x22] @ '':'' @ [CHR 0x22] @ ''approve'' @ [CHR 0x22])
      \<and> \<not> contains text ([CHR 0x22] @ ''reason'' @ [CHR 0x22])
      \<and> \<not> contains text ([CHR 0x22] @ ''modification_diff'' @ [CHR 0x22])
      \<and> \<not> contains text ([CHR 0x22] @ ''approver_assertion'' @ [CHR 0x22]))"

lemma decision_serializes_lowercase_passes:
  assumes "prints_compactly L"
  shows "decision_serializes_lowercase L"
  by (simp add: decision_serializes_lowercase_def compact_simps [OF assms]
      enc_decide_request_def enc_modification_diff_def modification_diff_v1_def enc_argument_scalar_replacement_def
      MODIFICATION_DIFF_CONTRACT_def plain_char_def byte_def show_100 passing)

definition modify_serializes_with_typed_diff :: "libs \<Rightarrow> bool" where
  "modify_serializes_with_typed_diff L \<longleftrightarrow>
    (let text = json_text L (enc_decide_request \<lparr>dq_decision = Modify, dq_decided_by = ''clavenar-console'',
        dq_reason = Some ''capped per policy'',
        dq_modification_diff = Some (modification_diff_v1 [\<lparr>as_path = [''amount''], as_value = JNumber (PosInt 100)\<rparr>]),
        dq_approver_assertion = None, dq_decided_via = None, dq_tenant = None\<rparr>)
    in contains text ([CHR 0x22] @ ''decision'' @ [CHR 0x22] @ '':'' @ [CHR 0x22] @ ''modify'' @ [CHR 0x22])
      \<and> contains text ([CHR 0x22] @ ''modification_diff'' @ [CHR 0x22])
      \<and> contains text ([CHR 0x22] @ ''path'' @ [CHR 0x22] @ '':['' @ [CHR 0x22] @ ''amount'' @ [CHR 0x22] @ '']'')
      \<and> contains text ([CHR 0x22] @ ''value'' @ [CHR 0x22] @ '':100'')
      \<and> \<not> contains text ''modified_payload'')"

lemma modify_serializes_with_typed_diff_passes:
  assumes "prints_compactly L"
  shows "modify_serializes_with_typed_diff L"
  by (simp add: modify_serializes_with_typed_diff_def compact_simps [OF assms]
      enc_decide_request_def enc_modification_diff_def modification_diff_v1_def enc_argument_scalar_replacement_def
      MODIFICATION_DIFF_CONTRACT_def plain_char_def byte_def show_100 passing)

definition status_labels_are_capitalised :: "bool" where
  "status_labels_are_capitalised \<longleftrightarrow>
    status_label HilPending = ''Pending''
    \<and> status_label HilApproved = ''Approved''"

lemma status_labels_are_capitalised_passes: "status_labels_are_capitalised"
  by (simp add: status_labels_are_capitalised_def passing)

section \<open>The client\<close>

definition hil_client_surfaces_configured_base_url :: "libs \<Rightarrow> 'p option \<Rightarrow> transport_error + 'p \<Rightarrow> bool" where
  "hil_client_surfaces_configured_base_url L installed fresh \<longleftrightarrow>
    succeeds (hil_new L installed fresh ''http://hil:8084'') (\<lambda>client. hl_base_url client = ''http://hil:8084/'')"

lemma hil_client_surfaces_configured_base_url_passes:
  assumes "knows_base L ''http://hil:8084'' ''http://hil:8084/''" and "default_provider installed fresh = Inr p"
  shows "hil_client_surfaces_configured_base_url L installed fresh"
  using assms by (simp add: hil_client_surfaces_configured_base_url_def hil_new_def parse_base_url_def ends_with_def knows_base_def hil_join_def
      join_endpoint_def hil_with_tenant_def apply_tenant_scope_def TENANT_SCOPE_HEADER_def header_def request_def
      url_query_def passing)

definition scoped_hil_client_uses_header_not_query_authority :: "libs \<Rightarrow> 'p option \<Rightarrow> transport_error + 'p \<Rightarrow> bool" where
  "scoped_hil_client_uses_header_not_query_authority L installed fresh \<longleftrightarrow>
    succeeds (map_sum id (hil_with_tenant (Some ''acme'')) (hil_new L installed fresh ''http://hil:8084'')) (\<lambda>client.
    succeeds (hil_join L client ''pending?status=pending&tenant=globex'') (\<lambda>url.
      let request = apply_tenant_scope client (request GET url)
      in map_of (hr_headers request) TENANT_SCOPE_HEADER = Some ''acme''
        \<and> passes (url_query (hr_url request)) (\<lambda>q. contains q ''tenant=globex'')))"

lemma scoped_hil_client_uses_header_not_query_authority_passes:
  assumes "knows_base L ''http://hil:8084'' ''http://hil:8084/''" and "default_provider installed fresh = Inr p" and "url_join L ''http://hil:8084/'' ''pending?status=pending&tenant=globex''
      = Inr ''http://hil:8084/pending?status=pending&tenant=globex''"
  shows "scoped_hil_client_uses_header_not_query_authority L installed fresh"
  using assms by (simp add: scoped_hil_client_uses_header_not_query_authority_def hil_new_def parse_base_url_def ends_with_def knows_base_def hil_join_def
      join_endpoint_def hil_with_tenant_def apply_tenant_scope_def TENANT_SCOPE_HEADER_def header_def request_def
      url_query_def passing)

definition unscoped_hil_client_emits_no_tenant_header :: "libs \<Rightarrow> 'p option \<Rightarrow> transport_error + 'p \<Rightarrow> bool" where
  "unscoped_hil_client_emits_no_tenant_header L installed fresh \<longleftrightarrow>
    succeeds (hil_new L installed fresh ''http://hil:8084'') (\<lambda>client.
    succeeds (hil_join L client ''pending'') (\<lambda>url.
      let request = apply_tenant_scope client (request GET url)
      in TENANT_SCOPE_HEADER \<notin> set (map fst (hr_headers request))))"

lemma unscoped_hil_client_emits_no_tenant_header_passes:
  assumes "knows_base L ''http://hil:8084'' ''http://hil:8084/''" and "default_provider installed fresh = Inr p" and "url_join L ''http://hil:8084/'' ''pending'' = Inr ''http://hil:8084/pending''"
  shows "unscoped_hil_client_emits_no_tenant_header L installed fresh"
  using assms by (simp add: unscoped_hil_client_emits_no_tenant_header_def hil_new_def parse_base_url_def ends_with_def knows_base_def hil_join_def
      join_endpoint_def hil_with_tenant_def apply_tenant_scope_def TENANT_SCOPE_HEADER_def header_def request_def
      url_query_def passing)

section \<open>Lifecycle and hold contracts\<close>

definition hil_tenant_lifecycle_wire_contract_round_trips :: "libs \<Rightarrow> bool" where
  "hil_tenant_lifecycle_wire_contract_round_trips L \<longleftrightarrow>
    passes (uuid_parse L ''550e8400-e29b-41d4-a716-446655440000'') (\<lambda>operation_id.
      value_eq (normalize (enc_hil_tenant_lifecycle_request L \<lparr>hq_operation_id = operation_id, hq_kind = HilOffboard\<rparr>))
        (normalize (JObject [
        (''operation_id'', JString (uuid_string L operation_id)),
        (''kind'', JString ''offboard'')]))
      \<and> passes (from_value (dec_hil_tenant_lifecycle_receipt L) (JObject [
        (''tenant'', JString ''acme''), (''operation_id'', JString (uuid_string L operation_id)),
        (''kind'', JString ''offboard''), (''state'', JString ''offboarded''),
        (''generation'', JNumber (PosInt 2)), (''pending_denied'', JNumber (PosInt 3)),
        (''rows_erased'', JNumber (PosInt 2)), (''rows_held'', JNumber (PosInt 1)),
        (''deletion_audits'', JNumber (PosInt 2)),
        (''receipt_sha256'', JString ''sha256:receipt''),
        (''updated_at'', JString ''2026-07-25T00:00:00Z'')])) (\<lambda>receipt.
      ht_operation_id receipt = operation_id
      \<and> ht_pending_denied receipt = 3
      \<and> ht_rows_erased receipt = 2
      \<and> ht_rows_held receipt = 1))"

lemma hil_tenant_lifecycle_wire_contract_round_trips_passes:
  assumes "knows_uuid L ''550e8400-e29b-41d4-a716-446655440000'' u" and "knows_time L ''2026-07-25T00:00:00Z'' t"
  shows "hil_tenant_lifecycle_wire_contract_round_trips L"
  using assms by (simp add: hil_tenant_lifecycle_wire_contract_round_trips_def enc_hil_tenant_lifecycle_request_def enc_uuid_def dec_hil_tenant_lifecycle_receipt_def
      dec_hil_tenant_lifecycle_kind_def dec_enum_def dec_uuid_def dec_datetime_def knows_uuid_def knows_time_def passing)

definition hil_legal_hold_wire_contract_uses_commitment_only :: "libs \<Rightarrow> bool" where
  "hil_legal_hold_wire_contract_uses_commitment_only L \<longleftrightarrow>
    passes (uuid_parse L ''550e8400-e29b-41d4-a716-446655440000'') (\<lambda>operation_id.
    passes (uuid_parse L ''cb160fcc-ec2f-4cfe-8022-6bc1db2efe06'') (\<lambda>hold_id.
      let v = normalize (enc_hil_legal_hold_request L \<lparr>hd_operation_id = operation_id, hd_action = HoldRelease,
        hd_hold_id = hold_id, hd_authority_reason_sha256 =
          ''sha256:aaaaaaaaaaaaaaaaaaaaaaaaaaaaaaaaaaaaaaaaaaaaaaaaaaaaaaaaaaaaaaaa''\<rparr>)
      in value_at ''action'' v = JString ''release'' \<and> json_get ''reason'' v = None
        \<and> passes (dec_string (value_at ''authority_reason_sha256'' v)) (starts_with ''sha256:'')))"

lemma hil_legal_hold_wire_contract_uses_commitment_only_passes:
  assumes "knows_uuid L ''550e8400-e29b-41d4-a716-446655440000'' u" and "knows_uuid L ''cb160fcc-ec2f-4cfe-8022-6bc1db2efe06'' v"
  shows "hil_legal_hold_wire_contract_uses_commitment_only L"
  using assms by (simp add: hil_legal_hold_wire_contract_uses_commitment_only_def enc_hil_legal_hold_request_def knows_uuid_def passing)

end
