(* ===== verification/Tests_Policies.thy ===== *)
theory Tests_Policies
  imports Testing Mine Policies
begin

text \<open>
  The unit tests of policies.rs on the model: rows and templates as the engine sends them, with
  and without the catalogue metadata, conflicts, the serialised requests and the miner's reply.
\<close>

section \<open>The client\<close>

definition policies_rejects_malformed_base_url :: "libs \<Rightarrow> 'p option \<Rightarrow> transport_error + 'p \<Rightarrow> bool" where
  "policies_rejects_malformed_base_url L installed fresh \<longleftrightarrow>
    fails (policies_new L installed fresh ''not a url'') (\<lambda>e. case e of InvalidConfig _ \<Rightarrow> True | _ \<Rightarrow> False)"

lemma policies_rejects_malformed_base_url_passes:
  assumes "url_parse L ''not a url'' = Inl e"
  shows "policies_rejects_malformed_base_url L installed fresh"
  using assms by (simp add: policies_rejects_malformed_base_url_def policies_new_def parse_base_url_def passing)

definition with_tenant_stamps_query_on_every_call :: "libs \<Rightarrow> 'p option \<Rightarrow> transport_error + 'p \<Rightarrow> bool" where
  "with_tenant_stamps_query_on_every_call L installed fresh \<longleftrightarrow>
    succeeds (map_sum id (policies_with_tenant (Some ''deadbeef'')) (policies_new L installed fresh ''http://localhost:8082'')) (\<lambda>c.
      succeeds (policies_join L c ''policies/phi.rego'') (\<lambda>url. url_query url = Some ''tenant=deadbeef''))
    \<and> succeeds (policies_new L installed fresh ''http://localhost:8082'') (\<lambda>c2.
      succeeds (policies_join L c2 ''policies'') (\<lambda>url. url_query url = None))"

lemma with_tenant_stamps_query_on_every_call_passes:
  assumes "knows_base L ''http://localhost:8082'' ''http://localhost:8082/''" and "default_provider installed fresh = Inr p" and "url_join L ''http://localhost:8082/'' ''policies/phi.rego'' = Inr ''http://localhost:8082/policies/phi.rego''" and "url_join L ''http://localhost:8082/'' ''policies'' = Inr ''http://localhost:8082/policies''" and "url_append_pair L ''http://localhost:8082/policies/phi.rego'' ''tenant'' ''deadbeef''
      = ''http://localhost:8082/policies/phi.rego?tenant=deadbeef''"
  shows "with_tenant_stamps_query_on_every_call L installed fresh"
  using assms by (simp add: with_tenant_stamps_query_on_every_call_def policies_new_def parse_base_url_def knows_base_def
      ends_with_def policies_with_tenant_def policies_join_def join_endpoint_def url_query_def passing)

definition policy_lifecycle_wire_contract_round_trips :: "libs \<Rightarrow> bool" where
  "policy_lifecycle_wire_contract_round_trips L \<longleftrightarrow>
    passes (uuid_parse L ''550e8400-e29b-41d4-a716-446655440000'') (\<lambda>operation_id.
      value_eq (normalize (enc_policy_tenant_lifecycle_request L \<lparr>pq_operation_id = operation_id, pq_kind = PolicyOffboard\<rparr>))
        (normalize (JObject [
        (''operation_id'', JString (uuid_string L operation_id)),
        (''kind'', JString ''offboard'')]))
      \<and> passes (from_value (dec_policy_tenant_lifecycle_receipt L) (JObject [
        (''tenant'', JString ''acme''), (''operation_id'', JString (uuid_string L operation_id)),
        (''kind'', JString ''offboard''), (''state'', JString ''offboarded''),
        (''generation'', JNumber (PosInt 3)), (''policies'', JNumber (PosInt 1)),
        (''receipt_sha256'', JString ''receipt''),
        (''updated_at'', JString ''2026-07-25T00:00:00Z'')])) (\<lambda>receipt.
      py_operation_id receipt = operation_id
      \<and> py_policies receipt = 1))"

lemma policy_lifecycle_wire_contract_round_trips_passes:
  assumes "knows_uuid L ''550e8400-e29b-41d4-a716-446655440000'' u" and "knows_time L ''2026-07-25T00:00:00Z'' t"
  shows "policy_lifecycle_wire_contract_round_trips L"
  using assms by (simp add: policy_lifecycle_wire_contract_round_trips_def enc_policy_tenant_lifecycle_request_def enc_uuid_def
      dec_policy_tenant_lifecycle_receipt_def dec_policy_tenant_lifecycle_kind_def dec_enum_def dec_uuid_def
      dec_datetime_def knows_uuid_def knows_time_def passing)

section \<open>Rows and templates\<close>

definition parse_conflict_recovers_policy_row_doc :: "json" where
  "parse_conflict_recovers_policy_row_doc =
    JObject [
        (''error'', JString ''version_conflict''),
        (''policy'', JObject [
          (''name'', JString ''governance.rego''), (''content_type'', JString ''rego''),
          (''active'', JBool True), (''current_version'', JNumber (PosInt 7)),
          (''deleted_at'', JNull), (''created_at'', JString ''2026-05-08T00:00:00Z''),
          (''updated_at'', JString ''2026-05-08T00:00:00Z'')])]"

definition parse_conflict_recovers_policy_row :: "libs \<Rightarrow> bool" where
  "parse_conflict_recovers_policy_row L \<longleftrightarrow>
    passes (parse_conflict L (json_text L (normalize parse_conflict_recovers_policy_row_doc))) (\<lambda>parsed.
      cf_error parsed = ''version_conflict''
      \<and> pr_current_version (cf_policy parsed) = 7
      \<and> pr_name (cf_policy parsed) = ''governance.rego'')"

lemma parse_conflict_recovers_policy_row_passes:
  assumes "json_parse L (json_text L (normalize parse_conflict_recovers_policy_row_doc)) = Some (normalize parse_conflict_recovers_policy_row_doc)"
  shows "parse_conflict_recovers_policy_row L"
  using assms by (simp add: parse_conflict_recovers_policy_row_def parse_conflict_recovers_policy_row_doc_def parse_conflict_def from_str_def dec_conflict_response_def dec_policy_row_def passing)

definition parse_conflict_returns_none_for_plain_text :: "libs \<Rightarrow> bool" where
  "parse_conflict_returns_none_for_plain_text L \<longleftrightarrow>
    parse_conflict L ''policy already exists'' = None"

lemma parse_conflict_returns_none_for_plain_text_passes:
  assumes "json_parse L ''policy already exists'' = None"
  shows "parse_conflict_returns_none_for_plain_text L"
  using assms by (simp add: parse_conflict_returns_none_for_plain_text_def parse_conflict_def from_str_def)

definition policy_row_round_trips_with_new_metadata_doc :: "json" where
  "policy_row_round_trips_with_new_metadata_doc =
    JObject [
        (''name'', JString ''phi_egress.rego''), (''content_type'', JString ''rego''),
        (''active'', JBool True), (''current_version'', JNumber (PosInt 1)),
        (''deleted_at'', JNull), (''created_at'', JString ''2026-05-20T00:00:00Z''),
        (''updated_at'', JString ''2026-05-20T00:00:00Z''), (''domain'', JString ''healthcare''),
        (''severity'', JString ''high''),
        (''frameworks'', JArray [JString ''HIPAA'', JString ''HITRUST'']),
        (''tags'', JArray [JString ''phi'', JString ''egress'']), (''tier'', JString ''deny''),
        (''tool_surface'', JArray [JString ''phi_export'', JString ''send_email'']),
        (''summary'', JString ''Deny PHI exports.'')]"

definition policy_row_round_trips_with_new_metadata :: "libs \<Rightarrow> bool" where
  "policy_row_round_trips_with_new_metadata L \<longleftrightarrow>
    succeeds (from_str L dec_policy_row (json_text L (normalize policy_row_round_trips_with_new_metadata_doc))) (\<lambda>row.
      pr_domain row = Some ''healthcare''
      \<and> pr_frameworks row = [''HIPAA'', ''HITRUST'']
      \<and> pr_tool_surface row = [''phi_export'', ''send_email'']
      \<and> (let again = json_text L (enc_policy_row row)
         in succeeds (from_str L dec_policy_row again) (\<lambda>row2.
           pr_domain row2 = pr_domain row \<and> pr_tags row2 = pr_tags row)))"

lemma policy_row_round_trips_with_new_metadata_passes:
  assumes "\<And>j. json_parse L (json_text L j) = Some j"
  shows "policy_row_round_trips_with_new_metadata L"
  by (simp add: policy_row_round_trips_with_new_metadata_def policy_row_round_trips_with_new_metadata_doc_def from_str_def assms dec_policy_row_def enc_policy_row_def passing)

definition policy_template_deserializes_from_server_json_doc :: "json" where
  "policy_template_deserializes_from_server_json_doc =
    JObject [
        (''name'', JString ''phi_egress.rego''), (''content_type'', JString ''rego''),
        (''domain'', JString ''healthcare''), (''severity'', JString ''high''),
        (''frameworks'', JArray [JString ''HIPAA'']), (''tags'', JArray [JString ''phi'']),
        (''tier'', JString ''deny''), (''tool_surface'', JArray [JString ''phi_export'']),
        (''summary'', JString ''Deny PHI exports.''), (''installed'', JBool False)]"

definition policy_template_deserializes_from_server_json :: "libs \<Rightarrow> bool" where
  "policy_template_deserializes_from_server_json L \<longleftrightarrow>
    (let body = json_text L (normalize policy_template_deserializes_from_server_json_doc)
    in succeeds (from_str L dec_policy_template body) (\<lambda>t.
      pt_name t = ''phi_egress.rego''
      \<and> \<not> pt_installed t
      \<and> pt_frameworks t = [''HIPAA'']))"

lemma policy_template_deserializes_from_server_json_passes:
  assumes "json_parse L (json_text L (normalize policy_template_deserializes_from_server_json_doc)) = Some (normalize policy_template_deserializes_from_server_json_doc)"
  shows "policy_template_deserializes_from_server_json L"
  using assms by (simp add: policy_template_deserializes_from_server_json_def policy_template_deserializes_from_server_json_doc_def from_str_def dec_policy_template_def passing)

definition policy_template_detail_flatten_round_trips_doc :: "json" where
  "policy_template_detail_flatten_round_trips_doc =
    JObject [
        (''name'', JString ''phi_egress.rego''), (''content_type'', JString ''rego''),
        (''domain'', JString ''healthcare''), (''frameworks'', JArray []), (''tags'', JArray []),
        (''tool_surface'', JArray []), (''installed'', JBool True),
        (''body'', JString (''package clavenar.authz'' @ [CHR 0x0A] @ ''default allow := false'' @ [CHR 0x0A])),
        (''body_sha256'', JString ''deadbeef'')]"

definition policy_template_detail_flatten_round_trips :: "libs \<Rightarrow> bool" where
  "policy_template_detail_flatten_round_trips L \<longleftrightarrow>
    succeeds (from_str L dec_policy_template_detail (json_text L (normalize policy_template_detail_flatten_round_trips_doc))) (\<lambda>d.
      pt_name (pe_template d) = ''phi_egress.rego''
      \<and> pe_body_sha256 d = ''deadbeef''
      \<and> starts_with ''package clavenar.authz'' (pe_body d)
      \<and> (let again = json_text L (enc_policy_template_detail d)
         in contains again ([CHR 0x22] @ ''name'' @ [CHR 0x22] @ '':'' @ [CHR 0x22] @ ''phi_egress.rego'' @ [CHR 0x22])
           \<and> \<not> contains again ([CHR 0x22] @ ''template'' @ [CHR 0x22] @ '':{'')))"

lemma policy_template_detail_flatten_round_trips_passes:
  assumes "json_parse L (json_text L (normalize policy_template_detail_flatten_round_trips_doc)) = Some (normalize policy_template_detail_flatten_round_trips_doc)" and "prints_compactly L" and "json_text L (JString (''package clavenar.authz'' @ [CHR 0x0A] @ ''default allow := false'' @ [CHR 0x0A]))
      = ([CHR 0x22] @ ''package clavenar.authz'' @ [CHR 0x5C] @ ''ndefault allow := false'' @ [CHR 0x5C] @ ''n'' @ [CHR 0x22])"
  shows "policy_template_detail_flatten_round_trips L"
  proof -
  let ?doc = policy_template_detail_flatten_round_trips_doc
  obtain d where d: "dec_policy_template_detail (normalize ?doc) = Some d"
    and fields: "pt_name (pe_template d) = ''phi_egress.rego''" "pe_body_sha256 d = ''deadbeef''"
      "starts_with ''package clavenar.authz'' (pe_body d)"
    and again: "enc_policy_template_detail d = JObject [(''name'', JString ''phi_egress.rego''),
        (''content_type'', JString ''rego''), (''domain'', JString ''healthcare''), (''severity'', JNull),
        (''frameworks'', JArray []), (''tags'', JArray []), (''tier'', JNull), (''tool_surface'', JArray []),
        (''summary'', JNull), (''installed'', JBool True), (''body'', JString (''package clavenar.authz'' @ [CHR 0x0A] @ ''default allow := false'' @ [CHR 0x0A])),
        (''body_sha256'', JString ''deadbeef'')]"
    by (simp add: policy_template_detail_flatten_round_trips_doc_def dec_policy_template_detail_def
        dec_policy_template_def enc_policy_template_detail_def enc_policy_template_def members_def passing)
  show ?thesis
    by (simp add: policy_template_detail_flatten_round_trips_def from_str_def assms(1) d fields again
        compact_simps [OF assms(2)] assms(3) [simplified] plain_char_def byte_def passing)
qed

section \<open>Requests\<close>

definition install_template_request_serializes_with_audit_fields :: "bool" where
  "install_template_request_serializes_with_audit_fields \<longleftrightarrow>
    (let s = normalize (enc_install_template_request \<lparr>it_reason = ''install phi_egress'', it_actor_sub = ''alice'',
        it_actor_idp = ''oidc:test''\<rparr>)
    in value_at ''reason'' s = JString ''install phi_egress''
      \<and> value_at ''actor_sub'' s = JString ''alice''
      \<and> value_at ''actor_idp'' s = JString ''oidc:test'')"

lemma install_template_request_serializes_with_audit_fields_passes: "install_template_request_serializes_with_audit_fields"
  by (simp add: install_template_request_serializes_with_audit_fields_def enc_install_template_request_def passing)

definition lab_template_request_omits_optional_fields_when_none :: "bool" where
  "lab_template_request_omits_optional_fields_when_none \<longleftrightarrow>
    (let s = normalize (enc_lab_template_request \<lparr>lt_mode = None, lt_replace_rule_name = None, lt_inputs = []\<rparr>)
    in json_get ''mode'' s = None \<and> json_get ''replace_rule_name'' s = None
      \<and> value_at ''inputs'' s = JArray [])"

lemma lab_template_request_omits_optional_fields_when_none_passes: "lab_template_request_omits_optional_fields_when_none"
  by (simp add: lab_template_request_omits_optional_fields_when_none_def enc_lab_template_request_def passing)

definition lab_template_request_serializes_mode_when_set :: "bool" where
  "lab_template_request_serializes_mode_when_set \<longleftrightarrow>
    (let s = normalize (enc_lab_template_request \<lparr>lt_mode = Some Replace, lt_replace_rule_name = Some ''phi_egress.rego'',
        lt_inputs = []\<rparr>)
    in value_at ''mode'' s = JString ''replace''
      \<and> value_at ''replace_rule_name'' s = JString ''phi_egress.rego'')"

lemma lab_template_request_serializes_mode_when_set_passes: "lab_template_request_serializes_mode_when_set"
  by (simp add: lab_template_request_serializes_mode_when_set_def enc_lab_template_request_def passing)

definition batch_state_change_request_serializes :: "bool" where
  "batch_state_change_request_serializes \<longleftrightarrow>
    (let v = normalize (enc_batch_state_change_request \<lparr>bs_reason = ''install finance'', bs_actor_sub = ''alice'',
        bs_actor_idp = ''oidc:test''\<rparr>)
    in value_at ''reason'' v = JString ''install finance''
      \<and> value_at ''actor_sub'' v = JString ''alice''
      \<and> json_get ''expected_current_version'' v = None)"

lemma batch_state_change_request_serializes_passes: "batch_state_change_request_serializes"
  by (simp add: batch_state_change_request_serializes_def enc_batch_state_change_request_def passing)

section \<open>Older and newer engines\<close>

definition policy_row_back_compat_with_pre_frontmatter_engine_doc :: "json" where
  "policy_row_back_compat_with_pre_frontmatter_engine_doc =
    JObject [
        (''name'', JString ''governance.rego''), (''content_type'', JString ''rego''),
        (''active'', JBool True), (''current_version'', JNumber (PosInt 1)),
        (''deleted_at'', JNull), (''created_at'', JString ''2026-04-01T00:00:00Z''),
        (''updated_at'', JString ''2026-04-01T00:00:00Z'')]"

definition policy_row_back_compat_with_pre_frontmatter_engine :: "libs \<Rightarrow> bool" where
  "policy_row_back_compat_with_pre_frontmatter_engine L \<longleftrightarrow>
    (let body = json_text L (normalize policy_row_back_compat_with_pre_frontmatter_engine_doc)
    in succeeds (from_str L dec_policy_row body) (\<lambda>row.
      pr_name row = ''governance.rego''
      \<and> pr_domain row = None
      \<and> pr_frameworks row = []
      \<and> pr_tool_surface row = []
      \<and> \<not> pr_protected row))"

lemma policy_row_back_compat_with_pre_frontmatter_engine_passes:
  assumes "json_parse L (json_text L (normalize policy_row_back_compat_with_pre_frontmatter_engine_doc)) = Some (normalize policy_row_back_compat_with_pre_frontmatter_engine_doc)"
  shows "policy_row_back_compat_with_pre_frontmatter_engine L"
  using assms by (simp add: policy_row_back_compat_with_pre_frontmatter_engine_def policy_row_back_compat_with_pre_frontmatter_engine_doc_def from_str_def dec_policy_row_def passing)

definition policy_row_decodes_protected_flag_doc :: "json" where
  "policy_row_decodes_protected_flag_doc =
    JObject [
        (''name'', JString ''governance.rego''), (''content_type'', JString ''rego''),
        (''active'', JBool True), (''protected'', JBool True),
        (''current_version'', JNumber (PosInt 1)), (''deleted_at'', JNull),
        (''created_at'', JString ''2026-06-07T00:00:00Z''),
        (''updated_at'', JString ''2026-06-07T00:00:00Z'')]"

definition policy_row_decodes_protected_flag :: "libs \<Rightarrow> bool" where
  "policy_row_decodes_protected_flag L \<longleftrightarrow>
    (let body = json_text L (normalize policy_row_decodes_protected_flag_doc)
    in succeeds (from_str L dec_policy_row body) (\<lambda>row.
      pr_protected row))"

lemma policy_row_decodes_protected_flag_passes:
  assumes "json_parse L (json_text L (normalize policy_row_decodes_protected_flag_doc)) = Some (normalize policy_row_decodes_protected_flag_doc)"
  shows "policy_row_decodes_protected_flag L"
  using assms by (simp add: policy_row_decodes_protected_flag_def policy_row_decodes_protected_flag_doc_def from_str_def dec_policy_row_def passing)

definition batch_mutation_response_decodes_doc :: "json" where
  "batch_mutation_response_decodes_doc =
    JObject [
        (''changed'', JNumber (PosInt 2)), (''skipped'', JNumber (PosInt 1)),
        (''results'', JArray [
          JObject [
            (''name'', JString ''a.rego''), (''version'', JNumber (PosInt 2)),
            (''body_sha256'', JString ''x''), (''current_version'', JNumber (PosInt 2)),
            (''active'', JBool True), (''event_kind'', JString ''policy.activated'')],
          JObject [
            (''name'', JString ''b.rego''), (''version'', JNumber (PosInt 3)),
            (''body_sha256'', JString ''y''), (''current_version'', JNumber (PosInt 3)),
            (''active'', JBool True), (''event_kind'', JString ''policy.activated'')]])]"

definition batch_mutation_response_decodes :: "libs \<Rightarrow> bool" where
  "batch_mutation_response_decodes L \<longleftrightarrow>
    (let body = json_text L (normalize batch_mutation_response_decodes_doc)
    in succeeds (from_str L dec_batch_mutation_response body) (\<lambda>resp.
      bm_changed resp = 2
      \<and> bm_skipped resp = 1
      \<and> length (bm_results resp) = 2
      \<and> mr_name (bm_results resp ! 0) = ''a.rego''))"

lemma batch_mutation_response_decodes_passes:
  assumes "json_parse L (json_text L (normalize batch_mutation_response_decodes_doc)) = Some (normalize batch_mutation_response_decodes_doc)"
  shows "batch_mutation_response_decodes L"
  using assms by (simp add: batch_mutation_response_decodes_def batch_mutation_response_decodes_doc_def from_str_def dec_batch_mutation_response_def dec_mutation_response_def passing)

definition mine_response_decodes_sanitized_evidence_fields_doc :: "json" where
  "mine_response_decodes_sanitized_evidence_fields_doc =
    JObject [
        (''corpus_size'', JNumber (PosInt 22)), (''candidates_dropped'', JNumber (PosInt 0)),
        (''evaluated_in_ms'', JNumber (PosInt 12)),
        (''candidates'', JArray [
          JObject [
            (''id'', JString ''candidate-1''), (''kind'', JString ''after_hours''),
            (''rule_name'', JString ''after_hours_bulk_export_v1''),
            (''one_liner'', JString ''off-hours bulk_export''), (''brain_enriched'', JBool False),
            (''rego_body'', JString (''package clavenar.authz'' @ [CHR 0x0A] @ ''import rego.v1'' @ [CHR 0x0A])),
            (''compile_ok'', JBool True), (''evidence_count'', JNumber (PosInt 11)),
            (''score'', JNumber (Float 0x4045400000000000)),
            (''lab_replay'', JObject [
              (''allow_to_deny'', JNumber (PosInt 0)), (''allow_to_yellow'', JNumber (PosInt 11)),
              (''deny_to_allow'', JNumber (PosInt 0)), (''deny_to_yellow'', JNumber (PosInt 0)),
              (''yellow_to_allow'', JNumber (PosInt 0)), (''yellow_to_deny'', JNumber (PosInt 0)),
              (''unchanged'', JNumber (PosInt 11)), (''catalog_regressions'', JNumber (PosInt 0))]),
            (''threshold'', JObject [
              (''off_hours_pct'', JNumber (Float 0x3FE0000000000000)),
              (''off_hours_count'', JNumber (PosInt 11))]),
            (''flipped_examples'', JArray [
              JObject [
                (''correlation_id'', JString ''cid-1''), (''diff_label'', JString ''Allow -> Yellow''),
                (''tool_type'', JString ''bulk_export''), (''method'', JString ''tools/call''),
                (''agent_kind'', JString ''mcp''), (''current_time'', JString ''2026-05-04T04:00:00Z''),
                (''intent_score'', JNumber (Float 0x3FB999999999999A)),
                (''recent_request_count'', JNumber (PosInt 0)),
                (''before_reasons'', JArray [JString ''allow'']),
                (''after_reasons'', JArray [JString ''review: learned''])]])]])]"

definition mine_response_decodes_sanitized_evidence_fields :: "libs \<Rightarrow> bool" where
  "mine_response_decodes_sanitized_evidence_fields L \<longleftrightarrow>
    (let body = json_text L (normalize mine_response_decodes_sanitized_evidence_fields_doc)
    in succeeds (from_str L dec_mine_response body) (\<lambda>resp.
      (let c = mr_candidates resp ! 0
        in value_at ''off_hours_pct'' (mc_threshold c) = JNumber (Float 0x3FE0000000000000)
          \<and> mf_correlation_id (mc_flipped_examples c ! 0) = Some ''cid-1'')))"

lemma mine_response_decodes_sanitized_evidence_fields_passes:
  assumes "json_parse L (json_text L (normalize mine_response_decodes_sanitized_evidence_fields_doc)) = Some (normalize mine_response_decodes_sanitized_evidence_fields_doc)"
  shows "mine_response_decodes_sanitized_evidence_fields L"
  using assms by (simp add: mine_response_decodes_sanitized_evidence_fields_def mine_response_decodes_sanitized_evidence_fields_doc_def from_str_def dec_f32_def dec_mine_response_def dec_mine_candidate_def dec_mine_lab_replay_def dec_mine_flipped_example_def passing)

definition mine_response_decodes_pre_evidence_engine_doc :: "json" where
  "mine_response_decodes_pre_evidence_engine_doc =
    JObject [
        (''corpus_size'', JNumber (PosInt 1)), (''candidates_dropped'', JNumber (PosInt 0)),
        (''evaluated_in_ms'', JNumber (PosInt 1)),
        (''candidates'', JArray [
          JObject [
            (''id'', JString ''candidate-1''), (''kind'', JString ''after_hours''),
            (''rule_name'', JString ''after_hours_bulk_export_v1''),
            (''one_liner'', JString ''off-hours bulk_export''), (''brain_enriched'', JBool False),
            (''rego_body'', JString (''package clavenar.authz'' @ [CHR 0x0A] @ ''import rego.v1'' @ [CHR 0x0A])),
            (''compile_ok'', JBool True), (''evidence_count'', JNumber (PosInt 1)),
            (''score'', JNumber (Float 0x3FF0000000000000)),
            (''lab_replay'', JObject [
              (''allow_to_deny'', JNumber (PosInt 0)), (''allow_to_yellow'', JNumber (PosInt 1)),
              (''deny_to_allow'', JNumber (PosInt 0)), (''deny_to_yellow'', JNumber (PosInt 0)),
              (''yellow_to_allow'', JNumber (PosInt 0)), (''yellow_to_deny'', JNumber (PosInt 0)),
              (''unchanged'', JNumber (PosInt 0)), (''catalog_regressions'', JNumber (PosInt 0))])]])]"

definition mine_response_decodes_pre_evidence_engine :: "libs \<Rightarrow> bool" where
  "mine_response_decodes_pre_evidence_engine L \<longleftrightarrow>
    (let body = json_text L (normalize mine_response_decodes_pre_evidence_engine_doc)
    in succeeds (from_str L dec_mine_response body) (\<lambda>resp.
      mc_threshold (mr_candidates resp ! 0) = JNull
      \<and> mc_flipped_examples (mr_candidates resp ! 0) = []))"

lemma mine_response_decodes_pre_evidence_engine_passes:
  assumes "json_parse L (json_text L (normalize mine_response_decodes_pre_evidence_engine_doc)) = Some (normalize mine_response_decodes_pre_evidence_engine_doc)"
  shows "mine_response_decodes_pre_evidence_engine L"
  using assms by (simp add: mine_response_decodes_pre_evidence_engine_def mine_response_decodes_pre_evidence_engine_doc_def from_str_def dec_f32_def dec_mine_response_def dec_mine_candidate_def dec_mine_lab_replay_def dec_mine_flipped_example_def passing)

end
