(* ===== verification/Tests_Ledger.thy ===== *)
theory Tests_Ledger
  imports Testing Ledger
begin

text \<open>
  The unit tests of ledger.rs on the model: rows of every chain version, verification results,
  exports, lifecycle rows with their joined payload, and the constructed meter adjustment.
\<close>

definition active_agent_adjustment_constructor_pins_contract_and_scope :: "libs \<Rightarrow> bool" where
  "active_agent_adjustment_constructor_pins_contract_and_scope L \<longleftrightarrow>
    passes (uuid_parse L ''550e8400-e29b-41d4-a716-446655440000'') (\<lambda>idempotency_key.
      let adjustment = for_agent ''tenant-a:agent:billing-bot'' (new_adjustment ''tenant-a'' ''2026-07-01T00:00:00Z''
            idempotency_key Credit (- 1) ''service credit'');
          body = normalize (enc_active_agent_adjustment L adjustment)
      in value_at ''contract'' body = JString ''clavenar.active-agent-adjustment/v1''
        \<and> value_at ''meter_version'' body = JString ''1.0.0''
        \<and> value_at ''tenant'' body = JString ''tenant-a''
        \<and> value_at ''idempotency_key'' body = JString (uuid_string L idempotency_key)
        \<and> value_at ''kind'' body = JString ''credit''
        \<and> value_at ''units_delta'' body = JNumber (NegInt (- 1))
        \<and> value_at ''agent_key'' body = JString ''tenant-a:agent:billing-bot'')"

lemma active_agent_adjustment_constructor_pins_contract_and_scope_passes:
  assumes "knows_uuid L ''550e8400-e29b-41d4-a716-446655440000'' u"
  shows "active_agent_adjustment_constructor_pins_contract_and_scope L"
  using assms by (simp add: active_agent_adjustment_constructor_pins_contract_and_scope_def enc_active_agent_adjustment_def for_agent_def new_adjustment_def
      enc_uuid_def enc_i64_def knows_uuid_def passing)

definition ledger_entry_round_trips_through_json :: "libs \<Rightarrow> bool" where
  "ledger_entry_round_trips_through_json L \<longleftrightarrow>
    passes (from_value (dec_ledger_entry L) (JObject [
        (''id'', JString ''550e8400-e29b-41d4-a716-446655440000''),
        (''timestamp'', JString ''2026-05-02T12:34:56Z''), (''agent_id'', JString ''demo-bot''),
        (''method'', JString ''tools/call''), (''intent_category'', JString ''BenignTool''),
        (''authorized'', JBool True), (''reasoning'', JString ''policy: allow''),
        (''policy_decision'', JObject [
          (''allow'', JBool True), (''reasons'', JArray [])]),
        (''seq'', JNumber (PosInt 42)), (''prev_hash'', JString (repeat_str 64 ''0'')),
        (''entry_hash'', JString (repeat_str 64 ''a'')), (''correlation_id'', JString ''cid-1'')])) (\<lambda>parsed.
      le_seq parsed = 42
      \<and> le_correlation_id parsed = Some ''cid-1''
      \<and> passes (from_value (dec_ledger_entry L) (normalize (enc_ledger_entry L parsed))) (\<lambda>again_back.
        le_id again_back = le_id parsed \<and> le_entry_hash again_back = le_entry_hash parsed))"

lemma ledger_entry_round_trips_through_json_passes:
  assumes "knows_uuid L ''550e8400-e29b-41d4-a716-446655440000'' u" and "knows_time L ''2026-05-02T12:34:56Z'' t" and "datetime_serde L t = s" and "rfc3339_parse L s = Some t"
  shows "ledger_entry_round_trips_through_json L"
  using assms by (simp add: ledger_entry_round_trips_through_json_def enc_ledger_entry_def enc_uuid_def enc_datetime_def enc_i64_def skip_none_def dec_ledger_entry_def dec_uuid_def dec_datetime_def default_chain_version_def
      knows_uuid_def knows_time_def passing)

definition ledger_entry_accepts_missing_correlation_id :: "libs \<Rightarrow> bool" where
  "ledger_entry_accepts_missing_correlation_id L \<longleftrightarrow>
    passes (from_value (dec_ledger_entry L) (JObject [
        (''id'', JString ''550e8400-e29b-41d4-a716-446655440000''),
        (''timestamp'', JString ''2026-05-02T12:34:56Z''), (''agent_id'', JString ''demo-bot''),
        (''method'', JString ''tools/call''), (''intent_category'', JString ''BenignTool''),
        (''authorized'', JBool True), (''reasoning'', JString ''policy: allow''),
        (''policy_decision'', JNull), (''seq'', JNumber (PosInt 1)),
        (''prev_hash'', JString (repeat_str 64 ''0'')),
        (''entry_hash'', JString (repeat_str 64 ''a''))])) (\<lambda>parsed.
      le_correlation_id parsed = None
      \<and> le_chain_version parsed = 1)"

lemma ledger_entry_accepts_missing_correlation_id_passes:
  assumes "knows_uuid L ''550e8400-e29b-41d4-a716-446655440000'' u" and "knows_time L ''2026-05-02T12:34:56Z'' t"
  shows "ledger_entry_accepts_missing_correlation_id L"
  using assms by (simp add: ledger_entry_accepts_missing_correlation_id_def dec_ledger_entry_def dec_uuid_def dec_datetime_def default_chain_version_def
      knows_uuid_def knows_time_def passing)

definition ledger_entry_carries_explicit_chain_version_when_present :: "libs \<Rightarrow> bool" where
  "ledger_entry_carries_explicit_chain_version_when_present L \<longleftrightarrow>
    passes (from_value (dec_ledger_entry L) (JObject [
        (''id'', JString ''550e8400-e29b-41d4-a716-446655440000''),
        (''timestamp'', JString ''2026-05-02T12:34:56Z''), (''agent_id'', JString ''demo-bot''),
        (''method'', JString ''tools/call''), (''intent_category'', JString ''BenignTool''),
        (''authorized'', JBool True), (''reasoning'', JString ''policy: allow''),
        (''policy_decision'', JNull), (''seq'', JNumber (PosInt 1)),
        (''prev_hash'', JString (repeat_str 64 ''0'')),
        (''entry_hash'', JString (repeat_str 64 ''a'')), (''chain_version'', JNumber (PosInt 2))])) (\<lambda>parsed.
      le_chain_version parsed = 2)"

lemma ledger_entry_carries_explicit_chain_version_when_present_passes:
  assumes "knows_uuid L ''550e8400-e29b-41d4-a716-446655440000'' u" and "knows_time L ''2026-05-02T12:34:56Z'' t"
  shows "ledger_entry_carries_explicit_chain_version_when_present L"
  using assms by (simp add: ledger_entry_carries_explicit_chain_version_when_present_def dec_ledger_entry_def dec_uuid_def dec_datetime_def default_chain_version_def
      knows_uuid_def knows_time_def passing)

definition ledger_entry_decodes_v4_brain_evidence :: "libs \<Rightarrow> bool" where
  "ledger_entry_decodes_v4_brain_evidence L \<longleftrightarrow>
    passes (from_value (dec_ledger_entry L) (JObject [
        (''id'', JString ''550e8400-e29b-41d4-a716-446655440000''),
        (''timestamp'', JString ''2026-06-12T12:34:56Z''), (''agent_id'', JString ''demo-bot''),
        (''method'', JString ''tools/call''), (''intent_category'', JString ''DirectExecution''),
        (''authorized'', JBool True), (''reasoning'', JString ''security: ok | upstream: ok''),
        (''policy_decision'', JNull), (''seq'', JNumber (PosInt 7)),
        (''prev_hash'', JString (repeat_str 64 ''0'')),
        (''entry_hash'', JString (repeat_str 64 ''a'')), (''chain_version'', JNumber (PosInt 4)),
        (''brain_evidence_sha256'', JString (repeat_str 64 ''b''))])) (\<lambda>parsed.
      le_chain_version parsed = 4
      \<and> le_brain_evidence_sha256 parsed = Some (repeat_str 64 ''b''))
    \<and> passes (from_value (dec_ledger_entry L) (JObject [
        (''id'', JString ''550e8400-e29b-41d4-a716-446655440001''),
        (''timestamp'', JString ''2026-06-12T12:34:56Z''), (''agent_id'', JString ''demo-bot''),
        (''method'', JString ''tools/call''), (''intent_category'', JString ''DirectExecution''),
        (''authorized'', JBool True), (''reasoning'', JString ''ok''),
        (''policy_decision'', JNull), (''seq'', JNumber (PosInt 1)),
        (''prev_hash'', JString (repeat_str 64 ''0'')),
        (''entry_hash'', JString (repeat_str 64 ''a''))])) (\<lambda>parsed.
      le_brain_evidence_sha256 parsed = None)"

lemma ledger_entry_decodes_v4_brain_evidence_passes:
  assumes "knows_uuid L ''550e8400-e29b-41d4-a716-446655440000'' u" and "knows_uuid L ''550e8400-e29b-41d4-a716-446655440001'' v" and "knows_time L ''2026-06-12T12:34:56Z'' t"
  shows "ledger_entry_decodes_v4_brain_evidence L"
  using assms by (simp add: ledger_entry_decodes_v4_brain_evidence_def dec_ledger_entry_def dec_uuid_def dec_datetime_def default_chain_version_def
      knows_uuid_def knows_time_def passing)

definition ledger_entry_decodes_brain_scores :: "libs \<Rightarrow> bool" where
  "ledger_entry_decodes_brain_scores L \<longleftrightarrow>
    passes (from_value (dec_ledger_entry L) (JObject [
        (''id'', JString ''550e8400-e29b-41d4-a716-446655440002''),
        (''timestamp'', JString ''2026-06-12T12:34:56Z''),
        (''agent_id'', JString ''demo-abc123''), (''method'', JString ''call_tool''),
        (''intent_category'', JString ''Meta-Reasoning''), (''authorized'', JBool False),
        (''reasoning'', JString ''Potential bypass attempt detected (Heuristic)''),
        (''policy_decision'', JNull), (''seq'', JNumber (PosInt 9)),
        (''prev_hash'', JString (repeat_str 64 ''0'')),
        (''entry_hash'', JString (repeat_str 64 ''a'')),
        (''brain_scores'', JObject [
          (''injection_confidence'', JNumber (Float 0x3FEB333333333333)),
          (''malicious_code_confidence'', JNumber (Float 0x0000000000000000)),
          (''compromised_package_confidence'', JNumber (Float 0x0000000000000000)),
          (''persona_drift_score'', JNumber (Float 0x0000000000000000)),
          (''drift_available'', JBool False)])])) (\<lambda>parsed.
      passes (le_brain_scores parsed) (\<lambda>scores.
        value_at ''injection_confidence'' scores = JNumber (Float 0x3FEB333333333333)))
    \<and> passes (from_value (dec_ledger_entry L) (JObject [
        (''id'', JString ''550e8400-e29b-41d4-a716-446655440003''),
        (''timestamp'', JString ''2026-06-12T12:34:56Z''),
        (''agent_id'', JString ''demo-abc123''), (''method'', JString ''call_tool''),
        (''intent_category'', JString ''DirectExecution''), (''authorized'', JBool True),
        (''reasoning'', JString ''ok''), (''policy_decision'', JNull),
        (''seq'', JNumber (PosInt 10)), (''prev_hash'', JString (repeat_str 64 ''0'')),
        (''entry_hash'', JString (repeat_str 64 ''a''))])) (\<lambda>parsed.
      le_brain_scores parsed = None)"

lemma ledger_entry_decodes_brain_scores_passes:
  assumes "knows_uuid L ''550e8400-e29b-41d4-a716-446655440002'' u" and "knows_uuid L ''550e8400-e29b-41d4-a716-446655440003'' v" and "knows_time L ''2026-06-12T12:34:56Z'' t"
  shows "ledger_entry_decodes_brain_scores L"
  using assms by (simp add: ledger_entry_decodes_brain_scores_def dec_ledger_entry_def dec_uuid_def dec_datetime_def default_chain_version_def
      knows_uuid_def knows_time_def passing)

section \<open>Verification and exports\<close>

definition verify_result_round_trips :: "bool" where
  "verify_result_round_trips \<longleftrightarrow>
    passes (from_value dec_verify_result (JObject [
        (''valid'', JBool True), (''entries_checked'', JNumber (PosInt 47)),
        (''first_invalid_seq'', JNull)])) (\<lambda>parsed.
      vr_valid parsed
      \<and> vr_entries_checked parsed = 47
      \<and> vr_first_invalid_seq parsed = None
      \<and> vr_unsupported_chain_version parsed = None)
    \<and> passes (from_value dec_verify_result (JObject [
        (''valid'', JBool False), (''entries_checked'', JNumber (PosInt 12)),
        (''first_invalid_seq'', JNumber (PosInt 7))])) (\<lambda>parsed.
      \<not> vr_valid parsed
      \<and> vr_first_invalid_seq parsed = Some 7)"

lemma verify_result_round_trips_passes: "verify_result_round_trips"
  by (simp add: verify_result_round_trips_def dec_verify_result_def dec_anchor_summary_def dec_datetime_def knows_time_def passing)

definition export_record_round_trips_through_json :: "libs \<Rightarrow> bool" where
  "export_record_round_trips_through_json L \<longleftrightarrow>
    passes (from_value (dec_export_record L) (JObject [
        (''snapshot_id'', JString ''550e8400-e29b-41d4-a716-446655440000''),
        (''written_at'', JString ''2026-05-02T12:34:56Z''),
        (''data_uri'', JString ''file:///snapshots/abc.parquet''),
        (''manifest_uri'', JString ''file:///snapshots/abc.manifest.json''),
        (''data_sha256'', JString (repeat_str 64 ''f'')), (''byte_size'', JNumber (PosInt 1024)),
        (''row_count'', JNumber (PosInt 42)), (''seq_lo'', JNumber (PosInt 1)),
        (''seq_hi'', JNumber (PosInt 42))])) (\<lambda>parsed.
      xr_row_count parsed = 42
      \<and> xr_byte_size parsed = 1024
      \<and> xr_seq_lo parsed = 1
      \<and> xr_seq_hi parsed = 42
      \<and> passes (from_value (dec_export_record L) (normalize (enc_export_record L parsed))) (\<lambda>again_back.
        again_back = parsed))"

lemma export_record_round_trips_through_json_passes:
  assumes "knows_uuid L ''550e8400-e29b-41d4-a716-446655440000'' u" and "knows_time L ''2026-05-02T12:34:56Z'' t" and "datetime_serde L t = s" and "rfc3339_parse L s = Some t"
  shows "export_record_round_trips_through_json L"
  using assms by (simp add: export_record_round_trips_through_json_def dec_export_record_def enc_export_record_def enc_uuid_def enc_datetime_def enc_i64_def enc_u64_def
      dec_uuid_def dec_datetime_def knows_uuid_def knows_time_def passing)

definition verify_result_decodes_unsupported_chain_version_signal :: "bool" where
  "verify_result_decodes_unsupported_chain_version_signal \<longleftrightarrow>
    passes (from_value dec_verify_result (JObject [
        (''valid'', JBool False), (''entries_checked'', JNumber (PosInt 4)),
        (''first_invalid_seq'', JNull), (''unsupported_chain_version'', JNumber (PosInt 2))])) (\<lambda>parsed.
      \<not> vr_valid parsed
      \<and> vr_first_invalid_seq parsed = None
      \<and> vr_unsupported_chain_version parsed = Some 2
      \<and> vr_anchors parsed = []
      \<and> vr_anchor_mismatch parsed = None)"

lemma verify_result_decodes_unsupported_chain_version_signal_passes: "verify_result_decodes_unsupported_chain_version_signal"
  by (simp add: verify_result_decodes_unsupported_chain_version_signal_def dec_verify_result_def dec_anchor_summary_def dec_datetime_def knows_time_def passing)

definition verify_result_decodes_anchor_cross_checks :: "bool" where
  "verify_result_decodes_anchor_cross_checks \<longleftrightarrow>
    passes (from_value dec_verify_result (JObject [
        (''valid'', JBool True), (''entries_checked'', JNumber (PosInt 9)),
        (''first_invalid_seq'', JNull),
        (''anchors'', JArray [
          JObject [
            (''anchored_seq'', JNumber (PosInt 7)), (''anchored_entry_hash'', JString ''ab''),
            (''source'', JString ''rfc3161''), (''status'', JString ''anchored''),
            (''gen_time'', JString ''2026-06-12T00:00:00Z''), (''proof_sha256'', JString ''cd''),
            (''anchored_at'', JString ''2026-06-12T00:00:01Z''), (''chain_match'', JBool False)]]),
        (''anchor_mismatch'', JBool True)])) (\<lambda>parsed.
      vr_valid parsed
      \<and> length (vr_anchors parsed) = 1
      \<and> an_source (vr_anchors parsed ! 0) = ''rfc3161''
      \<and> an_chain_match (vr_anchors parsed ! 0) = Some False
      \<and> vr_anchor_mismatch parsed = Some True)"

lemma verify_result_decodes_anchor_cross_checks_passes: "verify_result_decodes_anchor_cross_checks"
  by (simp add: verify_result_decodes_anchor_cross_checks_def dec_verify_result_def dec_anchor_summary_def dec_datetime_def knows_time_def passing)

section \<open>Lifecycle\<close>

definition lifecycle_row_decodes_v3_fields_with_payload_join :: "libs \<Rightarrow> bool" where
  "lifecycle_row_decodes_v3_fields_with_payload_join L \<longleftrightarrow>
    passes (from_value (dec_lifecycle_row L) (JObject [
        (''id'', JString ''01940000-0000-7000-8000-000000000000''),
        (''timestamp'', JString ''2026-05-05T14:30:00Z''),
        (''agent_id'', JString ''01HW-AGENT-uuid''), (''method'', JString ''agent.registered''),
        (''intent_category'', JString ''Lifecycle''), (''authorized'', JBool True),
        (''reasoning'', JString []), (''policy_decision'', JNull), (''seq'', JNumber (PosInt 1)),
        (''prev_hash'', JString (repeat_str 32 ''00'')),
        (''entry_hash'', JString (repeat_str 32 ''ab'')), (''chain_version'', JNumber (PosInt 3)),
        (''event_kind'', JString ''agent.registered''), (''tenant'', JString ''acme''),
        (''agent_name'', JString ''support-bot-3''),
        (''actor_sub'', JString ''user:alice@acme.com''), (''actor_idp'', JString ''okta''),
        (''payload_sha256'', JString (repeat_str 32 ''cd'')),
        (''signature'', JString ''vault:v1:ZmFrZQ==''),
        (''key_id'', JString ''clavenar-identity:v1''),
        (''payload'', JObject [
          (''owner_team'', JString ''payments''),
          (''scope_envelope'', JArray [JString ''mcp:read:tickets''])])])) (\<lambda>row.
      le_chain_version (lr_entry row) = 3
      \<and> le_event_kind (lr_entry row) = Some ''agent.registered''
      \<and> le_tenant (lr_entry row) = Some ''acme''
      \<and> le_agent_name (lr_entry row) = Some ''support-bot-3''
      \<and> passes (lr_payload row) (\<lambda>payload. value_at ''owner_team'' payload = JString ''payments''))"

lemma lifecycle_row_decodes_v3_fields_with_payload_join_passes:
  assumes "knows_uuid L ''01940000-0000-7000-8000-000000000000'' u" and "knows_time L ''2026-05-05T14:30:00Z'' t"
  shows "lifecycle_row_decodes_v3_fields_with_payload_join L"
  using assms by (simp add: lifecycle_row_decodes_v3_fields_with_payload_join_def dec_lifecycle_row_def dec_ledger_entry_def dec_uuid_def dec_datetime_def default_chain_version_def
      knows_uuid_def knows_time_def passing)

definition ledger_lifecycle_wire_contract_round_trips :: "libs \<Rightarrow> bool" where
  "ledger_lifecycle_wire_contract_round_trips L \<longleftrightarrow>
    passes (uuid_parse L ''550e8400-e29b-41d4-a716-446655440000'') (\<lambda>operation_id.
      value_eq (normalize (enc_ledger_tenant_lifecycle_request L \<lparr>lq_operation_id = operation_id, lq_kind = FinalExport\<rparr>))
        (normalize (JObject [
        (''operation_id'', JString (uuid_string L operation_id)),
        (''kind'', JString ''final_export'')]))
      \<and> passes (from_value (dec_ledger_tenant_lifecycle_receipt L) (JObject [
        (''tenant'', JString ''acme''), (''operation_id'', JString (uuid_string L operation_id)),
        (''kind'', JString ''final_export''), (''state'', JString ''exported''),
        (''generation'', JNumber (PosInt 1)), (''rows_affected'', JNumber (PosInt 42)),
        (''artifact_sha256'', JString ''digest''), (''artifact_bytes'', JNumber (PosInt 1024)),
        (''receipt_sha256'', JString ''receipt''),
        (''updated_at'', JString ''2026-07-25T00:00:00Z'')])) (\<lambda>receipt.
      lt_rows_affected receipt = 42
      \<and> lt_artifact_bytes receipt = Some 1024))"

lemma ledger_lifecycle_wire_contract_round_trips_passes:
  assumes "knows_uuid L ''550e8400-e29b-41d4-a716-446655440000'' u" and "knows_time L ''2026-07-25T00:00:00Z'' t"
  shows "ledger_lifecycle_wire_contract_round_trips L"
  using assms by (simp add: ledger_lifecycle_wire_contract_round_trips_def enc_ledger_tenant_lifecycle_request_def enc_uuid_def
      dec_ledger_tenant_lifecycle_receipt_def dec_ledger_tenant_lifecycle_kind_def dec_enum_def dec_uuid_def
      dec_datetime_def knows_uuid_def knows_time_def passing)

end
