(* ===== verification/Texts.thy ===== *)
theory Texts
  imports Transport
begin

text \<open>
  The texts the crate prints: \<open>Display\<close> of \<open>ClavenarError\<close> (error.rs) and the hand-written
  \<open>Debug\<close> of the transport profile (secure_transport.rs), which is there so that no secret is
  printed. How the standard library and reqwest print a string, a path, a duration, a status and
  the handle of an uncertain effect is a parameter.
\<close>

record debug_texts =
  tx_str_debug :: "string \<Rightarrow> string"        \<comment> \<open>\<open>Debug\<close> of a \<open>String\<close> or a \<open>PathBuf\<close>: quoted and escaped\<close>
  tx_duration_debug :: "nat \<Rightarrow> string"
  tx_status :: "nat \<Rightarrow> string"             \<comment> \<open>\<open>StatusCode\<close>'s \<open>Display\<close>\<close>
  tx_decode :: string                      \<comment> \<open>the text of the parser's error\<close>
  tx_uncertain_debug :: "uncertain_execution \<Rightarrow> string"

section \<open>Errors\<close>

definition display_error :: "libs \<Rightarrow> debug_texts \<Rightarrow> clavenar_error \<Rightarrow> string" where
  "display_error L D e = (case e of
     Veto intent_category _ _ _ raw \<Rightarrow> ''clavenar veto ('' @ intent_category @ ''): '' @ raw
   | Unauthorized s \<Rightarrow> ''unauthorized: '' @ s
   | BadRequest s \<Rightarrow> ''bad request: '' @ s
   | Server status body \<Rightarrow> ''server returned '' @ tx_status D status @ '': '' @ body
   | Transport t \<Rightarrow> t
   | Decode \<Rightarrow> tx_decode D
   | ResponseTooLarge limit \<Rightarrow> ''response body exceeds the '' @ show_u64 limit @ ''-byte SDK limit''
   | InvalidResponse s \<Rightarrow> ''invalid response: '' @ s
   | ExecutionUncertain u \<Rightarrow> ''execution effect is uncertain: '' @ tx_uncertain_debug D u
   | ExecutionAlreadyCompleted a i \<Rightarrow> ''authorization '' @ uuid_string L a @ '' for idempotency request ''
       @ uuid_string L i @ '' is already durably completed''
   | InvalidConfig s \<Rightarrow> ''invalid configuration: '' @ s)"

section \<open>The transport profile\<close>

definition debug_token_source :: "debug_texts \<Rightarrow> token_source \<Rightarrow> string" where
  "debug_token_source D s = (case s of
     TokenNone \<Rightarrow> ''None''
   | TokenFile path \<Rightarrow> ''File('' @ tx_str_debug D path @ '')''
   | TokenCallback \<Rightarrow> ''Callback(<redacted>)'')"

text \<open>The derived \<open>Debug\<close> of \<open>ProxyPolicy\<close>.\<close>

definition debug_proxy_policy :: "debug_texts \<Rightarrow> proxy_policy \<Rightarrow> string" where
  "debug_proxy_policy D p = (case p of
     ProxyDirect \<Rightarrow> ''Direct''
   | ProxyEnvironment \<Rightarrow> ''Environment''
   | ProxyExplicit url \<Rightarrow> ''Explicit('' @ tx_str_debug D url @ '')'')"

text \<open>\<open>debug_struct\<close> with its fields, without the alternate flag.\<close>

definition debug_struct :: "string \<Rightarrow> (string \<times> string) list \<Rightarrow> string" where
  "debug_struct name members_shown = name @ '' { '' @ join_with '', '' (map (\<lambda>(k, v). k @ '': '' @ v) members_shown) @ '' }''"

definition debug_config :: "debug_texts \<Rightarrow> secure_transport_config \<Rightarrow> string" where
  "debug_config D c = debug_struct ''SecureTransportConfig''
     [(''ca_bundle_path'', tx_str_debug D (tc_ca_bundle_path c)),
      (''client_certificate_path'', tx_str_debug D (tc_client_certificate_path c)),
      (''private_key_path'', tx_str_debug D (tc_private_key_path c)),
      (''token_source'', debug_token_source D (tc_token_source c)),
      (''connect_timeout'', tx_duration_debug D (tc_connect_timeout c)),
      (''request_timeout'', tx_duration_debug D (tc_request_timeout c)),
      (''proxy'', debug_proxy_policy D (tc_proxy c))]"

definition debug_profile :: "debug_texts \<Rightarrow> 'c secure_transport_profile \<Rightarrow> string" where
  "debug_profile D p = debug_struct ''SecureTransportProfile''
     [(''config'', debug_config D (tp_config p)),
      (''current'', tx_str_debug D ''<redacted transport snapshot>'')]"

text \<open>
  The text of a profile is the same over its whole life: whatever was loaded, by the first build
  or by any reload, and however the lock is left, nothing of the client is printed.
\<close>

theorem profile_text_hides_client:
  assumes "profile_new E config = Inr p" "profile_reload E' p = (p', r)"
  shows "debug_profile D p' = debug_profile D p
    \<and> debug_profile D p = debug_struct ''SecureTransportProfile''
        [(''config'', debug_config D config), (''current'', tx_str_debug D ''<redacted transport snapshot>'')]"
  using assms
  by (auto simp: profile_new_def profile_reload_def debug_profile_def bindR_def split: sum.splits if_splits)

text \<open>The URL of an explicit proxy, which may carry a password, is printed.\<close>

theorem explicit_proxy_is_printed:
  assumes "tc_proxy (tp_config p) = ProxyExplicit url"
  shows "\<exists>before after. debug_profile D p = before @ tx_str_debug D url @ after"
proof -
  have config: "\<exists>b. debug_config D (tp_config p) = b @ tx_str_debug D url @ '') }''"
    by (simp add: debug_config_def debug_struct_def debug_proxy_policy_def assms)
  then obtain b where "debug_config D (tp_config p) = b @ tx_str_debug D url @ '') }''" ..
  then have "debug_profile D p = (''SecureTransportProfile { config: '' @ b) @ tx_str_debug D url
      @ '') }, current: '' @ tx_str_debug D ''<redacted transport snapshot>'' @ '' }''"
    by (simp add: debug_profile_def debug_struct_def)
  then show ?thesis by blast
qed

end
