(* ===== verification/Tests_Transport.thy ===== *)
theory Tests_Transport
  imports Testing Client Brain Sim Texts
begin

text \<open>
  The unit tests of http.rs, client.rs, brain.rs, sim.rs and secure_transport.rs on the model.
\<close>

section \<open>HTTP helpers\<close>

definition percent_encode_passes_unreserved :: "bool" where
  "percent_encode_passes_unreserved \<longleftrightarrow>
    percent_encode ''abc-XYZ_0.9~'' = ''abc-XYZ_0.9~''"

lemma percent_encode_passes_unreserved_passes: "percent_encode_passes_unreserved"
  by code_simp

definition percent_encode_escapes_path_specials :: "bool" where
  "percent_encode_escapes_path_specials \<longleftrightarrow>
    percent_encode ''a/b?c#d'' = ''a%2Fb%3Fc%23d''
    \<and> percent_encode ''hello world'' = ''hello%20world''"

lemma percent_encode_escapes_path_specials_passes: "percent_encode_escapes_path_specials"
  by code_simp

definition decode_response_routes_typed_4xx_arms :: "libs \<Rightarrow> bool" where
  "decode_response_routes_typed_4xx_arms L \<longleftrightarrow>
    fails (decode_response L dec_value 401 ''missing bearer'') (\<lambda>e. case e of Unauthorized _ \<Rightarrow> True | _ \<Rightarrow> False)
    \<and> fails (decode_response L dec_value 400 ''missing field'') (\<lambda>e. case e of BadRequest _ \<Rightarrow> True | _ \<Rightarrow> False)
    \<and> fails (decode_response L dec_value 409 ''version_conflict'') (\<lambda>e. case e of Server status _ \<Rightarrow> status = 409 | _ \<Rightarrow> False)"

lemma decode_response_routes_typed_4xx_arms_passes: "decode_response_routes_typed_4xx_arms L"
  by (simp add: decode_response_routes_typed_4xx_arms_def decode_response_def passing)

definition parse_base_url_appends_trailing_slash_to_path_prefix :: "libs \<Rightarrow> bool" where
  "parse_base_url_appends_trailing_slash_to_path_prefix L \<longleftrightarrow>
    succeeds (parse_base_url L ''http://h/api'') (\<lambda>u.
      url_path L u = ''/api/''
      \<and> succeeds (url_join L u ''mcp'') (\<lambda>url. url = ''http://h/api/mcp''))"

lemma parse_base_url_appends_trailing_slash_to_path_prefix_passes:
  assumes "url_parse L ''http://h/api'' = Inr ''http://h/api''" and "url_path L ''http://h/api'' = ''/api''" and "url_set_path L ''http://h/api'' ''/api/'' = ''http://h/api/''" and "url_path L ''http://h/api/'' = ''/api/''" and "url_join L ''http://h/api/'' ''mcp'' = Inr ''http://h/api/mcp''"
  shows "parse_base_url_appends_trailing_slash_to_path_prefix L"
  using assms by (simp add: parse_base_url_appends_trailing_slash_to_path_prefix_def parse_base_url_def ends_with_def passing)

definition parse_base_url_leaves_origin_only_url_unchanged :: "libs \<Rightarrow> bool" where
  "parse_base_url_leaves_origin_only_url_unchanged L \<longleftrightarrow>
    succeeds (parse_base_url L ''http://localhost:8088'') (\<lambda>u.
      url_path L u = ''/''
      \<and> succeeds (url_join L u ''mcp'') (\<lambda>url. url = ''http://localhost:8088/mcp''))"

lemma parse_base_url_leaves_origin_only_url_unchanged_passes:
  assumes "knows_base L ''http://localhost:8088'' ''http://localhost:8088/''" and "url_join L ''http://localhost:8088/'' ''mcp'' = Inr ''http://localhost:8088/mcp''"
  shows "parse_base_url_leaves_origin_only_url_unchanged L"
  using assms by (simp add: parse_base_url_leaves_origin_only_url_unchanged_def parse_base_url_def knows_base_def ends_with_def
      passing)

definition parse_base_url_rejects_garbage :: "libs \<Rightarrow> bool" where
  "parse_base_url_rejects_garbage L \<longleftrightarrow>
    fails (parse_base_url L ''not a url'') (\<lambda>e. case e of InvalidConfig _ \<Rightarrow> True | _ \<Rightarrow> False)"

lemma parse_base_url_rejects_garbage_passes:
  assumes "url_parse L ''not a url'' = Inl e"
  shows "parse_base_url_rejects_garbage L"
  using assms by (simp add: parse_base_url_rejects_garbage_def parse_base_url_def ends_with_def passing)

text \<open>The test's own \<open>Body\<close>, with its derived decoder.\<close>

definition dec_test_body :: "bool dec" where
  "dec_test_body j =
    do {
       f \<leftarrow> struct_fields False [''ok''] j;
       need f ''ok'' dec_bool }"

definition decode_response_decodes_200_and_201_through_serde :: "libs \<Rightarrow> bool" where
  "decode_response_decodes_200_and_201_through_serde L \<longleftrightarrow>
    succeeds (decode_response L dec_test_body 200 (''{'' @ [CHR 0x22] @ ''ok'' @ [CHR 0x22] @ '':true}'')) (\<lambda>r. r = True)
    \<and> succeeds (decode_response L dec_test_body 201 (''{'' @ [CHR 0x22] @ ''ok'' @ [CHR 0x22] @ '':false}'')) (\<lambda>r. r = False)"

lemma decode_response_decodes_200_and_201_through_serde_passes:
  assumes "json_parse L (''{'' @ [CHR 0x22] @ ''ok'' @ [CHR 0x22] @ '':true}'') = Some (JObject [(''ok'', JBool True)])" and "json_parse L (''{'' @ [CHR 0x22] @ ''ok'' @ [CHR 0x22] @ '':false}'') = Some (JObject [(''ok'', JBool False)])"
  shows "decode_response_decodes_200_and_201_through_serde L"
  using assms by (simp add: decode_response_decodes_200_and_201_through_serde_def decode_response_def from_str_def
      dec_test_body_def passing)

definition DEFAULT_CONNECT_TIMEOUT :: "nat" where
  "DEFAULT_CONNECT_TIMEOUT =
    5 * 10 ^ 9"

definition HTTP_REQUEST_TIMEOUT :: "nat" where
  "HTTP_REQUEST_TIMEOUT =
    30 * 10 ^ 9"

definition default_transport_deadlines_are_non_zero :: "bool" where
  "default_transport_deadlines_are_non_zero \<longleftrightarrow>
    DEFAULT_CONNECT_TIMEOUT \<noteq> 0
    \<and> HTTP_REQUEST_TIMEOUT \<noteq> 0"

lemma default_transport_deadlines_are_non_zero_passes: "default_transport_deadlines_are_non_zero"
  by (simp add: default_transport_deadlines_are_non_zero_def DEFAULT_CONNECT_TIMEOUT_def HTTP_REQUEST_TIMEOUT_def)

section \<open>Refusals\<close>

definition parse_veto_with_structured_body_doc :: "json" where
  "parse_veto_with_structured_body_doc =
    JObject [
        (''verdict'', JString ''denied''), (''layer'', JString ''policy''),
        (''error'', JString ''security_violation''),
        (''reasons'', JArray [JString ''Direct execution of SQL queries is prohibited.'']),
        (''review_reasons'', JArray []), (''intent_category'', JString ''DangerousTool''),
        (''correlation_id'', JString ''a1b2c3d4-0000-4000-8000-000000000001'')]"

definition parse_veto_with_structured_body :: "libs \<Rightarrow> string \<Rightarrow> bool" where
  "parse_veto_with_structured_body L body \<longleftrightarrow>
    (case parse_veto L body of
      Veto intent_category reasons review_reasons correlation_id raw \<Rightarrow>
        intent_category = ''DangerousTool'' \<and> length reasons = 1 \<and> review_reasons = []
        \<and> correlation_id = Some ''a1b2c3d4-0000-4000-8000-000000000001'' \<and> raw = body
    | _ \<Rightarrow> False)"

lemma parse_veto_with_structured_body_passes:
  assumes "json_parse L body = Some parse_veto_with_structured_body_doc"
  shows "parse_veto_with_structured_body L body"
  using assms by (simp add: parse_veto_with_structured_body_def parse_veto_with_structured_body_doc_def parse_veto_def from_str_def dec_deny_response_def passing)

definition parse_veto_with_plain_text_body :: "libs \<Rightarrow> bool" where
  "parse_veto_with_plain_text_body L \<longleftrightarrow>
    (let body = ''Security Violation: shell_exec is denied for this agent'' in case parse_veto L body of
      Veto intent_category reasons review_reasons correlation_id raw \<Rightarrow>
        intent_category = [] \<and> reasons = [] \<and> review_reasons = [] \<and> correlation_id = None \<and> raw = body
    | _ \<Rightarrow> False)"

lemma parse_veto_with_plain_text_body_passes:
  assumes "json_parse L ''Security Violation: shell_exec is denied for this agent'' = None"
  shows "parse_veto_with_plain_text_body L"
  using assms by (simp add: parse_veto_with_plain_text_body_def parse_veto_def from_str_def)

definition parse_veto_with_partial_body_keeps_present_fields_doc :: "json" where
  "parse_veto_with_partial_body_keeps_present_fields_doc =
    JObject [
        (''intent_category'', JString ''Velocity'')]"

definition parse_veto_with_partial_body_keeps_present_fields :: "libs \<Rightarrow> string \<Rightarrow> bool" where
  "parse_veto_with_partial_body_keeps_present_fields L body \<longleftrightarrow>
    (case parse_veto L body of
      Veto intent_category reasons _ _ _ \<Rightarrow> intent_category = ''Velocity'' \<and> reasons = []
    | _ \<Rightarrow> False)"

lemma parse_veto_with_partial_body_keeps_present_fields_passes:
  assumes "json_parse L body = Some parse_veto_with_partial_body_keeps_present_fields_doc"
  shows "parse_veto_with_partial_body_keeps_present_fields L body"
  using assms by (simp add: parse_veto_with_partial_body_keeps_present_fields_def parse_veto_with_partial_body_keeps_present_fields_doc_def parse_veto_def from_str_def dec_deny_response_def passing)

definition builder_rejects_invalid_url :: "libs \<Rightarrow> bool" where
  "builder_rejects_invalid_url L \<longleftrightarrow>
    fails (builder L ''not a url'' :: clavenar_error + (unit, unit, unit) clavenar_client_builder)
      (\<lambda>e. case e of InvalidConfig msg \<Rightarrow> contains msg ''base_url'' | _ \<Rightarrow> False)"

lemma builder_rejects_invalid_url_passes:
  assumes "url_parse L ''not a url'' = Inl e"
  shows "builder_rejects_invalid_url L"
  using assms by (simp add: builder_rejects_invalid_url_def builder_def parse_base_url_def passing)

section \<open>Brain\<close>

definition brain_rejects_malformed_base_url :: "libs \<Rightarrow> 'p option \<Rightarrow> transport_error + 'p \<Rightarrow> bool" where
  "brain_rejects_malformed_base_url L installed fresh \<longleftrightarrow>
    fails (brain_new L installed fresh ''not a url'') (\<lambda>e. case e of InvalidConfig _ \<Rightarrow> True | _ \<Rightarrow> False)"

lemma brain_rejects_malformed_base_url_passes:
  assumes "url_parse L ''not a url'' = Inl e"
  shows "brain_rejects_malformed_base_url L installed fresh"
  using assms by (simp add: brain_rejects_malformed_base_url_def brain_new_def parse_base_url_def passing)

lemma show_142: "show_u64 142 = ''142''"
  by code_simp

definition pii_contract_request_shape_holds_only_aggregates :: "libs \<Rightarrow> bool" where
  "pii_contract_request_shape_holds_only_aggregates L \<longleftrightarrow>
    (let s = json_text L (enc_explain_pattern_request \<lparr>ep_kind = ''after_hours'', ep_tool_type = ''bulk_export'',
        ep_threshold = JObject [
          (''off_hours_pct'', JNumber (Float 0x3FBEB851EB851EB8))],
        ep_evidence_count = 142\<rparr>)
    in list_all (\<lambda>forbidden. \<not> contains s (quote forbidden))
      [''arguments'', ''agent_id'', ''correlation_id'', ''payload'', ''raw'', ''input''])"

lemma pii_contract_request_shape_holds_only_aggregates_passes:
  assumes "prints_compactly L" and "json_text L (JNumber (Float 0x3FBEB851EB851EB8)) = ''0.12''"
  shows "pii_contract_request_shape_holds_only_aggregates L"
  by (simp add: pii_contract_request_shape_holds_only_aggregates_def enc_explain_pattern_request_def enc_u32_def quote_def
      compact_simps [OF assms(1)] assms(2) show_142 plain_char_def byte_def passing)

section \<open>Simulator\<close>

definition sim_status_decodes_canonical_payload_doc :: "json" where
  "sim_status_decodes_canonical_payload_doc =
    JObject [
        (''traffic_multiplier'', JNumber (Float 0x4004000000000000)), (''running'', JBool True),
        (''auto_decide'', JBool True),
        (''agents'', JArray [
          JObject [
            (''cn'', JString ''cs-bot-1''), (''persona'', JString ''cs-bot''),
            (''rate_lambda'', JNumber (Float 0x3FD3333333333333)), (''transient'', JBool False)],
          JObject [
            (''cn'', JString ''cs-bot-t1''), (''persona'', JString ''cs-bot''),
            (''rate_lambda'', JNumber (Float 0x3FD3333333333333)), (''transient'', JBool True)]]),
        (''stats'', JObject [
          (''sent'', JNumber (PosInt 100)), (''ok'', JNumber (PosInt 95)),
          (''denied'', JNumber (PosInt 4)), (''error'', JNumber (PosInt 1)),
          (''success_pct'', JNumber (Float 0x4057C00000000000)),
          (''p50_ms'', JNumber (Float 0x4032000000000000)),
          (''p95_ms'', JNumber (Float 0x40A8380000000000))])]"

definition sim_status_decodes_canonical_payload :: "libs \<Rightarrow> string \<Rightarrow> bool" where
  "sim_status_decodes_canonical_payload L raw \<longleftrightarrow>
    succeeds (from_str L dec_sim_status raw) (\<lambda>parsed.
      st_traffic_multiplier parsed = 0x4004000000000000
      \<and> st_running parsed
      \<and> st_auto_decide parsed = Some True
      \<and> length (st_agents parsed) = 2
      \<and> \<not> sa_transient (st_agents parsed ! 0)
      \<and> sa_transient (st_agents parsed ! 1)
      \<and> ss_sent (st_stats parsed) = 100
      \<and> ss_p50_ms (st_stats parsed) = Some 0x4032000000000000)"

lemma sim_status_decodes_canonical_payload_passes:
  assumes "json_parse L raw = Some sim_status_decodes_canonical_payload_doc"
  shows "sim_status_decodes_canonical_payload L raw"
  using assms by (simp add: sim_status_decodes_canonical_payload_def sim_status_decodes_canonical_payload_doc_def from_str_def dec_sim_status_def dec_sim_agent_record_def dec_sim_stats_def dec_f64_def passing)

definition sim_status_auto_decide_defaults_none_when_field_missing_doc :: "json" where
  "sim_status_auto_decide_defaults_none_when_field_missing_doc =
    JObject [
        (''traffic_multiplier'', JNumber (Float 0x3FF0000000000000)), (''running'', JBool False),
        (''agents'', JArray []),
        (''stats'', JObject [
          (''sent'', JNumber (PosInt 0)), (''ok'', JNumber (PosInt 0)),
          (''denied'', JNumber (PosInt 0)), (''error'', JNumber (PosInt 0)),
          (''success_pct'', JNumber (Float 0x0000000000000000)), (''p50_ms'', JNull),
          (''p95_ms'', JNull)])]"

definition sim_status_auto_decide_defaults_none_when_field_missing :: "libs \<Rightarrow> string \<Rightarrow> bool" where
  "sim_status_auto_decide_defaults_none_when_field_missing L raw \<longleftrightarrow>
    succeeds (from_str L dec_sim_status raw) (\<lambda>parsed.
      st_auto_decide parsed = None)"

lemma sim_status_auto_decide_defaults_none_when_field_missing_passes:
  assumes "json_parse L raw = Some sim_status_auto_decide_defaults_none_when_field_missing_doc"
  shows "sim_status_auto_decide_defaults_none_when_field_missing L raw"
  using assms by (simp add: sim_status_auto_decide_defaults_none_when_field_missing_def sim_status_auto_decide_defaults_none_when_field_missing_doc_def from_str_def dec_sim_status_def dec_sim_agent_record_def dec_sim_stats_def dec_f64_def passing)

definition sim_status_running_defaults_false_when_field_missing_doc :: "json" where
  "sim_status_running_defaults_false_when_field_missing_doc =
    JObject [
        (''traffic_multiplier'', JNumber (Float 0x3FF0000000000000)), (''agents'', JArray []),
        (''stats'', JObject [
          (''sent'', JNumber (PosInt 0)), (''ok'', JNumber (PosInt 0)),
          (''denied'', JNumber (PosInt 0)), (''error'', JNumber (PosInt 0)),
          (''success_pct'', JNumber (Float 0x0000000000000000)), (''p50_ms'', JNull),
          (''p95_ms'', JNull)])]"

definition sim_status_running_defaults_false_when_field_missing :: "libs \<Rightarrow> string \<Rightarrow> bool" where
  "sim_status_running_defaults_false_when_field_missing L raw \<longleftrightarrow>
    succeeds (from_str L dec_sim_status raw) (\<lambda>parsed.
      \<not> st_running parsed)"

lemma sim_status_running_defaults_false_when_field_missing_passes:
  assumes "json_parse L raw = Some sim_status_running_defaults_false_when_field_missing_doc"
  shows "sim_status_running_defaults_false_when_field_missing L raw"
  using assms by (simp add: sim_status_running_defaults_false_when_field_missing_def sim_status_running_defaults_false_when_field_missing_doc_def from_str_def dec_sim_status_def dec_sim_agent_record_def dec_sim_stats_def dec_f64_def passing)

definition sim_agent_record_defaults_transient_false_for_legacy_payload_doc :: "json" where
  "sim_agent_record_defaults_transient_false_for_legacy_payload_doc =
    JObject [
        (''cn'', JString ''cs-bot-1''), (''persona'', JString ''cs-bot''),
        (''rate_lambda'', JNumber (Float 0x3FD3333333333333))]"

definition sim_agent_record_defaults_transient_false_for_legacy_payload :: "libs \<Rightarrow> string \<Rightarrow> bool" where
  "sim_agent_record_defaults_transient_false_for_legacy_payload L raw \<longleftrightarrow>
    succeeds (from_str L dec_sim_agent_record raw) (\<lambda>parsed.
      \<not> sa_transient parsed)"

lemma sim_agent_record_defaults_transient_false_for_legacy_payload_passes:
  assumes "json_parse L raw = Some sim_agent_record_defaults_transient_false_for_legacy_payload_doc"
  shows "sim_agent_record_defaults_transient_false_for_legacy_payload L raw"
  using assms by (simp add: sim_agent_record_defaults_transient_false_for_legacy_payload_def sim_agent_record_defaults_transient_false_for_legacy_payload_doc_def from_str_def dec_sim_status_def dec_sim_agent_record_def dec_sim_stats_def dec_f64_def passing)

definition sim_client_surfaces_configured_base_url :: "libs \<Rightarrow> 'p option \<Rightarrow> transport_error + 'p \<Rightarrow> bool" where
  "sim_client_surfaces_configured_base_url L installed fresh \<longleftrightarrow>
    succeeds (sim_new L installed fresh ''http://simulator:9100/'') (\<lambda>client. sc_base_url client = ''http://simulator:9100/'')"

lemma sim_client_surfaces_configured_base_url_passes:
  assumes "knows_base L ''http://simulator:9100/'' ''http://simulator:9100/''" and "default_provider installed fresh = Inr p"
  shows "sim_client_surfaces_configured_base_url L installed fresh"
  using assms by (simp add: sim_client_surfaces_configured_base_url_def sim_new_def parse_base_url_def knows_base_def ends_with_def with_request_timeout_def
      passing)

definition sim_stats_handles_no_requests_yet_doc :: "json" where
  "sim_stats_handles_no_requests_yet_doc =
    JObject [
        (''sent'', JNumber (PosInt 0)), (''ok'', JNumber (PosInt 0)),
        (''denied'', JNumber (PosInt 0)), (''error'', JNumber (PosInt 0)),
        (''success_pct'', JNumber (Float 0x0000000000000000)), (''p50_ms'', JNull),
        (''p95_ms'', JNull)]"

definition sim_stats_handles_no_requests_yet :: "libs \<Rightarrow> string \<Rightarrow> bool" where
  "sim_stats_handles_no_requests_yet L raw \<longleftrightarrow>
    succeeds (from_str L dec_sim_stats raw) (\<lambda>parsed.
      ss_sent parsed = 0
      \<and> ss_p50_ms parsed = None)"

lemma sim_stats_handles_no_requests_yet_passes:
  assumes "json_parse L raw = Some sim_stats_handles_no_requests_yet_doc"
  shows "sim_stats_handles_no_requests_yet L raw"
  using assms by (simp add: sim_stats_handles_no_requests_yet_def sim_stats_handles_no_requests_yet_doc_def from_str_def dec_sim_status_def dec_sim_agent_record_def dec_sim_stats_def dec_f64_def passing)

definition simulator_operator_is_bounded_visible_ascii :: "bool" where
  "simulator_operator_is_bounded_visible_ascii \<longleftrightarrow>
    succeeds (validate_operator ''alice@example.test'') (\<lambda>_. True)
    \<and> fails (validate_operator []) (\<lambda>_. True)
    \<and> fails (validate_operator ''contains space'') (\<lambda>_. True)
    \<and> fails (validate_operator (''contains'' @ [CHR 0x0A] @ ''newline'')) (\<lambda>_. True)
    \<and> succeeds (validate_operator (repeat_str MAX_OPERATOR_BYTES ''a'')) (\<lambda>_. True)
    \<and> fails (validate_operator (repeat_str (MAX_OPERATOR_BYTES + 1) ''a'')) (\<lambda>_. True)"

lemma simulator_operator_is_bounded_visible_ascii_passes: "simulator_operator_is_bounded_visible_ascii"
  by code_simp

definition simulator_request_timeout_rejects_zero :: "libs \<Rightarrow> 'p option \<Rightarrow> transport_error + 'p \<Rightarrow> bool" where
  "simulator_request_timeout_rejects_zero L installed fresh \<longleftrightarrow>
    succeeds (sim_new L installed fresh ''http://simulator:9100/'') (\<lambda>client. fails (with_request_timeout 0 client) (\<lambda>_. True))"

lemma simulator_request_timeout_rejects_zero_passes:
  assumes "knows_base L ''http://simulator:9100/'' ''http://simulator:9100/''" and "default_provider installed fresh = Inr p"
  shows "simulator_request_timeout_rejects_zero L installed fresh"
  using assms by (simp add: simulator_request_timeout_rejects_zero_def sim_new_def parse_base_url_def knows_base_def ends_with_def with_request_timeout_def
      passing)

definition default_request_deadline_exceeds_server_creation_budget :: "bool" where
  "default_request_deadline_exceeds_server_creation_budget \<longleftrightarrow>
    15 * 10 ^ 9 < DEFAULT_REQUEST_TIMEOUT"

lemma default_request_deadline_exceeds_server_creation_budget_passes: "default_request_deadline_exceeds_server_creation_budget"
  by (simp add: default_request_deadline_exceeds_server_creation_budget_def DEFAULT_REQUEST_TIMEOUT_def)

section \<open>Secure transport\<close>

definition empty_timeout_fails_before_reading_secrets :: "libs \<Rightarrow> debug_texts \<Rightarrow> ('r, 'i, 'x, 'c) build_env \<Rightarrow> bool" where
  "empty_timeout_fails_before_reading_secrets L D E \<longleftrightarrow>
    (let config = \<lparr>tc_ca_bundle_path = ''missing-ca'', tc_client_certificate_path = ''missing-cert'',
        tc_private_key_path = ''missing-key'', tc_token_source = TokenNone, tc_connect_timeout = 0,
        tc_request_timeout = 10 ^ 9, tc_proxy = ProxyDirect\<rparr>
    in fails (profile_new E config) (\<lambda>e. contains (display_error L D e) ''timeouts must be positive''))"

lemma empty_timeout_fails_before_reading_secrets_passes: "empty_timeout_fails_before_reading_secrets L D E"
  by (simp add: empty_timeout_fails_before_reading_secrets_def profile_new_def build_transport_client_def display_error_def passing)

definition debug_never_contains_callback_or_snapshot_secrets :: "debug_texts \<Rightarrow> bool" where
  "debug_never_contains_callback_or_snapshot_secrets D \<longleftrightarrow>
    debug_token_source D TokenCallback = ''Callback(<redacted>)''"

lemma debug_never_contains_callback_or_snapshot_secrets_passes: "debug_never_contains_callback_or_snapshot_secrets D"
  by (simp add: debug_never_contains_callback_or_snapshot_secrets_def debug_token_source_def)

end
