(* ===== verification/Tests_Execution.thy ===== *)
theory Tests_Execution
  imports Testing Sample
begin

text \<open>
  The unit tests of execution.rs on the model, with the embedded contract documents: what the
  documents say of the contracts, methods and bounds agrees with the constants of the code, and
  the published fixture of a receipt is accepted by the decoders. A document is the tree of its
  file under src/contracts/, in document order.
\<close>

section \<open>The contract documents\<close>

definition SDK_EXECUTION_AUTHORITY_CONTRACT :: "json" where
  "SDK_EXECUTION_AUTHORITY_CONTRACT =
    JObject [
      (''schemaVersion'', JNumber (PosInt 1)), (''feature'', JString ''WP-06.1''),
      (''contract'', JString ''clavenar.sdk-execution-authority/v1''),
      (''executionWireContract'', JString ''clavenar.execution/v1''),
      (''governedExecutor'', JObject [
        (''authority'', JString ''sdk-only''),
        (''registration'', JString ''client-construction''),
        (''cloneSemantics'', JString ''shared-callback''),
        (''perCallInjectionAllowed'', JBool False)]),
      (''ordering'', JArray [
        JString ''require-registered-executor'',
        JString ''require-workload-signing-key'',
        JString ''request-side-effect-free-authorization'',
        JString ''validate-exact-signed-payload'',
        JString ''invoke-registered-executor'',
        JString ''hash-actual-result'',
        JString ''sign-terminal-receipt'',
        JString ''persist-terminal-receipt'',
        JString ''return-actual-result'']),
      (''effectInvariants'', JObject [
        (''authorizationEffects'', JNumber (PosInt 0)),
        (''sdkExecutorEffects'', JNumber (PosInt 1)), (''proxyExecutionAllowed'', JBool False),
        (''receiptPersistenceRequiredForSuccess'', JBool True)]),
      (''executorInput'', JArray [JString ''exact-authorized-execution-payload'']),
      (''callerOutput'', JArray [
        JString ''actual-result'',
        JString ''effect-id'',
        JString ''terminal-receipt-metadata'']),
      (''callerOutputForbidden'', JArray [
        JString ''signed-authorization'',
        JString ''execution-payload'',
        JString ''host-executable-tool-call'']),
      (''failBeforeExecutor'', JArray [
        JString ''missing-executor'',
        JString ''missing-signing-key'',
        JString ''authorization-denied'',
        JString ''authorization-review'',
        JString ''authorization-invalid'']),
      (''failAfterEffectWithoutSuccess'', JArray [
        JString ''invalid-effect-id'',
        JString ''receipt-signing-failure'',
        JString ''receipt-persistence-failure'']),
      (''retainedFeatures'', JArray [
        JString ''WP-06.2'',
        JString ''WP-06.3'',
        JString ''WP-06.4'',
        JString ''WP-06.5'',
        JString ''WP-06.6'',
        JString ''WP-06.7'',
        JString ''WP-06.8'',
        JString ''WP-06.9'',
        JString ''WP-06.10'',
        JString ''WP-06.11''])]"

definition SIDE_EFFECT_FREE_DECISION_CONTRACT :: "json" where
  "SIDE_EFFECT_FREE_DECISION_CONTRACT =
    JObject [
      (''schemaVersion'', JNumber (PosInt 1)), (''feature'', JString ''WP-06.2''),
      (''contract'', JString ''clavenar.side-effect-free-decision/v1''),
      (''decisionWireContract'', JString ''clavenar.decision/v1''),
      (''executionEvidenceContract'', JString ''clavenar.execution/v1''),
      (''ingress'', JObject [
        (''route'', JString ''/mcp''),
        (''selectorHeader'', JString ''x-clavenar-decision-contract''),
        (''idempotencyHeader'', JString ''x-clavenar-idempotency-id''),
        (''selectorRequired'', JBool True)]),
      (''decision'', JObject [
        (''upstreamEffects'', JNumber (PosInt 0)), (''proxyExecutionAllowed'', JBool False),
        (''sdkFallbackToServerExecutionAllowed'', JBool False)]),
      (''serverExecution'', JObject [
        (''route'', JString ''/mcp''), (''selector'', JString ''decision-headers-absent''),
        (''compatibilityBehaviorUnchanged'', JBool True)]),
      (''litePosture'', JObject [
        (''decisionSupport'', JString ''fail-closed-until-shared-durability''),
        (''rejectBeforeUpstream'', JArray [
          JString ''complete-decision-selector'',
          JString ''partial-decision-selector'',
          JString ''unknown-decision-selector'',
          JString ''legacy-execution-selector''])]),
      (''retainedFeatures'', JArray [
        JString ''WP-06.3'',
        JString ''WP-06.4'',
        JString ''WP-06.5'',
        JString ''WP-06.6'',
        JString ''WP-06.7'',
        JString ''WP-06.8'',
        JString ''WP-06.9'',
        JString ''WP-06.10'',
        JString ''WP-06.11''])]"

definition CLIENT_MIGRATION_CONTRACT :: "json" where
  "CLIENT_MIGRATION_CONTRACT =
    JObject [
      (''schemaVersion'', JNumber (PosInt 1)), (''feature'', JString ''WP-06.11''),
      (''contract'', JString ''clavenar.client-migration/v1''),
      (''route'', JString ''POST /mcp''),
      (''migrationGuide'', JString ''https://clavenar.com/docs/sdk-migration/''),
      (''minimumSafeVersions'', JObject [
        (''proxy'', JString ''1.0.0''), (''lite'', JString ''1.0.0''),
        (''rust'', JString ''1.0.0''), (''typescript'', JString ''1.5.0''),
        (''python'', JString ''1.4.0''), (''go'', JString ''1.3.0''),
        (''java'', JString ''1.4.0''), (''dotnet'', JString ''1.5.0'')]),
      (''selections'', JObject [
        (''decision'', JObject [
          (''header'', JString ''x-clavenar-decision-contract''),
          (''value'', JString ''clavenar.decision/v1''),
          (''idempotencyHeader'', JString ''x-clavenar-idempotency-id''),
          (''effectCapable'', JBool False), (''automaticTransportRetryAllowed'', JBool True)]),
        (''serverExecution'', JObject [
          (''header'', JString ''x-clavenar-server-execution-contract''),
          (''value'', JString ''clavenar.server-execution/v1''),
          (''idempotencyHeader'', JString ''x-clavenar-idempotency-id''),
          (''effectCapable'', JBool True), (''automaticTransportRetryAllowed'', JBool False)]),
        (''controlPlane'', JObject [
          (''selector'', JString ''absent''),
          (''methods'', JArray [
            JString ''initialize'',
            JString ''initialized'',
            JString ''notifications/*'',
            JString ''ping'',
            JString ''tools/list'']),
          (''effectCapable'', JBool False), (''toolEffectCount'', JNumber (PosInt 0))])]),
      (''legacyRejection'', JObject [
        (''httpStatus'', JNumber (PosInt 426)), (''error'', JString ''client_contract_required''),
        (''executable'', JBool False), (''toolEffectCount'', JNumber (PosInt 0)),
        (''before'', JArray [
          JString ''authentication-mutation'',
          JString ''rate-limit'',
          JString ''policy'',
          JString ''hil'',
          JString ''ledger'',
          JString ''receipt'',
          JString ''upstream''])]),
      (''cases'', JArray [
        JObject [
          (''id'', JString ''unselected-tool-call''), (''outcome'', JString ''upgrade_required''),
          (''httpStatus'', JNumber (PosInt 426)), (''toolEffectCount'', JNumber (PosInt 0))],
        JObject [
          (''id'', JString ''unselected-initialize''), (''outcome'', JString ''control_allowed''),
          (''httpStatus'', JNumber (PosInt 200)), (''toolEffectCount'', JNumber (PosInt 0))],
        JObject [
          (''id'', JString ''unselected-tools-list''), (''outcome'', JString ''control_allowed''),
          (''httpStatus'', JNumber (PosInt 200)), (''toolEffectCount'', JNumber (PosInt 0))],
        JObject [
          (''id'', JString ''explicit-decision''), (''outcome'', JString ''decision''),
          (''httpStatus'', JNumber (PosInt 200)), (''toolEffectCount'', JNumber (PosInt 0))],
        JObject [
          (''id'', JString ''explicit-server-execution''),
          (''outcome'', JString ''server_execution''), (''httpStatus'', JNumber (PosInt 200)),
          (''toolEffectCount'', JNumber (PosInt 1))],
        JObject [
          (''id'', JString ''legacy-execution-selector''), (''outcome'', JString ''invalid''),
          (''httpStatus'', JNumber (PosInt 400)), (''toolEffectCount'', JNumber (PosInt 0))],
        JObject [
          (''id'', JString ''partial-selector-pair''), (''outcome'', JString ''invalid''),
          (''httpStatus'', JNumber (PosInt 400)), (''toolEffectCount'', JNumber (PosInt 0))],
        JObject [
          (''id'', JString ''mixed-selectors''), (''outcome'', JString ''invalid''),
          (''httpStatus'', JNumber (PosInt 400)), (''toolEffectCount'', JNumber (PosInt 0))],
        JObject [
          (''id'', JString ''unknown-selector-version''), (''outcome'', JString ''invalid''),
          (''httpStatus'', JNumber (PosInt 400)), (''toolEffectCount'', JNumber (PosInt 0))]]),
      (''invariants'', JObject [
        (''effectCapableRequestsRequireExactlyOneSupportedSelector'', JBool True),
        (''idempotencyIdentityExistsBeforeNetwork'', JBool True),
        (''legacyInspectionCannotExecute'', JBool True),
        (''decisionResponseIsNeverExecutable'', JBool True),
        (''serverExecutionIsDurableAndAtMostOnce'', JBool True),
        (''pendingResumeIsLookupOnly'', JBool True),
        (''ambiguousOutcomesNeverReexecute'', JBool True),
        (''receiptDeliveryNeverReexecutes'', JBool True)])]"

definition CLIENT_MIGRATION_SCHEMA :: "json" where
  "CLIENT_MIGRATION_SCHEMA =
    JObject [
      (''$schema'', JString ''https://json-schema.org/draft/2020-12/schema''),
      (''$id'', JString ''https://clavenar.com/contracts/client-migration-v1.schema.json''),
      (''title'', JString ''Clavenar explicit client migration fixture''),
      (''type'', JString ''object''), (''additionalProperties'', JBool False),
      (''required'', JArray [
        JString ''schemaVersion'',
        JString ''feature'',
        JString ''contract'',
        JString ''route'',
        JString ''migrationGuide'',
        JString ''minimumSafeVersions'',
        JString ''selections'',
        JString ''legacyRejection'',
        JString ''cases'',
        JString ''invariants'']),
      (''properties'', JObject [
        (''schemaVersion'', JObject [
          (''const'', JNumber (PosInt 1))]),
        (''feature'', JObject [
          (''const'', JString ''WP-06.11'')]),
        (''contract'', JObject [
          (''const'', JString ''clavenar.client-migration/v1'')]),
        (''route'', JObject [
          (''const'', JString ''POST /mcp'')]),
        (''migrationGuide'', JObject [
          (''const'', JString ''https://clavenar.com/docs/sdk-migration/'')]),
        (''minimumSafeVersions'', JObject [
          (''type'', JString ''object''), (''additionalProperties'', JBool False),
          (''required'', JArray [
            JString ''proxy'',
            JString ''lite'',
            JString ''rust'',
            JString ''typescript'',
            JString ''python'',
            JString ''go'',
            JString ''java'',
            JString ''dotnet'']),
          (''properties'', JObject [
            (''proxy'', JObject [
              (''const'', JString ''1.0.0'')]),
            (''lite'', JObject [
              (''const'', JString ''1.0.0'')]),
            (''rust'', JObject [
              (''const'', JString ''1.0.0'')]),
            (''typescript'', JObject [
              (''const'', JString ''1.5.0'')]),
            (''python'', JObject [
              (''const'', JString ''1.4.0'')]),
            (''go'', JObject [
              (''const'', JString ''1.3.0'')]),
            (''java'', JObject [
              (''const'', JString ''1.4.0'')]),
            (''dotnet'', JObject [
              (''const'', JString ''1.5.0'')])])]),
        (''selections'', JObject [
          (''type'', JString ''object''), (''additionalProperties'', JBool False),
          (''required'', JArray [JString ''decision'', JString ''serverExecution'', JString ''controlPlane'']),
          (''properties'', JObject [
            (''decision'', JObject [
              (''$ref'', JString ''#/$defs/decisionSelection'')]),
            (''serverExecution'', JObject [
              (''$ref'', JString ''#/$defs/serverSelection'')]),
            (''controlPlane'', JObject [
              (''$ref'', JString ''#/$defs/controlSelection'')])])]),
        (''legacyRejection'', JObject [
          (''type'', JString ''object''), (''additionalProperties'', JBool False),
          (''required'', JArray [
            JString ''httpStatus'',
            JString ''error'',
            JString ''executable'',
            JString ''toolEffectCount'',
            JString ''before'']),
          (''properties'', JObject [
            (''httpStatus'', JObject [
              (''const'', JNumber (PosInt 426))]),
            (''error'', JObject [
              (''const'', JString ''client_contract_required'')]),
            (''executable'', JObject [
              (''const'', JBool False)]),
            (''toolEffectCount'', JObject [
              (''const'', JNumber (PosInt 0))]),
            (''before'', JObject [
              (''const'', JArray [
                JString ''authentication-mutation'',
                JString ''rate-limit'',
                JString ''policy'',
                JString ''hil'',
                JString ''ledger'',
                JString ''receipt'',
                JString ''upstream''])])])]),
        (''cases'', JObject [
          (''type'', JString ''array''), (''minItems'', JNumber (PosInt 9)),
          (''maxItems'', JNumber (PosInt 9)),
          (''items'', JObject [
            (''type'', JString ''object''), (''additionalProperties'', JBool False),
            (''required'', JArray [
              JString ''id'',
              JString ''outcome'',
              JString ''httpStatus'',
              JString ''toolEffectCount'']),
            (''properties'', JObject [
              (''id'', JObject [
                (''type'', JString ''string''), (''minLength'', JNumber (PosInt 1))]),
              (''outcome'', JObject [
                (''enum'', JArray [
                  JString ''upgrade_required'',
                  JString ''control_allowed'',
                  JString ''decision'',
                  JString ''server_execution'',
                  JString ''invalid''])]),
              (''httpStatus'', JObject [
                (''type'', JString ''integer''), (''minimum'', JNumber (PosInt 200)),
                (''maximum'', JNumber (PosInt 599))]),
              (''toolEffectCount'', JObject [
                (''type'', JString ''integer''), (''minimum'', JNumber (PosInt 0)),
                (''maximum'', JNumber (PosInt 1))])])])]),
        (''invariants'', JObject [
          (''type'', JString ''object''), (''additionalProperties'', JBool False),
          (''required'', JArray [
            JString ''effectCapableRequestsRequireExactlyOneSupportedSelector'',
            JString ''idempotencyIdentityExistsBeforeNetwork'',
            JString ''legacyInspectionCannotExecute'',
            JString ''decisionResponseIsNeverExecutable'',
            JString ''serverExecutionIsDurableAndAtMostOnce'',
            JString ''pendingResumeIsLookupOnly'',
            JString ''ambiguousOutcomesNeverReexecute'',
            JString ''receiptDeliveryNeverReexecutes'']),
          (''properties'', JObject [
            (''effectCapableRequestsRequireExactlyOneSupportedSelector'', JObject [
              (''const'', JBool True)]),
            (''idempotencyIdentityExistsBeforeNetwork'', JObject [
              (''const'', JBool True)]),
            (''legacyInspectionCannotExecute'', JObject [
              (''const'', JBool True)]),
            (''decisionResponseIsNeverExecutable'', JObject [
              (''const'', JBool True)]),
            (''serverExecutionIsDurableAndAtMostOnce'', JObject [
              (''const'', JBool True)]),
            (''pendingResumeIsLookupOnly'', JObject [
              (''const'', JBool True)]),
            (''ambiguousOutcomesNeverReexecute'', JObject [
              (''const'', JBool True)]),
            (''receiptDeliveryNeverReexecutes'', JObject [
              (''const'', JBool True)])])])]),
      (''$defs'', JObject [
        (''decisionSelection'', JObject [
          (''type'', JString ''object''), (''additionalProperties'', JBool False),
          (''required'', JArray [
            JString ''header'',
            JString ''value'',
            JString ''idempotencyHeader'',
            JString ''effectCapable'',
            JString ''automaticTransportRetryAllowed'']),
          (''properties'', JObject [
            (''header'', JObject [
              (''const'', JString ''x-clavenar-decision-contract'')]),
            (''value'', JObject [
              (''const'', JString ''clavenar.decision/v1'')]),
            (''idempotencyHeader'', JObject [
              (''const'', JString ''x-clavenar-idempotency-id'')]),
            (''effectCapable'', JObject [
              (''const'', JBool False)]),
            (''automaticTransportRetryAllowed'', JObject [
              (''const'', JBool True)])])]),
        (''serverSelection'', JObject [
          (''type'', JString ''object''), (''additionalProperties'', JBool False),
          (''required'', JArray [
            JString ''header'',
            JString ''value'',
            JString ''idempotencyHeader'',
            JString ''effectCapable'',
            JString ''automaticTransportRetryAllowed'']),
          (''properties'', JObject [
            (''header'', JObject [
              (''const'', JString ''x-clavenar-server-execution-contract'')]),
            (''value'', JObject [
              (''const'', JString ''clavenar.server-execution/v1'')]),
            (''idempotencyHeader'', JObject [
              (''const'', JString ''x-clavenar-idempotency-id'')]),
            (''effectCapable'', JObject [
              (''const'', JBool True)]),
            (''automaticTransportRetryAllowed'', JObject [
              (''const'', JBool False)])])]),
        (''controlSelection'', JObject [
          (''type'', JString ''object''), (''additionalProperties'', JBool False),
          (''required'', JArray [
            JString ''selector'',
            JString ''methods'',
            JString ''effectCapable'',
            JString ''toolEffectCount'']),
          (''properties'', JObject [
            (''selector'', JObject [
              (''const'', JString ''absent'')]),
            (''methods'', JObject [
              (''const'', JArray [
                JString ''initialize'',
                JString ''initialized'',
                JString ''notifications/*'',
                JString ''ping'',
                JString ''tools/list''])]),
            (''effectCapable'', JObject [
              (''const'', JBool False)]),
            (''toolEffectCount'', JObject [
              (''const'', JNumber (PosInt 0))])])])])]"

definition ATOMIC_TOOL_CALL_BATCH_CONTRACT_DOCUMENT :: "json" where
  "ATOMIC_TOOL_CALL_BATCH_CONTRACT_DOCUMENT =
    JObject [
      (''schemaVersion'', JNumber (PosInt 1)), (''feature'', JString ''WP-06.3''),
      (''contract'', JString ''clavenar.atomic-tool-call-batch/v1''),
      (''decisionWireContract'', JString ''clavenar.decision/v1''),
      (''executionEvidenceContract'', JString ''clavenar.execution/v1''),
      (''envelope'', JObject [
        (''jsonrpc'', JString ''2.0''), (''method'', JString ''clavenar/tools.batch''),
        (''toolName'', JString ''clavenar.atomic-batch''),
        (''batchContractField'', JString ''params.arguments.contract''),
        (''callsField'', JString ''params.arguments.calls'')]),
      (''constraints'', JObject [
        (''minimumCalls'', JNumber (PosInt 1)), (''maximumCalls'', JNumber (PosInt 128)),
        (''uniqueStableCallIds'', JBool True), (''exactOrderCommitted'', JBool True)]),
      (''decisionBehavior'', JObject [
        (''deny'', JString ''release-zero-siblings''),
        (''review'', JString ''release-zero-siblings''),
        (''approve'', JString ''release-whole-signed-batch-once''),
        (''modify'', JString ''regate-and-resign-whole-batch''),
        (''expiry'', JString ''release-zero-siblings-and-require-fresh-whole-batch-decision''),
        (''cancellation'', JString ''release-zero-siblings-and-require-fresh-whole-batch-decision''),
        (''policyChange'', JString ''release-zero-siblings-and-require-fresh-whole-batch-decision'')]),
      (''releaseBoundary'', JObject [
        (''executor'', JString ''registered-sdk-executor''),
        (''executorInvocationsAfterApprove'', JNumber (PosInt 1)),
        (''partialReleaseAllowed'', JBool False), (''hostToolLoopReleaseAllowed'', JBool False),
        (''proxyExecutionAllowed'', JBool False)]),
      (''modification'', JObject [
        (''callIdentityAndOrderPreserved'', JBool True),
        (''completeModifiedPayloadSigned'', JBool True),
        (''currentAuthorityAndPolicyRegated'', JBool True)]),
      (''retainedFeatures'', JArray [
        JString ''WP-06.4'',
        JString ''WP-06.5'',
        JString ''WP-06.6'',
        JString ''WP-06.7'',
        JString ''WP-06.8'',
        JString ''WP-06.9'',
        JString ''WP-06.10'',
        JString ''WP-06.11''])]"

definition STABLE_REQUEST_IDENTITY_CONTRACT :: "json" where
  "STABLE_REQUEST_IDENTITY_CONTRACT =
    JObject [
      (''schemaVersion'', JNumber (PosInt 1)), (''feature'', JString ''WP-06.4''),
      (''contract'', JString ''clavenar.stable-request-identity/v1''),
      (''decisionWireContract'', JString ''clavenar.decision/v1''),
      (''identity'', JObject [
        (''owner'', JString ''client-prepared-request''),
        (''format'', JString ''canonical-uuid''), (''createdBeforeNetwork'', JBool True),
        (''serializable'', JBool True), (''restorable'', JBool True),
        (''networkGeneratedOrReplaced'', JBool False)]),
      (''preparedRequests'', JObject [
        (''singleTool'', JBool True), (''atomicToolCallBatch'', JBool True),
        (''validatedBeforeNetwork'', JBool True),
        (''invalidRequestNetworkAttempts'', JNumber (PosInt 0))]),
      (''retryBehavior'', JObject [
        (''sameIdentityAndPayload'', JString ''return-exact-retained-decision''),
        (''sameIdentityAndPayloadUpstreamEffects'', JNumber (PosInt 0)),
        (''sameIdentityChangedPayload'', JString ''conflict''),
        (''automaticExecution'', JBool False)]),
      (''retainedFeatures'', JArray [
        JString ''WP-06.5'',
        JString ''WP-06.6'',
        JString ''WP-06.7'',
        JString ''WP-06.8'',
        JString ''WP-06.9'',
        JString ''WP-06.10'',
        JString ''WP-06.11''])]"

definition DURABLE_EXECUTION_OUTBOX_CONTRACT :: "json" where
  "DURABLE_EXECUTION_OUTBOX_CONTRACT =
    JObject [
      (''schemaVersion'', JNumber (PosInt 1)), (''feature'', JString ''WP-06.5''),
      (''contract'', JString ''clavenar.sdk-durable-intent-outbox/v1''),
      (''executionEvidenceContract'', JString ''clavenar.execution/v1''),
      (''failClosed'', JObject [
        (''durableStoreRequiredBeforeNetwork'', JBool True),
        (''unavailableIntentStoreExecutorEffects'', JNumber (PosInt 0)),
        (''unpersistedEffectReportsSuccess'', JBool False)]),
      (''intent'', JObject [
        (''committedBeforeExecutor'', JBool True),
        (''fields'', JArray [
          JString ''signed-authorization'',
          JString ''authorization-id'',
          JString ''tenant'',
          JString ''workload-id'',
          JString ''workload-spiffe'',
          JString ''exact-payload-sha256'',
          JString ''idempotency-id'',
          JString ''executor-id''])]),
      (''executor'', JObject [
        (''idempotencyCapableContext'', JBool True), (''exactAuthorizedPayload'', JBool True),
        (''invocationsPerAuthorizedEffect'', JNumber (PosInt 1))]),
      (''completion'', JObject [
        (''atomicStoreAndEnqueue'', JBool True),
        (''fields'', JArray [
          JString ''actual-result'',
          JString ''actual-result-sha256'',
          JString ''effect-id'',
          JString ''workload-signed-receipt''])]),
      (''outbox'', JObject [
        (''receiptDeliveryOnly'', JBool True), (''boundedFlush'', JBool True),
        (''failedDeliveryRemainsPending'', JBool True),
        (''markDeliveredAfterProxyPersistence'', JBool True),
        (''toolReexecutionAllowed'', JBool False)]),
      (''retainedFeatures'', JArray [
        JString ''WP-06.6'',
        JString ''WP-06.7'',
        JString ''WP-06.8'',
        JString ''WP-06.9'',
        JString ''WP-06.10'',
        JString ''WP-06.11''])]"

definition PENDING_AUTHORIZATION_CONTRACT_DOCUMENT :: "json" where
  "PENDING_AUTHORIZATION_CONTRACT_DOCUMENT =
    JObject [
      (''schemaVersion'', JNumber (PosInt 1)), (''feature'', JString ''WP-06.6''),
      (''contract'', JString ''clavenar.pending-authorization/v1''),
      (''decisionWireContract'', JString ''clavenar.decision/v1''),
      (''pending'', JObject [
        (''httpStatus'', JNumber (PosInt 202)), (''upstreamEffects'', JNumber (PosInt 0)),
        (''stableHandle'', JBool True), (''duplicateReviewRows'', JNumber (PosInt 0)),
        (''fields'', JArray [
          JString ''pending-id'',
          JString ''idempotency-id'',
          JString ''correlation-id'',
          JString ''exact-payload-sha256'',
          JString ''ttl-seconds'',
          JString ''poll-after-ms''])]),
      (''resume'', JObject [
        (''requestSource'', JString ''retained-prepared-request''),
        (''modelReplacementCallAllowed'', JBool False),
        (''pendingResult'', JString ''return-same-exact-handle''),
        (''denyOrExpiryResult'', JString ''terminal-no-effect''),
        (''approvalResult'', JString ''identity-signed-exact-authorization''),
        (''modificationResult'', JString ''independently-regate-and-sign-exact-candidate'')]),
      (''singleUse'', JObject [
        (''durableAtomicClaimRequired'', JBool True),
        (''executorInvocationsPerAuthorization'', JNumber (PosInt 1)),
        (''concurrentOrRepeatedResumeEffects'', JNumber (PosInt 1)),
        (''unsupportedStorePosture'', JString ''fail-before-executor'')]),
      (''bindings'', JArray [
        JString ''verified-workload'',
        JString ''idempotency-id'',
        JString ''deterministic-correlation-id'',
        JString ''deterministic-pending-id'',
        JString ''exact-canonical-payload-digest'']),
      (''litePosture'', JObject [
        (''sharedPendingContractAndLifecycleStatus'', JBool True),
        (''durableCorrelationPolling'', JBool True), (''sdkAuthorizationIssuer'', JBool False),
        (''serverExecutionCompatibilityRetained'', JBool True)]),
      (''retainedFeatures'', JArray [
        JString ''WP-06.7'',
        JString ''WP-06.8'',
        JString ''WP-06.9'',
        JString ''WP-06.10'',
        JString ''WP-06.11''])]"

definition UNCERTAIN_EFFECT_RECONCILIATION_CONTRACT :: "json" where
  "UNCERTAIN_EFFECT_RECONCILIATION_CONTRACT =
    JObject [
      (''schemaVersion'', JNumber (PosInt 1)), (''feature'', JString ''WP-06.7''),
      (''contract'', JString ''clavenar.uncertain-effect/v1''),
      (''executionEvidenceContract'', JString ''clavenar.execution/v1''),
      (''durableStore'', JObject [
        (''capabilityRequiredBeforeDecisionNetwork'', JBool True),
        (''atomicBoundary'', JArray [
          JString ''exact-intent'',
          JString ''authorization-use'',
          JString ''effect-in-flight'']),
        (''boundaryCommittedBeforeExecutor'', JBool True),
        (''unsupportedStoreExecutorEffects'', JNumber (PosInt 0))]),
      (''uncertainOutcome'', JObject [
        (''serializable'', JBool True), (''successReported'', JBool False),
        (''executableAuthorizationReturned'', JBool False),
        (''replacementToolCallReturned'', JBool False),
        (''bindings'', JArray [
          JString ''authorization-id'',
          JString ''idempotency-id'',
          JString ''tenant'',
          JString ''workload-id'',
          JString ''workload-spiffe'',
          JString ''exact-payload-sha256'',
          JString ''executor-id''])]),
      (''automaticReexecution'', JObject [
        (''afterInFlightBoundary'', JBool False), (''afterCrashOrCancellation'', JBool False),
        (''afterExecutorErrorOrLostResponse'', JBool False),
        (''afterRestartOrConcurrentDuplicate'', JBool False)]),
      (''reconciliation'', JObject [
        (''source'', JString ''registered-executor-idempotency-effect-lookup''),
        (''executorInvocationAllowed'', JBool False),
        (''found'', JString ''persist-exact-result-effect-and-enqueue-receipt''),
        (''notFound'', JString ''remain-explicitly-uncertain''),
        (''unavailable'', JString ''remain-explicitly-uncertain''),
        (''ambiguousOrInvalid'', JString ''remain-explicitly-uncertain'')]),
      (''outbox'', JObject [
        (''receiptDeliveryMayRetry'', JBool True), (''toolReexecutionAllowed'', JBool False)]),
      (''retainedFeatures'', JArray [
        JString ''WP-06.8'',
        JString ''WP-06.9'',
        JString ''WP-06.10'',
        JString ''WP-06.11''])]"

section \<open>The documents agree with the code\<close>

definition sdk_execution_authority_contract_is_embedded_and_strict :: "bool" where
  "sdk_execution_authority_contract_is_embedded_and_strict \<longleftrightarrow>
    (let contract = normalize SDK_EXECUTION_AUTHORITY_CONTRACT
    in value_at ''schemaVersion'' contract = JNumber (PosInt 1)
      \<and> value_at ''feature'' contract = JString ''WP-06.1''
      \<and> value_at ''authority'' (value_at ''governedExecutor'' contract) = JString ''sdk-only''
      \<and> value_at ''authorizationEffects'' (value_at ''effectInvariants'' contract) = JNumber (PosInt 0)
      \<and> value_at ''sdkExecutorEffects'' (value_at ''effectInvariants'' contract) = JNumber (PosInt 1)
      \<and> value_at ''receiptPersistenceRequiredForSuccess'' (value_at ''effectInvariants'' contract) = JBool True
      \<and> array_length (value_at ''retainedFeatures'' contract) = Some 10)"

lemma sdk_execution_authority_contract_is_embedded_and_strict_passes: "sdk_execution_authority_contract_is_embedded_and_strict"
  by (simp add: sdk_execution_authority_contract_is_embedded_and_strict_def SDK_EXECUTION_AUTHORITY_CONTRACT_def
      passing)

definition side_effect_free_decision_contract_is_embedded_and_strict :: "bool" where
  "side_effect_free_decision_contract_is_embedded_and_strict \<longleftrightarrow>
    (let contract = normalize SIDE_EFFECT_FREE_DECISION_CONTRACT
    in value_at ''schemaVersion'' contract = JNumber (PosInt 1)
      \<and> value_at ''feature'' contract = JString ''WP-06.2''
      \<and> value_at ''decisionWireContract'' contract = JString DECISION_CONTRACT
      \<and> value_at ''executionEvidenceContract'' contract = JString EXECUTION_CONTRACT
      \<and> value_at ''upstreamEffects'' (value_at ''decision'' contract) = JNumber (PosInt 0)
      \<and> value_at ''sdkFallbackToServerExecutionAllowed'' (value_at ''decision'' contract) = JBool False
      \<and> array_length (value_at ''rejectBeforeUpstream'' (value_at ''litePosture'' contract)) = Some 4
      \<and> array_length (value_at ''retainedFeatures'' contract) = Some 9)"

lemma side_effect_free_decision_contract_is_embedded_and_strict_passes: "side_effect_free_decision_contract_is_embedded_and_strict"
  by (simp add: side_effect_free_decision_contract_is_embedded_and_strict_def SIDE_EFFECT_FREE_DECISION_CONTRACT_def DECISION_CONTRACT_def EXECUTION_CONTRACT_def
      passing)

definition client_migration_contract_is_embedded_and_strict :: "bool" where
  "client_migration_contract_is_embedded_and_strict \<longleftrightarrow>
    (let contract = normalize CLIENT_MIGRATION_CONTRACT; schema = normalize CLIENT_MIGRATION_SCHEMA
    in value_at ''contract'' contract = JString ''clavenar.client-migration/v1''
      \<and> value_at ''rust'' (value_at ''minimumSafeVersions'' contract) = JString ''1.0.0''
      \<and> value_at ''httpStatus'' (value_at ''legacyRejection'' contract) = JNumber (PosInt 426)
      \<and> value_at ''toolEffectCount'' (value_at ''legacyRejection'' contract) = JNumber (PosInt 0)
      \<and> value_at ''legacyInspectionCannotExecute'' (value_at ''invariants'' contract) = JBool True
      \<and> value_at ''const'' (value_at ''contract'' (value_at ''properties'' schema)) = value_at ''contract'' contract)"

lemma client_migration_contract_is_embedded_and_strict_passes: "client_migration_contract_is_embedded_and_strict"
  by (simp add: client_migration_contract_is_embedded_and_strict_def CLIENT_MIGRATION_CONTRACT_def CLIENT_MIGRATION_SCHEMA_def
      passing)

definition atomic_tool_call_batch_contract_is_embedded_and_strict :: "bool" where
  "atomic_tool_call_batch_contract_is_embedded_and_strict \<longleftrightarrow>
    (let contract = normalize ATOMIC_TOOL_CALL_BATCH_CONTRACT_DOCUMENT
    in value_at ''schemaVersion'' contract = JNumber (PosInt 1)
      \<and> value_at ''feature'' contract = JString ''WP-06.3''
      \<and> value_at ''contract'' contract = JString ATOMIC_TOOL_CALL_BATCH_CONTRACT
      \<and> value_at ''decisionWireContract'' contract = JString DECISION_CONTRACT
      \<and> value_at ''method'' (value_at ''envelope'' contract) = JString ATOMIC_TOOL_CALL_BATCH_METHOD
      \<and> value_at ''maximumCalls'' (value_at ''constraints'' contract) = JNumber (PosInt 128)
      \<and> value_at ''partialReleaseAllowed'' (value_at ''releaseBoundary'' contract) = JBool False
      \<and> array_length (value_at ''retainedFeatures'' contract) = Some 8)"

lemma atomic_tool_call_batch_contract_is_embedded_and_strict_passes: "atomic_tool_call_batch_contract_is_embedded_and_strict"
  by (simp add: atomic_tool_call_batch_contract_is_embedded_and_strict_def ATOMIC_TOOL_CALL_BATCH_CONTRACT_DOCUMENT_def DECISION_CONTRACT_def ATOMIC_TOOL_CALL_BATCH_METHOD_def ATOMIC_TOOL_CALL_BATCH_CONTRACT_def
      passing)

definition stable_request_identity_contract_is_embedded_and_strict :: "bool" where
  "stable_request_identity_contract_is_embedded_and_strict \<longleftrightarrow>
    (let contract = normalize STABLE_REQUEST_IDENTITY_CONTRACT
    in value_at ''schemaVersion'' contract = JNumber (PosInt 1)
      \<and> value_at ''feature'' contract = JString ''WP-06.4''
      \<and> value_at ''contract'' contract = JString ''clavenar.stable-request-identity/v1''
      \<and> value_at ''createdBeforeNetwork'' (value_at ''identity'' contract) = JBool True
      \<and> value_at ''networkGeneratedOrReplaced'' (value_at ''identity'' contract) = JBool False
      \<and> value_at ''invalidRequestNetworkAttempts'' (value_at ''preparedRequests'' contract) = JNumber (PosInt 0)
      \<and> value_at ''sameIdentityAndPayloadUpstreamEffects'' (value_at ''retryBehavior'' contract) = JNumber (PosInt 0)
      \<and> array_length (value_at ''retainedFeatures'' contract) = Some 7)"

lemma stable_request_identity_contract_is_embedded_and_strict_passes: "stable_request_identity_contract_is_embedded_and_strict"
  by (simp add: stable_request_identity_contract_is_embedded_and_strict_def STABLE_REQUEST_IDENTITY_CONTRACT_def
      passing)

definition durable_execution_outbox_contract_is_embedded_and_strict :: "bool" where
  "durable_execution_outbox_contract_is_embedded_and_strict \<longleftrightarrow>
    (let contract = normalize DURABLE_EXECUTION_OUTBOX_CONTRACT
    in value_at ''schemaVersion'' contract = JNumber (PosInt 1)
      \<and> value_at ''feature'' contract = JString ''WP-06.5''
      \<and> value_at ''contract'' contract = JString DURABLE_EXECUTION_OUTBOX_WIRE_CONTRACT
      \<and> value_at ''durableStoreRequiredBeforeNetwork'' (value_at ''failClosed'' contract) = JBool True
      \<and> value_at ''committedBeforeExecutor'' (value_at ''intent'' contract) = JBool True
      \<and> value_at ''atomicStoreAndEnqueue'' (value_at ''completion'' contract) = JBool True
      \<and> value_at ''toolReexecutionAllowed'' (value_at ''outbox'' contract) = JBool False
      \<and> array_length (value_at ''retainedFeatures'' contract) = Some 6)"

lemma durable_execution_outbox_contract_is_embedded_and_strict_passes: "durable_execution_outbox_contract_is_embedded_and_strict"
  by (simp add: durable_execution_outbox_contract_is_embedded_and_strict_def DURABLE_EXECUTION_OUTBOX_CONTRACT_def DURABLE_EXECUTION_OUTBOX_WIRE_CONTRACT_def
      passing)

definition pending_authorization_contract_is_embedded_and_strict :: "bool" where
  "pending_authorization_contract_is_embedded_and_strict \<longleftrightarrow>
    (let contract = normalize PENDING_AUTHORIZATION_CONTRACT_DOCUMENT
    in value_at ''schemaVersion'' contract = JNumber (PosInt 1)
      \<and> value_at ''feature'' contract = JString ''WP-06.6''
      \<and> value_at ''contract'' contract = JString PENDING_AUTHORIZATION_CONTRACT
      \<and> value_at ''httpStatus'' (value_at ''pending'' contract) = JNumber (PosInt 202)
      \<and> value_at ''upstreamEffects'' (value_at ''pending'' contract) = JNumber (PosInt 0)
      \<and> value_at ''modelReplacementCallAllowed'' (value_at ''resume'' contract) = JBool False
      \<and> value_at ''durableAtomicClaimRequired'' (value_at ''singleUse'' contract) = JBool True
      \<and> array_length (value_at ''retainedFeatures'' contract) = Some 5)"

lemma pending_authorization_contract_is_embedded_and_strict_passes: "pending_authorization_contract_is_embedded_and_strict"
  by (simp add: pending_authorization_contract_is_embedded_and_strict_def PENDING_AUTHORIZATION_CONTRACT_DOCUMENT_def PENDING_AUTHORIZATION_CONTRACT_def
      passing)

definition uncertain_effect_reconciliation_contract_is_embedded_and_strict :: "bool" where
  "uncertain_effect_reconciliation_contract_is_embedded_and_strict \<longleftrightarrow>
    (let contract = normalize UNCERTAIN_EFFECT_RECONCILIATION_CONTRACT
    in value_at ''schemaVersion'' contract = JNumber (PosInt 1)
      \<and> value_at ''feature'' contract = JString ''WP-06.7''
      \<and> value_at ''contract'' contract = JString UNCERTAIN_EFFECT_CONTRACT
      \<and> value_at ''capabilityRequiredBeforeDecisionNetwork'' (value_at ''durableStore'' contract) = JBool True
      \<and> array_length (value_at ''atomicBoundary'' (value_at ''durableStore'' contract)) = Some 3
      \<and> value_at ''afterExecutorErrorOrLostResponse'' (value_at ''automaticReexecution'' contract) = JBool False
      \<and> value_at ''executorInvocationAllowed'' (value_at ''reconciliation'' contract) = JBool False
      \<and> value_at ''receiptDeliveryMayRetry'' (value_at ''outbox'' contract) = JBool True
      \<and> array_length (value_at ''retainedFeatures'' contract) = Some 4)"

lemma uncertain_effect_reconciliation_contract_is_embedded_and_strict_passes: "uncertain_effect_reconciliation_contract_is_embedded_and_strict"
  by (simp add: uncertain_effect_reconciliation_contract_is_embedded_and_strict_def UNCERTAIN_EFFECT_RECONCILIATION_CONTRACT_def UNCERTAIN_EFFECT_CONTRACT_def
      passing)

section \<open>The published fixture, canonical text and prepared requests\<close>

definition fixture_claims :: "json" where
  "fixture_claims =
    JObject [
      (''contract'', JString ''clavenar.execution/v1''), (''stage'', JString ''authorization''),
      (''authorization_id'', JString ''354c33ed-e5d3-4af7-a1b8-b009d50b0bc5''),
      (''idempotency_id'', JString ''cfcc8767-4c73-41cc-8ece-b855863924c4''),
      (''correlation_id'', JString ''c1a28e4c-a17d-5b3d-884b-e5b627f762c2''),
      (''agent_id'', JString ''payments-agent''),
      (''agent_spiffe'', JString ''spiffe://clavenar.local/tenant/acme/agent/payments-agent/instance/one''),
      (''tenant'', JString ''acme''),
      (''credential_fingerprint'', JString ''sha256:1111111111111111111111111111111111111111111111111111111111111111''),
      (''method'', JString ''tools/call''), (''tool_name'', JString ''payments.transfer''),
      (''execution_payload'', JObject [
        (''jsonrpc'', JString ''2.0''),
        (''id'', JString ''cfcc8767-4c73-41cc-8ece-b855863924c4''),
        (''method'', JString ''tools/call''),
        (''params'', JObject [
          (''name'', JString ''payments.transfer''),
          (''arguments'', JObject [
            (''amount'', JNumber (PosInt 100))])])]),
      (''payload_sha256'', JString ''sha256:269123e546c75ec2df26ce4a52baeab92e58afdfabcb111c3e9069a37f78f1c5''),
      (''decision_principal'', JObject [
        (''subject'', JString ''system:policy-brain''), (''tenant'', JString ''acme''),
        (''method'', JString ''policy-brain''),
        (''credential'', JString ''sha256:2222222222222222222222222222222222222222222222222222222222222222'')]),
      (''modification_diff'', JNull),
      (''policy_bundle'', JObject [
        (''schema_version'', JNumber (PosInt 1)), (''version'', JString ''2026-07-20.1''),
        (''hash_sha256'', JString ''sha256:2222222222222222222222222222222222222222222222222222222222222222''),
        (''policy_count'', JNumber (PosInt 7))]),
      (''brain_version'', JString ''brain-2026-07-20''),
      (''brain_evidence_sha256'', JString ''sha256:3333333333333333333333333333333333333333333333333333333333333333'')]"

definition fixture_authorization :: "json" where
  "fixture_authorization =
    JObject [
      (''authorization'', fixture_claims),
      (''identity_signature'', JObject [
        (''algorithm'', JString ''Ed25519''), (''key_id'', JString ''clavenar-identity:v1''),
        (''value'', JString ''vault:v1:AAAAAAAAAAAAAAAAAAAAAAAAAAAAAAAAAAAAAAAAAAAAAAAAAAAAAAAAAAAAAAAAAAAAAAAAAAAAAAAAAAAAAA=='')])]"

definition fixture_receipt :: "json" where
  "fixture_receipt =
    JObject [
      (''contract'', JString ''clavenar.execution/v1''),
      (''stage'', JString ''execution.completed''),
      (''authorization_id'', JString ''354c33ed-e5d3-4af7-a1b8-b009d50b0bc5''),
      (''idempotency_id'', JString ''cfcc8767-4c73-41cc-8ece-b855863924c4''),
      (''correlation_id'', JString ''c1a28e4c-a17d-5b3d-884b-e5b627f762c2''),
      (''agent_id'', JString ''payments-agent''),
      (''agent_spiffe'', JString ''spiffe://clavenar.local/tenant/acme/agent/payments-agent/instance/one''),
      (''tenant'', JString ''acme''),
      (''credential_fingerprint'', JString ''sha256:1111111111111111111111111111111111111111111111111111111111111111''),
      (''method'', JString ''tools/call''),
      (''payload_sha256'', JString ''sha256:269123e546c75ec2df26ce4a52baeab92e58afdfabcb111c3e9069a37f78f1c5''),
      (''authorization'', fixture_authorization),
      (''result_sha256'', JString ''sha256:4062edaf750fb8074e7e83e0c9028c94e32468a8b6f1614774328ef045150f93''),
      (''effect_id'', JString ''provider-operation-123''),
      (''workload_signature'', JObject [
        (''algorithm'', JString ''ES256''),
        (''credential_fingerprint'', JString ''sha256:1111111111111111111111111111111111111111111111111111111111111111''),
        (''value'', JString ''AAAAAAAAAAAAAAAAAAAAAAAAAAAAAAAAAAAAAAAAAAAAAAAAAAAAAAAAAAAAAAAAAAAAAAAAAAAAAAAAAAAAAA'')])]"

definition execution_receipt_fixture :: "json" where
  "execution_receipt_fixture =
    JObject [
      (''authorization'', fixture_authorization), (''receipt'', fixture_receipt)]"

lemma claims_decode:
  assumes "knows_uuid L ''354c33ed-e5d3-4af7-a1b8-b009d50b0bc5'' u0" and "knows_uuid L ''c1a28e4c-a17d-5b3d-884b-e5b627f762c2'' u1" and "knows_uuid L ''cfcc8767-4c73-41cc-8ece-b855863924c4'' u2"
  shows "\<exists>x. dec_authorization_claims L (normalize fixture_claims) = Some x"
  using assms by (simp add: fixture_claims_def dec_authorization_claims_def dec_policy_bundle_provenance_def
      dec_uuid_def knows_uuid_def passing)

lemma signed_decodes:
  assumes "dec_authorization_claims L (normalize fixture_claims) = Some x"
  shows "\<exists>y. dec_signed_authorization L (normalize fixture_authorization) = Some y"
  using assms by (simp add: fixture_authorization_def dec_signed_authorization_def dec_identity_signature_def passing)

lemma receipt_decodes:
  assumes "dec_signed_authorization L (normalize fixture_authorization) = Some a" and "knows_uuid L ''354c33ed-e5d3-4af7-a1b8-b009d50b0bc5'' u0" and "knows_uuid L ''c1a28e4c-a17d-5b3d-884b-e5b627f762c2'' u1" and "knows_uuid L ''cfcc8767-4c73-41cc-8ece-b855863924c4'' u2"
  shows "\<exists>z. dec_execution_receipt L (normalize fixture_receipt) = Some z"
  using assms by (simp add: fixture_receipt_def dec_execution_receipt_def dec_workload_signature_def dec_uuid_def
      knows_uuid_def passing)

definition public_contract_fixture_is_byte_pinned_and_decodes :: "libs \<Rightarrow> string \<Rightarrow> string \<Rightarrow> bool" where
  "public_contract_fixture_is_byte_pinned_and_decodes L schema fixture \<longleftrightarrow>
    hex_encode L (sha256_digest L schema) = ''2284cb6990663af9eb4954b2fcf5e5d21944ed6f33754fc9ed5765e52d4e6970''
    \<and> hex_encode L (sha256_digest L fixture) = ''fa51afcfa2c69006e83670b5921af361d6e7acb32a8fbcb94dffd9e16871967c''
    \<and> succeeds (from_str L dec_value fixture) (\<lambda>fixture.
      passes (from_value (dec_signed_authorization L) (value_at ''authorization'' fixture)) (\<lambda>_. True)
      \<and> passes (from_value (dec_execution_receipt L) (value_at ''receipt'' fixture)) (\<lambda>_. True))"

lemma public_contract_fixture_is_byte_pinned_and_decodes_passes:
  assumes "hex_encode L (sha256_digest L schema) = ''2284cb6990663af9eb4954b2fcf5e5d21944ed6f33754fc9ed5765e52d4e6970''" and "hex_encode L (sha256_digest L fixture) = ''fa51afcfa2c69006e83670b5921af361d6e7acb32a8fbcb94dffd9e16871967c''" and "json_parse L fixture = Some execution_receipt_fixture" and "knows_uuid L ''354c33ed-e5d3-4af7-a1b8-b009d50b0bc5'' u0" and "knows_uuid L ''c1a28e4c-a17d-5b3d-884b-e5b627f762c2'' u1" and "knows_uuid L ''cfcc8767-4c73-41cc-8ece-b855863924c4'' u2"
  shows "public_contract_fixture_is_byte_pinned_and_decodes L schema fixture"
  proof -
  have authorization: "value_at ''authorization'' (normalize execution_receipt_fixture) = normalize fixture_authorization"
    and receipt: "value_at ''receipt'' (normalize execution_receipt_fixture) = normalize fixture_receipt"
    by (simp_all add: execution_receipt_fixture_def value_at_def btree_of_def)
  from claims_decode [OF assms(4-)] signed_decodes [of L] receipt_decodes [OF _ assms(4-)]
  obtain a r where "dec_signed_authorization L (normalize fixture_authorization) = Some a"
    and "dec_execution_receipt L (normalize fixture_receipt) = Some r" by blast
  with assms show ?thesis
    by (simp add: public_contract_fixture_is_byte_pinned_and_decodes_def from_str_def dec_value_def authorization receipt from_value_def normalize_idem
        passes_def succeeds_def)
qed

lemma show_small: "show_u64 1 = ''1''" "show_u64 2 = ''2''" "show_u64 3 = ''3''"
  by code_simp+

definition canonical_json_and_es256_encoding_are_stable :: "libs \<Rightarrow> (string \<Rightarrow> string) \<Rightarrow> (string \<Rightarrow> string \<Rightarrow> bool) \<Rightarrow> bool" where
  "canonical_json_and_es256_encoding_are_stable L sign verifies \<longleftrightarrow>
    canonical_json_value L (normalize (JObject [
        (''z'', JNumber (PosInt 1)),
        (''a'', JObject [
          (''y'', JNumber (PosInt 2)), (''b'', JNumber (PosInt 3))])])) =
      (''{'' @ [CHR 0x22] @ ''a'' @ [CHR 0x22] @ '':{'' @ [CHR 0x22] @ ''b'' @ [CHR 0x22] @ '':3,'' @ [CHR 0x22] @ ''y'' @ [CHR 0x22] @ '':2},'' @ [CHR 0x22] @ ''z'' @ [CHR 0x22] @ '':1}'')
    \<and> (let signature = sign ''canonical receipt''; encoded = base64url L signature
      in passes (base64url_decode L encoded) (\<lambda>decoded. verifies ''canonical receipt'' decoded))"

lemma canonical_json_and_es256_encoding_are_stable_passes:
  assumes "prints_compactly L" and "base64url_decode L (base64url L (sign ''canonical receipt'')) = Some (sign ''canonical receipt'')" and "verifies ''canonical receipt'' (sign ''canonical receipt'')"
  shows "canonical_json_and_es256_encoding_are_stable L sign verifies"
  using assms(2,3) by (simp add: canonical_json_and_es256_encoding_are_stable_def compact_simps [OF assms(1)] plain_char_def byte_def show_small passing)

definition prepared_requests_are_validated_and_round_trip_with_the_same_identity :: "libs \<Rightarrow> ('n, 's, 'x) clavenar_client \<Rightarrow> ('n, 's, 'x) world \<Rightarrow> bool" where
  "prepared_requests_are_validated_and_round_trip_with_the_same_identity L c w \<longleftrightarrow>
    fails (snd (run c (new_request [] (JObject [])) w)) (\<lambda>_. True)
    \<and> fails (snd (run c (new_batch []) w)) (\<lambda>_. True)
    \<and> succeeds (snd (run c (new_request ''payments.lookup'' (JObject [(''account'', JString ''one'')])) w)) (\<lambda>request.
      succeeds (from_str L (dec_prepared_tool_request L) (json_text L (enc_prepared_tool_request L request))) (\<lambda>restored.
        restored = request \<and> ptr_idempotency_id restored = ptr_idempotency_id request))
    \<and> succeeds (snd (run c (new_batch [\<lparr>call_id = ''call-a'', call_name = ''payments.lookup'',
          call_arguments = JObject [(''account'', JString ''one'')]\<rparr>]) w)) (\<lambda>batch.
      succeeds (from_str L (dec_prepared_tool_batch L) (json_text L (enc_prepared_tool_batch L batch))) (\<lambda>restored.
        restored = batch \<and> ptb_idempotency_id restored = ptb_idempotency_id batch))"

lemma prepared_requests_are_validated_and_round_trip_with_the_same_identity_passes:
  assumes "uuid_laws L" and "\<And>j. json_parse L (json_text L j) = Some j"
  shows "prepared_requests_are_validated_and_round_trip_with_the_same_identity L c w"
  proof -
  obtain u w' where u: "cl_new_uuid c (wd_net w) = (w', u)" by (cases "cl_new_uuid c (wd_net w)") auto
  have requests: "dec_prepared_tool_request L (enc_prepared_tool_request L r) = Some r"
    if "json_wf (ptr_arguments r)" for r
    using that assms(1) by (intro prepared_tool_request_codec.read_back) (simp add: ok_prepared_tool_request_def)
  have batches: "dec_prepared_tool_batch L (enc_prepared_tool_batch L b) = Some b"
    if "list_all ok_model_tool_call (ptb_calls b)" for b
    using that assms(1) by (intro prepared_tool_batch_codec.read_back) (simp add: ok_prepared_tool_batch_def)
  show ?thesis
    by (simp add: prepared_requests_are_validated_and_round_trip_with_the_same_identity_def new_request_def
        new_batch_def u restore_request_def restore_batch_def validate_request_def validate_batch_def
        validate_tool_name_def validate_model_tool_calls_def MAX_BATCH_CALLS_def from_str_def assms(2) requests
        batches ok_model_tool_call_def btree_sorted_def reject_if_def bindR_def passing)
qed

end
