(* ===== verification/Tests_Pack.thy ===== *)
theory Tests_Pack
  imports Testing Pack
begin

text \<open>
  The unit tests of pack.rs on the model. A signing key is the function it signs with; what
  signing, verifying and the encodings of a key guarantee is a hypothesis of each lemma.
\<close>

text \<open>The fixtures: the instant is what the library parses.\<close>

definition manifest_fixture :: "datetime \<Rightarrow> pack_manifest" where
  "manifest_fixture t =
    \<lparr>pm_schema_version = PACK_MANIFEST_SCHEMA_VERSION, pm_name = ''acme-finance'',
        pm_version = ''3'',
        pm_entries = [\<lparr>pe_path = ''money_moves.rego'', pe_content_type = ''rego'',
        pe_body_sha256 = repeat_str 64 ''a''\<rparr>],
        pm_generated_at = t, pm_signature = None\<rparr>"

definition signed_fixture :: "libs \<Rightarrow> (string \<Rightarrow> string) \<Rightarrow> pack_manifest \<Rightarrow> clavenar_error + string" where
  "signed_fixture L key m =
    bindR (canonical_unsigned L m) (\<lambda>c. Inr (hex_encode L (key (sha256_digest L c))))"

definition canonical_form_ignores_signature_block :: "libs \<Rightarrow> bool" where
  "canonical_form_ignores_signature_block L \<longleftrightarrow>
    passes (rfc3339_parse L ''2026-06-07T00:00:00Z'') (\<lambda>t. let m = manifest_fixture t in
      let a = m\<lparr>pm_signature := Some \<lparr>pr_sidecar = PACK_SIGNATURE_SIDECAR, pr_algorithm = ''ed25519'', pr_digest_alg = ''sha256'',
        pr_key_id = ''k'', pr_signed_at = pm_generated_at m\<rparr>\<rparr>
      in succeeds (digest_hex L a) (\<lambda>x. succeeds (digest_hex L m) (\<lambda>y. x = y)))"

lemma canonical_form_ignores_signature_block_passes:
  assumes "rfc3339_parse L ''2026-06-07T00:00:00Z'' = Some t"
  shows "canonical_form_ignores_signature_block L"
  using assms by (simp add: canonical_form_ignores_signature_block_def digest_hex_def canonical_unsigned_def Let_def passing)

definition verify_round_trips_and_detects_tamper :: "libs \<Rightarrow> 'k ed25519 \<Rightarrow> (string \<Rightarrow> string) \<Rightarrow> 'k \<Rightarrow> bool" where
  "verify_round_trips_and_detects_tamper L C key vk \<longleftrightarrow>
    passes (rfc3339_parse L ''2026-06-07T00:00:00Z'') (\<lambda>t. let m = manifest_fixture t in
      succeeds (signed_fixture L key m) (\<lambda>sig_hex.
        let m = m\<lparr>pm_signature := Some \<lparr>pr_sidecar = PACK_SIGNATURE_SIDECAR, pr_algorithm = ''ed25519'', pr_digest_alg = ''sha256'',
        pr_key_id = ''clavenar-identity:v3'', pr_signed_at = pm_generated_at m\<rparr>\<rparr>;
            tampered = m\<lparr>pm_entries := (pm_entries m)[0 := (pm_entries m ! 0)\<lparr>pe_body_sha256 := repeat_str 64 ''b''\<rparr>]\<rparr>
        in verify_pack L C m sig_hex vk = PackValid
          \<and> (case verify_pack L C tampered sig_hex vk of PackForged _ \<Rightarrow> True | _ \<Rightarrow> False)))"

lemma verify_round_trips_and_detects_tamper_passes:
  assumes "rfc3339_parse L ''2026-06-07T00:00:00Z'' = Some t" and "hex_laws L" and "\<And>b. trim (hex_encode L b) = hex_encode L b" and "\<And>d. signature_from_slice C (key d) = Inr (key d)" and "\<And>d e. verify_signature C vk d (key e) \<longleftrightarrow> d = e" and "sha256_digest L c \<noteq> sha256_digest L c'" and "canonical_unsigned L (manifest_fixture t) = Inr c" and "canonical_unsigned L ((manifest_fixture t)\<lparr>pm_entries :=
      (pm_entries (manifest_fixture t))[0 := (pm_entries (manifest_fixture t) ! 0)\<lparr>pe_body_sha256 := repeat_str 64 ''b''\<rparr>]\<rparr>) = Inr c'"
  shows "verify_round_trips_and_detects_tamper L C key vk"
  proof -
  have unsigned: "canonical_unsigned L (m\<lparr>pm_signature := s\<rparr>) = canonical_unsigned L m" for m s
    by (simp add: canonical_unsigned_def)
  let ?m = "manifest_fixture t"
  have m: "canonical_unsigned L (?m\<lparr>pm_signature := s\<rparr>) = Inr c"
    and tampered: "canonical_unsigned L (?m\<lparr>pm_signature := s, pm_entries :=
      (pm_entries ?m)[0 := (pm_entries ?m ! 0)\<lparr>pe_body_sha256 := repeat_str 64 ''b''\<rparr>]\<rparr>) = Inr c'" for s
    using assms(7,8) by (simp_all add: canonical_unsigned_def)
  show ?thesis
    using assms(1,2,6)
    by (simp add: verify_round_trips_and_detects_tamper_def signed_fixture_def verify_pack_def assms(3-5,7) m tampered
        hex_laws_def Let_def eq_commute [of _ "sha256_digest L c"] passing)
qed

definition unsigned_manifest_reports_unsigned :: "libs \<Rightarrow> 'k ed25519 \<Rightarrow> 'k \<Rightarrow> bool" where
  "unsigned_manifest_reports_unsigned L C vk \<longleftrightarrow>
    passes (rfc3339_parse L ''2026-06-07T00:00:00Z'') (\<lambda>t. let m = manifest_fixture t in
      verify_pack L C m (repeat_str 64 ''00'') vk = PackUnsigned)"

lemma unsigned_manifest_reports_unsigned_passes:
  assumes "rfc3339_parse L ''2026-06-07T00:00:00Z'' = Some t"
  shows "unsigned_manifest_reports_unsigned L C vk"
  using assms by (simp add: unsigned_manifest_reports_unsigned_def verify_pack_def manifest_fixture_def Let_def passing)

definition legacy_pack_signer_fails_closed_without_network_io :: "bool" where
  "legacy_pack_signer_fails_closed_without_network_io \<longleftrightarrow>
    (let signer = pack_signer_new ''http://127.0.0.1:1'' ''spoofed-caller''
    in fails (pack_sign signer (repeat_str 32 ''00'')) (\<lambda>e. case e of InvalidConfig _ \<Rightarrow> True | _ \<Rightarrow> False))"

lemma legacy_pack_signer_fails_closed_without_network_io_passes: "legacy_pack_signer_fails_closed_without_network_io"
  by (simp add: legacy_pack_signer_fails_closed_without_network_io_def pack_sign_def Let_def passing)

definition jwks_and_pem_resolve_the_same_key :: "libs \<Rightarrow> 'k ed25519 \<Rightarrow> ('k \<Rightarrow> string) \<Rightarrow> ('k \<Rightarrow> string) \<Rightarrow> 'k \<Rightarrow> bool" where
  "jwks_and_pem_resolve_the_same_key L C to_pem to_bytes vk \<longleftrightarrow>
    succeeds (verifying_key_from_pem C (to_pem vk)) (\<lambda>from_pem.
      let x = base64url L (to_bytes vk);
          jwks = normalize (JObject [
            (''keys'', JArray [
              JObject [
                (''kty'', JString ''OKP''), (''crv'', JString ''Ed25519''), (''kid'', JString ''k1''),
                (''x'', JString x)]])])
      in succeeds (verifying_key_from_jwks L C jwks ''k1'') (\<lambda>from_jwks.
        to_bytes from_pem = to_bytes from_jwks \<and> to_bytes from_jwks = to_bytes vk))"

lemma jwks_and_pem_resolve_the_same_key_passes:
  assumes "key_from_pem C (to_pem vk) = Inr vk" and "base64url_decode L (base64url L (to_bytes vk)) = Some (to_bytes vk)" and "length (to_bytes vk) = 32" and "key_from_bytes C (to_bytes vk) = Inr vk"
  shows "jwks_and_pem_resolve_the_same_key L C to_pem to_bytes vk"
  using assms by (simp add: jwks_and_pem_resolve_the_same_key_def verifying_key_from_pem_def verifying_key_from_jwks_def value_get_def
      as_array_def as_str_def ok_or_def Let_def passing)

end
