(* ===== verification/Serving.thy ===== *)
theory Serving
  imports Testing Ledger_Query
begin

text \<open>
  The mock servers of the crate's tests. A server is a function of the request and its state
  (what the test shares with its handlers); \<open>exchange\<close> runs one operation of a client against
  it and returns the state the server is left in and the operation's result. A server reads a
  URL as axum's router does: the path below the base is split at slashes and percent-decoded,
  the query into decoded pairs of which the last of a name wins. An assertion of a handler that
  fails closes the connection. \<open>carries\<close> says that a document survives the way to the client:
  its text is within the bound of a body, is UTF-8 and parses to the document.
\<close>

section \<open>Exchanges\<close>

definition mock_client ::
  "(http_request \<Rightarrow> 'n \<Rightarrow> 'n \<times> (transport_error + http_response)) \<Rightarrow> ('n, unit, unit) clavenar_client" where
  "mock_client f = \<lparr>cl_base_url = [], cl_auth = NoAuth, cl_http = f, cl_new_uuid = (\<lambda>n. (n, 0)),
     cl_signing_key = None, cl_tool_executor = None, cl_durable_store = None\<rparr>"

definition exchange ::
  "(http_request \<Rightarrow> 'n \<Rightarrow> 'n \<times> (transport_error + http_response)) \<Rightarrow> ('e, 'a) prog \<Rightarrow> 'n \<Rightarrow> 'n \<times> ('e + 'a)" where
  "exchange f p n = (case run (mock_client f) p
       \<lparr>wd_net = n, wd_store = (), wd_tools = (), wd_next_id = 0, wd_trace = []\<rparr> of (w, r) \<Rightarrow> (wd_net w, r))"

lemma exchange_Return [simp]: "exchange f (Return r) n = (n, r)"
  by (simp add: exchange_def)

lemma exchange_send [simp]:
  "exchange f (HttpSend q (\<lambda>z. Return (g z))) n = (fst (f q n), g (snd (f q n)))"
  by (simp add: exchange_def mock_client_def note_event_def split: prod.split)

lemma exchange_decoded [simp]:
  "exchange f (send_decoded L d q) n = (fst (f q n), reply_of (read_decoded L d) (snd (f q n)))"
  by (cases "f q n"; cases "snd (f q n)")
    (simp_all add: send_decoded_def sendP_def exchange_def mock_client_def note_event_def)

lemma exchange_decoded_map [simp]:
  "exchange f (bindP (send_decoded L d q) (\<lambda>x. okP (g x))) n
    = (fst (f q n), map_sum id g (reply_of (read_decoded L d) (snd (f q n))))"
  by (cases "f q n"; cases "reply_of (read_decoded L d) (snd (f q n))"; cases "snd (f q n)")
    (simp_all add: send_decoded_def sendP_def exchange_def mock_client_def note_event_def)

lemma exchange_read [simp]:
  "exchange f (send_read L d q) n = (fst (f q n), reply_of (read_ok L d) (snd (f q n)))"
  by (cases "f q n"; cases "snd (f q n)")
    (simp_all add: send_read_def sendP_def exchange_def mock_client_def note_event_def)

lemma exchange_archive [simp]:
  "exchange f (send_archive q) n = (fst (f q n), reply_of read_archive (snd (f q n)))"
  by (cases "f q n"; cases "snd (f q n)")
    (simp_all add: send_archive_def sendP_def exchange_def mock_client_def note_event_def)

section \<open>Replies\<close>

definition carries :: "libs \<Rightarrow> json \<Rightarrow> bool" where
  "carries L j \<longleftrightarrow> json_parse L (json_text L j) = Some j \<and> length (json_text L j) \<le> unat DEFAULT_RESPONSE_BODY_LIMIT
     \<and> from_utf8 (json_text L j) = Inr (json_text L j)"

definition text_reply :: "nat \<Rightarrow> string \<Rightarrow> http_response" where
  "text_reply status body = \<lparr>hs_status = status, hs_headers = [], hs_content_length = None, hs_chunks = [Inr body]\<rparr>"

definition json_reply :: "libs \<Rightarrow> nat \<Rightarrow> json \<Rightarrow> http_response" where
  "json_reply L status j = text_reply status (json_text L j)"

definition answers_json ::
  "libs \<Rightarrow> 'n \<times> nat \<times> json \<Rightarrow> 'n \<times> (transport_error + http_response)" where
  "answers_json L r = (case r of (n, status, j) \<Rightarrow> (n, Inr (json_reply L status j)))"

lemma hs_text [simp]: "hs_status (text_reply s b) = s" "hs_status (json_reply L s j) = s"
  by (simp_all add: json_reply_def text_reply_def)

lemma read_text_reply:
  "length b \<le> unat DEFAULT_RESPONSE_BODY_LIMIT \<Longrightarrow> from_utf8 b = Inr b \<Longrightarrow> read_text_limited (text_reply s b) = Inr b"
  by (simp add: read_text_limited_def read_body_limited_def text_reply_def DEFAULT_RESPONSE_BODY_LIMIT_def)

lemma read_decoded_reply:
  "carries L j \<Longrightarrow> read_decoded L d (json_reply L s j) =
     (if s = 200 \<or> s = 201 then case d j of None \<Rightarrow> Inl Decode | Some x \<Rightarrow> Inr x
      else if s = 401 then Inl (Unauthorized (json_text L j))
      else if s = 400 then Inl (BadRequest (json_text L j))
      else Inl (Server s (json_text L j)))"
  by (simp add: carries_def read_decoded_def json_reply_def read_text_reply decode_response_def from_str_def
      hs_text)

lemma read_ok_reply:
  "carries L j \<Longrightarrow> read_ok L d (json_reply L s j) =
     (if s = 200 then case d j of None \<Rightarrow> Inl Decode | Some x \<Rightarrow> Inr x else Inl (Server s (json_text L j)))"
  by (simp add: carries_def read_ok_def json_reply_def read_text_reply from_str_def hs_text)

section \<open>Routing\<close>

definition query_params :: "string \<Rightarrow> string \<Rightarrow> string option" where
  "query_params url k = Option.bind (map_of (rev (query_pairs url)) k) id"

definition ascii_lower :: "char \<Rightarrow> char" where
  "ascii_lower c = (if 65 \<le> byte c \<and> byte c \<le> 90 then char_of (byte c + 32) else c)"

definition header_of :: "string \<Rightarrow> http_request \<Rightarrow> string option" where
  "header_of k q = map_of (map (\<lambda>(h, v). (map ascii_lower h, v)) (hr_headers q)) k"

definition unwrap_or :: "'a \<Rightarrow> 'a option \<Rightarrow> 'a" where
  "unwrap_or d x = (case x of None \<Rightarrow> d | Some y \<Rightarrow> y)"

fun body_json :: "http_request \<Rightarrow> json" where
  "body_json q = (case hr_body q of JsonBody j \<Rightarrow> j | _ \<Rightarrow> JNull)"

section \<open>Handlers\<close>

text \<open>A handler at one path and method: an assertion that fails closes the connection.\<close>

definition handler_at ::
  "http_method \<Rightarrow> string list \<Rightarrow> (http_request \<Rightarrow> bool) \<Rightarrow> (http_request \<Rightarrow> http_response)
   \<Rightarrow> http_request \<Rightarrow> transport_error + http_response" where
  "handler_at m path asserts answer q = (if segments ''http://h/'' (hr_url q) \<noteq> Some path then Inr (text_reply 404 [])
     else if hr_method q \<noteq> m then Inr (text_reply 405 [])
     else if asserts q then Inr (answer q) else Inl ''connection closed'')"

definition stateless :: "(http_request \<Rightarrow> transport_error + http_response)
    \<Rightarrow> http_request \<Rightarrow> unit \<Rightarrow> unit \<times> (transport_error + http_response)" where
  "stateless h q u = ((), h q)"

lemma request_json: "body_json (with_token t (json_body j q)) = j" "body_json (json_body j q) = j"
  by simp_all

lemma lower_caps: "ascii_lower CHR ''I'' = CHR ''i''" "ascii_lower CHR ''K'' = CHR ''k''" "ascii_lower CHR ''X'' = CHR ''x''"
  "ascii_lower CHR ''C'' = CHR ''c''" "ascii_lower CHR ''L'' = CHR ''l''" "ascii_lower CHR ''O'' = CHR ''o''"
  by code_simp+

lemma lower_plain: "\<not> (65 \<le> byte c \<and> byte c \<le> 90) \<Longrightarrow> ascii_lower c = c"
  by (auto simp: ascii_lower_def)

lemmas lowered = header_of_def lower_caps lower_plain byte_def token_headers_def

end
