(* ===== verification/Registry.thy ===== *)
theory Registry
  imports Serving Agents_Claims2
begin

text \<open>
  The agents client against the registry that the write tests of agents.rs put behind it: the
  registry's handlers and routes, the calls of the client arriving at the handler they mean with
  the agent's identifier unchanged, and what a client observes over a conversation.
\<close>

section \<open>The registry of the write tests\<close>

text \<open>
  \<open>WriteMockState\<close> is the list of records behind its lock, which every handler holds for as
  long as it runs. A handler answers a status and a document, or nothing where it panics.
\<close>

type_synonym registry = "agent_record list"

definition row_doc :: "agent_record \<Rightarrow> json" where
  "row_doc r = normalize (enc_agent_record r)"

definition error_doc :: "string \<Rightarrow> json" where
  "error_doc e = JObject [(''error'', JString e)]"

fun as_str :: "json \<Rightarrow> string option" where
  "as_str (JString s) = Some s"
| "as_str _ = None"

fun strings_of :: "json \<Rightarrow> string list" where
  "strings_of (JArray xs) = List.map_filter as_str xs"
| "strings_of _ = []"

fun update_first :: "('a \<Rightarrow> bool) \<Rightarrow> ('a \<Rightarrow> 'a) \<Rightarrow> 'a list \<Rightarrow> 'a list" where
  "update_first P f [] = []"
| "update_first P f (x # xs) = (if P x then f x # xs else x # update_first P f xs)"

definition write_list :: "registry \<Rightarrow> registry \<times> (nat \<times> json) option" where
  "write_list rows = (rows, Some (200, JArray (map row_doc rows)))"

definition write_get_one :: "string \<Rightarrow> registry \<Rightarrow> registry \<times> (nat \<times> json) option" where
  "write_get_one i rows = (rows, Some (case find (\<lambda>r. ag_id r = i) rows of
     Some r \<Rightarrow> (200, row_doc r)
   | None \<Rightarrow> (404, error_doc ''not_found'')))"

definition created_record :: "string \<Rightarrow> string \<Rightarrow> json \<Rightarrow> agent_record" where
  "created_record name tenant body = \<lparr>
     ag_id = ''01HW-mock-'' @ name, ag_tenant = tenant, ag_agent_name = name, ag_state = AgentActive,
     ag_scope_envelope = strings_of (value_at ''scope_envelope'' body),
     ag_yellow_envelope = strings_of (value_at ''yellow_envelope'' body),
     ag_attestation_kinds_accepted = strings_of (value_at ''attestation_kinds'' body),
     ag_created_by_sub = ''user:test'', ag_created_by_idp = ''okta'',
     ag_owner_team = unwrap_or [] (as_str (value_at ''owner_team'' body)),
     ag_created_at = ''2026-05-04T00:00:00Z'', ag_state_changed_at = ''2026-05-04T00:00:00Z'',
     ag_state_changed_by = ''user:test'', ag_description = as_str (value_at ''description'' body),
     ag_certified_at_version = None, ag_certified_at = None\<rparr>"

definition spiffe_pattern :: "agent_record \<Rightarrow> string" where
  "spiffe_pattern r = ''spiffe://wd.test/tenant/'' @ ag_tenant r @ ''/agent/'' @ ag_agent_name r @ ''/instance/*''"

definition created_doc :: "agent_record \<Rightarrow> json" where
  "created_doc r = normalize (JObject [
     (''id'', JString (ag_id r)), (''tenant'', JString (ag_tenant r)),
     (''agent_name'', JString (ag_agent_name r)), (''state'', JString (as_wire (ag_state r))),
     (''scope_envelope'', enc_list JString (ag_scope_envelope r)),
     (''yellow_envelope'', enc_list JString (ag_yellow_envelope r)),
     (''attestation_kinds_accepted'', enc_list JString (ag_attestation_kinds_accepted r)),
     (''created_by_sub'', JString (ag_created_by_sub r)), (''created_by_idp'', JString (ag_created_by_idp r)),
     (''owner_team'', JString (ag_owner_team r)), (''created_at'', JString (ag_created_at r)),
     (''state_changed_at'', JString (ag_state_changed_at r)),
     (''state_changed_by'', JString (ag_state_changed_by r)),
     (''description'', enc_option JString (ag_description r)),
     (''spiffe_id_pattern'', JString (spiffe_pattern r))])"

definition write_create :: "json \<Rightarrow> registry \<Rightarrow> registry \<times> (nat \<times> json) option" where
  "write_create body rows = (let name = unwrap_or [] (as_str (value_at ''agent_name'' body)) in
     if \<exists>r \<in> set rows. ag_agent_name r = name then (rows, Some (409, error_doc ''agent_name_taken''))
     else case as_str (value_at ''tenant'' body) of
         None \<Rightarrow> (rows, None)
       | Some tenant \<Rightarrow> (let r = created_record name tenant body in (rows @ [r], Some (201, created_doc r))))"

definition transition_doc :: "agent_state \<Rightarrow> json" where
  "transition_doc s = normalize (JObject [(''state'', JString (as_wire s)),
     (''state_changed_at'', JString ''2026-05-04T00:30:00Z'')])"

definition transition :: "string \<Rightarrow> agent_state \<Rightarrow> registry \<Rightarrow> registry \<times> (nat \<times> json) option" where
  "transition i target rows = (case find (\<lambda>r. ag_id r = i) rows of
     None \<Rightarrow> (rows, Some (404, error_doc ''not_found''))
   | Some r \<Rightarrow>
       if ag_state r = AgentDecommissioned \<and> target \<noteq> AgentDecommissioned
       then (rows, Some (409, error_doc ''agent_decommissioned''))
       else (update_first (\<lambda>r. ag_id r = i)
               (\<lambda>r. r\<lparr>ag_state := target, ag_state_changed_at := ''2026-05-04T00:30:00Z''\<rparr>) rows,
             Some (200, transition_doc target)))"

definition write_suspend :: "string \<Rightarrow> registry \<Rightarrow> registry \<times> (nat \<times> json) option" where
  "write_suspend i = transition i AgentSuspended"

definition write_decommission :: "string \<Rightarrow> registry \<Rightarrow> registry \<times> (nat \<times> json) option" where
  "write_decommission i = transition i AgentDecommissioned"

definition write_transfer :: "string \<Rightarrow> json \<Rightarrow> registry \<Rightarrow> registry \<times> (nat \<times> json) option" where
  "write_transfer i body rows = (let team = unwrap_or [] (as_str (value_at ''owner_team'' body)) in
     case find (\<lambda>r. ag_id r = i) rows of
       None \<Rightarrow> (rows, Some (404, error_doc ''not_found''))
     | Some r \<Rightarrow> (update_first (\<lambda>r. ag_id r = i) (\<lambda>r. r\<lparr>ag_owner_team := team\<rparr>) rows,
         Some (200, row_doc (r\<lparr>ag_owner_team := team\<rparr>))))"

definition write_narrow :: "string \<Rightarrow> json \<Rightarrow> registry \<Rightarrow> registry \<times> (nat \<times> json) option" where
  "write_narrow i body rows = (let new_scope = strings_of (value_at ''scope_envelope'' body) in
     case find (\<lambda>r. ag_id r = i) rows of
       None \<Rightarrow> (rows, Some (404, error_doc ''not_found''))
     | Some r \<Rightarrow>
         if \<not> set new_scope \<subseteq> set (ag_scope_envelope r)
         then (rows, Some (422, JObject [(''error'', JString ''envelope_not_narrower''),
             (''offenders'', JArray (map JString
               (sorted_list_of_set (set new_scope - set (ag_scope_envelope r)))))]))
         else (update_first (\<lambda>r. ag_id r = i) (\<lambda>r. r\<lparr>ag_scope_envelope := new_scope\<rparr>) rows,
             Some (200, row_doc (r\<lparr>ag_scope_envelope := new_scope\<rparr>))))"

text \<open>\<open>spawn_write_mock\<close>: the routes. Another path or method is refused with an empty body.\<close>

definition registry_route :: "http_method \<Rightarrow> string list \<Rightarrow> json \<Rightarrow> (registry \<Rightarrow> registry \<times> (nat \<times> json) option) option" where
  "registry_route m path body =
     (if path = [''agents''] then
        (if m = GET then Some write_list else if m = POST then Some (write_create body) else None)
      else if length path = 2 \<and> path ! 0 = ''agents'' then
        (if m = GET then Some (write_get_one (path ! 1)) else None)
      else if length path = 3 \<and> path ! 0 = ''agents'' \<and> m = POST then
        (if path ! 2 = ''suspend'' then Some (write_suspend (path ! 1))
         else if path ! 2 = ''decommission'' then Some (write_decommission (path ! 1))
         else if path ! 2 = ''owner-team'' then Some (write_transfer (path ! 1) body)
         else None)
      else if length path = 4 \<and> path ! 0 = ''agents'' \<and> path ! 2 = ''envelope'' \<and> path ! 3 = ''narrow'' \<and> m = POST
        then Some (write_narrow (path ! 1) body)
      else None)"

definition registry_server ::
  "libs \<Rightarrow> string \<Rightarrow> http_request \<Rightarrow> registry \<Rightarrow> registry \<times> (transport_error + http_response)" where
  "registry_server L base q rows = (case segments base (hr_url q) of
     None \<Rightarrow> (rows, Inr (text_reply 400 []))
   | Some path \<Rightarrow> (case registry_route (hr_method q) path (body_json q) of
       None \<Rightarrow> (rows, Inr (text_reply 404 []))
     | Some handler \<Rightarrow> (case handler rows of
         (rows', None) \<Rightarrow> (rows', Inl ''connection closed'')
       | (rows', Some (status, doc)) \<Rightarrow> (rows', Inr (json_reply L status doc)))))"

lemma registry_routes:
  "registry_route GET [''agents''] b = Some write_list" "registry_route POST [''agents''] b = Some (write_create b)"
  "registry_route GET [''agents'', i] b = Some (write_get_one i)"
  "registry_route POST [''agents'', i, ''suspend''] b = Some (write_suspend i)"
  "registry_route POST [''agents'', i, ''decommission''] b = Some (write_decommission i)"
  "registry_route POST [''agents'', i, ''owner-team''] b = Some (write_transfer i b)"
  "registry_route POST [''agents'', i, ''envelope'', ''narrow''] b = Some (write_narrow i b)"
  by (simp_all add: registry_route_def)

lemma registry_serves:
  assumes "segments base (hr_url q) = Some path" "registry_route (hr_method q) path (body_json q) = Some handler"
    and "handler rows = (rows', Some (status, doc))"
  shows "registry_server L base q rows = (rows', Inr (json_reply L status doc))"
  using assms by (simp add: registry_server_def)

section \<open>The documents are read back\<close>

lemma normalize_scalars [simp]: "normalize (enc_list JString xs) = enc_list JString xs"
  "normalize (enc_option JString x) = enc_option JString x"
  by (induction xs) (simp_all add: enc_list_def enc_option_def split: option.split)

lemma row_doc_read: "dec_agent_record (row_doc r) = Some r"
  by (cases r) (simp add: row_doc_def enc_agent_record_def enc_agent_state_def dec_agent_record_def dec_agent_state_def
      btree_of_def record_simps)

lemma rows_read: "dec_list dec_agent_record (JArray (map row_doc rows)) = Some rows"
  by (induction rows) (simp_all add: row_doc_read)

lemma transition_doc_read: "dec_lifecycle_response (transition_doc s)
    = Some \<lparr>lr_state = s, lr_state_changed_at = ''2026-05-04T00:30:00Z''\<rparr>"
  by (simp add: transition_doc_def dec_lifecycle_response_def dec_agent_state_def btree_of_def record_simps)

lemma created_doc_read:
  "ag_certified_at_version r = None \<Longrightarrow> ag_certified_at r = None \<Longrightarrow>
   dec_agent_created (created_doc r) = Some \<lparr>ac_record = r, ac_spiffe_id_pattern = spiffe_pattern r\<rparr>"
  by (cases r) (simp add: created_doc_def dec_agent_created_def dec_agent_record_def dec_agent_state_def
      btree_of_def record_simps)

section \<open>Calls arrive where they are meant\<close>

text \<open>Appending a query pair keeps the path.\<close>

definition query_laws :: "libs \<Rightarrow> bool" where
  "query_laws L \<longleftrightarrow> (\<forall>u k v. CHR ''?'' \<notin> set u \<longrightarrow> path_part (url_append_pair L u k v) = u)"

lemma sample_query_laws: "query_laws sample_libs"
proof -
  have "takeWhile (\<lambda>c. c \<noteq> CHR ''?'') (u @ CHR ''?'' # x) = u" if "CHR ''?'' \<notin> set u" for u x
    using that by (subst takeWhile_append2) auto
  then show ?thesis by (simp add: query_laws_def path_part_def sample_libs_def)
qed

lemma routed_agent:
  assumes "url_laws L" "query_laws L" "plain_base (an_base_url c)" "verb \<in> set agent_verbs" "agent \<notin> {''.'', ''..''}"
  shows "\<exists>url. id_with_tenant L c agent verb t = Inr url
    \<and> segments (an_base_url c) url = Some (''agents'' # agent # verb_segments verb)"
proof -
  let ?xs = "''agents'' # agent # verb_segments verb"
  have "plain_segments ?xs" using verb_path(2) [OF assms(4)] assms(5) by (simp add: plain_segments_def)
  with assms(1,3) have "url_join L (an_base_url c) (segment_path ?xs) = Inr (an_base_url c @ segment_path ?xs)"
    by (simp add: url_laws_def)
  then obtain url where url: "id_with_tenant L c agent verb t = Inr url"
    by (simp only: id_with_tenant_Inr verb_path(1) [OF assms(4)]) auto
  from id_with_tenant_url [OF assms(1,3-5) url] assms(2) no_query [OF assms(3)]
  have "path_part url = an_base_url c @ segment_path ?xs" by (simp add: query_laws_def)
  moreover have "path_part (an_base_url c @ segment_path ?xs) = an_base_url c @ segment_path ?xs"
    using no_query [OF assms(3)] by (intro path_part_plain) blast
  ultimately have "segments (an_base_url c) url = segments (an_base_url c) (an_base_url c @ segment_path ?xs)"
    by (simp add: segments_def)
  with url segments_of_path [OF assms(3), of ?xs] show ?thesis by auto
qed

locale registry_client =
  fixes L :: libs and c :: "'p agents_client"
  assumes urls: "url_laws L" and queries: "query_laws L" and base: "plain_base (an_base_url c)"
begin

abbreviation server :: "http_request \<Rightarrow> registry \<Rightarrow> registry \<times> (transport_error + http_response)" where
  "server \<equiv> registry_server L (an_base_url c)"

lemma posts:
  assumes "agent \<notin> {''.'', ''..''}" "verb \<in> set agent_verbs"
    and "registry_route POST (''agents'' # agent # verb_segments verb) body = Some handler"
    and "handler rows = (rows', Some (status, doc))"
  shows "exchange server (tryP (id_with_tenant L c agent verb t) (\<lambda>url. agents_post_json L c d url body)) rows
    = (rows', read_decoded L d (json_reply L status doc))"
proof -
  from routed_agent [OF urls queries base assms(2,1)] obtain url where
    url: "id_with_tenant L c agent verb t = Inr url"
      "segments (an_base_url c) url = Some (''agents'' # agent # verb_segments verb)" by blast
  have "server (with_token (an_bearer c) (json_body body (request POST url))) rows = (rows', Inr (json_reply L status doc))"
    by (rule registry_serves [where path = "''agents'' # agent # verb_segments verb" and handler = handler])
      (simp_all add: url(2) assms(3,4))
  then show ?thesis by (simp add: agents_post_json_def url(1))
qed

lemma changes_state:
  assumes "agent \<notin> {''.'', ''..''}" "(verb, s) \<in> {(''suspend'', AgentSuspended), (''decommission'', AgentDecommissioned)}"
    and "transition agent s rows = (rows', Some (status, doc))"
  shows "exchange server (lifecycle_call L c agent t verb reason) rows
    = (rows', read_decoded L dec_lifecycle_response (json_reply L status doc))"
proof -
  have verb: "verb \<in> set agent_verbs" "verb_segments verb = [verb]"
    using assms(2) by (auto simp: agent_verbs_def verb_segments_def)
  have "registry_route POST [''agents'', agent, verb] b = Some (transition agent s)" for b
    using assms(2) by (auto simp: registry_routes write_suspend_def write_decommission_def)
  with posts [OF assms(1) verb(1), where handler = "transition agent s"] assms(3)
  show ?thesis by (simp add: lifecycle_call_def verb(2))
qed

lemma routed_registry:
  "agents_join L c ''agents'' = Inr (an_base_url c @ ''agents'')"
  "join_endpoint L (an_base_url c) ''agents'' ''agents'' = Inr (an_base_url c @ ''agents'')"
  "segments (an_base_url c) (an_base_url c @ ''agents'') = Some [''agents'']"
  "segments (an_base_url c) (url_append_pair L (an_base_url c @ ''agents'') ''tenant'' t) = Some [''agents'']"
proof -
  have path: "segment_path [''agents''] = ''agents''" by code_simp
  have "plain_segments [''agents'']" by (simp add: plain_segments_def)
  with urls base have "url_join L (an_base_url c) (segment_path [''agents'']) = Inr (an_base_url c @ segment_path [''agents''])"
    by (simp add: url_laws_def)
  then show "agents_join L c ''agents'' = Inr (an_base_url c @ ''agents'')"
    "join_endpoint L (an_base_url c) ''agents'' ''agents'' = Inr (an_base_url c @ ''agents'')"
    by (simp_all add: agents_join_def join_endpoint_def path)
  show seg: "segments (an_base_url c) (an_base_url c @ ''agents'') = Some [''agents'']"
    using segments_of_path [OF base, of "[''agents'']"] by (simp add: path)
  have "CHR ''?'' \<notin> set (an_base_url c @ ''agents'')"
    using no_query [OF base, of "[''agents'']"] by (simp add: path)
  with queries seg show "segments (an_base_url c) (url_append_pair L (an_base_url c @ ''agents'') ''tenant'' t) = Some [''agents'']"
    by (simp add: segments_def query_laws_def path_part_plain)
qed

lemma creates:
  assumes "write_create (enc_create_agent_request req) rows = (rows', Some (status, doc))"
  shows "exchange server (agents_create L c req) rows = (rows', read_decoded L dec_agent_created (json_reply L status doc))"
proof -
  let ?q = "with_token (an_bearer c) (json_body (enc_create_agent_request req) (request POST (an_base_url c @ ''agents'')))"
  have "server ?q rows = (rows', Inr (json_reply L status doc))"
    by (rule registry_serves [where path = "[''agents'']" and handler = "write_create (enc_create_agent_request req)"])
      (simp_all add: routed_registry registry_routes assms(1))
  then show ?thesis by (simp add: agents_create_def agents_post_json_def routed_registry)
qed

lemma finds:
  assumes "carries L (JArray (map row_doc rows))"
  shows "exchange server (find_by_name L c t name) rows = (rows, Inr (find (\<lambda>r. ag_agent_name r = name) rows))"
proof -
  let ?q = "with_token (an_bearer c) (request GET (url_append_pair L (an_base_url c @ ''agents'') ''tenant'' t))"
  have "server ?q rows = (rows, Inr (json_reply L 200 (JArray (map row_doc rows))))"
    by (rule registry_serves [where path = "[''agents'']" and handler = write_list])
      (simp_all add: routed_registry registry_routes write_list_def)
  then show ?thesis
    using assms
    by (simp add: find_by_name_def agents_list_def agents_get_json_def routed_registry list_url_def no_filter_def
        read_decoded_reply rows_read del: dec_list.simps)
qed

end

interpretation sample_registry: registry_client sample_libs sample_agents
  by unfold_locales (simp_all add: sample_url_laws sample_query_laws sample_agents_base)

section \<open>Conversations\<close>

lemma find_update_first:
  "(\<And>x. P x \<Longrightarrow> P (f x)) \<Longrightarrow> find P (update_first P f xs) = map_option f (find P xs)"
  by (induction xs) auto

text \<open>
  Decommissioning through the client is final: the agent's state is \<open>decommissioned\<close>, and a
  later suspension through the client is answered by the conflict.
\<close>

theorem decommission_is_final:
  assumes "url_laws L" "query_laws L" "plain_base (an_base_url c)" "agent \<notin> {''.'', ''..''}"
    and "find (\<lambda>r. ag_id r = agent) rows = Some r"
    and "carries L (transition_doc AgentDecommissioned)" "carries L (error_doc ''agent_decommissioned'')"
  shows "\<exists>rows'. exchange (registry_server L (an_base_url c)) (decommission L c agent t why) rows
      = (rows', Inr \<lparr>lr_state = AgentDecommissioned, lr_state_changed_at = ''2026-05-04T00:30:00Z''\<rparr>)
    \<and> exchange (registry_server L (an_base_url c)) (suspend L c agent t why') rows'
      = (rows', Inl (Server 409 (json_text L (error_doc ''agent_decommissioned''))))"
proof -
  have client: "registry_client L c" using assms(1-3) by unfold_locales
  let ?rows = "update_first (\<lambda>r. ag_id r = agent)
    (\<lambda>r. r\<lparr>ag_state := AgentDecommissioned, ag_state_changed_at := ''2026-05-04T00:30:00Z''\<rparr>) rows"
  have "find (\<lambda>r. ag_id r = agent) ?rows
      = Some (r\<lparr>ag_state := AgentDecommissioned, ag_state_changed_at := ''2026-05-04T00:30:00Z''\<rparr>)"
    by (subst find_update_first) (simp_all add: assms(5))
  then have "transition agent AgentSuspended ?rows = (?rows, Some (409, error_doc ''agent_decommissioned''))"
    by (simp add: transition_def)
  moreover have "transition agent AgentDecommissioned rows = (?rows, Some (200, transition_doc AgentDecommissioned))"
    by (simp add: transition_def assms(5))
  ultimately show ?thesis
    using registry_client.changes_state [OF client assms(4), of "''decommission''" AgentDecommissioned]
      registry_client.changes_state [OF client assms(4), of "''suspend''" AgentSuspended] assms(6,7)
    by (simp add: decommission_def suspend_def read_decoded_reply transition_doc_read)
qed


text \<open>C23: provisioning is idempotent: a creation that succeeds lands the requested agent, so looking its
  name up finds a record that \<open>create_request_matches\<close>, and creating it again is refused as a
  conflict and changes nothing. This is the client against the registry of the write tests, in any
  state without an agent of that name, over any libraries that carry the three replies.\<close>

theorem creation_is_idempotent:
  assumes "url_laws L" "query_laws L" "plain_base (an_base_url c)"
    and "\<forall>r \<in> set rows. ag_agent_name r \<noteq> cr_agent_name req"
    and "r = created_record (cr_agent_name req) (cr_tenant req) (enc_create_agent_request req)"
    and "carries L (created_doc r)" "carries L (JArray (map row_doc (rows @ [r])))"
    and "carries L (error_doc ''agent_name_taken'')"
  shows "exchange (registry_server L (an_base_url c)) (agents_create L c req) rows
      = (rows @ [r], Inr \<lparr>ac_record = r, ac_spiffe_id_pattern = spiffe_pattern r\<rparr>)
    \<and> exchange (registry_server L (an_base_url c)) (find_by_name L c (cr_tenant req) (cr_agent_name req)) (rows @ [r])
      = (rows @ [r], Inr (Some r))
    \<and> create_request_matches req r
    \<and> exchange (registry_server L (an_base_url c)) (agents_create L c req) (rows @ [r])
      = (rows @ [r], Inl (Server 409 (json_text L (error_doc ''agent_name_taken''))))"
proof -
  have client: "registry_client L c" using assms(1-3) by unfold_locales
  let ?body = "enc_create_agent_request req"
  have members: "value_at ''agent_name'' ?body = JString (cr_agent_name req)"
    "value_at ''tenant'' ?body = JString (cr_tenant req)"
    "value_at ''owner_team'' ?body = JString (cr_owner_team req)"
    "value_at ''scope_envelope'' ?body = enc_list JString (cr_scope_envelope req)"
    "value_at ''yellow_envelope'' ?body = enc_list JString (cr_yellow_envelope req)"
    "value_at ''attestation_kinds'' ?body = enc_list JString (cr_attestation_kinds req)"
    by (simp_all add: enc_create_agent_request_def value_at_def)
  have strings: "strings_of (enc_list JString xs) = xs" for xs
    by (induction xs) (simp_all add: enc_list_def map_filter_simps)
  have name: "ag_agent_name r = cr_agent_name req"
    and certified: "ag_certified_at_version r = None" "ag_certified_at r = None"
    by (simp_all add: assms(5) created_record_def)
  have "write_create ?body rows = (rows @ [r], Some (201, created_doc r))"
    using assms(4) by (auto simp: write_create_def members unwrap_or_def assms(5) Let_def)
  from registry_client.creates [OF client this]
  have created: "exchange (registry_server L (an_base_url c)) (agents_create L c req) rows
      = (rows @ [r], Inr \<lparr>ac_record = r, ac_spiffe_id_pattern = spiffe_pattern r\<rparr>)"
    by (simp add: read_decoded_reply assms(6) created_doc_read certified)
  have "write_create ?body (rows @ [r]) = (rows @ [r], Some (409, error_doc ''agent_name_taken''))"
    by (simp add: write_create_def members unwrap_or_def name)
  from registry_client.creates [OF client this]
  have again: "exchange (registry_server L (an_base_url c)) (agents_create L c req) (rows @ [r])
      = (rows @ [r], Inl (Server 409 (json_text L (error_doc ''agent_name_taken''))))"
    by (simp add: read_decoded_reply assms(8))
  have "find (\<lambda>x. ag_agent_name x = cr_agent_name req) (rows @ [r]) = Some r"
    using assms(4) name by (induction rows) auto
  with registry_client.finds [OF client assms(7)] have found:
    "exchange (registry_server L (an_base_url c)) (find_by_name L c (cr_tenant req) (cr_agent_name req)) (rows @ [r])
      = (rows @ [r], Inr (Some r))" by simp
  have "create_request_matches req r"
    by (simp add: create_request_matches_def same_set_iff assms(5) created_record_def members strings unwrap_or_def)
  with created again found show ?thesis by blast
qed


section \<open>A conversation evaluated\<close>

definition sample_create :: create_agent_request where
  "sample_create = \<lparr>cr_tenant = ''acme'', cr_agent_name = ''bot'', cr_owner_team = ''team'',
     cr_scope_envelope = [''read''], cr_yellow_envelope = [], cr_attestation_kinds = [''tpm''],
     cr_description = None, cr_actor_sub = None\<rparr>"

definition sample_created :: agent_record where
  "sample_created = created_record ''bot'' ''acme'' (enc_create_agent_request sample_create)"

text \<open>Libraries whose texts of the three replies are single letters.\<close>

definition short_libs :: libs where
  "short_libs = sample_libs\<lparr>
     json_text := (\<lambda>j. if j = created_doc sample_created then ''c''
       else if j = JArray (map row_doc [sample_created]) then ''l'' else ''e''),
     json_parse := (\<lambda>s. if s = ''c'' then Some (created_doc sample_created)
       else if s = ''l'' then Some (JArray (map row_doc [sample_created])) else Some (error_doc ''agent_name_taken''))\<rparr>"

lemma short_urls: "url_join short_libs = url_join sample_libs" "url_append_pair short_libs = url_append_pair sample_libs"
  by (simp_all add: short_libs_def)

lemma short_laws: "url_laws short_libs" "query_laws short_libs"
  using sample_url_laws sample_query_laws by (simp_all only: url_laws_def query_laws_def short_urls)

lemma short_carries:
  "carries short_libs (created_doc sample_created)" "carries short_libs (JArray (map row_doc ([] @ [sample_created])))"
  "carries short_libs (error_doc ''agent_name_taken'')"
proof -
  let ?taken = "error_doc ''agent_name_taken''"
  have utf8: "from_utf8 ''c'' = Inr ''c'' \<and> from_utf8 ''l'' = Inr ''l'' \<and> from_utf8 ''e'' = Inr ''e''" by code_simp
  have "dec_agent_created (created_doc sample_created) \<noteq> None"
    by (simp add: created_doc_read sample_created_def created_record_def)
  moreover have "dec_agent_created (error_doc e) = None" "dec_agent_created (JArray xs) = None" for e xs
    by (simp_all add: dec_agent_created_def error_doc_def record_simps)
  ultimately have "created_doc sample_created \<noteq> error_doc e" "created_doc sample_created \<noteq> JArray xs" for e xs
    by metis+
  moreover have "error_doc e \<noteq> JArray xs" for e xs by (simp add: error_doc_def)
  ultimately have distinct: "created_doc sample_created \<noteq> error_doc e" "created_doc sample_created \<noteq> JArray xs"
    "error_doc e \<noteq> JArray xs" "error_doc e \<noteq> created_doc sample_created" "JArray xs \<noteq> created_doc sample_created" for e xs
    by metis+
  have texts: "json_text short_libs (created_doc sample_created) = ''c''"
    "json_text short_libs (JArray (map row_doc [sample_created])) = ''l''" "json_text short_libs ?taken = ''e''"
    and parses: "json_parse short_libs ''c'' = Some (created_doc sample_created)"
    "json_parse short_libs ''l'' = Some (JArray (map row_doc [sample_created]))" "json_parse short_libs ''e'' = Some ?taken"
    using distinct by (simp_all only: short_libs_def libs.simps refl if_True if_False char.inject list.inject simp_thms)
      simp_all
  from utf8 show "carries short_libs (created_doc sample_created)"
    "carries short_libs (JArray (map row_doc ([] @ [sample_created])))" "carries short_libs ?taken"
    by (simp_all only: carries_def texts parses append_Nil) (simp_all add: DEFAULT_RESPONSE_BODY_LIMIT_def)
qed

theorem creation_is_idempotent_witness:
  "exchange (registry_server short_libs ''http://i/'')
     (find_by_name short_libs sample_agents ''acme'' ''bot'') [sample_created]
   = ([sample_created], Inr (Some sample_created)) \<and> create_request_matches sample_create sample_created"
proof -
  have "\<forall>r \<in> set []. ag_agent_name r \<noteq> cr_agent_name sample_create" by simp
  moreover have "sample_created = created_record (cr_agent_name sample_create) (cr_tenant sample_create)
      (enc_create_agent_request sample_create)"
    by (simp add: sample_created_def sample_create_def)
  moreover have "plain_base (an_base_url sample_agents)" by (simp add: sample_agents_base)
  ultimately show ?thesis
    using creation_is_idempotent [OF short_laws, of sample_agents "[]" sample_create sample_created, OF _ _ _ short_carries]
    by (simp add: sample_create_def)
qed

end
