(* ===== verification/Tests_Registry.thy ===== *)
theory Tests_Registry
  imports Registry Tests_Agents
begin

text \<open>
  The tests of agents.rs that run the client against a server: the read-only mock, the registry of
  the write tests, and the handlers that answer one call with a fixed document after checking what
  they were sent. Each lemma takes from the libraries how the few URLs of the test are built and
  that the documents of the test survive the way.
\<close>

section \<open>The read-only mock\<close>

record mock_state =
  mk_records :: "agent_record list"
  mk_expected_tenant :: string

definition mock_list :: "mock_state \<Rightarrow> (string \<Rightarrow> string option) \<Rightarrow> json" where
  "mock_list state params =
    (let tenant = unwrap_or [] (params ''tenant'') in
     if tenant \<noteq> mk_expected_tenant state then JArray []
     else let out = filter (\<lambda>r. ag_tenant r = tenant) (mk_records state);
              out = (case Option.bind (params ''state'') parse_state of
                 None \<Rightarrow> out | Some s \<Rightarrow> filter (\<lambda>r. ag_state r = s) out);
              out = (case params ''owner_team'' of
                 None \<Rightarrow> out | Some team \<Rightarrow> filter (\<lambda>r. ag_owner_team r = team) out)
          in JArray (map row_doc out))"

definition mock_get :: "mock_state \<Rightarrow> string \<Rightarrow> (string \<Rightarrow> string option) \<Rightarrow> nat \<times> json" where
  "mock_get state i params =
    (let tenant = unwrap_or [] (params ''tenant'') in
     if tenant \<noteq> mk_expected_tenant state then (404, error_doc ''not_found'')
     else case find (\<lambda>r. ag_id r = i \<and> ag_tenant r = tenant) (mk_records state) of
         Some r \<Rightarrow> (200, row_doc r)
       | None \<Rightarrow> (404, error_doc ''not_found''))"

definition spawn_mock :: "libs \<Rightarrow> string \<Rightarrow> http_request \<Rightarrow> mock_state \<Rightarrow> mock_state \<times> (transport_error + http_response)" where
  "spawn_mock L base q state =
    (state, Inr (case segments base (hr_url q) of
       Some [s] \<Rightarrow> if s = ''agents'' \<and> hr_method q = GET
         then json_reply L 200 (mock_list state (query_params (hr_url q))) else text_reply 404 []
     | Some [s, i] \<Rightarrow> if s = ''agents'' \<and> hr_method q = GET
         then (case mock_get state i (query_params (hr_url q)) of (status, doc) \<Rightarrow> json_reply L status doc)
         else text_reply 404 []
     | _ \<Rightarrow> text_reply 404 []))"

lemma read_urls:
  "segments ''http://h/'' ''http://h/agents?tenant=acme'' = Some [''agents'']"
  "query_params ''http://h/agents?tenant=acme'' ''tenant'' = Some ''acme''"
  "query_params ''http://h/agents?tenant=acme'' ''state'' = None"
  "query_params ''http://h/agents?tenant=acme'' ''owner_team'' = None"
  "segments ''http://h/'' ''http://h/agents?tenant=acme&state=suspended&owner_team=infra'' = Some [''agents'']"
  "query_params ''http://h/agents?tenant=acme&state=suspended&owner_team=infra'' ''tenant'' = Some ''acme''"
  "query_params ''http://h/agents?tenant=acme&state=suspended&owner_team=infra'' ''state'' = Some ''suspended''"
  "query_params ''http://h/agents?tenant=acme&state=suspended&owner_team=infra'' ''owner_team'' = Some ''infra''"
  "segments ''http://h/'' ''http://h/agents/01HW-known?tenant=acme'' = Some [''agents'', ''01HW-known'']"
  "query_params ''http://h/agents/01HW-known?tenant=acme'' ''tenant'' = Some ''acme''"
  "segments ''http://h/'' ''http://h/agents/nope?tenant=acme'' = Some [''agents'', ''nope'']"
  "query_params ''http://h/agents/nope?tenant=acme'' ''tenant'' = Some ''acme''"
  by code_simp+

lemma read_paths: "percent_encode ''01HW-known'' = ''01HW-known''" "percent_encode ''nope'' = ''nope''"
  by code_simp+

lemmas served = agents_new_def parse_base_url_def knows_base_def ends_with_def agents_with_bearer_def
  agents_join_def join_endpoint_def agents_get_json_def agents_post_json_def Let_def

definition list_round_trips_records :: "libs \<Rightarrow> 'p option \<Rightarrow> transport_error + 'p \<Rightarrow> bool" where
  "list_round_trips_records L installed fresh \<longleftrightarrow>
    succeeds (map_sum id (agents_with_bearer ''dev-token'') (agents_new L installed fresh ''http://h/'')) (\<lambda>client.
      succeeds (snd (exchange (spawn_mock L ''http://h/'') (agents_list L client ''acme'' no_filter) \<lparr>mk_records = [record_fixture ''01HW...A001'' ''acme'' ''support-bot-3'' AgentActive ''payments'',
          record_fixture ''01HW...A002'' ''acme'' ''legacy-bot'' AgentSuspended ''infra''],
        mk_expected_tenant = ''acme''\<rparr>))
        (\<lambda>rows. length rows = 2 \<and> list_ex (\<lambda>r. ag_agent_name r = ''support-bot-3'') rows))"

lemma list_round_trips_records_passes:
  assumes "knows_base L ''http://h/'' ''http://h/''" and "default_provider installed fresh = Inr p" and "url_join L ''http://h/'' ''agents'' = Inr ''http://h/agents''" and "url_append_pair L ''http://h/agents'' ''tenant'' ''acme'' = ''http://h/agents?tenant=acme''" and "carries L (JArray (map row_doc [record_fixture ''01HW...A001'' ''acme'' ''support-bot-3'' AgentActive ''payments'',
      record_fixture ''01HW...A002'' ''acme'' ''legacy-bot'' AgentSuspended ''infra'']))"
  shows "list_round_trips_records L installed fresh"
  using assms by (simp add: list_round_trips_records_def served agents_list_def list_url_def no_filter_def agents_get_def
      spawn_mock_def mock_list_def mock_get_def read_urls read_paths unwrap_or_def read_decoded_reply row_doc_read
      record_fixture_def parse_state_def passing)

definition list_passes_filter_query_params :: "libs \<Rightarrow> 'p option \<Rightarrow> transport_error + 'p \<Rightarrow> bool" where
  "list_passes_filter_query_params L installed fresh \<longleftrightarrow>
    succeeds (map_sum id (agents_with_bearer ''dev-token'') (agents_new L installed fresh ''http://h/'')) (\<lambda>client.
      succeeds (snd (exchange (spawn_mock L ''http://h/'') (agents_list L client ''acme'' \<lparr>lf_state = Some AgentSuspended, lf_owner_team = Some ''infra''\<rparr>) \<lparr>mk_records = [record_fixture ''a1'' ''acme'' ''support-bot-3'' AgentActive ''payments'',
          record_fixture ''a2'' ''acme'' ''legacy-bot'' AgentSuspended ''infra''],
        mk_expected_tenant = ''acme''\<rparr>))
        (\<lambda>rows. length rows = 1 \<and> ag_agent_name (rows ! 0) = ''legacy-bot''))"

lemma list_passes_filter_query_params_passes:
  assumes "knows_base L ''http://h/'' ''http://h/''" and "default_provider installed fresh = Inr p" and "url_join L ''http://h/'' ''agents'' = Inr ''http://h/agents''" and "url_append_pair L ''http://h/agents'' ''tenant'' ''acme'' = ''http://h/agents?tenant=acme''" and "url_append_pair L ''http://h/agents?tenant=acme'' ''state'' ''suspended'' = ''http://h/agents?tenant=acme&state=suspended''" and "url_append_pair L ''http://h/agents?tenant=acme&state=suspended'' ''owner_team'' ''infra'' = ''http://h/agents?tenant=acme&state=suspended&owner_team=infra''" and "carries L (JArray [row_doc (record_fixture ''a2'' ''acme'' ''legacy-bot'' AgentSuspended ''infra'')])"
  shows "list_passes_filter_query_params L installed fresh"
  using assms by (simp add: list_passes_filter_query_params_def served agents_list_def list_url_def no_filter_def agents_get_def
      spawn_mock_def mock_list_def mock_get_def read_urls read_paths unwrap_or_def read_decoded_reply row_doc_read
      record_fixture_def parse_state_def passing)

definition get_round_trips_record :: "libs \<Rightarrow> 'p option \<Rightarrow> transport_error + 'p \<Rightarrow> bool" where
  "get_round_trips_record L installed fresh \<longleftrightarrow>
    succeeds (map_sum id (agents_with_bearer ''dev-token'') (agents_new L installed fresh ''http://h/'')) (\<lambda>client.
      succeeds (snd (exchange (spawn_mock L ''http://h/'') (agents_get L client ''01HW-known'' ''acme'') \<lparr>mk_records = [record_fixture ''01HW-known'' ''acme'' ''support-bot-3'' AgentActive ''payments''],
        mk_expected_tenant = ''acme''\<rparr>))
        (\<lambda>r. ag_agent_name r = ''support-bot-3'' \<and> ag_owner_team r = ''payments''))"

lemma get_round_trips_record_passes:
  assumes "knows_base L ''http://h/'' ''http://h/''" and "default_provider installed fresh = Inr p" and "url_join L ''http://h/'' ''agents/01HW-known'' = Inr ''http://h/agents/01HW-known''" and "url_append_pair L ''http://h/agents/01HW-known'' ''tenant'' ''acme'' = ''http://h/agents/01HW-known?tenant=acme''" and "carries L (row_doc (record_fixture ''01HW-known'' ''acme'' ''support-bot-3'' AgentActive ''payments''))"
  shows "get_round_trips_record L installed fresh"
  using assms by (simp add: get_round_trips_record_def served agents_list_def list_url_def no_filter_def agents_get_def
      spawn_mock_def mock_list_def mock_get_def read_urls read_paths unwrap_or_def read_decoded_reply row_doc_read
      record_fixture_def parse_state_def passing)

definition get_404_maps_to_server_error :: "libs \<Rightarrow> 'p option \<Rightarrow> transport_error + 'p \<Rightarrow> bool" where
  "get_404_maps_to_server_error L installed fresh \<longleftrightarrow>
    succeeds (map_sum id (agents_with_bearer ''dev-token'') (agents_new L installed fresh ''http://h/'')) (\<lambda>client.
      fails (snd (exchange (spawn_mock L ''http://h/'') (agents_get L client ''nope'' ''acme'') \<lparr>mk_records = [],
        mk_expected_tenant = ''acme''\<rparr>))
        (\<lambda>err. case err of Server status body \<Rightarrow> status = 404 \<and> contains body ''not_found'' | _ \<Rightarrow> False))"

lemma get_404_maps_to_server_error_passes:
  assumes "knows_base L ''http://h/'' ''http://h/''" and "default_provider installed fresh = Inr p" and "url_join L ''http://h/'' ''agents/nope'' = Inr ''http://h/agents/nope''" and "url_append_pair L ''http://h/agents/nope'' ''tenant'' ''acme'' = ''http://h/agents/nope?tenant=acme''" and "carries L (error_doc ''not_found'')" and "json_text L (error_doc ''not_found'') = (''{'' @ [CHR 0x22] @ ''error'' @ [CHR 0x22] @ '':'' @ [CHR 0x22] @ ''not_found'' @ [CHR 0x22] @ ''}'')"
  shows "get_404_maps_to_server_error L installed fresh"
  using assms by (simp add: get_404_maps_to_server_error_def served agents_list_def list_url_def no_filter_def agents_get_def
      spawn_mock_def mock_list_def mock_get_def read_urls read_paths unwrap_or_def read_decoded_reply row_doc_read
      record_fixture_def parse_state_def passing)

section \<open>Handlers that check what they were sent\<close>

lemma canned_urls:
  "segments ''http://h/'' ''http://h/tenants/acme/lifecycle'' = Some [''tenants'', ''acme'', ''lifecycle'']"
  "segments ''http://h/'' ''http://h/tenants/acme/offboard'' = Some [''tenants'', ''acme'', ''offboard'']"
  "percent_encode ''acme'' = ''acme''"
  "segments ''http://h/'' ''http://h/grants?tenant=acme&agent_name=support-bot-3&active=true'' = Some [''grants'']"
  "query_params ''http://h/grants?tenant=acme&agent_name=support-bot-3&active=true'' ''tenant'' = Some ''acme''"
  "query_params ''http://h/grants?tenant=acme&agent_name=support-bot-3&active=true'' ''agent_name'' = Some ''support-bot-3''"
  "segments ''http://h/'' ''http://h/agents/orphans?tenant=acme'' = Some [''agents'', ''orphans'']"
  "query_params ''http://h/agents/orphans?tenant=acme'' ''tenant'' = Some ''acme''"
  "percent_encode ''agent-1'' = ''agent-1''"
  "segments ''http://h/'' ''http://h/agents/agent-1/containment?tenant=acme'' = Some [''agents'', ''agent-1'', ''containment'']"
  "query_params ''http://h/agents/agent-1/containment?tenant=acme'' ''tenant'' = Some ''acme''"
  "segments ''http://h/'' ''http://h/agents/agent-1/containment/clear?tenant=acme''
     = Some [''agents'', ''agent-1'', ''containment'', ''clear'']"
  "query_params ''http://h/agents/agent-1/containment/clear?tenant=acme'' ''tenant'' = Some ''acme''"
  by code_simp+

lemma lifecycle_decoded:
  "\<exists>x. dec_tenant_lifecycle_operation (normalize (lifecycle_operation_json ''pending'')) = Some x \<and> tl_state x = OpPending"
  by (simp add: lifecycle_operation_json_def dec_tenant_lifecycle_operation_def dec_tenant_lifecycle_step_def
      dec_tenant_lifecycle_kind_def dec_tenant_lifecycle_operation_state_def dec_tenant_lifecycle_step_state_def
      dec_enum_def passing)

definition lifecycle_start_sends_immutable_idempotency_key :: "libs \<Rightarrow> 'p option \<Rightarrow> transport_error + 'p \<Rightarrow> bool" where
  "lifecycle_start_sends_immutable_idempotency_key L installed fresh \<longleftrightarrow>
    succeeds (map_sum id (agents_with_bearer ''operator-token'') (agents_new L installed fresh ''http://h/'')) (\<lambda>client.
      succeeds (snd (exchange (stateless (handler_at POST [''tenants'', ''acme'', ''lifecycle'']
          (\<lambda>q. header_of ''idempotency-key'' q = Some ''request-1''
             \<and> value_at ''kind'' (body_json q) = JString ''offboard''
             \<and> value_at ''confirm'' (body_json q) = JString ''acme'')
          (\<lambda>q. json_reply L 200 (normalize (lifecycle_operation_json ''pending'')))))
        (start_tenant_lifecycle L client ''acme'' ''request-1'' Offboard ''acme'' ''contract ended'') ()))
        (\<lambda>operation. tl_state operation = OpPending))"

lemma lifecycle_start_sends_immutable_idempotency_key_passes:
  assumes "knows_base L ''http://h/'' ''http://h/''" and "default_provider installed fresh = Inr p" and "url_join L ''http://h/'' ''tenants/acme/lifecycle'' = Inr ''http://h/tenants/acme/lifecycle''" and "carries L (normalize (lifecycle_operation_json ''pending''))"
  shows "lifecycle_start_sends_immutable_idempotency_key L installed fresh"
  proof -
  obtain x where "dec_tenant_lifecycle_operation (normalize (lifecycle_operation_json ''pending'')) = Some x"
    "tl_state x = OpPending" using lifecycle_decoded by blast
  with assms show ?thesis
    by (simp add: lifecycle_start_sends_immutable_idempotency_key_def start_tenant_lifecycle_def  served stateless_def handler_at_def lowered request_json
      canned_urls btree_of_def read_decoded_reply  passing)
qed

definition offboard_effect_sends_exact_operation_lease :: "libs \<Rightarrow> 'p option \<Rightarrow> transport_error + 'p \<Rightarrow> bool" where
  "offboard_effect_sends_exact_operation_lease L installed fresh \<longleftrightarrow>
    succeeds (map_sum id (agents_with_bearer ''operator-token'') (agents_new L installed fresh ''http://h/'')) (\<lambda>client.
      succeeds (snd (exchange (stateless (handler_at POST [''tenants'', ''acme'', ''offboard'']
          (\<lambda>q. header_of ''x-clavenar-lifecycle-operation'' q = Some ''operation-1''
             \<and> header_of ''x-clavenar-lifecycle-lease'' q = Some ''lease-1''
             \<and> value_at ''confirm'' (body_json q) = JString ''acme'')
          (\<lambda>q. json_reply L 200 (normalize (JObject [
        (''tenant'', JString ''acme''), (''agents_decommissioned'', JNumber (PosInt 2)),
        (''upstreams_retired'', JNumber (PosInt 1)), (''budget_cleared'', JBool True)])))))
        (offboard_tenant_effect L client ''acme'' ''acme'' (Some ''contract ended'') ''operation-1'' ''lease-1'') ()))
        (\<lambda>result. to_agents_decommissioned result = 2))"

lemma offboard_effect_sends_exact_operation_lease_passes:
  assumes "knows_base L ''http://h/'' ''http://h/''" and "default_provider installed fresh = Inr p" and "url_join L ''http://h/'' ''tenants/acme/offboard'' = Inr ''http://h/tenants/acme/offboard''" and "carries L (normalize (JObject [
        (''tenant'', JString ''acme''), (''agents_decommissioned'', JNumber (PosInt 2)),
        (''upstreams_retired'', JNumber (PosInt 1)), (''budget_cleared'', JBool True)]))"
  shows "offboard_effect_sends_exact_operation_lease L installed fresh"
  using assms by (simp add: offboard_effect_sends_exact_operation_lease_def offboard_tenant_effect_def dec_tenant_offboard_result_def
      served stateless_def handler_at_def lowered request_json
      canned_urls btree_of_def read_decoded_reply  passing)

definition list_active_grants_returns_consumption_rows :: "libs \<Rightarrow> 'p option \<Rightarrow> transport_error + 'p \<Rightarrow> bool" where
  "list_active_grants_returns_consumption_rows L installed fresh \<longleftrightarrow>
    succeeds (agents_new L installed fresh ''http://h/'') (\<lambda>client.
      succeeds (snd (exchange (stateless (handler_at GET [''grants'']
          (\<lambda>q. query_params (hr_url q) ''tenant'' = Some ''acme''
             \<and> query_params (hr_url q) ''agent_name'' = Some ''support-bot-3'')
          (\<lambda>q. json_reply L 200 (normalize (JObject [
        (''grants'', JArray [
          JObject [
            (''jti'', JString ''01HW-jit''),
            (''agent_spiffe'', JString ''spiffe://clavenar.local/tenant/acme/agent/support-bot-3''),
            (''human_sub'', JString ''user:alice@acme.com''), (''max_uses'', JNumber (PosInt 3)),
            (''uses'', JNumber (PosInt 1)), (''not_before'', JNull),
            (''not_after'', JString ''2026-06-11T06:00:00+00:00''),
            (''exp'', JString ''2026-06-11T06:00:00+00:00'')]])])))))
        (list_active_grants L client ''acme'' ''support-bot-3'') ()))
        (\<lambda>grants. length grants = 1 \<and> gc_max_uses (grants ! 0) = Some 3 \<and> gc_uses (grants ! 0) = 1
          \<and> gc_not_before (grants ! 0) = None))"

lemma list_active_grants_returns_consumption_rows_passes:
  assumes "knows_base L ''http://h/'' ''http://h/''" and "default_provider installed fresh = Inr p" and "url_join L ''http://h/'' ''grants'' = Inr ''http://h/grants''" and "url_append_pair L ''http://h/grants'' ''tenant'' ''acme'' = ''http://h/grants?tenant=acme''" and "url_append_pair L ''http://h/grants?tenant=acme'' ''agent_name'' ''support-bot-3'' = ''http://h/grants?tenant=acme&agent_name=support-bot-3''" and "url_append_pair L ''http://h/grants?tenant=acme&agent_name=support-bot-3'' ''active'' ''true'' = ''http://h/grants?tenant=acme&agent_name=support-bot-3&active=true''" and "carries L (normalize (JObject [
        (''grants'', JArray [
          JObject [
            (''jti'', JString ''01HW-jit''),
            (''agent_spiffe'', JString ''spiffe://clavenar.local/tenant/acme/agent/support-bot-3''),
            (''human_sub'', JString ''user:alice@acme.com''), (''max_uses'', JNumber (PosInt 3)),
            (''uses'', JNumber (PosInt 1)), (''not_before'', JNull),
            (''not_after'', JString ''2026-06-11T06:00:00+00:00''),
            (''exp'', JString ''2026-06-11T06:00:00+00:00'')]])]))"
  shows "list_active_grants_returns_consumption_rows L installed fresh"
  using assms by (simp add: list_active_grants_returns_consumption_rows_def list_active_grants_def dec_grants_response_def dec_grant_consumption_def
      served stateless_def handler_at_def lowered request_json
      canned_urls btree_of_def read_decoded_reply  passing)

definition list_orphans_round_trips_workloads :: "libs \<Rightarrow> 'p option \<Rightarrow> transport_error + 'p \<Rightarrow> bool" where
  "list_orphans_round_trips_workloads L installed fresh \<longleftrightarrow>
    succeeds (agents_new L installed fresh ''http://h/'') (\<lambda>client.
      succeeds (snd (exchange (stateless (handler_at GET [''agents'', ''orphans'']
          (\<lambda>q. query_params (hr_url q) ''tenant'' = Some ''acme'')
          (\<lambda>q. json_reply L 200 (normalize (JArray [
        JObject [
          (''agent_name'', JString ''ghost-bot''),
          (''last_seen'', JString ''2026-05-05T00:00:00Z''), (''svid_count'', JNumber (PosInt 2))],
        JObject [
          (''agent_name'', JString ''shadow-bot''),
          (''last_seen'', JString ''2026-05-04T00:00:00Z''), (''svid_count'', JNumber (PosInt 1))]])))))
        (list_orphans L client ''acme'') ()))
        (\<lambda>orphans. length orphans = 2 \<and> ow_agent_name (orphans ! 0) = ''ghost-bot''
          \<and> ow_svid_count (orphans ! 0) = 2))"

lemma list_orphans_round_trips_workloads_passes:
  assumes "knows_base L ''http://h/'' ''http://h/''" and "default_provider installed fresh = Inr p" and "url_join L ''http://h/'' ''agents/orphans'' = Inr ''http://h/agents/orphans''" and "url_append_pair L ''http://h/agents/orphans'' ''tenant'' ''acme'' = ''http://h/agents/orphans?tenant=acme''" and "carries L (normalize (JArray [
        JObject [
          (''agent_name'', JString ''ghost-bot''),
          (''last_seen'', JString ''2026-05-05T00:00:00Z''), (''svid_count'', JNumber (PosInt 2))],
        JObject [
          (''agent_name'', JString ''shadow-bot''),
          (''last_seen'', JString ''2026-05-04T00:00:00Z''), (''svid_count'', JNumber (PosInt 1))]]))"
  shows "list_orphans_round_trips_workloads L installed fresh"
  using assms by (simp add: list_orphans_round_trips_workloads_def list_orphans_def dec_orphan_workload_def
      served stateless_def handler_at_def lowered request_json
      canned_urls btree_of_def read_decoded_reply  passing)

definition containment_get_and_clear_round_trip :: "libs \<Rightarrow> 'p option \<Rightarrow> transport_error + 'p \<Rightarrow> bool" where
  "containment_get_and_clear_round_trip L installed fresh \<longleftrightarrow>
    succeeds (agents_new L installed fresh ''http://h/'') (\<lambda>client.
      let get_app = stateless (handler_at GET [''agents'', ''agent-1'', ''containment'']
            (\<lambda>q. query_params (hr_url q) ''tenant'' = Some ''acme'')
            (\<lambda>q. json_reply L 200 (normalize (JObject [
        (''force_hil'', JObject [
          (''expires_at'', JString ''2026-07-03T13:00:00Z''),
          (''reason'', JString ''deep-review Red finding: exfil''),
          (''correlation_id'', JString ''abc-123''),
          (''applied_at'', JString ''2026-07-03T12:30:00Z''), (''actor'', JString ''deep-review'')])]))));
          clear_app = stateless (handler_at POST [''agents'', ''agent-1'', ''containment'', ''clear'']
            (\<lambda>q. query_params (hr_url q) ''tenant'' = Some ''acme''
              \<and> value_at ''reason'' (body_json q) = JString ''false positive'')
            (\<lambda>q. json_reply L 200 (JObject [
        (''force_hil'', JNull)])))
      in succeeds (snd (exchange get_app (containment L client ''agent-1'' ''acme'') ())) (\<lambda>status.
          passes (cs_force_hil status) (\<lambda>flag.
            fh_expires_at flag = ''2026-07-03T13:00:00Z'' \<and> fh_correlation_id flag = Some ''abc-123''
            \<and> fh_actor flag = ''deep-review''))
        \<and> succeeds (snd (exchange clear_app (clear_containment L client ''agent-1'' ''acme'' (Some ''false positive'')) ()))
          (\<lambda>cleared. cs_force_hil cleared = None))"

lemma containment_get_and_clear_round_trip_passes:
  assumes "knows_base L ''http://h/'' ''http://h/''" and "default_provider installed fresh = Inr p" and "url_join L ''http://h/'' ''agents/agent-1/containment'' = Inr ''http://h/agents/agent-1/containment''" and "url_join L ''http://h/'' ''agents/agent-1/containment/clear'' = Inr ''http://h/agents/agent-1/containment/clear''" and "url_append_pair L ''http://h/agents/agent-1/containment'' ''tenant'' ''acme'' = ''http://h/agents/agent-1/containment?tenant=acme''" and "url_append_pair L ''http://h/agents/agent-1/containment/clear'' ''tenant'' ''acme'' = ''http://h/agents/agent-1/containment/clear?tenant=acme''" and "carries L (normalize (JObject [
        (''force_hil'', JObject [
          (''expires_at'', JString ''2026-07-03T13:00:00Z''),
          (''reason'', JString ''deep-review Red finding: exfil''),
          (''correlation_id'', JString ''abc-123''),
          (''applied_at'', JString ''2026-07-03T12:30:00Z''), (''actor'', JString ''deep-review'')])]))" and "carries L (JObject [
        (''force_hil'', JNull)])"
  shows "containment_get_and_clear_round_trip L installed fresh"
  using assms by (simp add: containment_get_and_clear_round_trip_def containment_def clear_containment_def id_with_tenant_def
      enc_lifecycle_request_def dec_containment_status_def dec_force_hil_flag_def
      served stateless_def handler_at_def lowered request_json
      canned_urls btree_of_def read_decoded_reply  passing)

section \<open>The write tests\<close>

definition dev_client :: "'p \<Rightarrow> 'p agents_client" where
  "dev_client p = \<lparr>an_base_url = ''http://h/'', an_http = p, an_bearer = Some ''dev-token''\<rparr>"

lemma dev_client_base [simp]: "an_base_url (dev_client p) = ''http://h/''"
  by (simp add: dev_client_def)

lemma dev_client_new:
  assumes "knows_base L ''http://h/'' ''http://h/''" "default_provider installed fresh = Inr p"
  shows "map_sum id (agents_with_bearer ''dev-token'') (agents_new L installed fresh ''http://h/'') = Inr (dev_client p)"
  using assms by (simp add: served dev_client_def)

lemma dev_registry: "url_laws L \<Longrightarrow> query_laws L \<Longrightarrow> registry_client L (dev_client p)"
  by unfold_locales (simp_all add: plain_base_def ends_with_def)

lemma fixture_found: "find (\<lambda>r. ag_id r = ag_id (fixture_record n)) [fixture_record n] = Some (fixture_record n)"
  by simp

lemma fixture_id: "ag_id (fixture_record n) \<notin> {''.'', ''..''}"
  by (simp add: fixture_record_def)

definition create_round_trips :: "libs \<Rightarrow> 'p option \<Rightarrow> transport_error + 'p \<Rightarrow> bool" where
  "create_round_trips L installed fresh \<longleftrightarrow>
    succeeds (map_sum id (agents_with_bearer ''dev-token'') (agents_new L installed fresh ''http://h/'')) (\<lambda>client.
      let req = \<lparr>cr_tenant = ''acme'', cr_agent_name = ''support-bot-3'',
        cr_owner_team = ''payments'', cr_scope_envelope = [''mcp:read:tickets''],
        cr_yellow_envelope = [], cr_attestation_kinds = [''dev-mock''],
        cr_description = Some ''triage'', cr_actor_sub = None\<rparr>
      in succeeds (snd (exchange (registry_server L ''http://h/'') (agents_create L client req) [])) (\<lambda>created.
        ag_agent_name (ac_record created) = ''support-bot-3'' \<and> ag_state (ac_record created) = AgentActive
        \<and> ends_with ''/agent/support-bot-3/instance/*'' (ac_spiffe_id_pattern created)))"

lemma create_round_trips_passes:
  assumes "knows_base L ''http://h/'' ''http://h/''" and "default_provider installed fresh = Inr p" and "url_laws L" and "query_laws L" and "carries L (created_doc (created_record ''support-bot-3'' ''acme'' (enc_create_agent_request (\<lparr>cr_tenant = ''acme'', cr_agent_name = ''support-bot-3'',
        cr_owner_team = ''payments'', cr_scope_envelope = [''mcp:read:tickets''],
        cr_yellow_envelope = [], cr_attestation_kinds = [''dev-mock''],
        cr_description = Some ''triage'', cr_actor_sub = None\<rparr>))))"
  shows "create_round_trips L installed fresh"
  proof -
  let ?r = "created_record ''support-bot-3'' ''acme'' (enc_create_agent_request (\<lparr>cr_tenant = ''acme'', cr_agent_name = ''support-bot-3'',
        cr_owner_team = ''payments'', cr_scope_envelope = [''mcp:read:tickets''],
        cr_yellow_envelope = [], cr_attestation_kinds = [''dev-mock''],
        cr_description = Some ''triage'', cr_actor_sub = None\<rparr>))"
  have "write_create (enc_create_agent_request (\<lparr>cr_tenant = ''acme'', cr_agent_name = ''support-bot-3'',
        cr_owner_team = ''payments'', cr_scope_envelope = [''mcp:read:tickets''],
        cr_yellow_envelope = [], cr_attestation_kinds = [''dev-mock''],
        cr_description = Some ''triage'', cr_actor_sub = None\<rparr>)) [] = ([?r], Some (201, created_doc ?r))"
    by (simp add: write_create_def enc_create_agent_request_def value_at_def unwrap_or_def Let_def)
  from registry_client.creates [OF dev_registry [OF assms(3,4)] this, of p] assms(5)
  show ?thesis
    by (simp add: create_round_trips_def dev_client_new [OF assms(1,2)] Let_def read_decoded_reply created_doc_read
        created_record_def spiffe_pattern_def ends_with_def passing)
qed

definition create_409_maps_to_server_error :: "libs \<Rightarrow> 'p option \<Rightarrow> transport_error + 'p \<Rightarrow> bool" where
  "create_409_maps_to_server_error L installed fresh \<longleftrightarrow>
    succeeds (map_sum id (agents_with_bearer ''dev-token'') (agents_new L installed fresh ''http://h/'')) (\<lambda>client.
      let req = \<lparr>cr_tenant = ''acme'', cr_agent_name = ''support-bot-3'',
        cr_owner_team = ''payments'', cr_scope_envelope = [], cr_yellow_envelope = [],
        cr_attestation_kinds = [], cr_description = None, cr_actor_sub = None\<rparr>
      in fails (snd (exchange (registry_server L ''http://h/'') (agents_create L client req) [fixture_record ''support-bot-3'']))
        (\<lambda>err. case err of Server status body \<Rightarrow> status = 409 \<and> contains body ''agent_name_taken'' | _ \<Rightarrow> False))"

lemma create_409_maps_to_server_error_passes:
  assumes "knows_base L ''http://h/'' ''http://h/''" and "default_provider installed fresh = Inr p" and "url_laws L" and "query_laws L" and "carries L (error_doc ''agent_name_taken'')" and "json_text L (error_doc ''agent_name_taken'') = (''{'' @ [CHR 0x22] @ ''error'' @ [CHR 0x22] @ '':'' @ [CHR 0x22] @ ''agent_name_taken'' @ [CHR 0x22] @ ''}'')"
  shows "create_409_maps_to_server_error L installed fresh"
  proof -
  have "write_create (enc_create_agent_request (\<lparr>cr_tenant = ''acme'', cr_agent_name = ''support-bot-3'',
        cr_owner_team = ''payments'', cr_scope_envelope = [], cr_yellow_envelope = [],
        cr_attestation_kinds = [], cr_description = None, cr_actor_sub = None\<rparr>)) [fixture_record ''support-bot-3'']
      = ([fixture_record ''support-bot-3''], Some (409, error_doc ''agent_name_taken''))"
    by (simp add: write_create_def enc_create_agent_request_def value_at_def unwrap_or_def Let_def fixture_record_def)
  from registry_client.creates [OF dev_registry [OF assms(3,4)] this, of p] assms(5,6)
  show ?thesis
    by (simp add: create_409_maps_to_server_error_def dev_client_new [OF assms(1,2)] Let_def read_decoded_reply passing)
qed

definition suspend_and_decommission_chain :: "libs \<Rightarrow> 'p option \<Rightarrow> transport_error + 'p \<Rightarrow> bool" where
  "suspend_and_decommission_chain L installed fresh \<longleftrightarrow>
    (let rec = fixture_record ''support-bot-3''; i = ag_id rec; S = registry_server L ''http://h/''
    in succeeds (map_sum id (agents_with_bearer ''dev-token'') (agents_new L installed fresh ''http://h/'')) (\<lambda>client.
      (case exchange S (suspend L client i ''acme'' (Some ''incident'')) [rec] of (rows1, resp1) \<Rightarrow>
       case exchange S (decommission L client i ''acme'' (Some ''team disbanded'')) rows1 of (rows2, resp2) \<Rightarrow>
         succeeds resp1 (\<lambda>resp. lr_state resp = AgentSuspended)
         \<and> succeeds resp2 (\<lambda>resp. lr_state resp = AgentDecommissioned)
         \<and> fails (snd (exchange S (suspend L client i ''acme'' None) rows2))
           (\<lambda>err. case err of Server status body \<Rightarrow> status = 409 \<and> contains body ''agent_decommissioned'' | _ \<Rightarrow> False))))"

lemma suspend_and_decommission_chain_passes:
  assumes "knows_base L ''http://h/'' ''http://h/''" and "default_provider installed fresh = Inr p" and "url_laws L" and "query_laws L" and "carries L (transition_doc AgentSuspended)" and "carries L (transition_doc AgentDecommissioned)" and "carries L (error_doc ''agent_decommissioned'')" and "json_text L (error_doc ''agent_decommissioned'') = (''{'' @ [CHR 0x22] @ ''error'' @ [CHR 0x22] @ '':'' @ [CHR 0x22] @ ''agent_decommissioned'' @ [CHR 0x22] @ ''}'')"
  shows "suspend_and_decommission_chain L installed fresh"
  proof -
  let ?i = "ag_id (fixture_record ''support-bot-3'')"
  let ?at = "\<lambda>s. (fixture_record ''support-bot-3'')\<lparr>ag_state := s, ag_state_changed_at := ''2026-05-04T00:30:00Z''\<rparr>"
  have steps: "transition ?i AgentSuspended [fixture_record ''support-bot-3''] = ([?at AgentSuspended], Some (200, transition_doc AgentSuspended))"
    "transition ?i AgentDecommissioned [?at AgentSuspended] = ([?at AgentDecommissioned], Some (200, transition_doc AgentDecommissioned))"
    "transition ?i AgentSuspended [?at AgentDecommissioned] = ([?at AgentDecommissioned], Some (409, error_doc ''agent_decommissioned''))"
    by (simp_all add: transition_def fixture_record_def)
  note call = registry_client.changes_state [OF dev_registry [OF assms(3,4)] fixture_id]
  show ?thesis
    using assms(5-8) call [OF _ steps(1), of "''suspend''" p] call [OF _ steps(2), of "''decommission''" p]
      call [OF _ steps(3), of "''suspend''" p]
    by (simp add: suspend_and_decommission_chain_def dev_client_new [OF assms(1,2)] Let_def suspend_def
        decommission_def read_decoded_reply transition_doc_read passing)
qed

definition find_by_name_returns_match_and_none :: "libs \<Rightarrow> 'p option \<Rightarrow> transport_error + 'p \<Rightarrow> bool" where
  "find_by_name_returns_match_and_none L installed fresh \<longleftrightarrow>
    succeeds (map_sum id (agents_with_bearer ''dev-token'') (agents_new L installed fresh ''http://h/'')) (\<lambda>client.
      let rows = [fixture_record ''support-bot-3'']; S = registry_server L ''http://h/''
      in succeeds (snd (exchange S (find_by_name L client ''acme'' ''support-bot-3'') rows)) (\<lambda>found. found \<noteq> None)
        \<and> succeeds (snd (exchange S (find_by_name L client ''acme'' ''no-such-bot'') rows)) (\<lambda>nope. nope = None))"

lemma find_by_name_returns_match_and_none_passes:
  assumes "knows_base L ''http://h/'' ''http://h/''" and "default_provider installed fresh = Inr p" and "url_laws L" and "query_laws L" and "carries L (JArray (map row_doc [fixture_record ''support-bot-3'']))"
  shows "find_by_name_returns_match_and_none L installed fresh"
  using registry_client.finds [OF dev_registry [OF assms(3,4)] assms(5), of p]
    by (simp add: find_by_name_returns_match_and_none_def dev_client_new [OF assms(1,2)] Let_def fixture_record_def passing)

definition transfer_owner_team_round_trips :: "libs \<Rightarrow> 'p option \<Rightarrow> transport_error + 'p \<Rightarrow> bool" where
  "transfer_owner_team_round_trips L installed fresh \<longleftrightarrow>
    (let rec = fixture_record ''support-bot-3''
    in succeeds (map_sum id (agents_with_bearer ''dev-token'') (agents_new L installed fresh ''http://h/'')) (\<lambda>client.
      succeeds (snd (exchange (registry_server L ''http://h/'') (transfer_owner_team L client (ag_id rec) ''acme'' ''newteam'') [rec]))
        (\<lambda>updated. ag_owner_team updated = ''newteam'')))"

lemma transfer_owner_team_round_trips_passes:
  assumes "knows_base L ''http://h/'' ''http://h/''" and "default_provider installed fresh = Inr p" and "url_laws L" and "query_laws L" and "carries L (row_doc ((fixture_record ''support-bot-3'')\<lparr>ag_owner_team := ''newteam''\<rparr>))"
  shows "transfer_owner_team_round_trips L installed fresh"
  proof -
  let ?body = "normalize (JObject [(''owner_team'', JString ''newteam'')])"
  let ?r = "(fixture_record ''support-bot-3'')\<lparr>ag_owner_team := ''newteam''\<rparr>"
  have verb: "''owner-team'' \<in> set agent_verbs" "verb_segments ''owner-team'' = [''owner-team'']"
    by (simp_all add: agent_verbs_def verb_segments_def)
  have "write_transfer (ag_id (fixture_record ''support-bot-3'')) ?body [fixture_record ''support-bot-3''] = ([?r], Some (200, row_doc ?r))"
    by (simp add: write_transfer_def value_at_def btree_of_def unwrap_or_def Let_def)
  with registry_client.posts [where L = L and c = "dev_client p" and agent = "ag_id (fixture_record ''support-bot-3'')"
      and verb = "''owner-team''" and body = ?body and d = dec_agent_record and t = "''acme''"
      and handler = "write_transfer (ag_id (fixture_record ''support-bot-3'')) ?body",
      OF dev_registry [OF assms(3,4)] fixture_id verb(1)]
  show ?thesis using assms(5)
    by (simp add: transfer_owner_team_round_trips_def dev_client_new [OF assms(1,2)] Let_def transfer_owner_team_def
        verb(2) registry_routes read_decoded_reply row_doc_read passing)
qed

definition envelope_narrow_subset_succeeds_offenders_named_on_violation :: "libs \<Rightarrow> 'p option \<Rightarrow> transport_error + 'p \<Rightarrow> bool" where
  "envelope_narrow_subset_succeeds_offenders_named_on_violation L installed fresh \<longleftrightarrow>
    (let rec = fixture_record ''support-bot-3''; i = ag_id rec; S = registry_server L ''http://h/'';
         smaller = [''mcp:read:tickets'']; bad = [''mcp:write:invoices'']
    in succeeds (map_sum id (agents_with_bearer ''dev-token'') (agents_new L installed fresh ''http://h/'')) (\<lambda>client.
      (case exchange S (envelope_narrow L client i ''acme''
           \<lparr>er_scope_envelope = smaller, er_yellow_envelope = [], er_reason = None\<rparr>) [rec] of (rows, resp) \<Rightarrow>
         succeeds resp (\<lambda>updated. ag_scope_envelope updated = smaller)
         \<and> fails (snd (exchange S (envelope_narrow L client i ''acme''
             \<lparr>er_scope_envelope = bad, er_yellow_envelope = [], er_reason = None\<rparr>) rows))
           (\<lambda>err. case err of Server status body \<Rightarrow> status = 422 \<and> contains body ''envelope_not_narrower''
               \<and> contains body ''mcp:write:invoices'' | _ \<Rightarrow> False))))"

lemma envelope_narrow_subset_succeeds_offenders_named_on_violation_passes:
  assumes "knows_base L ''http://h/'' ''http://h/''" and "default_provider installed fresh = Inr p" and "url_laws L" and "query_laws L" and "carries L (row_doc ((fixture_record ''support-bot-3'')\<lparr>ag_scope_envelope := [''mcp:read:tickets'']\<rparr>))" and "carries L (JObject [(''error'', JString ''envelope_not_narrower''), (''offenders'', JArray [JString ''mcp:write:invoices''])])" and "json_text L (JObject [(''error'', JString ''envelope_not_narrower''), (''offenders'', JArray [JString ''mcp:write:invoices''])]) =
      (''{'' @ [CHR 0x22] @ ''error'' @ [CHR 0x22] @ '':'' @ [CHR 0x22] @ ''envelope_not_narrower'' @ [CHR 0x22] @ '','' @ [CHR 0x22] @ ''offenders'' @ [CHR 0x22] @ '':['' @ [CHR 0x22] @ ''mcp:write:invoices'' @ [CHR 0x22] @ '']}'')"
  shows "envelope_narrow_subset_succeeds_offenders_named_on_violation L installed fresh"
  proof -
  let ?i = "ag_id (fixture_record ''support-bot-3'')" and ?r = "(fixture_record ''support-bot-3'')\<lparr>ag_scope_envelope := [''mcp:read:tickets'']\<rparr>"
  let ?body = "\<lambda>scope. enc_envelope_request \<lparr>er_scope_envelope = scope, er_yellow_envelope = [], er_reason = None\<rparr>"
  have verb: "''envelope/narrow'' \<in> set agent_verbs" "verb_segments ''envelope/narrow'' = [''envelope'', ''narrow'']"
    by (simp_all add: agent_verbs_def verb_segments_def)
  have steps: "write_narrow ?i (?body [''mcp:read:tickets'']) [fixture_record ''support-bot-3''] = ([?r], Some (200, row_doc ?r))"
    "write_narrow ?i (?body [''mcp:write:invoices'']) [?r] = ([?r], Some (422, JObject [(''error'', JString ''envelope_not_narrower''), (''offenders'', JArray [JString ''mcp:write:invoices''])]))"
    by (simp_all add: write_narrow_def enc_envelope_request_def value_at_def enc_list_def map_filter_simps fixture_record_def Let_def)
  note call = registry_client.posts [where L = L and c = "dev_client p" and agent = ?i and verb = "''envelope/narrow''"
      and d = dec_agent_record and t = "''acme''", OF dev_registry [OF assms(3,4)] fixture_id verb(1)]
  show ?thesis
    using assms(5-7) call [where handler = "write_narrow ?i (?body [''mcp:read:tickets''])", OF _ steps(1)]
      call [where handler = "write_narrow ?i (?body [''mcp:write:invoices''])", OF _ steps(2)]
    by (simp add: envelope_narrow_subset_succeeds_offenders_named_on_violation_def dev_client_new [OF assms(1,2)]
        Let_def envelope_narrow_def verb(2) registry_routes read_decoded_reply row_doc_read passing)
qed

end
