(* ===== verification/Tests_Served.thy ===== *)
theory Tests_Served
  imports Serving Sim
begin

text \<open>
  The tests of ledger.rs and sim.rs that run the client against a server: canned documents, a
  server that keeps the request URIs it saw, and handlers that keep the query, the headers or the
  body of the latest request for the test to look at. The instants of \<open>from_timestamp\<close> are
  arguments; each lemma takes their text from the libraries, how the URLs of the test are built and
  that its documents survive the way.
\<close>

text \<open>A handler that keeps what \<open>see\<close> takes from the request before it answers.\<close>

definition keeping ::
  "http_method \<Rightarrow> string list \<Rightarrow> (http_request \<Rightarrow> 'n) \<Rightarrow> (http_request \<Rightarrow> http_response)
   \<Rightarrow> http_request \<Rightarrow> 'n \<Rightarrow> 'n \<times> (transport_error + http_response)" where
  "keeping m path see answer q n =
     (if segments ''http://h/'' (hr_url q) \<noteq> Some path then (n, Inr (text_reply 404 []))
      else if hr_method q \<noteq> m then (n, Inr (text_reply 405 []))
      else (see q, Inr (answer q)))"

lemma shown:
  "show_u32 30 = ''30''" "show_u32 7 = ''7''" "show_u32 1 = ''1''" "show_u32 14 = ''14''" "show_u32 24 = ''24''"
  "show_i64 200 = ''200''" "show_u64 10 = ''10''" "show_u64 0 = ''0''"
  "percent_encode ''acme'' = ''acme''" "percent_encode ''bot'' = ''bot''"
  "percent_encode ''01HW-AGENT-uuid'' = ''01HW-AGENT-uuid''" "percent_encode ''jwt.with/slash'' = ''jwt.with%2Fslash''"
  "percent_encode ''egress_violation'' = ''egress_violation''"
  "percent_encode ''2026-01-02T00:00:00Z'' = ''2026-01-02T00%3A00%3A00Z''"
  "percent_encode ''2026-05-01T00:00:00+00:00'' = ''2026-05-01T00%3A00%3A00%2B00%3A00''"
  "percent_encode ''2023-11-14T22:13:20Z'' = ''2023-11-14T22%3A13%3A20Z''"
  "percent_encode ''2023-11-15T01:00:00Z'' = ''2023-11-15T01%3A00%3A00Z''"
  by code_simp+

lemma ledger_built:
  assumes "knows_base L ''http://h/'' ''http://h/''" "default_provider installed fresh = Inr p"
  shows "ledger_new L installed fresh ''http://h/'' = Inr \<lparr>lc_base_url = ''http://h/'', lc_http = p\<rparr>"
  using assms by (simp add: ledger_new_def parse_base_url_def knows_base_def ends_with_def)

lemmas reading = ledger_get_json_def ledger_join_def join_endpoint_def query_start_def amp_def amp_opt_def
  rfc3339_param_def shown

section \<open>Lifecycle rows\<close>

definition lifecycle_doc :: "string \<Rightarrow> string \<Rightarrow> json" where
  "lifecycle_doc tenant agent_id =
    normalize (JArray [
        JObject [
          (''id'', JString ''01940000-0000-7000-8000-000000000001''),
          (''timestamp'', JString ''2026-05-05T14:00:00Z''), (''agent_id'', JString agent_id),
          (''method'', JString ''agent.registered''), (''intent_category'', JString ''Lifecycle''),
          (''authorized'', JBool True), (''reasoning'', JString []), (''policy_decision'', JNull),
          (''seq'', JNumber (PosInt 1)), (''prev_hash'', JString (repeat_str 32 ''00'')),
          (''entry_hash'', JString (repeat_str 32 ''ab'')), (''chain_version'', JNumber (PosInt 3)),
          (''event_kind'', JString ''agent.registered''), (''tenant'', JString tenant),
          (''agent_name'', JString ''support-bot-3''),
          (''actor_sub'', JString ''user:alice@acme.com''), (''actor_idp'', JString ''okta''),
          (''payload_sha256'', JString (repeat_str 32 ''cd'')),
          (''payload'', JObject [
            (''owner_team'', JString ''payments'')])],
        JObject [
          (''id'', JString ''01940000-0000-7000-8000-000000000002''),
          (''timestamp'', JString ''2026-05-05T14:30:00Z''), (''agent_id'', JString agent_id),
          (''method'', JString ''agent.suspended''), (''intent_category'', JString ''Lifecycle''),
          (''authorized'', JBool True), (''reasoning'', JString []), (''policy_decision'', JNull),
          (''seq'', JNumber (PosInt 2)), (''prev_hash'', JString (repeat_str 32 ''ab'')),
          (''entry_hash'', JString (repeat_str 32 ''ef'')), (''chain_version'', JNumber (PosInt 3)),
          (''event_kind'', JString ''agent.suspended''), (''tenant'', JString tenant),
          (''agent_name'', JString ''support-bot-3''),
          (''actor_sub'', JString ''user:alice@acme.com''), (''actor_idp'', JString ''okta''),
          (''payload_sha256'', JString (repeat_str 32 ''01'')),
          (''payload'', JObject [
            (''state_before'', JString ''active''), (''state_after'', JString ''suspended'')])]])"

lemma lifecycle_url:
  "segments ''http://h/'' ''http://h/audit/agent/acme/01HW-AGENT-uuid/lifecycle'' = Some [''audit'', ''agent'', ''acme'', ''01HW-AGENT-uuid'', ''lifecycle'']"
  by code_simp+

definition lifecycle_app :: "libs \<Rightarrow> http_request \<Rightarrow> unit \<Rightarrow> unit \<times> (transport_error + http_response)" where
  "lifecycle_app L q u =
    (u, Inr (case segments ''http://h/'' (hr_url q) of
       Some path \<Rightarrow>
         if length path = 5 \<and> take 2 path = [''audit'', ''agent''] \<and> path ! 4 = ''lifecycle'' \<and> hr_method q = GET
         then json_reply L 200 (lifecycle_doc (path ! 2) (path ! 3)) else text_reply 404 []
     | None \<Rightarrow> text_reply 404 []))"

definition lifecycle_for_agent_round_trips_against_mock :: "libs \<Rightarrow> 'p option \<Rightarrow> transport_error + 'p \<Rightarrow> bool" where
  "lifecycle_for_agent_round_trips_against_mock L installed fresh \<longleftrightarrow>
    succeeds (ledger_new L installed fresh ''http://h/'') (\<lambda>client.
      succeeds (snd (exchange (lifecycle_app L) (lifecycle_for_agent L client ''acme'' ''01HW-AGENT-uuid'') ())) (\<lambda>rows.
        length rows = 2
        \<and> le_event_kind (lr_entry (rows ! 0)) = Some ''agent.registered''
        \<and> le_event_kind (lr_entry (rows ! 1)) = Some ''agent.suspended''
        \<and> passes (lr_payload (rows ! 1)) (\<lambda>payload. value_at ''state_after'' payload = JString ''suspended'')))"

lemma lifecycle_for_agent_round_trips_against_mock_passes:
  assumes "knows_base L ''http://h/'' ''http://h/''" and "default_provider installed fresh = Inr p" and "url_join L ''http://h/'' ''audit/agent/acme/01HW-AGENT-uuid/lifecycle'' = Inr ''http://h/audit/agent/acme/01HW-AGENT-uuid/lifecycle''" and "carries L (lifecycle_doc ''acme'' ''01HW-AGENT-uuid'')" and "knows_uuid L ''01940000-0000-7000-8000-000000000001'' u" and "knows_uuid L ''01940000-0000-7000-8000-000000000002'' v" and "knows_time L ''2026-05-05T14:00:00Z'' t1" and "knows_time L ''2026-05-05T14:30:00Z'' t2"
  shows "lifecycle_for_agent_round_trips_against_mock L installed fresh"
  using assms(3-8)
  by (simp add: lifecycle_for_agent_round_trips_against_mock_def ledger_built [OF assms(1,2)] lifecycle_for_agent_def reading outcome_simps
      lifecycle_app_def lifecycle_url read_ok_reply)
    (simp add: lifecycle_doc_def dec_lifecycle_row_def dec_ledger_entry_def dec_uuid_def dec_datetime_def default_chain_version_def
      knows_uuid_def knows_time_def passing)

section \<open>The tenant of the analyses\<close>

definition profile_doc :: "json" where
  "profile_doc =
    JObject [
        (''since'', JString ''2026-05-01T00:00:00Z''),
        (''until'', JString ''2026-05-02T00:00:00Z''), (''total'', JNumber (PosInt 0)),
        (''authorized'', JNumber (PosInt 0)), (''denied'', JNumber (PosInt 0)),
        (''deny_rate'', JNumber (Float 0x0000000000000000)),
        (''intent_mean'', JNumber (Float 0x0000000000000000)), (''tool_mix'', JArray []),
        (''hourly'', JArray [
          JNumber (PosInt 0),
          JNumber (PosInt 0),
          JNumber (PosInt 0),
          JNumber (PosInt 0),
          JNumber (PosInt 0),
          JNumber (PosInt 0),
          JNumber (PosInt 0),
          JNumber (PosInt 0),
          JNumber (PosInt 0),
          JNumber (PosInt 0),
          JNumber (PosInt 0),
          JNumber (PosInt 0),
          JNumber (PosInt 0),
          JNumber (PosInt 0),
          JNumber (PosInt 0),
          JNumber (PosInt 0),
          JNumber (PosInt 0),
          JNumber (PosInt 0),
          JNumber (PosInt 0),
          JNumber (PosInt 0),
          JNumber (PosInt 0),
          JNumber (PosInt 0),
          JNumber (PosInt 0),
          JNumber (PosInt 0)])]"

definition canary_window_doc :: "json" where
  "canary_window_doc =
    JObject [
        (''since'', JString ''2026-05-01T00:00:00Z''),
        (''until'', JString ''2026-05-02T00:00:00Z''), (''total'', JNumber (PosInt 0)),
        (''authorized'', JNumber (PosInt 0)), (''denied'', JNumber (PosInt 0)),
        (''deny_rate'', JNumber (Float 0x0000000000000000)),
        (''intent_mean'', JNumber (Float 0x0000000000000000)), (''signal_mix'', JArray []),
        (''models'', JArray []), (''models_sampled'', JNumber (PosInt 0))]"

definition analysis_body :: "string \<Rightarrow> json" where
  "analysis_body p =
    (if starts_with ''/audit/'' p then JArray []
     else if p = ''/analysis/agent-envelope-recommendations'' then JObject [
        (''agent_id'', JString ''bot''), (''window_days'', JNumber (PosInt 30)),
        (''since'', JString ''2026-05-01T00:00:00Z''),
        (''until'', JString ''2026-05-31T00:00:00Z''), (''total_calls'', JNumber (PosInt 0)),
        (''used_tools'', JArray [])]
     else if p = ''/analysis/agent-behavioral-baseline'' then JObject [
        (''agent_id'', JString ''bot''), (''baseline_days'', JNumber (PosInt 30)),
        (''recent_days'', JNumber (PosInt 7)), (''baseline'', profile_doc),
        (''recent'', profile_doc),
        (''deviation'', JObject [
          (''tool_mix'', JNumber (Float 0x0000000000000000)),
          (''hourly'', JNumber (Float 0x0000000000000000)),
          (''intent'', JNumber (Float 0x0000000000000000)),
          (''deny_rate'', JNumber (Float 0x0000000000000000)),
          (''overall'', JNumber (Float 0x0000000000000000))]),
        (''diff'', JObject [
          (''new_tools'', JArray []), (''vanished_tools'', JArray []),
          (''deny_rate_delta'', JNumber (Float 0x0000000000000000)),
          (''intent_delta'', JNumber (Float 0x0000000000000000)),
          (''total_delta'', JNumber (PosInt 0))]),
        (''drifted'', JBool False), (''insufficient'', JBool True)]
     else if p = ''/analysis/silent-agents'' then JObject [
        (''threshold_hours'', JNumber (PosInt 1)),
        (''generated_at'', JString ''2026-05-01T00:00:00Z''), (''silent_agents'', JArray []),
        (''active_total'', JNumber (PosInt 0))]
     else if p = ''/analysis/fleet-behavioral-diff'' then JObject [
        (''baseline_days'', JNumber (PosInt 14)), (''recent_days'', JNumber (PosInt 7)),
        (''since_baseline'', JString ''2026-05-01T00:00:00Z''),
        (''since_recent'', JString ''2026-05-08T00:00:00Z''),
        (''now'', JString ''2026-05-15T00:00:00Z''), (''agents'', JArray []),
        (''returned'', JNumber (PosInt 0))]
     else if p = ''/analysis/model-upgrade-canary'' then JObject [
        (''cutover'', JString ''2026-05-02T00:00:00Z''), (''window_hours'', JNumber (PosInt 24)),
        (''before'', canary_window_doc), (''after'', canary_window_doc),
        (''deltas'', JObject [
          (''deny_rate_delta'', JNumber (Float 0x0000000000000000)),
          (''intent_mean_delta'', JNumber (Float 0x0000000000000000)),
          (''total_delta'', JNumber (PosInt 0)), (''new_signals'', JArray []),
          (''vanished_signals'', JArray [])]),
        (''model_changed'', JBool False), (''insufficient'', JBool True)]
     else JObject [])"

definition analysis_app :: "libs \<Rightarrow> http_request \<Rightarrow> string list \<Rightarrow> string list \<times> (transport_error + http_response)" where
  "analysis_app L q seen =
    (let uri = CHR ''/'' # drop (length ''http://h/'') (hr_url q) in
     if hr_method q = GET then (seen @ [uri], Inr (json_reply L 200 (normalize (analysis_body (path_part uri)))))
     else (seen, Inr (text_reply 405 [])))"

lemma seen_paths:
  "path_part ''/audit/bot?limit=10&offset=0&since=2026-05-01T00%3A00%3A00%2B00%3A00&tenant=acme'' = ''/audit/bot''"
  "path_part ''/analysis/agent-envelope-recommendations?agent_id=bot&window_days=30&tenant=acme'' = ''/analysis/agent-envelope-recommendations''"
  "path_part ''/analysis/agent-behavioral-baseline?agent_id=bot&baseline_days=30&recent_days=7&tenant=acme'' = ''/analysis/agent-behavioral-baseline''"
  "path_part ''/analysis/silent-agents?since_hours=1&tenant=acme'' = ''/analysis/silent-agents''"
  "path_part ''/analysis/fleet-behavioral-diff?baseline_days=14&recent_days=7&limit=200&tenant=acme'' = ''/analysis/fleet-behavioral-diff''"
  "path_part ''/analysis/model-upgrade-canary?window_hours=24&tenant=acme'' = ''/analysis/model-upgrade-canary''"
  by code_simp+

lemma analysis_decodes:
  "dec_list (dec_ledger_entry L) (normalize (analysis_body ''/audit/bot'')) \<noteq> None"
  "dec_envelope_analysis_t (normalize (analysis_body ''/analysis/agent-envelope-recommendations'')) \<noteq> None"
  "dec_behavioral_baseline_t (normalize (analysis_body ''/analysis/agent-behavioral-baseline'')) \<noteq> None"
  "dec_silent_agents_report (normalize (analysis_body ''/analysis/silent-agents'')) \<noteq> None"
  "dec_fleet_behavioral_diff (normalize (analysis_body ''/analysis/fleet-behavioral-diff'')) \<noteq> None"
  "dec_model_upgrade_canary (normalize (analysis_body ''/analysis/model-upgrade-canary'')) \<noteq> None"
  by (simp_all add: analysis_body_def canary_window_doc_def dec_baseline_deviation_def dec_baseline_window_profile_def dec_behavioral_baseline_t_def dec_canary_deltas_def dec_canary_window_def dec_envelope_analysis_t_def dec_f64_def dec_fleet_behavioral_diff_def dec_model_upgrade_canary_def dec_silent_agents_report_def dec_window_diff_def profile_doc_def passing)

definition answered :: "libs \<Rightarrow> (clavenar_error, 'a) prog \<Rightarrow> string list \<Rightarrow> string \<Rightarrow> bool" where
  "answered L p seen uri \<longleftrightarrow> (\<exists>x. exchange (analysis_app L) p seen = (seen @ [uri], Inr x))"

lemma analysis_answered:
  assumes "carries L (normalize (analysis_body (path_part (CHR ''/'' # rest))))"
    and "d (normalize (analysis_body (path_part (CHR ''/'' # rest)))) \<noteq> None"
    and "url_join L ''http://h/'' rest = Inr (''http://h/'' @ rest)" and "lc_base_url c = ''http://h/''"
  shows "answered L (ledger_get_json L c d rest) seen (CHR ''/'' # rest)"
  using assms by (auto simp: answered_def ledger_get_json_def ledger_join_def join_endpoint_def analysis_app_def
      Let_def read_ok_reply)

lemma answered_then:
  "answered L p seen uri \<Longrightarrow>
    (case exchange (analysis_app L) p seen of (s, r) \<Rightarrow> succeeds r (\<lambda>_. K s)) = K (seen @ [uri])"
  by (auto simp: answered_def passing)

lemma scoped_uris: "list_all (\<lambda>uri. contains uri ''tenant=acme'') [''/audit/bot?limit=10&offset=0&since=2026-05-01T00%3A00%3A00%2B00%3A00&tenant=acme'',
    ''/analysis/agent-envelope-recommendations?agent_id=bot&window_days=30&tenant=acme'',
    ''/analysis/agent-behavioral-baseline?agent_id=bot&baseline_days=30&recent_days=7&tenant=acme'',
    ''/analysis/silent-agents?since_hours=1&tenant=acme'',
    ''/analysis/fleet-behavioral-diff?baseline_days=14&recent_days=7&limit=200&tenant=acme'',
    ''/analysis/model-upgrade-canary?window_hours=24&tenant=acme'']"
  by code_simp

definition tenant_scoped_analysis_methods_append_tenant_query :: "libs \<Rightarrow> 'p option \<Rightarrow> transport_error + 'p \<Rightarrow> bool" where
  "tenant_scoped_analysis_methods_append_tenant_query L installed fresh \<longleftrightarrow>
    succeeds (ledger_new L installed fresh ''http://h/'') (\<lambda>client. passes (rfc3339_parse L ''2026-05-01T00:00:00Z'') (\<lambda>since.
        (case exchange (analysis_app L) (audit_agent_paged_since_for_tenant L client ''bot'' 10 0 since (Some ''acme'')) [] of (seen1, r1) \<Rightarrow> succeeds r1 (\<lambda>_.
        (case exchange (analysis_app L) (envelope_analysis_for_tenant L client ''bot'' 30 (Some ''acme'')) seen1 of (seen2, r2) \<Rightarrow> succeeds r2 (\<lambda>_.
        (case exchange (analysis_app L) (behavioral_baseline_for_tenant L client ''bot'' 30 7 (Some ''acme'')) seen2 of (seen3, r3) \<Rightarrow> succeeds r3 (\<lambda>_.
        (case exchange (analysis_app L) (silent_agents_for_tenant L client 1 (Some ''acme'')) seen3 of (seen4, r4) \<Rightarrow> succeeds r4 (\<lambda>_.
        (case exchange (analysis_app L) (fleet_behavioral_diff_for_tenant L client 14 7 200 (Some ''acme'')) seen4 of (seen5, r5) \<Rightarrow> succeeds r5 (\<lambda>_.
        (case exchange (analysis_app L) (model_upgrade_canary_for_tenant L client None 24 (Some ''acme'')) seen5 of (seen6, r6) \<Rightarrow> succeeds r6 (\<lambda>_.
          length seen6 = 6 \<and> list_all (\<lambda>uri. contains uri ''tenant=acme'') seen6))))))))))))))"

lemma tenant_scoped_analysis_methods_append_tenant_query_passes:
  assumes "knows_base L ''http://h/'' ''http://h/''" and "default_provider installed fresh = Inr p" and "knows_time L ''2026-05-01T00:00:00Z'' t" and "to_rfc3339 L t = ''2026-05-01T00:00:00+00:00''" and "url_join L ''http://h/'' ''audit/bot?limit=10&offset=0&since=2026-05-01T00%3A00%3A00%2B00%3A00&tenant=acme'' = Inr ''http://h/audit/bot?limit=10&offset=0&since=2026-05-01T00%3A00%3A00%2B00%3A00&tenant=acme''" and "url_join L ''http://h/'' ''analysis/agent-envelope-recommendations?agent_id=bot&window_days=30&tenant=acme'' = Inr ''http://h/analysis/agent-envelope-recommendations?agent_id=bot&window_days=30&tenant=acme''" and "url_join L ''http://h/'' ''analysis/agent-behavioral-baseline?agent_id=bot&baseline_days=30&recent_days=7&tenant=acme'' = Inr ''http://h/analysis/agent-behavioral-baseline?agent_id=bot&baseline_days=30&recent_days=7&tenant=acme''" and "url_join L ''http://h/'' ''analysis/silent-agents?since_hours=1&tenant=acme'' = Inr ''http://h/analysis/silent-agents?since_hours=1&tenant=acme''" and "url_join L ''http://h/'' ''analysis/fleet-behavioral-diff?baseline_days=14&recent_days=7&limit=200&tenant=acme'' = Inr ''http://h/analysis/fleet-behavioral-diff?baseline_days=14&recent_days=7&limit=200&tenant=acme''" and "url_join L ''http://h/'' ''analysis/model-upgrade-canary?window_hours=24&tenant=acme'' = Inr ''http://h/analysis/model-upgrade-canary?window_hours=24&tenant=acme''" and "\<forall>p. carries L (normalize (analysis_body p))"
  shows "tenant_scoped_analysis_methods_append_tenant_query L installed fresh"
  proof -
  let ?c = "\<lparr>lc_base_url = ''http://h/'', lc_http = p\<rparr>"
  have c1: "answered L (audit_agent_paged_since_for_tenant L ?c ''bot'' 10 0 t (Some ''acme'')) seen ''/audit/bot?limit=10&offset=0&since=2026-05-01T00%3A00%3A00%2B00%3A00&tenant=acme''" for seen
    using analysis_answered [of L "tl ''/audit/bot?limit=10&offset=0&since=2026-05-01T00%3A00%3A00%2B00%3A00&tenant=acme''" "dec_list (dec_ledger_entry L)" ?c seen] assms(4,5,11) analysis_decodes
    by (simp add: audit_agent_paged_since_for_tenant_def reading seen_paths)
  have c2: "answered L (envelope_analysis_for_tenant L ?c ''bot'' 30 (Some ''acme'')) seen ''/analysis/agent-envelope-recommendations?agent_id=bot&window_days=30&tenant=acme''" for seen
    using analysis_answered [of L "tl ''/analysis/agent-envelope-recommendations?agent_id=bot&window_days=30&tenant=acme''" "dec_envelope_analysis_t" ?c seen] assms(4,6,11) analysis_decodes
    by (simp add: envelope_analysis_for_tenant_def reading seen_paths)
  have c3: "answered L (behavioral_baseline_for_tenant L ?c ''bot'' 30 7 (Some ''acme'')) seen ''/analysis/agent-behavioral-baseline?agent_id=bot&baseline_days=30&recent_days=7&tenant=acme''" for seen
    using analysis_answered [of L "tl ''/analysis/agent-behavioral-baseline?agent_id=bot&baseline_days=30&recent_days=7&tenant=acme''" "dec_behavioral_baseline_t" ?c seen] assms(4,7,11) analysis_decodes
    by (simp add: behavioral_baseline_for_tenant_def reading seen_paths)
  have c4: "answered L (silent_agents_for_tenant L ?c 1 (Some ''acme'')) seen ''/analysis/silent-agents?since_hours=1&tenant=acme''" for seen
    using analysis_answered [of L "tl ''/analysis/silent-agents?since_hours=1&tenant=acme''" "dec_silent_agents_report" ?c seen] assms(4,8,11) analysis_decodes
    by (simp add: silent_agents_for_tenant_def reading seen_paths)
  have c5: "answered L (fleet_behavioral_diff_for_tenant L ?c 14 7 200 (Some ''acme'')) seen ''/analysis/fleet-behavioral-diff?baseline_days=14&recent_days=7&limit=200&tenant=acme''" for seen
    using analysis_answered [of L "tl ''/analysis/fleet-behavioral-diff?baseline_days=14&recent_days=7&limit=200&tenant=acme''" "dec_fleet_behavioral_diff" ?c seen] assms(4,9,11) analysis_decodes
    by (simp add: fleet_behavioral_diff_for_tenant_def fleet_behavioral_diff_scoped_def reading seen_paths)
  have c6: "answered L (model_upgrade_canary_for_tenant L ?c None 24 (Some ''acme'')) seen ''/analysis/model-upgrade-canary?window_hours=24&tenant=acme''" for seen
    using analysis_answered [of L "tl ''/analysis/model-upgrade-canary?window_hours=24&tenant=acme''" "dec_model_upgrade_canary" ?c seen] assms(4,10,11) analysis_decodes
    by (simp add: model_upgrade_canary_for_tenant_def model_upgrade_canary_scoped_def reading seen_paths)
  show ?thesis
    using assms(3) scoped_uris
    by (simp add: tenant_scoped_analysis_methods_append_tenant_query_def ledger_built [OF assms(1,2)] knows_time_def outcome_simps
        answered_then [OF c1] answered_then [OF c2] answered_then [OF c3] answered_then [OF c4] answered_then [OF c5]
        answered_then [OF c6] del: contains.simps)
qed

section \<open>Queries the server receives\<close>

definition fleet_doc :: "json" where
  "fleet_doc =
    normalize (JObject [
        (''baseline_days'', JNumber (PosInt 14)), (''recent_days'', JNumber (PosInt 7)),
        (''since_baseline'', JString ''2026-01-01T00:00:00Z''),
        (''since_recent'', JString ''2026-01-08T00:00:00Z''),
        (''now'', JString ''2026-01-15T00:00:00Z''), (''agents'', JArray []),
        (''returned'', JNumber (PosInt 0))])"

lemma fleet_behavioral_diff_threads_demo_session_token_query_param_url:
  "segments ''http://h/'' ''http://h/analysis/fleet-behavioral-diff?baseline_days=14&recent_days=7&limit=200&demo_session_token=jwt.with%2Fslash&tenant=acme'' = Some [''analysis'', ''fleet-behavioral-diff'']"
  "query_params ''http://h/analysis/fleet-behavioral-diff?baseline_days=14&recent_days=7&limit=200&demo_session_token=jwt.with%2Fslash&tenant=acme'' ''baseline_days'' = Some ''14''"
  "query_params ''http://h/analysis/fleet-behavioral-diff?baseline_days=14&recent_days=7&limit=200&demo_session_token=jwt.with%2Fslash&tenant=acme'' ''recent_days'' = Some ''7''"
  "query_params ''http://h/analysis/fleet-behavioral-diff?baseline_days=14&recent_days=7&limit=200&demo_session_token=jwt.with%2Fslash&tenant=acme'' ''limit'' = Some ''200''"
  "query_params ''http://h/analysis/fleet-behavioral-diff?baseline_days=14&recent_days=7&limit=200&demo_session_token=jwt.with%2Fslash&tenant=acme'' ''demo_session_token'' = Some ''jwt.with/slash''"
  "query_params ''http://h/analysis/fleet-behavioral-diff?baseline_days=14&recent_days=7&limit=200&demo_session_token=jwt.with%2Fslash&tenant=acme'' ''tenant'' = Some ''acme''"
  by code_simp+

definition fleet_behavioral_diff_threads_demo_session_token_query_param :: "libs \<Rightarrow> 'p option \<Rightarrow> transport_error + 'p \<Rightarrow> bool" where
  "fleet_behavioral_diff_threads_demo_session_token_query_param L installed fresh \<longleftrightarrow>
    succeeds (ledger_new L installed fresh ''http://h/'') (\<lambda>client.
      (case exchange (keeping GET [''analysis'', ''fleet-behavioral-diff''] (\<lambda>q. query_params (hr_url q)) (\<lambda>q. json_reply L 200 fleet_doc))
          (fleet_behavioral_diff_scoped L client 14 7 200 \<lparr>fs_demo_session_token = Some ''jwt.with/slash'', fs_tenant = Some ''acme''\<rparr>) (\<lambda>_. None) of (q, r) \<Rightarrow>
        succeeds r (\<lambda>result. fb_agents result = [])
        \<and> q ''baseline_days'' = Some ''14''
        \<and> q ''recent_days'' = Some ''7''
        \<and> q ''limit'' = Some ''200''
        \<and> q ''demo_session_token'' = Some ''jwt.with/slash''
        \<and> q ''tenant'' = Some ''acme''))"

lemma fleet_behavioral_diff_threads_demo_session_token_query_param_passes:
  assumes "knows_base L ''http://h/'' ''http://h/''" and "default_provider installed fresh = Inr p" and "url_join L ''http://h/'' ''analysis/fleet-behavioral-diff?baseline_days=14&recent_days=7&limit=200&demo_session_token=jwt.with%2Fslash&tenant=acme'' = Inr ''http://h/analysis/fleet-behavioral-diff?baseline_days=14&recent_days=7&limit=200&demo_session_token=jwt.with%2Fslash&tenant=acme''" and "carries L fleet_doc"
  shows "fleet_behavioral_diff_threads_demo_session_token_query_param L installed fresh"
  using assms(3-)
  by (simp add: fleet_behavioral_diff_threads_demo_session_token_query_param_def ledger_built [OF assms(1,2)] fleet_behavioral_diff_scoped_def reading outcome_simps
      keeping_def fleet_behavioral_diff_threads_demo_session_token_query_param_url read_ok_reply)
    (simp add: fleet_doc_def dec_fleet_behavioral_diff_def passing)

definition canary_doc :: "json" where
  "canary_doc =
    normalize (JObject [
        (''cutover'', JString ''2026-01-02T00:00:00Z''), (''window_hours'', JNumber (PosInt 24)),
        (''before'', JObject [
          (''since'', JString ''2026-01-01T00:00:00Z''),
          (''until'', JString ''2026-01-02T00:00:00Z''), (''total'', JNumber (PosInt 0)),
          (''authorized'', JNumber (PosInt 0)), (''denied'', JNumber (PosInt 0)),
          (''deny_rate'', JNumber (Float 0x0000000000000000)),
          (''intent_mean'', JNumber (Float 0x0000000000000000)), (''signal_mix'', JArray []),
          (''models'', JArray []), (''models_sampled'', JNumber (PosInt 0))]),
        (''after'', JObject [
          (''since'', JString ''2026-01-02T00:00:00Z''),
          (''until'', JString ''2026-01-03T00:00:00Z''), (''total'', JNumber (PosInt 0)),
          (''authorized'', JNumber (PosInt 0)), (''denied'', JNumber (PosInt 0)),
          (''deny_rate'', JNumber (Float 0x0000000000000000)),
          (''intent_mean'', JNumber (Float 0x0000000000000000)), (''signal_mix'', JArray []),
          (''models'', JArray []), (''models_sampled'', JNumber (PosInt 0))]),
        (''deltas'', JObject [
          (''deny_rate_delta'', JNumber (Float 0x0000000000000000)),
          (''intent_mean_delta'', JNumber (Float 0x0000000000000000)),
          (''total_delta'', JNumber (PosInt 0)), (''new_signals'', JArray []),
          (''vanished_signals'', JArray [])]),
        (''model_changed'', JBool False), (''insufficient'', JBool True)])"

lemma model_canary_threads_demo_session_token_query_param_url:
  "segments ''http://h/'' ''http://h/analysis/model-upgrade-canary?window_hours=24&cutover=2026-01-02T00%3A00%3A00Z&demo_session_token=jwt.with%2Fslash&tenant=acme'' = Some [''analysis'', ''model-upgrade-canary'']"
  "query_params ''http://h/analysis/model-upgrade-canary?window_hours=24&cutover=2026-01-02T00%3A00%3A00Z&demo_session_token=jwt.with%2Fslash&tenant=acme'' ''window_hours'' = Some ''24''"
  "query_params ''http://h/analysis/model-upgrade-canary?window_hours=24&cutover=2026-01-02T00%3A00%3A00Z&demo_session_token=jwt.with%2Fslash&tenant=acme'' ''cutover'' = Some ''2026-01-02T00:00:00Z''"
  "query_params ''http://h/analysis/model-upgrade-canary?window_hours=24&cutover=2026-01-02T00%3A00%3A00Z&demo_session_token=jwt.with%2Fslash&tenant=acme'' ''demo_session_token'' = Some ''jwt.with/slash''"
  "query_params ''http://h/analysis/model-upgrade-canary?window_hours=24&cutover=2026-01-02T00%3A00%3A00Z&demo_session_token=jwt.with%2Fslash&tenant=acme'' ''tenant'' = Some ''acme''"
  by code_simp+

definition model_canary_threads_demo_session_token_query_param :: "libs \<Rightarrow> 'p option \<Rightarrow> transport_error + 'p \<Rightarrow> bool" where
  "model_canary_threads_demo_session_token_query_param L installed fresh \<longleftrightarrow>
    succeeds (ledger_new L installed fresh ''http://h/'') (\<lambda>client.
      (case exchange (keeping GET [''analysis'', ''model-upgrade-canary''] (\<lambda>q. query_params (hr_url q)) (\<lambda>q. json_reply L 200 canary_doc))
          (model_upgrade_canary_scoped L client (Some ''2026-01-02T00:00:00Z'') 24 \<lparr>ms_demo_session_token = Some ''jwt.with/slash'', ms_tenant = Some ''acme''\<rparr>) (\<lambda>_. None) of (q, r) \<Rightarrow>
        succeeds r (\<lambda>result. mu_insufficient result)
        \<and> q ''window_hours'' = Some ''24''
        \<and> q ''cutover'' = Some ''2026-01-02T00:00:00Z''
        \<and> q ''demo_session_token'' = Some ''jwt.with/slash''
        \<and> q ''tenant'' = Some ''acme''))"

lemma model_canary_threads_demo_session_token_query_param_passes:
  assumes "knows_base L ''http://h/'' ''http://h/''" and "default_provider installed fresh = Inr p" and "url_join L ''http://h/'' ''analysis/model-upgrade-canary?window_hours=24&cutover=2026-01-02T00%3A00%3A00Z&demo_session_token=jwt.with%2Fslash&tenant=acme'' = Inr ''http://h/analysis/model-upgrade-canary?window_hours=24&cutover=2026-01-02T00%3A00%3A00Z&demo_session_token=jwt.with%2Fslash&tenant=acme''" and "carries L canary_doc"
  shows "model_canary_threads_demo_session_token_query_param L installed fresh"
  using assms(3-)
  by (simp add: model_canary_threads_demo_session_token_query_param_def ledger_built [OF assms(1,2)] model_upgrade_canary_scoped_def reading outcome_simps
      keeping_def model_canary_threads_demo_session_token_query_param_url read_ok_reply)
    (simp add: canary_doc_def dec_model_upgrade_canary_def dec_canary_window_def dec_canary_deltas_def dec_f64_def passing)

definition hunt_doc :: "json" where
  "hunt_doc =
    normalize (JObject [
        (''agents'', JArray []), (''returned'', JNumber (PosInt 0))])"

lemma hunt_threads_demo_session_token_query_param_url:
  "segments ''http://h/'' ''http://h/audit/hunt?limit=200&signal=egress_violation&demo_session_token=jwt.with%2Fslash&tenant=acme'' = Some [''audit'', ''hunt'']"
  "query_params ''http://h/audit/hunt?limit=200&signal=egress_violation&demo_session_token=jwt.with%2Fslash&tenant=acme'' ''limit'' = Some ''200''"
  "query_params ''http://h/audit/hunt?limit=200&signal=egress_violation&demo_session_token=jwt.with%2Fslash&tenant=acme'' ''signal'' = Some ''egress_violation''"
  "query_params ''http://h/audit/hunt?limit=200&signal=egress_violation&demo_session_token=jwt.with%2Fslash&tenant=acme'' ''demo_session_token'' = Some ''jwt.with/slash''"
  "query_params ''http://h/audit/hunt?limit=200&signal=egress_violation&demo_session_token=jwt.with%2Fslash&tenant=acme'' ''tenant'' = Some ''acme''"
  by code_simp+

definition hunt_threads_demo_session_token_query_param :: "libs \<Rightarrow> 'p option \<Rightarrow> transport_error + 'p \<Rightarrow> bool" where
  "hunt_threads_demo_session_token_query_param L installed fresh \<longleftrightarrow>
    succeeds (ledger_new L installed fresh ''http://h/'') (\<lambda>client.
      (case exchange (keeping GET [''audit'', ''hunt''] (\<lambda>q. query_params (hr_url q)) (\<lambda>q. json_reply L 200 hunt_doc))
          (hunt L client \<lparr>hn_method = None, hn_signal = Some ''egress_violation'', hn_authorized = None, hn_from = None,
            hn_to = None, hn_limit = 200, hn_demo_session_token = Some ''jwt.with/slash'', hn_tenant = Some ''acme''\<rparr>) (\<lambda>_. None) of (q, r) \<Rightarrow>
        succeeds r (\<lambda>result. hu_agents result = [])
        \<and> q ''limit'' = Some ''200''
        \<and> q ''signal'' = Some ''egress_violation''
        \<and> q ''demo_session_token'' = Some ''jwt.with/slash''
        \<and> q ''tenant'' = Some ''acme''))"

lemma hunt_threads_demo_session_token_query_param_passes:
  assumes "knows_base L ''http://h/'' ''http://h/''" and "default_provider installed fresh = Inr p" and "url_join L ''http://h/'' ''audit/hunt?limit=200&signal=egress_violation&demo_session_token=jwt.with%2Fslash&tenant=acme'' = Inr ''http://h/audit/hunt?limit=200&signal=egress_violation&demo_session_token=jwt.with%2Fslash&tenant=acme''" and "carries L hunt_doc"
  shows "hunt_threads_demo_session_token_query_param L installed fresh"
  using assms(3-)
  by (simp add: hunt_threads_demo_session_token_query_param_def ledger_built [OF assms(1,2)] hunt_def reading outcome_simps
      keeping_def hunt_threads_demo_session_token_query_param_url read_ok_reply)
    (simp add: hunt_doc_def dec_hunt_result_def passing)

section \<open>Regulatory exports\<close>

record captured =
  cp_tenant :: string
  cp_from :: string
  cp_to :: string
  cp_include_exports :: "string option"
  cp_include_compliance :: "string option"
  cp_content_type :: "string option"
  cp_body_len :: nat

definition no_capture :: "captured" where
  "no_capture =
    \<lparr>cp_tenant = [], cp_from = [], cp_to = [], cp_include_exports = None, cp_include_compliance = None,
      cp_content_type = None, cp_body_len = 0\<rparr>"

definition bytes_sent :: "http_request \<Rightarrow> string" where
  "bytes_sent q = (case hr_body q of BytesBody b \<Rightarrow> b | _ \<Rightarrow> [])"

definition export_capture :: "http_request \<Rightarrow> captured" where
  "export_capture q =
    (let params = query_params (hr_url q) in
     \<lparr>cp_tenant = unwrap_or [] (params ''tenant''), cp_from = unwrap_or [] (params ''from''),
       cp_to = unwrap_or [] (params ''to''), cp_include_exports = params ''include_exports'',
       cp_include_compliance = params ''include_compliance'', cp_content_type = header_of ''content-type'' q,
       cp_body_len = length (bytes_sent q)\<rparr>)"

definition placeholder :: "string" where
  "placeholder =
    [CHR 0x1F, CHR 0x8B, CHR 0x08, CHR 0x00, CHR 0x00, CHR 0x00, CHR 0x00, CHR 0x00]"

text \<open>What the handler keeps of the three requests.\<close>

lemma export_urls:
  "segments ''http://h/'' ''http://h/export/regulatory?tenant=acme&from=2023-11-14T22%3A13%3A20Z&to=2023-11-15T01%3A00%3A00Z'' = Some [''export'', ''regulatory'']"
  "query_params ''http://h/export/regulatory?tenant=acme&from=2023-11-14T22%3A13%3A20Z&to=2023-11-15T01%3A00%3A00Z'' ''tenant'' = Some ''acme''"
  "query_params ''http://h/export/regulatory?tenant=acme&from=2023-11-14T22%3A13%3A20Z&to=2023-11-15T01%3A00%3A00Z'' ''from'' = Some ''2023-11-14T22:13:20Z''"
  "query_params ''http://h/export/regulatory?tenant=acme&from=2023-11-14T22%3A13%3A20Z&to=2023-11-15T01%3A00%3A00Z'' ''to'' = Some ''2023-11-15T01:00:00Z''"
  "query_params ''http://h/export/regulatory?tenant=acme&from=2023-11-14T22%3A13%3A20Z&to=2023-11-15T01%3A00%3A00Z'' ''include_exports'' = None"
  "query_params ''http://h/export/regulatory?tenant=acme&from=2023-11-14T22%3A13%3A20Z&to=2023-11-15T01%3A00%3A00Z'' ''include_compliance'' = None"
  "segments ''http://h/'' ''http://h/export/regulatory?tenant=acme&from=2023-11-14T22%3A13%3A20Z&to=2023-11-15T01%3A00%3A00Z&include_exports=true'' = Some [''export'', ''regulatory'']"
  "query_params ''http://h/export/regulatory?tenant=acme&from=2023-11-14T22%3A13%3A20Z&to=2023-11-15T01%3A00%3A00Z&include_exports=true'' ''tenant'' = Some ''acme''"
  "query_params ''http://h/export/regulatory?tenant=acme&from=2023-11-14T22%3A13%3A20Z&to=2023-11-15T01%3A00%3A00Z&include_exports=true'' ''from'' = Some ''2023-11-14T22:13:20Z''"
  "query_params ''http://h/export/regulatory?tenant=acme&from=2023-11-14T22%3A13%3A20Z&to=2023-11-15T01%3A00%3A00Z&include_exports=true'' ''to'' = Some ''2023-11-15T01:00:00Z''"
  "query_params ''http://h/export/regulatory?tenant=acme&from=2023-11-14T22%3A13%3A20Z&to=2023-11-15T01%3A00%3A00Z&include_exports=true'' ''include_exports'' = Some ''true''"
  "query_params ''http://h/export/regulatory?tenant=acme&from=2023-11-14T22%3A13%3A20Z&to=2023-11-15T01%3A00%3A00Z&include_exports=true'' ''include_compliance'' = None"
  "segments ''http://h/'' ''http://h/export/regulatory?tenant=acme&from=2023-11-14T22%3A13%3A20Z&to=2023-11-15T01%3A00%3A00Z&include_compliance=true'' = Some [''export'', ''regulatory'']"
  "query_params ''http://h/export/regulatory?tenant=acme&from=2023-11-14T22%3A13%3A20Z&to=2023-11-15T01%3A00%3A00Z&include_compliance=true'' ''tenant'' = Some ''acme''"
  "query_params ''http://h/export/regulatory?tenant=acme&from=2023-11-14T22%3A13%3A20Z&to=2023-11-15T01%3A00%3A00Z&include_compliance=true'' ''from'' = Some ''2023-11-14T22:13:20Z''"
  "query_params ''http://h/export/regulatory?tenant=acme&from=2023-11-14T22%3A13%3A20Z&to=2023-11-15T01%3A00%3A00Z&include_compliance=true'' ''to'' = Some ''2023-11-15T01:00:00Z''"
  "query_params ''http://h/export/regulatory?tenant=acme&from=2023-11-14T22%3A13%3A20Z&to=2023-11-15T01%3A00%3A00Z&include_compliance=true'' ''include_exports'' = None"
  "query_params ''http://h/export/regulatory?tenant=acme&from=2023-11-14T22%3A13%3A20Z&to=2023-11-15T01%3A00%3A00Z&include_compliance=true'' ''include_compliance'' = Some ''true''"
  by code_simp+

lemma archive_kept: "read_archive (text_reply 200 placeholder) = Inr placeholder"
  by (simp add: read_archive_def is_success_def text_reply_def read_body_limited_def BINARY_RESPONSE_BODY_LIMIT_def
      placeholder_def)

lemma placeholder_size: "length placeholder = 8"
  by (simp add: placeholder_def)

definition regulatory_export_threads_query_params_and_optional_readme :: "libs \<Rightarrow> 'p option \<Rightarrow> transport_error + 'p \<Rightarrow> datetime \<Rightarrow> datetime \<Rightarrow> bool" where
  "regulatory_export_threads_query_params_and_optional_readme L installed fresh from to \<longleftrightarrow>
    succeeds (ledger_new L installed fresh ''http://h/'') (\<lambda>client.
      let app = keeping POST [''export'', ''regulatory''] export_capture (\<lambda>q. text_reply 200 placeholder);
          prose = (''# Clavenar'' @ [CHR 0x0A] @ [CHR 0x0A] @ ''Prose here.'' @ [CHR 0x0A])
      in (case exchange app (regulatory_export L client from to \<lparr>ro_tenant = Some ''acme'', ro_readme = None, ro_include_exports = False, ro_include_compliance = False\<rparr>) no_capture of (c, r) \<Rightarrow>
          succeeds r (\<lambda>bytes. length bytes = 8)
          \<and> starts_with ''2023-'' (cp_from c) \<and> starts_with ''2023-'' (cp_to c) \<and> cp_tenant c = ''acme''
          \<and> cp_include_exports c = None \<and> (cp_content_type c = None \<or> cp_body_len c = 0) \<and> cp_body_len c = 0
          \<and> (case exchange app (regulatory_export L client from to \<lparr>ro_tenant = Some ''acme'', ro_readme = Some prose, ro_include_exports = True, ro_include_compliance = False\<rparr>) c of (c, r) \<Rightarrow>
              succeeds r (\<lambda>_. True)
              \<and> cp_include_exports c = Some ''true'' \<and> cp_include_compliance c = None
              \<and> cp_content_type c = Some ''text/markdown'' \<and> cp_body_len c = length prose
              \<and> (case exchange app (regulatory_export L client from to \<lparr>ro_tenant = Some ''acme'', ro_readme = None, ro_include_exports = False, ro_include_compliance = True\<rparr>) c of (c, r) \<Rightarrow>
                  succeeds r (\<lambda>_. True) \<and> cp_include_compliance c = Some ''true''))))"

lemma regulatory_export_threads_query_params_and_optional_readme_passes:
  assumes "knows_base L ''http://h/'' ''http://h/''" and "default_provider installed fresh = Inr p" and "to_rfc3339_secs L from = ''2023-11-14T22:13:20Z''" and "to_rfc3339_secs L to = ''2023-11-15T01:00:00Z''" and "url_join L ''http://h/'' ''export/regulatory?tenant=acme&from=2023-11-14T22%3A13%3A20Z&to=2023-11-15T01%3A00%3A00Z'' = Inr ''http://h/export/regulatory?tenant=acme&from=2023-11-14T22%3A13%3A20Z&to=2023-11-15T01%3A00%3A00Z''" and "url_join L ''http://h/'' ''export/regulatory?tenant=acme&from=2023-11-14T22%3A13%3A20Z&to=2023-11-15T01%3A00%3A00Z&include_exports=true'' = Inr ''http://h/export/regulatory?tenant=acme&from=2023-11-14T22%3A13%3A20Z&to=2023-11-15T01%3A00%3A00Z&include_exports=true''" and "url_join L ''http://h/'' ''export/regulatory?tenant=acme&from=2023-11-14T22%3A13%3A20Z&to=2023-11-15T01%3A00%3A00Z&include_compliance=true'' = Inr ''http://h/export/regulatory?tenant=acme&from=2023-11-14T22%3A13%3A20Z&to=2023-11-15T01%3A00%3A00Z&include_compliance=true''"
  shows "regulatory_export_threads_query_params_and_optional_readme L installed fresh from to"
  using assms(3-)
  by (simp add: regulatory_export_threads_query_params_and_optional_readme_def ledger_built [OF assms(1,2)] regulatory_export_def regulatory_path_def reading outcome_simps
      keeping_def export_urls export_capture_def with_readme_def header_of_def unwrap_or_def bytes_sent_def archive_kept
      header_def lower_plain byte_def starts_with_code placeholder_size Let_def)

definition regulatory_export_propagates_4xx_as_server_error :: "libs \<Rightarrow> 'p option \<Rightarrow> transport_error + 'p \<Rightarrow> datetime \<Rightarrow> datetime \<Rightarrow> bool" where
  "regulatory_export_propagates_4xx_as_server_error L installed fresh from to \<longleftrightarrow>
    succeeds (ledger_new L installed fresh ''http://h/'') (\<lambda>client.
      fails (snd (exchange (keeping POST [''export'', ''regulatory''] (\<lambda>_. ()) (\<lambda>q. text_reply 413 ''readme too big''))
          (regulatory_export L client from to \<lparr>ro_tenant = Some ''acme'', ro_readme = None, ro_include_exports = False, ro_include_compliance = False\<rparr>) ()))
        (\<lambda>err. case err of Server status body \<Rightarrow> status = 413 \<and> contains body ''too big'' | _ \<Rightarrow> False))"

lemma regulatory_export_propagates_4xx_as_server_error_passes:
  assumes "knows_base L ''http://h/'' ''http://h/''" and "default_provider installed fresh = Inr p" and "to_rfc3339_secs L from = ''2023-11-14T22:13:20Z''" and "to_rfc3339_secs L to = ''2023-11-15T01:00:00Z''" and "url_join L ''http://h/'' ''export/regulatory?tenant=acme&from=2023-11-14T22%3A13%3A20Z&to=2023-11-15T01%3A00%3A00Z'' = Inr ''http://h/export/regulatory?tenant=acme&from=2023-11-14T22%3A13%3A20Z&to=2023-11-15T01%3A00%3A00Z''"
  shows "regulatory_export_propagates_4xx_as_server_error L installed fresh from to"
  proof -
  have "from_utf8 ''readme too big'' = Inr ''readme too big''" by code_simp
  then have "read_text_limited (text_reply 413 ''readme too big'') = Inr ''readme too big''"
    by (simp add: read_text_reply DEFAULT_RESPONSE_BODY_LIMIT_def)
  then show ?thesis
    using assms(3-)
    by (simp add: regulatory_export_propagates_4xx_as_server_error_def ledger_built [OF assms(1,2)] regulatory_export_def regulatory_path_def reading outcome_simps
        keeping_def export_urls with_readme_def read_archive_def is_success_def starts_with_code)
qed

section \<open>Compliance evidence\<close>

lemma evidence_urls:
  "segments ''http://h/'' ''http://h/compliance/evidence?from=2023-11-14T22%3A13%3A20Z&to=2023-11-15T01%3A00%3A00Z'' = Some [''compliance'', ''evidence'']"
  "segments ''http://h/'' ''http://h/compliance/evidence?from=2023-11-14T22%3A13%3A20Z&to=2023-11-15T01%3A00%3A00Z&demo_session_token=jwt.with%2Fslash&tenant=acme'' = Some [''compliance'', ''evidence'']"
  "query_params ''http://h/compliance/evidence?from=2023-11-14T22%3A13%3A20Z&to=2023-11-15T01%3A00%3A00Z&demo_session_token=jwt.with%2Fslash&tenant=acme'' ''from'' = Some ''2023-11-14T22:13:20Z''"
  "query_params ''http://h/compliance/evidence?from=2023-11-14T22%3A13%3A20Z&to=2023-11-15T01%3A00%3A00Z&demo_session_token=jwt.with%2Fslash&tenant=acme'' ''to'' = Some ''2023-11-15T01:00:00Z''"
  "query_params ''http://h/compliance/evidence?from=2023-11-14T22%3A13%3A20Z&to=2023-11-15T01%3A00%3A00Z&demo_session_token=jwt.with%2Fslash&tenant=acme'' ''demo_session_token'' = Some ''jwt.with/slash''"
  "query_params ''http://h/compliance/evidence?from=2023-11-14T22%3A13%3A20Z&to=2023-11-15T01%3A00%3A00Z&demo_session_token=jwt.with%2Fslash&tenant=acme'' ''tenant'' = Some ''acme''"
  by code_simp+

definition register_doc :: "json" where
  "register_doc =
    normalize (JObject [
        (''schema_version'', JString ''1''), (''generated_at'', JString ''2026-01-01T00:00:00Z''),
        (''window'', JObject [
          (''from'', JString ''2026-01-01T00:00:00Z''), (''to'', JString ''2026-01-02T00:00:00Z'')]),
        (''row_count'', JNumber (PosInt 2)),
        (''chain_verify'', JObject [
          (''valid'', JBool True), (''entries_checked'', JNumber (PosInt 2)),
          (''first_invalid_seq'', JNull)]),
        (''controls'', JArray [
          JObject [
            (''control_id'', JString ''EU-AI-Act-Article-15''),
            (''framework'', JString ''EU AI Act''),
            (''title'', JString ''Accuracy, robustness and cybersecurity''),
            (''status'', JString ''satisfied''),
            (''metric'', JObject [
              (''total_requests'', JNumber (PosInt 2))]),
            (''sample_seqs'', JArray [JNumber (PosInt 1), JNumber (PosInt 2)]),
            (''narrative'', JString ''ok'')]]),
        (''disclaimer'', JString ''projection of logged facts'')])"

definition compliance_evidence_parses_register :: "libs \<Rightarrow> 'p option \<Rightarrow> transport_error + 'p \<Rightarrow> datetime \<Rightarrow> datetime \<Rightarrow> bool" where
  "compliance_evidence_parses_register L installed fresh from to \<longleftrightarrow>
    succeeds (ledger_new L installed fresh ''http://h/'') (\<lambda>client.
      succeeds (snd (exchange (keeping POST [''compliance'', ''evidence''] (\<lambda>_. ()) (\<lambda>q. json_reply L 200 register_doc))
          (compliance_evidence_scoped L client from to \<lparr>co_demo_session_token = None, co_tenant = None\<rparr>) ()))
        (\<lambda>register. cr_schema_version register = ''1'' \<and> length (cr_controls register) = 1
          \<and> cv_status (cr_controls register ! 0) = Satisfied
          \<and> value_at ''total_requests'' (cv_metric (cr_controls register ! 0)) = JNumber (PosInt 2)))"

lemma compliance_evidence_parses_register_passes:
  assumes "knows_base L ''http://h/'' ''http://h/''" and "default_provider installed fresh = Inr p" and "to_rfc3339_secs L from = ''2023-11-14T22:13:20Z''" and "to_rfc3339_secs L to = ''2023-11-15T01:00:00Z''" and "url_join L ''http://h/'' ''compliance/evidence?from=2023-11-14T22%3A13%3A20Z&to=2023-11-15T01%3A00%3A00Z'' = Inr ''http://h/compliance/evidence?from=2023-11-14T22%3A13%3A20Z&to=2023-11-15T01%3A00%3A00Z''" and "carries L register_doc" and "knows_time L ''2026-01-01T00:00:00Z'' t1" and "knows_time L ''2026-01-02T00:00:00Z'' t2"
  shows "compliance_evidence_parses_register L installed fresh from to"
  using assms(3-)
  by (simp add: compliance_evidence_parses_register_def ledger_built [OF assms(1,2)] compliance_evidence_scoped_def reading outcome_simps
      keeping_def evidence_urls read_ok_reply)
    (simp add: register_doc_def dec_compliance_register_def dec_register_window_def dec_chain_verify_summary_def dec_control_evidence_def
      dec_evidence_status_def dec_enum_def dec_datetime_def knows_time_def dec_value_def passing)

definition empty_register_doc :: "json" where
  "empty_register_doc =
    normalize (JObject [
        (''schema_version'', JString ''1''), (''generated_at'', JString ''2026-01-01T00:00:00Z''),
        (''window'', JObject [
          (''from'', JString ''2026-01-01T00:00:00Z''), (''to'', JString ''2026-01-02T00:00:00Z'')]),
        (''row_count'', JNumber (PosInt 0)),
        (''chain_verify'', JObject [
          (''valid'', JBool True), (''entries_checked'', JNumber (PosInt 0)),
          (''first_invalid_seq'', JNull)]),
        (''controls'', JArray []), (''disclaimer'', JString ''projection of logged facts'')])"

definition compliance_evidence_scoped_threads_scope_query_params :: "libs \<Rightarrow> 'p option \<Rightarrow> transport_error + 'p \<Rightarrow> datetime \<Rightarrow> datetime \<Rightarrow> bool" where
  "compliance_evidence_scoped_threads_scope_query_params L installed fresh from to \<longleftrightarrow>
    succeeds (ledger_new L installed fresh ''http://h/'') (\<lambda>client.
      (case exchange (keeping POST [''compliance'', ''evidence''] (\<lambda>q. query_params (hr_url q))
            (\<lambda>q. json_reply L 200 empty_register_doc))
          (compliance_evidence_scoped L client from to
            \<lparr>co_demo_session_token = Some ''jwt.with/slash'', co_tenant = Some ''acme''\<rparr>) (\<lambda>_. None) of (q, r) \<Rightarrow>
        succeeds r (\<lambda>_. True)
        \<and> passes (q ''from'') (starts_with ''2023-'') \<and> passes (q ''to'') (starts_with ''2023-'')
        \<and> q ''demo_session_token'' = Some ''jwt.with/slash'' \<and> q ''tenant'' = Some ''acme''))"

lemma compliance_evidence_scoped_threads_scope_query_params_passes:
  assumes "knows_base L ''http://h/'' ''http://h/''" and "default_provider installed fresh = Inr p" and "to_rfc3339_secs L from = ''2023-11-14T22:13:20Z''" and "to_rfc3339_secs L to = ''2023-11-15T01:00:00Z''" and "url_join L ''http://h/'' ''compliance/evidence?from=2023-11-14T22%3A13%3A20Z&to=2023-11-15T01%3A00%3A00Z&demo_session_token=jwt.with%2Fslash&tenant=acme'' = Inr ''http://h/compliance/evidence?from=2023-11-14T22%3A13%3A20Z&to=2023-11-15T01%3A00%3A00Z&demo_session_token=jwt.with%2Fslash&tenant=acme''" and "carries L empty_register_doc" and "knows_time L ''2026-01-01T00:00:00Z'' t1" and "knows_time L ''2026-01-02T00:00:00Z'' t2"
  shows "compliance_evidence_scoped_threads_scope_query_params L installed fresh from to"
  using assms(3-)
  by (simp add: compliance_evidence_scoped_threads_scope_query_params_def ledger_built [OF assms(1,2)] compliance_evidence_scoped_def reading outcome_simps
      keeping_def evidence_urls read_ok_reply starts_with_code)
    (simp add: empty_register_doc_def dec_compliance_register_def dec_register_window_def dec_chain_verify_summary_def dec_control_evidence_def
      dec_evidence_status_def dec_enum_def dec_datetime_def knows_time_def dec_value_def passing)

section \<open>The simulator\<close>

definition status_payload :: "json" where
  "status_payload =
    normalize (JObject [
        (''traffic_multiplier'', JNumber (Float 0x3FF0000000000000)), (''running'', JBool False),
        (''agents'', JArray []),
        (''stats'', JObject [
          (''sent'', JNumber (PosInt 0)), (''ok'', JNumber (PosInt 0)),
          (''denied'', JNumber (PosInt 0)), (''error'', JNumber (PosInt 0)),
          (''success_pct'', JNumber (Float 0x0000000000000000)), (''p50_ms'', JNull),
          (''p95_ms'', JNull)])])"

lemma sim_built:
  assumes "knows_base L ''http://h/'' ''http://h/''" "default_provider installed fresh = Inr p"
  shows "sim_new L installed fresh ''http://h/'' = Inr \<lparr>sc_base_url = ''http://h/'', sc_http = p,
    sc_request_timeout = DEFAULT_REQUEST_TIMEOUT\<rparr>"
  using assms by (simp add: sim_new_def parse_base_url_def knows_base_def ends_with_def)

lemma test_approver: "validate_operator ''test-approver'' = Inr ()"
  by code_simp

lemma sim_urls:
  "segments ''http://h/'' ''http://h/multiplier'' = Some [''multiplier'']"
  "segments ''http://h/'' ''http://h/status'' = Some [''status'']"
  by code_simp+

lemma status_payload_decodes: "dec_sim_status status_payload \<noteq> None"
  by (simp add: status_payload_def dec_sim_status_def dec_sim_agent_record_def dec_sim_stats_def dec_f64_def passing)

definition attributed_mutation_forwards_operator_header :: "libs \<Rightarrow> 'p option \<Rightarrow> transport_error + 'p \<Rightarrow> bool" where
  "attributed_mutation_forwards_operator_header L installed fresh \<longleftrightarrow>
    succeeds (sim_new L installed fresh ''http://h/'') (\<lambda>client.
      (case exchange (keeping POST [''multiplier''] (header_of ''x-clavenar-operator'') (\<lambda>q. json_reply L 200 status_payload))
          (set_multiplier_as L client ''test-approver'' (0x4000000000000000)) None of (seen, r) \<Rightarrow>
        succeeds r (\<lambda>_. True) \<and> seen = Some ''test-approver''))"

lemma attributed_mutation_forwards_operator_header_passes:
  assumes "knows_base L ''http://h/'' ''http://h/''" and "default_provider installed fresh = Inr p" and "url_join L ''http://h/'' ''multiplier'' = Inr ''http://h/multiplier''" and "carries L status_payload"
  shows "attributed_mutation_forwards_operator_header L installed fresh"
  using assms(3-) status_payload_decodes
  by (auto simp: attributed_mutation_forwards_operator_header_def sim_built [OF assms(1,2)] set_multiplier_as_def post_json_as_def test_approver join_endpoint_def
      outcome_simps keeping_def sim_urls read_decoded_reply deadline_def header_of_def header_def json_body_def
      lower_plain byte_def)

text \<open>The handler sleeps for 100 ms; the client gives up at its deadline when that is earlier.\<close>

definition slow_status :: "libs \<Rightarrow> http_request \<Rightarrow> unit \<Rightarrow> unit \<times> (transport_error + http_response)" where
  "slow_status L q u =
    (u, case hr_timeout q of
       Some d \<Rightarrow> if d < 100 * 10 ^ 6 then Inl ''operation timed out'' else Inr (json_reply L 200 status_payload)
     | None \<Rightarrow> Inr (json_reply L 200 status_payload))"

definition simulator_request_deadline_covers_read_only_calls :: "libs \<Rightarrow> 'p option \<Rightarrow> transport_error + 'p \<Rightarrow> bool" where
  "simulator_request_deadline_covers_read_only_calls L installed fresh \<longleftrightarrow>
    succeeds (sim_new L installed fresh ''http://h/'') (\<lambda>client.
      succeeds (with_request_timeout (10 * 10 ^ 6) client) (\<lambda>client.
        fails (snd (exchange (slow_status L) (sim_get_status L client) ()))
          (\<lambda>error. case error of Transport err \<Rightarrow> err = ''operation timed out'' | _ \<Rightarrow> False)))"

lemma simulator_request_deadline_covers_read_only_calls_passes:
  assumes "knows_base L ''http://h/'' ''http://h/''" and "default_provider installed fresh = Inr p" and "url_join L ''http://h/'' ''status'' = Inr ''http://h/status''"
  shows "simulator_request_deadline_covers_read_only_calls L installed fresh"
  using assms(3-)
  by (simp add: simulator_request_deadline_covers_read_only_calls_def sim_built [OF assms(1,2)] with_request_timeout_def sim_get_status_def sim_get_json_def
      join_endpoint_def outcome_simps slow_status_def deadline_def)

end
