(* ===== verification/Divergences.thy ===== *)
theory Divergences
  imports Serving Exec_Validate
begin

text \<open>
  Behaviour of the code that its documentation or a neighbouring function leads a reader not to
  expect: what the query of an audit filter leaves undetermined, path segments that encoding does
  not protect, limits that are in bytes, and statuses a ledger read refuses.
\<close>

section \<open>Audit filters\<close>

text \<open>
  \<open>AuditFilter\<close> joins the encoded methods with a literal comma. A server that decodes the query
  cannot tell a method with a comma from two methods.
\<close>

definition only_methods :: "string list \<Rightarrow> audit_filter_params" where
  "only_methods ms = \<lparr>fl_seq_from = None, fl_seq_to = None, fl_from = None, fl_to = None, fl_methods = ms,
     fl_original_method = None, fl_reason = None, fl_verdict = None, fl_brain_delta = None\<rparr>"

theorem methods_ambiguous:
  "query_params (append_query L (only_methods [''a,b'']) ''audit/x?limit=1'') ''methods''
     = query_params (append_query L (only_methods [''a'', ''b'']) ''audit/x?limit=1'') ''methods''
   \<and> append_query L (only_methods [''a,b'']) ''audit/x?limit=1''
     \<noteq> append_query L (only_methods [''a'', ''b'']) ''audit/x?limit=1''"
proof -
  have one: "append_query L (only_methods [''a,b'']) ''audit/x?limit=1'' = ''audit/x?limit=1&methods=a%2Cb''"
    and two: "append_query L (only_methods [''a'', ''b'']) ''audit/x?limit=1'' = ''audit/x?limit=1&methods=a,b''"
    by (simp_all add: append_query_def only_methods_def amp_opt_def named_methods_def) code_simp+
  have "query_params ''audit/x?limit=1&methods=a%2Cb'' ''methods'' = Some ''a,b''"
    "query_params ''audit/x?limit=1&methods=a,b'' ''methods'' = Some ''a,b''"
    by code_simp+
  then show ?thesis unfolding one two by simp
qed

section \<open>Dot segments\<close>

text \<open>
  \<open>percent_encode\<close> leaves \<open>..\<close> alone, as dots are unreserved. Resolving the joined path removes
  dot segments (\<open>Url::join\<close>), so an audit read of the agent \<open>..\<close> asks the base URL instead.
\<close>

theorem dot_segments_escape:
  assumes "url_join L (lc_base_url c) ''audit/..'' = Inr (lc_base_url c)"
    and "runs (audit_agent L c ''..'') ts r"
  shows "\<exists>z. ts = [Sent (request GET (lc_base_url c)) z]"
proof -
  have "percent_encode ''..'' = ''..''" by code_simp
  with assms show ?thesis
    by (auto simp: audit_agent_def ledger_get_json_def ledger_join_def join_endpoint_def ledger_read.one_request)
qed

section \<open>Limits in bytes\<close>

text \<open>
  A name of 129 to 256 characters that take two bytes each is valid UTF-8 and is refused with an
  error that allows up to 256 characters: \<open>str::len\<close> counts bytes.
\<close>

definition wide_name :: "nat \<Rightarrow> string" where
  "wide_name n = concat (replicate n [CHR 0xC3, CHR 0xA9])"

definition utf8_characters :: "string \<Rightarrow> nat" where
  "utf8_characters s = length (filter (\<lambda>c. \<not> (128 \<le> byte c \<and> byte c < 192)) s)"

lemma wide_name_utf8: "utf8_error i (map byte (wide_name n)) = None"
proof (induction n arbitrary: i)
  case (Suc n)
  have "byte CHR 0xC3 = 0xC3" "byte CHR 0xA9 = 0xA9" by (simp_all add: byte_def)
  with Suc [of "i + 2"] show ?case
    by (simp add: wide_name_def utf8_width_def utf8_second_def utf8_cont_def)
qed (simp add: wide_name_def)

theorem tool_name_limit_in_bytes:
  assumes "128 < n" "n \<le> 256"
  shows "from_utf8 (wide_name n) = Inr (wide_name n) \<and> utf8_characters (wide_name n) = n
    \<and> validate_tool_name (wide_name n) = Inl (InvalidConfig ''tool name must contain 1..=256 characters'')"
proof -
  have "length (wide_name m) = 2 * m" "utf8_characters (wide_name m) = m" for m
    by (induction m) (simp_all add: wide_name_def utf8_characters_def byte_def)
  with assms show ?thesis
    by (simp add: from_utf8_def wide_name_utf8 validate_tool_name_def reject_if_def)
qed

section \<open>Reads of the ledger\<close>

text \<open>\<open>get_json\<close> decodes 200 only: another success status is an error with the body.\<close>

theorem ledger_read_refuses_other_success:
  assumes "is_success (hs_status resp)" "hs_status resp \<noteq> 200" "read_text_limited resp = Inr body"
  shows "read_ok L d resp = Inl (Server (hs_status resp) body)"
  using assms by (simp add: read_ok_def)

end
