(* ===== verification/Spec2Isabelle.thy ===== *)
theory Spec2Isabelle
  imports Percent Client_Claims Agents_Claims2 Policies_Claims Hil_Claims2 Sim_Claims Brain Pack_Claims Transport_Claims Ledger_Claims Store_Refine Exec_Claims Exec_Claims2 Exec_Claims3 Exec_Claims4
    Exec_Recovery Exec_Liveness Exec_Outbox Exec_Progress
    Tests_Agents Tests_Hil Tests_Policies Tests_Ledger Tests_Transport Tests_Execution Tests_Pack Tests_Registry Tests_Served
    Divergences
begin

text \<open>
  The Clavenar client SDK (the Rust crate under src/), modelled from its source.

  The program. The crate is a library of asynchronous clients of the Clavenar services.
  \<open>ClavenarClient\<close> (client.rs) speaks JSON-RPC to Proxy and owns the part that carries the
  crate's guarantees, SDK-governed execution (execution.rs): Proxy signs an authorization for
  a tool call, the SDK records an attempt in a durable store, calls the registered executor,
  commits the result with a signed receipt to an outbox and delivers the receipt. An outcome
  that is not known is an explicit handle, which is reconciled by looking the effect up and
  never by executing again. Five further clients talk REST to the agent registry, the policy
  engine, the human-in-the-loop service, the ledger and the traffic simulator, and one to the
  brain (agents.rs, policies.rs, hil.rs, ledger.rs, sim.rs, brain.rs). pack.rs verifies signed
  policy packs, secure_transport.rs builds and rotates the TLS client, http.rs and error.rs
  are shared by all.

  How the code is modelled. \<open>Prelude\<close>, \<open>Json\<close> and \<open>Libs\<close> fix the vocabulary: strings are
  byte strings, results are sums with the error on the left, machine integers are words,
  documents are trees with objects in member order, and every library the crate calls (uuid,
  url, sha2, hex, base64, chrono, serde_json's parser and printer of scalars, Ed25519) is a
  field of the record \<open>libs\<close>, an argument of the definitions that use it. The laws such a
  field obeys are the hypotheses \<open>uuid_laws\<close>, \<open>datetime_laws\<close>, \<open>hex_laws\<close> and the like;
  \<open>sample_libs\<close> satisfies them. \<open>Canonical\<close> has the canonical JSON text and the digest.
  The \<open>Wire_\<close> theories and \<open>Mine\<close> hold the serde types: one record per struct, with an
  encoder and a decoder that follow the derive attributes (defaults, skipped members, renames,
  unknown fields, flattening), and an interpretation of the locale \<open>codec\<close> where the crate
  both writes and reads the type.

  \<open>Program\<close> models an \<open>async fn\<close> as a tree of the actions it can take (send a request, draw
  an identifier, call one store operation, call the executor or its lookup), each with the
  continuation on the reply. \<open>runs\<close> relates a program to its event traces for arbitrary
  replies, \<open>run\<close> executes it in a concrete world, and \<open>step\<close> interleaves any number of
  programs, one await at a time, with programs started and dropped at any point
  (\<open>Environment\<close>). \<open>Rest\<close> has what the REST clients share, \<open>Routing\<close> how a server reads the path
  of a URL they build, with the laws of joining one. \<open>Exec_Store\<close> has the store trait
  with its defaults, the locales \<open>effect_store\<close> and \<open>receipt_store\<close> for what a store
  promises, and their interpretation on the in-memory store of tests/integration.rs.
  \<open>Exec_Validate\<close> and \<open>Exec_Handles\<close> have the validations, \<open>Execution\<close> the private core and
  \<open>Exec_Operations\<close> the public operations of execution.rs. \<open>Client\<close>, \<open>Agents\<close>, \<open>Policies\<close>,
  \<open>Hil\<close>, \<open>Ledger\<close> with \<open>Ledger_Query\<close>, \<open>Sim\<close>, \<open>Brain\<close>, \<open>Pack\<close> and \<open>Transport\<close> are the
  modules of the same names, \<open>Texts\<close> the texts the crate prints.

  The crate's own unit tests are part of the model: \<open>Testing\<close> has the vocabulary of their
  assertions, \<open>Serving\<close> their mock servers (state, routing and decoding of a URL, JSON replies)
  and \<open>exchange\<close>, which runs an operation of a client against one. In the \<open>Tests_\<close> theories each
  test is an executable proposition over the model, of the test's name, with the lemma that it
  holds for all libraries that treat the few texts of the test as documented. \<open>Registry\<close> is the
  agent registry the write tests of agents.rs put behind the client.

  What the lemmas show.
  \<^item> Execution: over every interleaving, crash and restart an effect is started at most once
    per authorization (\<open>Exec_Unique\<close>, \<open>Exec_Claims\<close>); an executor call rests on a validated
    decision for that very request, nothing happens without the required store, key and
    executor, a resumed review keeps its handle (\<open>Exec_Claims2\<close>); an error says whether the attempt
    was admitted and, after the start, what is known of the effect, and reconciliation never
    executes (\<open>Exec_Claims3\<close>); the outbox is delivered in
    order, a batch is authorized exactly as requested (\<open>Exec_Claims4\<close>).
  \<^item> Storage: the in-memory store is observationally equal to an abstract machine
    (\<open>Store_Refine\<close>); what was decoded and what is persisted is read back unchanged and is
    accepted for recovery (\<open>Exec_Recovery\<close>).
  \<^item> Progress: every operation returns after a bounded number of actions, and repeated
    flushes empty the outbox while Proxy records receipts (\<open>Exec_Liveness\<close>); an approved call
    completes against the in-memory store, and its replay never executes (\<open>Exec_Progress\<close>); no
    committed receipt leaves the outbox but by a mark of an entry the store itself handed out
    under that identifier and whose receipt Proxy confirmed (\<open>Exec_Outbox\<close>).
  \<^item> The other clients: identifiers are unique and a refusal is always a veto
    (\<open>Client_Claims\<close>); calls are confined to tenant and credential, endpoints identify what they
    address (up to the dot segments), and statuses become the documented errors (\<open>Agents_Claims\<close>, \<open>Agents_Claims2\<close>,
    \<open>Policies_Claims\<close>, \<open>Hil_Claims\<close>, \<open>Hil_Claims2\<close>, \<open>Sim_Claims\<close>); the segments and queries of the
    ledger's reads are decoded to exactly what was passed and bodies are bounded (\<open>Percent\<close>, \<open>Ledger_Claims\<close>).
  \<^item> Conversations: against the registry of the tests every call of the agents client reaches
    the handler it means with the identifier unchanged, a creation is found again and a second
    one refused, a decommissioned agent stays so (\<open>Registry\<close>).
  \<^item> Packs and transport: the signed text determines the whole manifest but the signature block, so
    a valid pack is a signed one, a collision or a forgery (\<open>Pack_Claims\<close>); a client is built
    exactly from complete credentials, and a profile only hands out clients of one such build (\<open>Transport_Claims\<close>) and
    never prints it (\<open>Texts\<close>).
  \<^item> \<open>Divergences\<close> states what the code does where its documentation says something else.

  Bounds. No recursion carries fuel: the only loops of the crate run over lists that are
  already there, the chunks of a body, the entries of a flush, the characters of a string, so
  every definition is total. \<open>operations_terminate\<close> states the bound of the operations, 257
  actions for a flush of 128 entries and eight for the others.

  Not modelled, and why. Derived Debug texts, accessors that only return a field, re-exports
  (lib.rs): they decide nothing. The integration tests (tests/), but for the in-memory store they
  define: they drive the operations that are modelled over real sockets and certificates. The
  network, TLS, file reading and the executor itself are parameters, so their behaviour is
  arbitrary. A step between two awaits is atomic, which is what a single future guarantees; the
  atomic counter of client.rs is one action. Real time and timeouts appear only as the deadlines attached to requests. The
  numbers of a JSON document are those \<open>serde_json\<close> holds; the text of a floating-point
  number and its rounding when parsed are the parser's and printer's, library parameters.
\<close>

end
